(* ===== verification/Prelude.thy ===== *)
theory Prelude
  imports Main "HOL-Library.AList"
begin

text \<open>
  What every component of the development shares: the named collections of rewrite rules,
  the types of time, addresses and Go errors, the environment a request runs in (the answers
  of \<^verbatim>\<open>time.Now\<close> and of the random generators), and the functions of Go's
  \<^verbatim>\<open>strings\<close> and \<^verbatim>\<open>strconv\<close> packages that the sources call. A Go string is a list of
  bytes and so is an Isabelle \<^typ>\<open>string\<close>.
\<close>

named_theorems store_simps \<open>reading a store after an operation on it\<close>
named_theorems handler_defs \<open>definitions of the request handlers\<close>
named_theorems f64_simps \<open>evaluation of binary64 arithmetic\<close>

section \<open>Basic types\<close>

text \<open>
  A point of time is a number of nanoseconds since Go's zero time, so \<^verbatim>\<open>t.IsZero()\<close> is
  \<open>t = 0\<close>. An \<^verbatim>\<open>error\<close> value is its message.
\<close>

type_synonym time = int
type_synonym addr = nat
type_synonym go_error = string

abbreviation (input) second :: time where
  "second \<equiv> 1000000000"

text \<open>
  The environment of one request: the answers of the call sites of \<^verbatim>\<open>time.Now\<close>, of the
  UUID package, of the mock address generator and of the random digits, numbered as a handler
  reaches them.
\<close>

record env =
  time_now :: "nat \<Rightarrow> time"
  uuid :: "nat \<Rightarrow> string"
  xrpl_address :: "nat \<Rightarrow> string"
  random_bytes :: "nat \<Rightarrow> nat list"

section \<open>Options and sums\<close>

lemma not_None_eq_ex: "x \<noteq> None \<longleftrightarrow> (\<exists>y. x = Some y)"
  by (cases x) auto

lemma case_sum_id [simp]: "(case x of Inl e \<Rightarrow> Inl e | Inr y \<Rightarrow> Inr y) = x"
  by (cases x) auto

lemma map_upd_neq_None [simp]: "(m(k \<mapsto> v)) j \<noteq> None \<longleftrightarrow> j = k \<or> m j \<noteq> None"
  by auto

section \<open>Decimal numbers as strings\<close>

definition digit_char :: "nat \<Rightarrow> char" where
  "digit_char n = char_of (48 + n)"

definition is_digit :: "char \<Rightarrow> bool" where
  "is_digit c \<longleftrightarrow> 48 \<le> (of_char c :: nat) \<and> (of_char c :: nat) \<le> 57"

definition digit_val :: "char \<Rightarrow> nat" where
  "digit_val c = of_char c - 48"

fun nat_str :: "nat \<Rightarrow> string" where
  "nat_str n = (if n < 10 then [digit_char n] else nat_str (n div 10) @ [digit_char (n mod 10)])"

declare nat_str.simps [simp del]

definition int_str :: "int \<Rightarrow> string" where
  "int_str i = (if i < 0 then ''-'' @ nat_str (nat (- i)) else nat_str (nat i))"

definition digits_val :: "string \<Rightarrow> nat" where
  "digits_val s = foldl (\<lambda>n c. 10 * n + digit_val c) 0 s"

text \<open>\<^verbatim>\<open>strconv.Atoi\<close>: an optional sign, at least one digit, and the value fits in 64 bits.\<close>

definition atoi :: "string \<Rightarrow> int option" where
  "atoi s =
     (let neg = (case s of c # _ \<Rightarrow> c = CHR ''-'' | [] \<Rightarrow> False);
          body = (case s of c # cs \<Rightarrow> if c = CHR ''-'' \<or> c = CHR ''+'' then cs else s | [] \<Rightarrow> []);
          v = (if neg then - int (digits_val body) else int (digits_val body))
      in if body = [] \<or> \<not> list_all is_digit body then None
         else if v < - (2 ^ 63) \<or> v \<ge> 2 ^ 63 then None
         else Some v)"

lemma of_char_digit_char [simp]: "n < 10 \<Longrightarrow> (of_char (digit_char n) :: nat) = 48 + n"
  by (simp add: digit_char_def)

lemma is_digit_digit_char [simp]: "n < 10 \<Longrightarrow> is_digit (digit_char n)"
  by (simp add: is_digit_def)

lemma digit_val_digit_char [simp]: "n < 10 \<Longrightarrow> digit_val (digit_char n) = n"
  by (simp add: digit_val_def)

lemma digits_val_snoc [simp]: "digits_val (s @ [c]) = 10 * digits_val s + digit_val c"
  by (simp add: digits_val_def)

lemma digits_val_nat_str [simp]: "digits_val (nat_str n) = n"
proof (induction n rule: nat_str.induct)
  case (1 n)
  show ?case
  proof (cases "n < 10")
    case True
    then show ?thesis by (simp add: nat_str.simps [of n] digits_val_def)
  next
    case False
    with 1 show ?thesis by (simp add: nat_str.simps [of n])
  qed
qed

lemma is_digit_nat_str [simp]: "list_all is_digit (nat_str n)"
proof (induction n rule: nat_str.induct)
  case (1 n)
  then show ?case by (cases "n < 10") (simp_all add: nat_str.simps [of n])
qed

lemma nat_str_not_Nil [simp]: "nat_str n \<noteq> []"
  by (subst nat_str.simps) simp

lemma nat_str_inject [simp]: "nat_str m = nat_str n \<longleftrightarrow> m = n"
  by (metis digits_val_nat_str)

lemma is_digit_not_sign: "is_digit c \<Longrightarrow> c \<noteq> CHR ''-'' \<and> c \<noteq> CHR ''+''"
  by (auto simp: is_digit_def)

lemma nat_str_head:
  obtains c cs where "nat_str n = c # cs" and "is_digit c"
proof (cases "nat_str n")
  case (Cons c cs)
  with is_digit_nat_str [of n] show ?thesis by (auto intro: that)
qed simp

text \<open>Printing and reading back an integer that fits in 64 bits.\<close>

lemma atoi_int_str:
  assumes "- (2 ^ 63) \<le> i" and "i < 2 ^ 63"
  shows "atoi (int_str i) = Some i"
proof (cases "i < 0")
  case True
  with assms show ?thesis by (simp add: atoi_def int_str_def)
next
  case False
  obtain c cs where s: "nat_str (nat i) = c # cs" "is_digit c"
    by (rule nat_str_head)
  have d: "list_all is_digit (c # cs)" "digits_val (c # cs) = nat i"
    using is_digit_nat_str [of "nat i"] digits_val_nat_str [of "nat i"] by (simp_all add: s)
  show ?thesis
    using False assms is_digit_not_sign [OF s(2)] d by (simp add: atoi_def int_str_def s(1))
qed

section \<open>Go's strings package\<close>

definition has_prefix :: "string \<Rightarrow> string \<Rightarrow> bool" where
  "has_prefix s p \<longleftrightarrow> take (length p) s = p"

definition trim_left :: "(char \<Rightarrow> bool) \<Rightarrow> string \<Rightarrow> string" where
  "trim_left p s = dropWhile p s"

definition trim_right :: "(char \<Rightarrow> bool) \<Rightarrow> string \<Rightarrow> string" where
  "trim_right p s = rev (dropWhile p (rev s))"

definition trim :: "(char \<Rightarrow> bool) \<Rightarrow> string \<Rightarrow> string" where
  "trim p s = trim_right p (trim_left p s)"

definition is_space :: "char \<Rightarrow> bool" where
  "is_space c \<longleftrightarrow> (of_char c :: nat) \<in> {9, 10, 11, 12, 13, 32}"

abbreviation TrimSpace :: "string \<Rightarrow> string" where
  "TrimSpace \<equiv> trim is_space"

text \<open>\<^verbatim>\<open>strings.Split\<close> with a one-byte separator: never empty, one piece more than separators.\<close>

fun split_on :: "char \<Rightarrow> string \<Rightarrow> string list" where
  "split_on d [] = [[]]"
| "split_on d (c # cs) =
     (if c = d then [] # split_on d cs
      else (case split_on d cs of [] \<Rightarrow> [[c]] | p # ps \<Rightarrow> (c # p) # ps))"

fun join_with :: "string \<Rightarrow> string list \<Rightarrow> string" where
  "join_with sep [] = []"
| "join_with sep [p] = p"
| "join_with sep (p # ps) = p @ sep @ join_with sep ps"

definition to_lower_char :: "char \<Rightarrow> char" where
  "to_lower_char c =
     (let n = (of_char c :: nat) in if 65 \<le> n \<and> n \<le> 90 then char_of (n + 32) else c)"

abbreviation ToLower :: "string \<Rightarrow> string" where
  "ToLower \<equiv> map to_lower_char"

lemma has_prefix_append [simp]: "has_prefix (p @ s) p"
  by (simp add: has_prefix_def)

lemma has_prefixD: "has_prefix s p \<Longrightarrow> s = p @ drop (length p) s"
  by (metis append_take_drop_id has_prefix_def)

lemma split_on_not_Nil [simp]: "split_on d s \<noteq> []"
  by (induction s) (auto split: list.splits)

lemma length_split_on: "length (split_on d s) = Suc (count_list s d)"
  by (induction s) (auto split: list.splits)

lemma split_on_no_sep: "d \<notin> set s \<Longrightarrow> split_on d s = [s]"
  by (induction s) auto

lemma split_on_append_sep:
  "d \<notin> set p \<Longrightarrow> split_on d (p @ d # s) = p # split_on d s"
  by (induction p) auto

lemma split_on_pieces: "p \<in> set (split_on d s) \<Longrightarrow> d \<notin> set p"
  by (induction s arbitrary: p) (auto split: if_splits list.splits)

lemma split_on_subset: "p \<in> set (split_on d s) \<Longrightarrow> set p \<subseteq> set s"
proof (induction s arbitrary: p)
  case (Cons c cs)
  obtain q qs where "split_on d cs = q # qs"
    by (cases "split_on d cs") auto
  with Cons.prems Cons.IH [of q] Cons.IH [of p] show ?case by (auto split: if_splits)
qed simp

lemma join_split_on: "join_with [d] (split_on d s) = s"
proof (induction s)
  case (Cons c cs)
  obtain p ps where "split_on d cs = p # ps"
    by (cases "split_on d cs") auto
  with Cons show ?case by (cases ps) auto
qed simp

lemma trim_right_idem [simp]: "trim_right p (trim_right p s) = trim_right p s"
  by (simp add: trim_right_def)

lemma last_trim_right: "trim_right p s \<noteq> [] \<Longrightarrow> \<not> p (last (trim_right p s))"
  using hd_dropWhile [of p "rev s"] by (simp only: trim_right_def last_rev rev_is_Nil_conv simp_thms)

lemma trim_right_prefix: "\<exists>t. s = trim_right p s @ t \<and> list_all p t"
proof -
  have "s = rev (dropWhile p (rev s)) @ rev (takeWhile p (rev s))"
    by (metis rev_append rev_rev_ident takeWhile_dropWhile_id)
  moreover have "list_all p (rev (takeWhile p (rev s)))"
    by (auto simp: list_all_iff dest: set_takeWhileD)
  ultimately show ?thesis unfolding trim_right_def by blast
qed

lemma trim_right_id: "s = [] \<or> \<not> p (last s) \<Longrightarrow> trim_right p s = s"
  by (cases s rule: rev_cases) (auto simp: trim_right_def)

section \<open>Go maps\<close>

text \<open>
  A Go map with string keys is an association list with one entry per key. Ranging over a map
  visits the keys in an order the runtime chooses: the order is an argument, a function that
  permutes the list of keys.
\<close>

type_synonym 'a gomap = "(string \<times> 'a) list"

abbreviation mget :: "'a gomap \<Rightarrow> string \<Rightarrow> 'a option" where
  "mget m k \<equiv> map_of m k"

definition mput :: "string \<Rightarrow> 'a \<Rightarrow> 'a gomap \<Rightarrow> 'a gomap" where
  "mput k v m = AList.update k v m"

definition mdel :: "string \<Rightarrow> 'a gomap \<Rightarrow> 'a gomap" where
  "mdel k m = AList.delete k m"

definition wf_map :: "'a gomap \<Rightarrow> bool" where
  "wf_map m \<longleftrightarrow> distinct (map fst m)"

type_synonym key_order = "string list \<Rightarrow> string list"

definition range_map :: "key_order \<Rightarrow> 'a gomap \<Rightarrow> 'a list" where
  "range_map ord m = List.map_filter (mget m) (ord (map fst m))"

definition permutes_keys :: "key_order \<Rightarrow> bool" where
  "permutes_keys ord \<longleftrightarrow> (\<forall>ks. distinct (ord ks) = distinct ks \<and> set (ord ks) = set ks)"

lemma mget_mput [simp]: "mget (mput k v m) = (mget m)(k \<mapsto> v)"
  by (simp add: mput_def update_conv' fun_eq_iff)

lemma mget_mdel [simp]: "mget (mdel k m) = (mget m)(k := None)"
  by (simp add: mdel_def delete_conv' fun_eq_iff)

lemma wf_map_Nil [simp]: "wf_map []"
  by (simp add: wf_map_def)

lemma wf_map_mput [simp]: "wf_map m \<Longrightarrow> wf_map (mput k v m)"
  by (simp add: wf_map_def mput_def distinct_update)

lemma wf_map_mdel [simp]: "wf_map m \<Longrightarrow> wf_map (mdel k m)"
  by (simp add: wf_map_def mdel_def distinct_delete)

lemma keys_mput [simp]: "fst ` set (mput k v m) = insert k (fst ` set m)"
  by (metis dom_fun_upd dom_map_of_conv_image_fst mget_mput option.distinct(1))

lemma set_range_map:
  assumes "permutes_keys ord"
  shows "set (range_map ord m) = ran (mget m)"
proof -
  have "set (ord (map fst m)) = dom (mget m)"
    using assms by (simp add: permutes_keys_def dom_map_of_conv_image_fst)
  then show ?thesis
    by (force simp: range_map_def List.map_filter_def ran_def domIff)
qed


end
