(* ===== verification/Float64.thy ===== *)
theory Float64
  imports Complex_Main Prelude
begin

text \<open>
  Go's \<^verbatim>\<open>float64\<close>: IEEE 754 binary64 with rounding to nearest, ties to even. A value is not
  a number, an infinity, a signed zero or a non-zero rational; every operation computes the
  exact rational result and rounds it once. The theory also holds the functions of Go's
  standard library that the sources apply to amounts: \<^verbatim>\<open>math.Round\<close>, the verb
  \<^verbatim>\<open>%.2f\<close> of \<^verbatim>\<open>fmt\<close>, and \<^verbatim>\<open>strconv.ParseFloat\<close>.
\<close>

section \<open>Rounding a rational to 53 bits\<close>

function nbits :: "int \<Rightarrow> int" where
  "nbits n = (if n \<le> 0 then 0 else 1 + nbits (n div 2))"
  by pat_completeness auto
termination
  by (relation "measure nat") auto

declare nbits.simps [simp del]

text \<open>The exponent of the leading bit of a positive rational.\<close>

definition ilog2 :: "rat \<Rightarrow> int" where
  "ilog2 q =
     (let (n, d) = quotient_of q; k = nbits n - nbits d
      in if 2 powi k \<le> q then k else k - 1)"

definition round_half_even :: "rat \<Rightarrow> int" where
  "round_half_even q =
     (let n = \<lfloor>q\<rfloor>; r = q - of_int n
      in if r < 1 / 2 then n else if 1 / 2 < r then n + 1 else if even n then n else n + 1)"

definition rnd_exp :: "rat \<Rightarrow> int" where
  "rnd_exp q = max (- 1074) (ilog2 q - 52)"

definition rnd :: "rat \<Rightarrow> rat" where
  "rnd q = of_int (round_half_even (q / 2 powi rnd_exp q)) * 2 powi rnd_exp q"

lemma powi2_pos [simp]: "(0::rat) < 2 powi e"
  by simp

lemma powi2_less_iff [simp]: "(2::rat) powi a < 2 powi b \<longleftrightarrow> a < b"
  by (metis linorder_not_less one_less_numeral_iff power_int_increasing power_int_strict_increasing
      semiring_norm(76) less_imp_le)

lemma powi2_le_iff [simp]: "(2::rat) powi a \<le> 2 powi b \<longleftrightarrow> a \<le> b"
  by (meson linorder_not_less powi2_less_iff)

lemma powi2_add: "(2::rat) powi (a + b) = 2 powi a * 2 powi b"
  by (simp add: power_int_add)

lemma powi2_diff: "(2::rat) powi (a - b) = 2 powi a / 2 powi b"
  by (simp add: power_int_diff)

lemma nbits_nonneg: "0 \<le> nbits n"
  by (induction n rule: nbits.induct) (subst nbits.simps, simp)

lemma nbits_pos: "0 < n \<Longrightarrow> nbits n = nbits (n div 2) + 1"
  by (subst nbits.simps) simp

lemma nbits_bounds_int: "0 < n \<Longrightarrow> 2 ^ nat (nbits n) \<le> 2 * n \<and> n < 2 ^ nat (nbits n)"
proof (induction n rule: nbits.induct)
  case (1 n)
  have nb: "nat (nbits n) = Suc (nat (nbits (n div 2)))"
    using nbits_pos [OF 1(2)] nbits_nonneg [of "n div 2"] by simp
  show ?case
  proof (cases "n div 2 = 0")
    case True
    then have "nbits (n div 2) = 0" by (simp add: nbits.simps [of 0])
    with nb 1(2) True show ?thesis by auto
  next
    case False
    with 1(2) have "0 < n div 2" by linarith
    with 1 have "2 ^ nat (nbits (n div 2)) \<le> 2 * (n div 2)" "n div 2 < 2 ^ nat (nbits (n div 2))"
      by auto
    then show ?thesis unfolding nb by auto
  qed
qed

lemma nbits_bounds:
  assumes "0 < n"
  shows "2 powi (nbits n - 1) \<le> (of_int n :: rat)" and "(of_int n :: rat) < 2 powi nbits n"
proof -
  have p: "(2::rat) powi nbits n = of_int (2 ^ nat (nbits n))"
    using nbits_nonneg [of n] by (simp add: power_int_def)
  have "(of_int (2 ^ nat (nbits n)) :: rat) \<le> of_int (2 * n)"
    using nbits_bounds_int [OF assms] by (simp only: of_int_le_iff)
  then show "2 powi (nbits n - 1) \<le> (of_int n :: rat)"
    by (simp add: powi2_diff p)
  show "(of_int n :: rat) < 2 powi nbits n"
    unfolding p using nbits_bounds_int [OF assms] by (simp only: of_int_less_iff)
qed

lemma ilog2_bounds:
  assumes "0 < q"
  shows "2 powi ilog2 q \<le> q" and "q < 2 powi (ilog2 q + 1)"
proof -
  obtain n d where nd: "quotient_of q = (n, d)" by (cases "quotient_of q")
  then have d: "0 < d" and q: "q = of_int n / of_int d"
    by (auto dest: quotient_of_denom_pos quotient_of_div)
  with assms have n: "0 < n" by (simp add: zero_less_divide_iff)
  let ?N = "nbits n" and ?D = "nbits d"
  have N: "2 powi (?N - 1) \<le> (of_int n :: rat)" "(of_int n :: rat) < 2 powi ?N"
    using nbits_bounds [OF n] by simp_all
  have D: "2 powi (?D - 1) \<le> (of_int d :: rat)" "(of_int d :: rat) < 2 powi ?D"
    using nbits_bounds [OF d] by simp_all
  have "q < 2 powi ?N / 2 powi (?D - 1)"
    unfolding q using N(2) D(1) n d by (intro frac_less) simp_all
  also have "\<dots> = 2 powi (?N - ?D + 1)" by (simp add: powi2_add powi2_diff)
  finally have up: "q < 2 powi (?N - ?D + 1)" .
  have "2 powi (?N - ?D - 1) = (2 powi (?N - 1) / 2 powi ?D :: rat)"
    by (simp add: powi2_diff)
  also have "\<dots> \<le> q"
    unfolding q using N(1) D(2) n d by (intro frac_le) simp_all
  finally have lo: "2 powi (?N - ?D - 1) \<le> q" .
  from up lo show "2 powi ilog2 q \<le> q" and "q < 2 powi (ilog2 q + 1)"
    by (auto simp: ilog2_def nd Let_def)
qed

lemma ilog2_eqI:
  assumes "0 < q" and "2 powi k \<le> q" and "q < 2 powi (k + 1)"
  shows "ilog2 q = k"
proof -
  have "(2::rat) powi ilog2 q < 2 powi (k + 1)" "(2::rat) powi k < 2 powi (ilog2 q + 1)"
    using ilog2_bounds [OF assms(1)] assms(2,3) by linarith+
  then show ?thesis by simp
qed

lemma ilog2_mono: "0 < q \<Longrightarrow> q \<le> r \<Longrightarrow> ilog2 q \<le> ilog2 r"
proof -
  assume q: "0 < q" "q \<le> r"
  then have "(2::rat) powi ilog2 q < 2 powi (ilog2 r + 1)"
    using ilog2_bounds [of q] ilog2_bounds [of r] by linarith
  then show ?thesis by simp
qed

lemma round_half_even_of_int [simp]: "round_half_even (of_int n) = n"
  by (simp add: round_half_even_def)

lemma round_half_even_near:
  "of_int (round_half_even q) \<le> q + 1 / 2" and "q - 1 / 2 \<le> of_int (round_half_even q)"
  by (simp_all add: round_half_even_def Let_def) linarith+

lemma round_half_even_mono:
  assumes "q \<le> r" shows "round_half_even q \<le> round_half_even r"
proof (cases "\<lfloor>q\<rfloor> = \<lfloor>r\<rfloor>")
  case True
  with assms show ?thesis by (auto simp: round_half_even_def Let_def)
next
  case False
  with assms have "\<lfloor>q\<rfloor> + 1 \<le> \<lfloor>r\<rfloor>" using floor_mono [OF assms] by linarith
  moreover have "round_half_even q \<le> \<lfloor>q\<rfloor> + 1" and "\<lfloor>r\<rfloor> \<le> round_half_even r"
    by (auto simp: round_half_even_def Let_def)
  ultimately show ?thesis by linarith
qed

lemma round_half_even_le_int: "q \<le> of_int n \<Longrightarrow> round_half_even q \<le> n"
  using round_half_even_mono [of q "of_int n"] by simp

lemma round_half_even_ge_int: "of_int n \<le> q \<Longrightarrow> n \<le> round_half_even q"
  using round_half_even_mono [of "of_int n" q] by simp

lemma rnd_nonneg: "0 \<le> q \<Longrightarrow> 0 \<le> rnd q"
  using round_half_even_ge_int [of 0] by (simp add: rnd_def)

lemma round_scaled_bounds:
  assumes "0 < q"
  shows "of_int (round_half_even (q / 2 powi rnd_exp q)) \<le> (2::rat) ^ 53"
proof -
  have "q < 2 powi (ilog2 q + 1)" by (rule ilog2_bounds [OF assms])
  also have "\<dots> \<le> 2 powi (rnd_exp q + 53)" by (simp add: rnd_exp_def)
  finally have "q / 2 powi rnd_exp q \<le> of_int (2 ^ 53)"
    by (simp add: powi2_add divide_le_eq mult.commute)
  then have "round_half_even (q / 2 powi rnd_exp q) \<le> 2 ^ 53" by (rule round_half_even_le_int)
  then show ?thesis by (metis of_int_le_iff of_int_numeral of_int_power)
qed

lemma rnd_ge_powi:
  assumes "0 < q" and "- 1074 \<le> ilog2 q - 52"
  shows "2 powi ilog2 q \<le> rnd q"
proof -
  have e: "rnd_exp q = ilog2 q - 52" using assms(2) by (simp add: rnd_exp_def)
  have "of_int (2 ^ 52) \<le> q / 2 powi rnd_exp q"
    using ilog2_bounds(1) [OF assms(1)] by (simp add: e powi2_diff le_divide_eq)
  then have "2 ^ 52 \<le> round_half_even (q / 2 powi rnd_exp q)" by (rule round_half_even_ge_int)
  then have "(2::rat) ^ 52 \<le> of_int (round_half_even (q / 2 powi rnd_exp q))"
    by (metis of_int_le_iff of_int_numeral of_int_power)
  then have "2 ^ 52 * 2 powi rnd_exp q \<le> rnd q"
    unfolding rnd_def by (rule mult_right_mono) simp
  then show ?thesis by (simp add: e powi2_diff)
qed

lemma rnd_mono:
  assumes "0 < q" and "q \<le> r"
  shows "rnd q \<le> rnd r"
proof (cases "rnd_exp q = rnd_exp r")
  case True
  have "round_half_even (q / 2 powi rnd_exp r) \<le> round_half_even (r / 2 powi rnd_exp r)"
    using assms(2) by (intro round_half_even_mono divide_right_mono) simp_all
  then show ?thesis unfolding rnd_def True by (intro mult_right_mono) simp_all
next
  case False
  have "0 < r" using assms by linarith
  have "rnd_exp q < rnd_exp r" using False ilog2_mono [OF assms] unfolding rnd_exp_def by linarith
  then have r: "rnd_exp r = ilog2 r - 52" "- 1074 \<le> ilog2 r - 52" by (auto simp: rnd_exp_def)
  have "rnd q \<le> 2 ^ 53 * 2 powi rnd_exp q"
    unfolding rnd_def using round_scaled_bounds [OF assms(1)] by (intro mult_right_mono) simp_all
  also have "\<dots> = 2 powi (rnd_exp q + 53)" by (simp add: powi2_add)
  also have "\<dots> \<le> 2 powi ilog2 r" using \<open>rnd_exp q < rnd_exp r\<close> r(1) by simp
  also have "\<dots> \<le> rnd r" by (rule rnd_ge_powi [OF \<open>0 < r\<close> r(2)])
  finally show ?thesis .
qed

text \<open>The rationals with at most 53 significant bits and a last bit worth at least \<open>2\<^sup>-\<^sup>1\<^sup>0\<^sup>7\<^sup>4\<close>.\<close>

definition representable :: "rat \<Rightarrow> bool" where
  "representable q \<longleftrightarrow> (\<exists>m e. q = of_int m * 2 powi e \<and> \<bar>m\<bar> < 2 ^ 53 \<and> - 1074 \<le> e)"

lemma rnd_representable:
  assumes "0 < q" and "representable q"
  shows "rnd q = q"
proof -
  obtain m e where q: "q = of_int m * 2 powi e" and m: "\<bar>m\<bar> < 2 ^ 53" and e: "- 1074 \<le> e"
    using assms(2) by (auto simp: representable_def)
  have le: "rnd_exp q \<le> e"
  proof (rule ccontr)
    assume "\<not> rnd_exp q \<le> e"
    with e have x: "rnd_exp q = ilog2 q - 52" "e < ilog2 q - 52" by (auto simp: rnd_exp_def)
    have "(of_int m :: rat) < of_int (2 ^ 53)" using m by (simp only: of_int_less_iff)
    then have "q < 2 powi (e + 53)"
      unfolding q powi2_add by (simp add: mult.commute)
    also have "\<dots> \<le> 2 powi ilog2 q" using x(2) by simp
    finally show False using ilog2_bounds(1) [OF assms(1)] by simp
  qed
  have "q / 2 powi rnd_exp q = of_int m * 2 powi (e - rnd_exp q)"
    by (simp add: q powi2_diff)
  also have "\<dots> = of_int (m * 2 ^ nat (e - rnd_exp q))"
    using le by (simp add: power_int_def)
  finally have i: "q / 2 powi rnd_exp q = of_int (m * 2 ^ nat (e - rnd_exp q))" .
  then have "rnd q = q / 2 powi rnd_exp q * 2 powi rnd_exp q"
    unfolding rnd_def i by (simp only: round_half_even_of_int)
  then show ?thesis by simp
qed

lemma representable_rnd:
  assumes "0 < q" shows "representable (rnd q)"
proof -
  let ?n = "round_half_even (q / 2 powi rnd_exp q)"
  have "0 \<le> q / 2 powi rnd_exp q" using assms by simp
  then have n0: "0 \<le> ?n" by (intro round_half_even_ge_int) simp
  have "(of_int ?n :: rat) \<le> of_int (2 ^ 53)" using round_scaled_bounds [OF assms] by simp
  then have n1: "?n \<le> 2 ^ 53" by (simp only: of_int_le_iff)
  have e: "- 1074 \<le> rnd_exp q" by (simp add: rnd_exp_def)
  show ?thesis
  proof (cases "?n = 2 ^ 53")
    case True
    then have "rnd q = of_int (2 ^ 52) * 2 powi (rnd_exp q + 1)"
      by (simp add: rnd_def powi2_add)
    with e show ?thesis unfolding representable_def by (intro exI conjI) (assumption, simp_all)
  next
    case False
    with n0 n1 e show ?thesis unfolding representable_def rnd_def by (intro exI conjI) (rule refl, auto)
  qed
qed

lemma representable_of_int: "\<bar>i\<bar> < 2 ^ 53 \<Longrightarrow> representable (of_int i)"
  unfolding representable_def by (intro exI [of _ i] exI [of _ 0]) simp

lemma representable_uminus: "representable q \<Longrightarrow> representable (- q)"
proof -
  assume "representable q"
  then obtain m e where "q = of_int m * 2 powi e" "\<bar>m\<bar> < 2 ^ 53" "- 1074 \<le> e"
    by (auto simp: representable_def)
  then show ?thesis
    unfolding representable_def by (intro exI [of _ "- m"] exI [of _ e]) simp
qed

section \<open>Values and operations\<close>

text \<open>The sign of an infinity or a zero is \<^term>\<open>True\<close> for negative.\<close>

datatype f64 = NaN | Inf bool | Zero bool | Fin rat

definition max_f64_bound :: rat where
  "max_f64_bound = 2 ^ 1024"

text \<open>
  Rounding an exact result; the flag is the sign of an exact zero. A result whose rounded
  magnitude reaches \<open>2\<^sup>1\<^sup>0\<^sup>2\<^sup>4\<close> overflows to an infinity.
\<close>

definition fl :: "bool \<Rightarrow> rat \<Rightarrow> f64" where
  "fl neg q =
     (if q = 0 then Zero neg
      else let m = rnd \<bar>q\<bar>
           in if m = 0 then Zero (q < 0)
              else if max_f64_bound \<le> m then Inf (q < 0)
              else Fin (if q < 0 then - m else m))"

fun fval :: "f64 \<Rightarrow> rat" where
  "fval (Fin q) = q"
| "fval (Zero _) = 0"
| "fval (Inf _) = 0"
| "fval NaN = 0"

fun fsign :: "f64 \<Rightarrow> bool" where
  "fsign (Fin q) = (q < 0)"
| "fsign (Zero s) = s"
| "fsign (Inf s) = s"
| "fsign NaN = False"

fun is_finite :: "f64 \<Rightarrow> bool" where
  "is_finite NaN = False"
| "is_finite (Inf _) = False"
| "is_finite _ = True"

fun wf64 :: "f64 \<Rightarrow> bool" where
  "wf64 (Fin q) = (q \<noteq> 0 \<and> representable q \<and> \<bar>q\<bar> < max_f64_bound)"
| "wf64 _ = True"

fun fadd :: "f64 \<Rightarrow> f64 \<Rightarrow> f64" where
  "fadd NaN _ = NaN"
| "fadd _ NaN = NaN"
| "fadd (Inf s) (Inf t) = (if s = t then Inf s else NaN)"
| "fadd (Inf s) _ = Inf s"
| "fadd _ (Inf t) = Inf t"
| "fadd x y = fl (fsign x \<and> fsign y) (fval x + fval y)"

fun fneg :: "f64 \<Rightarrow> f64" where
  "fneg NaN = NaN"
| "fneg (Inf s) = Inf (\<not> s)"
| "fneg (Zero s) = Zero (\<not> s)"
| "fneg (Fin q) = Fin (- q)"

definition fsub :: "f64 \<Rightarrow> f64 \<Rightarrow> f64" where
  "fsub x y = fadd x (fneg y)"

fun fmul :: "f64 \<Rightarrow> f64 \<Rightarrow> f64" where
  "fmul NaN _ = NaN"
| "fmul _ NaN = NaN"
| "fmul (Inf s) (Zero _) = NaN"
| "fmul (Zero _) (Inf _) = NaN"
| "fmul (Inf s) y = Inf (s \<noteq> fsign y)"
| "fmul x (Inf t) = Inf (fsign x \<noteq> t)"
| "fmul x y = fl (fsign x \<noteq> fsign y) (fval x * fval y)"

fun fdiv :: "f64 \<Rightarrow> f64 \<Rightarrow> f64" where
  "fdiv NaN _ = NaN"
| "fdiv _ NaN = NaN"
| "fdiv (Inf _) (Inf _) = NaN"
| "fdiv (Inf s) y = Inf (s \<noteq> fsign y)"
| "fdiv x (Inf t) = Zero (fsign x \<noteq> t)"
| "fdiv (Zero _) (Zero _) = NaN"
| "fdiv x (Zero t) = Inf (fsign x \<noteq> t)"
| "fdiv x y = fl (fsign x \<noteq> fsign y) (fval x / fval y)"

text \<open>Go's comparisons: every comparison with a NaN is false; the two zeros are equal.\<close>

fun flt :: "f64 \<Rightarrow> f64 \<Rightarrow> bool" where
  "flt NaN _ = False"
| "flt _ NaN = False"
| "flt (Inf s) (Inf t) = (s \<and> \<not> t)"
| "flt (Inf s) _ = s"
| "flt _ (Inf t) = (\<not> t)"
| "flt x y = (fval x < fval y)"

fun fle :: "f64 \<Rightarrow> f64 \<Rightarrow> bool" where
  "fle NaN _ = False"
| "fle _ NaN = False"
| "fle (Inf s) (Inf t) = (s \<or> \<not> t)"
| "fle (Inf s) _ = s"
| "fle _ (Inf t) = (\<not> t)"
| "fle x y = (fval x \<le> fval y)"

definition feq :: "f64 \<Rightarrow> f64 \<Rightarrow> bool" where
  "feq x y \<longleftrightarrow> fle x y \<and> fle y x"

definition f0 :: f64 where
  "f0 = Zero False"

text \<open>A decimal or integer literal of the source: the nearest binary64 value.\<close>

definition f64_of_rat :: "rat \<Rightarrow> f64" where
  "f64_of_rat q = fl False q"

text \<open>\<^verbatim>\<open>math.Round\<close>: to the nearest integer, halfway cases away from zero.\<close>

definition round_half_away :: "rat \<Rightarrow> int" where
  "round_half_away q = (if q < 0 then - \<lfloor>- q + 1 / 2\<rfloor> else \<lfloor>q + 1 / 2\<rfloor>)"

fun fround :: "f64 \<Rightarrow> f64" where
  "fround (Fin q) = fl (q < 0) (of_int (round_half_away q))"
| "fround x = x"

section \<open>Printing and parsing\<close>

text \<open>The verb \<^verbatim>\<open>%.2f\<close>: the exact value rounded to two decimals, halfway cases to even.\<close>

definition cents :: "f64 \<Rightarrow> nat" where
  "cents x = nat (round_half_even (\<bar>fval x\<bar> * 100))"

definition two_digits :: "nat \<Rightarrow> string" where
  "two_digits n = [digit_char (n div 10 mod 10), digit_char (n mod 10)]"

fun format2f :: "f64 \<Rightarrow> string" where
  "format2f NaN = ''NaN''"
| "format2f (Inf neg) = (if neg then ''-Inf'' else ''+Inf'')"
| "format2f x =
     (if fsign x then ''-'' else []) @ nat_str (cents x div 100) @ ''.'' @ two_digits (cents x)"

text \<open>\<^verbatim>\<open>strconv.ParseFloat\<close>: the loop over the digits of the mantissa.\<close>

definition hex_val :: "char \<Rightarrow> nat option" where
  "hex_val c =
     (let n = (of_char (to_lower_char c) :: nat)
      in if is_digit c then Some (digit_val c)
         else if 97 \<le> n \<and> n \<le> 102 then Some (n - 87) else None)"

definition base_digit :: "nat \<Rightarrow> char \<Rightarrow> nat option" where
  "base_digit base c =
     (if base = 16 then hex_val c else if is_digit c then Some (digit_val c) else None)"

record mantissa =
  mant :: nat
  frac_digits :: nat
  saw_dot :: bool
  saw_digits :: bool

fun scan_mantissa :: "nat \<Rightarrow> mantissa \<Rightarrow> string \<Rightarrow> mantissa \<times> string" where
  "scan_mantissa base m [] = (m, [])"
| "scan_mantissa base m (c # cs) =
     (if c = CHR ''_'' then scan_mantissa base m cs
      else if c = CHR ''.'' then
        (if saw_dot m then (m, c # cs) else scan_mantissa base (m\<lparr>saw_dot := True\<rparr>) cs)
      else (case base_digit base c of
              Some d \<Rightarrow> scan_mantissa base
                \<lparr>mant = base * mant m + d,
                 frac_digits = (if saw_dot m then Suc (frac_digits m) else frac_digits m),
                 saw_dot = saw_dot m, saw_digits = True\<rparr> cs
            | None \<Rightarrow> (m, c # cs)))"

text \<open>The digits of the exponent; the accumulator stops growing at 10000, as in the library.\<close>

fun scan_exponent :: "int \<Rightarrow> string \<Rightarrow> int \<times> string" where
  "scan_exponent e [] = (e, [])"
| "scan_exponent e (c # cs) =
     (if c = CHR ''_'' then scan_exponent e cs
      else if is_digit c then
        scan_exponent (if e < 10000 then 10 * e + int (digit_val c) else e) cs
      else (e, c # cs))"

definition signed_part :: "string \<Rightarrow> bool \<times> string" where
  "signed_part s =
     (case s of [] \<Rightarrow> (False, [])
      | c # cs \<Rightarrow> if c = CHR ''-'' then (True, cs) else if c = CHR ''+'' then (False, cs) else (False, s))"

text \<open>An exponent part: \<open>None\<close> when it is malformed, otherwise its value and what is left.\<close>

definition read_exponent :: "char \<Rightarrow> string \<Rightarrow> (int \<times> string) option" where
  "read_exponent mark s =
     (case s of [] \<Rightarrow> Some (0, [])
      | c # cs \<Rightarrow>
          if to_lower_char c \<noteq> mark then Some (0, s)
          else (let (neg, ds) = signed_part cs
                in case ds of [] \<Rightarrow> None
                   | d # _ \<Rightarrow>
                       if \<not> is_digit d then None
                       else (let (e, rest) = scan_exponent 0 ds
                             in Some (if neg then - e else e, rest))))"

fun underscores_loop :: "bool \<Rightarrow> char \<Rightarrow> string \<Rightarrow> bool" where
  "underscores_loop hex saw [] = (saw \<noteq> CHR ''_'')"
| "underscores_loop hex saw (c # cs) =
     (if is_digit c \<or> hex \<and> hex_val c \<noteq> None then underscores_loop hex (CHR ''0'') cs
      else if c = CHR ''_'' then saw = CHR ''0'' \<and> underscores_loop hex (CHR ''_'') cs
      else saw \<noteq> CHR ''_'' \<and> underscores_loop hex (CHR ''!'') cs)"

definition underscoreOK :: "string \<Rightarrow> bool" where
  "underscoreOK s =
     (let t = snd (signed_part s)
      in case t of
           c # d # cs \<Rightarrow>
             if c = CHR ''0'' \<and> to_lower_char d \<in> {CHR ''b'', CHR ''o'', CHR ''x''}
             then underscores_loop (to_lower_char d = CHR ''x'') (CHR ''0'') cs
             else underscores_loop False (CHR ''^'') t
         | _ \<Rightarrow> underscores_loop False (CHR ''^'') t)"

definition scale_mantissa :: "bool \<Rightarrow> mantissa \<Rightarrow> int \<Rightarrow> rat" where
  "scale_mantissa hex m e =
     (if hex then of_nat (mant m) * 2 powi (e - 4 * int (frac_digits m))
      else of_nat (mant m) * 10 powi (e - int (frac_digits m)))"

definition finish_float :: "bool \<Rightarrow> rat \<Rightarrow> f64 option" where
  "finish_float neg q =
     (let x = fl neg (if neg then - q else q) in if is_finite x then Some x else None)"

definition no_mantissa :: mantissa where
  "no_mantissa = \<lparr>mant = 0, frac_digits = 0, saw_dot = False, saw_digits = False\<rparr>"

definition hex_prefix :: "string \<Rightarrow> bool" where
  "hex_prefix t =
     (case t of c # d # _ # _ \<Rightarrow> c = CHR ''0'' \<and> to_lower_char d = CHR ''x'' | _ \<Rightarrow> False)"

definition read_number :: "string \<Rightarrow> f64 option" where
  "read_number s =
     (let (neg, t) = signed_part s;
          hex = hex_prefix t;
          body = (if hex then drop 2 t else t);
          (m, rest) = scan_mantissa (if hex then 16 else 10) no_mantissa body
      in if \<not> saw_digits m then None
         else if hex \<and> (case rest of c # _ \<Rightarrow> to_lower_char c \<noteq> CHR ''p'' | [] \<Rightarrow> True) then None
         else (case read_exponent (if hex then CHR ''p'' else CHR ''e'') rest of
                 None \<Rightarrow> None
               | Some (e, rest') \<Rightarrow>
                   if rest' \<noteq> [] \<or> CHR ''_'' \<in> set s \<and> \<not> underscoreOK s then None
                   else finish_float neg (scale_mantissa hex m e)))"

definition ParseFloat :: "string \<Rightarrow> f64 option" where
  "ParseFloat s =
     (let (neg, t) = signed_part s
      in if ToLower t \<in> {''inf'', ''infinity''} then Some (Inf neg)
         else if ToLower s = ''nan'' then Some NaN
         else read_number s)"

end
