(* ===== verification/Float64_Laws.thy ===== *)
theory Float64_Laws
  imports Float64
begin

text \<open>
  The laws of binary64 arithmetic that the component proofs use: results are well formed,
  rounding is exact on representable values and monotone, and sums, differences, products and
  quotients keep the sign one expects. Printing with two decimals and parsing back gives the
  nearest binary64 value of the printed decimal.
\<close>

section \<open>Rounding\<close>

lemma representable_0 [simp]: "representable 0"
  unfolding representable_def by (intro exI [of _ 0] exI [of _ 0]) simp

lemma rnd_pos_or_0: "0 < q \<Longrightarrow> rnd q = 0 \<or> 0 < rnd q"
  using rnd_nonneg [of q] by linarith

lemma wf64_fl [simp]: "wf64 (fl s q)"
  using representable_rnd [of "\<bar>q\<bar>"] representable_uminus [of "rnd \<bar>q\<bar>"] rnd_nonneg [of "\<bar>q\<bar>"]
  by (auto simp: fl_def Let_def)

lemma fl_not_NaN [simp]: "fl s q \<noteq> NaN"
  by (simp add: fl_def Let_def)

lemma fl_exact:
  assumes "representable q" and "q \<noteq> 0" and "\<bar>q\<bar> < max_f64_bound"
  shows "fl s q = Fin q"
proof -
  have "representable \<bar>q\<bar>" using assms(1) representable_uminus [of q] by (simp add: abs_if)
  then have "rnd \<bar>q\<bar> = \<bar>q\<bar>" using assms(2) by (intro rnd_representable) simp_all
  with assms(2,3) show ?thesis by (simp add: fl_def Let_def)
qed

lemma max_f64_bound_big: "(2::rat) ^ 53 \<le> max_f64_bound"
  unfolding max_f64_bound_def by (rule power_increasing) simp_all

lemma fl_of_int:
  assumes "\<bar>i\<bar> < 2 ^ 53" and "i \<noteq> 0"
  shows "fl s (of_int i) = Fin (of_int i)"
proof (rule fl_exact)
  have "\<bar>of_int i :: rat\<bar> < of_int (2 ^ 53)"
    using assms(1) by (simp only: of_int_abs [symmetric] of_int_less_iff)
  then show "\<bar>of_int i :: rat\<bar> < max_f64_bound" using max_f64_bound_big by simp
qed (use assms representable_of_int in auto)

lemma fl_zero [simp, f64_simps]: "fl s 0 = Zero s"
  by (simp add: fl_def)

lemma fl_one [simp, f64_simps]: "fl s 1 = Fin 1"
  using fl_of_int [of 1 s] by simp

lemma fl_numeral [f64_simps]: "numeral n < (2 ^ 53 :: int) \<Longrightarrow> fl s (numeral n) = Fin (numeral n)"
  using fl_of_int [of "numeral n" s] by simp

lemma fl_neg_numeral [f64_simps]:
  "numeral n < (2 ^ 53 :: int) \<Longrightarrow> fl s (- numeral n) = Fin (- numeral n)"
  using fl_of_int [of "- numeral n" s] by simp

text \<open>
  A certificate for one rounding: if \<open>m * 2\<^sup>e\<close> has a full 53-bit mantissa and lies within
  half a unit of the last place of \<open>q\<close>, then it is the result.
\<close>

lemma fl_certificate:
  assumes m: "2 ^ 52 < m" "m < 2 ^ 53" and e: "- 1074 \<le> e" "e \<le> 971"
    and near: "\<bar>q / 2 powi e - of_int m\<bar> < 1 / 2"
  shows "fl s q = Fin (of_int m * 2 powi e)"
proof -
  define x where "x = q / 2 powi e"
  have qx: "q = x * 2 powi e" by (simp add: x_def)
  have x: "x < of_int m + 1 / 2" "of_int m - 1 / 2 < x"
    using near unfolding abs_less_iff x_def by linarith+
  have m': "of_int (2 ^ 52 + 1) \<le> (of_int m :: rat)" "(of_int m :: rat) \<le> of_int (2 ^ 53 - 1)"
    using m by (simp_all only: of_int_le_iff)
  have xb: "2 ^ 52 \<le> x" "x < 2 ^ 53" using x m' by simp_all
  have pos: "0 < q" unfolding qx using xb by (intro mult_pos_pos) simp_all
  have lo: "2 powi (e + 52) \<le> q" unfolding qx powi2_add using xb(1) by (simp add: mult.commute)
  have hi: "q < 2 powi (e + 52 + 1)" unfolding qx powi2_add using xb(2) by (simp add: mult.commute)
  have l: "ilog2 q = e + 52" by (rule ilog2_eqI [OF pos lo hi])
  then have ex: "rnd_exp q = e" using e by (simp add: rnd_exp_def)
  have "\<lfloor>x\<rfloor> = m \<and> x - of_int m < 1 / 2 \<or> \<lfloor>x\<rfloor> = m - 1 \<and> 1 / 2 < x - of_int (m - 1)"
    using x by (cases "of_int m \<le> x") (auto simp: floor_eq_iff)
  then have "round_half_even x = m"
    by (auto simp: round_half_even_def Let_def)
  then have r: "rnd q = of_int m * 2 powi e" by (simp add: rnd_def ex x_def)
  have "rnd q < 2 ^ 53 * 2 powi e" unfolding r using m' by simp
  also have "\<dots> = 2 powi (53 + e)" by (simp add: powi2_add)
  also have "\<dots> \<le> 2 powi 1024" using e by (subst powi2_le_iff) simp
  finally have "rnd q < max_f64_bound" by (simp add: max_f64_bound_def)
  moreover have "0 < rnd q" unfolding r using m' by simp
  ultimately show ?thesis using pos r by (auto simp: fl_def Let_def)
qed

section \<open>Order\<close>

lemma fle_refl: "x \<noteq> NaN \<Longrightarrow> fle x x"
  by (cases x) auto

lemma fle_trans: "fle x y \<Longrightarrow> fle y z \<Longrightarrow> fle x z"
  by (cases x; cases y; cases z) (auto split: if_splits)

lemma fle_finite: "is_finite x \<Longrightarrow> is_finite y \<Longrightarrow> fle x y \<longleftrightarrow> fval x \<le> fval y"
  by (cases x; cases y) auto

lemma flt_finite: "is_finite x \<Longrightarrow> is_finite y \<Longrightarrow> flt x y \<longleftrightarrow> fval x < fval y"
  by (cases x; cases y) auto

lemma flt_iff_not_fle: "x \<noteq> NaN \<Longrightarrow> y \<noteq> NaN \<Longrightarrow> flt x y \<longleftrightarrow> \<not> fle y x"
  by (cases x; cases y) auto

lemma flt_NaN [simp]: "\<not> flt x NaN" "\<not> flt NaN x"
  by (cases x; simp)+

lemma fle_f0_simps [simp]:
  "fle f0 (Zero s)" "fle f0 (Fin q) \<longleftrightarrow> 0 \<le> q" "fle f0 (Inf s) \<longleftrightarrow> \<not> s" "\<not> fle f0 NaN"
  by (simp_all add: f0_def)

lemma fl_nonneg [simp]: "0 \<le> q \<Longrightarrow> fle f0 (fl s q)"
  using rnd_nonneg [of q] by (auto simp: fl_def Let_def)

lemma rnd_abs_le: "0 < q \<Longrightarrow> q \<le> r \<Longrightarrow> rnd \<bar>q\<bar> \<le> rnd \<bar>r\<bar>"
  using rnd_mono [of q r] by simp

lemma fl_mono:
  assumes "q \<le> r" shows "fle (fl s q) (fl t r)"
proof -
  consider "0 < q" | "r < 0" | "q \<le> 0" "0 \<le> r" by linarith
  then show ?thesis
  proof cases
    case 1
    with assms have "rnd q \<le> rnd r" "0 \<le> rnd q" by (simp_all add: rnd_mono rnd_nonneg)
    with 1 assms show ?thesis by (auto simp: fl_def Let_def)
  next
    case 2
    with assms have "rnd (- r) \<le> rnd (- q)" "0 \<le> rnd (- r)" by (simp_all add: rnd_mono rnd_nonneg)
    with 2 assms show ?thesis by (auto simp: fl_def Let_def)
  next
    case 3
    then have "0 \<le> rnd \<bar>q\<bar>" "0 \<le> rnd \<bar>r\<bar>" by (simp_all add: rnd_nonneg)
    with 3 show ?thesis by (auto simp: fl_def Let_def)
  qed
qed

lemma fl_fval:
  assumes "is_finite x" and "wf64 x"
  shows "feq (fl s (fval x)) x"
  using assms by (cases x) (auto simp: feq_def fl_exact)

section \<open>Arithmetic\<close>

lemma wf64_fneg [simp]: "wf64 x \<Longrightarrow> wf64 (fneg x)"
  by (cases x) (auto simp: representable_uminus)

lemma wf64_fadd [simp]: "wf64 (fadd x y)"
  by (cases x; cases y) auto

lemma wf64_fsub [simp]: "wf64 (fsub x y)"
  by (simp add: fsub_def)

lemma wf64_fmul [simp]: "wf64 (fmul x y)"
  by (cases x; cases y) auto

lemma wf64_fdiv [simp]: "wf64 (fdiv x y)"
  by (cases x; cases y) auto

lemma fval_fneg [simp]: "fval (fneg x) = - fval x"
  by (cases x) auto

lemma is_finite_fneg [simp]: "is_finite (fneg x) = is_finite x"
  by (cases x) auto

lemma fadd_finite:
  "is_finite x \<Longrightarrow> is_finite y \<Longrightarrow> fadd x y = fl (fsign x \<and> fsign y) (fval x + fval y)"
  by (cases x; cases y) auto

lemma fsub_finite:
  "is_finite x \<Longrightarrow> is_finite y \<Longrightarrow> fsub x y = fl (fsign x \<and> fsign (fneg y)) (fval x - fval y)"
  by (simp add: fsub_def fadd_finite)

lemma fadd_NaN [simp]: "fadd x NaN = NaN" "fadd NaN x = NaN"
  by (cases x; simp)+

lemma fsub_NaN [simp]: "fsub x NaN = NaN" "fsub NaN x = NaN"
  by (simp_all add: fsub_def)

lemma fadd_nonneg: "fle f0 x \<Longrightarrow> fle f0 y \<Longrightarrow> fle f0 (fadd x y)"
  by (cases x; cases y) auto

text \<open>Subtracting a finite amount that is covered leaves a value that is not negative.\<close>

lemma fsub_nonneg: "is_finite y \<Longrightarrow> fle y x \<Longrightarrow> fle f0 (fsub x y)"
  by (cases x; cases y) (auto simp: fsub_def)

text \<open>Adding an amount that is not negative never lowers a finite value.\<close>

lemma fadd_increasing:
  assumes "is_finite x" and "wf64 x" and "fle f0 y"
  shows "fle x (fadd x y)"
proof (cases "is_finite y")
  case True
  have "0 \<le> fval y" using assms(3) True by (cases y) (auto simp: f0_def)
  then have "fle (fl False (fval x)) (fadd x y)"
    using assms(1) True by (simp add: fadd_finite fl_mono)
  moreover have "fle x (fl False (fval x))" using fl_fval [OF assms(1,2)] by (simp add: feq_def)
  ultimately show ?thesis by (rule fle_trans [rotated])
next
  case False
  with assms(1,3) show ?thesis by (cases x; cases y) (auto simp: f0_def)
qed

text \<open>Subtracting an amount that is not negative never raises a finite value.\<close>

lemma fsub_decreasing:
  assumes "is_finite x" and "wf64 x" and "is_finite y" and "fle f0 y"
  shows "fle (fsub x y) x"
proof -
  have "0 \<le> fval y" using assms(3,4) by (cases y) (auto simp: f0_def)
  then have "fle (fsub x y) (fl False (fval x))"
    using assms(1,3) by (simp add: fsub_finite fl_mono)
  moreover have "fle (fl False (fval x)) x" using fl_fval [OF assms(1,2)] by (simp add: feq_def)
  ultimately show ?thesis by (rule fle_trans)
qed

lemma fmul_nonneg:
  "is_finite x \<Longrightarrow> is_finite y \<Longrightarrow> fle f0 x \<Longrightarrow> fle f0 y \<Longrightarrow> fle f0 (fmul x y)"
  by (cases x; cases y) auto

lemma fdiv_nonneg:
  "fle f0 x \<Longrightarrow> 0 < q \<Longrightarrow> fle f0 (fdiv x (Fin q))"
  by (cases x) auto

lemma fround_nonneg: "fle f0 x \<Longrightarrow> fle f0 (fround x)"
  by (cases x) (auto simp: round_half_away_def)

lemma is_finite_fl_mono:
  assumes "is_finite (fl s r)" and "\<bar>q\<bar> \<le> \<bar>r\<bar>"
  shows "is_finite (fl t q)"
proof (cases "q = 0")
  case False
  then have "rnd \<bar>q\<bar> \<le> rnd \<bar>r\<bar>" using assms(2) by (intro rnd_mono) simp_all
  with assms False rnd_nonneg [of "\<bar>q\<bar>"] show ?thesis
    by (auto simp: fl_def Let_def split: if_splits)
qed simp

section \<open>Printing and parsing back\<close>

definition dec_mantissa :: "nat \<Rightarrow> nat \<Rightarrow> bool \<Rightarrow> bool \<Rightarrow> mantissa" where
  "dec_mantissa v f dot dig = \<lparr>mant = v, frac_digits = f, saw_dot = dot, saw_digits = dig\<rparr>"

lemma scan_digits:
  "list_all is_digit ds \<Longrightarrow> ds \<noteq> [] \<Longrightarrow>
   scan_mantissa 10 (dec_mantissa v f dot dig) (ds @ rest) =
   scan_mantissa 10 (dec_mantissa (foldl (\<lambda>n c. 10 * n + digit_val c) v ds)
     (if dot then f + length ds else f) dot True) rest"
proof (induction ds arbitrary: v f dig)
  case (Cons d ds)
  then have d: "is_digit d" "d \<noteq> CHR ''_''" "d \<noteq> CHR ''.''" by (auto simp: is_digit_def)
  show ?case
  proof (cases "ds = []")
    case True
    with d show ?thesis by (simp add: dec_mantissa_def base_digit_def)
  next
    case False
    with Cons d show ?thesis by (auto simp: dec_mantissa_def base_digit_def)
  qed
qed simp

lemma foldl_digits:
  "foldl (\<lambda>n c. 10 * n + digit_val c) v ds = 10 ^ length ds * v + digits_val ds"
proof (induction ds arbitrary: v)
  case (Cons d ds)
  show ?case
    using Cons [of "10 * v + digit_val d"] Cons [of "digit_val d"]
    by (simp add: digits_val_def [of "d # ds"] add_mult_distrib2 mult.left_commute)
qed (simp add: digits_val_def)

lemma two_digits_facts [simp]:
  "list_all is_digit (two_digits n)" "length (two_digits n) = 2" "two_digits n \<noteq> []"
  "digits_val (two_digits n) = n mod 100"
proof -
  show "digits_val (two_digits n) = n mod 100"
  proof -
    have "n mod 100 = n mod (10 * 10)" by simp
    also have "\<dots> = 10 * (n div 10 mod 10) + n mod 10" by (rule mod_mult2_eq)
    finally show ?thesis by (simp add: digits_val_def two_digits_def)
  qed
qed (simp_all add: two_digits_def)

lemma scan_decimal:
  "scan_mantissa 10 no_mantissa (nat_str a @ ''.'' @ two_digits n) =
   (dec_mantissa (100 * a + n mod 100) 2 True True, [])"
proof -
  have "scan_mantissa 10 no_mantissa (nat_str a @ ''.'' @ two_digits n) =
      scan_mantissa 10 (dec_mantissa a 0 False True) (''.'' @ two_digits n)"
    using scan_digits [of "nat_str a" 0 0 False False "''.'' @ two_digits n"]
    by (simp add: no_mantissa_def dec_mantissa_def foldl_digits)
  also have "\<dots> = scan_mantissa 10 (dec_mantissa a 0 True True) (two_digits n @ [])"
    by (simp add: dec_mantissa_def)
  also have "\<dots> = (dec_mantissa (100 * a + n mod 100) 2 True True, [])"
    by (subst scan_digits) (simp_all add: foldl_digits numeral_2_eq_2)
  finally show ?thesis .
qed

lemma digits_no_underscore: "list_all is_digit ds \<Longrightarrow> CHR ''_'' \<notin> set ds"
  by (auto simp: list_all_iff is_digit_def)

lemma not_hex_prefix: "(\<And>d. d \<in> set t \<Longrightarrow> to_lower_char d \<noteq> CHR ''x'') \<Longrightarrow> \<not> hex_prefix t"
  by (auto simp: hex_prefix_def split: list.splits)

lemma read_number_plain:
  assumes "signed_part s = (neg, t)" and "\<not> hex_prefix t"
    and "scan_mantissa 10 no_mantissa t = (m, [])" and "saw_digits m" and "CHR ''_'' \<notin> set s"
  shows "read_number s = finish_float neg (scale_mantissa False m 0)"
  using assms by (simp add: read_number_def read_exponent_def)

lemma read_number_decimal:
  assumes "c = CHR ''.''"
  shows "read_number ((if neg then ''-'' else []) @ nat_str a @ c # two_digits n) =
    finish_float neg (of_nat (100 * a + n mod 100) / 100)"
proof -
  let ?t = "nat_str a @ c # two_digits n"
  obtain d ds where s: "nat_str a = d # ds" and d: "is_digit d" by (rule nat_str_head)
  have sp: "signed_part ((if neg then ''-'' else []) @ ?t) = (neg, ?t)"
    using is_digit_not_sign [OF d] by (simp add: signed_part_def s)
  have dec: "\<forall>d \<in> set ?t. is_digit d \<or> d = CHR ''.''"
    using is_digit_nat_str [of a] two_digits_facts(1) [of n] assms unfolding list_all_iff by auto
  have "to_lower_char d \<noteq> CHR ''x''" if "d \<in> set ?t" for d
    using bspec [OF dec that] by (auto simp: to_lower_char_def is_digit_def Let_def)
  then have hex: "\<not> hex_prefix ?t" by (rule not_hex_prefix)
  have us: "CHR ''_'' \<notin> set ((if neg then ''-'' else []) @ ?t)"
    using digits_no_underscore [OF is_digit_nat_str [of a]]
      digits_no_underscore [OF two_digits_facts(1) [of n]] assms by simp
  have "scan_mantissa 10 no_mantissa ?t = (dec_mantissa (100 * a + n mod 100) 2 True True, [])"
    using scan_decimal [of a n] assms by simp
  from read_number_plain [OF sp hex this _ us] show ?thesis
    by (simp add: dec_mantissa_def scale_mantissa_def power_int_minus field_simps)
qed

lemma ParseFloat_plain:
  "signed_part s = (neg, t) \<Longrightarrow> ToLower t \<notin> {''inf'', ''infinity''} \<Longrightarrow> ToLower s \<noteq> ''nan'' \<Longrightarrow>
   ParseFloat s = read_number s"
  by (simp add: ParseFloat_def)

lemma ParseFloat_format2f:
  assumes "is_finite x"
  shows "ParseFloat (format2f x) = finish_float (fsign x) (of_nat (cents x) / 100)"
proof -
  let ?t = "nat_str (cents x div 100) @ ''.'' @ two_digits (cents x)"
  let ?s = "(if fsign x then ''-'' else []) @ ?t"
  have f: "format2f x = ?s" using assms by (cases x) auto
  obtain c cs where s: "nat_str (cents x div 100) = c # cs" and c: "is_digit c" by (rule nat_str_head)
  have c': "c \<noteq> CHR ''-''" "c \<noteq> CHR ''+''" using is_digit_not_sign [OF c] by auto
  have sp: "signed_part ?s = (fsign x, ?t)"
    using c' by (simp add: signed_part_def s)
  have low: "to_lower_char c = c" "c \<noteq> CHR ''i''" "c \<noteq> CHR ''n''"
    using c by (auto simp: to_lower_char_def is_digit_def)
  have "ToLower ?t \<notin> {''inf'', ''infinity''}" "ToLower ?s \<noteq> ''nan''"
    using low by (auto simp: s to_lower_char_def)
  then have "ParseFloat ?s = read_number ?s" by (rule ParseFloat_plain [OF sp])
  also have "\<dots> = finish_float (fsign x) (of_nat (100 * (cents x div 100) + cents x mod 100) / 100)"
    using read_number_decimal [OF refl, of "fsign x" "cents x div 100" "cents x"]
    by (simp only: append_Cons append_Nil)
  finally show ?thesis by (simp only: f mult_div_mod_eq)
qed

end
