(* ===== verification/Json.thy ===== *)
theory Json
  imports Float64_Laws
begin

text \<open>
  The values that Go's \<^verbatim>\<open>encoding/json\<close> exchanges: what a handler passes to
  \<^verbatim>\<open>sendJSON\<close>, what a webhook job carries under \<^verbatim>\<open>Data\<close> (a
  \<^verbatim>\<open>map[string]interface{}\<close>), and the rendering of points of time. The tree is the
  value before it is printed.
\<close>

datatype json =
    JNull
  | JBool bool
  | JInt int
  | JNum f64
  | JStr string
  | JArr "json list"
  | JObj "(string \<times> json) list"

text \<open>\<^verbatim>\<open>json.Marshal\<close> refuses a tree that holds a NaN or an infinity.\<close>

fun marshals :: "json \<Rightarrow> bool" where
  "marshals (JNum x) = is_finite x"
| "marshals (JArr xs) = list_all marshals xs"
| "marshals (JObj kvs) = list_all (\<lambda>(k, v). marshals v) kvs"
| "marshals _ = True"

definition jopt :: "('a \<Rightarrow> json) \<Rightarrow> 'a option \<Rightarrow> json" where
  "jopt f x = (case x of None \<Rightarrow> JNull | Some y \<Rightarrow> f y)"

text \<open>A slice field that is nil until it is filled.\<close>

definition jslice :: "('a \<Rightarrow> json) \<Rightarrow> 'a list \<Rightarrow> json" where
  "jslice f xs = (if xs = [] then JNull else JArr (map f xs))"

definition jstrs :: "string list \<Rightarrow> json" where
  "jstrs xs = JArr (map JStr xs)"

text \<open>A field with \<^verbatim>\<open>omitempty\<close>.\<close>

definition omit_empty :: "string \<Rightarrow> string \<Rightarrow> (string \<times> json) list" where
  "omit_empty k v = (if v = [] then [] else [(k, JStr v)])"

text \<open>Reading a field of a decoded object as a string: the empty string unless it holds one.\<close>

definition jstr_field :: "string \<Rightarrow> (string \<times> json) list \<Rightarrow> string" where
  "jstr_field k m = (case map_of m k of Some (JStr s) \<Rightarrow> s | _ \<Rightarrow> [])"

lemma marshals_simps [simp]:
  "marshals (jopt JStr x)" "marshals (jopt JInt i)" "marshals (jopt JBool b)" "marshals (jstrs xs)"
  by (auto simp: jopt_def jstrs_def list_all_iff split: option.splits)

lemma omit_empty_marshals [simp]: "list_all (\<lambda>(k, v). marshals v) (omit_empty k v)"
  by (simp add: omit_empty_def)

section \<open>The calendar\<close>

text \<open>
  Points of time count nanoseconds from the first day of year 1, in UTC. Years are counted
  from the first of March, so that the leap day is the last day of its year.
\<close>

definition day_number :: "time \<Rightarrow> int" where
  "day_number t = t div (86400 * 1000000000)"

definition second_of_day :: "time \<Rightarrow> int" where
  "second_of_day t = t div 1000000000 mod 86400"

definition civil :: "int \<Rightarrow> int \<times> int \<times> int" where
  "civil days =
     (let z = days + 306; era = z div 146097; doe = z mod 146097;
          yoe = (doe - doe div 1460 + doe div 36524 - doe div 146096) div 365;
          doy = doe - (365 * yoe + yoe div 4 - yoe div 100);
          mp = (5 * doy + 2) div 153;
          d = doy - (153 * mp + 2) div 5 + 1;
          m = (if mp < 10 then mp + 3 else mp - 9)
      in (yoe + era * 400 + (if m \<le> 2 then 1 else 0), m, d))"

definition year_of :: "time \<Rightarrow> int" where
  "year_of t = fst (civil (day_number t))"

definition month_of :: "time \<Rightarrow> int" where
  "month_of t = fst (snd (civil (day_number t)))"

definition day_of :: "time \<Rightarrow> int" where
  "day_of t = snd (snd (civil (day_number t)))"

definition pad :: "nat \<Rightarrow> int \<Rightarrow> string" where
  "pad w i = (let s = int_str i in replicate (w - length s) (CHR ''0'') @ s)"

definition format_date :: "time \<Rightarrow> string" where
  "format_date t = pad 4 (year_of t) @ ''-'' @ pad 2 (month_of t) @ ''-'' @ pad 2 (day_of t)"

definition format_clock :: "time \<Rightarrow> string" where
  "format_clock t =
     (let s = second_of_day t
      in pad 2 (s div 3600) @ '':'' @ pad 2 (s div 60 mod 60) @ '':'' @ pad 2 (s mod 60))"

text \<open>The layouts \<^verbatim>\<open>time.RFC3339\<close> and \<^verbatim>\<open>time.RFC3339Nano\<close> for a time in UTC.\<close>

definition format_rfc3339 :: "time \<Rightarrow> string" where
  "format_rfc3339 t = format_date t @ ''T'' @ format_clock t @ ''Z''"

definition nano_fraction :: "time \<Rightarrow> string" where
  "nano_fraction t =
     (let n = t mod 1000000000 in
      if n = 0 then [] else ''.'' @ trim_right (\<lambda>c. c = CHR ''0'') (pad 9 n))"

definition format_rfc3339nano :: "time \<Rightarrow> string" where
  "format_rfc3339nano t = format_date t @ ''T'' @ format_clock t @ nano_fraction t @ ''Z''"

definition jtime :: "time \<Rightarrow> json" where
  "jtime t = JStr (format_rfc3339nano t)"

lemma marshals_jtime [simp]: "marshals (jtime t)"
  by (simp add: jtime_def)

end
