(* ===== verification/Consts.thy ===== *)
theory Consts
  imports Json
begin

text \<open>
  The constants of \<^verbatim>\<open>internal/consts/consts.go\<close>, under their own names: the sandbox
  currencies with their vaults and exchange rates, the states of users, transactions and cards,
  the webhook events and the seeded users. The vault tables are shown to be inverse to each
  other and to cover exactly the sandbox currencies.
\<close>

section \<open>Currencies, vaults and rates\<close>

definition SandboxCurrencies :: "string list" where
  "SandboxCurrencies =
    [''XRP'', ''USD'', ''EUR'', ''GBP'', ''ZAR'', ''MXN'', ''SGD'', ''CAD'', ''EGG'', ''PEB'',
     ''PKR'']"

definition SandboxVaultIDs :: "string gomap" where
  "SandboxVaultIDs =
    [(''USD'', ''450d2156-132a-4d3f-88c5-74822547658d''),
     (''EUR'', ''a09a0a2c-1a3a-44c5-a1b9-603a6eea9341''),
     (''GBP'', ''992b932d-7e9e-44b0-90ea-b82a530b6784''),
     (''ZAR'', ''f1c412ce-5e2b-4737-9121-b7c11d6c3f93''),
     (''MXN'', ''426c2e30-111e-4273-92b3-508445a6bb58''),
     (''SGD'', ''e2914c33-2e57-49a5-ac06-25c006497b3d''),
     (''CAD'', ''bd5af6fe-5d92-4b20-9bd4-1baa52b7a02e''),
     (''EGG'', ''9a550347-799e-4c10-9142-f1a2e1c084e7''),
     (''PEB'', ''0ba2b0d1-b7a2-416c-a4ac-1cb3e5281300''),
     (''PKR'', ''2868b4e5-7178-4945-8ec5-8208fac2a22d''),
     (''XRP'', ''6e1f2a3b-4c5d-6e7f-8a9b-0c1d2e3f4a5b'')]"

definition VaultUUIDToCurrency :: "string gomap" where
  "VaultUUIDToCurrency =
    [(''450d2156-132a-4d3f-88c5-74822547658d'', ''USD''),
     (''a09a0a2c-1a3a-44c5-a1b9-603a6eea9341'', ''EUR''),
     (''992b932d-7e9e-44b0-90ea-b82a530b6784'', ''GBP''),
     (''f1c412ce-5e2b-4737-9121-b7c11d6c3f93'', ''ZAR''),
     (''426c2e30-111e-4273-92b3-508445a6bb58'', ''MXN''),
     (''e2914c33-2e57-49a5-ac06-25c006497b3d'', ''SGD''),
     (''bd5af6fe-5d92-4b20-9bd4-1baa52b7a02e'', ''CAD''),
     (''9a550347-799e-4c10-9142-f1a2e1c084e7'', ''EGG''),
     (''0ba2b0d1-b7a2-416c-a4ac-1cb3e5281300'', ''PEB''),
     (''2868b4e5-7178-4945-8ec5-8208fac2a22d'', ''PKR''),
     (''6e1f2a3b-4c5d-6e7f-8a9b-0c1d2e3f4a5b'', ''XRP'')]"

definition SandboxRates :: "f64 gomap" where
  "SandboxRates =
    [(''USD'', f64_of_rat (1)), (''EUR'', f64_of_rat (108 / 100)),
     (''GBP'', f64_of_rat (127 / 100)), (''ZAR'', f64_of_rat (54 / 1000)),
     (''MXN'', f64_of_rat (59 / 1000)), (''SGD'', f64_of_rat (74 / 100)),
     (''CAD'', f64_of_rat (71 / 100)), (''PKR'', f64_of_rat (36 / 10000)),
     (''EGG'', f64_of_rat (1)), (''PEB'', f64_of_rat (1)), (''XRP'', f64_of_rat (5 / 10))]"

section \<open>KYC states\<close>

definition KYCStateAccepted :: string where
  "KYCStateAccepted = ''accepted''"

definition KYCStateRejected :: string where
  "KYCStateRejected = ''rejected''"

definition KYCStateActionRequired :: string where
  "KYCStateActionRequired = ''action_required''"

definition KYCStateResubmission :: string where
  "KYCStateResubmission = ''resubmission''"

section \<open>Risk levels\<close>

definition RiskLevelLow :: string where
  "RiskLevelLow = ''low''"

definition RiskLevelMedium :: string where
  "RiskLevelMedium = ''medium''"

definition RiskLevelHigh :: string where
  "RiskLevelHigh = ''high''"

section \<open>Transaction types (matches GateHub API)\<close>

definition TransactionTypeWithdrawal :: int where
  "TransactionTypeWithdrawal = 0"

definition TransactionTypeDeposit :: int where
  "TransactionTypeDeposit = 1"

definition TransactionTypeHosted :: int where
  "TransactionTypeHosted = 2"

section \<open>Transaction status values (matches GateHub API)\<close>

definition TransactionStatusPending :: int where
  "TransactionStatusPending = 1"

definition TransactionStatusCompleted :: int where
  "TransactionStatusCompleted = 100"

definition TransactionStatusFailed :: int where
  "TransactionStatusFailed = 3"

section \<open>Deposit types\<close>

definition DepositTypeExternal :: string where
  "DepositTypeExternal = ''external''"

definition DepositTypeHosted :: string where
  "DepositTypeHosted = ''hosted''"

definition DepositTypeWithdrawal :: string where
  "DepositTypeWithdrawal = ''withdrawal''"

section \<open>Wallet types\<close>

definition WalletTypeStandard :: int where
  "WalletTypeStandard = 1"

section \<open>Network types\<close>

definition NetworkXRPLedger :: int where
  "NetworkXRPLedger = 30"

section \<open>Card defaults, matching what the GateHub sandbox returns for a new card\<close>

definition DefaultCardProductCode :: string where
  "DefaultCardProductCode = ''PWSR_DEBP_2404''"

definition DefaultCustomerType :: string where
  "DefaultCustomerType = ''Citizen''"

definition DefaultAccountType :: string where
  "DefaultAccountType = ''DEBIT''"

definition CardRelationPrimary :: string where
  "CardRelationPrimary = ''PRIMARY''"

definition DefaultStatusActive :: string where
  "DefaultStatusActive = ''ACTIVE''"

section \<open>Card transaction types\<close>

definition CardTxTypePurchase :: int where
  "CardTxTypePurchase = 0"

definition CardTxTypeATMWithdrawal :: int where
  "CardTxTypeATMWithdrawal = 1"

definition CardTxTypeCardVerificationInquiry :: int where
  "CardTxTypeCardVerificationInquiry = 6"

definition CardTxTypeCashAdvance :: int where
  "CardTxTypeCashAdvance = 17"

definition CardTxTypeRefundCreditPayment :: int where
  "CardTxTypeRefundCreditPayment = 20"

definition CardTxTypeBalanceInquiryOnATM :: int where
  "CardTxTypeBalanceInquiryOnATM = 30"

definition CardTxTypePINUnblock :: int where
  "CardTxTypePINUnblock = 91"

definition CardTxTypePINChange :: int where
  "CardTxTypePINChange = 92"

definition CardTxTypePreauthorization :: int where
  "CardTxTypePreauthorization = 101"

definition CardTxTypePreauthorizationIncrement :: int where
  "CardTxTypePreauthorizationIncrement = 102"

definition CardTxTypePreauthorizationCompletion :: int where
  "CardTxTypePreauthorizationCompletion = 103"

definition CardTxTypeTransferToAccount :: int where
  "CardTxTypeTransferToAccount = 107"

definition CardTxTypeTransferFromAccount :: int where
  "CardTxTypeTransferFromAccount = 108"

section \<open>Card transaction operations, describing which way money moves\<close>

definition CardTxOperationWithdrawal :: int where
  "CardTxOperationWithdrawal = 0"

definition CardTxOperationDeposit :: int where
  "CardTxOperationDeposit = 1"

definition CardTxOperationNone :: int where
  "CardTxOperationNone = 2"

section \<open>Card transaction statuses\<close>

definition CardTxStatusProcessing :: string where
  "CardTxStatusProcessing = ''PROCESSING''"

definition CardTxStatusCompleted :: string where
  "CardTxStatusCompleted = ''COMPLETED''"

definition CardTxStatusReversed :: string where
  "CardTxStatusReversed = ''REVERSED''"

definition CardTxStatusDeclined :: string where
  "CardTxStatusDeclined = ''DECLINED''"

section \<open>Webhook event types\<close>

definition WebhookEventKYCAccepted :: string where
  "WebhookEventKYCAccepted = ''id.verification.accepted''"

definition WebhookEventKYCRejected :: string where
  "WebhookEventKYCRejected = ''id.verification.rejected''"

definition WebhookEventKYCActionRequired :: string where
  "WebhookEventKYCActionRequired = ''id.verification.action_required''"

definition WebhookEventKYCResubmission :: string where
  "WebhookEventKYCResubmission = ''id.verification.resubmission''"

definition WebhookEventDocumentNoticeExpired :: string where
  "WebhookEventDocumentNoticeExpired = ''id.document_notice.expired''"

definition WebhookEventDocumentNoticeWarning :: string where
  "WebhookEventDocumentNoticeWarning = ''id.document_notice.warning''"

definition WebhookEventDepositCompleted :: string where
  "WebhookEventDepositCompleted = ''core.deposit.completed''"

definition WebhookEventWithdrawalCompleted :: string where
  "WebhookEventWithdrawalCompleted = ''core.withdrawal.completed''"

definition WebhookEventWithdrawalRejected :: string where
  "WebhookEventWithdrawalRejected = ''more-bridge.withdrawal.rejected''"

definition WebhookEventCardCreated :: string where
  "WebhookEventCardCreated = ''cards.card.created''"

definition WebhookEventCardTransactionAuthorization :: string where
  "WebhookEventCardTransactionAuthorization = ''cards.transaction.authorization''"

definition WebhookEventCardTransaction :: string where
  "WebhookEventCardTransaction = ''cards.transaction.event''"

definition WebhookEventCard3DS :: string where
  "WebhookEventCard3DS = ''cards.3ds.auth_3ds_confirmation''"

section \<open>Card status values (GateHub Cards)\<close>

definition CardStatusActive :: string where
  "CardStatusActive = ''Active''"

definition CardStatusBlocked :: string where
  "CardStatusBlocked = ''Blocked''"

definition CardStatusTemporaryBlocked :: string where
  "CardStatusTemporaryBlocked = ''TemporaryBlocked''"

definition CardStatusReplaced :: string where
  "CardStatusReplaced = ''Replaced''"

definition CardStatusSoftDelete :: string where
  "CardStatusSoftDelete = ''SoftDelete''"

definition CardStatusAccountBlocked :: string where
  "CardStatusAccountBlocked = ''AccountBlocked''"

definition CardStatusInCreation :: string where
  "CardStatusInCreation = ''InCreation''"

section \<open>Placeholder bank details attached to a mock withdrawal, so a consumer\<close>

definition MockWithdrawalIBAN :: string where
  "MockWithdrawalIBAN = ''GB29NWBK60161331926819''"

definition MockWithdrawalLegalName :: string where
  "MockWithdrawalLegalName = ''Jane Smith''"

definition MockWithdrawalReference :: string where
  "MockWithdrawalReference = ''Mock Reference''"

section \<open>Pre-seeded test user IDs\<close>

definition TestUser1ID :: string where
  "TestUser1ID = ''00000000-0000-0000-0000-000000000001''"

definition TestUser1Email :: string where
  "TestUser1Email = ''testuser1@mockgatehub.local''"

definition TestUser2ID :: string where
  "TestUser2ID = ''00000000-0000-0000-0000-000000000002''"

definition TestUser2Email :: string where
  "TestUser2Email = ''testuser2@mockgatehub.local''"

lemmas const_defs =
  KYCStateAccepted_def KYCStateRejected_def KYCStateActionRequired_def
  KYCStateResubmission_def RiskLevelLow_def RiskLevelMedium_def
  RiskLevelHigh_def TransactionTypeWithdrawal_def TransactionTypeDeposit_def
  TransactionTypeHosted_def TransactionStatusPending_def TransactionStatusCompleted_def
  TransactionStatusFailed_def DepositTypeExternal_def DepositTypeHosted_def
  DepositTypeWithdrawal_def WalletTypeStandard_def NetworkXRPLedger_def
  DefaultCardProductCode_def DefaultCustomerType_def DefaultAccountType_def
  CardRelationPrimary_def DefaultStatusActive_def CardTxTypePurchase_def
  CardTxTypeATMWithdrawal_def CardTxTypeCardVerificationInquiry_def CardTxTypeCashAdvance_def
  CardTxTypeRefundCreditPayment_def CardTxTypeBalanceInquiryOnATM_def CardTxTypePINUnblock_def
  CardTxTypePINChange_def CardTxTypePreauthorization_def CardTxTypePreauthorizationIncrement_def
  CardTxTypePreauthorizationCompletion_def CardTxTypeTransferToAccount_def CardTxTypeTransferFromAccount_def
  CardTxOperationWithdrawal_def CardTxOperationDeposit_def CardTxOperationNone_def
  CardTxStatusProcessing_def CardTxStatusCompleted_def CardTxStatusReversed_def
  CardTxStatusDeclined_def WebhookEventKYCAccepted_def WebhookEventKYCRejected_def
  WebhookEventKYCActionRequired_def WebhookEventKYCResubmission_def WebhookEventDocumentNoticeExpired_def
  WebhookEventDocumentNoticeWarning_def WebhookEventDepositCompleted_def WebhookEventWithdrawalCompleted_def
  WebhookEventWithdrawalRejected_def WebhookEventCardCreated_def WebhookEventCardTransactionAuthorization_def
  WebhookEventCardTransaction_def WebhookEventCard3DS_def CardStatusActive_def
  CardStatusBlocked_def CardStatusTemporaryBlocked_def CardStatusReplaced_def
  CardStatusSoftDelete_def CardStatusAccountBlocked_def CardStatusInCreation_def
  MockWithdrawalIBAN_def MockWithdrawalLegalName_def MockWithdrawalReference_def
  TestUser1ID_def TestUser1Email_def TestUser2ID_def
  TestUser2Email_def

text \<open>Reading a Go map of strings: the empty string for an absent key.\<close>

definition mstr :: "string gomap \<Rightarrow> string \<Rightarrow> string" where
  "mstr m k = (case mget m k of None \<Rightarrow> [] | Some v \<Rightarrow> v)"

section \<open>Facts about the constants\<close>

lemma tx_status_distinct [simp]:
  "TransactionStatusPending \<noteq> TransactionStatusCompleted"
  "TransactionStatusCompleted \<noteq> TransactionStatusPending"
  "TransactionStatusPending \<noteq> TransactionStatusFailed"
  "TransactionStatusFailed \<noteq> TransactionStatusPending"
  "TransactionStatusCompleted \<noteq> TransactionStatusFailed"
  "TransactionStatusFailed \<noteq> TransactionStatusCompleted"
  by (simp_all add: const_defs)

lemma deposit_type_distinct [simp]:
  "DepositTypeExternal \<noteq> DepositTypeHosted" "DepositTypeHosted \<noteq> DepositTypeExternal"
  "DepositTypeExternal \<noteq> DepositTypeWithdrawal" "DepositTypeWithdrawal \<noteq> DepositTypeExternal"
  "DepositTypeHosted \<noteq> DepositTypeWithdrawal" "DepositTypeWithdrawal \<noteq> DepositTypeHosted"
  "DepositTypeExternal \<noteq> []" "DepositTypeHosted \<noteq> []" "DepositTypeWithdrawal \<noteq> []"
  by (simp_all add: const_defs)

lemma withdrawal_event_distinct [simp]:
  "WebhookEventWithdrawalCompleted \<noteq> WebhookEventWithdrawalRejected"
  "WebhookEventWithdrawalRejected \<noteq> WebhookEventWithdrawalCompleted"
  by (simp_all add: const_defs)

lemma card_status_distinct [simp]:
  "CardStatusActive \<noteq> CardStatusBlocked" "CardStatusBlocked \<noteq> CardStatusActive"
  "CardStatusActive \<noteq> CardStatusTemporaryBlocked" "CardStatusTemporaryBlocked \<noteq> CardStatusActive"
  "CardStatusActive \<noteq> CardStatusSoftDelete" "CardStatusSoftDelete \<noteq> CardStatusActive"
  "CardStatusBlocked \<noteq> CardStatusTemporaryBlocked" "CardStatusTemporaryBlocked \<noteq> CardStatusBlocked"
  "CardStatusBlocked \<noteq> CardStatusSoftDelete" "CardStatusSoftDelete \<noteq> CardStatusBlocked"
  "CardStatusTemporaryBlocked \<noteq> CardStatusSoftDelete"
  "CardStatusSoftDelete \<noteq> CardStatusTemporaryBlocked"
  by (simp_all add: const_defs)

lemma vault_tables_swap: "VaultUUIDToCurrency = map (\<lambda>(c, v). (v, c)) SandboxVaultIDs"
  by (simp add: VaultUUIDToCurrency_def SandboxVaultIDs_def)

lemma vault_tables_wf [simp]: "wf_map SandboxVaultIDs" "wf_map VaultUUIDToCurrency"
  by (simp_all add: wf_map_def VaultUUIDToCurrency_def SandboxVaultIDs_def)

lemma vault_tables_inverse:
  "mget VaultUUIDToCurrency v = Some c \<longleftrightarrow> mget SandboxVaultIDs c = Some v"
proof -
  have "mget VaultUUIDToCurrency v = Some c \<longleftrightarrow> (v, c) \<in> set VaultUUIDToCurrency"
    using vault_tables_wf(2) by (simp add: wf_map_def)
  also have "\<dots> \<longleftrightarrow> (c, v) \<in> set SandboxVaultIDs"
    by (auto simp: vault_tables_swap)
  also have "\<dots> \<longleftrightarrow> mget SandboxVaultIDs c = Some v"
    using vault_tables_wf(1) by (simp add: wf_map_def)
  finally show ?thesis .
qed

lemma vault_table_domain: "dom (mget SandboxVaultIDs) = set SandboxCurrencies"
  unfolding dom_map_of_conv_image_fst SandboxVaultIDs_def SandboxCurrencies_def by auto

lemma rate_table_domain: "dom (mget SandboxRates) = set SandboxCurrencies"
  unfolding dom_map_of_conv_image_fst SandboxRates_def SandboxCurrencies_def by auto

end
