(* ===== verification/Fees.thy ===== *)
theory Fees
  imports Consts
begin

text \<open>
  The fee configuration of \<^verbatim>\<open>internal/handler/fees.go\<close>: global percentages, overrides per
  user, and the fee of an amount. Its invariant \<open>fees_ok\<close> says that every percentage lies
  between 0 and 100.
\<close>

record userFeeOverride =
  uf_depositPercent :: "f64 option"
  uf_withdrawalPercent :: "f64 option"

record FeeConfig =
  fc_depositFeePercent :: f64
  fc_withdrawalFeePercent :: f64
  fc_userOverrides :: "userFeeOverride gomap"

definition NewFeeConfig :: FeeConfig where
  "NewFeeConfig =
     \<lparr>fc_depositFeePercent = f0, fc_withdrawalFeePercent = f0, fc_userOverrides = []\<rparr>"

definition GetDepositFeePercent :: "FeeConfig \<Rightarrow> f64" where
  "GetDepositFeePercent fc = fc_depositFeePercent fc"

definition GetWithdrawalFeePercent :: "FeeConfig \<Rightarrow> f64" where
  "GetWithdrawalFeePercent fc = fc_withdrawalFeePercent fc"

definition GetDepositFeeForUser :: "string \<Rightarrow> FeeConfig \<Rightarrow> f64 \<times> bool" where
  "GetDepositFeeForUser userID fc =
     (case mget (fc_userOverrides fc) userID of
        Some ov \<Rightarrow> (case uf_depositPercent ov of
                      Some p \<Rightarrow> (p, True)
                    | None \<Rightarrow> (fc_depositFeePercent fc, False))
      | None \<Rightarrow> (fc_depositFeePercent fc, False))"

definition GetWithdrawalFeeForUser :: "string \<Rightarrow> FeeConfig \<Rightarrow> f64 \<times> bool" where
  "GetWithdrawalFeeForUser userID fc =
     (case mget (fc_userOverrides fc) userID of
        Some ov \<Rightarrow> (case uf_withdrawalPercent ov of
                      Some p \<Rightarrow> (p, True)
                    | None \<Rightarrow> (fc_withdrawalFeePercent fc, False))
      | None \<Rightarrow> (fc_withdrawalFeePercent fc, False))"

definition SetDepositFeePercent :: "f64 \<Rightarrow> FeeConfig \<Rightarrow> FeeConfig" where
  "SetDepositFeePercent pct fc = fc\<lparr>fc_depositFeePercent := pct\<rparr>"

definition SetWithdrawalFeePercent :: "f64 \<Rightarrow> FeeConfig \<Rightarrow> FeeConfig" where
  "SetWithdrawalFeePercent pct fc = fc\<lparr>fc_withdrawalFeePercent := pct\<rparr>"

definition fc_SetUserFees :: "string \<Rightarrow> f64 option \<Rightarrow> f64 option \<Rightarrow> FeeConfig \<Rightarrow> FeeConfig" where
  "fc_SetUserFees userID depositPct withdrawalPct fc =
     (let ov0 = (case mget (fc_userOverrides fc) userID of
                   Some ov \<Rightarrow> ov
                 | None \<Rightarrow> \<lparr>uf_depositPercent = None, uf_withdrawalPercent = None\<rparr>);
          ov1 = (if depositPct \<noteq> None then ov0\<lparr>uf_depositPercent := depositPct\<rparr> else ov0);
          ov2 = (if withdrawalPct \<noteq> None then ov1\<lparr>uf_withdrawalPercent := withdrawalPct\<rparr> else ov1)
      in fc\<lparr>fc_userOverrides := mput userID ov2 (fc_userOverrides fc)\<rparr>)"

definition fc_ClearUserFees :: "string \<Rightarrow> FeeConfig \<Rightarrow> FeeConfig" where
  "fc_ClearUserFees userID fc = fc\<lparr>fc_userOverrides := mdel userID (fc_userOverrides fc)\<rparr>"

definition CalculateFee :: "f64 \<Rightarrow> f64 \<Rightarrow> f64" where
  "CalculateFee amount percent =
     (let raw = fdiv (fmul amount percent) (Fin 100)
      in fdiv (fround (fmul raw (Fin 100))) (Fin 100))"

section \<open>The invariant\<close>

definition valid_percent :: "f64 \<Rightarrow> bool" where
  "valid_percent p \<longleftrightarrow> fle f0 p \<and> fle p (Fin 100)"

definition valid_override :: "userFeeOverride \<Rightarrow> bool" where
  "valid_override ov \<longleftrightarrow>
     (case uf_depositPercent ov of None \<Rightarrow> True | Some p \<Rightarrow> valid_percent p) \<and>
     (case uf_withdrawalPercent ov of None \<Rightarrow> True | Some p \<Rightarrow> valid_percent p)"

definition fees_ok :: "FeeConfig \<Rightarrow> bool" where
  "fees_ok fc \<longleftrightarrow>
     valid_percent (fc_depositFeePercent fc) \<and> valid_percent (fc_withdrawalFeePercent fc) \<and>
     list_all (\<lambda>(u, ov). valid_override ov) (fc_userOverrides fc)"

lemma valid_percent_f0 [simp]: "valid_percent f0"
  by (simp add: valid_percent_def f0_def)

lemma valid_percent_finite: "valid_percent p \<Longrightarrow> is_finite p"
  by (cases p) (auto simp: valid_percent_def f0_def)

lemma fees_ok_New [simp]: "fees_ok NewFeeConfig"
  by (simp add: fees_ok_def NewFeeConfig_def)

lemma fees_ok_override:
  "fees_ok fc \<Longrightarrow> mget (fc_userOverrides fc) u = Some ov \<Longrightarrow> valid_override ov"
  by (auto simp: fees_ok_def list_all_iff dest: map_of_SomeD)

lemma set_mput: "set (mput k v m) \<subseteq> insert (k, v) (set m)"
  unfolding mput_def by (induction m) auto

lemma fees_ok_put:
  "fees_ok fc \<Longrightarrow> valid_override ov \<Longrightarrow> fees_ok (fc\<lparr>fc_userOverrides := mput u ov (fc_userOverrides fc)\<rparr>)"
  using set_mput [of u ov "fc_userOverrides fc"] by (auto simp: fees_ok_def list_all_iff)

lemma fees_ok_set_user:
  assumes "fees_ok fc" and "\<And>p. d = Some p \<Longrightarrow> valid_percent p"
    and "\<And>p. w = Some p \<Longrightarrow> valid_percent p"
  shows "fees_ok (fc_SetUserFees u d w fc)"
  unfolding fc_SetUserFees_def Let_def using fees_ok_override [OF assms(1), of u] assms(2,3)
  by (intro fees_ok_put assms(1)) (auto simp: valid_override_def split: option.splits)

lemma fees_ok_clear_user: "fees_ok fc \<Longrightarrow> fees_ok (fc_ClearUserFees u fc)"
  by (auto simp: fees_ok_def fc_ClearUserFees_def list_all_iff mdel_def AList.delete_eq)

lemma fees_ok_effective:
  assumes "fees_ok fc"
  shows "valid_percent (fst (GetDepositFeeForUser u fc))"
    and "valid_percent (fst (GetWithdrawalFeeForUser u fc))"
  using assms fees_ok_override [OF assms, of u]
  by (auto simp: GetDepositFeeForUser_def GetWithdrawalFeeForUser_def fees_ok_def valid_override_def
      split: option.splits)

section \<open>The fee of an amount\<close>

lemma CalculateFee_zero_percent:
  assumes "is_finite amount"
  shows "feq (CalculateFee amount f0) f0"
  using assms
  by (cases amount) (simp_all add: CalculateFee_def f0_def Let_def feq_def)

lemma fmul_const_nonneg: "fle f0 x \<Longrightarrow> 0 < q \<Longrightarrow> fle f0 (fmul x (Fin q))"
  by (cases x) auto

lemma CalculateFee_nonneg:
  assumes "fle f0 amount" and "is_finite amount" and "valid_percent p"
  shows "fle f0 (CalculateFee amount p)"
proof -
  have "fle f0 (fmul amount p)"
    using assms valid_percent_finite [OF assms(3)] by (intro fmul_nonneg) (auto simp: valid_percent_def)
  then show ?thesis
    unfolding CalculateFee_def Let_def
    by (intro fdiv_nonneg fround_nonneg fmul_const_nonneg) simp_all
qed

end
