(* ===== verification/Models.thy ===== *)
theory Models
  imports Consts
begin

text \<open>
  The structs of \<^verbatim>\<open>internal/models/models.go\<close>, one record each with every field (the
  field \<^verbatim>\<open>ID\<close> of \<^verbatim>\<open>User\<close> is \<open>u_ID\<close>, and so on), its zero value and its
  encoding as JSON, with the struct's tags in the order of its fields. A nil slice and an empty
  one are the same list; a field holding one is nil until the code fills it.
\<close>

record User =
  u_ID :: string
  u_Email :: string
  u_Activated :: bool
  u_Managed :: bool
  u_Role :: string
  u_Features :: "string list"
  u_KYCState :: string
  u_RiskLevel :: string
  u_IsProfileCreationDisabled :: bool
  u_CreatedAt :: time
  u_FirstName :: string
  u_MiddleName :: string
  u_LastName :: string
  u_Gender :: string
  u_BirthYear :: int
  u_BirthMonth :: int
  u_BirthDay :: int
  u_BirthCity :: string
  u_BirthCountryCode :: string
  u_Citizenship :: string
  u_AddressStreet1 :: string
  u_AddressStreet2 :: string
  u_AddressCity :: string
  u_AddressPostalCode :: string
  u_AddressSubdivision :: string
  u_AddressCountryCode :: string
  u_TaxResidency :: string
  u_ExpectedVolume :: string

definition zero_User :: User where
  "zero_User =
     \<lparr>u_ID = [], u_Email = [], u_Activated = False, u_Managed = False, u_Role = [],
      u_Features = [], u_KYCState = [], u_RiskLevel = [], u_IsProfileCreationDisabled = False,
      u_CreatedAt = 0, u_FirstName = [], u_MiddleName = [], u_LastName = [], u_Gender = [],
      u_BirthYear = 0, u_BirthMonth = 0, u_BirthDay = 0, u_BirthCity = [],
      u_BirthCountryCode = [], u_Citizenship = [], u_AddressStreet1 = [],
      u_AddressStreet2 = [], u_AddressCity = [], u_AddressPostalCode = [],
      u_AddressSubdivision = [], u_AddressCountryCode = [], u_TaxResidency = [],
      u_ExpectedVolume = []\<rparr>"

definition User_json :: "User \<Rightarrow> json" where
  "User_json r = JObj
     ([(''id'', JStr (u_ID r)),
       (''email'', JStr (u_Email r)),
       (''activated'', JBool (u_Activated r)),
       (''managed'', JBool (u_Managed r)),
       (''role'', JStr (u_Role r)),
       (''features'', jslice JStr (u_Features r)),
       (''kyc_state'', JStr (u_KYCState r)),
       (''risk_level'', JStr (u_RiskLevel r)),
       (''is_profile_creation_disabled'', JBool (u_IsProfileCreationDisabled r)),
       (''created_at'', jtime (u_CreatedAt r)),
       (''first_name'', JStr (u_FirstName r)),
       (''middle_name'', JStr (u_MiddleName r)),
       (''last_name'', JStr (u_LastName r)),
       (''gender'', JStr (u_Gender r)),
       (''birth_year'', JInt (u_BirthYear r)),
       (''birth_month'', JInt (u_BirthMonth r)),
       (''birth_day'', JInt (u_BirthDay r)),
       (''birth_city'', JStr (u_BirthCity r)),
       (''birth_country_code'', JStr (u_BirthCountryCode r)),
       (''citizenship'', JStr (u_Citizenship r)),
       (''address_street1'', JStr (u_AddressStreet1 r)),
       (''address_street2'', JStr (u_AddressStreet2 r)),
       (''address_city'', JStr (u_AddressCity r)),
       (''address_postal_code'', JStr (u_AddressPostalCode r)),
       (''address_subdivision'', JStr (u_AddressSubdivision r)),
       (''address_country_code'', JStr (u_AddressCountryCode r)),
       (''tax_residency'', JStr (u_TaxResidency r)),
       (''expected_volume'', JStr (u_ExpectedVolume r))])"

record Wallet =
  w_Address :: string
  w_UserID :: string
  w_Name :: string
  w_Type :: int
  w_Network :: int
  w_CreatedAt :: time

definition zero_Wallet :: Wallet where
  "zero_Wallet =
     \<lparr>w_Address = [], w_UserID = [], w_Name = [], w_Type = 0, w_Network = 0,
      w_CreatedAt = 0\<rparr>"

definition Wallet_json :: "Wallet \<Rightarrow> json" where
  "Wallet_json r = JObj
     ([(''address'', JStr (w_Address r)),
       (''user_id'', JStr (w_UserID r)),
       (''name'', JStr (w_Name r)),
       (''type'', JInt (w_Type r)),
       (''network'', JInt (w_Network r)),
       (''created_at'', jtime (w_CreatedAt r))])"

record Organization =
  org_ID :: string
  org_APIBaseURL :: string
  org_TwoFAType :: string
  org_CreatedAt :: time
  org_UpdatedAt :: time

definition zero_Organization :: Organization where
  "zero_Organization =
     \<lparr>org_ID = [], org_APIBaseURL = [], org_TwoFAType = [], org_CreatedAt = 0,
      org_UpdatedAt = 0\<rparr>"

definition Organization_json :: "Organization \<Rightarrow> json" where
  "Organization_json r = JObj
     ([(''id'', JStr (org_ID r)),
       (''apiBaseUrl'', JStr (org_APIBaseURL r)),
       (''type2fa'', JStr (org_TwoFAType r)),
       (''createdAt'', jtime (org_CreatedAt r)),
       (''updatedAt'', jtime (org_UpdatedAt r))])"

record Transaction =
  tx_ID :: string
  tx_UserID :: string
  tx_UID :: string
  tx_Amount :: string
  tx_TotalAmount :: string
  tx_Fee :: string
  tx_Currency :: string
  tx_VaultUUID :: string
  tx_SendingAddress :: string
  tx_ReceivingAddress :: string
  tx_Type :: int
  tx_DepositType :: string
  tx_Status :: int
  tx_CreatedAt :: time
  tx_AccountIBAN :: string
  tx_AccountLegalName :: string
  tx_Message :: string

definition zero_Transaction :: Transaction where
  "zero_Transaction =
     \<lparr>tx_ID = [], tx_UserID = [], tx_UID = [], tx_Amount = [], tx_TotalAmount = [],
      tx_Fee = [], tx_Currency = [], tx_VaultUUID = [], tx_SendingAddress = [],
      tx_ReceivingAddress = [], tx_Type = 0, tx_DepositType = [], tx_Status = 0,
      tx_CreatedAt = 0, tx_AccountIBAN = [], tx_AccountLegalName = [], tx_Message = []\<rparr>"

definition Transaction_json :: "Transaction \<Rightarrow> json" where
  "Transaction_json r = JObj
     ([(''uuid'', JStr (tx_ID r)),
       (''user_id'', JStr (tx_UserID r)),
       (''uid'', JStr (tx_UID r)),
       (''amount'', JStr (tx_Amount r)),
       (''total_amount'', JStr (tx_TotalAmount r)),
       (''fee'', JStr (tx_Fee r)),
       (''currency'', JStr (tx_Currency r)),
       (''vault_uuid'', JStr (tx_VaultUUID r)),
       (''sending_address'', JStr (tx_SendingAddress r)),
       (''receiving_address'', JStr (tx_ReceivingAddress r)),
       (''type'', JInt (tx_Type r)),
       (''deposit_type'', JStr (tx_DepositType r)),
       (''status'', JInt (tx_Status r)),
       (''created_at'', jtime (tx_CreatedAt r))] @
      omit_empty ''account_iban'' (tx_AccountIBAN r) @
      omit_empty ''account_legal_name'' (tx_AccountLegalName r) @
      omit_empty ''message'' (tx_Message r))"

end
