(* ===== verification/Card_Models.thy ===== *)
theory Card_Models
  imports Models
begin

text \<open>
  The structs of \<^verbatim>\<open>internal/models/cards.go\<close> that the program uses, with their zero values
  and their encodings as JSON.
\<close>

record Pagination =
  pg_PageNumber :: nat
  pg_PageSize :: nat
  pg_TotalPages :: nat

definition zero_Pagination :: Pagination where
  "zero_Pagination =
     \<lparr>pg_PageNumber = 0, pg_PageSize = 0, pg_TotalPages = 0\<rparr>"

definition Pagination_json :: "Pagination \<Rightarrow> json" where
  "Pagination_json r = JObj
     ([(''pageNumber'', (\<lambda>n. JInt (int n)) (pg_PageNumber r)),
       (''pageSize'', (\<lambda>n. JInt (int n)) (pg_PageSize r)),
       (''totalPages'', (\<lambda>n. JInt (int n)) (pg_TotalPages r))])"

record Card =
  c_ID :: string
  c_SourceID :: string
  c_AccountID :: string
  c_AccountSourceID :: string
  c_CustomerID :: string
  c_CustomerSourceID :: string
  c_NameOnCard :: string
  c_ProductCode :: string
  c_PanToken :: string
  c_MaskedPan :: string
  c_Status :: string
  c_StatusReasonCode :: "string option"
  c_LockLevel :: "string option"
  c_ExpiryDate :: string
  c_RelationType :: string
  c_MembershipFeeEffectiveDate :: "string option"
  c_IsFirstTimeLock :: bool
  c_PlasticCreated :: bool
  c_OrderPlasticOnSync :: bool
  c_CreatedAt :: time

definition zero_Card :: Card where
  "zero_Card =
     \<lparr>c_ID = [], c_SourceID = [], c_AccountID = [], c_AccountSourceID = [],
      c_CustomerID = [], c_CustomerSourceID = [], c_NameOnCard = [], c_ProductCode = [],
      c_PanToken = [], c_MaskedPan = [], c_Status = [], c_StatusReasonCode = None,
      c_LockLevel = None, c_ExpiryDate = [], c_RelationType = [],
      c_MembershipFeeEffectiveDate = None, c_IsFirstTimeLock = False,
      c_PlasticCreated = False, c_OrderPlasticOnSync = False, c_CreatedAt = 0\<rparr>"

definition Card_json :: "Card \<Rightarrow> json" where
  "Card_json r = JObj
     ([(''id'', JStr (c_ID r)),
       (''sourceId'', JStr (c_SourceID r)),
       (''accountId'', JStr (c_AccountID r)),
       (''accountSourceId'', JStr (c_AccountSourceID r)),
       (''customerId'', JStr (c_CustomerID r)),
       (''customerSourceId'', JStr (c_CustomerSourceID r)),
       (''nameOnCard'', JStr (c_NameOnCard r)),
       (''productCode'', JStr (c_ProductCode r)),
       (''panToken'', JStr (c_PanToken r)),
       (''maskedPan'', JStr (c_MaskedPan r)),
       (''status'', JStr (c_Status r)),
       (''statusReasonCode'', jopt JStr (c_StatusReasonCode r)),
       (''lockLevel'', jopt JStr (c_LockLevel r)),
       (''expiryDate'', JStr (c_ExpiryDate r)),
       (''relationType'', JStr (c_RelationType r)),
       (''membershipFeeEffectiveDate'', jopt JStr (c_MembershipFeeEffectiveDate r)),
       (''isFirstTimeLock'', JBool (c_IsFirstTimeLock r)),
       (''plasticCreated'', JBool (c_PlasticCreated r)),
       (''OrderPlasticOnSync'', JBool (c_OrderPlasticOnSync r)),
       (''createdAt'', jtime (c_CreatedAt r))])"

record ListCardsResponse =
  lcr_Data :: "Card list"
  lcr_Pagination :: Pagination

definition zero_ListCardsResponse :: ListCardsResponse where
  "zero_ListCardsResponse =
     \<lparr>lcr_Data = [], lcr_Pagination = zero_Pagination\<rparr>"

definition ListCardsResponse_json :: "ListCardsResponse \<Rightarrow> json" where
  "ListCardsResponse_json r = JObj
     ([(''data'', JArr (map Card_json (lcr_Data r))),
       (''pagination'', Pagination_json (lcr_Pagination r))])"

record CustomerDeliveryAddress =
  da_ID :: string
  da_SourceID :: string
  da_CustomerID :: string
  da_CustomerSourceID :: string
  da_Type :: string
  da_Line1 :: string
  da_Line2 :: "string option"
  da_Line3 :: "string option"
  da_City :: string
  da_PostOffice :: "string option"
  da_ZipCode :: string
  da_CountryCode :: string
  da_Status :: string

definition zero_CustomerDeliveryAddress :: CustomerDeliveryAddress where
  "zero_CustomerDeliveryAddress =
     \<lparr>da_ID = [], da_SourceID = [], da_CustomerID = [], da_CustomerSourceID = [],
      da_Type = [], da_Line1 = [], da_Line2 = None, da_Line3 = None, da_City = [],
      da_PostOffice = None, da_ZipCode = [], da_CountryCode = [], da_Status = []\<rparr>"

definition CustomerDeliveryAddress_json :: "CustomerDeliveryAddress \<Rightarrow> json" where
  "CustomerDeliveryAddress_json r = JObj
     ([(''id'', JStr (da_ID r)),
       (''sourceId'', JStr (da_SourceID r)),
       (''customerId'', JStr (da_CustomerID r)),
       (''customerSourceId'', JStr (da_CustomerSourceID r)),
       (''type'', JStr (da_Type r)),
       (''line1'', JStr (da_Line1 r)),
       (''line2'', jopt JStr (da_Line2 r)),
       (''line3'', jopt JStr (da_Line3 r)),
       (''city'', JStr (da_City r)),
       (''postOffice'', jopt JStr (da_PostOffice r)),
       (''zipCode'', JStr (da_ZipCode r)),
       (''countryCode'', JStr (da_CountryCode r)),
       (''status'', JStr (da_Status r))])"

record Account =
  acc_ID :: "string option"
  acc_SourceID :: string
  acc_CustomerID :: "string option"
  acc_CustomerSourceID :: string
  acc_ProductCode :: string
  acc_Currency :: string
  acc_AccountNumber :: string
  acc_Type :: string
  acc_Status :: string
  acc_StatusReasonCode :: string
  acc_Cards :: "Card list"
  acc_CreatedAt :: time

definition zero_Account :: Account where
  "zero_Account =
     \<lparr>acc_ID = None, acc_SourceID = [], acc_CustomerID = None,
      acc_CustomerSourceID = [], acc_ProductCode = [], acc_Currency = [],
      acc_AccountNumber = [], acc_Type = [], acc_Status = [], acc_StatusReasonCode = [],
      acc_Cards = [], acc_CreatedAt = 0\<rparr>"

definition Account_json :: "Account \<Rightarrow> json" where
  "Account_json r = JObj
     ([(''id'', jopt JStr (acc_ID r)),
       (''sourceId'', JStr (acc_SourceID r)),
       (''customerId'', jopt JStr (acc_CustomerID r)),
       (''customerSourceId'', JStr (acc_CustomerSourceID r)),
       (''productCode'', JStr (acc_ProductCode r)),
       (''currency'', JStr (acc_Currency r)),
       (''accountNumber'', JStr (acc_AccountNumber r)),
       (''type'', JStr (acc_Type r)),
       (''status'', JStr (acc_Status r)),
       (''statusReasonCode'', JStr (acc_StatusReasonCode r)),
       (''cards'', jslice Card_json (acc_Cards r)),
       (''createdAt'', jtime (acc_CreatedAt r))])"

record Customer =
  cu_ID :: "string option"
  cu_SourceID :: string
  cu_Type :: string
  cu_Code :: string
  cu_TaxNumber :: string
  cu_KYCStatus :: string
  cu_Addresses :: "CustomerDeliveryAddress list"
  cu_Accounts :: "Account list"
  cu_CreatedAt :: time

definition zero_Customer :: Customer where
  "zero_Customer =
     \<lparr>cu_ID = None, cu_SourceID = [], cu_Type = [], cu_Code = [], cu_TaxNumber = [],
      cu_KYCStatus = [], cu_Addresses = [], cu_Accounts = [], cu_CreatedAt = 0\<rparr>"

definition Customer_json :: "Customer \<Rightarrow> json" where
  "Customer_json r = JObj
     ([(''id'', jopt JStr (cu_ID r)),
       (''sourceId'', JStr (cu_SourceID r)),
       (''type'', JStr (cu_Type r)),
       (''code'', JStr (cu_Code r)),
       (''taxNumber'', JStr (cu_TaxNumber r)),
       (''kycStatus'', JStr (cu_KYCStatus r)),
       (''addresses'', jslice CustomerDeliveryAddress_json (cu_Addresses r)),
       (''accounts'', jslice Account_json (cu_Accounts r)),
       (''createdAt'', jtime (cu_CreatedAt r))])"

record CustomerResponse =
  cur_WalletAddress :: string
  cur_Customer :: Customer

definition zero_CustomerResponse :: CustomerResponse where
  "zero_CustomerResponse =
     \<lparr>cur_WalletAddress = [], cur_Customer = zero_Customer\<rparr>"

definition CustomerResponse_json :: "CustomerResponse \<Rightarrow> json" where
  "CustomerResponse_json r = JObj
     ([(''walletAddress'', JStr (cur_WalletAddress r)),
       (''customers'', Customer_json (cur_Customer r))])"

record NewCardArgs =
  nca_ProductCode :: string

definition zero_NewCardArgs :: NewCardArgs where
  "zero_NewCardArgs =
     \<lparr>nca_ProductCode = []\<rparr>"

record CardAccount =
  ca_ProductCode :: string
  ca_Currency :: string
  ca_Card :: NewCardArgs

definition zero_CardAccount :: CardAccount where
  "zero_CardAccount =
     \<lparr>ca_ProductCode = [], ca_Currency = [], ca_Card = zero_NewCardArgs\<rparr>"

record CreateCustomerDeliveryAddressArgs =
  cda_Type :: string
  cda_CountryCode :: string
  cda_Line1 :: string
  cda_Line2 :: "string option"
  cda_Line3 :: "string option"
  cda_City :: string
  cda_PostOffice :: "string option"
  cda_ZipCode :: string
  cda_Reason :: string

definition zero_CreateCustomerDeliveryAddressArgs :: CreateCustomerDeliveryAddressArgs where
  "zero_CreateCustomerDeliveryAddressArgs =
     \<lparr>cda_Type = [], cda_CountryCode = [], cda_Line1 = [], cda_Line2 = None,
      cda_Line3 = None, cda_City = [], cda_PostOffice = None, cda_ZipCode = [],
      cda_Reason = []\<rparr>"

record CreateCustomerAndCardArgs =
  cca_WalletAddress :: string
  cca_Account :: CardAccount
  cca_Delivery :: "CreateCustomerDeliveryAddressArgs option"
  cca_NameOnCard :: string

definition zero_CreateCustomerAndCardArgs :: CreateCustomerAndCardArgs where
  "zero_CreateCustomerAndCardArgs =
     \<lparr>cca_WalletAddress = [], cca_Account = zero_CardAccount, cca_Delivery = None,
      cca_NameOnCard = []\<rparr>"

record GetCardTokenArgs =
  gct_CardID :: string
  gct_PublicKey :: "string option"

definition zero_GetCardTokenArgs :: GetCardTokenArgs where
  "zero_GetCardTokenArgs =
     \<lparr>gct_CardID = [], gct_PublicKey = None\<rparr>"

record CardLimit =
  cl_Type :: string
  cl_Limit :: f64
  cl_Currency :: string
  cl_IsDisabled :: bool

definition zero_CardLimit :: CardLimit where
  "zero_CardLimit =
     \<lparr>cl_Type = [], cl_Limit = f0, cl_Currency = [], cl_IsDisabled = False\<rparr>"

definition CardLimit_json :: "CardLimit \<Rightarrow> json" where
  "CardLimit_json r = JObj
     ([(''type'', JStr (cl_Type r)),
       (''limit'', JNum (cl_Limit r)),
       (''currency'', JStr (cl_Currency r)),
       (''isDisabled'', JBool (cl_IsDisabled r))])"

record CardTokenLink =
  ctl_Href :: string
  ctl_Rel :: string
  ctl_Method :: string

definition zero_CardTokenLink :: CardTokenLink where
  "zero_CardTokenLink =
     \<lparr>ctl_Href = [], ctl_Rel = [], ctl_Method = []\<rparr>"

definition CardTokenLink_json :: "CardTokenLink \<Rightarrow> json" where
  "CardTokenLink_json r = JObj
     ([(''href'', JStr (ctl_Href r)),
       (''rel'', JStr (ctl_Rel r)),
       (''method'', JStr (ctl_Method r))])"

record CardTokenResponse =
  ctr_Token :: string
  ctr_Links :: "CardTokenLink list"

definition zero_CardTokenResponse :: CardTokenResponse where
  "zero_CardTokenResponse =
     \<lparr>ctr_Token = [], ctr_Links = []\<rparr>"

definition CardTokenResponse_json :: "CardTokenResponse \<Rightarrow> json" where
  "CardTokenResponse_json r = JObj
     ([(''token'', JStr (ctr_Token r)),
       (''links'', JArr (map CardTokenLink_json (ctr_Links r)))])"

record CreateCardTransactionArgs =
  cct_CardID :: string
  cct_CardGUID :: string
  cct_Amount :: string
  cct_Currency :: string
  cct_Type :: int
  cct_MerchantName :: "string option"
  cct_MerchantCity :: "string option"
  cct_MerchantCountry :: "string option"

definition zero_CreateCardTransactionArgs :: CreateCardTransactionArgs where
  "zero_CreateCardTransactionArgs =
     \<lparr>cct_CardID = [], cct_CardGUID = [], cct_Amount = [], cct_Currency = [],
      cct_Type = 0, cct_MerchantName = None, cct_MerchantCity = None,
      cct_MerchantCountry = None\<rparr>"

record MastercardConversion =
  mc_ConvRate :: "string option"
  mc_RefConRate :: "string option"
  mc_RefConfRateDiff :: "string option"

definition zero_MastercardConversion :: MastercardConversion where
  "zero_MastercardConversion =
     \<lparr>mc_ConvRate = None, mc_RefConRate = None, mc_RefConfRateDiff = None\<rparr>"

definition MastercardConversion_json :: "MastercardConversion \<Rightarrow> json" where
  "MastercardConversion_json r = JObj
     ([(''convRate'', jopt JStr (mc_ConvRate r)),
       (''refConRate'', jopt JStr (mc_RefConRate r)),
       (''refConfRateDiff'', jopt JStr (mc_RefConfRateDiff r))])"

record CardTransaction =
  ct_ID :: "int option"
  ct_VaultID :: "int option"
  ct_CardID :: "int option"
  ct_TransactionID :: string
  ct_RefTransactionID :: "string option"
  ct_ResponseCode :: "string option"
  ct_GHResponseCode :: string
  ct_GHResponseDescription :: string
  ct_TransactionAmount :: "string option"
  ct_TransactionCurrency :: "string option"
  ct_BillingAmount :: "string option"
  ct_BillingCurrency :: "string option"
  ct_IsTrxAmountConverted :: bool
  ct_TerminalID :: string
  ct_CardScheme :: int
  ct_Type :: int
  ct_Source :: "string option"
  ct_EntryMode :: "int option"
  ct_AuthorizationCode :: "string option"
  ct_SplitIntoMultiple :: "bool option"
  ct_Authentication :: "int option"
  ct_AuthenticationProtocol :: "int option"
  ct_Wallet :: "int option"
  ct_TransactionDateTime :: "string option"
  ct_ProcessDateTime :: "string option"
  ct_CreatedAt :: string
  ct_TxStatus :: "string option"
  ct_Operation :: int
  ct_Mcc :: "string option"
  ct_MerchantStreet :: "string option"
  ct_MerchantCity :: "string option"
  ct_MerchantZip :: "string option"
  ct_MerchantCountry :: "string option"
  ct_MerchantName :: "string option"
  ct_MerchantID :: "string option"
  ct_TransactionClassification :: "string option"
  ct_SpendExchangeRate :: "string option"
  ct_SpendCurrency :: "string option"
  ct_MastercardConversion :: "MastercardConversion option"

definition zero_CardTransaction :: CardTransaction where
  "zero_CardTransaction =
     \<lparr>ct_ID = None, ct_VaultID = None, ct_CardID = None, ct_TransactionID = [],
      ct_RefTransactionID = None, ct_ResponseCode = None, ct_GHResponseCode = [],
      ct_GHResponseDescription = [], ct_TransactionAmount = None,
      ct_TransactionCurrency = None, ct_BillingAmount = None, ct_BillingCurrency = None,
      ct_IsTrxAmountConverted = False, ct_TerminalID = [], ct_CardScheme = 0, ct_Type = 0,
      ct_Source = None, ct_EntryMode = None, ct_AuthorizationCode = None,
      ct_SplitIntoMultiple = None, ct_Authentication = None, ct_AuthenticationProtocol = None,
      ct_Wallet = None, ct_TransactionDateTime = None, ct_ProcessDateTime = None,
      ct_CreatedAt = [], ct_TxStatus = None, ct_Operation = 0, ct_Mcc = None,
      ct_MerchantStreet = None, ct_MerchantCity = None, ct_MerchantZip = None,
      ct_MerchantCountry = None, ct_MerchantName = None, ct_MerchantID = None,
      ct_TransactionClassification = None, ct_SpendExchangeRate = None,
      ct_SpendCurrency = None, ct_MastercardConversion = None\<rparr>"

definition CardTransaction_json :: "CardTransaction \<Rightarrow> json" where
  "CardTransaction_json r = JObj
     ([(''id'', jopt JInt (ct_ID r)),
       (''vaultId'', jopt JInt (ct_VaultID r)),
       (''cardId'', jopt JInt (ct_CardID r)),
       (''transactionId'', JStr (ct_TransactionID r)),
       (''refTransactionId'', jopt JStr (ct_RefTransactionID r)),
       (''responseCode'', jopt JStr (ct_ResponseCode r)),
       (''ghResponseCode'', JStr (ct_GHResponseCode r)),
       (''ghResponseDescription'', JStr (ct_GHResponseDescription r)),
       (''transactionAmount'', jopt JStr (ct_TransactionAmount r)),
       (''transactionCurrency'', jopt JStr (ct_TransactionCurrency r)),
       (''billingAmount'', jopt JStr (ct_BillingAmount r)),
       (''billingCurrency'', jopt JStr (ct_BillingCurrency r)),
       (''isTrxAmountConverted'', JBool (ct_IsTrxAmountConverted r)),
       (''terminalId'', JStr (ct_TerminalID r)),
       (''cardScheme'', JInt (ct_CardScheme r)),
       (''type'', JInt (ct_Type r)),
       (''source'', jopt JStr (ct_Source r)),
       (''entryMode'', jopt JInt (ct_EntryMode r)),
       (''authorizationCode'', jopt JStr (ct_AuthorizationCode r)),
       (''splitIntoMultiple'', jopt JBool (ct_SplitIntoMultiple r)),
       (''authentication'', jopt JInt (ct_Authentication r)),
       (''authenticationProtocol'', jopt JInt (ct_AuthenticationProtocol r)),
       (''wallet'', jopt JInt (ct_Wallet r)),
       (''transactionDateTime'', jopt JStr (ct_TransactionDateTime r)),
       (''processDateTime'', jopt JStr (ct_ProcessDateTime r)),
       (''createdAt'', JStr (ct_CreatedAt r)),
       (''txStatus'', jopt JStr (ct_TxStatus r)),
       (''operation'', JInt (ct_Operation r)),
       (''mcc'', jopt JStr (ct_Mcc r)),
       (''merchantStreet'', jopt JStr (ct_MerchantStreet r)),
       (''merchantCity'', jopt JStr (ct_MerchantCity r)),
       (''merchantZip'', jopt JStr (ct_MerchantZip r)),
       (''merchantCountry'', jopt JStr (ct_MerchantCountry r)),
       (''merchantName'', jopt JStr (ct_MerchantName r)),
       (''merchantId'', jopt JStr (ct_MerchantID r)),
       (''transactionClassification'', jopt JStr (ct_TransactionClassification r)),
       (''spendExchangeRate'', jopt JStr (ct_SpendExchangeRate r)),
       (''spendCurrency'', jopt JStr (ct_SpendCurrency r)),
       (''mastercardConversion'', jopt MastercardConversion_json (ct_MastercardConversion r))])"

record PendingThreeDSConfirmation =
  ptc_TransactionID :: string
  ptc_MerchantName :: string
  ptc_PurchaseAmount :: string
  ptc_PurchaseCurrency :: string
  ptc_PurchaseDate :: string
  ptc_Timeout :: string

definition zero_PendingThreeDSConfirmation :: PendingThreeDSConfirmation where
  "zero_PendingThreeDSConfirmation =
     \<lparr>ptc_TransactionID = [], ptc_MerchantName = [], ptc_PurchaseAmount = [],
      ptc_PurchaseCurrency = [], ptc_PurchaseDate = [], ptc_Timeout = []\<rparr>"

definition PendingThreeDSConfirmation_json :: "PendingThreeDSConfirmation \<Rightarrow> json" where
  "PendingThreeDSConfirmation_json r = JObj
     ([(''transactionId'', JStr (ptc_TransactionID r)),
       (''merchantName'', JStr (ptc_MerchantName r)),
       (''purchaseAmount'', JStr (ptc_PurchaseAmount r)),
       (''purchaseCurrency'', JStr (ptc_PurchaseCurrency r)),
       (''purchaseDate'', JStr (ptc_PurchaseDate r)),
       (''timeout'', JStr (ptc_Timeout r))])"

record ThreeDSPaymentConfirmationArgs =
  tca_TransactionID :: string
  tca_Confirmed :: bool
  tca_AuthMethod :: string

definition zero_ThreeDSPaymentConfirmationArgs :: ThreeDSPaymentConfirmationArgs where
  "zero_ThreeDSPaymentConfirmationArgs =
     \<lparr>tca_TransactionID = [], tca_Confirmed = False, tca_AuthMethod = []\<rparr>"

record ThreeDSChallenge =
  tds_TransactionID :: string
  tds_CardID :: string
  tds_UserID :: string
  tds_MerchantName :: string
  tds_PurchaseAmount :: string
  tds_PurchaseCurrency :: string
  tds_PurchaseDate :: string
  tds_Timeout :: time
  tds_Status :: string
  tds_CreatedAt :: time

definition zero_ThreeDSChallenge :: ThreeDSChallenge where
  "zero_ThreeDSChallenge =
     \<lparr>tds_TransactionID = [], tds_CardID = [], tds_UserID = [], tds_MerchantName = [],
      tds_PurchaseAmount = [], tds_PurchaseCurrency = [], tds_PurchaseDate = [],
      tds_Timeout = 0, tds_Status = [], tds_CreatedAt = 0\<rparr>"

definition ThreeDSChallenge_json :: "ThreeDSChallenge \<Rightarrow> json" where
  "ThreeDSChallenge_json r = JObj
     ([(''transactionId'', JStr (tds_TransactionID r)),
       (''cardId'', JStr (tds_CardID r)),
       (''userId'', JStr (tds_UserID r)),
       (''merchantName'', JStr (tds_MerchantName r)),
       (''purchaseAmount'', JStr (tds_PurchaseAmount r)),
       (''purchaseCurrency'', JStr (tds_PurchaseCurrency r)),
       (''purchaseDate'', JStr (tds_PurchaseDate r)),
       (''timeout'', jtime (tds_Timeout r)),
       (''status'', JStr (tds_Status r)),
       (''createdAt'', jtime (tds_CreatedAt r))])"

end
