(* ===== verification/Api_Models.thy ===== *)
theory Api_Models
  imports Card_Models
begin

text \<open>
  The requests and responses of \<^verbatim>\<open>internal/models/api.go\<close> and
  \<^verbatim>\<open>internal/models/messages.go\<close> that the handlers read and write.
\<close>

record UserProfile =
  up_UUID :: string
  up_BirthDay :: int
  up_BirthMonth :: int
  up_BirthYear :: int
  up_Gender :: string
  up_FirstName :: string
  up_MiddleName :: string
  up_LastName :: string
  up_Citizenship :: string
  up_AddressPostalCode :: string
  up_AddressSubdivision :: string
  up_AddressCountryCode :: string
  up_AddressCity :: string
  up_AddressStreet1 :: string
  up_AddressStreet2 :: string
  up_BirthCity :: string
  up_BirthCountryCode :: string
  up_TaxResidency :: string
  up_ExpectedVolume :: string

definition zero_UserProfile :: UserProfile where
  "zero_UserProfile =
     \<lparr>up_UUID = [], up_BirthDay = 0, up_BirthMonth = 0, up_BirthYear = 0,
      up_Gender = [], up_FirstName = [], up_MiddleName = [], up_LastName = [],
      up_Citizenship = [], up_AddressPostalCode = [], up_AddressSubdivision = [],
      up_AddressCountryCode = [], up_AddressCity = [], up_AddressStreet1 = [],
      up_AddressStreet2 = [], up_BirthCity = [], up_BirthCountryCode = [],
      up_TaxResidency = [], up_ExpectedVolume = []\<rparr>"

definition UserProfile_json :: "UserProfile \<Rightarrow> json" where
  "UserProfile_json r = JObj
     ([(''uuid'', JStr (up_UUID r)),
       (''birth_day'', JInt (up_BirthDay r)),
       (''birth_month'', JInt (up_BirthMonth r)),
       (''birth_year'', JInt (up_BirthYear r)),
       (''gender'', JStr (up_Gender r)),
       (''first_name'', JStr (up_FirstName r)),
       (''middle_name'', JStr (up_MiddleName r)),
       (''last_name'', JStr (up_LastName r)),
       (''citizenship'', JStr (up_Citizenship r)),
       (''address_postal_code'', JStr (up_AddressPostalCode r)),
       (''address_subdivision'', JStr (up_AddressSubdivision r)),
       (''address_country_code'', JStr (up_AddressCountryCode r)),
       (''address_city'', JStr (up_AddressCity r)),
       (''address_street1'', JStr (up_AddressStreet1 r)),
       (''address_street2'', JStr (up_AddressStreet2 r)),
       (''birth_city'', JStr (up_BirthCity r)),
       (''birth_country_code'', JStr (up_BirthCountryCode r)),
       (''tax_residency'', JStr (up_TaxResidency r)),
       (''expected_volume'', JStr (up_ExpectedVolume r))])"

record UserVerification =
  uv_UUID :: string
  uv_Status :: int
  uv_State :: int
  uv_Provider :: string
  uv_ProviderType :: string

definition zero_UserVerification :: UserVerification where
  "zero_UserVerification =
     \<lparr>uv_UUID = [], uv_Status = 0, uv_State = 0, uv_Provider = [],
      uv_ProviderType = []\<rparr>"

definition UserVerification_json :: "UserVerification \<Rightarrow> json" where
  "UserVerification_json r = JObj
     ([(''uuid'', JStr (uv_UUID r)),
       (''status'', JInt (uv_Status r)),
       (''state'', JInt (uv_State r)),
       (''provider'', JStr (uv_Provider r)),
       (''provider_type'', JStr (uv_ProviderType r))])"

record GetUserResponse =
  gur_ID :: string
  gur_UUID :: string
  gur_Email :: string
  gur_Activated :: bool
  gur_Managed :: bool
  gur_Role :: string
  gur_Features :: "string list"
  gur_KYCState :: string
  gur_RiskLevel :: string
  gur_IsProfileCreationDisabled :: bool
  gur_CreatedAt :: time
  gur_Profile :: UserProfile
  gur_Verifications :: "UserVerification list"

definition zero_GetUserResponse :: GetUserResponse where
  "zero_GetUserResponse =
     \<lparr>gur_ID = [], gur_UUID = [], gur_Email = [], gur_Activated = False,
      gur_Managed = False, gur_Role = [], gur_Features = [], gur_KYCState = [],
      gur_RiskLevel = [], gur_IsProfileCreationDisabled = False, gur_CreatedAt = 0,
      gur_Profile = zero_UserProfile, gur_Verifications = []\<rparr>"

definition GetUserResponse_json :: "GetUserResponse \<Rightarrow> json" where
  "GetUserResponse_json r = JObj
     ([(''id'', JStr (gur_ID r)),
       (''uuid'', JStr (gur_UUID r)),
       (''email'', JStr (gur_Email r)),
       (''activated'', JBool (gur_Activated r)),
       (''managed'', JBool (gur_Managed r)),
       (''role'', JStr (gur_Role r)),
       (''features'', jslice JStr (gur_Features r)),
       (''kyc_state'', JStr (gur_KYCState r)),
       (''risk_level'', JStr (gur_RiskLevel r)),
       (''is_profile_creation_disabled'', JBool (gur_IsProfileCreationDisabled r)),
       (''created_at'', jtime (gur_CreatedAt r)),
       (''profile'', UserProfile_json (gur_Profile r)),
       (''verifications'', jslice UserVerification_json (gur_Verifications r))])"

record UserWalletResponse =
  uwr_UUID :: string
  uwr_Address :: string
  uwr_Name :: string
  uwr_Type :: int
  uwr_Primary :: bool
  uwr_Active :: bool
  uwr_Enabled :: bool

definition zero_UserWalletResponse :: UserWalletResponse where
  "zero_UserWalletResponse =
     \<lparr>uwr_UUID = [], uwr_Address = [], uwr_Name = [], uwr_Type = 0,
      uwr_Primary = False, uwr_Active = False, uwr_Enabled = False\<rparr>"

definition UserWalletResponse_json :: "UserWalletResponse \<Rightarrow> json" where
  "UserWalletResponse_json r = JObj
     ([(''uuid'', JStr (uwr_UUID r)),
       (''address'', JStr (uwr_Address r)),
       (''name'', JStr (uwr_Name r)),
       (''type'', JInt (uwr_Type r)),
       (''primary'', JBool (uwr_Primary r)),
       (''active'', JBool (uwr_Active r)),
       (''enabled'', JBool (uwr_Enabled r))])"

record UserWalletsResponse =
  uwsr_Wallets :: "UserWalletResponse list"

definition zero_UserWalletsResponse :: UserWalletsResponse where
  "zero_UserWalletsResponse =
     \<lparr>uwsr_Wallets = []\<rparr>"

definition UserWalletsResponse_json :: "UserWalletsResponse \<Rightarrow> json" where
  "UserWalletsResponse_json r = JObj
     ([(''wallets'', JArr (map UserWalletResponse_json (uwsr_Wallets r)))])"

record VaultSummary =
  vs_UUID :: string
  vs_Name :: string
  vs_AssetCode :: string
  vs_CreatedAt :: string
  vs_UpdatedAt :: string

definition zero_VaultSummary :: VaultSummary where
  "zero_VaultSummary =
     \<lparr>vs_UUID = [], vs_Name = [], vs_AssetCode = [], vs_CreatedAt = [],
      vs_UpdatedAt = []\<rparr>"

definition VaultSummary_json :: "VaultSummary \<Rightarrow> json" where
  "VaultSummary_json r = JObj
     ([(''uuid'', JStr (vs_UUID r)),
       (''name'', JStr (vs_Name r)),
       (''asset_code'', JStr (vs_AssetCode r)),
       (''created_at'', JStr (vs_CreatedAt r)),
       (''updated_at'', JStr (vs_UpdatedAt r))])"

record WalletBalanceResponse =
  wbr_Available :: string
  wbr_Pending :: string
  wbr_Total :: string
  wbr_Vault :: VaultSummary

definition zero_WalletBalanceResponse :: WalletBalanceResponse where
  "zero_WalletBalanceResponse =
     \<lparr>wbr_Available = [], wbr_Pending = [], wbr_Total = [],
      wbr_Vault = zero_VaultSummary\<rparr>"

definition WalletBalanceResponse_json :: "WalletBalanceResponse \<Rightarrow> json" where
  "WalletBalanceResponse_json r = JObj
     ([(''available'', JStr (wbr_Available r)),
       (''pending'', JStr (wbr_Pending r)),
       (''total'', JStr (wbr_Total r)),
       (''vault'', VaultSummary_json (wbr_Vault r))])"

record CurrenciesResponse =
  cyr_Currencies :: "string list"

definition zero_CurrenciesResponse :: CurrenciesResponse where
  "zero_CurrenciesResponse =
     \<lparr>cyr_Currencies = []\<rparr>"

definition CurrenciesResponse_json :: "CurrenciesResponse \<Rightarrow> json" where
  "CurrenciesResponse_json r = JObj
     ([(''currencies'', JArr (map JStr (cyr_Currencies r)))])"

record CreateManagedUserRequest =
  cmu_Email :: string

definition zero_CreateManagedUserRequest :: CreateManagedUserRequest where
  "zero_CreateManagedUserRequest =
     \<lparr>cmu_Email = []\<rparr>"

record CreateManagedUserResponse =
  cmr_ID :: string
  cmr_Email :: string
  cmr_Activated :: bool
  cmr_Managed :: bool
  cmr_Role :: string
  cmr_Features :: "string list"
  cmr_KYCState :: string
  cmr_RiskLevel :: string
  cmr_CreatedAt :: string

definition zero_CreateManagedUserResponse :: CreateManagedUserResponse where
  "zero_CreateManagedUserResponse =
     \<lparr>cmr_ID = [], cmr_Email = [], cmr_Activated = False, cmr_Managed = False,
      cmr_Role = [], cmr_Features = [], cmr_KYCState = [], cmr_RiskLevel = [],
      cmr_CreatedAt = []\<rparr>"

definition CreateManagedUserResponse_json :: "CreateManagedUserResponse \<Rightarrow> json" where
  "CreateManagedUserResponse_json r = JObj
     ([(''id'', JStr (cmr_ID r)),
       (''email'', JStr (cmr_Email r)),
       (''activated'', JBool (cmr_Activated r)),
       (''managed'', JBool (cmr_Managed r)),
       (''role'', JStr (cmr_Role r)),
       (''features'', jslice JStr (cmr_Features r)),
       (''kyc_state'', JStr (cmr_KYCState r)),
       (''risk_level'', JStr (cmr_RiskLevel r)),
       (''created_at'', JStr (cmr_CreatedAt r))])"

record UpdateEmailRequest =
  uer_Email :: string
  uer_NewEmail :: string

definition zero_UpdateEmailRequest :: UpdateEmailRequest where
  "zero_UpdateEmailRequest =
     \<lparr>uer_Email = [], uer_NewEmail = []\<rparr>"

record UpdateKYCStateRequest =
  uks_State :: string
  uks_RiskLevel :: string

definition zero_UpdateKYCStateRequest :: UpdateKYCStateRequest where
  "zero_UpdateKYCStateRequest =
     \<lparr>uks_State = [], uks_RiskLevel = []\<rparr>"

record CreateWalletRequest =
  cwr_UserID :: string
  cwr_Name :: string
  cwr_Type :: int
  cwr_Network :: int

definition zero_CreateWalletRequest :: CreateWalletRequest where
  "zero_CreateWalletRequest =
     \<lparr>cwr_UserID = [], cwr_Name = [], cwr_Type = 0, cwr_Network = 0\<rparr>"

record CreateTransactionRequest =
  ctq_UserID :: string
  ctq_UID :: string
  ctq_Amount :: f64
  ctq_Currency :: string
  ctq_VaultUUID :: string
  ctq_SendingAddress :: string
  ctq_ReceivingAddress :: string
  ctq_Type :: int
  ctq_DepositType :: string

definition zero_CreateTransactionRequest :: CreateTransactionRequest where
  "zero_CreateTransactionRequest =
     \<lparr>ctq_UserID = [], ctq_UID = [], ctq_Amount = f0, ctq_Currency = [],
      ctq_VaultUUID = [], ctq_SendingAddress = [], ctq_ReceivingAddress = [], ctq_Type = 0,
      ctq_DepositType = []\<rparr>"

record RateItem =
  ri_Currency :: string
  ri_Rate :: f64

definition zero_RateItem :: RateItem where
  "zero_RateItem =
     \<lparr>ri_Currency = [], ri_Rate = f0\<rparr>"

definition RateItem_json :: "RateItem \<Rightarrow> json" where
  "RateItem_json r = JObj
     ([(''currency'', JStr (ri_Currency r)),
       (''rate'', JNum (ri_Rate r))])"

record GetRatesResponse =
  grr_Rates :: "RateItem list"

definition zero_GetRatesResponse :: GetRatesResponse where
  "zero_GetRatesResponse =
     \<lparr>grr_Rates = []\<rparr>"

definition GetRatesResponse_json :: "GetRatesResponse \<Rightarrow> json" where
  "GetRatesResponse_json r = JObj
     ([(''rates'', jslice RateItem_json (grr_Rates r))])"

record VaultItem =
  vi_Currency :: string
  vi_UUID :: string

definition zero_VaultItem :: VaultItem where
  "zero_VaultItem =
     \<lparr>vi_Currency = [], vi_UUID = []\<rparr>"

definition VaultItem_json :: "VaultItem \<Rightarrow> json" where
  "VaultItem_json r = JObj
     ([(''currency'', JStr (vi_Currency r)),
       (''uuid'', JStr (vi_UUID r))])"

record GetVaultsResponse =
  gvr_Vaults :: "VaultItem list"

definition zero_GetVaultsResponse :: GetVaultsResponse where
  "zero_GetVaultsResponse =
     \<lparr>gvr_Vaults = []\<rparr>"

definition GetVaultsResponse_json :: "GetVaultsResponse \<Rightarrow> json" where
  "GetVaultsResponse_json r = JObj
     ([(''vaults'', jslice VaultItem_json (gvr_Vaults r))])"

record UpdateOrganizationConfigurationRequest =
  uoq_APIBaseURL :: string
  uoq_TwoFAType :: string

definition zero_UpdateOrganizationConfigurationRequest :: UpdateOrganizationConfigurationRequest where
  "zero_UpdateOrganizationConfigurationRequest =
     \<lparr>uoq_APIBaseURL = [], uoq_TwoFAType = []\<rparr>"

record UpdateOrganizationConfigurationResponse =
  uor_ID :: string
  uor_APIBaseURL :: string
  uor_TwoFAType :: string
  uor_CreatedAt :: string
  uor_UpdatedAt :: string

definition zero_UpdateOrganizationConfigurationResponse :: UpdateOrganizationConfigurationResponse where
  "zero_UpdateOrganizationConfigurationResponse =
     \<lparr>uor_ID = [], uor_APIBaseURL = [], uor_TwoFAType = [], uor_CreatedAt = [],
      uor_UpdatedAt = []\<rparr>"

definition UpdateOrganizationConfigurationResponse_json :: "UpdateOrganizationConfigurationResponse \<Rightarrow> json" where
  "UpdateOrganizationConfigurationResponse_json r = JObj
     ([(''id'', JStr (uor_ID r)),
       (''apiBaseUrl'', JStr (uor_APIBaseURL r)),
       (''type2fa'', JStr (uor_TwoFAType r)),
       (''createdAt'', JStr (uor_CreatedAt r)),
       (''updatedAt'', JStr (uor_UpdatedAt r))])"

record ErrorResponse =
  er_Error :: string
  er_Message :: string

definition zero_ErrorResponse :: ErrorResponse where
  "zero_ErrorResponse =
     \<lparr>er_Error = [], er_Message = []\<rparr>"

definition ErrorResponse_json :: "ErrorResponse \<Rightarrow> json" where
  "ErrorResponse_json r = JObj
     ([(''error'', JStr (er_Error r))] @
      omit_empty ''message'' (er_Message r))"

record TokenResponse =
  tr_AccessToken :: string
  tr_Token :: string
  tr_TokenType :: string
  tr_ExpiresIn :: int

definition zero_TokenResponse :: TokenResponse where
  "zero_TokenResponse =
     \<lparr>tr_AccessToken = [], tr_Token = [], tr_TokenType = [], tr_ExpiresIn = 0\<rparr>"

definition TokenResponse_json :: "TokenResponse \<Rightarrow> json" where
  "TokenResponse_json r = JObj
     ([(''access_token'', JStr (tr_AccessToken r)),
       (''token'', JStr (tr_Token r)),
       (''token_type'', JStr (tr_TokenType r)),
       (''expires_in'', JInt (tr_ExpiresIn r))])"

end
