(* ===== verification/Store_Interface.thy ===== *)
theory Store_Interface
  imports Api_Models
begin

text \<open>
  The interface \<^verbatim>\<open>storage.Storage\<close> of \<^verbatim>\<open>internal/storage/interface.go\<close>. A handler calls
  the store through this interface only, so the interface is a record of operations (a Go
  interface value is a table of methods) and a handler takes it as an argument. It is built
  section by section, as the source comments divide it.

  An operation acts on a \<^verbatim>\<open>store\<close>: the heap of the objects a caller shares with the store by
  pointer, and the state of the implementation. Users, customers and accounts are changed by
  handlers through a pointer that the store may hold too, so they are heap objects with
  addresses; the other objects a caller changes only before it hands them over, or writes back
  through the interface right after, and are values. An operation that draws a fresh UUID or reads the clock
  takes the answer as an argument, one that ranges over a Go map the order of its keys.
\<close>

section \<open>The heap\<close>

record heap =
  next_addr :: addr
  user_at :: "addr \<Rightarrow> User"
  customer_at :: "addr \<Rightarrow> Customer"
  account_at :: "addr \<Rightarrow> Account"

definition empty_heap :: heap where
  "empty_heap =
     \<lparr>next_addr = 0, user_at = (\<lambda>_. zero_User), customer_at = (\<lambda>_. zero_Customer),
      account_at = (\<lambda>_. zero_Account)\<rparr>"

record 's store =
  hp :: heap
  db :: 's

abbreviation user_of :: "'s store \<Rightarrow> addr \<Rightarrow> User" where
  "user_of s \<equiv> user_at (hp s)"

abbreviation customer_of :: "'s store \<Rightarrow> addr \<Rightarrow> Customer" where
  "customer_of s \<equiv> customer_at (hp s)"

abbreviation account_of :: "'s store \<Rightarrow> addr \<Rightarrow> Account" where
  "account_of s \<equiv> account_at (hp s)"

definition set_user :: "addr \<Rightarrow> User \<Rightarrow> 's store \<Rightarrow> 's store" where
  "set_user p u s = s\<lparr>hp := (hp s)\<lparr>user_at := (user_of s)(p := u)\<rparr>\<rparr>"

definition set_customer :: "addr \<Rightarrow> Customer \<Rightarrow> 's store \<Rightarrow> 's store" where
  "set_customer p c s = s\<lparr>hp := (hp s)\<lparr>customer_at := (customer_of s)(p := c)\<rparr>\<rparr>"

definition set_account :: "addr \<Rightarrow> Account \<Rightarrow> 's store \<Rightarrow> 's store" where
  "set_account p a s = s\<lparr>hp := (hp s)\<lparr>account_at := (account_of s)(p := a)\<rparr>\<rparr>"

definition bump :: "'s store \<Rightarrow> 's store" where
  "bump s = s\<lparr>hp := (hp s)\<lparr>next_addr := Suc (next_addr (hp s))\<rparr>\<rparr>"

text \<open>The address operator: \<^verbatim>\<open>&models.User{...}\<close> and its like.\<close>

definition alloc_user :: "User \<Rightarrow> 's store \<Rightarrow> addr \<times> 's store" where
  "alloc_user u s = (next_addr (hp s), set_user (next_addr (hp s)) u (bump s))"

definition alloc_customer :: "Customer \<Rightarrow> 's store \<Rightarrow> addr \<times> 's store" where
  "alloc_customer c s = (next_addr (hp s), set_customer (next_addr (hp s)) c (bump s))"

definition alloc_account :: "Account \<Rightarrow> 's store \<Rightarrow> addr \<times> 's store" where
  "alloc_account a s = (next_addr (hp s), set_account (next_addr (hp s)) a (bump s))"

lemma heap_simps [simp]:
  "db (set_user p u s) = db s" "db (set_customer p c s) = db s" "db (set_account p a s) = db s"
  "db (bump s) = db s"
  "next_addr (hp (set_user p u s)) = next_addr (hp s)"
  "next_addr (hp (set_customer p c s)) = next_addr (hp s)"
  "next_addr (hp (set_account p a s)) = next_addr (hp s)"
  "next_addr (hp (bump s)) = Suc (next_addr (hp s))"
  "user_of (set_user p u s) = (user_of s)(p := u)"
  "user_of (set_customer p c s) = user_of s"
  "user_of (set_account p a s) = user_of s"
  "user_of (bump s) = user_of s"
  "customer_of (set_customer p c s) = (customer_of s)(p := c)"
  "customer_of (set_user p u s) = customer_of s"
  "customer_of (set_account p a s) = customer_of s"
  "customer_of (bump s) = customer_of s"
  "account_of (set_account p a s) = (account_of s)(p := a)"
  "account_of (set_user p u s) = account_of s"
  "account_of (set_customer p c s) = account_of s"
  "account_of (bump s) = account_of s"
  by (simp_all add: set_user_def set_customer_def set_account_def bump_def)

section \<open>The operations\<close>

text \<open>A raw payload is the encoding of a JSON object: its only writer stores an encoded map.\<close>

type_synonym RawMessage = "(string \<times> json) list"

type_synonym 's fallible = "'s store \<Rightarrow> go_error option \<times> 's store"

record 's user_ops =
  s_CreateUser :: "addr \<Rightarrow> string \<Rightarrow> time \<Rightarrow> 's fallible"
  s_GetUser :: "string \<Rightarrow> 's store \<Rightarrow> (go_error + addr) \<times> 's store"
  s_GetUserByEmail :: "string \<Rightarrow> 's store \<Rightarrow> (go_error + addr) \<times> 's store"
  s_UpdateUser :: "addr \<Rightarrow> 's fallible"
  s_ListUsers :: "key_order \<Rightarrow> 's store \<Rightarrow> (go_error + addr list) \<times> 's store"

record 's customer_ops = "'s user_ops" +
  s_CreateCustomer :: "addr \<Rightarrow> string \<Rightarrow> time \<Rightarrow> 's fallible"
  s_GetCustomer :: "string \<Rightarrow> 's store \<Rightarrow> (go_error + addr) \<times> 's store"
  s_GetCustomerBySourceID :: "string \<Rightarrow> 's store \<Rightarrow> (go_error + addr) \<times> 's store"
  s_UpdateCustomer :: "addr \<Rightarrow> 's fallible"

record 's account_ops = "'s customer_ops" +
  s_CreateAccount :: "addr \<Rightarrow> string \<Rightarrow> time \<Rightarrow> 's fallible"
  s_GetAccount :: "string \<Rightarrow> 's store \<Rightarrow> (go_error + addr) \<times> 's store"
  s_UpdateAccount :: "addr \<Rightarrow> 's fallible"

record 's address_ops = "'s account_ops" +
  s_CreateCustomerAddress ::
    "string \<Rightarrow> CustomerDeliveryAddress option \<Rightarrow> string \<Rightarrow> 's store \<Rightarrow>
       (go_error + CustomerDeliveryAddress) \<times> 's store"
  s_GetCustomerAddresses :: "string \<Rightarrow> 's store \<Rightarrow> go_error + CustomerDeliveryAddress list"

record 's card_ops = "'s address_ops" +
  s_CreateCard :: "Card \<Rightarrow> string \<Rightarrow> time \<Rightarrow> 's store \<Rightarrow> (go_error + Card) \<times> 's store"
  s_GetCard :: "string \<Rightarrow> 's store \<Rightarrow> go_error + Card"
  s_UpdateCard :: "Card \<Rightarrow> 's fallible"
  s_GetCardsByCustomer :: "key_order \<Rightarrow> string \<Rightarrow> 's store \<Rightarrow> go_error + Card list"
  s_GetCardsByAccount :: "key_order \<Rightarrow> string \<Rightarrow> 's store \<Rightarrow> go_error + Card list"
  s_GetCardLimits :: "string \<Rightarrow> 's store \<Rightarrow> go_error + CardLimit list"
  s_SetCardLimits :: "string \<Rightarrow> CardLimit list \<Rightarrow> 's fallible"
  s_SetCardPIN :: "string \<Rightarrow> string \<Rightarrow> 's fallible"
  s_GetCardPIN :: "string \<Rightarrow> 's store \<Rightarrow> go_error + string"

record 's card_tx_ops = "'s card_ops" +
  s_CreateCardTransaction :: "CardTransaction \<Rightarrow> 's fallible"
  s_GetCardTransaction :: "string \<Rightarrow> 's store \<Rightarrow> go_error + CardTransaction"
  s_UpdateCardTransactionStatus :: "string \<Rightarrow> string \<Rightarrow> 's fallible"
  s_AddCardTransactionIndex :: "string \<Rightarrow> string \<Rightarrow> 's fallible"
  s_GetCardTransactionIDs :: "string \<Rightarrow> 's store \<Rightarrow> go_error + string list"
  s_StoreRawCardTransaction :: "string \<Rightarrow> RawMessage \<Rightarrow> 's fallible"
  s_GetRawCardTransaction :: "string \<Rightarrow> 's store \<Rightarrow> go_error + RawMessage"
  s_NextCardTransactionSeqID :: "'s store \<Rightarrow> (go_error + int) \<times> 's store"
  s_PeekCardTransactionSeqID :: "'s store \<Rightarrow> go_error + int"

record 's wallet_ops = "'s card_tx_ops" +
  s_CreateWallet :: "Wallet \<Rightarrow> time \<Rightarrow> 's store \<Rightarrow> (go_error + Wallet) \<times> 's store"
  s_GetWallet :: "string \<Rightarrow> 's store \<Rightarrow> go_error + Wallet"
  s_GetWalletsByUser :: "key_order \<Rightarrow> string \<Rightarrow> 's store \<Rightarrow> go_error + Wallet list"

record 's transaction_ops = "'s wallet_ops" +
  s_CreateTransaction ::
    "Transaction \<Rightarrow> string \<Rightarrow> time \<Rightarrow> 's store \<Rightarrow> (go_error + Transaction) \<times> 's store"
  s_GetTransaction :: "string \<Rightarrow> 's store \<Rightarrow> go_error + Transaction"
  s_UpdateTransactionStatus :: "string \<Rightarrow> int \<Rightarrow> 's fallible"
  s_ListTransactionsByUser :: "string \<Rightarrow> 's store \<Rightarrow> go_error + Transaction list"

text \<open>\<^verbatim>\<open>GetBalance\<close> answers a number even beside an error, and callers read it.\<close>

record 's balance_ops = "'s transaction_ops" +
  s_GetBalance :: "string \<Rightarrow> string \<Rightarrow> 's store \<Rightarrow> f64 \<times> go_error option"
  s_GetAllBalances :: "string \<Rightarrow> 's store \<Rightarrow> go_error + f64 gomap"
  s_AddBalance :: "string \<Rightarrow> string \<Rightarrow> f64 \<Rightarrow> 's fallible"
  s_DeductBalance :: "string \<Rightarrow> string \<Rightarrow> f64 \<Rightarrow> 's fallible"

record 's threeds_ops = "'s balance_ops" +
  s_CreateThreeDSChallenge :: "ThreeDSChallenge \<Rightarrow> time \<Rightarrow> 's store \<Rightarrow> (go_error + ThreeDSChallenge) \<times> 's store"
  s_GetThreeDSChallenge :: "string \<Rightarrow> 's store \<Rightarrow> go_error + ThreeDSChallenge"
  s_GetPendingThreeDSChallenges ::
    "key_order \<Rightarrow> time \<Rightarrow> string \<Rightarrow> 's store \<Rightarrow> go_error + ThreeDSChallenge list"
  s_UpdateThreeDSChallenge :: "ThreeDSChallenge \<Rightarrow> 's fallible"

record 's Storage = "'s threeds_ops" +
  s_GetOrganization :: "string \<Rightarrow> 's store \<Rightarrow> go_error + Organization"
  s_CreateOrganization :: "Organization \<Rightarrow> 's fallible"
  s_UpdateOrganization :: "Organization \<Rightarrow> time \<Rightarrow> 's store \<Rightarrow> (go_error + Organization) \<times> 's store"

end
