(* ===== verification/Webhook.thy ===== *)
theory Webhook
  imports Store_Interface
begin

text \<open>
  Webhook jobs and their queue: \<^verbatim>\<open>internal/webhook/job.go\<close>, the part of
  \<^verbatim>\<open>internal/webhook/queue.go\<close> that decides what is enqueued and when a failed job is tried
  again, and the decisions of \<^verbatim>\<open>internal/webhook/manager.go\<close>: whether a webhook is sent, where
  to, and what it carries.

  The Redis stream itself is a service outside the program. A queue keeps the additions to the
  stream that the program has started, each with the delay of its timer (\<open>q_outbox\<close>); the
  stream and its workers are the subject of \<^verbatim>\<open>Webhook_Worker\<close>.
\<close>

section \<open>Jobs\<close>

record StreamJob =
  j_MessageID :: string
  j_JobID :: string
  j_EventType :: string
  j_UserID :: string
  j_Data :: "(string \<times> json) list"
  j_Attempts :: int
  j_CreatedAt :: string
  j_LastError :: string

definition zero_StreamJob :: StreamJob where
  "zero_StreamJob =
     \<lparr>j_MessageID = [], j_JobID = [], j_EventType = [], j_UserID = [], j_Data = [],
      j_Attempts = 0, j_CreatedAt = [], j_LastError = []\<rparr>"

text \<open>
  The fields of a stream entry: the field \<^verbatim>\<open>data\<close> is the text of a JSON value, kept as the
  value it encodes (\<open>None\<close> when the field is absent or empty), the others are plain strings.
\<close>

record stream_fields =
  sf_values :: "string gomap"
  sf_data :: "json option"

record XMessage = stream_fields +
  x_ID :: string

text \<open>
  What a JSON text gives back when it is decoded into an \<^verbatim>\<open>interface{}\<close>: every number is a
  \<^verbatim>\<open>float64\<close>.
\<close>

fun decoded :: "json \<Rightarrow> json" where
  "decoded (JInt i) = JNum (fl False (of_int i))"
| "decoded (JArr xs) = JArr (map decoded xs)"
| "decoded (JObj kvs) = JObj (map (\<lambda>(k, v). (k, decoded v)) kvs)"
| "decoded v = v"

definition decoded_map :: "(string \<times> json) list \<Rightarrow> (string \<times> json) list" where
  "decoded_map m = map (\<lambda>(k, v). (k, decoded v)) m"

definition toStreamFields :: "StreamJob \<Rightarrow> go_error + stream_fields" where
  "toStreamFields j =
     (if \<not> marshals (JObj (j_Data j)) then Inl ''failed to serialize job data''
      else Inr \<lparr>sf_values =
                  [(''job_id'', j_JobID j), (''event_type'', j_EventType j),
                   (''user_id'', j_UserID j), (''attempts'', int_str (j_Attempts j)),
                   (''created_at'', j_CreatedAt j)] @
                  (if j_LastError j \<noteq> [] then [(''last_error'', j_LastError j)] else []),
                sf_data = Some (JObj (j_Data j))\<rparr>)"

text \<open>
  The number \<^verbatim>\<open>strconv.Atoi\<close> returns even beside an error: 0 for text that is no number, the
  nearest machine integer for one that does not fit.
\<close>

definition atoi_value :: "string \<Rightarrow> int" where
  "atoi_value s =
     (case atoi s of
        Some n \<Rightarrow> n
      | None \<Rightarrow>
          let neg = (take 1 s = ''-'');
              body = (if neg \<or> take 1 s = ''+'' then drop 1 s else s)
          in if body = [] \<or> \<not> list_all is_digit body then 0
             else if neg then - (2 ^ 63) else 2 ^ 63 - 1)"

definition parseStreamMessage :: "XMessage \<Rightarrow> go_error + StreamJob" where
  "parseStreamMessage msg =
     (let field = mstr (sf_values msg) in
      if field ''job_id'' = [] \<or> field ''event_type'' = []
      then Inl (''stream message '' @ x_ID msg @ '' missing required fields'')
      else
        let result = (\<lambda>data. Inr
              \<lparr>j_MessageID = x_ID msg, j_JobID = field ''job_id'', j_EventType = field ''event_type'',
               j_UserID = field ''user_id'', j_Data = data,
               j_Attempts = (case mget (sf_values msg) ''attempts'' of
                               None \<Rightarrow> 0
                             | Some a \<Rightarrow> atoi_value a),
               j_CreatedAt = field ''created_at'', j_LastError = field ''last_error''\<rparr>)
        in case sf_data msg of
             None \<Rightarrow> result []
           | Some JNull \<Rightarrow> result []
           | Some (JObj m) \<Rightarrow> result (decoded_map m)
           | Some _ \<Rightarrow> Inl (''failed to parse data field in '' @ x_ID msg))"

section \<open>The queue\<close>

definition maxAttempts :: int where
  "maxAttempts = 10"

definition retryDelay :: time where
  "retryDelay = 3 * second"

definition batchSize :: nat where
  "batchSize = 10"

record Queue =
  q_minDelay :: time
  q_consumerName :: string
  q_outbox :: "(time \<times> stream_fields) list"

text \<open>The conversion \<^verbatim>\<open>time.Duration(f)\<close> truncates toward zero.\<close>

definition to_duration :: "f64 \<Rightarrow> time" where
  "to_duration x = (if fval x < 0 then \<lceil>fval x\<rceil> else \<lfloor>fval x\<rfloor>)"

definition seconds_duration :: "f64 \<Rightarrow> time" where
  "seconds_duration x = to_duration (fmul x (Fin 1000000000))"

definition NewQueue :: "f64 \<Rightarrow> string \<Rightarrow> Queue" where
  "NewQueue minDelaySec uid =
     \<lparr>q_minDelay = seconds_duration (if flt minDelaySec f0 then f0 else minDelaySec),
      q_consumerName = ''worker-'' @ uid, q_outbox = []\<rparr>"

definition Enqueue ::
  "string \<Rightarrow> time \<Rightarrow> string \<Rightarrow> string \<Rightarrow> (string \<times> json) list \<Rightarrow> f64 \<Rightarrow> Queue \<Rightarrow> (go_error + string) \<times> Queue" where
  "Enqueue jobID now eventType userID data offsetDelaySeconds q =
     (let job = \<lparr>j_MessageID = [], j_JobID = jobID, j_EventType = eventType, j_UserID = userID,
                 j_Data = data, j_Attempts = 0, j_CreatedAt = format_rfc3339nano now,
                 j_LastError = []\<rparr>
      in case toStreamFields job of
           Inl err \<Rightarrow> (Inl err, q)
         | Inr flds \<Rightarrow>
             let totalDelay = max (q_minDelay q) (seconds_duration offsetDelaySeconds)
             in (Inr jobID, q\<lparr>q_outbox := q_outbox q @ [(totalDelay, flds)]\<rparr>))"

text \<open>
  What \<^verbatim>\<open>RetryLater\<close> does once the delivered message is acknowledged: it gives up, cannot
  encode the job, or adds it to the stream again after \<open>retryDelay\<close>.
\<close>

datatype retry = Dropped | Unserializable go_error | Again time stream_fields

definition retry_job :: "StreamJob \<Rightarrow> string \<Rightarrow> retry" where
  "retry_job job errMsg =
     (let newAttempts = j_Attempts job + 1 in
      if newAttempts \<ge> maxAttempts then Dropped
      else
        let retry = \<lparr>j_MessageID = [], j_JobID = j_JobID job, j_EventType = j_EventType job,
                     j_UserID = j_UserID job, j_Data = j_Data job, j_Attempts = newAttempts,
                     j_CreatedAt = j_CreatedAt job, j_LastError = errMsg\<rparr>
        in case toStreamFields retry of
             Inl err \<Rightarrow> Unserializable (''failed to serialize retry: '' @ err)
           | Inr flds \<Rightarrow> Again retryDelay flds)"

section \<open>The manager\<close>

record Manager =
  wm_webhookURL :: string
  wm_webhookSecret :: string
  wm_queue :: "Queue option"
  wm_defaultOrganizationID :: string

definition resolveCallbackURL :: "'s Storage \<Rightarrow> 's store \<Rightarrow> Manager \<Rightarrow> string" where
  "resolveCallbackURL S st m =
     (if wm_defaultOrganizationID m \<noteq> []
      then case s_GetOrganization S (wm_defaultOrganizationID m) st of
             Inl _ \<Rightarrow> wm_webhookURL m
           | Inr org \<Rightarrow> if org_APIBaseURL org \<noteq> [] then org_APIBaseURL org else wm_webhookURL m
      else wm_webhookURL m)"

definition ResolveOrgBaseURL :: "'s Storage \<Rightarrow> 's store \<Rightarrow> Manager \<Rightarrow> string" where
  "ResolveOrgBaseURL S st m =
     (if wm_defaultOrganizationID m \<noteq> []
      then case s_GetOrganization S (wm_defaultOrganizationID m) st of
             Inl _ \<Rightarrow> []
           | Inr org \<Rightarrow> if org_APIBaseURL org \<noteq> []
                          then trim_right (\<lambda>c. c = CHR ''/'') (org_APIBaseURL org) else []
      else [])"

definition HasURL :: "'s Storage \<Rightarrow> 's store \<Rightarrow> Manager \<Rightarrow> bool" where
  "HasURL S st m \<longleftrightarrow> resolveCallbackURL S st m \<noteq> []"

definition is_internal :: "string \<Rightarrow> bool" where
  "is_internal eventType \<longleftrightarrow> length eventType > 9 \<and> take 9 eventType = ''internal.''"

definition SendAsync ::
  "'s Storage \<Rightarrow> 's store \<Rightarrow> string \<Rightarrow> time \<Rightarrow> string \<Rightarrow> string \<Rightarrow> (string \<times> json) list \<Rightarrow> f64 \<Rightarrow>
     Manager \<Rightarrow> Manager" where
  "SendAsync S st jobID now eventType userID data offsetDelaySeconds m =
     (if \<not> is_internal eventType \<and> resolveCallbackURL S st m = [] then m
      else case wm_queue m of
             None \<Rightarrow> m
           | Some q \<Rightarrow> m\<lparr>wm_queue :=
               Some (snd (Enqueue jobID now eventType userID data offsetDelaySeconds q))\<rparr>)"

section \<open>What a webhook carries\<close>

definition isVerificationOutcome :: "string \<Rightarrow> bool" where
  "isVerificationOutcome eventType \<longleftrightarrow>
     eventType = WebhookEventKYCAccepted \<or> eventType = WebhookEventKYCRejected \<or>
     eventType = WebhookEventKYCActionRequired"

definition is_verification_event :: "string \<Rightarrow> bool" where
  "is_verification_event eventType \<longleftrightarrow>
     eventType \<in> {WebhookEventKYCAccepted, WebhookEventKYCRejected, WebhookEventKYCActionRequired,
       WebhookEventKYCResubmission, WebhookEventDocumentNoticeExpired,
       WebhookEventDocumentNoticeWarning}"

definition normalizeVerificationPayload ::
  "string \<Rightarrow> (string \<times> json) list \<Rightarrow> (string \<times> json) list" where
  "normalizeVerificationPayload eventType converted =
     (if is_verification_event eventType
      then
        let m1 = (if mget converted ''gateway'' = None
                  then mput ''gateway'' (JStr ''paywiser'') converted else converted)
        in if \<not> isVerificationOutcome eventType then m1
           else if mget m1 ''verified'' = None
           then
             let (short, status) =
                   (if eventType = WebhookEventKYCAccepted then (''accepted'', 1)
                    else if eventType = WebhookEventKYCRejected then (''rejected'', 2)
                    else (''action_required'', 0))
             in mput ''verified'' (JObj [(''short'', JStr short), (''status'', JInt status)]) m1
           else m1
      else converted)"

section \<open>Properties\<close>

text \<open>A job that is written to the stream is read back as it was, with its numbers decoded.\<close>

lemma toStreamFields_ok:
  "marshals (JObj (j_Data j)) \<Longrightarrow> \<exists>f. toStreamFields j = Inr f"
  by (simp add: toStreamFields_def)

lemma parse_toStreamFields:
  assumes "toStreamFields j = Inr f" and "j_JobID j \<noteq> []" and "j_EventType j \<noteq> []"
    and "0 \<le> j_Attempts j" and "j_Attempts j < 2 ^ 63"
  shows "parseStreamMessage (stream_fields.extend f \<lparr>x_ID = mid\<rparr>) =
           Inr (j\<lparr>j_MessageID := mid, j_Data := decoded_map (j_Data j)\<rparr>)"
proof -
  have "atoi_value (int_str (j_Attempts j)) = j_Attempts j"
    using assms(4,5) by (simp add: atoi_value_def atoi_int_str)
  with assms(1-3) show ?thesis
    by (auto simp: toStreamFields_def parseStreamMessage_def mstr_def stream_fields.defs Let_def
        split: if_splits)
qed

end
