(* ===== verification/Crypto.thy ===== *)
theory Crypto
  imports Prelude "HOL-Library.Word"
begin

text \<open>
  The functions of Go's \<^verbatim>\<open>crypto/sha256\<close>, \<^verbatim>\<open>crypto/hmac\<close>, \<^verbatim>\<open>encoding/hex\<close> and
  \<^verbatim>\<open>encoding/base64\<close> packages that the sources call, as executable functions on byte strings.
\<close>

unbundle bit_operations_syntax

section \<open>Bytes\<close>

definition byte :: "nat \<Rightarrow> char" where
  "byte n = char_of n"

abbreviation byte_val :: "char \<Rightarrow> nat" where
  "byte_val c \<equiv> of_char c"

lemma byte_val_byte [simp]: "n < 256 \<Longrightarrow> byte_val (byte n) = n"
  by (simp add: byte_def)

lemma byte_byte_val [simp]: "byte (byte_val c) = c"
  by (simp add: byte_def)

lemma byte_val_less [simp]: "byte_val c < 256"
  by (metis of_char_of char_of_char mod_less_divisor of_char_mod_256 zero_less_numeral)

definition word_bytes :: "32 word \<Rightarrow> string" where
  "word_bytes w = map (\<lambda>i. byte (nat (uint (drop_bit (8 * i) w) mod 256))) [3, 2, 1, 0]"

fun bytes_word :: "string \<Rightarrow> 32 word" where
  "bytes_word cs = foldl (\<lambda>w c. push_bit 8 w OR word_of_nat (byte_val c)) 0 cs"

fun chunks :: "nat \<Rightarrow> 'a list \<Rightarrow> 'a list list" where
  "chunks n xs = (if n = 0 \<or> xs = [] then [] else take n xs # chunks n (drop n xs))"

declare chunks.simps [simp del]

section \<open>SHA-256\<close>

text \<open>
  The round constants are the first 32 bits of the fractional parts of the cube roots of the
  first 64 primes, the initial state those of the square roots of the first 8. They are
  computed as integer roots, bit by bit from the top: \<open>root_bits k n b\<close> is the largest number
  below \<open>2 ^ b\<close> whose \<open>k\<close>-th power is at most \<open>n\<close>.
\<close>

definition root_bits :: "nat \<Rightarrow> nat \<Rightarrow> nat \<Rightarrow> nat" where
  "root_bits k n b = foldl (\<lambda>r i. if (r + 2 ^ i) ^ k \<le> n then r + 2 ^ i else r) 0 (rev [0..<b])"

definition sha_primes :: "nat list" where
  "sha_primes = filter (\<lambda>p. \<forall>d\<in>set [2..<p]. p mod d \<noteq> 0) [2..<312]"

definition sha_K :: "32 word list" where
  "sha_K = map (\<lambda>p. word_of_nat (root_bits 3 (p * 2 ^ 96) 36)) sha_primes"

definition sha_init :: "32 word list" where
  "sha_init = map (\<lambda>p. word_of_nat (root_bits 2 (p * 2 ^ 64) 36)) [2, 3, 5, 7, 11, 13, 17, 19]"

definition rotr :: "nat \<Rightarrow> 32 word \<Rightarrow> 32 word" where
  "rotr n w = drop_bit n w OR push_bit (32 - n) w"

definition sha_pad :: "string \<Rightarrow> string" where
  "sha_pad msg =
     (let n = length msg; z = (119 - n mod 64) mod 64
      in msg @ [byte 128] @ replicate z (byte 0) @
         map (\<lambda>i. byte (nat (8 * int n div 256 ^ i mod 256))) [7, 6, 5, 4, 3, 2, 1, 0])"

text \<open>The message schedule, kept with the newest word first.\<close>

fun sha_extend :: "nat \<Rightarrow> 32 word list \<Rightarrow> 32 word list" where
  "sha_extend 0 ws = ws"
| "sha_extend (Suc n) ws =
     (let a = ws ! 14; b = ws ! 1;
          s0 = rotr 7 a XOR rotr 18 a XOR drop_bit 3 a;
          s1 = rotr 17 b XOR rotr 19 b XOR drop_bit 10 b
      in sha_extend n ((ws ! 15 + s0 + ws ! 6 + s1) # ws))"

definition sha_schedule :: "string \<Rightarrow> 32 word list" where
  "sha_schedule block = rev (sha_extend 48 (rev (map bytes_word (chunks 4 block))))"

fun sha_round :: "32 word list \<Rightarrow> 32 word \<times> 32 word \<Rightarrow> 32 word list" where
  "sha_round [a, b, c, d, e, f, g, h] (k, w) =
     (let s1 = rotr 6 e XOR rotr 11 e XOR rotr 25 e;
          ch = (e AND f) XOR (NOT e AND g);
          t1 = h + s1 + ch + k + w;
          s0 = rotr 2 a XOR rotr 13 a XOR rotr 22 a;
          maj = (a AND b) XOR (a AND c) XOR (b AND c)
      in [t1 + (s0 + maj), a, b, c, d + t1, e, f, g])"
| "sha_round st _ = st"

definition sha_block :: "32 word list \<Rightarrow> string \<Rightarrow> 32 word list" where
  "sha_block st block = map2 (+) st (foldl sha_round st (zip sha_K (sha_schedule block)))"

definition Sum256 :: "string \<Rightarrow> string" where
  "Sum256 msg = concat (map word_bytes (foldl sha_block sha_init (chunks 64 (sha_pad msg))))"

section \<open>HMAC\<close>

definition hmac_sha256 :: "string \<Rightarrow> string \<Rightarrow> string" where
  "hmac_sha256 key msg =
     (let k0 = (if length key > 64 then Sum256 key else key);
          k = k0 @ replicate (64 - length k0) (byte 0);
          pad = (\<lambda>v. map (\<lambda>c. byte (unat ((word_of_nat (byte_val c) :: 8 word) XOR v))) k)
      in Sum256 (pad 0x5c @ Sum256 (pad 0x36 @ msg)))"

section \<open>Hexadecimal\<close>

definition hex_digit :: "nat \<Rightarrow> char" where
  "hex_digit n = (if n < 10 then char_of (48 + n) else char_of (87 + n))"

definition unhex_digit :: "char \<Rightarrow> nat option" where
  "unhex_digit c =
     (let n = byte_val c in
      if 48 \<le> n \<and> n \<le> 57 then Some (n - 48)
      else if 97 \<le> n \<and> n \<le> 102 then Some (n - 87)
      else if 65 \<le> n \<and> n \<le> 70 then Some (n - 55)
      else None)"

definition hex_EncodeToString :: "string \<Rightarrow> string" where
  "hex_EncodeToString s =
     concat (map (\<lambda>c. [hex_digit (byte_val c div 16), hex_digit (byte_val c mod 16)]) s)"

fun hex_DecodeString :: "string \<Rightarrow> string option" where
  "hex_DecodeString [] = Some []"
| "hex_DecodeString [c] = None"
| "hex_DecodeString (c # d # cs) =
     (case (unhex_digit c, unhex_digit d, hex_DecodeString cs) of
        (Some h, Some l, Some bs) \<Rightarrow> Some (byte (16 * h + l) # bs)
      | _ \<Rightarrow> None)"

section \<open>Base64\<close>

definition b64_char :: "bool \<Rightarrow> nat \<Rightarrow> char" where
  "b64_char url n =
     (if n < 26 then char_of (65 + n) else if n < 52 then char_of (71 + n)
      else if n < 62 then char_of (n - 4)
      else if n = 62 then (if url then CHR ''-'' else CHR ''+'')
      else (if url then CHR ''_'' else CHR ''/''))"

definition b64_val :: "bool \<Rightarrow> char \<Rightarrow> nat option" where
  "b64_val url c =
     (let n = byte_val c in
      if 65 \<le> n \<and> n \<le> 90 then Some (n - 65)
      else if 97 \<le> n \<and> n \<le> 122 then Some (n - 71)
      else if 48 \<le> n \<and> n \<le> 57 then Some (n + 4)
      else if c = (if url then CHR ''-'' else CHR ''+'') then Some 62
      else if c = (if url then CHR ''_'' else CHR ''/'') then Some 63
      else None)"

text \<open>\<^verbatim>\<open>base64.RawURLEncoding\<close>: the URL alphabet, without padding.\<close>

fun raw_url_encode :: "string \<Rightarrow> string" where
  "raw_url_encode [] = []"
| "raw_url_encode [a] =
     (let n = byte_val a * 16 in [b64_char True (n div 64), b64_char True (n mod 64)])"
| "raw_url_encode [a, b] =
     (let n = (byte_val a * 256 + byte_val b) * 4
      in [b64_char True (n div 4096), b64_char True (n div 64 mod 64), b64_char True (n mod 64)])"
| "raw_url_encode (a # b # c # cs) =
     (let n = (byte_val a * 256 + byte_val b) * 256 + byte_val c
      in [b64_char True (n div 262144), b64_char True (n div 4096 mod 64),
          b64_char True (n div 64 mod 64), b64_char True (n mod 64)] @ raw_url_encode cs)"

text \<open>The decoder skips line breaks and ignores the trailing bits of a short group.\<close>

fun b64_groups :: "nat list \<Rightarrow> string option" where
  "b64_groups [] = Some []"
| "b64_groups [p] = None"
| "b64_groups [p, q] = Some [byte ((p * 64 + q) div 16)]"
| "b64_groups [p, q, r] =
     (let n = (p * 64 + q) * 64 + r in Some [byte (n div 1024), byte (n div 4 mod 256)])"
| "b64_groups (p # q # r # t # ns) =
     (let n = ((p * 64 + q) * 64 + r) * 64 + t
      in map_option (\<lambda>bs. [byte (n div 65536), byte (n div 256 mod 256), byte (n mod 256)] @ bs)
           (b64_groups ns))"

definition raw_url_decode :: "string \<Rightarrow> string option" where
  "raw_url_decode s =
     (let cs = filter (\<lambda>c. c \<noteq> CHR 0x0A \<and> c \<noteq> CHR 0x0D) s; vs = map (b64_val True) cs
      in if None \<in> set vs then None else b64_groups (map the vs))"

section \<open>Properties\<close>

lemma length_word_bytes [simp]: "length (word_bytes w) = 4"
  by (simp add: word_bytes_def)

lemma length_sha_round: "length st = 8 \<Longrightarrow> length (sha_round st kw) = 8"
  by (cases "(st, kw)" rule: sha_round.cases) (simp_all add: Let_def)

lemma length_sha_rounds: "length st = 8 \<Longrightarrow> length (foldl sha_round st kws) = 8"
  by (induction kws arbitrary: st) (simp_all add: length_sha_round)

lemma length_sha_blocks: "length st = 8 \<Longrightarrow> length (foldl sha_block st bs) = 8"
  by (induction bs arbitrary: st) (simp_all add: sha_block_def length_sha_rounds)

lemma length_concat_map_const:
  "(\<And>x. x \<in> set xs \<Longrightarrow> length (f x) = n) \<Longrightarrow> length (concat (map f xs)) = n * length xs"
  by (induction xs) auto

text \<open>A digest has 32 bytes, whatever the message.\<close>

lemma length_Sum256 [simp]: "length (Sum256 msg) = 32"
  unfolding Sum256_def
  by (subst length_concat_map_const [where n = 4]) (simp_all add: length_sha_blocks sha_init_def)

lemma length_hmac_sha256 [simp]: "length (hmac_sha256 key msg) = 32"
  by (simp add: hmac_sha256_def Let_def)

lemma length_hex_EncodeToString [simp]: "length (hex_EncodeToString s) = 2 * length s"
  unfolding hex_EncodeToString_def by (subst length_concat_map_const [where n = 2]) simp_all

lemma unhex_hex_digit [simp]: "n < 16 \<Longrightarrow> unhex_digit (hex_digit n) = Some n"
  by (auto simp: unhex_digit_def hex_digit_def Let_def)

lemma hex_roundtrip: "hex_DecodeString (hex_EncodeToString s) = Some s"
proof (induction s)
  case (Cons c cs)
  have "byte_val c div 16 < 16"
    by (rule less_mult_imp_div_less) simp
  with Cons show ?case
    by (simp add: hex_EncodeToString_def)
qed (simp add: hex_EncodeToString_def)

lemma b64_val_char [simp]: "n < 64 \<Longrightarrow> b64_val url (b64_char url n) = Some n"
proof -
  assume "n < 64"
  then consider "n < 26" | "26 \<le> n" "n < 52" | "52 \<le> n" "n < 62" | "n = 62" | "n = 63"
    by linarith
  then show ?thesis
    by cases (auto simp: b64_val_def b64_char_def Let_def)
qed

end
