(* ===== verification/Json_Text.thy ===== *)
theory Json_Text
  imports Json Crypto
begin

text \<open>
  The text that \<^verbatim>\<open>json.Marshal\<close> writes for a value: compact, with the escapes of Go's encoder
  (control characters, quotes, backslashes, the three HTML characters and the two line
  separators). Strings are valid UTF-8. A number is written with the fewest digits that read
  back as the same \<^verbatim>\<open>float64\<close>. The entries of an object stand in the order they are written in:
  a struct lists its fields in order, a map its keys sorted.
\<close>

definition hex4 :: "nat \<Rightarrow> string" where
  "hex4 n = [CHR 0x5C] @ ''u00'' @ [hex_digit (n div 16), hex_digit (n mod 16)]"

definition escape_char :: "char \<Rightarrow> string" where
  "escape_char c =
     (let n = byte_val c in
      if c = CHR 0x22 then [CHR 0x5C, CHR 0x22]
      else if c = CHR 0x5C then [CHR 0x5C, CHR 0x5C]
      else if n = 8 then [CHR 0x5C, CHR ''b'']
      else if n = 12 then [CHR 0x5C, CHR ''f'']
      else if n = 10 then [CHR 0x5C, CHR ''n'']
      else if n = 13 then [CHR 0x5C, CHR ''r'']
      else if n = 9 then [CHR 0x5C, CHR ''t'']
      else if n < 32 \<or> c = CHR ''<'' \<or> c = CHR ''>'' \<or> c = CHR ''&'' then hex4 n
      else [c])"

fun escape_string :: "string \<Rightarrow> string" where
  "escape_string [] = []"
| "escape_string (c # cs) =
     (case cs of
        d # e # rest \<Rightarrow>
          if byte_val c = 226 \<and> byte_val d = 128 \<and> byte_val e = 168
          then [CHR 0x5C] @ ''u2028'' @ escape_string rest
          else if byte_val c = 226 \<and> byte_val d = 128 \<and> byte_val e = 169
          then [CHR 0x5C] @ ''u2029'' @ escape_string rest
          else escape_char c @ escape_string cs
      | _ \<Rightarrow> escape_char c @ escape_string cs)"

definition quoted :: "string \<Rightarrow> string" where
  "quoted s = [CHR 0x22] @ escape_string s @ [CHR 0x22]"

section \<open>Numbers\<close>

definition ilog10 :: "rat \<Rightarrow> int" where
  "ilog10 q =
     (if q \<ge> 1 then int (length (nat_str (nat \<lfloor>q\<rfloor>))) - 1
      else case find (\<lambda>k. q * 10 ^ k \<ge> 1) [0..<400] of Some k \<Rightarrow> - int k | None \<Rightarrow> - 400)"

text \<open>The candidates with \<open>n\<close> digits, the nearer one first; \<open>e\<close> is the decimal exponent.\<close>

definition digit_candidates :: "rat \<Rightarrow> int \<Rightarrow> nat \<Rightarrow> int list" where
  "digit_candidates q e n =
     (let s = q / 10 powi (e - int n + 1); lo = \<lfloor>s\<rfloor>; r = round_half_even s
      in if r = lo then [lo, lo + 1] else [lo + 1, lo])"

definition shortest :: "rat \<Rightarrow> int \<times> nat" where
  "shortest q =
     (let e = ilog10 q;
          ok = (\<lambda>n. find (\<lambda>d. rnd (of_int d * 10 powi (e - int n + 1)) = q) (digit_candidates q e n))
      in case List.map_filter (\<lambda>n. map_option (\<lambda>d. (d, n)) (ok n)) [1..<18] of
           (d, n) # _ \<Rightarrow> (d, n)
         | [] \<Rightarrow> (\<lfloor>q\<rfloor>, 0))"

definition strip_zeros :: "string \<Rightarrow> string" where
  "strip_zeros s = trim_right (\<lambda>c. c = CHR ''0'') s"

definition abs_text :: "rat \<Rightarrow> string" where
  "abs_text q =
     (let e0 = ilog10 q; (d, n) = shortest q; ds0 = nat_str (nat d);
          e = (if length ds0 > n then e0 + 1 else e0);
          ds = strip_zeros ds0
      in if q < 1 / 1000000 \<or> q \<ge> 10 ^ 21
         then take 1 ds @ (if length ds > 1 then ''.'' @ drop 1 ds else []) @ ''e'' @
              (if e < 0 then ''-'' else ''+'') @
              (if e < 0 \<or> \<bar>e\<bar> \<ge> 10 then [] else ''0'') @ nat_str (nat \<bar>e\<bar>)
         else if e < 0 then ''0.'' @ replicate (nat (- e) - 1) (CHR ''0'') @ ds
         else if length ds \<le> nat e + 1 then ds @ replicate (nat e + 1 - length ds) (CHR ''0'')
         else take (nat e + 1) ds @ ''.'' @ drop (nat e + 1) ds)"

fun f64_text :: "f64 \<Rightarrow> string" where
  "f64_text (Zero s) = (if s then ''-0'' else ''0'')"
| "f64_text (Fin q) = (if q < 0 then ''-'' @ abs_text (- q) else abs_text q)"
| "f64_text _ = []"

section \<open>Values\<close>

fun json_text :: "json \<Rightarrow> string" where
  "json_text JNull = ''null''"
| "json_text (JBool b) = (if b then ''true'' else ''false'')"
| "json_text (JInt i) = int_str i"
| "json_text (JNum x) = f64_text x"
| "json_text (JStr s) = quoted s"
| "json_text (JArr xs) = ''['' @ join_with '','' (map json_text xs) @ '']''"
| "json_text (JObj kvs) =
     ''{'' @ join_with '','' (map (\<lambda>(k, v). quoted k @ '':'' @ json_text v) kvs) @ ''}''"

end
