(* ===== verification/Handler_State.thy ===== *)
theory Handler_State
  imports Fees Webhook Json_Text
begin

text \<open>
  What the request handlers share: the configuration record of \<^verbatim>\<open>internal/config/config.go\<close>,
  the struct \<^verbatim>\<open>Handler\<close> of \<^verbatim>\<open>internal/handler/handler.go\<close>, requests and responses, and the
  helpers of \<^verbatim>\<open>internal/handler/helpers.go\<close> and \<^verbatim>\<open>internal/handler/apierror.go\<close>.

  A handler is a function from the storage interface, the environment, the request and the
  handler's state to a response and a new state. A goroutine that a handler starts is a task in
  the state: it runs later, in any order with other requests.
\<close>

section \<open>Configuration\<close>

record Config =
  cfg_Port :: string
  cfg_AdminPort :: string
  cfg_LogLevel :: string
  cfg_RedisURL :: string
  cfg_RedisDB :: int
  cfg_WebhookURL :: string
  cfg_WebhookSecret :: string
  cfg_WebhookMinDelaySec :: f64
  cfg_UseRedis :: bool
  cfg_EnforceAuthentication :: bool
  cfg_ValidCredentials :: "string gomap"
  cfg_DefaultOrganizationID :: string
  cfg_PublicBaseURL :: string
  cfg_AsyncWithdrawals :: bool
  cfg_CardDataTokenSecret :: string

section \<open>Requests and responses\<close>

text \<open>
  The header map is keyed by lower-case names, since \<^verbatim>\<open>Header.Get\<close> ignores case; \<open>r_form\<close> holds
  the first value of each form field.
\<close>

record request =
  r_Method :: string
  r_Path :: string
  r_RawQuery :: string
  r_Host :: string
  r_TLS :: bool
  r_header :: "string gomap"
  r_query :: "string gomap"
  r_params :: "string gomap"
  r_form :: "string gomap"

definition Header_Get :: "request \<Rightarrow> string \<Rightarrow> string" where
  "Header_Get r k = mstr (r_header r) (ToLower k)"

definition Query_Get :: "request \<Rightarrow> string \<Rightarrow> string" where
  "Query_Get r k = mstr (r_query r) k"

definition URLParam :: "request \<Rightarrow> string \<Rightarrow> string" where
  "URLParam r k = mstr (r_params r) k"

definition FormValue :: "request \<Rightarrow> string \<Rightarrow> string" where
  "FormValue r k = mstr (r_form r) k"

datatype body = Json json | Text string | Empty

record response =
  rs_status :: int
  rs_header :: "string gomap"
  rs_body :: body

definition StatusText :: "int \<Rightarrow> string" where
  "StatusText code =
     (if code = 200 then ''OK'' else if code = 201 then ''Created''
      else if code = 400 then ''Bad Request'' else if code = 401 then ''Unauthorized''
      else if code = 403 then ''Forbidden'' else if code = 404 then ''Not Found''
      else if code = 409 then ''Conflict'' else if code = 500 then ''Internal Server Error''
      else [])"

definition sendJSON :: "int \<Rightarrow> json \<Rightarrow> response" where
  "sendJSON status data =
     (if marshals data
      then \<lparr>rs_status = status, rs_header = [(''Content-Type'', ''application/json'')],
            rs_body = Json data\<rparr>
      else \<lparr>rs_status = 500, rs_header = [(''Content-Type'', ''application/json'')],
            rs_body = Json (JObj [(''error'', JStr ''internal server error'')])\<rparr>)"

definition formatAmount :: "f64 \<Rightarrow> string" where
  "formatAmount amount = format2f amount"

definition tokenPrefix :: "string \<Rightarrow> string" where
  "tokenPrefix token = (if length token > 20 then take 20 token else token)"

definition sendError :: "int \<Rightarrow> string \<Rightarrow> response" where
  "sendError status message =
     sendJSON status (ErrorResponse_json \<lparr>er_Error = StatusText status, er_Message = message\<rparr>)"

definition setCORSHeaders :: "response \<Rightarrow> response" where
  "setCORSHeaders w = w\<lparr>rs_header := (''Access-Control-Allow-Origin'', ''*'') # rs_header w\<rparr>"

definition sendJSONWithCORS :: "int \<Rightarrow> json \<Rightarrow> response" where
  "sendJSONWithCORS status data = setCORSHeaders (sendJSON status data)"

definition sendErrorWithCORS :: "int \<Rightarrow> string \<Rightarrow> response" where
  "sendErrorWithCORS status message = setCORSHeaders (sendError status message)"

section \<open>API errors\<close>

record apiError =
  ae_status :: int
  ae_msg :: string
  ae_details :: "(string \<times> json) list"

definition badRequest :: "string \<Rightarrow> apiError" where
  "badRequest msg = \<lparr>ae_status = 400, ae_msg = msg, ae_details = []\<rparr>"

definition notFound :: "string \<Rightarrow> apiError" where
  "notFound msg = \<lparr>ae_status = 404, ae_msg = msg, ae_details = []\<rparr>"

definition conflict :: "string \<Rightarrow> apiError" where
  "conflict msg = \<lparr>ae_status = 409, ae_msg = msg, ae_details = []\<rparr>"

definition internalErr :: "string \<Rightarrow> apiError" where
  "internalErr msg = \<lparr>ae_status = 500, ae_msg = msg, ae_details = []\<rparr>"

definition withDetails :: "(string \<times> json) list \<Rightarrow> apiError \<Rightarrow> apiError" where
  "withDetails details e = e\<lparr>ae_details := details\<rparr>"

definition sendAPIError :: "apiError \<Rightarrow> response" where
  "sendAPIError e =
     (if ae_details e = [] then sendError (ae_status e) (ae_msg e)
      else sendJSON (ae_status e)
             (JObj (foldl (\<lambda>m (k, v). mput k v m)
                [(''error'', JStr (StatusText (ae_status e))), (''message'', JStr (ae_msg e))]
                (ae_details e))))"

section \<open>The handler\<close>

text \<open>
  The variables that the closure \<^verbatim>\<open>complete\<close> of \<^verbatim>\<open>CreateTransaction\<close> captures, and the
  goroutines that handlers start.
\<close>

record completion =
  cp_txID :: string
  cp_userID :: string
  cp_currency :: string
  cp_amount :: f64
  cp_feeAmount :: f64
  cp_depositType :: string
  cp_receivingAddr :: string
  cp_hasWebhook :: bool
  cp_isDebit :: bool

datatype task =
    Complete completion
  | Send string string "(string \<times> json) list" f64

record 's Handler =
  h_config :: Config
  h_store :: "'s store"
  h_webhook :: Manager
  h_tokens :: "string gomap"
  h_fees :: FeeConfig
  h_tasks :: "task list"

definition NewHandler :: "Config \<Rightarrow> 's store \<Rightarrow> Manager \<Rightarrow> 's Handler" where
  "NewHandler cfg st m =
     \<lparr>h_config = cfg, h_store = st, h_webhook = m, h_tokens = [], h_fees = NewFeeConfig,
      h_tasks = []\<rparr>"

text \<open>Sending a webhook from a handler.\<close>

definition send_async ::
  "'s Storage \<Rightarrow> string \<Rightarrow> time \<Rightarrow> string \<Rightarrow> string \<Rightarrow> (string \<times> json) list \<Rightarrow> f64 \<Rightarrow>
     's Handler \<Rightarrow> 's Handler" where
  "send_async S jobID now eventType userID data delay h =
     h\<lparr>h_webhook := SendAsync S (h_store h) jobID now eventType userID data delay (h_webhook h)\<rparr>"

definition extractUserFromBearer :: "'s Handler \<Rightarrow> string \<Rightarrow> string" where
  "extractUserFromBearer h bearer = mstr (h_tokens h) bearer"

definition extractBearerFromAuthHeader :: "string \<Rightarrow> string" where
  "extractBearerFromAuthHeader authHeader =
     (if length authHeader < 7 then []
      else if take 7 authHeader \<noteq> ''Bearer '' then []
      else drop 7 authHeader)"

section \<open>Basic facts\<close>

lemma send_async_simps [simp]:
  "h_store (send_async S i t e u d x h) = h_store h"
  "h_tokens (send_async S i t e u d x h) = h_tokens h"
  "h_fees (send_async S i t e u d x h) = h_fees h"
  "h_tasks (send_async S i t e u d x h) = h_tasks h"
  "h_config (send_async S i t e u d x h) = h_config h"
  by (simp_all add: send_async_def)

lemma rs_status_sendJSON [simp]: "marshals d \<Longrightarrow> rs_status (sendJSON c d) = c"
  by (simp add: sendJSON_def)

lemma rs_status_sendError [simp]: "rs_status (sendError c m) = c"
  by (simp add: sendError_def sendJSON_def ErrorResponse_json_def omit_empty_def)

lemma rs_status_CORS [simp]:
  "rs_status (sendErrorWithCORS c m) = c"
  "marshals d \<Longrightarrow> rs_status (sendJSONWithCORS c d) = c"
  by (simp_all add: sendErrorWithCORS_def sendJSONWithCORS_def setCORSHeaders_def)

lemma rs_body_sendJSON [simp]: "marshals d \<Longrightarrow> rs_body (sendJSON c d) = Json d"
  by (simp add: sendJSON_def)

lemma rs_status_sendAPIError:
  "ae_details e = [] \<Longrightarrow> rs_status (sendAPIError e) = ae_status e"
  by (simp add: sendAPIError_def)

lemma apiError_simps [simp]:
  "ae_details (badRequest m) = []" "ae_details (notFound m) = []"
  "ae_details (conflict m) = []" "ae_details (internalErr m) = []"
  "ae_status (badRequest m) = 400" "ae_status (notFound m) = 404"
  "ae_status (conflict m) = 409" "ae_status (internalErr m) = 500"
  by (simp_all add: badRequest_def notFound_def conflict_def internalErr_def)

lemma extract_roundtrip: "extractBearerFromAuthHeader (''Bearer '' @ t) = t"
  by (simp add: extractBearerFromAuthHeader_def)

end
