(* ===== verification/Core.thy ===== *)
theory Core
  imports Handler_State
begin

text \<open>
  The wallet and transaction endpoints of \<^verbatim>\<open>internal/handler/core.go\<close>. A request body is
  \<open>None\<close> when it does not decode. \<open>complete\<close> is the closure that settles a transaction: it runs
  at once when no webhook target is configured and as a goroutine otherwise.
\<close>

section \<open>Wallets\<close>

definition new_wallet :: "string \<Rightarrow> string \<Rightarrow> string \<Rightarrow> int \<Rightarrow> int \<Rightarrow> Wallet" where
  "new_wallet address userID name type network =
     zero_Wallet\<lparr>w_Address := address, w_UserID := userID, w_Name := name, w_Type := type,
                 w_Network := network\<rparr>"

definition CreateWallet ::
  "'s Storage \<Rightarrow> env \<Rightarrow> request \<Rightarrow> CreateWalletRequest option \<Rightarrow> 's Handler \<Rightarrow> response \<times> 's Handler" where
  "CreateWallet S e r body h =
     (case body of
        None \<Rightarrow> (sendError 400 ''Invalid request body'', h)
      | Some req0 \<Rightarrow>
          let userID = URLParam r ''userID'';
              req = (if cwr_UserID req0 = [] \<and> userID \<noteq> [] then req0\<lparr>cwr_UserID := userID\<rparr> else req0)
          in if cwr_UserID req = [] then (sendError 400 ''user_id is required'', h)
             else
               let (u, st1) = s_GetUser S (cwr_UserID req) (h_store h); h1 = h\<lparr>h_store := st1\<rparr>
               in case u of
                    Inl _ \<Rightarrow> (sendError 404 ''User not found'', h1)
                  | Inr _ \<Rightarrow>
                      let address = xrpl_address e 0;
                          wtype = (if cwr_Type req = 0 then WalletTypeStandard else cwr_Type req);
                          network = (if cwr_Network req = 0 then NetworkXRPLedger else cwr_Network req);
                          (w, st2) = s_CreateWallet S
                             (new_wallet address (cwr_UserID req) (cwr_Name req) wtype network)
                             (time_now e 0) st1;
                          h2 = h1\<lparr>h_store := st2\<rparr>
                      in case w of
                           Inl _ \<Rightarrow> (sendError 500 ''Failed to create wallet'', h2)
                         | Inr wallet \<Rightarrow> (sendJSON 201 (Wallet_json wallet), h2))"

text \<open>The wallets of a user, with a default one created when there is none.\<close>

definition wallets_or_default ::
  "'s Storage \<Rightarrow> env \<Rightarrow> key_order \<Rightarrow> string \<Rightarrow> 's store \<Rightarrow> (string + Wallet list) \<times> 's store" where
  "wallets_or_default S e ord userID st =
     (case s_GetWalletsByUser S ord userID st of
        Inl _ \<Rightarrow> (Inl ''Failed to get wallets'', st)
      | Inr wallets \<Rightarrow>
          if wallets = []
          then
            let (w, st1) = s_CreateWallet S
                   (new_wallet (xrpl_address e 0) userID ''Default Wallet'' WalletTypeStandard NetworkXRPLedger)
                   (time_now e 0) st
            in case w of
                 Inl _ \<Rightarrow> (Inl ''Failed to create wallet'', st1)
               | Inr wallet \<Rightarrow> (Inr [wallet], st1)
          else (Inr wallets, st))"

definition wallet_entries :: "Wallet list \<Rightarrow> UserWalletResponse list" where
  "wallet_entries ws =
     map (\<lambda>(i, w). \<lparr>uwr_UUID = w_Address w, uwr_Address = w_Address w, uwr_Name = w_Name w,
                    uwr_Type = w_Type w, uwr_Primary = (i = 0), uwr_Active = True,
                    uwr_Enabled = True\<rparr>)
         (enumerate 0 ws)"

definition GetUserWallets ::
  "'s Storage \<Rightarrow> env \<Rightarrow> key_order \<Rightarrow> request \<Rightarrow> 's Handler \<Rightarrow> response \<times> 's Handler" where
  "GetUserWallets S e ord r h =
     (let userID = URLParam r ''userID'' in
      if userID = [] then (sendError 400 ''User ID is required'', h)
      else
        let (u, st1) = s_GetUser S userID (h_store h); h1 = h\<lparr>h_store := st1\<rparr>
        in case u of
             Inl _ \<Rightarrow> (sendError 404 ''User not found'', h1)
           | Inr _ \<Rightarrow>
               let (ws, st2) = wallets_or_default S e ord userID st1; h2 = h1\<lparr>h_store := st2\<rparr>
               in case ws of
                    Inl msg \<Rightarrow> (sendError 500 msg, h2)
                  | Inr wallets \<Rightarrow>
                      (sendJSON 200 (UserWalletsResponse_json \<lparr>uwsr_Wallets = wallet_entries wallets\<rparr>), h2))"

definition resolveWalletParam :: "request \<Rightarrow> string" where
  "resolveWalletParam r =
     (let wid = URLParam r ''walletID'' in if wid \<noteq> [] then wid else URLParam r ''address'')"

definition GetWallet :: "'s Storage \<Rightarrow> request \<Rightarrow> 's Handler \<Rightarrow> response \<times> 's Handler" where
  "GetWallet S r h =
     (let walletID = resolveWalletParam r in
      if walletID = [] then (sendError 400 ''Wallet address is required'', h)
      else case s_GetWallet S walletID (h_store h) of
             Inl _ \<Rightarrow> (sendError 404 ''Wallet not found'', h)
           | Inr wallet \<Rightarrow> (sendJSON 200 (Wallet_json wallet), h))"

definition balance_entry :: "'s Storage \<Rightarrow> env \<Rightarrow> 's store \<Rightarrow> string \<Rightarrow> string \<Rightarrow> WalletBalanceResponse" where
  "balance_entry S e st userID currency =
     (let balance = fst (s_GetBalance S userID currency st)
      in \<lparr>wbr_Available = formatAmount balance, wbr_Pending = ''0.00'',
          wbr_Total = formatAmount balance,
          wbr_Vault = \<lparr>vs_UUID = mstr SandboxVaultIDs currency,
                       vs_Name = ''Sandbox Vault '' @ currency, vs_AssetCode = currency,
                       vs_CreatedAt = format_rfc3339 (time_now e 0),
                       vs_UpdatedAt = format_rfc3339 (time_now e 1)\<rparr>\<rparr>)"

definition GetWalletBalance ::
  "'s Storage \<Rightarrow> env \<Rightarrow> request \<Rightarrow> 's Handler \<Rightarrow> response \<times> 's Handler" where
  "GetWalletBalance S e r h =
     (let walletID = resolveWalletParam r in
      if walletID = [] then (sendError 400 ''Wallet address is required'', h)
      else case s_GetWallet S walletID (h_store h) of
             Inl _ \<Rightarrow> (sendError 404 ''Wallet not found'', h)
           | Inr wallet \<Rightarrow>
               (sendJSON 200 (JArr (map (\<lambda>c. WalletBalanceResponse_json
                    (balance_entry S e (h_store h) (w_UserID wallet) c)) SandboxCurrencies)), h))"

section \<open>Creating a transaction\<close>

text \<open>The user of the request: the body, then the header, then the owner of the receiving wallet.\<close>

definition resolve_tx_user ::
  "'s Storage \<Rightarrow> request \<Rightarrow> 's store \<Rightarrow> CreateTransactionRequest \<Rightarrow> CreateTransactionRequest" where
  "resolve_tx_user S r st req =
     (let req1 = (if ctq_UserID req = []
                  then req\<lparr>ctq_UserID := Header_Get r ''x-gatehub-managed-user-uuid''\<rparr> else req)
      in if ctq_UserID req1 = [] \<and> ctq_ReceivingAddress req1 \<noteq> []
         then case s_GetWallet S (ctq_ReceivingAddress req1) st of
                Inl _ \<Rightarrow> req1
              | Inr wallet \<Rightarrow> req1\<lparr>ctq_UserID := w_UserID wallet\<rparr>
         else req1)"

text \<open>The currency of the request: a known vault decides it.\<close>

definition resolve_tx_currency :: "CreateTransactionRequest \<Rightarrow> string + CreateTransactionRequest" where
  "resolve_tx_currency req =
     (if ctq_Currency req = []
      then
        if ctq_VaultUUID req = [] then Inl ''either currency or vault_uuid is required''
        else case mget VaultUUIDToCurrency (ctq_VaultUUID req) of
               None \<Rightarrow> Inl ''invalid vault_uuid''
             | Some currency \<Rightarrow> Inr (req\<lparr>ctq_Currency := currency\<rparr>)
      else if ctq_VaultUUID req \<noteq> [] \<and> ctq_VaultUUID req \<noteq> mstr SandboxVaultIDs (ctq_Currency req)
      then case mget VaultUUIDToCurrency (ctq_VaultUUID req) of
             None \<Rightarrow> Inr req
           | Some inferred \<Rightarrow> Inr (req\<lparr>ctq_Currency := inferred\<rparr>)
      else Inr req)"

definition default_tx_fields :: "CreateTransactionRequest \<Rightarrow> CreateTransactionRequest" where
  "default_tx_fields req =
     (let req1 = (if ctq_Type req = 0 then req\<lparr>ctq_Type := TransactionTypeDeposit\<rparr> else req);
          req2 = (if ctq_DepositType req1 = []
                  then req1\<lparr>ctq_DepositType :=
                         (if ctq_Type req1 = TransactionTypeDeposit
                          then DepositTypeExternal else DepositTypeHosted)\<rparr>
                  else req1)
      in if ctq_VaultUUID req2 = []
         then req2\<lparr>ctq_VaultUUID := mstr SandboxVaultIDs (ctq_Currency req2)\<rparr> else req2)"

definition tx_fee :: "FeeConfig \<Rightarrow> CreateTransactionRequest \<Rightarrow> f64" where
  "tx_fee fees req =
     (let feePercent =
            (if ctq_DepositType req = DepositTypeExternal
             then fst (GetDepositFeeForUser (ctq_UserID req) fees)
             else if ctq_DepositType req = DepositTypeWithdrawal
             then fst (GetWithdrawalFeeForUser (ctq_UserID req) fees)
             else f0)
      in CalculateFee (ctq_Amount req) feePercent)"

definition tx_of_request :: "CreateTransactionRequest \<Rightarrow> f64 \<Rightarrow> Transaction" where
  "tx_of_request req feeAmount =
     (let amountStr = formatAmount (ctq_Amount req)
      in zero_Transaction\<lparr>
           tx_UserID := ctq_UserID req, tx_UID := ctq_UID req, tx_Amount := amountStr,
           tx_TotalAmount := (if ctq_DepositType req = DepositTypeWithdrawal
                              then formatAmount (fadd (ctq_Amount req) feeAmount) else amountStr),
           tx_Fee := formatAmount feeAmount, tx_Currency := ctq_Currency req,
           tx_VaultUUID := ctq_VaultUUID req, tx_SendingAddress := ctq_SendingAddress req,
           tx_ReceivingAddress := ctq_ReceivingAddress req, tx_Type := ctq_Type req,
           tx_DepositType := ctq_DepositType req, tx_Status := TransactionStatusPending\<rparr>)"

definition complete :: "'s Storage \<Rightarrow> string \<Rightarrow> time \<Rightarrow> completion \<Rightarrow> 's Handler \<Rightarrow> 's Handler" where
  "complete S jobID now c h =
     (let (e1, st1) = (if cp_hasWebhook c
                       then s_UpdateTransactionStatus S (cp_txID c) TransactionStatusCompleted (h_store h)
                       else (None, h_store h));
          h1 = h\<lparr>h_store := st1\<rparr>
      in if e1 \<noteq> None then h1
         else
           let netAmount = fsub (cp_amount c) (cp_feeAmount c);
               (e2, st2) = (if cp_isDebit c
                            then s_DeductBalance S (cp_userID c) (cp_currency c) netAmount st1
                            else s_AddBalance S (cp_userID c) (cp_currency c) netAmount st1);
               h2 = h1\<lparr>h_store := st2\<rparr>
           in if e2 \<noteq> None then h2
              else if cp_hasWebhook c
              then send_async S jobID now WebhookEventDepositCompleted (cp_userID c)
                     [(''transaction_id'', JStr (cp_txID c)), (''tx_uuid'', JStr (cp_txID c)),
                      (''amount'', JStr (formatAmount (cp_amount c))),
                      (''currency'', JStr (cp_currency c)), (''address'', JStr (cp_receivingAddr c)),
                      (''deposit_type'', JStr (cp_depositType c)), (''status'', JStr ''completed'')]
                     f0 h2
              else h2)"

text \<open>Money leaves the user when a hosted transfer is sent from one of the user's own wallets.\<close>

definition is_debit :: "'s Storage \<Rightarrow> 's store \<Rightarrow> CreateTransactionRequest \<Rightarrow> bool" where
  "is_debit S st req \<longleftrightarrow>
     ctq_DepositType req = DepositTypeHosted \<and> ctq_SendingAddress req \<noteq> [] \<and>
     (case s_GetWallet S (ctq_SendingAddress req) st of
        Inl _ \<Rightarrow> False
      | Inr wallet \<Rightarrow> w_UserID wallet = ctq_UserID req)"

definition finish_create ::
  "'s Storage \<Rightarrow> env \<Rightarrow> CreateTransactionRequest \<Rightarrow> f64 \<Rightarrow> Transaction \<Rightarrow> 's Handler \<Rightarrow> 's Handler" where
  "finish_create S e req feeAmount tx h =
     (if ctq_DepositType req = DepositTypeExternal \<or> ctq_DepositType req = DepositTypeHosted
      then
        let hasWebhook = HasURL S (h_store h) (h_webhook h);
            c = \<lparr>cp_txID = tx_ID tx, cp_userID = ctq_UserID req, cp_currency = ctq_Currency req,
                 cp_amount = ctq_Amount req, cp_feeAmount = feeAmount,
                 cp_depositType = ctq_DepositType req,
                 cp_receivingAddr = ctq_ReceivingAddress req, cp_hasWebhook = hasWebhook,
                 cp_isDebit = is_debit S (h_store h) req\<rparr>
        in if \<not> hasWebhook then complete S (uuid e 1) (time_now e 1) c h
           else h\<lparr>h_tasks := h_tasks h @ [Complete c]\<rparr>
      else h)"

definition CreateTransaction ::
  "'s Storage \<Rightarrow> env \<Rightarrow> request \<Rightarrow> CreateTransactionRequest option \<Rightarrow> 's Handler \<Rightarrow>
     response \<times> 's Handler" where
  "CreateTransaction S e r body h =
     (case body of
        None \<Rightarrow> (sendError 400 ''Invalid request body'', h)
      | Some req0 \<Rightarrow>
          let req1 = resolve_tx_user S r (h_store h) req0 in
          if ctq_UserID req1 = []
          then (sendError 400 ''user_id is required (provide in body, x-gatehub-managed-user-uuid header, or use a valid receiving_address)'', h)
          else if fle (ctq_Amount req1) f0 then (sendError 400 ''amount must be positive'', h)
          else case resolve_tx_currency req1 of
                 Inl msg \<Rightarrow> (sendError 400 msg, h)
               | Inr req2 \<Rightarrow>
                   let (u, st1) = s_GetUser S (ctq_UserID req2) (h_store h); h1 = h\<lparr>h_store := st1\<rparr>
                   in case u of
                        Inl _ \<Rightarrow> (sendError 404 ''User not found'', h1)
                      | Inr _ \<Rightarrow>
                          let req = default_tx_fields req2;
                              feeAmount = tx_fee (h_fees h1) req;
                              (t, st2) = s_CreateTransaction S (tx_of_request req feeAmount)
                                           (uuid e 0) (time_now e 0) st1;
                              h2 = h1\<lparr>h_store := st2\<rparr>
                          in case t of
                               Inl _ \<Rightarrow> (sendError 500 ''Failed to create transaction'', h2)
                             | Inr tx \<Rightarrow>
                                 (sendJSON 201 (Transaction_json tx),
                                  finish_create S e req feeAmount tx h2))"

section \<open>Reading transactions\<close>

definition transaction_view :: "Transaction \<Rightarrow> json" where
  "transaction_view tx =
     JObj [(''uuid'', JStr (tx_ID tx)), (''user_id'', JStr (tx_UserID tx)),
           (''amount'', JStr (tx_Amount tx)), (''total_amount'', JStr (tx_TotalAmount tx)),
           (''fee'', JStr (tx_Fee tx)), (''currency'', JStr (tx_Currency tx)),
           (''type'', JInt (tx_Type tx)), (''deposit_type'', JStr (tx_DepositType tx)),
           (''status'', JInt (tx_Status tx)),
           (''created_at'', JStr (format_rfc3339 (tx_CreatedAt tx))),
           (''vault'', JObj [(''uuid'', JStr (tx_VaultUUID tx)),
                             (''asset_code'', JStr (tx_Currency tx)),
                             (''name'', JStr (tx_Currency tx @ '' Vault''))]),
           (''sending_wallet'', JObj [(''address'', JStr (tx_ReceivingAddress tx))]),
           (''receiving_wallet'', JObj [(''address'', JStr (tx_ReceivingAddress tx))])]"

definition GetTransaction :: "'s Storage \<Rightarrow> request \<Rightarrow> 's Handler \<Rightarrow> response \<times> 's Handler" where
  "GetTransaction S r h =
     (let txID = URLParam r ''txID'' in
      if txID = [] then (sendError 400 ''Transaction ID is required'', h)
      else case s_GetTransaction S txID (h_store h) of
             Inl _ \<Rightarrow> (sendError 404 ''Transaction not found'', h)
           | Inr tx \<Rightarrow> (sendJSON 200 (transaction_view tx), h))"

definition ListGatewayTransactions :: "'s Handler \<Rightarrow> response \<times> 's Handler" where
  "ListGatewayTransactions h = (sendJSON 200 (JArr []), h)"

definition GetUserCurrencies :: "'s Storage \<Rightarrow> request \<Rightarrow> 's Handler \<Rightarrow> response \<times> 's Handler" where
  "GetUserCurrencies S r h =
     (let q = Query_Get r ''bearer''; a = Header_Get r ''Authorization'';
          bearer = (if q \<noteq> [] then q
                    else if length a > 7 \<and> take 7 a = ''Bearer '' then drop 7 a else a)
      in if bearer = [] then (sendError 400 ''Missing bearer token'', h)
         else
           let userUUID = extractUserFromBearer h bearer in
           if userUUID = []
           then (sendJSON 200 (CurrenciesResponse_json \<lparr>cyr_Currencies = SandboxCurrencies\<rparr>), h)
           else
             let userCurrencies = filter (\<lambda>c. case s_GetBalance S userUUID c (h_store h) of
                     (balance, err) \<Rightarrow> err = None \<and> flt f0 balance) SandboxCurrencies
             in (sendJSON 200 (CurrenciesResponse_json
                   \<lparr>cyr_Currencies = (if userCurrencies = [] then SandboxCurrencies else userCurrencies)\<rparr>), h))"

end
