(* ===== verification/Auth_Middleware.thy ===== *)
theory Auth_Middleware
  imports Handler_State
begin

text \<open>
  Request signatures and the authentication middleware: \<^verbatim>\<open>internal/auth/signature.go\<close> and
  \<^verbatim>\<open>internal/auth/middleware.go\<close>.
\<close>

section \<open>Signatures\<close>

definition signed_message :: "string \<Rightarrow> string \<Rightarrow> string \<Rightarrow> string \<Rightarrow> string" where
  "signed_message timestamp method url body =
     trim (\<lambda>c. c = CHR ''|'') (timestamp @ ''|'' @ method @ ''|'' @ url @ ''|'' @ body)"

definition GenerateSignature :: "string \<Rightarrow> string \<Rightarrow> string \<Rightarrow> string \<Rightarrow> string \<Rightarrow> string" where
  "GenerateSignature timestamp method url body secret =
     hex_EncodeToString (hmac_sha256 secret (signed_message timestamp method url body))"

definition GenerateGateHubWebhookSignature :: "string \<Rightarrow> string \<Rightarrow> string" where
  "GenerateGateHubWebhookSignature jsonBody hexSecret =
     (let key = (case hex_DecodeString hexSecret of None \<Rightarrow> hexSecret | Some k \<Rightarrow> k)
      in hex_EncodeToString (hmac_sha256 key jsonBody))"

record outgoing =
  o_Method :: string
  o_Scheme :: string
  o_URLHost :: string
  o_Host :: string
  o_Path :: string
  o_RawQuery :: string
  o_header :: "string gomap"

definition buildOutgoingURL :: "outgoing \<Rightarrow> string" where
  "buildOutgoingURL r =
     (let scheme = (if o_Scheme r = [] then ''http'' else o_Scheme r);
          host = (if o_URLHost r = [] then o_Host r else o_URLHost r);
          fullURL = scheme @ ''://'' @ host @ o_Path r
      in if o_RawQuery r \<noteq> [] then fullURL @ ''?'' @ o_RawQuery r else fullURL)"

text \<open>Milliseconds since 1970 of a point of time.\<close>

definition UnixMilli :: "time \<Rightarrow> int" where
  "UnixMilli t = t div 1000000 - 62135596800000"

definition SignRequest :: "time \<Rightarrow> string \<Rightarrow> string \<Rightarrow> outgoing \<Rightarrow> outgoing" where
  "SignRequest now secret body r =
     (let timestamp = int_str (UnixMilli now);
          signature = GenerateSignature timestamp (o_Method r) (buildOutgoingURL r) body secret
      in r\<lparr>o_header := mput ''x-gatehub-app-id'' ''mockgatehub''
             (mput ''x-gatehub-signature'' signature
               (mput ''x-gatehub-timestamp'' timestamp (o_header r)))\<rparr>)"

section \<open>The middleware\<close>

definition PublicEndpoints :: "string list" where
  "PublicEndpoints =
    [''/health'', ''/'', ''/iframe/onboarding'', ''/iframe/submit'', ''/transaction/complete'',
     ''/api/user-currencies'', ''/cards/v1/token/card-data/data'', ''/cards/v1/token/pin/data'',
     ''/cards/v1/token/pin/public-key'']"

definition PublicEndpointPatterns :: "string list" where
  "PublicEndpointPatterns = []"

definition matchPattern :: "string \<Rightarrow> string \<Rightarrow> bool" where
  "matchPattern pattern path \<longleftrightarrow>
     (let patternParts = split_on (CHR ''/'') (trim (\<lambda>c. c = CHR ''/'') pattern);
          pathParts = split_on (CHR ''/'') (trim (\<lambda>c. c = CHR ''/'') path)
      in list_all2 (\<lambda>p q. p = ''*'' \<or> p = q) patternParts pathParts)"

definition matchesPublicPattern :: "string \<Rightarrow> bool" where
  "matchesPublicPattern path \<longleftrightarrow> list_ex (\<lambda>pattern. matchPattern pattern path) PublicEndpointPatterns"

definition reconstructURL :: "request \<Rightarrow> string" where
  "reconstructURL r =
     (let proto = Header_Get r ''X-Forwarded-Proto'';
          scheme = (if proto = [] then (if r_TLS r then ''https'' else ''http'') else proto);
          fwd = Header_Get r ''X-Forwarded-Host'';
          host = (if fwd = [] then r_Host r else fwd);
          fullURL = scheme @ ''://'' @ host @ r_Path r
      in if r_RawQuery r \<noteq> [] then fullURL @ ''?'' @ r_RawQuery r else fullURL)"

datatype verdict = Pass | Refuse int string

definition unauthorized :: verdict where
  "unauthorized = Refuse 401 ''{\"error\": {\"status_code\": 401, \"status\": \"Unauthorized\"}}''"

definition bad_body :: verdict where
  "bad_body = Refuse 400 ''{\"error\": {\"status_code\": 400, \"status\": \"Bad Request\"}}''"

text \<open>
  The decision of the middleware on a request with the given body (\<open>None\<close> when reading it
  fails): the next handler runs exactly on \<open>Pass\<close>.
\<close>

definition Middleware :: "string gomap \<Rightarrow> request \<Rightarrow> string option \<Rightarrow> verdict" where
  "Middleware validCredentials r body =
     (if r_Path r \<in> set PublicEndpoints then Pass
      else if matchesPublicPattern (r_Path r) then Pass
      else
        let appID = Header_Get r ''x-gatehub-app-id'';
            timestamp = Header_Get r ''x-gatehub-timestamp'';
            signature = Header_Get r ''x-gatehub-signature''
        in if appID = [] \<or> timestamp = [] \<or> signature = [] then unauthorized
           else case mget validCredentials appID of
                  None \<Rightarrow> unauthorized
                | Some secret \<Rightarrow>
                    (case body of
                       None \<Rightarrow> bad_body
                     | Some bodyBytes \<Rightarrow>
                         if signature \<noteq> GenerateSignature timestamp (r_Method r) (reconstructURL r)
                                           bodyBytes secret
                         then unauthorized
                         else Pass))"

section \<open>Properties\<close>

lemma length_GenerateSignature [simp]: "length (GenerateSignature t m u b s) = 64"
  by (simp add: GenerateSignature_def)

lemma not_public_pattern [simp]: "\<not> matchesPublicPattern path"
  by (simp add: matchesPublicPattern_def PublicEndpointPatterns_def)

lemma Middleware_Pass_iff:
  assumes "r_Path r \<notin> set PublicEndpoints"
  shows "Middleware creds r body = Pass \<longleftrightarrow>
    (\<exists>secret b. body = Some b \<and> mget creds (Header_Get r ''x-gatehub-app-id'') = Some secret \<and>
       Header_Get r ''x-gatehub-app-id'' \<noteq> [] \<and> Header_Get r ''x-gatehub-timestamp'' \<noteq> [] \<and>
       Header_Get r ''x-gatehub-signature'' =
         GenerateSignature (Header_Get r ''x-gatehub-timestamp'') (r_Method r) (reconstructURL r) b secret)"
proof -
  have "GenerateSignature t m u b s \<noteq> []" for t m u b s
    using length_GenerateSignature [of t m u b s] by fastforce
  with assms show ?thesis
    by (auto simp: Middleware_def unauthorized_def bad_body_def Let_def split: option.splits)
qed

lemma trim_right_snoc [simp]: "p c \<Longrightarrow> trim_right p (s @ [c]) = trim_right p s"
  by (simp add: trim_right_def)

lemma trim_snoc:
  assumes "p c"
  shows "trim p (s @ [c]) = trim p s"
proof (cases "\<forall>x\<in>set s. p x")
  case True
  with assms have "dropWhile p s = []" "dropWhile p (s @ [c]) = []" by simp_all
  then show ?thesis unfolding trim_def trim_left_def by (simp only:)
next
  case False
  then obtain x where "x \<in> set s" "\<not> p x" by blast
  with assms show ?thesis by (simp add: trim_def trim_left_def dropWhile_append1)
qed

text \<open>
  The separators at the two ends of the message are trimmed before it is signed, so a body
  and the same body with more separators behind it have one signature.
\<close>

lemma signed_message_bar: "signed_message t m u (b @ ''|'') = signed_message t m u b"
  unfolding signed_message_def
  using trim_snoc [of "\<lambda>c. c = CHR ''|''" "CHR ''|''" "t @ ''|'' @ m @ ''|'' @ u @ ''|'' @ b"] by simp

end
