(* ===== verification/Two_Factor.thy ===== *)
theory Two_Factor
  imports Auth_Middleware
begin

text \<open>
  The second factor: \<^verbatim>\<open>verify2FA\<close> and its helpers of \<^verbatim>\<open>internal/handler/identity.go\<close>. The
  integrator that answers the callback is outside the program: its answer is the argument
  \<open>http\<close>, a function of the request it receives.
\<close>

record http_request =
  hq_Method :: string
  hq_URL :: string
  hq_header :: "string gomap"
  hq_body :: string

text \<open>
  The decoded answer: the status with its text, and the field \<^verbatim>\<open>success\<close> of the body (\<open>None\<close>
  when the body does not decode). A request that \<^verbatim>\<open>http.NewRequest\<close> cannot build or that the client
  cannot send has no answer but an error.
\<close>

record http_reply =
  hr_status :: int
  hr_Status :: string
  hr_success :: "bool option"

datatype http_error = Unbuildable go_error | Unsendable go_error

type_synonym http_client = "http_request \<Rightarrow> http_error + http_reply"

definition verify_request :: "Config \<Rightarrow> string \<Rightarrow> string \<Rightarrow> http_request" where
  "verify_request cfg endpoint code =
     (let body = json_text (JObj [(''action'', JStr ''VERIFY''), (''code'', JStr code)])
      in \<lparr>hq_Method = ''POST'', hq_URL = endpoint,
          hq_header = [(''Content-Type'', ''application/json''),
                       (''X-GH-Webhook-Signature'',
                        GenerateGateHubWebhookSignature body (cfg_WebhookSecret cfg))],
          hq_body = body\<rparr>)"

definition call2FAVerify :: "http_client \<Rightarrow> Config \<Rightarrow> string \<Rightarrow> string \<Rightarrow> go_error + bool" where
  "call2FAVerify http cfg endpoint code =
     (case http (verify_request cfg endpoint code) of
        Inl (Unbuildable err) \<Rightarrow> Inl (''failed to build callback request: '' @ err)
      | Inl (Unsendable err) \<Rightarrow> Inl (''callback request failed: '' @ err)
      | Inr reply \<Rightarrow>
          if hr_status reply < 200 \<or> hr_status reply \<ge> 300
          then Inl (''callback returned status '' @ int_str (hr_status reply))
          else case hr_success reply of
                 None \<Rightarrow> Inl ''failed to decode callback response''
               | Some success \<Rightarrow> Inr success)"

definition verify2FA ::
  "'s Storage \<Rightarrow> http_client \<Rightarrow> 's Handler \<Rightarrow> string \<Rightarrow> string \<Rightarrow> go_error option" where
  "verify2FA S http h userID totpCode =
     (let callbackURL = ResolveOrgBaseURL S (h_store h) (h_webhook h) in
      if callbackURL = []
      then Some ''2FA verification requested but no organization callback URL configured''
      else
        let endpoint = trim_right (\<lambda>c. c = CHR ''/'') callbackURL @ ''/v1/users/managed/'' @
                         userID @ ''/2fa''
        in case call2FAVerify http (h_config h) endpoint totpCode of
             Inl err \<Rightarrow> Some (''2FA verification failed: '' @ err)
           | Inr success \<Rightarrow> if success then None else Some ''2FA verification rejected'')"

text \<open>The second factor is accepted only on a successful answer of the organization's endpoint.\<close>

lemma verify2FA_None_iff:
  "verify2FA S http h userID code = None \<longleftrightarrow>
     ResolveOrgBaseURL S (h_store h) (h_webhook h) \<noteq> [] \<and>
     (\<exists>reply. http (verify_request (h_config h)
          (trim_right (\<lambda>c. c = CHR ''/'') (ResolveOrgBaseURL S (h_store h) (h_webhook h)) @
           ''/v1/users/managed/'' @ userID @ ''/2fa'') code) = Inr reply \<and>
        200 \<le> hr_status reply \<and> hr_status reply < 300 \<and> hr_success reply = Some True)"
  by (auto simp: verify2FA_def call2FAVerify_def Let_def split: sum.splits http_error.splits option.splits if_splits)

end
