(* ===== verification/Payments.thy ===== *)
theory Payments
  imports Core Two_Factor
begin

text \<open>
  Deposits and withdrawals from the payment iframe: the transaction part of
  \<^verbatim>\<open>internal/handler/handler.go\<close>.
\<close>

record TransactionRequest =
  trq_Amount :: string
  trq_Currency :: string
  trq_TriggerSCA :: bool
  trq_TOTPCode :: string

definition isSupportedCurrency :: "string \<Rightarrow> bool" where
  "isSupportedCurrency currency \<longleftrightarrow> list_ex (\<lambda>c. c = currency) SandboxCurrencies"

definition validateTransactionRequest :: "TransactionRequest \<Rightarrow> go_error option" where
  "validateTransactionRequest txReq =
     (if trq_Amount txReq = [] then Some ''amount is required''
      else if trq_Currency txReq = [] then Some ''currency is required''
      else if ParseFloat (trq_Amount txReq) = None then Some ''amount must be a valid number''
      else if \<not> isSupportedCurrency (trq_Currency txReq)
      then Some (''unsupported currency: '' @ trq_Currency txReq)
      else None)"

text \<open>The verb \<^verbatim>\<open>%q\<close> for the printable strings that reach it.\<close>

definition go_quote :: "string \<Rightarrow> string" where
  "go_quote s = [CHR 0x22] @
     concat (map (\<lambda>c. if c = CHR 0x22 \<or> c = CHR 0x5C then [CHR 0x5C, c] else [c]) s) @ [CHR 0x22]"

definition deposit_tx :: "string \<Rightarrow> string \<Rightarrow> string \<Rightarrow> string \<Rightarrow> f64 \<Rightarrow> f64 \<Rightarrow> Transaction" where
  "deposit_tx txID userUUID currency walletAddress amountFloat feeAmount =
     zero_Transaction\<lparr>
       tx_ID := txID, tx_UserID := userUUID, tx_Amount := formatAmount amountFloat,
       tx_TotalAmount := formatAmount amountFloat, tx_Fee := formatAmount feeAmount,
       tx_Currency := currency, tx_VaultUUID := mstr SandboxVaultIDs currency,
       tx_ReceivingAddress := walletAddress, tx_Type := TransactionTypeDeposit,
       tx_DepositType := DepositTypeExternal, tx_Status := 1\<rparr>"

definition processDeposit ::
  "'s Storage \<Rightarrow> env \<Rightarrow> key_order \<Rightarrow> string \<Rightarrow> TransactionRequest \<Rightarrow> 's Handler \<Rightarrow> response \<times> 's Handler" where
  "processDeposit S e ord bearer txReq h =
     (let userUUID = extractUserFromBearer h bearer; currency = trq_Currency txReq in
      if userUUID = [] then (sendErrorWithCORS 400 ''Invalid bearer token'', h)
      else
        let (u, st1) = s_GetUser S userUUID (h_store h); h1 = h\<lparr>h_store := st1\<rparr>
        in case u of
             Inl _ \<Rightarrow> (sendErrorWithCORS 404 ''User not found'', h1)
           | Inr _ \<Rightarrow>
             let (ws, st2) = wallets_or_default S e ord userUUID st1; h2 = h1\<lparr>h_store := st2\<rparr>
             in case ws of
                  Inl msg \<Rightarrow> (sendErrorWithCORS 500 msg, h2)
                | Inr wallets \<Rightarrow>
                  let walletAddress = w_Address (hd wallets) in
                  case ParseFloat (trq_Amount txReq) of
                    None \<Rightarrow> (sendErrorWithCORS 400 (''invalid amount format '' @
                              go_quote (trq_Amount txReq) @ '': expected a decimal number''), h2)
                  | Some amountFloat \<Rightarrow>
                    let feeAmount = CalculateFee amountFloat (fst (GetDepositFeeForUser userUUID (h_fees h2)));
                        txID = uuid e 0;
                        (t, st3) = s_CreateTransaction S
                           (deposit_tx txID userUUID currency walletAddress amountFloat feeAmount)
                           (uuid e 1) (time_now e 1) st2;
                        h3 = h2\<lparr>h_store := st3\<rparr>
                    in case t of
                         Inl _ \<Rightarrow> (sendErrorWithCORS 500 ''Failed to create transaction'', h3)
                       | Inr _ \<Rightarrow>
                         let (err, st4) = s_AddBalance S userUUID currency amountFloat st3;
                             h4 = h3\<lparr>h_store := st4\<rparr>
                         in if err \<noteq> None then (sendErrorWithCORS 500 ''Failed to update balance'', h4)
                            else
                              (sendJSONWithCORS 200
                                 (JObj [(''status'', JStr ''success''),
                                        (''message'', JStr ''Transaction completed'')]),
                               send_async S (uuid e 2) (time_now e 2) ''core.deposit.completed'' userUUID
                                 [(''tx_uuid'', JStr txID), (''amount'', JStr (formatAmount amountFloat)),
                                  (''currency'', JStr currency),
                                  (''vault_uuid'', JStr (mstr SandboxVaultIDs currency)),
                                  (''address'', JStr walletAddress),
                                  (''deposit_type'', JStr ''external''),
                                  (''total_fees'', JStr ''0'')] f0 h4))"

definition withdrawal_tx ::
  "string \<Rightarrow> string \<Rightarrow> string \<Rightarrow> string \<Rightarrow> f64 \<Rightarrow> f64 \<Rightarrow> int \<Rightarrow> Transaction" where
  "withdrawal_tx txID userUUID currency walletAddress amountFloat feeAmount status =
     zero_Transaction\<lparr>
       tx_ID := txID, tx_UserID := userUUID, tx_Amount := formatAmount amountFloat,
       tx_TotalAmount := formatAmount (fadd amountFloat feeAmount),
       tx_Fee := formatAmount feeAmount, tx_Currency := currency,
       tx_VaultUUID := mstr SandboxVaultIDs currency, tx_SendingAddress := walletAddress,
       tx_ReceivingAddress := walletAddress, tx_Type := TransactionTypeWithdrawal,
       tx_DepositType := DepositTypeWithdrawal, tx_Status := status,
       tx_AccountIBAN := MockWithdrawalIBAN, tx_AccountLegalName := MockWithdrawalLegalName,
       tx_Message := MockWithdrawalReference\<rparr>"

definition withdrawal_reply :: "bool \<Rightarrow> string \<Rightarrow> response" where
  "withdrawal_reply async txID =
     sendJSONWithCORS 200
       (JObj [(''status'', JStr ''success''),
              (''message'', JStr (if async then ''Withdrawal pending'' else ''Withdrawal completed'')),
              (''transaction_id'', JStr txID), (''uuid'', JStr txID)])"

definition processWithdrawal ::
  "'s Storage \<Rightarrow> env \<Rightarrow> key_order \<Rightarrow> string \<Rightarrow> TransactionRequest \<Rightarrow> 's Handler \<Rightarrow> response \<times> 's Handler" where
  "processWithdrawal S e ord bearer txReq h =
     (let userUUID = extractUserFromBearer h bearer; currency = trq_Currency txReq;
          async = cfg_AsyncWithdrawals (h_config h)
      in if userUUID = [] then (sendErrorWithCORS 400 ''Invalid bearer token'', h)
      else
        let (u, st1) = s_GetUser S userUUID (h_store h); h1 = h\<lparr>h_store := st1\<rparr>
        in case u of
             Inl _ \<Rightarrow> (sendErrorWithCORS 404 ''User not found'', h1)
           | Inr _ \<Rightarrow>
             (case s_GetWalletsByUser S ord userUUID st1 of
                Inl _ \<Rightarrow> (sendErrorWithCORS 500 ''Failed to get wallets'', h1)
              | Inr wallets \<Rightarrow>
                if wallets = [] then (sendErrorWithCORS 400 ''User has no wallets'', h1)
                else case ParseFloat (trq_Amount txReq) of
                  None \<Rightarrow> (sendErrorWithCORS 400 (''invalid amount format '' @
                            go_quote (trq_Amount txReq) @ '': expected a decimal number''), h1)
                | Some amountFloat \<Rightarrow>
                  let walletAddress = w_Address (hd wallets);
                      feeAmount = CalculateFee amountFloat (fst (GetWithdrawalFeeForUser userUUID (h_fees h1)));
                      totalAmount = fadd amountFloat feeAmount;
                      currentBalance = fst (s_GetBalance S userUUID currency st1)
                  in if flt currentBalance totalAmount
                     then (sendErrorWithCORS 400 (''Insufficient balance. Required: '' @
                             format2f totalAmount @ '', Available: '' @ format2f currentBalance), h1)
                     else
                       let txID = uuid e 0;
                           status = (if async then TransactionStatusPending else TransactionStatusCompleted);
                           (t, st2) = s_CreateTransaction S
                              (withdrawal_tx txID userUUID currency walletAddress amountFloat feeAmount status)
                              (uuid e 1) (time_now e 0) st1;
                           h2 = h1\<lparr>h_store := st2\<rparr>
                       in case t of
                            Inl _ \<Rightarrow> (sendErrorWithCORS 500 ''Failed to create transaction'', h2)
                          | Inr _ \<Rightarrow>
                            if async then (withdrawal_reply async txID, h2)
                            else
                              let (err, st3) = s_DeductBalance S userUUID currency totalAmount st2
                              in if err \<noteq> None
                                 then (sendErrorWithCORS 500 ''Failed to deduct balance'',
                                       h2\<lparr>h_store := snd (s_UpdateTransactionStatus S txID TransactionStatusFailed st3)\<rparr>)
                                 else (withdrawal_reply async txID, h2\<lparr>h_store := st3\<rparr>)))"

text \<open>
  The entry point. The body is the request left after decoding, whether or not the decoding
  succeeded: a decoding error is only logged.
\<close>

definition cors_preflight :: response where
  "cors_preflight =
     \<lparr>rs_status = 200,
      rs_header = [(''Access-Control-Allow-Origin'', ''*''),
                   (''Access-Control-Allow-Methods'', ''POST, OPTIONS''),
                   (''Access-Control-Allow-Headers'', ''Content-Type, Authorization'')],
      rs_body = Empty\<rparr>"

definition completion_bearer :: "request \<Rightarrow> string" where
  "completion_bearer r =
     (let q = Query_Get r ''bearer''; a = Header_Get r ''Authorization''
      in if q \<noteq> [] then q else if a \<noteq> [] then extractBearerFromAuthHeader a else [])"

definition TransactionCompleteHandler ::
  "'s Storage \<Rightarrow> http_client \<Rightarrow> env \<Rightarrow> key_order \<Rightarrow> request \<Rightarrow> TransactionRequest \<Rightarrow> 's Handler \<Rightarrow>
     response \<times> 's Handler" where
  "TransactionCompleteHandler S http e ord r txReq h =
     (if r_Method r = ''OPTIONS'' then (cors_preflight, h)
      else
        let paymentType = Query_Get r ''paymentType''; bearer = completion_bearer r in
        if bearer = [] then (sendErrorWithCORS 400 ''Missing bearer token'', h)
        else case validateTransactionRequest txReq of
               Some err \<Rightarrow> (sendErrorWithCORS 400 err, h)
             | None \<Rightarrow>
                 let userUUID = extractUserFromBearer h bearer;
                     sca = (if \<not> trq_TriggerSCA txReq then None
                            else if userUUID = [] then Some ''Invalid bearer token for SCA verification''
                            else verify2FA S http h userUUID (trq_TOTPCode txReq))
                 in case sca of
                      Some err \<Rightarrow> (sendErrorWithCORS 400 err, h)
                    | None \<Rightarrow>
                        if paymentType = ''deposit'' then processDeposit S e ord bearer txReq h
                        else if paymentType = ''withdraw'' \<or> paymentType = ''withdrawal''
                        then processWithdrawal S e ord bearer txReq h
                        else (sendJSONWithCORS 200
                                (JObj [(''status'', JStr ''success''),
                                       (''message'', JStr ''Transaction completed'')]), h))"

end
