(* ===== verification/Withdrawals.thy ===== *)
theory Withdrawals
  imports Payments
begin

text \<open>
  Listing and settling withdrawals: \<^verbatim>\<open>internal/handler/withdrawals_admin.go\<close>.
\<close>

definition withdrawalStatusFilter :: "string \<Rightarrow> go_error + int option" where
  "withdrawalStatusFilter status =
     (if status = [] then Inr None
      else if status = ''pending'' then Inr (Some TransactionStatusPending)
      else if status = ''completed'' then Inr (Some TransactionStatusCompleted)
      else if status = ''failed'' \<or> status = ''rejected'' then Inr (Some TransactionStatusFailed)
      else Inl (''unknown status '' @ go_quote status @ '': expected pending, completed or failed''))"

definition ListWithdrawals :: "'s Storage \<Rightarrow> request \<Rightarrow> 's Handler \<Rightarrow> response \<times> 's Handler" where
  "ListWithdrawals S r h =
     (let userID = URLParam r ''userID'' in
      if userID = [] then (sendError 400 ''user ID is required'', h)
      else case withdrawalStatusFilter (Query_Get r ''status'') of
             Inl err \<Rightarrow> (sendError 400 err, h)
           | Inr wantStatus \<Rightarrow>
               (case s_ListTransactionsByUser S userID (h_store h) of
                  Inl _ \<Rightarrow> (sendError 500 ''failed to list transactions'', h)
                | Inr transactions \<Rightarrow>
                    let withdrawals = filter (\<lambda>t. tx_DepositType t = DepositTypeWithdrawal \<and>
                          (case wantStatus of None \<Rightarrow> True | Some w \<Rightarrow> tx_Status t = w)) transactions
                    in (sendJSON 200 (JObj [(''withdrawals'', JArr (map Transaction_json withdrawals)),
                                            (''count'', JInt (int (length withdrawals)))]), h)))"

definition completeWithdrawal ::
  "'s Storage \<Rightarrow> env \<Rightarrow> Transaction \<Rightarrow> 's Handler \<Rightarrow> apiError option \<times> 's Handler" where
  "completeWithdrawal S e tx h =
     (case ParseFloat (tx_TotalAmount tx) of
        None \<Rightarrow> (Some (internalErr ''transaction total is not a number''), h)
      | Some totalAmount \<Rightarrow>
          let (err, st1) = s_DeductBalance S (tx_UserID tx) (tx_Currency tx) totalAmount (h_store h);
              h1 = h\<lparr>h_store := st1\<rparr>
          in case err of
               Some msg \<Rightarrow> (Some (conflict (''could not deduct balance: '' @ msg)), h1)
             | None \<Rightarrow>
                 let (err2, st2) = s_UpdateTransactionStatus S (tx_ID tx) TransactionStatusCompleted st1;
                     h2 = h1\<lparr>h_store := st2\<rparr>
                 in if err2 \<noteq> None
                    then (Some (internalErr ''failed to update transaction status''), h2)
                    else (None, send_async S (uuid e 0) (time_now e 0) WebhookEventWithdrawalCompleted
                            (tx_UserID tx)
                            [(''tx_uuid'', JStr (tx_ID tx)), (''amount'', JStr (tx_Amount tx)),
                             (''currency'', JStr (tx_Currency tx)),
                             (''address'', JStr (tx_ReceivingAddress tx)),
                             (''total_fees'', JStr (tx_Fee tx))] f0 h2))"

definition rejectWithdrawal ::
  "'s Storage \<Rightarrow> env \<Rightarrow> Transaction \<Rightarrow> 's Handler \<Rightarrow> apiError option \<times> 's Handler" where
  "rejectWithdrawal S e tx h =
     (let (err, st1) = s_UpdateTransactionStatus S (tx_ID tx) TransactionStatusFailed (h_store h);
          h1 = h\<lparr>h_store := st1\<rparr>
      in if err \<noteq> None then (Some (internalErr ''failed to update transaction status''), h1)
         else (None, send_async S (uuid e 0) (time_now e 0) WebhookEventWithdrawalRejected (tx_UserID tx)
                 [(''tx_uuid'', JStr (tx_ID tx)), (''user_id'', JStr (tx_UserID tx)),
                  (''status'', JStr ''REJECTED''), (''currency'', JStr (tx_Currency tx)),
                  (''amount'', JStr (tx_Amount tx))] f0 h1))"

definition settleWithdrawal ::
  "'s Storage \<Rightarrow> env \<Rightarrow> string \<Rightarrow> string \<Rightarrow> 's Handler \<Rightarrow> apiError option \<times> 's Handler" where
  "settleWithdrawal S e txID event h =
     (if event \<noteq> WebhookEventWithdrawalCompleted \<and> event \<noteq> WebhookEventWithdrawalRejected
      then (Some (badRequest (''unsupported event '' @ event @ ''; use '' @
                  WebhookEventWithdrawalCompleted @ '' or '' @ WebhookEventWithdrawalRejected)), h)
      else case s_GetTransaction S txID (h_store h) of
             Inl _ \<Rightarrow> (Some (notFound ''transaction not found''), h)
           | Inr tx \<Rightarrow>
               if tx_DepositType tx \<noteq> DepositTypeWithdrawal
               then (Some (badRequest ''transaction is not a withdrawal''), h)
               else if tx_Status tx \<noteq> TransactionStatusPending
               then (Some (conflict ''withdrawal is not pending; it has already been settled''), h)
               else if event = WebhookEventWithdrawalCompleted then completeWithdrawal S e tx h
               else rejectWithdrawal S e tx h)"

definition TriggerWithdrawalEvent ::
  "'s Storage \<Rightarrow> env \<Rightarrow> request \<Rightarrow> string option \<Rightarrow> 's Handler \<Rightarrow> response \<times> 's Handler" where
  "TriggerWithdrawalEvent S e r event h =
     (let txID = URLParam r ''txID'' in
      if txID = [] then (sendError 400 ''transaction ID is required'', h)
      else case event of
             None \<Rightarrow> (sendError 400 ''invalid request body'', h)
           | Some ev \<Rightarrow>
               (case settleWithdrawal S e txID ev h of
                  (Some err, h1) \<Rightarrow> (sendAPIError err, h1)
                | (None, h1) \<Rightarrow> (sendJSON 200 (JObj [(''transaction_id'', JStr txID), (''event'', JStr ev)]), h1)))"

end
