(* ===== verification/Memory_Storage.thy ===== *)
theory Memory_Storage
  imports Store_Interface "HOL-Library.Word" "HOL-Library.Char_ord" "HOL-Library.List_Lexorder"
    "HOL-Library.Product_Lexorder"
begin

text \<open>
  The in-memory implementation of the storage interface, \<^verbatim>\<open>internal/storage/memory.go\<close>: the
  struct \<^verbatim>\<open>MemoryStorage\<close> as the record \<open>mem\<close> and one definition \<open>mem_Op\<close> per method
  \<^verbatim>\<open>Op\<close>, in the order of the file. Every method holds the store's lock for its whole body, so a
  method is one atomic step. \<open>memory_storage\<close> is the table of the methods.
\<close>

section \<open>State\<close>

record mem =
  m_users :: "addr gomap"
  m_usersByEmail :: "addr gomap"
  m_customers :: "addr gomap"
  m_customersBySource :: "addr gomap"
  m_accounts :: "addr gomap"
  m_cards :: "Card gomap"
  m_cardTransactions :: "CardTransaction gomap"
  m_rawCardTransactions :: "RawMessage gomap"
  m_cardPINs :: "string gomap"
  m_cardTxSeqID :: "64 word"
  m_cardTransactionsByCard :: "string list gomap"
  m_cardLimits :: "CardLimit list gomap"
  m_customerAddresses :: "CustomerDeliveryAddress list gomap"
  m_threeDSChallenges :: "ThreeDSChallenge gomap"
  m_wallets :: "Wallet gomap"
  m_transactions :: "Transaction gomap"
  m_transactionsByUser :: "string list gomap"
  m_balances :: "f64 gomap gomap"
  m_organizations :: "Organization gomap"

definition NewMemoryStorage :: mem where
  "NewMemoryStorage =
     \<lparr>m_users = [], m_usersByEmail = [], m_customers = [], m_customersBySource = [],
      m_accounts = [], m_cards = [], m_cardTransactions = [], m_rawCardTransactions = [],
      m_cardPINs = [], m_cardTxSeqID = 0, m_cardTransactionsByCard = [], m_cardLimits = [],
      m_customerAddresses = [], m_threeDSChallenges = [], m_wallets = [], m_transactions = [],
      m_transactionsByUser = [], m_balances = [], m_organizations = []\<rparr>"

text \<open>Changing the implementation's state, and reading a map whose values are slices.\<close>

definition upd_db :: "('s \<Rightarrow> 's) \<Rightarrow> 's store \<Rightarrow> 's store" where
  "upd_db f s = s\<lparr>db := f (db s)\<rparr>"

definition mlist :: "'a list gomap \<Rightarrow> string \<Rightarrow> 'a list" where
  "mlist m k = (case mget m k of None \<Rightarrow> [] | Some xs \<Rightarrow> xs)"

lemma upd_db_simps [simp]: "db (upd_db f s) = f (db s)" "hp (upd_db f s) = hp s"
  by (simp_all add: upd_db_def)

section \<open>Users\<close>

definition mem_CreateUser :: "addr \<Rightarrow> string \<Rightarrow> time \<Rightarrow> mem fallible" where
  "mem_CreateUser p uid now s =
     (let u = user_of s p in
      if u_Email u = [] then (Some ''email is required'', s)
      else if mget (m_usersByEmail (db s)) (u_Email u) \<noteq> None
      then (Some (''user with email '' @ u_Email u @ '' already exists''), s)
      else
        let u1 = (if u_ID u = [] then u\<lparr>u_ID := uid\<rparr> else u);
            u2 = (if u_CreatedAt u1 = 0 then u1\<lparr>u_CreatedAt := now\<rparr> else u1)
        in (None, upd_db (\<lambda>m. m\<lparr>m_users := mput (u_ID u2) p (m_users m),
                                m_usersByEmail := mput (u_Email u2) p (m_usersByEmail m)\<rparr>)
                    (set_user p u2 s)))"

definition mem_GetUser :: "string \<Rightarrow> mem store \<Rightarrow> (go_error + addr) \<times> mem store" where
  "mem_GetUser uid s =
     (case mget (m_users (db s)) uid of
        None \<Rightarrow> (Inl ''user not found'', s)
      | Some p \<Rightarrow> (Inr p, s))"

definition mem_GetUserByEmail :: "string \<Rightarrow> mem store \<Rightarrow> (go_error + addr) \<times> mem store" where
  "mem_GetUserByEmail email s =
     (case mget (m_usersByEmail (db s)) email of
        None \<Rightarrow> (Inl ''user not found'', s)
      | Some p \<Rightarrow> (Inr p, s))"

definition mem_UpdateUser :: "addr \<Rightarrow> mem fallible" where
  "mem_UpdateUser p s =
     (let u = user_of s p in
      case mget (m_users (db s)) (u_ID u) of
        None \<Rightarrow> (Some ''user not found'', s)
      | Some existing \<Rightarrow>
          let s1 = (if u_Email (user_of s existing) \<noteq> u_Email u
                    then upd_db (\<lambda>m. m\<lparr>m_usersByEmail :=
                           mput (u_Email u) p (mdel (u_Email (user_of s existing)) (m_usersByEmail m))\<rparr>) s
                    else s)
          in (None, upd_db (\<lambda>m. m\<lparr>m_users := mput (u_ID u) p (m_users m)\<rparr>) s1))"

definition mem_ListUsers :: "key_order \<Rightarrow> mem store \<Rightarrow> (go_error + addr list) \<times> mem store" where
  "mem_ListUsers ord s =
     (Inr (sort_key (\<lambda>p. (u_CreatedAt (user_of s p), u_ID (user_of s p)))
             (range_map ord (m_users (db s)))), s)"

section \<open>Customers and accounts\<close>

text \<open>A \<^verbatim>\<open>*string\<close> field that is nil or holds the empty string.\<close>

definition no_id :: "string option \<Rightarrow> bool" where
  "no_id x \<longleftrightarrow> x = None \<or> x = Some []"

definition id_of :: "string option \<Rightarrow> string" where
  "id_of x = (case x of None \<Rightarrow> [] | Some i \<Rightarrow> i)"

definition mem_CreateCustomer :: "addr \<Rightarrow> string \<Rightarrow> time \<Rightarrow> mem fallible" where
  "mem_CreateCustomer p uid now s =
     (let c = customer_of s p;
          c1 = (if no_id (cu_ID c) then c\<lparr>cu_ID := Some uid\<rparr> else c)
      in if cu_SourceID c1 = [] then (Some ''sourceId is required'', set_customer p c1 s)
         else
           let c2 = (if cu_CreatedAt c1 = 0 then c1\<lparr>cu_CreatedAt := now\<rparr> else c1);
               s2 = set_customer p c2 s;
               cid = id_of (cu_ID c2)
           in if mget (m_customers (db s)) cid \<noteq> None then (Some ''customer already exists'', s2)
              else (None, upd_db (\<lambda>m. m\<lparr>m_customers := mput cid p (m_customers m),
                                        m_customersBySource :=
                                          mput (cu_SourceID c2) p (m_customersBySource m)\<rparr>) s2))"

definition mem_GetCustomer :: "string \<Rightarrow> mem store \<Rightarrow> (go_error + addr) \<times> mem store" where
  "mem_GetCustomer cid s =
     (case mget (m_customers (db s)) cid of
        None \<Rightarrow> (Inl ''customer not found'', s)
      | Some p \<Rightarrow> (Inr p, s))"

definition mem_GetCustomerBySourceID :: "string \<Rightarrow> mem store \<Rightarrow> (go_error + addr) \<times> mem store" where
  "mem_GetCustomerBySourceID sid s =
     (case mget (m_customersBySource (db s)) sid of
        None \<Rightarrow> (Inl ''customer not found'', s)
      | Some p \<Rightarrow> (Inr p, s))"

definition mem_UpdateCustomer :: "addr \<Rightarrow> mem fallible" where
  "mem_UpdateCustomer p s =
     (let c = customer_of s p in
      if no_id (cu_ID c) then (Some ''customer ID is required'', s)
      else if mget (m_customers (db s)) (id_of (cu_ID c)) = None then (Some ''customer not found'', s)
      else (None, upd_db (\<lambda>m. m\<lparr>m_customers := mput (id_of (cu_ID c)) p (m_customers m),
                                m_customersBySource :=
                                  mput (cu_SourceID c) p (m_customersBySource m)\<rparr>) s))"

definition mem_CreateAccount :: "addr \<Rightarrow> string \<Rightarrow> time \<Rightarrow> mem fallible" where
  "mem_CreateAccount p uid now s =
     (let a = account_of s p;
          a1 = (if no_id (acc_ID a) then a\<lparr>acc_ID := Some uid\<rparr> else a);
          aid = id_of (acc_ID a1)
      in if mget (m_accounts (db s)) aid \<noteq> None
         then (Some ''account already exists'', set_account p a1 s)
         else
           let a2 = (if acc_CreatedAt a1 = 0 then a1\<lparr>acc_CreatedAt := now\<rparr> else a1)
           in (None, upd_db (\<lambda>m. m\<lparr>m_accounts := mput aid p (m_accounts m)\<rparr>) (set_account p a2 s)))"

definition mem_GetAccount :: "string \<Rightarrow> mem store \<Rightarrow> (go_error + addr) \<times> mem store" where
  "mem_GetAccount aid s =
     (case mget (m_accounts (db s)) aid of
        None \<Rightarrow> (Inl ''account not found'', s)
      | Some p \<Rightarrow> (Inr p, s))"

definition mem_UpdateAccount :: "addr \<Rightarrow> mem fallible" where
  "mem_UpdateAccount p s =
     (let a = account_of s p in
      if no_id (acc_ID a) then (Some ''account ID is required'', s)
      else if mget (m_accounts (db s)) (id_of (acc_ID a)) = None then (Some ''account not found'', s)
      else (None, upd_db (\<lambda>m. m\<lparr>m_accounts := mput (id_of (acc_ID a)) p (m_accounts m)\<rparr>) s))"

definition mem_CreateCustomerAddress ::
  "string \<Rightarrow> CustomerDeliveryAddress option \<Rightarrow> string \<Rightarrow> mem store \<Rightarrow>
     (go_error + CustomerDeliveryAddress) \<times> mem store" where
  "mem_CreateCustomerAddress cid address uid s =
     (if cid = [] then (Inl ''customer ID is required'', s)
      else case address of
        None \<Rightarrow> (Inl ''address is required'', s)
      | Some a \<Rightarrow>
          let a1 = (if da_ID a = [] then a\<lparr>da_ID := uid\<rparr> else a)
          in (Inr a1, upd_db (\<lambda>m. m\<lparr>m_customerAddresses :=
                mput cid (mlist (m_customerAddresses m) cid @ [a1]) (m_customerAddresses m)\<rparr>) s))"

definition mem_GetCustomerAddresses ::
  "string \<Rightarrow> mem store \<Rightarrow> go_error + CustomerDeliveryAddress list" where
  "mem_GetCustomerAddresses cid s = Inr (mlist (m_customerAddresses (db s)) cid)"

section \<open>Cards\<close>

definition mem_CreateCard :: "Card \<Rightarrow> string \<Rightarrow> time \<Rightarrow> mem store \<Rightarrow> (go_error + Card) \<times> mem store" where
  "mem_CreateCard crd uid now s =
     (let c1 = (if c_ID crd = [] then crd\<lparr>c_ID := uid\<rparr> else crd);
          c2 = (if c_CreatedAt c1 = 0 then c1\<lparr>c_CreatedAt := now\<rparr> else c1)
      in if mget (m_cards (db s)) (c_ID c2) \<noteq> None then (Inl ''card already exists'', s)
         else (Inr c2, upd_db (\<lambda>m. m\<lparr>m_cards := mput (c_ID c2) c2 (m_cards m)\<rparr>) s))"

definition mem_GetCard :: "string \<Rightarrow> mem store \<Rightarrow> go_error + Card" where
  "mem_GetCard cid s =
     (case mget (m_cards (db s)) cid of None \<Rightarrow> Inl ''card not found'' | Some c \<Rightarrow> Inr c)"

definition mem_UpdateCard :: "Card \<Rightarrow> mem fallible" where
  "mem_UpdateCard crd s =
     (if c_ID crd = [] then (Some ''card ID is required'', s)
      else if mget (m_cards (db s)) (c_ID crd) = None then (Some ''card not found'', s)
      else (None, upd_db (\<lambda>m. m\<lparr>m_cards := mput (c_ID crd) crd (m_cards m)\<rparr>) s))"

definition mem_GetCardsByCustomer :: "key_order \<Rightarrow> string \<Rightarrow> mem store \<Rightarrow> go_error + Card list" where
  "mem_GetCardsByCustomer ord cid s =
     Inr (filter (\<lambda>c. c_CustomerID c = cid) (range_map ord (m_cards (db s))))"

definition mem_GetCardsByAccount :: "key_order \<Rightarrow> string \<Rightarrow> mem store \<Rightarrow> go_error + Card list" where
  "mem_GetCardsByAccount ord aid s =
     Inr (filter (\<lambda>c. c_AccountID c = aid) (range_map ord (m_cards (db s))))"

definition mem_GetCardLimits :: "string \<Rightarrow> mem store \<Rightarrow> go_error + CardLimit list" where
  "mem_GetCardLimits cid s = Inr (mlist (m_cardLimits (db s)) cid)"

definition mem_SetCardLimits :: "string \<Rightarrow> CardLimit list \<Rightarrow> mem fallible" where
  "mem_SetCardLimits cid limits s =
     (None, upd_db (\<lambda>m. m\<lparr>m_cardLimits := mput cid limits (m_cardLimits m)\<rparr>) s)"

section \<open>Card transactions\<close>

definition mem_CreateCardTransaction :: "CardTransaction \<Rightarrow> mem fallible" where
  "mem_CreateCardTransaction tx s =
     (if ct_TransactionID tx = [] then (Some ''transactionId is required'', s)
      else if mget (m_cardTransactions (db s)) (ct_TransactionID tx) \<noteq> None
      then (Some ''card transaction already exists'', s)
      else (None, upd_db (\<lambda>m. m\<lparr>m_cardTransactions :=
              mput (ct_TransactionID tx) tx (m_cardTransactions m)\<rparr>) s))"

definition mem_GetCardTransaction :: "string \<Rightarrow> mem store \<Rightarrow> go_error + CardTransaction" where
  "mem_GetCardTransaction tid s =
     (case mget (m_cardTransactions (db s)) tid of
        None \<Rightarrow> Inl ''card transaction not found''
      | Some tx \<Rightarrow> Inr tx)"

text \<open>
  The raw payload is decoded as a map, changed and encoded again: both succeed on the encoding
  of an object, whose numbers are finite.
\<close>

definition mem_UpdateCardTransactionStatus :: "string \<Rightarrow> string \<Rightarrow> mem fallible" where
  "mem_UpdateCardTransactionStatus tid status s =
     (case mget (m_cardTransactions (db s)) tid of
        None \<Rightarrow> (Some ''card transaction not found'', s)
      | Some tx \<Rightarrow>
          let s1 = upd_db (\<lambda>m. m\<lparr>m_cardTransactions :=
                     mput tid (tx\<lparr>ct_TxStatus := Some status\<rparr>) (m_cardTransactions m)\<rparr>) s
          in case mget (m_rawCardTransactions (db s)) tid of
               None \<Rightarrow> (None, s1)
             | Some raw \<Rightarrow>
                 (None, upd_db (\<lambda>m. m\<lparr>m_rawCardTransactions :=
                    mput tid (mput ''txStatus'' (JStr status) raw) (m_rawCardTransactions m)\<rparr>) s1))"

definition mem_StoreRawCardTransaction :: "string \<Rightarrow> RawMessage \<Rightarrow> mem fallible" where
  "mem_StoreRawCardTransaction tid raw s =
     (if tid = [] then (Some ''txID is required'', s)
      else (None, upd_db (\<lambda>m. m\<lparr>m_rawCardTransactions := mput tid raw (m_rawCardTransactions m)\<rparr>) s))"

definition mem_GetRawCardTransaction :: "string \<Rightarrow> mem store \<Rightarrow> go_error + RawMessage" where
  "mem_GetRawCardTransaction tid s =
     (case mget (m_rawCardTransactions (db s)) tid of
        None \<Rightarrow> Inl ''raw card transaction not found''
      | Some raw \<Rightarrow> Inr raw)"

definition mem_SetCardPIN :: "string \<Rightarrow> string \<Rightarrow> mem fallible" where
  "mem_SetCardPIN cid pin s =
     (if cid = [] then (Some ''cardID is required'', s)
      else if mget (m_cards (db s)) cid = None then (Some ''card not found'', s)
      else (None, upd_db (\<lambda>m. m\<lparr>m_cardPINs := mput cid pin (m_cardPINs m)\<rparr>) s))"

definition mem_GetCardPIN :: "string \<Rightarrow> mem store \<Rightarrow> go_error + string" where
  "mem_GetCardPIN cid s =
     (case mget (m_cardPINs (db s)) cid of None \<Rightarrow> Inl ''card pin not set'' | Some pin \<Rightarrow> Inr pin)"

definition mem_NextCardTransactionSeqID :: "mem store \<Rightarrow> (go_error + int) \<times> mem store" where
  "mem_NextCardTransactionSeqID s =
     (let n = m_cardTxSeqID (db s) + 1
      in (Inr (sint n), upd_db (\<lambda>m. m\<lparr>m_cardTxSeqID := n\<rparr>) s))"

definition mem_PeekCardTransactionSeqID :: "mem store \<Rightarrow> go_error + int" where
  "mem_PeekCardTransactionSeqID s = Inr (sint (m_cardTxSeqID (db s)))"

definition mem_AddCardTransactionIndex :: "string \<Rightarrow> string \<Rightarrow> mem fallible" where
  "mem_AddCardTransactionIndex cid tid s =
     (if cid = [] \<or> tid = [] then (Some ''cardID and transactionID are required'', s)
      else (None, upd_db (\<lambda>m. m\<lparr>m_cardTransactionsByCard :=
              mput cid (mlist (m_cardTransactionsByCard m) cid @ [tid])
                (m_cardTransactionsByCard m)\<rparr>) s))"

definition mem_GetCardTransactionIDs :: "string \<Rightarrow> mem store \<Rightarrow> go_error + string list" where
  "mem_GetCardTransactionIDs cid s = Inr (mlist (m_cardTransactionsByCard (db s)) cid)"

section \<open>Wallets\<close>

definition mem_CreateWallet :: "Wallet \<Rightarrow> time \<Rightarrow> mem store \<Rightarrow> (go_error + Wallet) \<times> mem store" where
  "mem_CreateWallet w now s =
     (if w_Address w = [] then (Inl ''address is required'', s)
      else if mget (m_wallets (db s)) (w_Address w) \<noteq> None
      then (Inl (''wallet with address '' @ w_Address w @ '' already exists''), s)
      else
        let w1 = (if w_CreatedAt w = 0 then w\<lparr>w_CreatedAt := now\<rparr> else w)
        in (Inr w1, upd_db (\<lambda>m. m\<lparr>m_wallets := mput (w_Address w1) w1 (m_wallets m)\<rparr>) s))"

definition mem_GetWallet :: "string \<Rightarrow> mem store \<Rightarrow> go_error + Wallet" where
  "mem_GetWallet address s =
     (case mget (m_wallets (db s)) address of None \<Rightarrow> Inl ''wallet not found'' | Some w \<Rightarrow> Inr w)"

definition mem_GetWalletsByUser :: "key_order \<Rightarrow> string \<Rightarrow> mem store \<Rightarrow> go_error + Wallet list" where
  "mem_GetWalletsByUser ord uid s =
     Inr (filter (\<lambda>w. w_UserID w = uid) (range_map ord (m_wallets (db s))))"

section \<open>Transactions\<close>

definition mem_CreateTransaction ::
  "Transaction \<Rightarrow> string \<Rightarrow> time \<Rightarrow> mem store \<Rightarrow> (go_error + Transaction) \<times> mem store" where
  "mem_CreateTransaction tx uid now s =
     (let t1 = (if tx_ID tx = [] then tx\<lparr>tx_ID := uid\<rparr> else tx);
          t2 = (if tx_CreatedAt t1 = 0 then t1\<lparr>tx_CreatedAt := now\<rparr> else t1)
      in (Inr t2, upd_db (\<lambda>m. m\<lparr>m_transactions := mput (tx_ID t2) t2 (m_transactions m),
                                m_transactionsByUser :=
                                  mput (tx_UserID t2)
                                    (mlist (m_transactionsByUser m) (tx_UserID t2) @ [tx_ID t2])
                                    (m_transactionsByUser m)\<rparr>) s))"

definition mem_ListTransactionsByUser :: "string \<Rightarrow> mem store \<Rightarrow> go_error + Transaction list" where
  "mem_ListTransactionsByUser uid s =
     Inr (sort_key (\<lambda>t. - tx_CreatedAt t)
            (List.map_filter (mget (m_transactions (db s)))
              (mlist (m_transactionsByUser (db s)) uid)))"

definition mem_GetTransaction :: "string \<Rightarrow> mem store \<Rightarrow> go_error + Transaction" where
  "mem_GetTransaction tid s =
     (case mget (m_transactions (db s)) tid of
        None \<Rightarrow> Inl ''transaction not found''
      | Some t \<Rightarrow> Inr t)"

definition mem_UpdateTransactionStatus :: "string \<Rightarrow> int \<Rightarrow> mem fallible" where
  "mem_UpdateTransactionStatus tid status s =
     (case mget (m_transactions (db s)) tid of
        None \<Rightarrow> (Some ''transaction not found'', s)
      | Some t \<Rightarrow>
          (None, upd_db (\<lambda>m. m\<lparr>m_transactions :=
                   mput tid (t\<lparr>tx_Status := status\<rparr>) (m_transactions m)\<rparr>) s))"

section \<open>Balances\<close>

definition mem_GetAllBalances :: "string \<Rightarrow> mem store \<Rightarrow> go_error + f64 gomap" where
  "mem_GetAllBalances uid s =
     Inr (filter (\<lambda>(c, a). \<not> feq a f0) (mlist (m_balances (db s)) uid))"

definition mem_GetBalance :: "string \<Rightarrow> string \<Rightarrow> mem store \<Rightarrow> f64 \<times> go_error option" where
  "mem_GetBalance uid currency s =
     (case mget (m_balances (db s)) uid of
        None \<Rightarrow> (f0, None)
      | Some bs \<Rightarrow> (case mget bs currency of None \<Rightarrow> f0 | Some a \<Rightarrow> a, None))"

definition mem_AddBalance :: "string \<Rightarrow> string \<Rightarrow> f64 \<Rightarrow> mem fallible" where
  "mem_AddBalance uid currency amount s =
     (let bs = mlist (m_balances (db s)) uid;
          cur = (case mget bs currency of None \<Rightarrow> f0 | Some a \<Rightarrow> a)
      in (None, upd_db (\<lambda>m. m\<lparr>m_balances :=
            mput uid (mput currency (fadd cur amount) bs) (m_balances m)\<rparr>) s))"

definition mem_DeductBalance :: "string \<Rightarrow> string \<Rightarrow> f64 \<Rightarrow> mem fallible" where
  "mem_DeductBalance uid currency amount s =
     (case mget (m_balances (db s)) uid of
        None \<Rightarrow> (Some ''insufficient balance'', s)
      | Some bs \<Rightarrow>
          let cur = (case mget bs currency of None \<Rightarrow> f0 | Some a \<Rightarrow> a)
          in if flt cur amount
             then (Some (''insufficient balance: have '' @ format2f cur @ '', need '' @ format2f amount), s)
             else (None, upd_db (\<lambda>m. m\<lparr>m_balances :=
                     mput uid (mput currency (fsub cur amount) bs) (m_balances m)\<rparr>) s))"

section \<open>3DS challenges and organizations\<close>

definition mem_CreateThreeDSChallenge ::
  "ThreeDSChallenge \<Rightarrow> time \<Rightarrow> mem store \<Rightarrow> (go_error + ThreeDSChallenge) \<times> mem store" where
  "mem_CreateThreeDSChallenge ch now s =
     (if tds_TransactionID ch = [] then (Inl ''transaction ID is required'', s)
      else
        let ch1 = (if tds_CreatedAt ch = 0 then ch\<lparr>tds_CreatedAt := now\<rparr> else ch)
        in (Inr ch1, upd_db (\<lambda>m. m\<lparr>m_threeDSChallenges :=
              mput (tds_TransactionID ch1) ch1 (m_threeDSChallenges m)\<rparr>) s))"

definition mem_GetThreeDSChallenge :: "string \<Rightarrow> mem store \<Rightarrow> go_error + ThreeDSChallenge" where
  "mem_GetThreeDSChallenge tid s =
     (case mget (m_threeDSChallenges (db s)) tid of
        None \<Rightarrow> Inl ''3DS challenge not found''
      | Some ch \<Rightarrow> Inr ch)"

definition mem_GetPendingThreeDSChallenges ::
  "key_order \<Rightarrow> time \<Rightarrow> string \<Rightarrow> mem store \<Rightarrow> go_error + ThreeDSChallenge list" where
  "mem_GetPendingThreeDSChallenges ord now uid s =
     Inr (filter (\<lambda>ch. tds_UserID ch = uid \<and> tds_Status ch = ''pending'' \<and> now < tds_Timeout ch)
            (range_map ord (m_threeDSChallenges (db s))))"

definition mem_UpdateThreeDSChallenge :: "ThreeDSChallenge \<Rightarrow> mem fallible" where
  "mem_UpdateThreeDSChallenge ch s =
     (if mget (m_threeDSChallenges (db s)) (tds_TransactionID ch) = None
      then (Some ''3DS challenge not found'', s)
      else (None, upd_db (\<lambda>m. m\<lparr>m_threeDSChallenges :=
              mput (tds_TransactionID ch) ch (m_threeDSChallenges m)\<rparr>) s))"

definition mem_GetOrganization :: "string \<Rightarrow> mem store \<Rightarrow> go_error + Organization" where
  "mem_GetOrganization oid s =
     (case mget (m_organizations (db s)) oid of
        None \<Rightarrow> Inl ''organization not found''
      | Some org \<Rightarrow> Inr org)"

definition mem_CreateOrganization :: "Organization \<Rightarrow> mem fallible" where
  "mem_CreateOrganization org s =
     (if mget (m_organizations (db s)) (org_ID org) \<noteq> None
      then (Some ''organization already exists'', s)
      else (None, upd_db (\<lambda>m. m\<lparr>m_organizations := mput (org_ID org) org (m_organizations m)\<rparr>) s))"

definition mem_UpdateOrganization ::
  "Organization \<Rightarrow> time \<Rightarrow> mem store \<Rightarrow> (go_error + Organization) \<times> mem store" where
  "mem_UpdateOrganization org now s =
     (if mget (m_organizations (db s)) (org_ID org) = None
      then (Inl ''organization not found'', s)
      else
        let org1 = org\<lparr>org_UpdatedAt := now\<rparr>
        in (Inr org1, upd_db (\<lambda>m. m\<lparr>m_organizations := mput (org_ID org1) org1 (m_organizations m)\<rparr>) s))"

section \<open>The implementation of the interface\<close>

definition memory_storage :: "mem Storage" where
  "memory_storage =
     \<lparr>s_CreateUser = mem_CreateUser, s_GetUser = mem_GetUser,
      s_GetUserByEmail = mem_GetUserByEmail, s_UpdateUser = mem_UpdateUser,
      s_ListUsers = mem_ListUsers,
      s_CreateCustomer = mem_CreateCustomer, s_GetCustomer = mem_GetCustomer,
      s_GetCustomerBySourceID = mem_GetCustomerBySourceID, s_UpdateCustomer = mem_UpdateCustomer,
      s_CreateAccount = mem_CreateAccount, s_GetAccount = mem_GetAccount,
      s_UpdateAccount = mem_UpdateAccount,
      s_CreateCustomerAddress = mem_CreateCustomerAddress,
      s_GetCustomerAddresses = mem_GetCustomerAddresses,
      s_CreateCard = mem_CreateCard, s_GetCard = mem_GetCard, s_UpdateCard = mem_UpdateCard,
      s_GetCardsByCustomer = mem_GetCardsByCustomer, s_GetCardsByAccount = mem_GetCardsByAccount,
      s_GetCardLimits = mem_GetCardLimits, s_SetCardLimits = mem_SetCardLimits,
      s_SetCardPIN = mem_SetCardPIN, s_GetCardPIN = mem_GetCardPIN,
      s_CreateCardTransaction = mem_CreateCardTransaction,
      s_GetCardTransaction = mem_GetCardTransaction,
      s_UpdateCardTransactionStatus = mem_UpdateCardTransactionStatus,
      s_AddCardTransactionIndex = mem_AddCardTransactionIndex,
      s_GetCardTransactionIDs = mem_GetCardTransactionIDs,
      s_StoreRawCardTransaction = mem_StoreRawCardTransaction,
      s_GetRawCardTransaction = mem_GetRawCardTransaction,
      s_NextCardTransactionSeqID = mem_NextCardTransactionSeqID,
      s_PeekCardTransactionSeqID = mem_PeekCardTransactionSeqID,
      s_CreateWallet = mem_CreateWallet, s_GetWallet = mem_GetWallet,
      s_GetWalletsByUser = mem_GetWalletsByUser,
      s_CreateTransaction = mem_CreateTransaction, s_GetTransaction = mem_GetTransaction,
      s_UpdateTransactionStatus = mem_UpdateTransactionStatus,
      s_ListTransactionsByUser = mem_ListTransactionsByUser,
      s_GetBalance = mem_GetBalance, s_GetAllBalances = mem_GetAllBalances,
      s_AddBalance = mem_AddBalance, s_DeductBalance = mem_DeductBalance,
      s_CreateThreeDSChallenge = mem_CreateThreeDSChallenge,
      s_GetThreeDSChallenge = mem_GetThreeDSChallenge,
      s_GetPendingThreeDSChallenges = mem_GetPendingThreeDSChallenges,
      s_UpdateThreeDSChallenge = mem_UpdateThreeDSChallenge,
      s_GetOrganization = mem_GetOrganization, s_CreateOrganization = mem_CreateOrganization,
      s_UpdateOrganization = mem_UpdateOrganization\<rparr>"

definition empty_memory :: "mem store" where
  "empty_memory = \<lparr>hp = empty_heap, db = NewMemoryStorage\<rparr>"

end
