(* ===== verification/Store_Contracts.thy ===== *)
theory Store_Contracts
  imports Store_Interface
begin

text \<open>
  What the handlers rely on when they call the store, as locales over the interface. Each
  describes the answers of a group of operations through views of the store (\<open>txs\<close>, \<open>bal\<close> and so on)
  and an invariant of the implementation that the operations keep. The lemmas about the handlers
  are proved from these laws, and hold for every implementation that obeys them.
\<close>

definition stamp_tx :: "string \<Rightarrow> time \<Rightarrow> Transaction \<Rightarrow> Transaction" where
  "stamp_tx uid now t =
     (let t1 = (if tx_ID t = [] then t\<lparr>tx_ID := uid\<rparr> else t)
      in if tx_CreatedAt t1 = 0 then t1\<lparr>tx_CreatedAt := now\<rparr> else t1)"

definition add_at :: "string \<Rightarrow> string \<Rightarrow> f64 \<Rightarrow> (string \<Rightarrow> string \<Rightarrow> f64) \<Rightarrow> string \<Rightarrow> string \<Rightarrow> f64" where
  "add_at u c x B = B(u := (B u)(c := fadd (B u c) x))"

definition sub_at :: "string \<Rightarrow> string \<Rightarrow> f64 \<Rightarrow> (string \<Rightarrow> string \<Rightarrow> f64) \<Rightarrow> string \<Rightarrow> string \<Rightarrow> f64" where
  "sub_at u c x B = B(u := (B u)(c := fsub (B u c) x))"

lemma stamp_tx_fields [simp]:
  "tx_Status (stamp_tx i n t) = tx_Status t" "tx_UserID (stamp_tx i n t) = tx_UserID t"
  "tx_DepositType (stamp_tx i n t) = tx_DepositType t" "tx_Currency (stamp_tx i n t) = tx_Currency t"
  "tx_TotalAmount (stamp_tx i n t) = tx_TotalAmount t" "tx_Amount (stamp_tx i n t) = tx_Amount t"
  "tx_VaultUUID (stamp_tx i n t) = tx_VaultUUID t" "tx_Fee (stamp_tx i n t) = tx_Fee t"
  "tx_Type (stamp_tx i n t) = tx_Type t"
  "tx_ID (stamp_tx i n t) = (if tx_ID t = [] then i else tx_ID t)"
  by (simp_all add: stamp_tx_def Let_def)

section \<open>The ledger\<close>

text \<open>
  Transactions and balances. \<open>known s u\<close> says that the user has a balance record, which an
  implementation may require before it deducts.
\<close>

locale ledger =
  fixes S :: "'s Storage"
    and inv :: "'s store \<Rightarrow> bool"
    and txs :: "'s store \<Rightarrow> string \<Rightarrow> Transaction option"
    and bal :: "'s store \<Rightarrow> string \<Rightarrow> string \<Rightarrow> f64"
    and known :: "'s store \<Rightarrow> string \<Rightarrow> bool"
  assumes tx_key: "inv s \<Longrightarrow> txs s i = Some t \<Longrightarrow> tx_ID t = i"
    and get_tx: "inv s \<Longrightarrow> txs s i = Some t \<Longrightarrow> s_GetTransaction S i s = Inr t"
    and get_tx_none: "inv s \<Longrightarrow> txs s i = None \<Longrightarrow> \<exists>m. s_GetTransaction S i s = Inl m"
    and create_tx: "inv s \<Longrightarrow> s_CreateTransaction S t uid now s = (r, s') \<Longrightarrow>
          r = Inr (stamp_tx uid now t) \<and> inv s' \<and> bal s' = bal s \<and> known s' = known s \<and>
          txs s' = (txs s)(tx_ID (stamp_tx uid now t) \<mapsto> stamp_tx uid now t)"
    and update_tx: "inv s \<Longrightarrow> txs s i = Some t \<Longrightarrow> s_UpdateTransactionStatus S i st s = (e, s') \<Longrightarrow>
          e = None \<and> inv s' \<and> bal s' = bal s \<and> known s' = known s \<and>
          txs s' = (txs s)(i \<mapsto> t\<lparr>tx_Status := st\<rparr>)"
    and update_tx_none: "inv s \<Longrightarrow> txs s i = None \<Longrightarrow> s_UpdateTransactionStatus S i st s = (e, s') \<Longrightarrow>
          e \<noteq> None \<and> s' = s"
    and get_bal: "inv s \<Longrightarrow> s_GetBalance S u c s = (bal s u c, None)"
    and add_bal: "inv s \<Longrightarrow> s_AddBalance S u c x s = (e, s') \<Longrightarrow>
          e = None \<and> inv s' \<and> txs s' = txs s \<and> bal s' = add_at u c x (bal s) \<and>
          known s' = (known s)(u := True)"
    and unknown_bal: "inv s \<Longrightarrow> \<not> known s u \<Longrightarrow> bal s u c = f0"

text \<open>A ledger that refuses to deduct more than the balance.\<close>

locale guarded_ledger = ledger +
  assumes deduct_ok: "inv s \<Longrightarrow> s_DeductBalance S u c x s = (None, s') \<Longrightarrow>
          inv s' \<and> txs s' = txs s \<and> bal s' = sub_at u c x (bal s) \<and> known s' = known s \<and>
          known s u \<and> \<not> flt (bal s u c) x"
    and deduct_err: "inv s \<Longrightarrow> s_DeductBalance S u c x s = (Some m, s') \<Longrightarrow>
          s' = s \<and> (\<not> known s u \<or> flt (bal s u c) x)"

section \<open>Users and wallets\<close>

text \<open>
  \<open>usr\<close> finds a user by its id; the operations on wallets and the reading of users leave the
  ledger alone.
\<close>

locale payment_store = guarded_ledger +
  fixes usr :: "'s store \<Rightarrow> string \<Rightarrow> addr option"
  assumes get_user: "inv s \<Longrightarrow> usr s u = Some p \<Longrightarrow> s_GetUser S u s = (Inr p, s)"
    and get_user_none: "inv s \<Longrightarrow> usr s u = None \<Longrightarrow> \<exists>m. s_GetUser S u s = (Inl m, s)"
    and create_wallet: "inv s \<Longrightarrow> s_CreateWallet S w now s = (rw, s') \<Longrightarrow>
          inv s' \<and> txs s' = txs s \<and> bal s' = bal s \<and> known s' = known s \<and> usr s' = usr s"

section \<open>Cards\<close>

locale card_store =
  fixes S :: "'s Storage"
    and inv :: "'s store \<Rightarrow> bool"
    and cards :: "'s store \<Rightarrow> string \<Rightarrow> Card option"
  assumes card_key: "inv s \<Longrightarrow> cards s i = Some c \<Longrightarrow> c_ID c = i \<and> i \<noteq> []"
    and get_card: "inv s \<Longrightarrow> cards s i = Some c \<Longrightarrow> s_GetCard S i s = Inr c"
    and get_card_none: "inv s \<Longrightarrow> cards s i = None \<Longrightarrow> \<exists>m. s_GetCard S i s = Inl m"
    and update_card: "inv s \<Longrightarrow> cards s (c_ID c) \<noteq> None \<Longrightarrow> s_UpdateCard S c s = (e, s') \<Longrightarrow>
          e = None \<and> inv s' \<and> cards s' = (cards s)(c_ID c \<mapsto> c)"

end
