(* ===== verification/Memory_Laws.thy ===== *)
theory Memory_Laws
  imports Memory_Storage Store_Contracts
begin

text \<open>
  The invariant of the in-memory store, its preservation by every method, and the
  interpretation of the store contracts.
\<close>

section \<open>The invariant\<close>

text \<open>
  Every object is filed under its own key; every pointer of an index leads to an allocated
  object; a user's transactions are all in that user's index.
\<close>

definition keyed :: "('a \<Rightarrow> string) \<Rightarrow> 'a gomap \<Rightarrow> bool" where
  "keyed f m \<longleftrightarrow> (\<forall>k v. mget m k = Some v \<longrightarrow> f v = k)"

definition allocated :: "'s store \<Rightarrow> addr gomap \<Rightarrow> bool" where
  "allocated s m \<longleftrightarrow> (\<forall>k p. mget m k = Some p \<longrightarrow> p < next_addr (hp s))"

definition tx_indexed :: "mem \<Rightarrow> bool" where
  "tx_indexed m \<longleftrightarrow>
     (\<forall>k t. mget (m_transactions m) k = Some t \<longrightarrow> k \<in> set (mlist (m_transactionsByUser m) (tx_UserID t)))"

definition mem_inv :: "mem store \<Rightarrow> bool" where
  "mem_inv s \<longleftrightarrow>
     keyed (\<lambda>p. u_ID (user_of s p)) (m_users (db s)) \<and> mget (m_users (db s)) [] = None \<and>
     keyed c_ID (m_cards (db s)) \<and> mget (m_cards (db s)) [] = None \<and>
     keyed tx_ID (m_transactions (db s)) \<and> keyed w_Address (m_wallets (db s)) \<and>
     keyed tds_TransactionID (m_threeDSChallenges (db s)) \<and> keyed org_ID (m_organizations (db s)) \<and>
     keyed ct_TransactionID (m_cardTransactions (db s)) \<and>
     allocated s (m_users (db s)) \<and> allocated s (m_usersByEmail (db s)) \<and>
     allocated s (m_customers (db s)) \<and> allocated s (m_customersBySource (db s)) \<and>
     allocated s (m_accounts (db s)) \<and> tx_indexed (db s)"

lemma keyed_Nil [simp]: "keyed f []"
  by (simp add: keyed_def)

lemma keyed_mput [simp]: "keyed f m \<Longrightarrow> f v = k \<Longrightarrow> keyed f (mput k v m)"
  by (simp add: keyed_def)

lemma keyed_mdel [simp]: "keyed f m \<Longrightarrow> keyed f (mdel k m)"
  by (simp add: keyed_def)

lemma keyedD: "keyed f m \<Longrightarrow> mget m k = Some v \<Longrightarrow> f v = k"
  by (simp add: keyed_def)

lemma keyed_update:
  "keyed f m \<Longrightarrow> mget m k = Some v \<Longrightarrow> f v' = f v \<Longrightarrow> keyed f (mput k v' m)"
  by (simp add: keyedD)

lemma allocated_Nil [simp]: "allocated s []"
  by (simp add: allocated_def)

lemma allocated_mput [simp]: "allocated s m \<Longrightarrow> p < next_addr (hp s) \<Longrightarrow> allocated s (mput k p m)"
  by (simp add: allocated_def)

lemma allocated_mdel [simp]: "allocated s m \<Longrightarrow> allocated s (mdel k m)"
  by (simp add: allocated_def)

lemma allocated_heap [simp]:
  "allocated (upd_db f s) m = allocated s m" "allocated (set_user p u s) m = allocated s m"
  "allocated (set_customer p c s) m = allocated s m" "allocated (set_account p a s) m = allocated s m"
  by (simp_all add: allocated_def)

lemma allocated_bump [simp]: "allocated s m \<Longrightarrow> allocated (bump s) m"
  by (auto simp: allocated_def less_SucI)

lemma mlist_mput [simp]: "mlist (mput k xs m) = (mlist m)(k := xs)"
  by (rule ext) (simp add: mlist_def)

lemma tx_indexed_create:
  assumes "tx_indexed m"
  shows "tx_indexed (m\<lparr>m_transactions := mput i t (m_transactions m),
           m_transactionsByUser := mput (tx_UserID t) (mlist (m_transactionsByUser m) (tx_UserID t) @ [i])
             (m_transactionsByUser m)\<rparr>)"
  using assms by (auto simp: tx_indexed_def) metis

lemma tx_indexed_update:
  assumes "tx_indexed m" and "mget (m_transactions m) i = Some t" and "tx_UserID t' = tx_UserID t"
  shows "tx_indexed (m\<lparr>m_transactions := mput i t' (m_transactions m)\<rparr>)"
  using assms by (auto simp: tx_indexed_def)

lemma mem_inv_empty [simp]: "mem_inv empty_memory"
  by (simp add: mem_inv_def empty_memory_def NewMemoryStorage_def tx_indexed_def)

text \<open>Operations that leave the indexed parts of the store alone.\<close>

lemma mem_inv_frame:
  assumes "mem_inv s" and "hp s' = hp s"
    and "m_users (db s') = m_users (db s)" "m_usersByEmail (db s') = m_usersByEmail (db s)"
    and "m_customers (db s') = m_customers (db s)"
    and "m_customersBySource (db s') = m_customersBySource (db s)"
    and "m_accounts (db s') = m_accounts (db s)" "m_cards (db s') = m_cards (db s)"
    and "m_cardTransactions (db s') = m_cardTransactions (db s)"
    and "m_threeDSChallenges (db s') = m_threeDSChallenges (db s)"
    and "m_wallets (db s') = m_wallets (db s)" "m_transactions (db s') = m_transactions (db s)"
    and "m_transactionsByUser (db s') = m_transactionsByUser (db s)"
    and "m_organizations (db s') = m_organizations (db s)"
  shows "mem_inv s'"
  using assms by (simp add: mem_inv_def allocated_def tx_indexed_def)

text \<open>A handler changes a user through its pointer, but never its id.\<close>

lemma mem_inv_set_user:
  assumes "mem_inv s" and "u_ID u = u_ID (user_of s p)"
  shows "mem_inv (set_user p u s)"
  using assms by (auto simp: mem_inv_def keyed_def)

lemma mem_inv_alloc:
  assumes "mem_inv s"
  shows "mem_inv (snd (alloc_user u s))" and "mem_inv (snd (alloc_customer c s))"
    and "mem_inv (snd (alloc_account a s))"
proof -
  have "p \<noteq> next_addr (hp s)" if "mget (m_users (db s)) k = Some p" for k p
    using assms that by (auto simp: mem_inv_def allocated_def)
  then show "mem_inv (snd (alloc_user u s))"
    using assms by (auto simp: mem_inv_def alloc_user_def keyed_def)
qed (use assms in \<open>simp_all add: mem_inv_def alloc_customer_def alloc_account_def\<close>)

section \<open>Every method keeps the invariant\<close>

lemma mem_inv_users:
  assumes "mem_inv s" and "p < next_addr (hp s)" and "uid \<noteq> []"
  shows "mem_inv (snd (mem_CreateUser p uid now s))"
proof -
  have stored: "u_ID (user_of s p) = k" if "mget (m_users (db s)) k = Some p" for k
    using assms(1) that by (auto simp: mem_inv_def keyed_def)
  have "k \<noteq> []" if "mget (m_users (db s)) k = Some p" for k
    using assms(1) that by (auto simp: mem_inv_def)
  with stored assms show ?thesis
    by (auto simp: mem_inv_def mem_CreateUser_def Let_def keyed_def tx_indexed_def)
qed

lemma mem_inv_UpdateUser:
  assumes "mem_inv s" and "p < next_addr (hp s)"
  shows "mem_inv (snd (mem_UpdateUser p s))"
  using assms by (auto simp: mem_inv_def mem_UpdateUser_def Let_def keyed_def tx_indexed_def split: option.splits)

lemma mem_inv_CreateCustomer:
  "mem_inv s \<Longrightarrow> p < next_addr (hp s) \<Longrightarrow> mem_inv (snd (mem_CreateCustomer p uid now s))"
  by (simp add: mem_inv_def mem_CreateCustomer_def Let_def tx_indexed_def)

lemma mem_inv_UpdateCustomer:
  "mem_inv s \<Longrightarrow> p < next_addr (hp s) \<Longrightarrow> mem_inv (snd (mem_UpdateCustomer p s))"
  by (simp add: mem_inv_def mem_UpdateCustomer_def Let_def tx_indexed_def)

lemma mem_inv_CreateAccount:
  "mem_inv s \<Longrightarrow> p < next_addr (hp s) \<Longrightarrow> mem_inv (snd (mem_CreateAccount p uid now s))"
  by (simp add: mem_inv_def mem_CreateAccount_def Let_def tx_indexed_def)

lemma mem_inv_UpdateAccount:
  "mem_inv s \<Longrightarrow> p < next_addr (hp s) \<Longrightarrow> mem_inv (snd (mem_UpdateAccount p s))"
  by (simp add: mem_inv_def mem_UpdateAccount_def Let_def tx_indexed_def)

lemma mem_inv_CreateCard:
  "mem_inv s \<Longrightarrow> uid \<noteq> [] \<Longrightarrow> mem_inv (snd (mem_CreateCard c uid now s))"
  by (simp add: mem_inv_def mem_CreateCard_def Let_def tx_indexed_def)

lemma mem_inv_UpdateCard: "mem_inv s \<Longrightarrow> mem_inv (snd (mem_UpdateCard c s))"
  by (simp add: mem_inv_def mem_UpdateCard_def tx_indexed_def)

lemma mem_inv_CreateCardTransaction: "mem_inv s \<Longrightarrow> mem_inv (snd (mem_CreateCardTransaction t s))"
  by (simp add: mem_inv_def mem_CreateCardTransaction_def tx_indexed_def)

lemma mem_inv_UpdateCardTransactionStatus:
  "mem_inv s \<Longrightarrow> mem_inv (snd (mem_UpdateCardTransactionStatus i st s))"
  by (auto simp: mem_inv_def mem_UpdateCardTransactionStatus_def Let_def tx_indexed_def
      intro: keyed_update split: option.splits)

lemma mem_inv_CreateWallet: "mem_inv s \<Longrightarrow> mem_inv (snd (mem_CreateWallet w now s))"
  by (simp add: mem_inv_def mem_CreateWallet_def Let_def tx_indexed_def)

lemma mem_inv_CreateTransaction: "mem_inv s \<Longrightarrow> mem_inv (snd (mem_CreateTransaction t uid now s))"
  by (simp add: mem_inv_def mem_CreateTransaction_def Let_def tx_indexed_create)

lemma mem_inv_UpdateTransactionStatus:
  "mem_inv s \<Longrightarrow> mem_inv (snd (mem_UpdateTransactionStatus i st s))"
  by (auto simp: mem_inv_def mem_UpdateTransactionStatus_def tx_indexed_update intro: keyed_update
      split: option.splits)

lemma mem_inv_CreateThreeDSChallenge:
  "mem_inv s \<Longrightarrow> mem_inv (snd (mem_CreateThreeDSChallenge ch now s))"
  by (simp add: mem_inv_def mem_CreateThreeDSChallenge_def Let_def tx_indexed_def)

lemma mem_inv_UpdateThreeDSChallenge: "mem_inv s \<Longrightarrow> mem_inv (snd (mem_UpdateThreeDSChallenge ch s))"
  by (simp add: mem_inv_def mem_UpdateThreeDSChallenge_def tx_indexed_def)

lemma mem_inv_CreateOrganization: "mem_inv s \<Longrightarrow> mem_inv (snd (mem_CreateOrganization g s))"
  by (simp add: mem_inv_def mem_CreateOrganization_def tx_indexed_def)

lemma mem_inv_UpdateOrganization: "mem_inv s \<Longrightarrow> mem_inv (snd (mem_UpdateOrganization g now s))"
  by (simp add: mem_inv_def mem_UpdateOrganization_def Let_def tx_indexed_def)

lemma mem_inv_balances:
  assumes "mem_inv s"
  shows "mem_inv (snd (mem_AddBalance u c x s))" and "mem_inv (snd (mem_DeductBalance u c x s))"
  by (rule mem_inv_frame [OF assms];
      simp add: mem_AddBalance_def mem_DeductBalance_def Let_def split: option.splits)+

lemma mem_inv_card_extras:
  assumes "mem_inv s"
  shows "mem_inv (snd (mem_CreateCustomerAddress i a uid s))" and "mem_inv (snd (mem_SetCardLimits i ls s))"
    and "mem_inv (snd (mem_SetCardPIN i pin s))" and "mem_inv (snd (mem_StoreRawCardTransaction i raw s))"
    and "mem_inv (snd (mem_AddCardTransactionIndex i t s))"
    and "mem_inv (snd (mem_NextCardTransactionSeqID s))"
  by (rule mem_inv_frame [OF assms];
      simp add: mem_CreateCustomerAddress_def mem_SetCardLimits_def mem_SetCardPIN_def
        mem_StoreRawCardTransaction_def mem_AddCardTransactionIndex_def
        mem_NextCardTransactionSeqID_def Let_def split: option.splits)+

lemmas mem_inv_ops =
  mem_inv_users mem_inv_UpdateUser mem_inv_CreateCustomer mem_inv_UpdateCustomer mem_inv_CreateAccount
  mem_inv_UpdateAccount mem_inv_CreateCard mem_inv_UpdateCard mem_inv_CreateCardTransaction
  mem_inv_UpdateCardTransactionStatus mem_inv_CreateWallet mem_inv_CreateTransaction
  mem_inv_UpdateTransactionStatus mem_inv_CreateThreeDSChallenge mem_inv_UpdateThreeDSChallenge
  mem_inv_CreateOrganization mem_inv_UpdateOrganization mem_inv_balances mem_inv_card_extras
  mem_inv_alloc mem_inv_set_user

section \<open>Reachable stores\<close>

text \<open>
  The calls of the store as steps: one rule per method that changes it, and the changes a caller
  makes through a pointer. A caller passes allocated pointers and non-empty fresh ids.
\<close>

inductive mem_step :: "mem store \<Rightarrow> mem store \<Rightarrow> bool" where
  NewUser: "mem_step s (snd (alloc_user u s))"
| NewCustomer: "mem_step s (snd (alloc_customer c s))"
| NewAccount: "mem_step s (snd (alloc_account a s))"
| SetUser: "u_ID u = u_ID (user_of s p) \<Longrightarrow> mem_step s (set_user p u s)"
| CreateUser: "p < next_addr (hp s) \<Longrightarrow> uid \<noteq> [] \<Longrightarrow> mem_step s (snd (mem_CreateUser p uid now s))"
| UpdateUser: "p < next_addr (hp s) \<Longrightarrow> mem_step s (snd (mem_UpdateUser p s))"
| CreateCustomer: "p < next_addr (hp s) \<Longrightarrow> mem_step s (snd (mem_CreateCustomer p uid now s))"
| UpdateCustomer: "p < next_addr (hp s) \<Longrightarrow> mem_step s (snd (mem_UpdateCustomer p s))"
| CreateAccount: "p < next_addr (hp s) \<Longrightarrow> mem_step s (snd (mem_CreateAccount p uid now s))"
| UpdateAccount: "p < next_addr (hp s) \<Longrightarrow> mem_step s (snd (mem_UpdateAccount p s))"
| CreateCustomerAddress: "mem_step s (snd (mem_CreateCustomerAddress i addr uid s))"
| CreateCard: "uid \<noteq> [] \<Longrightarrow> mem_step s (snd (mem_CreateCard crd uid now s))"
| UpdateCard: "mem_step s (snd (mem_UpdateCard crd s))"
| SetCardLimits: "mem_step s (snd (mem_SetCardLimits i ls s))"
| SetCardPIN: "mem_step s (snd (mem_SetCardPIN i pin s))"
| CreateCardTransaction: "mem_step s (snd (mem_CreateCardTransaction ct s))"
| UpdateCardTransactionStatus: "mem_step s (snd (mem_UpdateCardTransactionStatus i status s))"
| AddCardTransactionIndex: "mem_step s (snd (mem_AddCardTransactionIndex i j s))"
| StoreRawCardTransaction: "mem_step s (snd (mem_StoreRawCardTransaction i raw s))"
| NextCardTransactionSeqID: "mem_step s (snd (mem_NextCardTransactionSeqID s))"
| CreateWallet: "mem_step s (snd (mem_CreateWallet w now s))"
| CreateTransaction: "mem_step s (snd (mem_CreateTransaction t uid now s))"
| UpdateTransactionStatus: "mem_step s (snd (mem_UpdateTransactionStatus i st s))"
| AddBalance: "mem_step s (snd (mem_AddBalance i j x s))"
| DeductBalance: "mem_step s (snd (mem_DeductBalance i j x s))"
| CreateThreeDSChallenge: "mem_step s (snd (mem_CreateThreeDSChallenge ch now s))"
| UpdateThreeDSChallenge: "mem_step s (snd (mem_UpdateThreeDSChallenge ch s))"
| CreateOrganization: "mem_step s (snd (mem_CreateOrganization org s))"
| UpdateOrganization: "mem_step s (snd (mem_UpdateOrganization org now s))"

inductive mem_reachable :: "mem store \<Rightarrow> bool" where
  start: "mem_reachable empty_memory"
| step: "mem_reachable s \<Longrightarrow> mem_step s s' \<Longrightarrow> mem_reachable s'"

lemma mem_step_inv: "mem_step s s' \<Longrightarrow> mem_inv s \<Longrightarrow> mem_inv s'"
  by (induction rule: mem_step.induct) (simp_all add: mem_inv_ops)

lemma mem_reachable_imp_inv: "mem_reachable s \<Longrightarrow> mem_inv s"
  by (induction rule: mem_reachable.induct) (auto intro: mem_step_inv)

section \<open>The contracts hold\<close>

definition mem_txs :: "mem store \<Rightarrow> string \<Rightarrow> Transaction option" where
  "mem_txs s = mget (m_transactions (db s))"

definition mem_bal :: "mem store \<Rightarrow> string \<Rightarrow> string \<Rightarrow> f64" where
  "mem_bal s u c = (case mget (mlist (m_balances (db s)) u) c of None \<Rightarrow> f0 | Some x \<Rightarrow> x)"

definition mem_known :: "mem store \<Rightarrow> string \<Rightarrow> bool" where
  "mem_known s u \<longleftrightarrow> mget (m_balances (db s)) u \<noteq> None"

definition mem_usr :: "mem store \<Rightarrow> string \<Rightarrow> addr option" where
  "mem_usr s = mget (m_users (db s))"

definition mem_cards :: "mem store \<Rightarrow> string \<Rightarrow> Card option" where
  "mem_cards s = mget (m_cards (db s))"

lemmas mem_views = mem_txs_def mem_bal_def mem_known_def mem_usr_def mem_cards_def

text \<open>The table of methods, unfolded one method at a time.\<close>

lemma memory_storage_simps [simp]:
  "s_CreateUser memory_storage = mem_CreateUser" "s_GetUser memory_storage = mem_GetUser"
  "s_GetUserByEmail memory_storage = mem_GetUserByEmail" "s_UpdateUser memory_storage = mem_UpdateUser"
  "s_CreateCustomer memory_storage = mem_CreateCustomer"
  "s_CreateAccount memory_storage = mem_CreateAccount"
  "s_CreateCustomerAddress memory_storage = mem_CreateCustomerAddress"
  "s_CreateCard memory_storage = mem_CreateCard" "s_GetCard memory_storage = mem_GetCard"
  "s_UpdateCard memory_storage = mem_UpdateCard" "s_SetCardLimits memory_storage = mem_SetCardLimits"
  "s_SetCardPIN memory_storage = mem_SetCardPIN" "s_GetCardPIN memory_storage = mem_GetCardPIN"
  "s_GetCardLimits memory_storage = mem_GetCardLimits"
  "s_GetCardsByCustomer memory_storage = mem_GetCardsByCustomer"
  "s_CreateWallet memory_storage = mem_CreateWallet" "s_GetWallet memory_storage = mem_GetWallet"
  "s_GetWalletsByUser memory_storage = mem_GetWalletsByUser"
  "s_CreateTransaction memory_storage = mem_CreateTransaction"
  "s_GetTransaction memory_storage = mem_GetTransaction"
  "s_UpdateTransactionStatus memory_storage = mem_UpdateTransactionStatus"
  "s_ListTransactionsByUser memory_storage = mem_ListTransactionsByUser"
  "s_GetBalance memory_storage = mem_GetBalance" "s_AddBalance memory_storage = mem_AddBalance"
  "s_DeductBalance memory_storage = mem_DeductBalance"
  "s_GetOrganization memory_storage = mem_GetOrganization"
  "s_CreateOrganization memory_storage = mem_CreateOrganization"
  "s_UpdateOrganization memory_storage = mem_UpdateOrganization"
  by (simp_all add: memory_storage_def)

lemma mem_GetBalance_eq: "mem_GetBalance u c s = (mem_bal s u c, None)"
  by (simp add: mem_GetBalance_def mem_bal_def mlist_def split: option.splits)

lemma mem_AddBalance_eq:
  "mem_AddBalance u c x s = (r, s') \<Longrightarrow> r = None \<and> mem_txs s' = mem_txs s \<and>
     mem_bal s' = add_at u c x (mem_bal s) \<and> mem_known s' = (mem_known s)(u := True)"
  by (auto simp: mem_AddBalance_def mem_views add_at_def Let_def fun_eq_iff)

lemma mem_DeductBalance_ok:
  "mem_DeductBalance u c x s = (None, s') \<Longrightarrow> mem_txs s' = mem_txs s \<and>
     mem_bal s' = sub_at u c x (mem_bal s) \<and> mem_known s' = mem_known s \<and>
     mem_known s u \<and> \<not> flt (mem_bal s u c) x"
  by (auto simp: mem_DeductBalance_def mem_views sub_at_def Let_def fun_eq_iff mlist_def
      split: option.splits if_splits)

lemma mem_DeductBalance_err:
  "mem_DeductBalance u c x s = (Some m, s') \<Longrightarrow> s' = s \<and> (\<not> mem_known s u \<or> flt (mem_bal s u c) x)"
  by (auto simp: mem_DeductBalance_def mem_views Let_def mlist_def split: option.splits if_splits)

interpretation mem_ledger: payment_store memory_storage mem_inv mem_txs mem_bal mem_known mem_usr
proof unfold_locales
  fix s s' :: "mem store" and i t st e r uid now
  show "mem_inv s \<Longrightarrow> mem_txs s i = Some t \<Longrightarrow> tx_ID t = i"
    by (auto simp: mem_inv_def mem_txs_def dest: keyedD)
  show "mem_inv s \<Longrightarrow> mem_txs s i = Some t \<Longrightarrow> s_GetTransaction memory_storage i s = Inr t"
    by (simp add: mem_GetTransaction_def mem_txs_def)
  show "mem_inv s \<Longrightarrow> mem_txs s i = None \<Longrightarrow> \<exists>m. s_GetTransaction memory_storage i s = Inl m"
    by (simp add: mem_GetTransaction_def mem_txs_def)
  show "mem_inv s \<Longrightarrow> s_CreateTransaction memory_storage t uid now s = (r, s') \<Longrightarrow>
      r = Inr (stamp_tx uid now t) \<and> mem_inv s' \<and> mem_bal s' = mem_bal s \<and> mem_known s' = mem_known s \<and>
      mem_txs s' = (mem_txs s)(tx_ID (stamp_tx uid now t) \<mapsto> stamp_tx uid now t)"
    using mem_inv_CreateTransaction [of s t uid now]
    by (auto simp: mem_CreateTransaction_def mem_views stamp_tx_def Let_def fun_eq_iff)
  show "mem_inv s \<Longrightarrow> mem_txs s i = Some t \<Longrightarrow>
      s_UpdateTransactionStatus memory_storage i st s = (e, s') \<Longrightarrow>
      e = None \<and> mem_inv s' \<and> mem_bal s' = mem_bal s \<and> mem_known s' = mem_known s \<and>
      mem_txs s' = (mem_txs s)(i \<mapsto> t\<lparr>tx_Status := st\<rparr>)"
    using mem_inv_UpdateTransactionStatus [of s i st]
    by (auto simp: mem_UpdateTransactionStatus_def mem_views fun_eq_iff)
  show "mem_inv s \<Longrightarrow> mem_txs s i = None \<Longrightarrow>
      s_UpdateTransactionStatus memory_storage i st s = (e, s') \<Longrightarrow> e \<noteq> None \<and> s' = s"
    by (auto simp: mem_UpdateTransactionStatus_def mem_views)
next
  fix s s' :: "mem store" and u c x e m
  show "mem_inv s \<Longrightarrow> s_GetBalance memory_storage u c s = (mem_bal s u c, None)"
    by (simp add: mem_GetBalance_eq)
  show "mem_inv s \<Longrightarrow> s_AddBalance memory_storage u c x s = (e, s') \<Longrightarrow>
      e = None \<and> mem_inv s' \<and> mem_txs s' = mem_txs s \<and> mem_bal s' = add_at u c x (mem_bal s) \<and>
      mem_known s' = (mem_known s)(u := True)"
    using mem_inv_balances(1) [of s u c x] mem_AddBalance_eq [of u c x s e s'] by auto
  show "mem_inv s \<Longrightarrow> \<not> mem_known s u \<Longrightarrow> mem_bal s u c = f0"
    by (simp add: mem_views mlist_def)
  show "mem_inv s \<Longrightarrow> s_DeductBalance memory_storage u c x s = (None, s') \<Longrightarrow>
      mem_inv s' \<and> mem_txs s' = mem_txs s \<and> mem_bal s' = sub_at u c x (mem_bal s) \<and>
      mem_known s' = mem_known s \<and> mem_known s u \<and> \<not> flt (mem_bal s u c) x"
    using mem_inv_balances(2) [of s u c x] mem_DeductBalance_ok [of u c x s s'] by auto
  show "mem_inv s \<Longrightarrow> s_DeductBalance memory_storage u c x s = (Some m, s') \<Longrightarrow>
      s' = s \<and> (\<not> mem_known s u \<or> flt (mem_bal s u c) x)"
    by (simp only: memory_storage_simps) (rule mem_DeductBalance_err)
next
  fix s s' :: "mem store" and u p w now rw
  show "mem_inv s \<Longrightarrow> mem_usr s u = Some p \<Longrightarrow> s_GetUser memory_storage u s = (Inr p, s)"
    by (simp add: mem_GetUser_def mem_usr_def)
  show "mem_inv s \<Longrightarrow> mem_usr s u = None \<Longrightarrow> \<exists>m. s_GetUser memory_storage u s = (Inl m, s)"
    by (simp add: mem_GetUser_def mem_usr_def)
  show "mem_inv s \<Longrightarrow> s_CreateWallet memory_storage w now s = (rw, s') \<Longrightarrow>
      mem_inv s' \<and> mem_txs s' = mem_txs s \<and> mem_bal s' = mem_bal s \<and> mem_known s' = mem_known s \<and>
      mem_usr s' = mem_usr s"
    using mem_inv_CreateWallet [of s w now]
    by (auto simp: mem_CreateWallet_def mem_views Let_def fun_eq_iff split: if_splits)
qed

interpretation mem_card_store: card_store memory_storage mem_inv mem_cards
proof unfold_locales
  fix s s' :: "mem store" and i c e
  show "mem_inv s \<Longrightarrow> mem_cards s i = Some c \<Longrightarrow> c_ID c = i \<and> i \<noteq> []"
    by (auto simp: mem_inv_def mem_cards_def dest: keyedD)
  show "mem_inv s \<Longrightarrow> mem_cards s i = Some c \<Longrightarrow> s_GetCard memory_storage i s = Inr c"
    by (simp add: mem_GetCard_def mem_cards_def)
  show "mem_inv s \<Longrightarrow> mem_cards s i = None \<Longrightarrow> \<exists>m. s_GetCard memory_storage i s = Inl m"
    by (simp add: mem_GetCard_def mem_cards_def)
  show "mem_inv s \<Longrightarrow> mem_cards s (c_ID c) \<noteq> None \<Longrightarrow> s_UpdateCard memory_storage c s = (e, s') \<Longrightarrow>
      e = None \<and> mem_inv s' \<and> mem_cards s' = (mem_cards s)(c_ID c \<mapsto> c)"
    using mem_inv_UpdateCard [of s c]
    by (auto simp: mem_UpdateCard_def mem_views mem_inv_def split: if_splits)
qed

end
