(* ===== verification/Ledger_Correctness.thy ===== *)
theory Ledger_Correctness
  imports Withdrawals Memory_Laws
begin

text \<open>
  Correctness of the money movements. The settlement of withdrawals is specified on an abstract
  ledger (transactions, balances, known accounts) and the handler is shown to refine it for
  every store that is a guarded ledger. The payment endpoints and the goroutines they start are
  the steps of a transition system, whose invariant gives that a settled withdrawal never
  changes again.
\<close>

section \<open>The specification of a settlement\<close>

type_synonym ledger_state =
  "(string \<Rightarrow> Transaction option) \<times> (string \<Rightarrow> string \<Rightarrow> f64) \<times> (string \<Rightarrow> bool)"

definition settle_spec :: "string \<Rightarrow> string \<Rightarrow> ledger_state \<Rightarrow> int \<times> ledger_state" where
  "settle_spec txID event L =
     (case L of (T, B, K) \<Rightarrow>
      if event \<noteq> WebhookEventWithdrawalCompleted \<and> event \<noteq> WebhookEventWithdrawalRejected then (400, L)
      else case T txID of
        None \<Rightarrow> (404, L)
      | Some t \<Rightarrow>
          if tx_DepositType t \<noteq> DepositTypeWithdrawal then (400, L)
          else if tx_Status t \<noteq> TransactionStatusPending then (409, L)
          else if event = WebhookEventWithdrawalRejected
          then (200, (T(txID \<mapsto> t\<lparr>tx_Status := TransactionStatusFailed\<rparr>), B, K))
          else case ParseFloat (tx_TotalAmount t) of
            None \<Rightarrow> (500, L)
          | Some x \<Rightarrow>
              if \<not> K (tx_UserID t) \<or> flt (B (tx_UserID t) (tx_Currency t)) x then (409, L)
              else (200, (T(txID \<mapsto> t\<lparr>tx_Status := TransactionStatusCompleted\<rparr>),
                          sub_at (tx_UserID t) (tx_Currency t) x B, K)))"

definition settle_status :: "apiError option \<Rightarrow> int" where
  "settle_status r = (case r of None \<Rightarrow> 200 | Some err \<Rightarrow> ae_status err)"

lemma settle_status_simps [simp]:
  "settle_status None = 200" "settle_status (Some err) = ae_status err"
  by (simp_all add: settle_status_def)

context guarded_ledger
begin

lemma reject_correct:
  assumes "inv (h_store h)" and "txs (h_store h) (tx_ID t) = Some t"
    and "rejectWithdrawal S e t h = (r, h')"
  shows "r = None" and "inv (h_store h')" and "bal (h_store h') = bal (h_store h)"
    and "known (h_store h') = known (h_store h)"
    and "txs (h_store h') = (txs (h_store h))(tx_ID t \<mapsto> t\<lparr>tx_Status := TransactionStatusFailed\<rparr>)"
    and "h_tasks h' = h_tasks h"
  using assms(3) update_tx [OF assms(1,2)]
  by (auto simp: rejectWithdrawal_def Let_def split: prod.splits if_splits)

lemma complete_correct:
  assumes "inv (h_store h)" and "txs (h_store h) (tx_ID t) = Some t"
    and "completeWithdrawal S e t h = (r, h')"
  shows "inv (h_store h') \<and> h_tasks h' = h_tasks h \<and> known (h_store h') = known (h_store h) \<and>
    (case ParseFloat (tx_TotalAmount t) of
       None \<Rightarrow> settle_status r = 500 \<and> h' = h
     | Some x \<Rightarrow>
         if \<not> known (h_store h) (tx_UserID t) \<or> flt (bal (h_store h) (tx_UserID t) (tx_Currency t)) x
         then settle_status r = 409 \<and> txs (h_store h') = txs (h_store h) \<and> bal (h_store h') = bal (h_store h)
         else r = None \<and>
           txs (h_store h') = (txs (h_store h))(tx_ID t \<mapsto> t\<lparr>tx_Status := TransactionStatusCompleted\<rparr>) \<and>
           bal (h_store h') = sub_at (tx_UserID t) (tx_Currency t) x (bal (h_store h)))"
proof (cases "ParseFloat (tx_TotalAmount t)")
  case None
  with assms show ?thesis by (auto simp: completeWithdrawal_def)
next
  case (Some x)
  obtain err s1 where D: "s_DeductBalance S (tx_UserID t) (tx_Currency t) x (h_store h) = (err, s1)"
    by fastforce
  show ?thesis
  proof (cases err)
    case None
    note ok = deduct_ok [OF assms(1) D [unfolded None]]
    with assms(2) have "txs s1 (tx_ID t) = Some t" by simp
    with ok Some None D assms(3) show ?thesis
      using update_tx [of s1 "tx_ID t" t]
      by (auto simp: completeWithdrawal_def Let_def split: prod.splits if_splits)
  next
    case (Some m)
    note er = deduct_err [OF assms(1) D [unfolded Some]]
    with Some \<open>ParseFloat _ = _\<close> D assms(1,3) show ?thesis
      by (auto simp: completeWithdrawal_def Let_def)
  qed
qed

lemma settle_refines:
  assumes "inv (h_store h)" and "settleWithdrawal S e txID event h = (r, h')"
  shows "inv (h_store h') \<and> h_tasks h' = h_tasks h \<and>
    settle_spec txID event (txs (h_store h), bal (h_store h), known (h_store h)) =
      (settle_status r, (txs (h_store h'), bal (h_store h'), known (h_store h')))"
proof (cases "txs (h_store h) txID")
  case None
  with assms get_tx_none [OF assms(1) None] show ?thesis
    by (auto simp: settleWithdrawal_def settle_spec_def)
next
  case (Some t)
  note get = get_tx [OF assms(1) Some]
  have key: "tx_ID t = txID" by (rule tx_key [OF assms(1) Some])
  show ?thesis
  proof (cases "tx_DepositType t = DepositTypeWithdrawal \<and> tx_Status t = TransactionStatusPending \<and>
      (event = WebhookEventWithdrawalCompleted \<or> event = WebhookEventWithdrawalRejected)")
    case False
    with assms Some get show ?thesis
      by (auto simp: settleWithdrawal_def settle_spec_def)
  next
    case True
    then show ?thesis
      using assms Some get key reject_correct [of h t e r h'] complete_correct [of h t e r h']
      by (auto simp: settleWithdrawal_def settle_spec_def split: option.splits if_splits)
  qed
qed

end

section \<open>Deposits and withdrawals\<close>

definition user_exists :: "('s store \<Rightarrow> string \<Rightarrow> addr option) \<Rightarrow> 's Handler \<Rightarrow> string \<Rightarrow> bool" where
  "user_exists usr h u \<longleftrightarrow> u \<noteq> [] \<and> usr (h_store h) u \<noteq> None"

lemma withdrawal_run:
  assumes "extractUserFromBearer h bearer = u" and "u \<noteq> []" and "trq_Currency req = c"
    and "s_GetUser S u (h_store h) = (Inr p, s1)" and "s_GetWalletsByUser S ord u s1 = Inr (w # ws)"
    and "ParseFloat (trq_Amount req) = Some x"
    and "CalculateFee x (fst (GetWithdrawalFeeForUser u (h_fees h))) = fee"
    and "s_GetBalance S u c s1 = (b, err)" and "\<not> flt b (fadd x fee)"
    and "cfg_AsyncWithdrawals (h_config h) = async"
    and "s_CreateTransaction S (withdrawal_tx (uuid e 0) u c (w_Address w) x fee
           (if async then TransactionStatusPending else TransactionStatusCompleted))
           (uuid e 1) (time_now e 0) s1 = (Inr t, s2)"
    and "s_DeductBalance S u c (fadd x fee) s2 = (rd, s3)"
  shows "processWithdrawal S e ord bearer req h =
    (if async then (withdrawal_reply async (uuid e 0), h\<lparr>h_store := s2\<rparr>)
     else if rd \<noteq> None
     then (sendErrorWithCORS 500 ''Failed to deduct balance'',
           h\<lparr>h_store := snd (s_UpdateTransactionStatus S (uuid e 0) TransactionStatusFailed s3)\<rparr>)
     else (withdrawal_reply async (uuid e 0), h\<lparr>h_store := s3\<rparr>))"
  using assms by (cases async; cases rd) (simp_all add: processWithdrawal_def Let_def)

context payment_store
begin

lemma wallets_frame:
  assumes "inv st" and "wallets_or_default S e ord u st = (r, st')"
  shows "inv st' \<and> txs st' = txs st \<and> bal st' = bal st \<and> known st' = known st \<and> usr st' = usr st"
  using assms create_wallet [OF assms(1)]
  by (auto simp: wallets_or_default_def Let_def split: sum.splits prod.splits if_splits)

lemma get_user_cases:
  assumes "inv s" and "s_GetUser S u s = (r, s')"
  shows "s' = s" and "(\<exists>p. r = Inr p \<and> usr s u = Some p) \<or> (\<exists>m. r = Inl m \<and> usr s u = None)"
  using assms get_user [OF assms(1), of u] get_user_none [OF assms(1), of u]
  by (cases "usr s u"; auto)+

lemma deposit_correct:
  assumes inv: "inv (h_store h)" and run: "processDeposit S e ord bearer req h = (resp, h')"
    and id: "uuid e 0 \<noteq> []"
  defines "u \<equiv> extractUserFromBearer h bearer"
  shows "inv (h_store h') \<and> h_tasks h' = h_tasks h \<and>
    (rs_status resp \<noteq> 200 \<and> txs (h_store h') = txs (h_store h) \<and> bal (h_store h') = bal (h_store h) \<and>
       known (h_store h') = known (h_store h) \<or>
     (\<exists>x addr. rs_status resp = 200 \<and> user_exists usr h u \<and> ParseFloat (trq_Amount req) = Some x \<and>
       txs (h_store h') = (txs (h_store h))(uuid e 0 \<mapsto>
         stamp_tx (uuid e 1) (time_now e 1) (deposit_tx (uuid e 0) u (trq_Currency req) addr x
           (CalculateFee x (fst (GetDepositFeeForUser u (h_fees h)))))) \<and>
       bal (h_store h') = add_at u (trq_Currency req) x (bal (h_store h)) \<and>
       known (h_store h') = (known (h_store h))(u := True)))"
proof (cases "u = []")
  case True
  with run inv show ?thesis by (auto simp: processDeposit_def u_def Let_def)
next
  case False
  obtain ru s1 where U: "s_GetUser S u (h_store h) = (ru, s1)" by fastforce
  note s1 = get_user_cases [OF inv U]
  obtain ws s2 where W: "wallets_or_default S e ord u s1 = (ws, s2)" by fastforce
  note s2 = wallets_frame [OF inv [folded s1(1)] W]
  show ?thesis
  proof (cases "(\<exists>m. ru = Inl m) \<or> (\<exists>m. ws = Inl m) \<or> ParseFloat (trq_Amount req) = None")
    case True
    with False U W run inv s1 s2 show ?thesis
      by (auto simp: processDeposit_def u_def Let_def split: sum.splits)
  next
    case ok: False
    then obtain p ls x where P: "ru = Inr p" "ws = Inr ls" "ParseFloat (trq_Amount req) = Some x"
      by (cases ru; cases ws) auto
    let ?t = "deposit_tx (uuid e 0) u (trq_Currency req) (w_Address (hd ls)) x
      (CalculateFee x (fst (GetDepositFeeForUser u (h_fees h))))"
    obtain rt s3 where T: "s_CreateTransaction S ?t (uuid e 1) (time_now e 1) s2 = (rt, s3)" by fastforce
    have s3: "rt = Inr (stamp_tx (uuid e 1) (time_now e 1) ?t)" "inv s3" "bal s3 = bal s2"
        "known s3 = known s2"
        "txs s3 = (txs s2)(uuid e 0 \<mapsto> stamp_tx (uuid e 1) (time_now e 1) ?t)"
      using create_tx [OF conjunct1 [OF s2] T] id by (auto simp: deposit_tx_def)
    obtain ra s4 where A: "s_AddBalance S u (trq_Currency req) x s3 = (ra, s4)" by fastforce
    note s4 = add_bal [OF s3(2) A]
    have "usr (h_store h) u \<noteq> None" using s1 P by auto
    with False P U W T A s1 s2 s3 s4 run show ?thesis
      by (auto simp: processDeposit_def u_def Let_def user_exists_def)
  qed
qed

lemma withdrawal_correct:
  assumes inv: "inv (h_store h)" and run: "processWithdrawal S e ord bearer req h = (resp, h')"
    and id: "uuid e 0 \<noteq> []"
  defines "u \<equiv> extractUserFromBearer h bearer" and "c \<equiv> trq_Currency req"
    and "async \<equiv> cfg_AsyncWithdrawals (h_config h)"
  shows "inv (h_store h') \<and> h_tasks h' = h_tasks h \<and> known (h_store h') = known (h_store h) \<and>
    (rs_status resp \<noteq> 200 \<and> bal (h_store h') = bal (h_store h) \<and>
       (txs (h_store h') = txs (h_store h) \<or>
        (\<exists>t. txs (h_store h') = (txs (h_store h))(uuid e 0 \<mapsto> t) \<and> tx_Status t = TransactionStatusFailed)) \<or>
     (\<exists>x addr. rs_status resp = 200 \<and> user_exists usr h u \<and> ParseFloat (trq_Amount req) = Some x \<and>
       (let fee = CalculateFee x (fst (GetWithdrawalFeeForUser u (h_fees h))); total = fadd x fee;
            t = stamp_tx (uuid e 1) (time_now e 0)
                  (withdrawal_tx (uuid e 0) u c addr x fee
                    (if async then TransactionStatusPending else TransactionStatusCompleted))
        in \<not> flt (bal (h_store h) u c) total \<and> txs (h_store h') = (txs (h_store h))(uuid e 0 \<mapsto> t) \<and>
           bal (h_store h') = (if async then bal (h_store h) else sub_at u c total (bal (h_store h))))))"
proof -
  obtain ru s1 where U: "s_GetUser S u (h_store h) = (ru, s1)" by fastforce
  note s1 = get_user_cases [OF inv U]
  have B: "s_GetBalance S u c s1 = (bal s1 u c, None)" by (rule get_bal [OF inv [folded s1(1)]])
  show ?thesis
  proof (cases "\<exists>p w ws x. u \<noteq> [] \<and> ru = Inr p \<and> s_GetWalletsByUser S ord u s1 = Inr (w # ws) \<and>
      ParseFloat (trq_Amount req) = Some x \<and>
      \<not> flt (bal s1 u c) (fadd x (CalculateFee x (fst (GetWithdrawalFeeForUser u (h_fees h)))))")
    case False
    with U B run inv s1 show ?thesis
      by (auto simp: processWithdrawal_def u_def c_def Let_def neq_Nil_conv
          split: sum.splits option.splits if_splits)
  next
    case True
    then obtain p w ws x where P: "u \<noteq> []" "ru = Inr p" "s_GetWalletsByUser S ord u s1 = Inr (w # ws)"
        "ParseFloat (trq_Amount req) = Some x"
      and enough: "\<not> flt (bal s1 u c) (fadd x (CalculateFee x (fst (GetWithdrawalFeeForUser u (h_fees h)))))"
      by blast
    let ?fee = "CalculateFee x (fst (GetWithdrawalFeeForUser u (h_fees h)))"
    let ?t = "withdrawal_tx (uuid e 0) u c (w_Address w) x ?fee
      (if async then TransactionStatusPending else TransactionStatusCompleted)"
    let ?s = "stamp_tx (uuid e 1) (time_now e 0) ?t"
    obtain rt s2 where T: "s_CreateTransaction S ?t (uuid e 1) (time_now e 0) s1 = (rt, s2)" by fastforce
    have s2: "rt = Inr ?s" "inv s2" "bal s2 = bal s1" "known s2 = known s1"
        "txs s2 = (txs s1)(uuid e 0 \<mapsto> ?s)"
      using create_tx [OF inv [folded s1(1)] T] id by (auto simp: withdrawal_tx_def)
    obtain rd s3 where D: "s_DeductBalance S u c (fadd x ?fee) s2 = (rd, s3)" by fastforce
    have ex: "user_exists usr h u" using P s1 by (auto simp: user_exists_def)
    have run': "(resp, h') =
      (if async then (withdrawal_reply async (uuid e 0), h\<lparr>h_store := s2\<rparr>)
       else if rd \<noteq> None
       then (sendErrorWithCORS 500 ''Failed to deduct balance'',
             h\<lparr>h_store := snd (s_UpdateTransactionStatus S (uuid e 0) TransactionStatusFailed s3)\<rparr>)
       else (withdrawal_reply async (uuid e 0), h\<lparr>h_store := s3\<rparr>))"
      unfolding run [symmetric]
      by (rule withdrawal_run [OF _ P(1) _ U [unfolded P(2)] P(3,4) _ B enough _ T [unfolded s2(1)] D])
        (simp_all add: u_def c_def async_def)
    have rep: "rs_status (withdrawal_reply b i) = 200" for b i
      by (simp add: withdrawal_reply_def)
    show ?thesis
    proof (cases "async \<or> rd = None")
      case True
      with run' rep ex P enough s1 s2 deduct_ok [OF s2(2), of u c _ s3] D show ?thesis
        by (auto simp: Let_def split: if_splits)
    next
      case False
      then obtain m where m: "rd = Some m" by auto
      have s3: "s3 = s2" using deduct_err [OF s2(2) D [unfolded m]] by simp
      obtain ru s4 where X: "s_UpdateTransactionStatus S (uuid e 0) TransactionStatusFailed s3 = (ru, s4)"
        by fastforce
      have "txs s3 (uuid e 0) = Some ?s" by (simp add: s2 s3)
      note up = update_tx [OF s2(2) [folded s3] this X]
      have "h' = h\<lparr>h_store := s4\<rparr>" "rs_status resp \<noteq> 200" using run' False m X by simp_all
      with up s1 s2 s3 show ?thesis by auto
    qed
  qed
qed

end

section \<open>The transition system of the payment endpoints\<close>

text \<open>
  The steps of the program that touch the ledger: the deposit and withdrawal of the iframe, the
  transaction endpoint, the settlement of a withdrawal, and a goroutine that was started. A
  fresh UUID is not empty and names no transaction.
\<close>

definition fresh :: "('s store \<Rightarrow> string \<Rightarrow> Transaction option) \<Rightarrow> env \<Rightarrow> 's Handler \<Rightarrow> bool" where
  "fresh txs e h \<longleftrightarrow> uuid e 0 \<noteq> [] \<and> txs (h_store h) (uuid e 0) = None"

inductive pay_step ::
  "'s Storage \<Rightarrow> ('s store \<Rightarrow> string \<Rightarrow> Transaction option) \<Rightarrow> 's Handler \<Rightarrow> 's Handler \<Rightarrow> bool"
  for S txs where
  deposit: "fresh txs e h \<Longrightarrow> pay_step S txs h (snd (processDeposit S e ord bearer req h))"
| withdraw: "fresh txs e h \<Longrightarrow> pay_step S txs h (snd (processWithdrawal S e ord bearer req h))"
| create: "fresh txs e h \<Longrightarrow> pay_step S txs h (snd (CreateTransaction S e r body h))"
| settle: "pay_step S txs h (snd (settleWithdrawal S e txID event h))"
| task: "h_tasks h = ts1 @ Complete c # ts2 \<Longrightarrow>
    pay_step S txs h (complete S jobID now c (h\<lparr>h_tasks := ts1 @ ts2\<rparr>))"

inductive pay_steps ::
  "'s Storage \<Rightarrow> ('s store \<Rightarrow> string \<Rightarrow> Transaction option) \<Rightarrow> 's Handler \<Rightarrow> 's Handler \<Rightarrow> bool"
  for S txs where
  refl: "pay_steps S txs h h"
| more: "pay_steps S txs h h' \<Longrightarrow> pay_step S txs h' h'' \<Longrightarrow> pay_steps S txs h h''"

text \<open>A goroutine that is still to run belongs to a transaction that is no withdrawal.\<close>

definition tasks_ok :: "(string \<Rightarrow> Transaction option) \<Rightarrow> task list \<Rightarrow> bool" where
  "tasks_ok T ts \<longleftrightarrow>
     (\<forall>c. Complete c \<in> set ts \<longrightarrow>
        (\<exists>t. T (cp_txID c) = Some t \<and> tx_DepositType t \<noteq> DepositTypeWithdrawal))"

definition settled :: "Transaction \<Rightarrow> bool" where
  "settled t \<longleftrightarrow> tx_DepositType t = DepositTypeWithdrawal \<and> tx_Status t \<noteq> TransactionStatusPending"

definition keeps_settled :: "(string \<Rightarrow> Transaction option) \<Rightarrow> (string \<Rightarrow> Transaction option) \<Rightarrow> bool" where
  "keeps_settled T T' \<longleftrightarrow> (\<forall>i t. T i = Some t \<longrightarrow> settled t \<longrightarrow> T' i = Some t)"

lemma keeps_settled_refl [simp]: "keeps_settled T T"
  by (simp add: keeps_settled_def)

lemma keeps_settled_fresh: "T i = None \<Longrightarrow> keeps_settled T (T(i \<mapsto> t))"
  by (simp add: keeps_settled_def)

lemma keeps_settled_trans: "keeps_settled T T' \<Longrightarrow> keeps_settled T' T'' \<Longrightarrow> keeps_settled T T''"
  by (auto simp: keeps_settled_def)

lemma tasks_ok_fresh: "tasks_ok T ts \<Longrightarrow> T i = None \<Longrightarrow> tasks_ok (T(i \<mapsto> t)) ts"
  by (fastforce simp: tasks_ok_def)

lemma tasks_ok_status:
  "tasks_ok T ts \<Longrightarrow> T i = Some t \<Longrightarrow> tasks_ok (T(i \<mapsto> t\<lparr>tx_Status := st\<rparr>)) ts"
  by (fastforce simp: tasks_ok_def)

lemma keeps_settled_status: "T i = Some t \<Longrightarrow> \<not> settled t \<Longrightarrow> keeps_settled T (T(i \<mapsto> t'))"
  by (auto simp: keeps_settled_def)

lemma settle_spec_txs:
  "settle_spec txID event (T, B, K) = (code, (T', B', K')) \<Longrightarrow>
     T' = T \<or> (\<exists>t st. T txID = Some t \<and> \<not> settled t \<and> T' = T(txID \<mapsto> t\<lparr>tx_Status := st\<rparr>))"
  by (auto simp: settle_spec_def settled_def split: option.splits if_splits)

lemma tasks_ok_append [simp]: "tasks_ok T (ts @ us) \<longleftrightarrow> tasks_ok T ts \<and> tasks_ok T us"
  by (auto simp: tasks_ok_def)

context payment_store
begin

lemma complete_frame:
  assumes "inv (h_store h)"
  shows "inv (h_store (complete S j n c h)) \<and> h_tasks (complete S j n c h) = h_tasks h \<and>
    (txs (h_store (complete S j n c h)) = txs (h_store h) \<or>
     (\<exists>t. cp_hasWebhook c \<and> txs (h_store h) (cp_txID c) = Some t \<and>
        txs (h_store (complete S j n c h)) =
          (txs (h_store h))(cp_txID c \<mapsto> t\<lparr>tx_Status := TransactionStatusCompleted\<rparr>)))"
proof -
  obtain e1 s1 where E: "(if cp_hasWebhook c
      then s_UpdateTransactionStatus S (cp_txID c) TransactionStatusCompleted (h_store h)
      else (None, h_store h)) = (e1, s1)" by fastforce
  have s1: "inv s1" "txs s1 = txs (h_store h) \<or> (\<exists>t. cp_hasWebhook c \<and> txs (h_store h) (cp_txID c) = Some t \<and>
      txs s1 = (txs (h_store h))(cp_txID c \<mapsto> t\<lparr>tx_Status := TransactionStatusCompleted\<rparr>))"
    using E update_tx [OF assms] update_tx_none [OF assms] assms
    by (cases "txs (h_store h) (cp_txID c)"; force split: if_splits)+
  let ?net = "fsub (cp_amount c) (cp_feeAmount c)"
  obtain e2 s2 where F: "(if cp_isDebit c
      then s_DeductBalance S (cp_userID c) (cp_currency c) ?net s1
      else s_AddBalance S (cp_userID c) (cp_currency c) ?net s1) = (e2, s2)" by fastforce
  have "inv s2 \<and> txs s2 = txs s1"
    using F s1(1)
    by (cases e2) (auto dest: deduct_ok deduct_err add_bal split: if_splits)
  with E F s1 show ?thesis by (auto simp: complete_def Let_def)
qed

lemma complete_no_webhook:
  assumes "inv (h_store h)" and "\<not> cp_hasWebhook c"
  shows "inv (h_store (complete S j n c h))" and "h_tasks (complete S j n c h) = h_tasks h"
    and "txs (h_store (complete S j n c h)) = txs (h_store h)"
  using complete_frame [OF assms(1), of j n c] assms(2) by auto

lemma finish_frame:
  assumes "inv (h_store h)"
  shows "inv (h_store (finish_create S e req fee t h)) \<and>
    txs (h_store (finish_create S e req fee t h)) = txs (h_store h) \<and>
    (h_tasks (finish_create S e req fee t h) = h_tasks h \<or>
     (\<exists>c. h_tasks (finish_create S e req fee t h) = h_tasks h @ [Complete c] \<and> cp_txID c = tx_ID t \<and>
        ctq_DepositType req \<noteq> DepositTypeWithdrawal))"
  using assms by (auto simp: finish_create_def Let_def complete_no_webhook)

lemma create_frame:
  assumes inv: "inv (h_store h)" and fresh: "fresh txs e h"
    and run: "CreateTransaction S e r body h = (resp, h')"
  shows "inv (h_store h') \<and>
    (txs (h_store h') = txs (h_store h) \<and> h_tasks h' = h_tasks h \<or>
     (\<exists>t. txs (h_store h') = (txs (h_store h))(uuid e 0 \<mapsto> t) \<and>
        (h_tasks h' = h_tasks h \<or>
         (\<exists>c. h_tasks h' = h_tasks h @ [Complete c] \<and> cp_txID c = uuid e 0 \<and>
            tx_DepositType t \<noteq> DepositTypeWithdrawal))))"
proof (cases "\<exists>req0 req2 p. body = Some req0 \<and> ctq_UserID (resolve_tx_user S r (h_store h) req0) \<noteq> [] \<and>
    \<not> fle (ctq_Amount (resolve_tx_user S r (h_store h) req0)) f0 \<and>
    resolve_tx_currency (resolve_tx_user S r (h_store h) req0) = Inr req2 \<and>
    s_GetUser S (ctq_UserID req2) (h_store h) = (Inr p, h_store h)")
  case False
  with run inv show ?thesis
    by (auto simp: CreateTransaction_def Let_def dest: get_user_cases(1) [OF inv]
        split: option.splits sum.splits prod.splits if_splits)
next
  case True
  then obtain req0 req2 p where P: "body = Some req0" "ctq_UserID (resolve_tx_user S r (h_store h) req0) \<noteq> []"
      "\<not> fle (ctq_Amount (resolve_tx_user S r (h_store h) req0)) f0"
      "resolve_tx_currency (resolve_tx_user S r (h_store h) req0) = Inr req2"
      "s_GetUser S (ctq_UserID req2) (h_store h) = (Inr p, h_store h)" by blast
  let ?req = "default_tx_fields req2" and ?fee = "tx_fee (h_fees h) (default_tx_fields req2)"
  obtain rt s2 where T: "s_CreateTransaction S (tx_of_request ?req ?fee) (uuid e 0) (time_now e 0)
      (h_store h) = (rt, s2)" by fastforce
  let ?t = "stamp_tx (uuid e 0) (time_now e 0) (tx_of_request ?req ?fee)"
  have id: "tx_ID ?t = uuid e 0" and dt: "tx_DepositType ?t = ctq_DepositType ?req"
    by (simp_all add: tx_of_request_def zero_Transaction_def Let_def)
  have s2: "rt = Inr ?t" "inv s2" "txs s2 = (txs (h_store h))(uuid e 0 \<mapsto> ?t)"
    using create_tx [OF inv T] id by simp_all
  have h': "h' = finish_create S e ?req ?fee ?t (h\<lparr>h_store := s2\<rparr>)"
    using run P T s2(1) by (simp add: CreateTransaction_def Let_def)
  show ?thesis
    using finish_frame [of "h\<lparr>h_store := s2\<rparr>" e ?req ?fee ?t] s2 dt id unfolding h' by auto
qed

lemma pay_step_safe:
  assumes "pay_step S txs h h'" and "inv (h_store h)" and "tasks_ok (txs (h_store h)) (h_tasks h)"
  shows "inv (h_store h') \<and> tasks_ok (txs (h_store h')) (h_tasks h') \<and>
    keeps_settled (txs (h_store h)) (txs (h_store h'))"
  using assms
proof (induction rule: pay_step.induct)
  case (deposit e h ord bearer req)
  obtain resp h' where R: "processDeposit S e ord bearer req h = (resp, h')" by fastforce
  show ?case
    using deposit_correct [OF deposit(2) R] deposit
    by (auto simp: R fresh_def tasks_ok_fresh keeps_settled_fresh)
next
  case (withdraw e h ord bearer req)
  obtain resp h' where R: "processWithdrawal S e ord bearer req h = (resp, h')" by fastforce
  show ?case
    using withdrawal_correct [OF withdraw(2) R] withdraw
    by (auto simp: R fresh_def tasks_ok_fresh keeps_settled_fresh Let_def)
next
  case (create e h r body)
  obtain resp h' where R: "CreateTransaction S e r body h = (resp, h')" by fastforce
  show ?case
    using create_frame [OF create(2,1) R] create
    by (auto simp: R fresh_def tasks_ok_fresh keeps_settled_fresh) (auto simp: tasks_ok_def)
next
  case (settle h e txID event)
  obtain res h' where R: "settleWithdrawal S e txID event h = (res, h')" by fastforce
  show ?case
    using settle_refines [OF settle(1) R] settle
    by (auto simp: R tasks_ok_status keeps_settled_status dest!: settle_spec_txs)
next
  case (task h ts1 c ts2 jobID now)
  show ?case
    using complete_frame [of "h\<lparr>h_tasks := ts1 @ ts2\<rparr>" jobID now c] task
    by (auto simp: tasks_ok_status) (auto simp: tasks_ok_def keeps_settled_def settled_def)
qed

lemma pay_steps_safe:
  assumes "pay_steps S txs h h'" and "inv (h_store h)" and "tasks_ok (txs (h_store h)) (h_tasks h)"
  shows "inv (h_store h') \<and> tasks_ok (txs (h_store h')) (h_tasks h') \<and>
    keeps_settled (txs (h_store h)) (txs (h_store h'))"
  using assms
proof (induction rule: pay_steps.induct)
  case (more h h' h'')
  then show ?case using pay_step_safe [OF more(2)] by (blast intro: keeps_settled_trans)
qed simp

end

end
