(* ===== verification/Demo_State.thy ===== *)
theory Demo_State
  imports Ledger_Correctness
begin

text \<open>
  A small concrete state on which the properties are exercised: one user with a wallet, a
  balance of 100 USD, a pending and a settled withdrawal, one card, and a handler without
  webhook target; and the rewrite rules that evaluate the parser and printer of numbers there.
\<close>

lemmas parse_eval = ParseFloat_def read_number_def signed_part_def hex_prefix_def no_mantissa_def
  base_digit_def is_digit_def digit_val_def to_lower_char_def finish_float_def scale_mantissa_def
  Let_def underscoreOK_def hex_val_def read_exponent_def fl_numeral fl_neg_numeral

lemmas print_eval = cents_def two_digits_def round_half_even_def nat_str.simps digit_char_def char_of_def

definition demo_env :: env where
  "demo_env = \<lparr>time_now = (\<lambda>_. 63713434332 * second), uuid = (\<lambda>n. CHR ''i'' # replicate n CHR ''x''),
     xrpl_address = (\<lambda>_. ''rNew''), random_bytes = (\<lambda>_. [])\<rparr>"

definition demo_withdrawal :: "string \<Rightarrow> int \<Rightarrow> Transaction" where
  "demo_withdrawal i status =
     zero_Transaction\<lparr>tx_ID := i, tx_UserID := ''alice'', tx_Amount := ''40.00'',
       tx_TotalAmount := ''40.00'', tx_Fee := ''0.00'', tx_Currency := ''USD'',
       tx_DepositType := DepositTypeWithdrawal, tx_Status := status,
       tx_CreatedAt := 63713434332 * second\<rparr>"

definition demo_user :: User where
  "demo_user = zero_User\<lparr>u_ID := ''alice'', u_Email := ''alice@example.org'', u_Activated := True,
     u_KYCState := KYCStateAccepted\<rparr>"

definition demo_wallet :: Wallet where
  "demo_wallet = zero_Wallet\<lparr>w_Address := ''rAlice'', w_UserID := ''alice''\<rparr>"

definition demo_card :: Card where
  "demo_card = zero_Card\<lparr>c_ID := ''card1'', c_CustomerID := ''cust1'', c_Status := CardStatusActive\<rparr>"

definition demo_store :: "mem store" where
  "demo_store =
     \<lparr>hp = \<lparr>next_addr = 1, user_at = (\<lambda>_. zero_User)(0 := demo_user),
            customer_at = (\<lambda>_. zero_Customer), account_at = (\<lambda>_. zero_Account)\<rparr>,
      db = NewMemoryStorage\<lparr>
        m_users := [(''alice'', 0)], m_usersByEmail := [(''alice@example.org'', 0)],
        m_wallets := [(''rAlice'', demo_wallet)],
        m_transactions := [(''w1'', demo_withdrawal ''w1'' TransactionStatusPending),
                           (''w2'', demo_withdrawal ''w2'' TransactionStatusFailed)],
        m_transactionsByUser := [(''alice'', [''w1'', ''w2''])],
        m_cards := [(''card1'', demo_card)],
        m_balances := [(''alice'', [(''USD'', Fin 100)])]\<rparr>\<rparr>"

definition demo_config :: Config where
  "demo_config =
     \<lparr>cfg_Port = ''8080'', cfg_AdminPort = ''8081'', cfg_LogLevel = ''info'', cfg_RedisURL = [],
      cfg_RedisDB = 0, cfg_WebhookURL = [], cfg_WebhookSecret = ''mock-secret'',
      cfg_WebhookMinDelaySec = f0, cfg_UseRedis = False, cfg_EnforceAuthentication = True,
      cfg_ValidCredentials = [(''app'', ''secret'')], cfg_DefaultOrganizationID = ''default-org'',
      cfg_PublicBaseURL = ''http://localhost:8080'', cfg_AsyncWithdrawals = False,
      cfg_CardDataTokenSecret = ''s3cret''\<rparr>"

definition demo_handler :: "mem Handler" where
  "demo_handler =
     (NewHandler demo_config demo_store
        \<lparr>wm_webhookURL = [], wm_webhookSecret = ''mock-secret'', wm_queue = None,
         wm_defaultOrganizationID = ''default-org''\<rparr>)\<lparr>h_tokens := [(''tok'', ''alice'')]\<rparr>"

lemmas demo_defs = demo_env_def demo_withdrawal_def demo_user_def demo_wallet_def demo_card_def
  demo_store_def demo_config_def demo_handler_def NewHandler_def NewMemoryStorage_def NewFeeConfig_def
  zero_Transaction_def zero_User_def zero_Wallet_def zero_Card_def

lemma demo_inv [simp]: "mem_inv (h_store demo_handler)"
  by (auto simp: demo_defs mem_inv_def keyed_def allocated_def tx_indexed_def mlist_def)

lemma demo_views [simp]:
  "mem_txs (h_store demo_handler) ''w1'' = Some (demo_withdrawal ''w1'' TransactionStatusPending)"
  "mem_txs (h_store demo_handler) ''w2'' = Some (demo_withdrawal ''w2'' TransactionStatusFailed)"
  "mem_bal (h_store demo_handler) ''alice'' ''USD'' = Fin 100"
  "mem_known (h_store demo_handler) ''alice''"
  "h_tasks demo_handler = []"
  "extractUserFromBearer demo_handler ''tok'' = ''alice''"
  "uuid demo_env 0 = ''i''"
  "mem_txs (h_store demo_handler) ''i'' = None"
  by (simp_all add: demo_defs mem_views mlist_def extractUserFromBearer_def mstr_def)

lemma demo_ops [simp]:
  "mem_GetUser ''alice'' (h_store demo_handler) = (Inr 0, h_store demo_handler)"
  "mem_GetWalletsByUser id ''alice'' (h_store demo_handler) = Inr [demo_wallet]"
  "m_balances (db (h_store demo_handler)) = [(''alice'', [(''USD'', Fin 100)])]"
  "GetWithdrawalFeeForUser ''alice'' (h_fees demo_handler) = (Zero False, False)"
  "GetDepositFeeForUser ''alice'' (h_fees demo_handler) = (Zero False, False)"
  "cfg_AsyncWithdrawals (h_config demo_handler) = False"
  "user_of (h_store demo_handler) 0 = demo_user"
  by (simp_all add: demo_defs mem_GetUser_def mem_GetWalletsByUser_def range_map_def List.map_filter_def
      GetWithdrawalFeeForUser_def GetDepositFeeForUser_def f0_def)

lemma parse_40 [simp]: "ParseFloat ''40.00'' = Some (Fin 40)"
  by (simp add: parse_eval)

lemma parse_5 [simp]: "ParseFloat ''5'' = Some (Fin 5)"
  by (simp add: parse_eval)

lemma parse_minus_5 [simp]: "ParseFloat ''-5'' = Some (Fin (- 5))"
  by (simp add: parse_eval)

lemma demo_fee [simp]: "CalculateFee (Fin (numeral n)) (Zero False) = Zero False"
  "CalculateFee (Fin (- numeral n)) (Zero False) = Zero True"
  by (simp_all add: CalculateFee_def)

end
