(* ===== verification/Payment_Properties.thy ===== *)
theory Payment_Properties
  imports Demo_State
begin

text \<open>
  The properties of the payment endpoints over the in-memory store, each with a witness on the
  concrete state. They rest on the interpretation \<open>mem_ledger\<close> of the store contracts.
\<close>

abbreviation mem_ledger_state :: "mem Handler \<Rightarrow> ledger_state" where
  "mem_ledger_state h \<equiv> (mem_txs (h_store h), mem_bal (h_store h), mem_known (h_store h))"

section \<open>Settling withdrawals\<close>

lemma settle_spec_200:
  "settle_spec txID event (T, B, K) = (200, (T', B', K')) \<Longrightarrow> \<exists>t. T' txID = Some t \<and> settled t"
  by (auto simp: settle_spec_def settled_def split: option.splits if_splits)

text \<open>
  C1: settling a withdrawal does on the store exactly what the abstract specification does on
  the ledger: the answer has the specified status, and transactions, balances and accounts
  change as specified, on every path, errors included.
\<close>

theorem settle_refines_spec:
  assumes "mem_inv (h_store h)"
  shows "settle_spec txID event (mem_ledger_state h) =
    (settle_status (fst (settleWithdrawal memory_storage e txID event h)),
     mem_ledger_state (snd (settleWithdrawal memory_storage e txID event h)))"
  using mem_ledger.settle_refines [OF assms, of e txID event] by (metis prod.collapse)

theorem settle_refines_spec_witness:
  "settle_spec ''w1'' WebhookEventWithdrawalCompleted (mem_ledger_state demo_handler) =
     (settle_status (fst (settleWithdrawal memory_storage demo_env ''w1'' WebhookEventWithdrawalCompleted demo_handler)),
      mem_ledger_state (snd (settleWithdrawal memory_storage demo_env ''w1'' WebhookEventWithdrawalCompleted demo_handler))) \<and>
   settle_status (fst (settleWithdrawal memory_storage demo_env ''w1'' WebhookEventWithdrawalCompleted demo_handler)) = 200"
proof -
  note * = settle_refines_spec [OF demo_inv, of "''w1''" WebhookEventWithdrawalCompleted demo_env]
  have "fst (settle_spec ''w1'' WebhookEventWithdrawalCompleted (mem_ledger_state demo_handler)) = 200"
    by (simp add: settle_spec_def demo_withdrawal_def zero_Transaction_def)
  with * show ?thesis by simp
qed

text \<open>
  Along every run of the payment endpoints and the goroutines they start, in any order, a
  withdrawal that has been completed or rejected keeps that outcome and every other field.
\<close>

theorem settled_withdrawal_stable:
  assumes "pay_steps memory_storage mem_txs h h'" and "mem_inv (h_store h)"
    and "tasks_ok (mem_txs (h_store h)) (h_tasks h)"
    and "mem_txs (h_store h) i = Some t" and "settled t"
  shows "mem_txs (h_store h') i = Some t"
  using mem_ledger.pay_steps_safe [OF assms(1-3)] assms(4,5) by (simp add: keeps_settled_def)

theorem settled_withdrawal_stable_witness:
  "mem_txs (h_store (snd (settleWithdrawal memory_storage demo_env ''w1''
       WebhookEventWithdrawalRejected demo_handler))) ''w2'' =
     Some (demo_withdrawal ''w2'' TransactionStatusFailed)"
proof (rule settled_withdrawal_stable)
  show "pay_steps memory_storage mem_txs demo_handler
      (snd (settleWithdrawal memory_storage demo_env ''w1'' WebhookEventWithdrawalRejected demo_handler))"
    by (intro pay_steps.more [OF pay_steps.refl] pay_step.settle)
qed (simp_all add: tasks_ok_def settled_def demo_withdrawal_def)

text \<open>
  C3: a withdrawal is settled at most once: after a settlement that succeeded, every further
  attempt to complete or reject it is refused as a conflict and changes nothing at all.
\<close>

theorem settle_at_most_once:
  assumes "mem_inv (h_store h)" and "settleWithdrawal memory_storage e txID event h = (None, h1)"
    and "event2 = WebhookEventWithdrawalCompleted \<or> event2 = WebhookEventWithdrawalRejected"
  shows "settleWithdrawal memory_storage e2 txID event2 h1 =
    (Some (conflict ''withdrawal is not pending; it has already been settled''), h1)"
proof -
  have "settle_spec txID event (mem_ledger_state h) = (200, mem_ledger_state h1)"
    using mem_ledger.settle_refines [OF assms(1,2)] by simp
  then obtain t where "mem_txs (h_store h1) txID = Some t" "settled t"
    using settle_spec_200 by blast
  with assms(3) show ?thesis
    by (auto simp: settleWithdrawal_def mem_GetTransaction_def mem_txs_def settled_def)
qed

theorem settle_at_most_once_witness:
  "\<exists>h1. settleWithdrawal memory_storage demo_env ''w1'' WebhookEventWithdrawalRejected demo_handler = (None, h1) \<and>
     settleWithdrawal memory_storage demo_env ''w1'' WebhookEventWithdrawalCompleted h1 =
       (Some (conflict ''withdrawal is not pending; it has already been settled''), h1)"
proof -
  obtain r h1 where R: "settleWithdrawal memory_storage demo_env ''w1'' WebhookEventWithdrawalRejected
      demo_handler = (r, h1)" by fastforce
  have "r = None"
    using R by (simp add: settleWithdrawal_def rejectWithdrawal_def mem_GetTransaction_def
        mem_UpdateTransactionStatus_def Let_def demo_defs)
  with R settle_at_most_once [OF demo_inv, of demo_env "''w1''" WebhookEventWithdrawalRejected h1]
  show ?thesis by simp
qed

text \<open>
  Rejecting a withdrawal leaves every balance of every user as it was, whatever the
  transaction and whether or not the rejection is accepted.
\<close>

theorem rejection_leaves_balances:
  assumes "mem_inv (h_store h)"
  shows "mem_bal (h_store (snd (settleWithdrawal memory_storage e txID WebhookEventWithdrawalRejected h))) =
    mem_bal (h_store h)"
proof -
  obtain r h1 where R: "settleWithdrawal memory_storage e txID WebhookEventWithdrawalRejected h = (r, h1)"
    by fastforce
  have "settle_spec txID WebhookEventWithdrawalRejected (mem_ledger_state h) =
      (settle_status r, mem_ledger_state h1)"
    using mem_ledger.settle_refines [OF assms R] by simp
  then have "mem_bal (h_store h1) = mem_bal (h_store h)"
    by (auto simp: settle_spec_def split: option.splits if_splits)
  with R show ?thesis by simp
qed

theorem rejection_leaves_balances_witness:
  "mem_bal (h_store (snd (settleWithdrawal memory_storage demo_env ''w1''
     WebhookEventWithdrawalRejected demo_handler))) ''alice'' ''USD'' = Fin 100"
  using rejection_leaves_balances [OF demo_inv, of demo_env "''w1''"] by simp

text \<open>
  C4: the store never lets a deduction overdraw an account: when deducting a finite amount
  from a balance that is a number succeeds, the balance that is left is not negative.
\<close>

theorem deduct_never_overdraws:
  assumes "mem_DeductBalance u c x s = (None, s')" and "is_finite x" and "mem_bal s u c \<noteq> NaN"
  shows "fle f0 (mem_bal s' u c)"
proof -
  have "mem_bal s' = sub_at u c x (mem_bal s)" "\<not> flt (mem_bal s u c) x"
    using mem_DeductBalance_ok [OF assms(1)] by simp_all
  moreover have "x \<noteq> NaN" using assms(2) by auto
  ultimately show ?thesis
    using assms(2,3) by (simp add: sub_at_def flt_iff_not_fle fsub_nonneg)
qed

theorem deduct_never_overdraws_witness:
  "\<exists>s'. mem_DeductBalance ''alice'' ''USD'' (Fin 40) demo_store = (None, s') \<and>
        fle f0 (mem_bal s' ''alice'' ''USD'')"
proof -
  obtain r s' where R: "mem_DeductBalance ''alice'' ''USD'' (Fin 40) demo_store = (r, s')" by fastforce
  then have "r = None" by (simp add: mem_DeductBalance_def Let_def demo_defs)
  moreover have "mem_bal demo_store ''alice'' ''USD'' \<noteq> NaN"
    by (simp add: mem_bal_def mlist_def demo_defs)
  ultimately show ?thesis using R deduct_never_overdraws [of "''alice''" "''USD''" "Fin 40" demo_store s'] by simp
qed

section \<open>Deposits and withdrawals\<close>







definition demo_async :: "mem Handler" where
  "demo_async = demo_handler\<lparr>h_config := demo_config\<lparr>cfg_AsyncWithdrawals := True\<rparr>\<rparr>"


end
