(* ===== verification/Cards.thy ===== *)
theory Cards
  imports Handler_State
begin

text \<open>
  The life of a card in \<^verbatim>\<open>internal/handler/cards.go\<close>: reading, locking, unlocking, blocking and
  deleting it, its limits, and the listing for a customer. A card that the store hands out is a
  copy; a handler writes it back with \<^verbatim>\<open>UpdateCard\<close>.
\<close>

definition defaultCardLimits :: "CardLimit list" where
  "defaultCardLimits =
     [\<lparr>cl_Type = ''dailyOverall'', cl_Limit = Fin 1000, cl_Currency = ''EUR'', cl_IsDisabled = False\<rparr>,
      \<lparr>cl_Type = ''perTransaction'', cl_Limit = Fin 500, cl_Currency = ''EUR'', cl_IsDisabled = False\<rparr>,
      \<lparr>cl_Type = ''monthlyOverall'', cl_Limit = Fin 5000, cl_Currency = ''EUR'', cl_IsDisabled = False\<rparr>,
      \<lparr>cl_Type = ''dailyAtm'', cl_Limit = Fin 300, cl_Currency = ''EUR'', cl_IsDisabled = False\<rparr>,
      \<lparr>cl_Type = ''dailyEcomm'', cl_Limit = Fin 800, cl_Currency = ''EUR'', cl_IsDisabled = False\<rparr>]"

section \<open>Reading cards\<close>

definition ListCards ::
  "'s Storage \<Rightarrow> key_order \<Rightarrow> request \<Rightarrow> 's Handler \<Rightarrow> response \<times> 's Handler" where
  "ListCards S ord r h =
     (case s_GetCardsByCustomer S ord (URLParam r ''customerID'') (h_store h) of
        Inl _ \<Rightarrow> (sendError 500 ''failed to get cards'', h)
      | Inr cards \<Rightarrow>
          (sendJSON 200 (ListCardsResponse_json
             \<lparr>lcr_Data = filter (\<lambda>c. c_Status c \<noteq> CardStatusSoftDelete) cards,
              lcr_Pagination = \<lparr>pg_PageNumber = 1, pg_PageSize = 100, pg_TotalPages = 1\<rparr>\<rparr>), h))"

definition CreateCard :: "env \<Rightarrow> request \<Rightarrow> 's Handler \<Rightarrow> response \<times> 's Handler" where
  "CreateCard e r h =
     (sendJSON 200 (JObj [(''id'', JStr (uuid e 0)), (''status'', JStr CardStatusActive)]), h)"

definition GetCard :: "'s Storage \<Rightarrow> request \<Rightarrow> 's Handler \<Rightarrow> response \<times> 's Handler" where
  "GetCard S r h =
     (case s_GetCard S (URLParam r ''cardID'') (h_store h) of
        Inl _ \<Rightarrow> (sendError 404 ''card not found'', h)
      | Inr crd \<Rightarrow> (sendJSON 200 (Card_json crd), h))"

section \<open>The status of a card\<close>

text \<open>Writing a card back: \<open>failed\<close> is the message of the error, \<open>reply\<close> the answer.\<close>

definition put_card ::
  "'s Storage \<Rightarrow> Card \<Rightarrow> string \<Rightarrow> json \<Rightarrow> 's Handler \<Rightarrow> response \<times> 's Handler" where
  "put_card S crd failed reply h =
     (let (err, st1) = s_UpdateCard S crd (h_store h); h1 = h\<lparr>h_store := st1\<rparr>
      in if err \<noteq> None then (sendError 500 failed, h1) else (sendJSON 200 reply, h1))"

definition DeleteCard :: "'s Storage \<Rightarrow> request \<Rightarrow> 's Handler \<Rightarrow> response \<times> 's Handler" where
  "DeleteCard S r h =
     (case s_GetCard S (URLParam r ''cardID'') (h_store h) of
        Inl _ \<Rightarrow> (sendError 404 ''card not found'', h)
      | Inr crd \<Rightarrow>
          if c_Status crd = CardStatusSoftDelete then (sendError 400 ''card is already deleted'', h)
          else put_card S (crd\<lparr>c_Status := CardStatusSoftDelete, c_StatusReasonCode := None,
                               c_LockLevel := None\<rparr>)
                 ''failed to delete card'' (JObj [(''success'', JBool True)]) h)"

definition LockCard :: "'s Storage \<Rightarrow> request \<Rightarrow> 's Handler \<Rightarrow> response \<times> 's Handler" where
  "LockCard S r h =
     (let code0 = Query_Get r ''reasonCode'';
          reasonCode = (if code0 = [] then ''ClientRequestedLock'' else code0)
      in case s_GetCard S (URLParam r ''cardID'') (h_store h) of
           Inl _ \<Rightarrow> (sendError 404 ''card not found'', h)
         | Inr crd \<Rightarrow>
             if c_Status crd = CardStatusSoftDelete
             then (sendError 400 ''cannot lock a deleted card'', h)
             else if c_Status crd = CardStatusBlocked
             then (sendError 400 ''cannot lock a permanently blocked card'', h)
             else if c_Status crd = CardStatusTemporaryBlocked
             then (sendError 400 ''card is already locked'', h)
             else
               let crd1 = crd\<lparr>c_Status := CardStatusTemporaryBlocked,
                              c_LockLevel := Some reasonCode, c_IsFirstTimeLock := True\<rparr>
               in put_card S crd1 ''failed to lock card'' (Card_json crd1) h)"

definition UnlockCard :: "'s Storage \<Rightarrow> request \<Rightarrow> 's Handler \<Rightarrow> response \<times> 's Handler" where
  "UnlockCard S r h =
     (case s_GetCard S (URLParam r ''cardID'') (h_store h) of
        Inl _ \<Rightarrow> (sendError 404 ''card not found'', h)
      | Inr crd \<Rightarrow>
          if c_Status crd \<noteq> CardStatusTemporaryBlocked then (sendError 400 ''card is not locked'', h)
          else
            let crd1 = crd\<lparr>c_Status := CardStatusActive, c_LockLevel := None\<rparr>
            in put_card S crd1 ''failed to unlock card'' (Card_json crd1) h)"

definition BlockCard :: "'s Storage \<Rightarrow> request \<Rightarrow> 's Handler \<Rightarrow> response \<times> 's Handler" where
  "BlockCard S r h =
     (case s_GetCard S (URLParam r ''cardID'') (h_store h) of
        Inl _ \<Rightarrow> (sendError 404 ''card not found'', h)
      | Inr crd \<Rightarrow>
          if c_Status crd = CardStatusSoftDelete
          then (sendError 400 ''cannot block a deleted card'', h)
          else if c_Status crd = CardStatusBlocked then (sendError 400 ''card is already blocked'', h)
          else
            let crd1 = crd\<lparr>c_Status := CardStatusBlocked,
                           c_StatusReasonCode := Some (Query_Get r ''reasonCode''),
                           c_LockLevel := None\<rparr>
            in put_card S crd1 ''failed to block card'' (Card_json crd1) h)"

section \<open>Limits\<close>

definition GetCardLimits :: "'s Storage \<Rightarrow> request \<Rightarrow> 's Handler \<Rightarrow> response \<times> 's Handler" where
  "GetCardLimits S r h =
     (let cardID = URLParam r ''cardID'' in
      case s_GetCardLimits S cardID (h_store h) of
        Inl _ \<Rightarrow> (sendError 500 ''failed to get limits'', h)
      | Inr limits \<Rightarrow>
          if limits = []
          then (sendJSON 200 (JArr (map CardLimit_json defaultCardLimits)),
                h\<lparr>h_store := snd (s_SetCardLimits S cardID defaultCardLimits (h_store h))\<rparr>)
          else (sendJSON 200 (JArr (map CardLimit_json limits)), h))"

text \<open>A body that is \<^verbatim>\<open>null\<close> decodes to a nil slice, \<open>Some None\<close> here, and is answered as such.\<close>

definition UpdateCardLimits ::
  "'s Storage \<Rightarrow> request \<Rightarrow> CardLimit list option option \<Rightarrow> 's Handler \<Rightarrow> response \<times> 's Handler" where
  "UpdateCardLimits S r body h =
     (case body of
        None \<Rightarrow> (sendError 400 ''invalid request body'', h)
      | Some limits \<Rightarrow>
          let (err, st1) = s_SetCardLimits S (URLParam r ''cardID'')
                 (case limits of None \<Rightarrow> [] | Some ls \<Rightarrow> ls) (h_store h);
              h1 = h\<lparr>h_store := st1\<rparr>
          in if err \<noteq> None then (sendError 500 ''failed to update limits'', h1)
             else (sendJSON 200 (jopt (\<lambda>ls. JArr (map CardLimit_json ls)) limits), h1))"

end
