(* ===== verification/Card_Lifecycle.thy ===== *)
theory Card_Lifecycle
  imports Cards Memory_Laws
begin

text \<open>
  The status of a card as a state machine: what each of the four actions does to a card that the
  store holds, specified on the card alone, and the refinement of that specification by the
  handlers over any store that obeys the contract \<open>card_store\<close>. From it: what a sequence of
  actions can and cannot do.
\<close>

datatype card_action = Delete | Lock | Unlock | Block

text \<open>The specification: the card after an action, or \<open>None\<close> where the action is refused.\<close>

fun card_spec :: "card_action \<Rightarrow> string \<Rightarrow> Card \<Rightarrow> Card option" where
  "card_spec Delete code c =
     (if c_Status c = CardStatusSoftDelete then None
      else Some (c\<lparr>c_Status := CardStatusSoftDelete, c_StatusReasonCode := None, c_LockLevel := None\<rparr>))"
| "card_spec Lock code c =
     (if c_Status c \<in> {CardStatusSoftDelete, CardStatusBlocked, CardStatusTemporaryBlocked} then None
      else Some (c\<lparr>c_Status := CardStatusTemporaryBlocked,
                   c_LockLevel := Some (if code = [] then ''ClientRequestedLock'' else code),
                   c_IsFirstTimeLock := True\<rparr>))"
| "card_spec Unlock code c =
     (if c_Status c \<noteq> CardStatusTemporaryBlocked then None
      else Some (c\<lparr>c_Status := CardStatusActive, c_LockLevel := None\<rparr>))"
| "card_spec Block code c =
     (if c_Status c \<in> {CardStatusSoftDelete, CardStatusBlocked} then None
      else Some (c\<lparr>c_Status := CardStatusBlocked, c_StatusReasonCode := Some code, c_LockLevel := None\<rparr>))"

text \<open>The handler of each action.\<close>

fun perform :: "card_action \<Rightarrow> 's Storage \<Rightarrow> request \<Rightarrow> 's Handler \<Rightarrow> response \<times> 's Handler" where
  "perform Delete S r h = DeleteCard S r h"
| "perform Lock S r h = LockCard S r h"
| "perform Unlock S r h = UnlockCard S r h"
| "perform Block S r h = BlockCard S r h"

fun perform_all :: "'s Storage \<Rightarrow> (card_action \<times> request) list \<Rightarrow> 's Handler \<Rightarrow> 's Handler" where
  "perform_all S [] h = h"
| "perform_all S ((a, r) # rest) h = perform_all S rest (snd (perform a S r h))"

lemma marshals_Card [simp]: "marshals (Card_json c)"
  by (simp add: Card_json_def)

lemma c_ID_card_spec: "card_spec a code c = Some c' \<Longrightarrow> c_ID c' = c_ID c"
  by (cases a) (auto split: if_splits)

section \<open>The handlers refine the specification\<close>

context card_store
begin

lemma put_card_ok:
  assumes "inv (h_store h)" and "cards (h_store h) i = Some c" and "c_ID c' = c_ID c"
    and "marshals reply" and "put_card S c' failed reply h = (resp, h')"
  shows "rs_status resp = 200 \<and> inv (h_store h') \<and> cards (h_store h') = (cards (h_store h))(i \<mapsto> c')"
proof -
  obtain e st where u: "s_UpdateCard S c' (h_store h) = (e, st)" by fastforce
  have "c_ID c' = i" using card_key [OF assms(1,2)] assms(3) by simp
  with update_card [OF assms(1) _ u] assms show ?thesis
    by (auto simp: put_card_def u)
qed

lemma perform_correct:
  assumes I: "inv (h_store h)" and P: "perform a S r h = (resp, h')"
  shows "inv (h_store h') \<and>
    (case cards (h_store h) (URLParam r ''cardID'') of
       None \<Rightarrow> rs_status resp = 404 \<and> h' = h
     | Some c \<Rightarrow>
         (case card_spec a (Query_Get r ''reasonCode'') c of
            None \<Rightarrow> rs_status resp = 400 \<and> h' = h
          | Some c' \<Rightarrow> rs_status resp = 200 \<and>
              cards (h_store h') = (cards (h_store h))(URLParam r ''cardID'' \<mapsto> c')))"
proof (cases "cards (h_store h) (URLParam r ''cardID'')")
  case None
  obtain m where g: "s_GetCard S (URLParam r ''cardID'') (h_store h) = Inl m"
    using get_card_none [OF I None] by blast
  show ?thesis
    using I P None
    by (cases a) (auto simp: DeleteCard_def LockCard_def UnlockCard_def BlockCard_def g)
next
  case (Some c)
  note g = get_card [OF I Some] and put = put_card_ok [OF I Some]
  show ?thesis
  proof (cases a)
    case Delete
    then show ?thesis
      using I P Some by (auto simp: DeleteCard_def g dest!: put [rotated 2] split: if_splits)
  next
    case Lock
    then show ?thesis
      using I P Some by (auto simp: LockCard_def g Let_def dest!: put [rotated 2] split: if_splits)
  next
    case Unlock
    then show ?thesis
      using I P Some by (auto simp: UnlockCard_def g Let_def dest!: put [rotated 2] split: if_splits)
  next
    case Block
    then show ?thesis
      using I P Some by (auto simp: BlockCard_def g Let_def dest!: put [rotated 2] split: if_splits)
  qed
qed

lemma perform_card:
  assumes "inv (h_store h)" and "cards (h_store h) i = Some c"
  shows "inv (h_store (snd (perform a S r h))) \<and>
    (\<exists>c'. cards (h_store (snd (perform a S r h))) i = Some c' \<and>
       (c' = c \<or> card_spec a (Query_Get r ''reasonCode'') c = Some c'))"
  using perform_correct [OF assms(1) surjective_pairing, of a r] assms(2)
  by (cases "URLParam r ''cardID'' = i")
    (auto split: option.splits)

text \<open>A property of the card that every accepted action keeps holds after every sequence of actions.\<close>

lemma perform_all_keeps:
  assumes "\<And>a code c c'. P c \<Longrightarrow> card_spec a code c = Some c' \<Longrightarrow> P c'"
  shows "inv (h_store h) \<Longrightarrow> cards (h_store h) i = Some c \<Longrightarrow> P c \<Longrightarrow>
    inv (h_store (perform_all S acts h)) \<and>
    (\<exists>c'. cards (h_store (perform_all S acts h)) i = Some c' \<and> P c')"
proof (induction acts arbitrary: h c)
  case (Cons x acts)
  obtain a r where x: "x = (a, r)" by fastforce
  obtain c1 where c1: "inv (h_store (snd (perform a S r h)))"
      "cards (h_store (snd (perform a S r h))) i = Some c1"
      "c1 = c \<or> card_spec a (Query_Get r ''reasonCode'') c = Some c1"
    using perform_card [OF Cons.prems(1,2), of a r] by blast
  then have "P c1" using Cons.prems(3) assms by blast
  with c1 show ?case using Cons.IH by (simp add: x)
qed auto

end

section \<open>What actions can do to a card\<close>

lemma card_spec_deleted: "c_Status c = CardStatusSoftDelete \<Longrightarrow> card_spec a code c = None"
  by (cases a) auto

lemma card_spec_blocked:
  "c_Status c = CardStatusBlocked \<Longrightarrow> card_spec a code c = Some c' \<Longrightarrow> c_Status c' = CardStatusSoftDelete"
  by (cases a) (auto split: if_splits)

lemma card_spec_status:
  "card_spec a code c = Some c' \<Longrightarrow>
     c_Status c' \<in> {CardStatusActive, CardStatusTemporaryBlocked, CardStatusBlocked, CardStatusSoftDelete}"
  by (cases a) (auto split: if_splits)

text \<open>A lock level is set exactly on cards that are temporarily blocked.\<close>

definition lock_consistent :: "Card \<Rightarrow> bool" where
  "lock_consistent c \<longleftrightarrow> (c_LockLevel c \<noteq> None \<longleftrightarrow> c_Status c = CardStatusTemporaryBlocked)"

lemma card_spec_lock_consistent: "card_spec a code c = Some c' \<Longrightarrow> lock_consistent c'"
  by (cases a) (auto simp: lock_consistent_def split: if_splits)

text \<open>Locking and unlocking an active card gives it back, marked as locked once.\<close>

lemma lock_unlock:
  assumes "c_Status c = CardStatusActive" and "c_LockLevel c = None"
  shows "Option.bind (card_spec Lock code c) (card_spec Unlock code2) = Some (c\<lparr>c_IsFirstTimeLock := True\<rparr>)"
  using assms by (cases c) simp

end
