(* ===== verification/Card_Transactions.thy ===== *)
theory Card_Transactions
  imports Cards
begin

text \<open>
  The transactions of a card in \<^verbatim>\<open>internal/handler/cards.go\<close> and the card number derived in
  \<^verbatim>\<open>internal/handler/cardtx_admin.go\<close>: creating, reading and listing them page by page, with
  the page arithmetic in 64 bits; the 3DS challenges, delivery addresses and card products.
\<close>

section \<open>Pages\<close>

text \<open>The value of a Go \<^verbatim>\<open>int\<close> that holds the result of an exact operation.\<close>

definition int64 :: "int \<Rightarrow> int" where
  "int64 i = (i + 2 ^ 63) mod 2 ^ 64 - 2 ^ 63"

definition defaultCardTxPageSize :: int where
  "defaultCardTxPageSize = 20"

definition maxCardTxPageSize :: int where
  "maxCardTxPageSize = 200"

definition parsePagination :: "request \<Rightarrow> int \<times> int" where
  "parsePagination r =
     (let pageNumber =
            (case atoi (Query_Get r ''pageNumber'') of
               Some v \<Rightarrow> if v > 0 then v else 1
             | None \<Rightarrow> 1);
          pageSize =
            (case atoi (Query_Get r ''pageSize'') of
               Some v \<Rightarrow> if v > 0 then (if v > maxCardTxPageSize then maxCardTxPageSize else v)
                         else defaultCardTxPageSize
             | None \<Rightarrow> defaultCardTxPageSize)
      in (pageNumber, pageSize))"

text \<open>The result is \<open>None\<close> where the slice expression panics.\<close>

definition paginate :: "'a list \<Rightarrow> int \<Rightarrow> int \<Rightarrow> 'a list option" where
  "paginate items pageNumber pageSize =
     (let start = int64 ((pageNumber - 1) * pageSize) in
      if start \<ge> int (length items) then Some []
      else
        let end0 = int64 (start + pageSize);
            end1 = (if end0 > int (length items) then int (length items) else end0)
        in if 0 \<le> start \<and> start \<le> end1
           then Some (take (nat (end1 - start)) (drop (nat start) items)) else None)"

definition totalPages :: "int \<Rightarrow> int \<Rightarrow> int" where
  "totalPages totalRecords pageSize =
     (if pageSize \<le> 0 then 0
      else
        let pages = (totalRecords + pageSize - 1) div pageSize
        in if pages = 0 then 1 else pages)"

lemma int64_id: "- (2 ^ 63) \<le> i \<Longrightarrow> i < 2 ^ 63 \<Longrightarrow> int64 i = i"
  by (simp add: int64_def)

lemma parsePagination_bounds:
  assumes "parsePagination r = (n, k)"
  shows "0 < n" and "0 < k" and "k \<le> maxCardTxPageSize"
  using assms
  by (auto simp: parsePagination_def Let_def maxCardTxPageSize_def defaultCardTxPageSize_def
      split: option.splits if_splits)

text \<open>Where the arithmetic does not overflow, a page is the window it names.\<close>

lemma paginate_window:
  assumes "0 < n" and "0 < k" and "n * k < 2 ^ 63"
  shows "paginate xs n k = Some (take (nat k) (drop (nat ((n - 1) * k)) xs))"
proof -
  define a where "a = (n - 1) * k"
  have a: "0 \<le> a" "a + k = n * k"
    using assms(1,2) by (auto simp: a_def algebra_simps)
  then have "int64 a = a" "int64 (a + k) = a + k"
    using assms by (auto intro!: int64_id)
  then have p: "paginate xs n k = (if a \<ge> int (length xs) then Some []
      else if a \<le> min (int (length xs)) (a + k)
      then Some (take (nat (min (int (length xs)) (a + k) - a)) (drop (nat a) xs)) else None)"
    using a(1) by (simp add: paginate_def a_def [symmetric] Let_def min_def not_le) arith
  show ?thesis
  proof (cases "a \<ge> int (length xs)")
    case True
    then show ?thesis by (simp add: p a_def [symmetric])
  next
    case False
    then have "take (nat (min (int (length xs)) (a + k) - a)) (drop (nat a) xs) = take (nat k) (drop (nat a) xs)"
      using a(1) assms(2) by (auto simp: min_def nat_diff_distrib nat_add_distrib)
    with False a(1) assms(2) show ?thesis by (simp add: p a_def [symmetric])
  qed
qed

text \<open>Pages \<open>1\<close> to \<open>n\<close> put together are the first \<open>n * k\<close> items, each once and in order.\<close>

lemma paginate_pages:
  assumes "0 < k" and "int n * k < 2 ^ 63"
  shows "concat (map (\<lambda>i. the (paginate xs (int i) k)) [1..<Suc n]) = take (n * nat k) xs"
  using assms(2)
proof (induction n)
  case (Suc n)
  have step: "int n * k < int (Suc n) * k" using assms(1) by (simp add: algebra_simps)
  have "nat (int n * k) = n * nat k" using assms(1) by (simp add: nat_mult_distrib)
  then have p: "the (paginate xs (int (Suc n)) k) = take (nat k) (drop (n * nat k) xs)"
    using paginate_window [of "int (Suc n)" k xs] assms(1) Suc.prems by simp
  have "[1..<Suc (Suc n)] = [1..<Suc n] @ [Suc n]" by simp
  then have "concat (map (\<lambda>i. the (paginate xs (int i) k)) [1..<Suc (Suc n)]) =
      take (n * nat k) xs @ take (nat k) (drop (n * nat k) xs)"
    using Suc.IH Suc.prems step p by (simp only: map_append concat_append) simp
  then show ?case by (simp add: take_add [symmetric] add.commute)
qed simp

lemma totalPages_covers:
  assumes "0 < k" and "0 \<le> n"
  shows "1 \<le> totalPages n k" and "n \<le> totalPages n k * k"
    and "1 < totalPages n k \<Longrightarrow> (totalPages n k - 1) * k < n"
proof -
  define p r where "p = (n + k - 1) div k" and "r = (n + k - 1) mod k"
  have q: "p * k = n + k - 1 - r" and m: "0 \<le> r" "r < k"
    using assms(1) by (simp_all add: p_def r_def minus_mod_eq_div_mult)
  have pos: "0 \<le> p" using assms by (simp add: p_def pos_imp_zdiv_nonneg_iff)
  have t: "totalPages n k = (if p = 0 then 1 else p)"
    using assms(1) by (simp add: totalPages_def Let_def p_def)
  show "1 \<le> totalPages n k" using pos by (simp add: t)
  show "n \<le> totalPages n k * k" using q m assms by (cases "p = 0") (simp_all add: t)
  assume "1 < totalPages n k"
  then show "(totalPages n k - 1) * k < n"
    using q m by (simp add: t left_diff_distrib split: if_splits)
qed

section \<open>The number of a card\<close>

definition numericCardID :: "string \<Rightarrow> int" where
  "numericCardID cardUUID =
     (if cardUUID = [] then 0
      else
        let n = unat (bytes_word (take 4 (Sum256 cardUUID))) mod 2 ^ 31
        in if n = 0 then 1 else int n)"

lemma numericCardID_range: "cardUUID \<noteq> [] \<Longrightarrow> 1 \<le> numericCardID cardUUID \<and> numericCardID cardUUID < 2 ^ 31"
  by (simp add: numericCardID_def Let_def)

section \<open>Card transactions\<close>

definition new_card_tx ::
  "CreateCardTransactionArgs \<Rightarrow> int \<Rightarrow> string \<Rightarrow> string \<Rightarrow> string \<Rightarrow> CardTransaction" where
  "new_card_tx req seqID cardUUID txID now =
     zero_CardTransaction\<lparr>
       ct_ID := Some seqID, ct_CardID := Some (numericCardID cardUUID), ct_TransactionID := txID,
       ct_GHResponseCode := ''00'', ct_GHResponseDescription := ''Approved'',
       ct_TransactionAmount := Some (cct_Amount req), ct_TransactionCurrency := Some (cct_Currency req),
       ct_BillingAmount := Some (cct_Amount req), ct_BillingCurrency := Some (cct_Currency req),
       ct_Type := cct_Type req, ct_CardScheme := 2, ct_TerminalID := ''TERM001'',
       ct_CreatedAt := now, ct_TxStatus := Some ''COMPLETED'', ct_Operation := 0,
       ct_MerchantName := cct_MerchantName req, ct_MerchantCity := cct_MerchantCity req,
       ct_MerchantCountry := cct_MerchantCountry req, ct_TransactionDateTime := Some now,
       ct_ProcessDateTime := Some now\<rparr>"

definition CreateCardTransaction ::
  "'s Storage \<Rightarrow> env \<Rightarrow> CreateCardTransactionArgs option \<Rightarrow> 's Handler \<Rightarrow> response \<times> 's Handler" where
  "CreateCardTransaction S e body h =
     (case body of
        None \<Rightarrow> (sendError 400 ''invalid request body'', h)
      | Some req \<Rightarrow>
          let cardUUID = (if cct_CardID req = [] then cct_CardGUID req else cct_CardID req);
              txID = ''tx-'' @ take 8 (uuid e 0);
              (sq, st1) = s_NextCardTransactionSeqID S (h_store h); h1 = h\<lparr>h_store := st1\<rparr>
          in case sq of
               Inl _ \<Rightarrow> (sendError 500 ''failed to allocate transaction id'', h1)
             | Inr seqID \<Rightarrow>
                 let tx = new_card_tx req seqID cardUUID txID (format_rfc3339 (time_now e 0));
                     (err, st2) = s_CreateCardTransaction S tx st1; h2 = h1\<lparr>h_store := st2\<rparr>
                 in if err \<noteq> None then (sendError 500 ''failed to create transaction'', h2)
                    else
                      let st3 = (if cardUUID \<noteq> []
                                 then snd (s_AddCardTransactionIndex S cardUUID txID st2) else st2)
                      in (sendJSON 201 (CardTransaction_json tx), h2\<lparr>h_store := st3\<rparr>))"

text \<open>
  The payload of a transaction: the raw one where the store has it. The encoding of an object is
  never empty, so the check \<^verbatim>\<open>len(raw) > 0\<close> always passes.
\<close>

definition card_tx_payload :: "'s Storage \<Rightarrow> 's store \<Rightarrow> string \<Rightarrow> json option" where
  "card_tx_payload S st txID =
     (case s_GetRawCardTransaction S txID st of
        Inr raw \<Rightarrow> Some (JObj raw)
      | Inl _ \<Rightarrow>
          (case s_GetCardTransaction S txID st of
             Inl _ \<Rightarrow> None
           | Inr tx \<Rightarrow> Some (CardTransaction_json tx)))"

definition GetCardTransaction :: "'s Storage \<Rightarrow> request \<Rightarrow> 's Handler \<Rightarrow> response \<times> 's Handler" where
  "GetCardTransaction S r h =
     (case card_tx_payload S (h_store h) (URLParam r ''txID'') of
        None \<Rightarrow> (sendError 404 ''transaction not found'', h)
      | Some payload \<Rightarrow> (sendJSON 200 payload, h))"

text \<open>\<open>None\<close> where \<^verbatim>\<open>paginate\<close> panics.\<close>

definition ListCardTransactions ::
  "'s Storage \<Rightarrow> request \<Rightarrow> 's Handler \<Rightarrow> (response \<times> 's Handler) option" where
  "ListCardTransactions S r h =
     (let (pageNumber, pageSize) = parsePagination r;
          txIDs = (case s_GetCardTransactionIDs S (URLParam r ''cardID'') (h_store h) of
                     Inl _ \<Rightarrow> [] | Inr ids \<Rightarrow> ids);
          payloads = List.map_filter (card_tx_payload S (h_store h)) txIDs;
          totalRecords = int (length payloads)
      in case paginate payloads pageNumber pageSize of
           None \<Rightarrow> None
         | Some page \<Rightarrow>
             Some (sendJSON 200 (JObj
               [(''data'', JArr page),
                (''pagination'', JObj
                   [(''pageNumber'', JInt pageNumber), (''pageSize'', JInt pageSize),
                    (''totalPages'', JInt (totalPages totalRecords pageSize)),
                    (''totalRecords'', JInt totalRecords)])]), h))"

end
