(* ===== verification/Card_Services.thy ===== *)
theory Card_Services
  imports Card_Transactions "HOL-Library.Char_ord" "HOL-Library.List_Lexorder"
begin

text \<open>
  The remaining card endpoints of \<^verbatim>\<open>internal/handler/cards.go\<close>: the 3DS challenges of a user,
  delivery addresses, and the orders and products that are answered without any state.
\<close>

section \<open>3DS challenges\<close>

text \<open>\<^verbatim>\<open>Duration.Seconds\<close>: whole seconds plus the rest, as floating-point numbers.\<close>

definition duration_seconds :: "int \<Rightarrow> f64" where
  "duration_seconds d =
     (let q = sgn d * (\<bar>d\<bar> div 1000000000); m = d - q * 1000000000
      in fadd (f64_of_rat (of_int q)) (fdiv (f64_of_rat (of_int m)) (Fin 1000000000)))"

definition remaining_seconds :: "time \<Rightarrow> time \<Rightarrow> int" where
  "remaining_seconds timeout now =
     (let remaining = to_duration (duration_seconds (timeout - now))
      in if remaining < 0 then 0 else remaining)"

definition pending_confirmation :: "env \<Rightarrow> nat \<Rightarrow> ThreeDSChallenge \<Rightarrow> PendingThreeDSConfirmation" where
  "pending_confirmation e i c =
     \<lparr>ptc_TransactionID = tds_TransactionID c, ptc_MerchantName = tds_MerchantName c,
      ptc_PurchaseAmount = tds_PurchaseAmount c, ptc_PurchaseCurrency = tds_PurchaseCurrency c,
      ptc_PurchaseDate = tds_PurchaseDate c,
      ptc_Timeout = int_str (remaining_seconds (tds_Timeout c) (time_now e (Suc i)))\<rparr>"

definition GetPendingConfirmations ::
  "'s Storage \<Rightarrow> env \<Rightarrow> key_order \<Rightarrow> request \<Rightarrow> 's Handler \<Rightarrow> response \<times> 's Handler" where
  "GetPendingConfirmations S e ord r h =
     (let userID = Header_Get r ''x-gatehub-managed-user-uuid'';
          pending =
            (case s_GetPendingThreeDSChallenges S ord (time_now e 0) userID (h_store h) of
               Inl _ \<Rightarrow> []
             | Inr challenges \<Rightarrow>
                 map (\<lambda>(i, c). pending_confirmation e i c) (enumerate 0 challenges))
      in (sendJSON 200 (JObj [(''pendingConfirmations'',
             JArr (map PendingThreeDSConfirmation_json pending))]), h))"

record CreateThreeDSRequest =
  c3r_CardID :: string
  c3r_UserID :: string
  c3r_MerchantName :: string
  c3r_PurchaseAmount :: string
  c3r_PurchaseCurrency :: string

definition new_challenge :: "env \<Rightarrow> CreateThreeDSRequest \<Rightarrow> ThreeDSChallenge" where
  "new_challenge e req =
     \<lparr>tds_TransactionID = ''3ds-'' @ take 8 (uuid e 0), tds_CardID = c3r_CardID req,
      tds_UserID = c3r_UserID req, tds_MerchantName = c3r_MerchantName req,
      tds_PurchaseAmount = c3r_PurchaseAmount req, tds_PurchaseCurrency = c3r_PurchaseCurrency req,
      tds_PurchaseDate = format_rfc3339 (time_now e 0),
      tds_Timeout = time_now e 1 + 5 * 60 * second, tds_Status = ''pending'',
      tds_CreatedAt = time_now e 2\<rparr>"

definition CreateThreeDSChallenge ::
  "'s Storage \<Rightarrow> env \<Rightarrow> CreateThreeDSRequest option \<Rightarrow> 's Handler \<Rightarrow> response \<times> 's Handler" where
  "CreateThreeDSChallenge S e body h =
     (case body of
        None \<Rightarrow> (sendError 400 ''invalid request body'', h)
      | Some req \<Rightarrow>
          let (res, st1) = s_CreateThreeDSChallenge S (new_challenge e req) (time_now e 3) (h_store h);
              h1 = h\<lparr>h_store := st1\<rparr>
          in case res of
               Inl _ \<Rightarrow> (sendError 500 ''failed to create 3DS challenge'', h1)
             | Inr challenge \<Rightarrow> (sendJSON 201 (ThreeDSChallenge_json challenge), h1))"

definition ConfirmThreeDS ::
  "'s Storage \<Rightarrow> request \<Rightarrow> ThreeDSPaymentConfirmationArgs option \<Rightarrow> 's Handler \<Rightarrow> response \<times> 's Handler" where
  "ConfirmThreeDS S r body h =
     (let txID = URLParam r ''txID'' in
      case body of
        None \<Rightarrow> (sendError 400 ''invalid request body'', h)
      | Some req \<Rightarrow>
          (case s_GetThreeDSChallenge S txID (h_store h) of
             Inl _ \<Rightarrow> (sendError 404 ''3DS challenge not found'', h)
           | Inr challenge \<Rightarrow>
               let (err, st1) = s_UpdateThreeDSChallenge S
                      (challenge\<lparr>tds_Status := if tca_Confirmed req then ''approved'' else ''declined''\<rparr>)
                      (h_store h);
                   h1 = h\<lparr>h_store := st1\<rparr>
               in if err \<noteq> None then (sendError 500 ''failed to update 3DS challenge'', h1)
                  else (sendJSON 200 (JObj [(''confirmed'', JBool (tca_Confirmed req)),
                                            (''transactionId'', JStr txID)]), h1)))"

section \<open>Delivery addresses\<close>

text \<open>
  The verb \<^verbatim>\<open>%v\<close> on a decoded JSON value. A number takes its shortest digits, with an exponent
  below \<open>-4\<close> and from \<open>6\<close> on; the entries of a map are sorted by key.
\<close>

definition general_text :: "rat \<Rightarrow> string" where
  "general_text q =
     (let e0 = ilog10 q; (d, n) = shortest q; ds0 = nat_str (nat d);
          e = (if length ds0 > n then e0 + 1 else e0);
          ds = strip_zeros ds0
      in if e < - 4 \<or> e \<ge> 6
         then take 1 ds @ (if length ds > 1 then ''.'' @ drop 1 ds else []) @ ''e'' @
              (if e < 0 then ''-'' else ''+'') @ pad 2 \<bar>e\<bar>
         else if e < 0 then ''0.'' @ replicate (nat (- e) - 1) (CHR ''0'') @ ds
         else if length ds \<le> nat e + 1 then ds @ replicate (nat e + 1 - length ds) (CHR ''0'')
         else take (nat e + 1) ds @ ''.'' @ drop (nat e + 1) ds)"

fun sprint_num :: "f64 \<Rightarrow> string" where
  "sprint_num (Zero s) = (if s then ''-0'' else ''0'')"
| "sprint_num (Fin q) = (if q < 0 then ''-'' @ general_text (- q) else general_text q)"
| "sprint_num _ = []"

fun sprint_v :: "json \<Rightarrow> string" where
  "sprint_v JNull = ''<nil>''"
| "sprint_v (JBool b) = (if b then ''true'' else ''false'')"
| "sprint_v (JInt i) = int_str i"
| "sprint_v (JNum x) = sprint_num x"
| "sprint_v (JStr s) = s"
| "sprint_v (JArr xs) = ''['' @ join_with '' '' (map sprint_v xs) @ '']''"
| "sprint_v (JObj kvs) =
     ''map['' @ join_with '' ''
        (map snd (sort_key fst (map (\<lambda>(k, v). (k, k @ '':'' @ sprint_v v)) kvs))) @ '']''"

text \<open>The body is a JSON object, or \<^verbatim>\<open>null\<close>, which decodes to a nil map.\<close>

definition address_of :: "env \<Rightarrow> string \<Rightarrow> json gomap \<Rightarrow> CustomerDeliveryAddress" where
  "address_of e customerID req =
     (let field = (\<lambda>k. sprint_v (case mget req k of Some v \<Rightarrow> v | None \<Rightarrow> JNull))
      in zero_CustomerDeliveryAddress\<lparr>
           da_ID := uuid e 0, da_CustomerID := customerID, da_Type := field ''type'',
           da_Line1 := field ''line1'', da_City := field ''city'', da_ZipCode := field ''zipCode'',
           da_Status := ''ACTIVE'', da_CountryCode := jstr_field ''countryCode'' req\<rparr>)"

definition CreateCustomerAddress ::
  "'s Storage \<Rightarrow> env \<Rightarrow> request \<Rightarrow> json gomap option \<Rightarrow> 's Handler \<Rightarrow> response \<times> 's Handler" where
  "CreateCustomerAddress S e r body h =
     (case body of
        None \<Rightarrow> (sendError 400 ''invalid request body'', h)
      | Some req \<Rightarrow>
          let customerID = URLParam r ''customerID'';
              (res, st1) = s_CreateCustomerAddress S customerID (Some (address_of e customerID req))
                             (uuid e 1) (h_store h);
              h1 = h\<lparr>h_store := st1\<rparr>
          in case res of
               Inl _ \<Rightarrow> (sendError 500 ''failed to create address'', h1)
             | Inr address \<Rightarrow> (sendJSON 201 (JArr [CustomerDeliveryAddress_json address]), h1))"

definition GetCustomerAddresses :: "'s Storage \<Rightarrow> request \<Rightarrow> 's Handler \<Rightarrow> response \<times> 's Handler" where
  "GetCustomerAddresses S r h =
     (case s_GetCustomerAddresses S (URLParam r ''customerID'') (h_store h) of
        Inl _ \<Rightarrow> (sendJSON 200 (JArr []), h)
      | Inr addresses \<Rightarrow> (sendJSON 200 (JArr (map CustomerDeliveryAddress_json addresses)), h))"

section \<open>Orders and products\<close>

definition OrderAdditionalCard :: "env \<Rightarrow> request \<Rightarrow> 's Handler \<Rightarrow> response \<times> 's Handler" where
  "OrderAdditionalCard e r h =
     (sendJSON 201 (JObj
        [(''accountID'', JStr (URLParam r ''accountID'')), (''cardNumber'', JStr ''****1234''),
         (''createdAt'', JStr (format_rfc3339 (time_now e 0))), (''id'', JStr (uuid e 0)),
         (''status'', JStr ''PENDING'')]), h)"

definition card_product :: "string \<Rightarrow> string \<Rightarrow> string \<Rightarrow> string \<Rightarrow> json" where
  "card_product uid code name cost = JObj
     [(''accountProductCode'', JStr ''PROD_EUR_ACCOUNT''),
      (''cardProductLimits'', JArr [JObj
         [(''currency'', JStr ''EUR''), (''isDisabled'', JBool False), (''limit'', JStr ''1000.00''),
          (''type'', JStr ''dailyOverall'')]]),
      (''code'', JStr code), (''cost'', JStr cost), (''name'', JStr name), (''uuid'', JStr uid)]"

definition GetCardApplicationProducts :: "env \<Rightarrow> request \<Rightarrow> 's Handler \<Rightarrow> response \<times> 's Handler" where
  "GetCardApplicationProducts e r h =
     (sendJSON 200 (JArr
        [card_product (uuid e 0) ''PWSR_DEBP_2404'' ''Virtual Debit Card'' ''0.00'',
         card_product (uuid e 1) ''PROD_PLASTIC_CARD'' ''Physical Debit Card'' ''5.00'']), h)"

definition OrderPlasticCard :: "env \<Rightarrow> request \<Rightarrow> 's Handler \<Rightarrow> response \<times> 's Handler" where
  "OrderPlasticCard e r h =
     (sendJSON 201 (JObj
        [(''cardId'', JStr (URLParam r ''cardID'')),
         (''createdAt'', JStr (format_rfc3339 (time_now e 0))), (''orderId'', JStr (uuid e 0)),
         (''status'', JStr ''PENDING''), (''type'', JStr ''PLASTIC'')]), h)"

end
