(* ===== verification/Url.thy ===== *)
theory Url
  imports Crypto
begin

text \<open>
  What the program uses of \<^verbatim>\<open>net/url\<close>: whether \<^verbatim>\<open>url.Parse\<close> accepts a text, and the scheme
  and the host it finds. Strings are bytes, as in Go.
\<close>

section \<open>Cutting strings\<close>

text \<open>\<^verbatim>\<open>strings.Cut\<close> with a one-byte separator: the part before its first occurrence and the rest.\<close>

definition cut :: "char \<Rightarrow> string \<Rightarrow> string \<times> string" where
  "cut d s = (takeWhile (\<lambda>c. c \<noteq> d) s, drop 1 (dropWhile (\<lambda>c. c \<noteq> d) s))"

text \<open>The text after the last occurrence, and the text before it, when there is one.\<close>

definition cut_last :: "char \<Rightarrow> string \<Rightarrow> (string \<times> string) option" where
  "cut_last d s =
     (if d \<in> set s
      then Some (rev (drop 1 (dropWhile (\<lambda>c. c \<noteq> d) (rev s))), rev (takeWhile (\<lambda>c. c \<noteq> d) (rev s)))
      else None)"

section \<open>Escapes\<close>

definition is_alnum :: "char \<Rightarrow> bool" where
  "is_alnum c \<longleftrightarrow>
     (let n = (of_char c :: nat)
      in 48 \<le> n \<and> n \<le> 57 \<or> 65 \<le> n \<and> n \<le> 90 \<or> 97 \<le> n \<and> n \<le> 122)"

datatype encoding = encodeHost | encodeZone | encodeOther

text \<open>The bytes that must be escaped in a host or a zone.\<close>

definition shouldEscape :: "char \<Rightarrow> bool" where
  "shouldEscape c \<longleftrightarrow>
     \<not> is_alnum c \<and> c \<notin> set ''!$&()*+,;=:[]<>-_.~'' \<and> c \<noteq> CHR 0x22 \<and> c \<noteq> CHR 0x27"

text \<open>\<^verbatim>\<open>unescape\<close>; a plus sign stays in every mode that reaches it here.\<close>

fun unescape :: "encoding \<Rightarrow> string \<Rightarrow> string option" where
  "unescape mode [] = Some []"
| "unescape mode (c # s) =
     (if c = CHR ''%''
      then case s of
        a # b # t \<Rightarrow>
          (case (unhex_digit a, unhex_digit b) of
             (Some x, Some y) \<Rightarrow>
               if mode = encodeHost \<and> x < 8 \<and> [a, b] \<noteq> ''25'' then None
               else if mode = encodeZone \<and> [a, b] \<noteq> ''25'' \<and> 16 * x + y \<noteq> 32 \<and>
                       shouldEscape (char_of (16 * x + y)) then None
               else (case unescape mode t of None \<Rightarrow> None | Some r \<Rightarrow> Some (char_of (16 * x + y) # r))
           | _ \<Rightarrow> None)
      | _ \<Rightarrow> None
      else if mode \<noteq> encodeOther \<and> (of_char c :: nat) < 128 \<and> shouldEscape c then None
      else (case unescape mode s of None \<Rightarrow> None | Some r \<Rightarrow> Some (c # r)))"

section \<open>The parts of a URL\<close>

text \<open>\<open>None\<close> is the error of a missing scheme; a text without scheme has the empty one.\<close>

fun getScheme_from :: "bool \<Rightarrow> string \<Rightarrow> string \<Rightarrow> string \<Rightarrow> (string \<times> string) option" where
  "getScheme_from first raw acc [] = Some ([], raw)"
| "getScheme_from first raw acc (c # cs) =
     (let n = (of_char c :: nat) in
      if 65 \<le> n \<and> n \<le> 90 \<or> 97 \<le> n \<and> n \<le> 122 then getScheme_from False raw (acc @ [c]) cs
      else if is_alnum c \<or> c \<in> set ''+-.''
      then (if first then Some ([], raw) else getScheme_from False raw (acc @ [c]) cs)
      else if c = CHR '':'' then (if first then None else Some (acc, cs))
      else Some ([], raw))"

definition validOptionalPort :: "string \<Rightarrow> bool" where
  "validOptionalPort port \<longleftrightarrow>
     port = [] \<or> hd port = CHR '':'' \<and> list_all is_digit (tl port)"

text \<open>The index of a text inside another.\<close>

fun find_sub :: "string \<Rightarrow> string \<Rightarrow> nat option" where
  "find_sub p [] = (if p = [] then Some 0 else None)"
| "find_sub p (c # s) =
     (if has_prefix (c # s) p then Some 0 else map_option Suc (find_sub p s))"

definition parseHost :: "string \<Rightarrow> string option" where
  "parseHost host =
     (if has_prefix host ''[''
      then case cut_last CHR '']'' host of
        None \<Rightarrow> None
      | Some (before, colonPort) \<Rightarrow>
          if \<not> validOptionalPort colonPort then None
          else
            (case find_sub ''%25'' before of
               None \<Rightarrow> unescape encodeHost host
             | Some z \<Rightarrow>
                 (case (unescape encodeHost (take z before), unescape encodeZone (drop z before),
                        unescape encodeHost ('']'' @ colonPort)) of
                    (Some h1, Some h2, Some h3) \<Rightarrow> Some (h1 @ h2 @ h3)
                  | _ \<Rightarrow> None))
      else case cut_last CHR '':'' host of
        None \<Rightarrow> unescape encodeHost host
      | Some (before, port) \<Rightarrow>
          if \<not> validOptionalPort ('':'' @ port) then None else unescape encodeHost host)"

definition validUserinfo :: "string \<Rightarrow> bool" where
  "validUserinfo s \<longleftrightarrow>
     list_all (\<lambda>c. is_alnum c \<or> c \<in> set ''-._:~!$&()*+,;=%@'' \<or> c = CHR 0x27) s"

definition parseAuthority :: "string \<Rightarrow> string option" where
  "parseAuthority authority =
     (case cut_last CHR ''@'' authority of
        None \<Rightarrow> parseHost authority
      | Some (userinfo, h) \<Rightarrow>
          (case parseHost h of
             None \<Rightarrow> None
           | Some host \<Rightarrow>
               if \<not> validUserinfo userinfo then None
               else let (username, password) = cut CHR '':'' userinfo
                    in if unescape encodeOther username = None \<or> unescape encodeOther password = None
                       then None else Some host))"

definition is_ctl :: "char \<Rightarrow> bool" where
  "is_ctl c \<longleftrightarrow> (of_char c :: nat) < 32 \<or> (of_char c :: nat) = 127"

text \<open>The scheme and the host of a text that parses.\<close>

definition url_Parse :: "string \<Rightarrow> (string \<times> string) option" where
  "url_Parse rawURL =
     (let (u, frag) = cut CHR ''#'' rawURL in
      if list_ex is_ctl u then None
      else if u = ''*'' then (if unescape encodeOther frag = None then None else Some ([], []))
      else case getScheme_from True u [] u of
        None \<Rightarrow> None
      | Some (scheme0, rest0) \<Rightarrow>
          let scheme = ToLower scheme0; rest = fst (cut CHR ''?'' rest0) in
          if \<not> has_prefix rest ''/'' \<and> scheme \<noteq> []
          then (if unescape encodeOther frag = None then None else Some (scheme, []))
          else if \<not> has_prefix rest ''/'' \<and> CHR '':'' \<in> set (fst (cut CHR ''/'' rest)) then None
          else
            let slashes = has_prefix rest ''//'' \<and> (scheme \<noteq> [] \<or> \<not> has_prefix rest ''///'');
                authority = takeWhile (\<lambda>c. c \<noteq> CHR ''/'') (drop 2 rest);
                path = (if slashes then dropWhile (\<lambda>c. c \<noteq> CHR ''/'') (drop 2 rest) else rest)
            in case (if slashes then parseAuthority authority else Some []) of
                 None \<Rightarrow> None
               | Some host \<Rightarrow>
                   if unescape encodeOther path = None \<or> unescape encodeOther frag = None then None
                   else Some (scheme, host))"

lemma url_Parse_example:
  "url_Parse ''https://api.example.org:8080/hooks?x=1'' = Some (''https'', ''api.example.org:8080'')"
  "url_Parse ''not a url'' = Some ([], [])"
  "url_Parse '':foo'' = None"
  by code_simp+

end
