(* ===== verification/Card_Issuing.thy ===== *)
theory Card_Issuing
  imports Cards Url
begin

text \<open>
  Issuing a card, \<^verbatim>\<open>CreateManagedCustomer\<close> of \<^verbatim>\<open>internal/handler/cards.go\<close>: the checks of the
  request, then the customer, the delivery address, the account, the card and its limits, one
  store operation after another, and the webhook that announces them.
\<close>

section \<open>Random digits and the expiry date\<close>

text \<open>
  \<^verbatim>\<open>rand.Int(rand.Reader, 10)\<close> reads bytes until the low four bits are below ten. The bytes of
  the reader are an argument, long enough for the digits that are drawn.
\<close>

definition randomDigits :: "nat \<Rightarrow> nat list \<Rightarrow> string" where
  "randomDigits n bytes =
     map digit_char (take n (filter (\<lambda>b. b < 10) (map (\<lambda>b. b mod 16) bytes)))"

definition generateMaskedPan :: "nat list \<Rightarrow> nat list \<Rightarrow> string" where
  "generateMaskedPan bytes1 bytes2 = randomDigits 6 bytes1 @ ''******'' @ randomDigits 4 bytes2"

definition leap :: "int \<Rightarrow> bool" where
  "leap y \<longleftrightarrow> y mod 4 = 0 \<and> (y mod 100 \<noteq> 0 \<or> y mod 400 = 0)"

text \<open>The date of \<^verbatim>\<open>AddDate(n, 0, 0)\<close>: only the leap day can fall outside its month.\<close>

definition add_years :: "int \<Rightarrow> time \<Rightarrow> int \<times> int \<times> int" where
  "add_years n t =
     (let y = year_of t + n; m = month_of t; d = day_of t
      in if m = 2 \<and> d = 29 \<and> \<not> leap y then (y, 3, 1) else (y, m, d))"

definition expiry_date :: "time \<Rightarrow> string" where
  "expiry_date t =
     (let (y, m, d) = add_years 3 t in pad 4 y @ ''-'' @ pad 2 m @ ''-'' @ pad 2 d)"

section \<open>Checking the request\<close>

text \<open>The currency with a prefix up to the last underscore removed.\<close>

definition base_currency :: "string \<Rightarrow> string" where
  "base_currency currency =
     (case cut_last CHR ''_'' currency of None \<Rightarrow> currency | Some (before, after) \<Rightarrow> after)"

definition quoted_by :: "string \<Rightarrow> string" where
  "quoted_by s = [CHR 0x27] @ s @ [CHR 0x27]"

definition requested_currency :: "CreateCustomerAndCardArgs \<Rightarrow> string" where
  "requested_currency req =
     (let c = ca_Currency (cca_Account req) in if c = [] then ''EUR'' else c)"

definition check_card_request :: "CreateCustomerAndCardArgs \<Rightarrow> string option" where
  "check_card_request req =
     (if cca_NameOnCard req = [] then Some ''nameOnCard is required''
      else if length (cca_NameOnCard req) > 26
      then Some (''nameOnCard must be 26 characters or less (provided: '' @
             nat_str (length (cca_NameOnCard req)) @ '' characters)'')
      else if base_currency (requested_currency req) \<noteq> ''EUR''
      then Some (''invalid currency '' @ quoted_by (requested_currency req) @
             '': only EUR-based currencies are supported for cards (e.g., '' @ quoted_by ''EUR'' @
             '', '' @ quoted_by ''PW_EUR'' @ '', '' @ quoted_by ''DEB_EUR'' @ '')'')
      else None)"

section \<open>The objects that are created\<close>

definition issued_customer :: "string \<Rightarrow> string \<Rightarrow> time \<Rightarrow> Customer" where
  "issued_customer customerID userID now =
     zero_Customer\<lparr>cu_ID := Some customerID, cu_SourceID := userID, cu_Type := DefaultCustomerType,
       cu_Code := ''CUST-'' @ take 8 customerID, cu_KYCStatus := KYCStateAccepted,
       cu_CreatedAt := now\<rparr>"

definition issued_address ::
  "env \<Rightarrow> string \<Rightarrow> string \<Rightarrow> CreateCustomerDeliveryAddressArgs \<Rightarrow> CustomerDeliveryAddress" where
  "issued_address e customerID userID d =
     \<lparr>da_ID = uuid e 1, da_SourceID = uuid e 2, da_CustomerID = customerID,
      da_CustomerSourceID = userID, da_Type = cda_Type d, da_Line1 = cda_Line1 d,
      da_Line2 = cda_Line2 d, da_Line3 = cda_Line3 d, da_City = cda_City d,
      da_PostOffice = cda_PostOffice d, da_ZipCode = cda_ZipCode d,
      da_CountryCode = cda_CountryCode d, da_Status = DefaultStatusActive\<rparr>"

definition issued_account ::
  "string \<Rightarrow> string \<Rightarrow> string \<Rightarrow> string \<Rightarrow> string \<Rightarrow> string \<Rightarrow> time \<Rightarrow> Account" where
  "issued_account accountID customerID userID productCode currency number now =
     zero_Account\<lparr>acc_ID := Some accountID, acc_SourceID := accountID,
       acc_CustomerID := Some customerID, acc_CustomerSourceID := userID,
       acc_ProductCode := productCode, acc_Currency := currency,
       acc_AccountNumber := ''GB29NWBK'' @ take 12 number, acc_Type := DefaultAccountType,
       acc_Status := DefaultStatusActive, acc_CreatedAt := now\<rparr>"

definition issued_card ::
  "env \<Rightarrow> string \<Rightarrow> string \<Rightarrow> string \<Rightarrow> string \<Rightarrow> string \<Rightarrow> string \<Rightarrow> Card" where
  "issued_card e cardID accountID customerID userID nameOnCard productCode =
     zero_Card\<lparr>c_ID := cardID, c_SourceID := cardID, c_AccountID := accountID,
       c_AccountSourceID := accountID, c_CustomerID := customerID, c_CustomerSourceID := userID,
       c_NameOnCard := nameOnCard, c_ProductCode := productCode, c_PanToken := ''pan_'' @ cardID,
       c_MaskedPan := generateMaskedPan (random_bytes e 0) (random_bytes e 1),
       c_Status := CardStatusActive, c_ExpiryDate := expiry_date (time_now e 2),
       c_RelationType := CardRelationPrimary, c_IsFirstTimeLock := False,
       c_PlasticCreated := False, c_CreatedAt := time_now e 3\<rparr>"

section \<open>Issuing\<close>

definition requested_product :: "CreateCustomerAndCardArgs \<Rightarrow> string" where
  "requested_product req =
     (if ca_ProductCode (cca_Account req) = [] then DefaultCardProductCode
      else ca_ProductCode (cca_Account req))"

text \<open>A delivery address that cannot be stored is only logged.\<close>

definition store_delivery ::
  "'s Storage \<Rightarrow> env \<Rightarrow> string \<Rightarrow> string \<Rightarrow> CreateCustomerAndCardArgs \<Rightarrow> 's store \<Rightarrow> 's store" where
  "store_delivery S e customerID userID req st =
     (case cca_Delivery req of
        None \<Rightarrow> st
      | Some d \<Rightarrow> snd (s_CreateCustomerAddress S customerID
                     (Some (issued_address e customerID userID d)) (uuid e 7) st))"

text \<open>Past the checks: the store operations in their order, and the answer.\<close>

definition issue_card ::
  "'s Storage \<Rightarrow> env \<Rightarrow> string \<Rightarrow> CreateCustomerAndCardArgs \<Rightarrow> 's Handler \<Rightarrow> response \<times> 's Handler" where
  "issue_card S e userID req h =
     (let currency = requested_currency req;
          productCode = requested_product req;
          customerID = uuid e 0;
          (cp, st1) = alloc_customer (issued_customer customerID userID (time_now e 0)) (h_store h);
          (err1, st2) = s_CreateCustomer S cp (uuid e 6) (time_now e 4) st1
      in if err1 \<noteq> None then (sendError 500 ''failed to create customer'', h\<lparr>h_store := st2\<rparr>)
         else
           let st3 = store_delivery S e customerID userID req st2;
               accountID = uuid e 3;
               (ap, st4) = alloc_account (issued_account accountID customerID userID productCode
                              currency (uuid e 4) (time_now e 1)) st3;
               (err2, st5) = s_CreateAccount S ap (uuid e 8) (time_now e 5) st4
           in if err2 \<noteq> None then (sendError 500 ''failed to create account'', h\<lparr>h_store := st5\<rparr>)
              else
                let cardID = uuid e 5;
                    (res, st6) = s_CreateCard S (issued_card e cardID accountID customerID userID
                                    (cca_NameOnCard req) productCode) (uuid e 9) (time_now e 6) st5
                in case res of
                     Inl _ \<Rightarrow> (sendError 500 ''failed to create card'', h\<lparr>h_store := st6\<rparr>)
                   | Inr crd \<Rightarrow>
                       let st7 = snd (s_SetCardLimits S cardID defaultCardLimits st6);
                           st8 = set_account ap ((account_of st7 ap)\<lparr>acc_Cards := [crd]\<rparr>) st7;
                           st9 = set_customer cp
                                   ((customer_of st8 cp)\<lparr>cu_Accounts := [account_of st8 ap]\<rparr>) st8
                       in (sendJSON 201 (CustomerResponse_json
                             \<lparr>cur_WalletAddress = cca_WalletAddress req,
                              cur_Customer = customer_of st9 cp\<rparr>),
                           send_async S (uuid e 10) (time_now e 7) WebhookEventCardCreated userID
                             [(''cardId'', JStr cardID), (''cardSourceId'', JStr cardID),
                              (''nameOnCard'', JStr (cca_NameOnCard req)),
                              (''productCode'', JStr productCode),
                              (''maskedPan'', JStr (c_MaskedPan crd)),
                              (''accountId'', JStr accountID), (''accountSourceId'', JStr accountID),
                              (''lockLevel'', JNull), (''customerId'', JStr customerID),
                              (''customerSourceId'', JStr userID)] f0 (h\<lparr>h_store := st9\<rparr>)))"

definition CreateManagedCustomer ::
  "'s Storage \<Rightarrow> env \<Rightarrow> request \<Rightarrow> CreateCustomerAndCardArgs option \<Rightarrow> 's Handler \<Rightarrow>
     response \<times> 's Handler" where
  "CreateManagedCustomer S e r body h =
     (let userID = Header_Get r ''x-gatehub-managed-user-uuid'' in
      if userID = [] then (sendError 400 ''missing x-gatehub-managed-user-uuid header'', h)
      else
        let (u, st1) = s_GetUser S userID (h_store h); h1 = h\<lparr>h_store := st1\<rparr>
        in case u of
             Inl _ \<Rightarrow> (sendError 404 ''user not found in GateHub'', h1)
           | Inr p \<Rightarrow>
               if u_KYCState (user_of st1 p) \<noteq> KYCStateAccepted
               then (sendError 403 (''user KYC state is '' @ quoted_by (u_KYCState (user_of st1 p)) @
                       '' but must be '' @ quoted_by ''accepted'' @ '' before ordering cards''), h1)
               else case body of
                 None \<Rightarrow> (sendError 400 ''invalid request body'', h1)
               | Some req \<Rightarrow>
                   (case check_card_request req of
                      Some msg \<Rightarrow> (sendError 400 msg, h1)
                    | None \<Rightarrow> issue_card S e userID req h1))"

definition CreateCustomer ::
  "'s Storage \<Rightarrow> env \<Rightarrow> request \<Rightarrow> CreateCustomerAndCardArgs option \<Rightarrow> 's Handler \<Rightarrow>
     response \<times> 's Handler" where
  "CreateCustomer S e r body h = CreateManagedCustomer S e r body h"

end
