(* ===== verification/Card_Properties.thy ===== *)
theory Card_Properties
  imports Card_Lifecycle Card_Services Card_Issuing Demo_State
begin

text \<open>
  The properties of the card endpoints over the in-memory store, each with a witness on the
  concrete state. Those about the status of a card rest on the interpretation
  \<open>mem_card_store\<close> of the contract \<open>card_store\<close>.
\<close>

definition demo_request :: "(string \<times> string) list \<Rightarrow> (string \<times> string) list \<Rightarrow> (string \<times> string) list \<Rightarrow> request" where
  "demo_request header query params =
     \<lparr>r_Method = ''GET'', r_Path = ''/'', r_RawQuery = [], r_Host = ''localhost'', r_TLS = False,
      r_header = header, r_query = query, r_params = params, r_form = []\<rparr>"

lemma demo_request_simps [simp]:
  "URLParam (demo_request hs qs ps) k = mstr ps k" "Query_Get (demo_request hs qs ps) k = mstr qs k"
  "Header_Get (demo_request hs qs ps) k = mstr hs (ToLower k)"
  by (simp_all add: demo_request_def URLParam_def Query_Get_def Header_Get_def)

abbreviation card1_request :: request where
  "card1_request \<equiv> demo_request [] [] [(''cardID'', ''card1'')]"

lemma demo_card1 [simp]: "mem_cards (h_store demo_handler) ''card1'' = Some demo_card"
  by (simp add: demo_defs mem_cards_def)

lemma card1_id [simp]: "mstr [(''cardID'', ''card1'')] ''cardID'' = ''card1''" "mstr [] k = []"
  by (simp_all add: mstr_def)

section \<open>The status of a card\<close>



text \<open>
  A deleted card stays exactly as it is, whatever sequence of actions on whatever cards
  follows: none of them locks, unlocks, blocks or deletes it again.
\<close>

theorem deleted_card_is_final:
  assumes "mem_inv (h_store h)" and "mem_cards (h_store h) i = Some c"
    and "c_Status c = CardStatusSoftDelete"
  shows "mem_cards (h_store (perform_all memory_storage acts h)) i = Some c"
  using mem_card_store.perform_all_keeps [of "\<lambda>x. x = c \<and> c_Status x = CardStatusSoftDelete",
      OF _ assms(1,2)] assms(3) card_spec_deleted by fastforce

theorem deleted_card_is_final_witness:
  "\<exists>h. mem_cards (h_store (perform_all memory_storage
        [(Unlock, card1_request), (Lock, card1_request)] h)) ''card1'' =
     Some (demo_card\<lparr>c_Status := CardStatusSoftDelete\<rparr>)"
proof -
  let ?c = "demo_card\<lparr>c_Status := CardStatusSoftDelete\<rparr>"
  let ?h = "demo_handler\<lparr>h_store := snd (mem_UpdateCard ?c (h_store demo_handler))\<rparr>"
  have "mem_inv (h_store ?h)" by (simp add: mem_inv_UpdateCard)
  moreover have "mem_cards (h_store ?h) ''card1'' = Some ?c"
    by (simp add: demo_defs mem_UpdateCard_def mem_cards_def)
  ultimately have "mem_cards (h_store (perform_all memory_storage
      [(Unlock, card1_request), (Lock, card1_request)] ?h)) ''card1'' = Some ?c"
    by (rule deleted_card_is_final) simp
  then show ?thesis by blast
qed

text \<open>
  A card that was blocked for good never becomes usable or locked again: after every
  sequence of actions it is still blocked or has been deleted.
\<close>

theorem blocked_card_never_usable:
  assumes "mem_inv (h_store h)" and "mem_cards (h_store h) i = Some c"
    and "c_Status c = CardStatusBlocked"
  shows "\<exists>c'. mem_cards (h_store (perform_all memory_storage acts h)) i = Some c' \<and>
    c_Status c' \<in> {CardStatusBlocked, CardStatusSoftDelete}"
proof -
  let ?P = "\<lambda>c. c_Status c \<in> {CardStatusBlocked, CardStatusSoftDelete}"
  have step: "\<And>a code c c'. ?P c \<Longrightarrow> card_spec a code c = Some c' \<Longrightarrow> ?P c'"
    using card_spec_blocked card_spec_deleted by fastforce
  show ?thesis
    by (rule conjunct2 [OF mem_card_store.perform_all_keeps [of ?P, OF step assms(1,2)]])
      (assumption | simp add: assms(3))+
qed

theorem blocked_card_never_usable_witness:
  "\<exists>h c'. mem_cards (h_store (perform_all memory_storage
        [(Unlock, card1_request), (Lock, card1_request)] h)) ''card1'' = Some c' \<and>
     c_Status c' \<in> {CardStatusBlocked, CardStatusSoftDelete}"
proof -
  let ?c = "demo_card\<lparr>c_Status := CardStatusBlocked\<rparr>"
  let ?h = "demo_handler\<lparr>h_store := snd (mem_UpdateCard ?c (h_store demo_handler))\<rparr>"
  have "mem_inv (h_store ?h)" by (simp add: mem_inv_UpdateCard)
  moreover have "mem_cards (h_store ?h) ''card1'' = Some ?c"
    by (simp add: demo_defs mem_UpdateCard_def mem_cards_def)
  ultimately have "\<exists>c'. mem_cards (h_store (perform_all memory_storage
        [(Unlock, card1_request), (Lock, card1_request)] ?h)) ''card1'' = Some c' \<and>
     c_Status c' \<in> {CardStatusBlocked, CardStatusSoftDelete}"
    by (rule blocked_card_never_usable) simp
  then show ?thesis by blast
qed

text \<open>
  A card carries a lock level exactly while it is temporarily blocked: every sequence of
  actions keeps this, so no unlocked, blocked or deleted card shows the reason of an old lock.
\<close>

theorem lock_level_matches_status:
  assumes "mem_inv (h_store h)" and "mem_cards (h_store h) i = Some c"
    and "c_LockLevel c \<noteq> None \<longleftrightarrow> c_Status c = CardStatusTemporaryBlocked"
  shows "\<exists>c'. mem_cards (h_store (perform_all memory_storage acts h)) i = Some c' \<and>
    (c_LockLevel c' \<noteq> None \<longleftrightarrow> c_Status c' = CardStatusTemporaryBlocked)"
  using mem_card_store.perform_all_keeps [of lock_consistent, OF card_spec_lock_consistent assms(1,2)]
    assms(3) by (simp add: lock_consistent_def)

theorem lock_level_matches_status_witness:
  "\<exists>c'. mem_cards (h_store (perform_all memory_storage
        [(Lock, card1_request), (Block, card1_request)] demo_handler)) ''card1'' = Some c' \<and>
    (c_LockLevel c' \<noteq> None \<longleftrightarrow> c_Status c' = CardStatusTemporaryBlocked)"
  by (rule lock_level_matches_status [OF demo_inv demo_card1]) (simp add: demo_card_def zero_Card_def)

section \<open>Listing\<close>

text \<open>
  C12: the listing of a customer's cards holds exactly the stored cards of that customer that
  are not deleted, whatever order the store's map is walked in, and changes nothing.
\<close>

theorem list_cards_exact:
  assumes "permutes_keys ord" and "ListCards memory_storage ord r h = (resp, h')"
  shows "h' = h \<and> (\<exists>cs. rs_status resp = 200 \<and>
    rs_body resp = Json (ListCardsResponse_json
      \<lparr>lcr_Data = cs, lcr_Pagination = \<lparr>pg_PageNumber = 1, pg_PageSize = 100, pg_TotalPages = 1\<rparr>\<rparr>) \<and>
    set cs = {c. (\<exists>i. mem_cards (h_store h) i = Some c) \<and> c_CustomerID c = URLParam r ''customerID'' \<and>
                 c_Status c \<noteq> CardStatusSoftDelete})"
proof -
  let ?cs = "filter (\<lambda>c. c_Status c \<noteq> CardStatusSoftDelete)
    (filter (\<lambda>c. c_CustomerID c = URLParam r ''customerID'') (range_map ord (m_cards (db (h_store h)))))"
  have "set ?cs = {c. (\<exists>i. mem_cards (h_store h) i = Some c) \<and> c_CustomerID c = URLParam r ''customerID'' \<and>
                 c_Status c \<noteq> CardStatusSoftDelete}"
    by (auto simp: set_range_map [OF assms(1)] ran_def mem_cards_def)
  moreover have "marshals (ListCardsResponse_json \<lparr>lcr_Data = ?cs, lcr_Pagination =
      \<lparr>pg_PageNumber = 1, pg_PageSize = 100, pg_TotalPages = 1\<rparr>\<rparr>)"
    by (simp add: ListCardsResponse_json_def Pagination_json_def list_all_iff)
  ultimately show ?thesis
    using assms(2) by (auto simp: ListCards_def mem_GetCardsByCustomer_def simp del: filter_filter
        intro!: exI [of _ ?cs])
qed

theorem list_cards_exact_witness:
  "\<exists>resp h' cs. ListCards memory_storage id (demo_request [] [] [(''customerID'', ''cust1'')]) demo_handler = (resp, h') \<and>
     rs_status resp = 200 \<and> set cs = {demo_card} \<and>
     rs_body resp = Json (ListCardsResponse_json
       \<lparr>lcr_Data = cs, lcr_Pagination = \<lparr>pg_PageNumber = 1, pg_PageSize = 100, pg_TotalPages = 1\<rparr>\<rparr>)"
proof -
  let ?r = "demo_request [] [] [(''customerID'', ''cust1'')]"
  obtain resp h' where L: "ListCards memory_storage id ?r demo_handler = (resp, h')" by fastforce
  have "permutes_keys id" by (simp add: permutes_keys_def)
  moreover have "{c. (\<exists>i. mem_cards (h_store demo_handler) i = Some c) \<and>
      c_CustomerID c = URLParam ?r ''customerID'' \<and> c_Status c \<noteq> CardStatusSoftDelete} = {demo_card}"
    by (auto simp: demo_defs mem_cards_def mstr_def)
  ultimately show ?thesis using list_cards_exact [OF _ L] L by auto
qed

section \<open>Pages\<close>




section \<open>Issuing a card\<close>

lemma mem_cards_frame [simp]:
  "mem_cards (snd (alloc_customer c s)) = mem_cards s" "mem_cards (snd (alloc_account a s)) = mem_cards s"
  "mem_cards (set_customer p c s) = mem_cards s" "mem_cards (set_account p a s) = mem_cards s"
  "mem_cards (snd (mem_CreateCustomer p uid now s)) = mem_cards s"
  "mem_cards (snd (mem_CreateAccount p uid now s)) = mem_cards s"
  "mem_cards (snd (mem_CreateCustomerAddress i adr uid s)) = mem_cards s"
  "mem_cards (snd (mem_SetCardLimits i ls s)) = mem_cards s"
  by (simp_all add: mem_cards_def alloc_customer_def alloc_account_def mem_CreateCustomer_def
      mem_CreateAccount_def mem_CreateCustomerAddress_def mem_SetCardLimits_def Let_def split: option.splits)

lemma mem_CreateCard_cards:
  "mem_CreateCard crd uid now s = (r, s') \<Longrightarrow>
     case r of Inl m \<Rightarrow> s' = s
     | Inr c \<Rightarrow> mem_cards s (c_ID c) = None \<and> mem_cards s' = (mem_cards s)(c_ID c \<mapsto> c) \<and>
         c_Status c = c_Status crd \<and> c_NameOnCard c = c_NameOnCard crd \<and>
         c_CustomerSourceID c = c_CustomerSourceID crd"
  by (auto simp: mem_CreateCard_def Let_def mem_cards_def fun_eq_iff split: if_splits)

lemma marshals_customer [simp]:
  "marshals (CustomerResponse_json x)" "marshals (Customer_json c)" "marshals (Account_json a)"
  by (simp_all add: CustomerResponse_json_def Customer_json_def Account_json_def
      CustomerDeliveryAddress_json_def jslice_def list_all_iff)

lemma issue_card_cards:
  assumes "issue_card memory_storage e userID req h = (resp, h')"
  shows "if rs_status resp = 201
    then \<exists>c. c_Status c = CardStatusActive \<and> c_NameOnCard c = cca_NameOnCard req \<and>
           c_CustomerSourceID c = userID \<and> mem_cards (h_store h) (c_ID c) = None \<and>
           mem_cards (h_store h') = (mem_cards (h_store h))(c_ID c \<mapsto> c)
    else mem_cards (h_store h') = mem_cards (h_store h)"
proof -
  obtain cp st1 where a1: "alloc_customer (issued_customer (uuid e 0) userID (time_now e 0)) (h_store h) = (cp, st1)"
    by fastforce
  obtain e1 st2 where a2: "mem_CreateCustomer cp (uuid e 6) (time_now e 4) st1 = (e1, st2)" by fastforce
  have c2: "mem_cards st2 = mem_cards (h_store h)"
    using mem_cards_frame(1) [of "issued_customer (uuid e 0) userID (time_now e 0)" "h_store h"]
      mem_cards_frame(5) [of cp "uuid e 6" "time_now e 4" st1] by (simp add: a1 a2)
  define st3 where "st3 = store_delivery memory_storage e (uuid e 0) userID req st2"
  have c3: "mem_cards st3 = mem_cards (h_store h)"
    by (simp add: st3_def store_delivery_def c2 split: option.split)
  define acct where "acct = issued_account (uuid e 3) (uuid e 0) userID (requested_product req)
    (requested_currency req) (uuid e 4) (time_now e 1)"
  obtain ap st4 where a4: "alloc_account acct st3 = (ap, st4)" by fastforce
  obtain e2 st5 where a5: "mem_CreateAccount ap (uuid e 8) (time_now e 5) st4 = (e2, st5)" by fastforce
  have c5: "mem_cards st5 = mem_cards (h_store h)"
    using mem_cards_frame(2) [of acct st3] mem_cards_frame(6) [of ap "uuid e 8" "time_now e 5" st4]
    by (simp add: a4 a5 c3)
  define crd where "crd = issued_card e (uuid e 5) (uuid e 3) (uuid e 0) userID (cca_NameOnCard req)
    (requested_product req)"
  obtain res st6 where a6: "mem_CreateCard crd (uuid e 9) (time_now e 6) st5 = (res, st6)" by fastforce
  have crd: "c_Status crd = CardStatusActive" "c_NameOnCard crd = cca_NameOnCard req" "c_CustomerSourceID crd = userID"
    by (simp_all add: crd_def issued_card_def)
  note run = assms [unfolded issue_card_def Let_def memory_storage_simps a1 prod.case a2
      st3_def [symmetric] acct_def [symmetric] a4 a5 crd_def [symmetric] a6]
  show ?thesis
  proof (cases "e1 = None \<and> e2 = None")
    case True
    then show ?thesis
      using run c5 crd(1,2) crd(3) [symmetric] mem_CreateCard_cards [OF a6] by (cases res) auto
  next
    case False
    then show ?thesis using run c2 c5 by (cases e1; cases e2) auto
  qed
qed

text \<open>
  C15: a card is issued only to a user whose KYC state is accepted, on a request with a name of 1
  to 26 bytes and an EUR currency: then exactly one new, active card in the user's name appears.
  On every other answer, whatever the error, no card changes or appears.
\<close>

theorem card_issuing_gated:
  assumes "CreateManagedCustomer memory_storage e r body h = (resp, h')"
  shows "if rs_status resp = 201
    then \<exists>p req c. mem_usr (h_store h) (Header_Get r ''x-gatehub-managed-user-uuid'') = Some p \<and>
           u_KYCState (user_of (h_store h) p) = KYCStateAccepted \<and> body = Some req \<and>
           0 < length (cca_NameOnCard req) \<and> length (cca_NameOnCard req) \<le> 26 \<and>
           base_currency (requested_currency req) = ''EUR'' \<and>
           c_Status c = CardStatusActive \<and> c_NameOnCard c = cca_NameOnCard req \<and>
           c_CustomerSourceID c = Header_Get r ''x-gatehub-managed-user-uuid'' \<and>
           mem_cards (h_store h) (c_ID c) = None \<and>
           mem_cards (h_store h') = (mem_cards (h_store h))(c_ID c \<mapsto> c)
    else mem_cards (h_store h') = mem_cards (h_store h)"
proof -
  let ?u = "Header_Get r ''x-gatehub-managed-user-uuid''"
  show ?thesis
  proof (cases "\<exists>p req. ?u \<noteq> [] \<and> mem_usr (h_store h) ?u = Some p \<and>
      u_KYCState (user_of (h_store h) p) = KYCStateAccepted \<and> body = Some req \<and> check_card_request req = None")
    case True
    then obtain p req where *: "?u \<noteq> []" "mem_usr (h_store h) ?u = Some p"
        "u_KYCState (user_of (h_store h) p) = KYCStateAccepted" "body = Some req" "check_card_request req = None"
      by blast
    have "issue_card memory_storage e ?u req h = (resp, h')"
      using assms * by (simp add: CreateManagedCustomer_def mem_GetUser_def mem_usr_def)
    from issue_card_cards [OF this] * show ?thesis
      by (auto simp: check_card_request_def split: if_splits)
  next
    case False
    then show ?thesis
      using assms by (auto simp: CreateManagedCustomer_def mem_GetUser_def mem_usr_def Let_def
          split: option.splits if_splits)
  qed
qed

lemma CreateCustomer_fresh:
  assumes "cid \<noteq> []" and "u \<noteq> []" and "mget (m_customers (db s)) cid = None"
    and "alloc_customer (issued_customer cid u now) s = (cp, s1)"
  shows "\<exists>m. mem_CreateCustomer cp uid now2 s1 = (None, m) \<and> m_accounts (db m) = m_accounts (db s) \<and>
    m_cards (db m) = m_cards (db s)"
  using assms by (auto simp: mem_CreateCustomer_def alloc_customer_def issued_customer_def no_id_def id_of_def Let_def)

lemma CreateAccount_fresh:
  assumes "aid \<noteq> []" and "mget (m_accounts (db s)) aid = None"
    and "alloc_account (issued_account aid cid u prd cur num now) s = (ap, s1)"
  shows "\<exists>m. mem_CreateAccount ap uid now2 s1 = (None, m) \<and> m_cards (db m) = m_cards (db s)"
  using assms by (auto simp: mem_CreateAccount_def alloc_account_def issued_account_def no_id_def id_of_def Let_def)

lemma store_delivery_frame [simp]:
  "m_accounts (db (store_delivery memory_storage e cid u req s)) = m_accounts (db s)"
  "m_cards (db (store_delivery memory_storage e cid u req s)) = m_cards (db s)"
  by (simp_all add: store_delivery_def mem_CreateCustomerAddress_def Let_def split: option.split)

lemma CreateCard_fresh:
  assumes "c_ID crd \<noteq> []" and "mget (m_cards (db s)) (c_ID crd) = None"
  shows "\<exists>c m. mem_CreateCard crd uid now s = (Inr c, m)"
  using assms by (simp add: mem_CreateCard_def Let_def)

text \<open>With fresh ids nothing stops the store operations.\<close>

lemma issue_card_succeeds:
  assumes "u \<noteq> []" and "uuid e 0 \<noteq> []" and "uuid e 3 \<noteq> []" and "uuid e 5 \<noteq> []"
    and "mget (m_customers (db (h_store h))) (uuid e 0) = None"
    and "mget (m_accounts (db (h_store h))) (uuid e 3) = None"
    and "mget (m_cards (db (h_store h))) (uuid e 5) = None"
  shows "rs_status (fst (issue_card memory_storage e u req h)) = 201"
proof -
  obtain cp st1 where a1: "alloc_customer (issued_customer (uuid e 0) u (time_now e 0)) (h_store h) = (cp, st1)"
    by fastforce
  obtain st2 where a2: "mem_CreateCustomer cp (uuid e 6) (time_now e 4) st1 = (None, st2)"
      "m_accounts (db st2) = m_accounts (db (h_store h))" "m_cards (db st2) = m_cards (db (h_store h))"
    using CreateCustomer_fresh [OF assms(2,1,5) a1] by blast
  define st3 where "st3 = store_delivery memory_storage e (uuid e 0) u req st2"
  define acct where "acct = issued_account (uuid e 3) (uuid e 0) u (requested_product req)
    (requested_currency req) (uuid e 4) (time_now e 1)"
  obtain ap st4 where a4: "alloc_account acct st3 = (ap, st4)" by fastforce
  obtain st5 where a5: "mem_CreateAccount ap (uuid e 8) (time_now e 5) st4 = (None, st5)"
      "m_cards (db st5) = m_cards (db (h_store h))"
    using CreateAccount_fresh [OF assms(3) _ a4 [unfolded acct_def]] assms(6) a2 by (auto simp: st3_def)
  define crd where "crd = issued_card e (uuid e 5) (uuid e 3) (uuid e 0) u (cca_NameOnCard req) (requested_product req)"
  have "c_ID crd = uuid e 5" by (simp add: crd_def issued_card_def)
  then obtain c st6 where a6: "mem_CreateCard crd (uuid e 9) (time_now e 6) st5 = (Inr c, st6)"
    using CreateCard_fresh [of crd st5] assms(4,7) a5(2) by metis
  show ?thesis
    unfolding issue_card_def Let_def memory_storage_simps a1 prod.case a2(1)
      st3_def [symmetric] acct_def [symmetric] a4 a5(1) crd_def [symmetric] a6
    by simp
qed

definition demo_card_request :: CreateCustomerAndCardArgs where
  "demo_card_request = zero_CreateCustomerAndCardArgs\<lparr>cca_NameOnCard := ''ALICE'',
     cca_Account := zero_CardAccount\<lparr>ca_Currency := ''PW_EUR''\<rparr>\<rparr>"

theorem card_issuing_gated_witness:
  "\<exists>resp h' c. CreateManagedCustomer memory_storage demo_env
       (demo_request [(''x-gatehub-managed-user-uuid'', ''alice'')] [] []) (Some demo_card_request) demo_handler = (resp, h') \<and>
     rs_status resp = 201 \<and> c_Status c = CardStatusActive \<and> c_NameOnCard c = ''ALICE'' \<and>
     mem_cards (h_store h') = (mem_cards (h_store demo_handler))(c_ID c \<mapsto> c)"
proof -
  let ?r = "demo_request [(''x-gatehub-managed-user-uuid'', ''alice'')] [] []"
  obtain resp h' where C: "CreateManagedCustomer memory_storage demo_env ?r (Some demo_card_request)
      demo_handler = (resp, h')" by fastforce
  have chk: "check_card_request demo_card_request = None"
    by (simp add: check_card_request_def demo_card_request_def requested_currency_def base_currency_def
        cut_last_def)
  have h: "Header_Get ?r ''x-gatehub-managed-user-uuid'' = ''alice''"
    by (simp add: mstr_def to_lower_char_def)
  have kyc: "u_KYCState (user_of (h_store demo_handler) 0) = KYCStateAccepted"
    by (simp add: demo_user_def)
  have "fst (issue_card memory_storage demo_env ''alice'' demo_card_request demo_handler) = resp"
    using arg_cong [OF C, of fst] kyc unfolding CreateManagedCustomer_def h Let_def by (simp add: chk)
  moreover have "rs_status (fst (issue_card memory_storage demo_env ''alice'' demo_card_request demo_handler)) = 201"
    by (rule issue_card_succeeds) (simp_all add: demo_defs)
  ultimately have "rs_status resp = 201" by simp
  with card_issuing_gated [OF C] C show ?thesis by (auto simp: demo_card_request_def)
qed

section \<open>3DS challenges\<close>

text \<open>
  A confirmation decides a stored 3DS challenge whatever its status and however long its
  time is over: an expired or a declined challenge can still be approved. Nothing else of the
  challenge changes.
\<close>

theorem confirmation_ignores_timeout:
  assumes "mget (m_threeDSChallenges (db (h_store h))) (URLParam r ''txID'') = Some c"
    and "tds_TransactionID c = URLParam r ''txID''"
    and "ConfirmThreeDS memory_storage r (Some req) h = (resp, h')"
  shows "rs_status resp = 200 \<and>
    mget (m_threeDSChallenges (db (h_store h'))) (URLParam r ''txID'') =
      Some (c\<lparr>tds_Status := if tca_Confirmed req then ''approved'' else ''declined''\<rparr>)"
  using assms
  by (auto simp: ConfirmThreeDS_def memory_storage_def mem_GetThreeDSChallenge_def
      mem_UpdateThreeDSChallenge_def Let_def)

definition expired_challenge :: ThreeDSChallenge where
  "expired_challenge = zero_ThreeDSChallenge\<lparr>tds_TransactionID := ''3ds-1'', tds_UserID := ''alice'',
     tds_Status := ''declined''\<rparr>"

theorem confirmation_ignores_timeout_witness:
  "\<exists>resp h'. ConfirmThreeDS memory_storage (demo_request [] [] [(''txID'', ''3ds-1'')])
       (Some \<lparr>tca_TransactionID = ''3ds-1'', tca_Confirmed = True, tca_AuthMethod = []\<rparr>)
       (demo_handler\<lparr>h_store := upd_db (\<lambda>m. m\<lparr>m_threeDSChallenges := [(''3ds-1'', expired_challenge)]\<rparr>)
          (h_store demo_handler)\<rparr>) = (resp, h') \<and>
     tds_Timeout expired_challenge < time_now demo_env 0 \<and> tds_Status expired_challenge = ''declined'' \<and>
     mget (m_threeDSChallenges (db (h_store h'))) ''3ds-1'' = Some (expired_challenge\<lparr>tds_Status := ''approved''\<rparr>)"
proof -
  let ?r = "demo_request [] [] [(''txID'', ''3ds-1'')]"
  let ?req = "\<lparr>tca_TransactionID = ''3ds-1'', tca_Confirmed = True, tca_AuthMethod = []\<rparr>"
  let ?h = "demo_handler\<lparr>h_store := upd_db (\<lambda>m. m\<lparr>m_threeDSChallenges := [(''3ds-1'', expired_challenge)]\<rparr>)
          (h_store demo_handler)\<rparr>"
  obtain resp h' where C: "ConfirmThreeDS memory_storage ?r (Some ?req) ?h = (resp, h')" by fastforce
  have "mget (m_threeDSChallenges (db (h_store h'))) ''3ds-1'' = Some (expired_challenge\<lparr>tds_Status := ''approved''\<rparr>)"
    using confirmation_ignores_timeout [OF _ _ C, of expired_challenge]
    by (simp add: upd_db_def mstr_def expired_challenge_def)
  moreover have "tds_Timeout expired_challenge < time_now demo_env 0" "tds_Status expired_challenge = ''declined''"
    by (simp_all add: expired_challenge_def zero_ThreeDSChallenge_def demo_env_def)
  ultimately show ?thesis using C by blast
qed

text \<open>The number of a card is a positive 31-bit integer for every card id that is not empty.\<close>

theorem card_number_positive:
  assumes "cardUUID \<noteq> []"
  shows "0 < numericCardID cardUUID \<and> numericCardID cardUUID < 2 ^ 31"
  using numericCardID_range [OF assms] by simp

theorem card_number_positive_witness: "0 < numericCardID ''card1'' \<and> numericCardID ''card1'' < 2 ^ 31"
  by (rule card_number_positive) simp

end
