(* ===== verification/Fee_Endpoints.thy ===== *)
theory Fee_Endpoints
  imports Handler_State
begin

text \<open>
  The administration endpoints of \<^verbatim>\<open>internal/handler/fees.go\<close>, over the fee configuration
  inside the handler. The handler keeps \<open>fees_ok\<close>, because every percentage is validated
  before it is stored.
\<close>

record feeResponse =
  fr_DepositFeePercentage :: f64
  fr_WithdrawalFeePercentage :: f64

definition feeResponse_json :: "feeResponse \<Rightarrow> json" where
  "feeResponse_json r = JObj
     [(''deposit_fee_percentage'', JNum (fr_DepositFeePercentage r)),
      (''withdrawal_fee_percentage'', JNum (fr_WithdrawalFeePercentage r))]"

record feeUpdateRequest =
  fu_DepositFeePercentage :: "f64 option"
  fu_WithdrawalFeePercentage :: "f64 option"

record userFeeResponse =
  ufr_UserID :: string
  ufr_DepositFeePercentage :: f64
  ufr_WithdrawalFeePercentage :: f64
  ufr_DepositFeeSource :: string
  ufr_WithdrawalFeeSource :: string

definition userFeeResponse_json :: "userFeeResponse \<Rightarrow> json" where
  "userFeeResponse_json r = JObj
     [(''user_id'', JStr (ufr_UserID r)),
      (''deposit_fee_percentage'', JNum (ufr_DepositFeePercentage r)),
      (''withdrawal_fee_percentage'', JNum (ufr_WithdrawalFeePercentage r)),
      (''deposit_fee_source'', JStr (ufr_DepositFeeSource r)),
      (''withdrawal_fee_source'', JStr (ufr_WithdrawalFeeSource r))]"

definition GetFees :: "request \<Rightarrow> 's Handler \<Rightarrow> response \<times> 's Handler" where
  "GetFees r h =
     (sendJSON 200 (feeResponse_json
        \<lparr>fr_DepositFeePercentage = GetDepositFeePercent (h_fees h),
         fr_WithdrawalFeePercentage = GetWithdrawalFeePercent (h_fees h)\<rparr>), h)"

text \<open>The check \<^verbatim>\<open>x < 0 || x > 100\<close> that every percentage of a request goes through.\<close>

definition out_of_range :: "f64 \<Rightarrow> bool" where
  "out_of_range p \<longleftrightarrow> flt p f0 \<or> flt (Fin 100) p"

definition SetFees :: "request \<Rightarrow> feeResponse option \<Rightarrow> 's Handler \<Rightarrow> response \<times> 's Handler" where
  "SetFees r body h =
     (case body of
        None \<Rightarrow> (sendError 400 ''invalid request body'', h)
      | Some req \<Rightarrow>
          if out_of_range (fr_DepositFeePercentage req)
          then (sendError 400 ''deposit_fee_percentage must be between 0 and 100'', h)
          else if out_of_range (fr_WithdrawalFeePercentage req)
          then (sendError 400 ''withdrawal_fee_percentage must be between 0 and 100'', h)
          else
            let fc = SetWithdrawalFeePercent (fr_WithdrawalFeePercentage req)
                       (SetDepositFeePercent (fr_DepositFeePercentage req) (h_fees h));
                h1 = h\<lparr>h_fees := fc\<rparr>
            in GetFees r h1)"

definition feeSource :: "bool \<Rightarrow> string" where
  "feeSource userOverride = (if userOverride then ''user'' else ''global'')"

definition GetUserFees :: "request \<Rightarrow> 's Handler \<Rightarrow> response \<times> 's Handler" where
  "GetUserFees r h =
     (let userID = URLParam r ''userID'' in
      if userID = [] then (sendError 400 ''user_id is required'', h)
      else
        let (depositPct, depositOverride) = GetDepositFeeForUser userID (h_fees h);
            (withdrawalPct, withdrawalOverride) = GetWithdrawalFeeForUser userID (h_fees h)
        in (sendJSON 200 (userFeeResponse_json
              \<lparr>ufr_UserID = userID, ufr_DepositFeePercentage = depositPct,
               ufr_WithdrawalFeePercentage = withdrawalPct,
               ufr_DepositFeeSource = feeSource depositOverride,
               ufr_WithdrawalFeeSource = feeSource withdrawalOverride\<rparr>), h))"

definition SetUserFees :: "request \<Rightarrow> feeUpdateRequest option \<Rightarrow> 's Handler \<Rightarrow> response \<times> 's Handler" where
  "SetUserFees r body h =
     (let userID = URLParam r ''userID'' in
      if userID = [] then (sendError 400 ''user_id is required'', h)
      else case body of
        None \<Rightarrow> (sendError 400 ''invalid request body'', h)
      | Some req \<Rightarrow>
          if fu_DepositFeePercentage req = None \<and> fu_WithdrawalFeePercentage req = None
          then (sendError 400 ''at least one fee percentage must be provided'', h)
          else if (case fu_DepositFeePercentage req of None \<Rightarrow> False | Some p \<Rightarrow> out_of_range p)
          then (sendError 400 ''deposit_fee_percentage must be between 0 and 100'', h)
          else if (case fu_WithdrawalFeePercentage req of None \<Rightarrow> False | Some p \<Rightarrow> out_of_range p)
          then (sendError 400 ''withdrawal_fee_percentage must be between 0 and 100'', h)
          else GetUserFees r (h\<lparr>h_fees := fc_SetUserFees userID (fu_DepositFeePercentage req)
                                  (fu_WithdrawalFeePercentage req) (h_fees h)\<rparr>))"

definition ClearUserFees :: "request \<Rightarrow> 's Handler \<Rightarrow> response \<times> 's Handler" where
  "ClearUserFees r h =
     (let userID = URLParam r ''userID'' in
      if userID = [] then (sendError 400 ''user_id is required'', h)
      else GetUserFees r (h\<lparr>h_fees := fc_ClearUserFees userID (h_fees h)\<rparr>))"

section \<open>The invariant is kept\<close>

text \<open>A number that decoded from JSON is not NaN, and then the check is the validity of the percentage.\<close>

lemma out_of_range_valid: "p \<noteq> NaN \<Longrightarrow> \<not> out_of_range p \<Longrightarrow> valid_percent p"
  by (auto simp: out_of_range_def valid_percent_def f0_def flt_iff_not_fle)

lemma GetFees_handler [simp]: "snd (GetFees r h) = h"
  by (simp add: GetFees_def)

lemma GetUserFees_handler [simp]: "snd (GetUserFees r h) = h"
  by (simp add: GetUserFees_def Let_def split: prod.splits)

lemma fees_ok_SetFees:
  assumes "fees_ok (h_fees h)"
    and "\<And>req. body = Some req \<Longrightarrow> fr_DepositFeePercentage req \<noteq> NaN \<and> fr_WithdrawalFeePercentage req \<noteq> NaN"
  shows "fees_ok (h_fees (snd (SetFees r body h)))"
proof (cases body)
  case (Some req)
  then show ?thesis
    using assms(1) assms(2) [OF Some] out_of_range_valid
    by (auto simp: SetFees_def fees_ok_def SetDepositFeePercent_def SetWithdrawalFeePercent_def Let_def)
qed (simp add: SetFees_def assms(1))

lemma fees_ok_SetUserFees:
  assumes "fees_ok (h_fees h)"
    and "\<And>req. body = Some req \<Longrightarrow> fu_DepositFeePercentage req \<noteq> Some NaN \<and> fu_WithdrawalFeePercentage req \<noteq> Some NaN"
  shows "fees_ok (h_fees (snd (SetUserFees r body h)))"
proof (cases body)
  case (Some req)
  then show ?thesis
    using assms(1) assms(2) [OF Some]
    by (auto simp: SetUserFees_def Let_def intro!: fees_ok_set_user intro: out_of_range_valid
        split: option.splits)
qed (simp add: SetUserFees_def Let_def assms(1))

lemma fees_ok_ClearUserFees:
  "fees_ok (h_fees h) \<Longrightarrow> fees_ok (h_fees (snd (ClearUserFees r h)))"
  by (simp add: ClearUserFees_def Let_def fees_ok_clear_user)

end
