(* ===== verification/Identity.thy ===== *)
theory Identity
  imports Payments
begin

text \<open>
  The identity endpoints of \<^verbatim>\<open>internal/handler/identity.go\<close>: the user profile and the KYC state,
  which a user object carries as a string. A user is shared with the store by pointer: a
  handler that changes a field changes the stored user at once, also when it fails later.
  The HTML page \<^verbatim>\<open>KYCIframe\<close> is in \<open>Pages\<close>.
\<close>

section \<open>KYC outcomes\<close>

definition applyKYCOutcome :: "User \<Rightarrow> string \<Rightarrow> User \<times> (go_error + string \<times> string)" where
  "applyKYCOutcome user outcome =
     (if outcome = KYCStateAccepted
      then (user\<lparr>u_KYCState := KYCStateAccepted\<rparr>,
            Inr (WebhookEventKYCAccepted, ''KYC verification completed successfully''))
      else if outcome = KYCStateRejected
      then (user\<lparr>u_KYCState := KYCStateRejected\<rparr>,
            Inr (WebhookEventKYCRejected, ''KYC verification rejected''))
      else if outcome = KYCStateActionRequired
      then (user\<lparr>u_KYCState := KYCStateActionRequired\<rparr>,
            Inr (WebhookEventKYCActionRequired, ''KYC verification requires additional action''))
      else if outcome = KYCStateResubmission
      then (user\<lparr>u_KYCState := KYCStateResubmission\<rparr>,
            Inr (WebhookEventKYCResubmission, ''KYC documents must be resubmitted''))
      else (user, Inl (''unknown kyc_outcome '' @ go_quote outcome @
              '': expected accepted, rejected, action_required or resubmission'')))"

definition shouldSkipAcceptedWebhook :: "string \<Rightarrow> string \<Rightarrow> bool" where
  "shouldSkipAcceptedWebhook previousKYCState webhookEvent \<longleftrightarrow>
     webhookEvent = WebhookEventKYCAccepted \<and> previousKYCState = KYCStateResubmission"

definition sumsubVerificationStatusState :: "User \<Rightarrow> int \<times> int" where
  "sumsubVerificationStatusState user =
     (if u_KYCState user = KYCStateAccepted then (1, 1)
      else if u_KYCState user = KYCStateRejected then (2, 0)
      else if u_KYCState user = KYCStateResubmission then (10, 0)
      else (0, 0))"

definition isKnownKYCState :: "string \<Rightarrow> bool" where
  "isKnownKYCState state \<longleftrightarrow>
     state \<in> {KYCStateAccepted, KYCStateRejected, KYCStateActionRequired, KYCStateResubmission}"

section \<open>Reading a user\<close>

definition user_profile :: "User \<Rightarrow> UserProfile" where
  "user_profile user =
     \<lparr>up_UUID = u_ID user, up_BirthDay = u_BirthDay user, up_BirthMonth = u_BirthMonth user,
      up_BirthYear = u_BirthYear user, up_Gender = u_Gender user, up_FirstName = u_FirstName user,
      up_MiddleName = u_MiddleName user, up_LastName = u_LastName user,
      up_Citizenship = u_Citizenship user, up_AddressPostalCode = u_AddressPostalCode user,
      up_AddressSubdivision = u_AddressSubdivision user,
      up_AddressCountryCode = u_AddressCountryCode user, up_AddressCity = u_AddressCity user,
      up_AddressStreet1 = u_AddressStreet1 user, up_AddressStreet2 = u_AddressStreet2 user,
      up_BirthCity = u_BirthCity user, up_BirthCountryCode = u_BirthCountryCode user,
      up_TaxResidency = u_TaxResidency user, up_ExpectedVolume = u_ExpectedVolume user\<rparr>"

definition user_response :: "User \<Rightarrow> GetUserResponse" where
  "user_response user =
     (let (verificationStatus, verificationState) = sumsubVerificationStatusState user in
      \<lparr>gur_ID = u_ID user, gur_UUID = u_ID user, gur_Email = u_Email user,
       gur_Activated = u_Activated user, gur_Managed = u_Managed user, gur_Role = u_Role user,
       gur_Features = u_Features user, gur_KYCState = u_KYCState user,
       gur_RiskLevel = u_RiskLevel user,
       gur_IsProfileCreationDisabled = u_IsProfileCreationDisabled user,
       gur_CreatedAt = u_CreatedAt user, gur_Profile = user_profile user,
       gur_Verifications =
         [\<lparr>uv_UUID = ''mock-verification-uuid'', uv_Status = verificationStatus,
           uv_State = verificationState, uv_Provider = ''Sumsub'', uv_ProviderType = ''sumsub''\<rparr>]\<rparr>)"

definition GetUser :: "'s Storage \<Rightarrow> request \<Rightarrow> 's Handler \<Rightarrow> response \<times> 's Handler" where
  "GetUser S r h =
     (let userID = URLParam r ''userID'' in
      if userID = [] then (sendError 400 ''User ID is required'', h)
      else
        let (u, st1) = s_GetUser S userID (h_store h); h1 = h\<lparr>h_store := st1\<rparr>
        in case u of
             Inl _ \<Rightarrow> (sendError 404 ''User not found'', h1)
           | Inr p \<Rightarrow> (sendJSON 200 (GetUserResponse_json (user_response (user_of st1 p))), h1))"

section \<open>Changing a user\<close>

text \<open>A handler's \<^verbatim>\<open>user.F = x; h.store.UpdateUser(user)\<close>: the object changes whatever the store answers.\<close>

definition write_user ::
  "'s Storage \<Rightarrow> addr \<Rightarrow> (User \<Rightarrow> User) \<Rightarrow> 's Handler \<Rightarrow> go_error option \<times> 's Handler" where
  "write_user S p f h =
     (let (err, st) = s_UpdateUser S p (set_user p (f (user_of (h_store h) p)) (h_store h))
      in (err, h\<lparr>h_store := st\<rparr>))"

definition StartKYC :: "'s Storage \<Rightarrow> request \<Rightarrow> 's Handler \<Rightarrow> response \<times> 's Handler" where
  "StartKYC S r h =
     (let userID = URLParam r ''userID''; gatewayID = URLParam r ''gatewayID'' in
      if userID = [] \<or> gatewayID = []
      then (sendError 400 ''User ID and Gateway ID are required'', h)
      else
        let (u, st1) = s_GetUser S userID (h_store h); h1 = h\<lparr>h_store := st1\<rparr>
        in case u of
             Inl _ \<Rightarrow> (sendError 404 ''User not found'', h1)
           | Inr p \<Rightarrow>
               let token = ''kyc-token-'' @ userID @ ''-'' @ gatewayID;
                   iframeURL = ''/iframe/onboarding?token='' @ token @ ''&user_id='' @ userID;
                   h2 = (if u_KYCState (user_of st1 p) \<noteq> KYCStateAccepted
                         then snd (write_user S p (\<lambda>u. u\<lparr>u_KYCState := KYCStateActionRequired,
                                     u_RiskLevel := RiskLevelLow\<rparr>) h1)
                         else h1)
               in (sendJSON 200 (JObj [(''iframe_url'', JStr iframeURL), (''token'', JStr token)]), h2))"

definition kyc_event :: "string \<Rightarrow> string" where
  "kyc_event state =
     (if state = KYCStateAccepted then WebhookEventKYCAccepted
      else if state = KYCStateRejected then WebhookEventKYCRejected
      else if state = KYCStateActionRequired then WebhookEventKYCActionRequired
      else [])"

definition UpdateKYCState ::
  "'s Storage \<Rightarrow> request \<Rightarrow> UpdateKYCStateRequest option \<Rightarrow> 's Handler \<Rightarrow> response \<times> 's Handler" where
  "UpdateKYCState S r body h =
     (let userID = URLParam r ''userID''; gatewayID = URLParam r ''gatewayID'' in
      if userID = [] \<or> gatewayID = []
      then (sendError 400 ''User ID and Gateway ID are required'', h)
      else case body of
        None \<Rightarrow> (sendError 400 ''Invalid request body'', h)
      | Some req \<Rightarrow>
          let (u, st1) = s_GetUser S userID (h_store h); h1 = h\<lparr>h_store := st1\<rparr>
          in case u of
               Inl _ \<Rightarrow> (sendError 404 ''User not found'', h1)
             | Inr p \<Rightarrow>
                 let (err, h2) = write_user S p (\<lambda>u. u\<lparr>u_KYCState := uks_State req,
                                   u_RiskLevel := uks_RiskLevel req\<rparr>) h1
                 in if err \<noteq> None then (sendError 500 ''Failed to update user'', h2)
                    else
                      let eventType = kyc_event (uks_State req);
                          h3 = (if eventType \<noteq> []
                                then h2\<lparr>h_tasks := h_tasks h2 @ [Send eventType userID
                                       [(''risk_level'', JStr (uks_RiskLevel req)),
                                        (''state'', JStr (uks_State req))] f0]\<rparr>
                                else h2)
                      in (sendJSON 200 (User_json (user_of (h_store h3) p)), h3))"

text \<open>The body of \<^verbatim>\<open>OverrideRiskLevel\<close>: the risk level and a reason that is only logged.\<close>

definition OverrideRiskLevel ::
  "'s Storage \<Rightarrow> request \<Rightarrow> (string \<times> string) option \<Rightarrow> 's Handler \<Rightarrow> response \<times> 's Handler" where
  "OverrideRiskLevel S r body h =
     (let userID = URLParam r ''userID''; gatewayID = URLParam r ''gatewayID'' in
      if userID = [] \<or> gatewayID = []
      then (sendError 400 ''User ID and Gateway ID are required'', h)
      else case body of
        None \<Rightarrow> (sendError 400 ''Invalid request body'', h)
      | Some (riskLevel, reason) \<Rightarrow>
          let (u, st1) = s_GetUser S userID (h_store h); h1 = h\<lparr>h_store := st1\<rparr>
          in case u of
               Inl _ \<Rightarrow> (sendError 404 ''User not found'', h1)
             | Inr p \<Rightarrow>
                 let (err, h2) = write_user S p (\<lambda>u. u\<lparr>u_RiskLevel := riskLevel\<rparr>) h1
                 in if err \<noteq> None then (sendError 500 ''Failed to update user'', h2)
                    else (sendJSON 200 (User_json (user_of (h_store h2) p)), h2))"

text \<open>The body of \<^verbatim>\<open>SetUserKYCStateQuiet\<close>: the KYC state and an optional risk level.\<close>

definition SetUserKYCStateQuiet ::
  "'s Storage \<Rightarrow> request \<Rightarrow> (string \<times> string) option \<Rightarrow> 's Handler \<Rightarrow> response \<times> 's Handler" where
  "SetUserKYCStateQuiet S r body h =
     (let userID = URLParam r ''userID'' in
      if userID = [] then (sendError 400 ''user ID is required'', h)
      else case body of
        None \<Rightarrow> (sendError 400 ''invalid request body'', h)
      | Some (state, riskLevel) \<Rightarrow>
          if state = [] then (sendError 400 ''kyc_state is required'', h)
          else if \<not> isKnownKYCState state
          then (sendError 400 (''unknown kyc_state '' @ go_quote state @
                  '': expected accepted, rejected, action_required or resubmission''), h)
          else
            let (u, st1) = s_GetUser S userID (h_store h); h1 = h\<lparr>h_store := st1\<rparr>
            in case u of
                 Inl _ \<Rightarrow> (sendError 404 ''user not found'', h1)
               | Inr p \<Rightarrow>
                   let (err, h2) = write_user S p (\<lambda>u. let u1 = u\<lparr>u_KYCState := state\<rparr> in
                                     if riskLevel \<noteq> [] then u1\<lparr>u_RiskLevel := riskLevel\<rparr> else u1) h1
                   in if err \<noteq> None then (sendError 500 ''failed to update user'', h2)
                      else (sendJSON 200 (JObj
                             [(''kyc_state'', JStr (u_KYCState (user_of (h_store h2) p))),
                              (''risk_level'', JStr (u_RiskLevel (user_of (h_store h2) p)))]), h2))"

section \<open>Submitting the KYC form\<close>

definition set_birth :: "string \<Rightarrow> User \<Rightarrow> User" where
  "set_birth dob u =
     (if dob = [] then u
      else case split_on CHR ''-'' dob of
        [y, m, d] \<Rightarrow>
          let u1 = (case atoi y of Some year \<Rightarrow> u\<lparr>u_BirthYear := year\<rparr> | None \<Rightarrow> u);
              u2 = (case atoi m of Some month \<Rightarrow> u1\<lparr>u_BirthMonth := month\<rparr> | None \<Rightarrow> u1)
          in (case atoi d of Some day \<Rightarrow> u2\<lparr>u_BirthDay := day\<rparr> | None \<Rightarrow> u2)
      | _ \<Rightarrow> u)"

definition form_profile :: "request \<Rightarrow> User \<Rightarrow> User" where
  "form_profile r u =
     set_birth (FormValue r ''dob'')
       (u\<lparr>u_FirstName := FormValue r ''first_name'', u_LastName := FormValue r ''last_name'',
          u_AddressStreet1 := FormValue r ''address'', u_AddressCity := FormValue r ''city'',
          u_AddressCountryCode := FormValue r ''country''\<rparr>)"

definition form_user :: "'s Handler \<Rightarrow> request \<Rightarrow> string" where
  "form_user h r =
     (let userID = FormValue r ''user_id''
      in if userID = [] then mstr (h_tokens h) (FormValue r ''token'') else userID)"

text \<open>
  The handler past the second factor: the outcome is applied to the shared object, stored, and
  announced by a webhook. \<open>previousKYCState\<close> was read before.
\<close>

definition submit_outcome ::
  "'s Storage \<Rightarrow> env \<Rightarrow> request \<Rightarrow> string \<Rightarrow> string \<Rightarrow> addr \<Rightarrow> 's Handler \<Rightarrow> response \<times> 's Handler" where
  "submit_outcome S e r userID previousKYCState p h =
     (let o0 = FormValue r ''kyc_outcome'';
          kycOutcome = (if o0 = [] then KYCStateAccepted else o0);
          r0 = FormValue r ''risk_level'';
          riskLevel = (if r0 = [] then RiskLevelLow else r0);
          (user, res) = applyKYCOutcome ((user_of (h_store h) p)\<lparr>u_RiskLevel := riskLevel\<rparr>) kycOutcome;
          h1 = h\<lparr>h_store := set_user p user (h_store h)\<rparr>
      in case res of
           Inl err \<Rightarrow> (sendError 400 err, h1)
         | Inr (webhookEvent, responseMessage) \<Rightarrow>
             let (err, h2) = write_user S p (\<lambda>u. u) h1
             in if err \<noteq> None then (sendError 500 ''Failed to update user'', h2)
                else
                  let h3 = (if \<not> shouldSkipAcceptedWebhook previousKYCState webhookEvent
                            then send_async S (uuid e 0) (time_now e 0) webhookEvent userID
                                   [(''message'', JStr responseMessage)] (Fin 2) h2
                            else h2)
                  in (sendJSON 200 (JObj [(''message'', JStr responseMessage),
                        (''status'', JStr (u_KYCState (user_of (h_store h3) p)))]), h3))"

text \<open>\<open>form_err\<close> is the error of parsing the form, when neither way of parsing succeeds.\<close>

definition KYCIframeSubmit ::
  "'s Storage \<Rightarrow> http_client \<Rightarrow> env \<Rightarrow> request \<Rightarrow> go_error option \<Rightarrow> 's Handler \<Rightarrow> response \<times> 's Handler" where
  "KYCIframeSubmit S http e r form_err h =
     (case form_err of
        Some err \<Rightarrow> (sendError 400 (''Invalid form data: '' @ err), h)
      | None \<Rightarrow>
          let userID = form_user h r in
          if userID = []
          then (sendError 400 ''User ID is required (not found in form or token mapping)'', h)
          else
            let (u, st1) = s_GetUser S userID (h_store h); h1 = h\<lparr>h_store := st1\<rparr>
            in case u of
                 Inl _ \<Rightarrow> (sendError 404 ''User not found'', h1)
               | Inr p \<Rightarrow>
                   let previousKYCState = u_KYCState (user_of st1 p);
                       h2 = h1\<lparr>h_store := set_user p (form_profile r (user_of st1 p)) st1\<rparr>
                   in if FormValue r ''trigger_2fa'' = ''on''
                      then case verify2FA S http h2 userID (FormValue r ''totp_code'') of
                             Some err \<Rightarrow> (sendError 400 err, h2)
                           | None \<Rightarrow> submit_outcome S e r userID previousKYCState p h2
                      else submit_outcome S e r userID previousKYCState p h2)"

section \<open>Facts about the outcomes\<close>

lemma applyKYCOutcome_known_iff:
  "(\<exists>x. snd (applyKYCOutcome u outcome) = Inr x) \<longleftrightarrow> isKnownKYCState outcome"
  by (simp add: applyKYCOutcome_def isKnownKYCState_def)

lemma applyKYCOutcome_state:
  "snd (applyKYCOutcome u outcome) = Inr x \<Longrightarrow> fst (applyKYCOutcome u outcome) = u\<lparr>u_KYCState := outcome\<rparr>"
  by (auto simp: applyKYCOutcome_def split: if_splits)

lemma applyKYCOutcome_err:
  "snd (applyKYCOutcome u outcome) = Inl err \<Longrightarrow> fst (applyKYCOutcome u outcome) = u"
  by (auto simp: applyKYCOutcome_def split: if_splits)

text \<open>The provider reports a user as verified exactly when the state is accepted.\<close>

lemma sumsub_verified_iff:
  "sumsubVerificationStatusState u = (1, 1) \<longleftrightarrow> u_KYCState u = KYCStateAccepted"
  by (simp add: sumsubVerificationStatusState_def)

end
