(* ===== verification/Auth_Handlers.thy ===== *)
theory Auth_Handlers
  imports Handler_State Url
begin

text \<open>
  The endpoints of \<^verbatim>\<open>internal/handler/auth.go\<close>: tokens, managed users and the configuration of
  an organization, with the job that tests its callback.
\<close>

section \<open>Tokens\<close>

definition CreateToken :: "env \<Rightarrow> request \<Rightarrow> 's Handler \<Rightarrow> response \<times> 's Handler" where
  "CreateToken e r h =
     (let m0 = Header_Get r ''x-gatehub-managed-user-uuid'';
          managedUserUuid = (if m0 = [] then Header_Get r ''managedUserUuid'' else m0);
          token = (if managedUserUuid \<noteq> [] then ''iframe-token-'' @ uuid e 0
                   else ''mock-access-token-'' @ TestUser1ID);
          h1 = (if managedUserUuid \<noteq> []
                then h\<lparr>h_tokens := mput token managedUserUuid (h_tokens h)\<rparr> else h)
      in (sendJSON 200 (TokenResponse_json
            \<lparr>tr_AccessToken = token, tr_Token = token, tr_TokenType = ''Bearer'',
             tr_ExpiresIn = 3600\<rparr>), h1))"

section \<open>Managed users\<close>

definition new_managed_user :: "string \<Rightarrow> string \<Rightarrow> User" where
  "new_managed_user uid email =
     zero_User\<lparr>u_ID := uid, u_Email := email, u_Activated := True, u_Managed := True,
               u_Role := ''user'', u_Features := [''wallet''], u_KYCState := [], u_RiskLevel := []\<rparr>"

definition CreateManagedUser ::
  "'s Storage \<Rightarrow> env \<Rightarrow> CreateManagedUserRequest option \<Rightarrow> 's Handler \<Rightarrow> response \<times> 's Handler" where
  "CreateManagedUser S e body h =
     (case body of
        None \<Rightarrow> (sendError 400 ''Invalid request body'', h)
      | Some req \<Rightarrow>
          if cmu_Email req = [] then (sendError 400 ''Email is required'', h)
          else
            let (existing, st1) = s_GetUserByEmail S (cmu_Email req) (h_store h);
                h1 = h\<lparr>h_store := st1\<rparr>
            in case existing of
                 Inr p \<Rightarrow> (sendJSON 200 (User_json (user_of st1 p)), h1)
               | Inl _ \<Rightarrow>
                   let (p, st2) = alloc_user (new_managed_user (uuid e 0) (cmu_Email req)) st1;
                       (err, st3) = s_CreateUser S p (uuid e 1) (time_now e 0) st2;
                       h3 = h1\<lparr>h_store := st3\<rparr>
                   in if err \<noteq> None then (sendError 500 ''Failed to create user'', h3)
                      else (sendJSON 201 (User_json (user_of st3 p)), h3))"

definition managed_user_json :: "User \<Rightarrow> json" where
  "managed_user_json u = JObj [(''user'', User_json u)]"

definition GetManagedUser :: "'s Storage \<Rightarrow> request \<Rightarrow> 's Handler \<Rightarrow> response \<times> 's Handler" where
  "GetManagedUser S r h =
     (let email = Query_Get r ''email'' in
      if email = [] then (sendError 400 ''Email parameter is required'', h)
      else
        let (u, st1) = s_GetUserByEmail S email (h_store h); h1 = h\<lparr>h_store := st1\<rparr>
        in case u of
             Inl _ \<Rightarrow> (sendError 404 ''User not found'', h1)
           | Inr p \<Rightarrow> (sendJSON 200 (managed_user_json (user_of st1 p)), h1))"

definition UpdateManagedUserEmail ::
  "'s Storage \<Rightarrow> UpdateEmailRequest option \<Rightarrow> 's Handler \<Rightarrow> response \<times> 's Handler" where
  "UpdateManagedUserEmail S body h =
     (case body of
        None \<Rightarrow> (sendError 400 ''Invalid request body'', h)
      | Some req \<Rightarrow>
          if uer_Email req = [] \<or> uer_NewEmail req = []
          then (sendError 400 ''Both email and new_email are required'', h)
          else
            let (u, st1) = s_GetUserByEmail S (uer_Email req) (h_store h); h1 = h\<lparr>h_store := st1\<rparr>
            in case u of
                 Inl _ \<Rightarrow> (sendError 404 ''User not found'', h1)
               | Inr p \<Rightarrow>
                   let (err, st2) = s_UpdateUser S p
                          (set_user p ((user_of st1 p)\<lparr>u_Email := uer_NewEmail req\<rparr>) st1);
                       h2 = h1\<lparr>h_store := st2\<rparr>
                   in if err \<noteq> None then (sendError 500 ''Failed to update user'', h2)
                      else (sendJSON 200 (managed_user_json (user_of st2 p)), h2))"

section \<open>Organizations\<close>

definition enqueue2FACallbackTestJob ::
  "'s Storage \<Rightarrow> env \<Rightarrow> string \<Rightarrow> int \<Rightarrow> 's Handler \<Rightarrow> 's Handler" where
  "enqueue2FACallbackTestJob S e orgID offsetDelaySeconds h =
     send_async S (uuid e 0) (time_now e 1) ''internal.2fa_callback_test'' TestUser1ID
       [(''organization_id'', JStr orgID), (''test_user_id'', JStr TestUser1ID)]
       (f64_of_rat (of_int offsetDelaySeconds)) h"

text \<open>The layout \<^verbatim>\<open>2006-01-02 15:04:05.999999\<close>.\<close>

definition format_micro :: "time \<Rightarrow> string" where
  "format_micro t =
     (let us = t mod 1000000000 div 1000
      in format_date t @ '' '' @ format_clock t @
         (if us = 0 then [] else ''.'' @ trim_right (\<lambda>c. c = CHR ''0'') (pad 6 us)))"

definition UpdateOrganizationConfiguration ::
  "'s Storage \<Rightarrow> env \<Rightarrow> request \<Rightarrow> UpdateOrganizationConfigurationRequest option \<Rightarrow> 's Handler \<Rightarrow>
     response \<times> 's Handler" where
  "UpdateOrganizationConfiguration S e r body h =
     (let orgID = URLParam r ''organizationID'' in
      if orgID = [] then (sendError 400 ''organization ID is required'', h)
      else case body of
        None \<Rightarrow> (sendError 400 ''invalid request body'', h)
      | Some req \<Rightarrow>
          (case url_Parse (uoq_APIBaseURL req) of
             None \<Rightarrow> (sendError 400 ''invalid API base URL'', h)
           | Some (scheme, host) \<Rightarrow>
               if host = [] then (sendError 400 ''invalid API base URL'', h)
               else if scheme \<noteq> ''https'' \<and> scheme \<noteq> ''http''
               then (sendError 400 ''API base URL must use HTTPS'', h)
               else if uoq_TwoFAType req \<noteq> ''sms'' \<and> uoq_TwoFAType req \<noteq> ''totp''
               then (sendError 400 (''2FA type must be '' @ [CHR 0x27] @ ''sms'' @ [CHR 0x27] @
                       '' or '' @ [CHR 0x27] @ ''totp'' @ [CHR 0x27]), h)
               else case s_GetOrganization S orgID (h_store h) of
                 Inl _ \<Rightarrow> (sendError 404 ''organization not found'', h)
               | Inr org0 \<Rightarrow>
                   let org = org0\<lparr>org_APIBaseURL := trim_right (\<lambda>c. c = CHR ''/'') (uoq_APIBaseURL req),
                                  org_TwoFAType := uoq_TwoFAType req\<rparr>;
                       (res, st1) = s_UpdateOrganization S org (time_now e 0) (h_store h);
                       h1 = h\<lparr>h_store := st1\<rparr>
                   in case res of
                        Inl _ \<Rightarrow> (sendError 500 ''failed to update organization'', h1)
                      | Inr org1 \<Rightarrow>
                          (sendJSON 200 (UpdateOrganizationConfigurationResponse_json
                             \<lparr>uor_ID = org_ID org1, uor_APIBaseURL = org_APIBaseURL org1,
                              uor_TwoFAType = org_TwoFAType org1,
                              uor_CreatedAt = format_micro (org_CreatedAt org1),
                              uor_UpdatedAt = format_micro (org_UpdatedAt org1)\<rparr>),
                           enqueue2FACallbackTestJob S e orgID 3 h1)))"

end
