(* ===== verification/Account_Properties.thy ===== *)
theory Account_Properties
  imports Fee_Endpoints Identity Auth_Handlers Demo_State
begin

text \<open>
  The properties of authentication, tokens, managed users, KYC and fees, each with a witness on
  the concrete state.
\<close>

definition plain_request :: "(string \<times> string) list \<Rightarrow> (string \<times> string) list \<Rightarrow> request" where
  "plain_request header params =
     \<lparr>r_Method = ''POST'', r_Path = ''/core/v1/transactions'', r_RawQuery = [], r_Host = ''localhost'',
      r_TLS = False, r_header = header, r_query = [], r_params = params, r_form = []\<rparr>"

lemma plain_request_simps [simp]:
  "URLParam (plain_request hs ps) k = mstr ps k" "Query_Get (plain_request hs ps) k = []"
  "Header_Get (plain_request hs ps) k = mstr hs (ToLower k)" "r_Method (plain_request hs ps) = ''POST''"
  by (simp_all add: plain_request_def URLParam_def Query_Get_def Header_Get_def mstr_def)

lemma lower_names:
  "ToLower ''x-gatehub-app-id'' = ''x-gatehub-app-id''"
  "ToLower ''x-gatehub-timestamp'' = ''x-gatehub-timestamp''"
  "ToLower ''x-gatehub-signature'' = ''x-gatehub-signature''"
  "ToLower ''x-gatehub-managed-user-uuid'' = ''x-gatehub-managed-user-uuid''"
  "ToLower ''X-Forwarded-Proto'' = ''x-forwarded-proto''"
  "ToLower ''X-Forwarded-Host'' = ''x-forwarded-host''"
  "ToLower ''Authorization'' = ''authorization''"
  by code_simp+

section \<open>Authentication\<close>

text \<open>
  C17: outside the public endpoints a request reaches the API exactly when it names a known
  application and carries the signature of its own timestamp, method, URL and body under that
  application's secret.
\<close>

theorem middleware_admits_only_signed:
  assumes "r_Path r \<notin> set PublicEndpoints"
  shows "Middleware creds r body = Pass \<longleftrightarrow>
    (\<exists>secret b. body = Some b \<and> mget creds (Header_Get r ''x-gatehub-app-id'') = Some secret \<and>
       Header_Get r ''x-gatehub-app-id'' \<noteq> [] \<and> Header_Get r ''x-gatehub-timestamp'' \<noteq> [] \<and>
       Header_Get r ''x-gatehub-signature'' =
         GenerateSignature (Header_Get r ''x-gatehub-timestamp'') (r_Method r) (reconstructURL r) b secret)"
  by (rule Middleware_Pass_iff) (rule assms)

theorem middleware_admits_only_signed_witness:
  "Middleware [(''app'', ''secret'')] (plain_request [(''x-gatehub-app-id'', ''other'')] []) (Some ''{}'') \<noteq> Pass"
proof -
  have "r_Path (plain_request [(''x-gatehub-app-id'', ''other'')] []) \<notin> set PublicEndpoints"
    by (simp add: plain_request_def PublicEndpoints_def)
  from middleware_admits_only_signed [OF this] show ?thesis
    by (simp add: lower_names [simplified] mstr_def)
qed

text \<open>
  C18: a request that \<open>SignRequest\<close> signs with the secret of its application passes the
  middleware of a server that receives it under the URL it was sent to.
\<close>

theorem signed_request_accepted:
  assumes "out1 = SignRequest now secret body out" and "mget creds ''mockgatehub'' = Some secret"
    and "r_Method r = o_Method out1" and "r_header r = o_header out1"
    and "reconstructURL r = buildOutgoingURL out"
  shows "Middleware creds r (Some body) = Pass"
proof (cases "r_Path r \<in> set PublicEndpoints")
  case True
  then show ?thesis by (simp add: Middleware_def)
next
  case False
  let ?t = "int_str (UnixMilli now)"
  have hs: "Header_Get r ''x-gatehub-app-id'' = ''mockgatehub''" "Header_Get r ''x-gatehub-timestamp'' = ?t"
    "Header_Get r ''x-gatehub-signature'' = GenerateSignature ?t (o_Method out) (buildOutgoingURL out) body secret"
    unfolding Header_Get_def lower_names using assms(1,4) by (simp_all add: SignRequest_def Let_def mstr_def)
  have "?t \<noteq> []" by (simp add: int_str_def)
  moreover have "r_Method r = o_Method out" using assms(1,3) by (simp add: SignRequest_def Let_def)
  ultimately show ?thesis
    unfolding Middleware_Pass_iff [OF False] hs using assms(2,5) by simp
qed

theorem signed_request_accepted_witness:
  "\<exists>r. r_Path r = ''/core/v1/transactions'' \<and> Middleware [(''mockgatehub'', ''s3cret'')] r (Some ''{}'') = Pass"
proof -
  let ?out = "\<lparr>o_Method = ''POST'', o_Scheme = ''http'', o_URLHost = ''localhost'', o_Host = [],
     o_Path = ''/core/v1/transactions'', o_RawQuery = [], o_header = []\<rparr>"
  let ?r = "plain_request (o_header (SignRequest 0 ''s3cret'' ''{}'' ?out)) []"
  have "Header_Get ?r ''X-Forwarded-Proto'' = []" "Header_Get ?r ''X-Forwarded-Host'' = []"
    unfolding plain_request_simps lower_names by (simp_all add: SignRequest_def Let_def mstr_def)
  then have "reconstructURL ?r = buildOutgoingURL ?out"
    by (simp add: reconstructURL_def buildOutgoingURL_def Let_def plain_request_def)
  then have "Middleware [(''mockgatehub'', ''s3cret'')] ?r (Some ''{}'') = Pass"
    by (intro signed_request_accepted [OF HOL.refl])
      (simp_all add: plain_request_def SignRequest_def Let_def)
  then show ?thesis by (intro exI [of _ ?r]) (simp add: plain_request_def)
qed

text \<open>
  The signature does not pin the whole body down: separators at its end are trimmed away
  before it is signed, so a request is admitted with a bar appended to its body exactly when it
  is admitted without.
\<close>

theorem signature_ignores_trailing_bar:
  "Middleware creds r (Some (b @ ''|'')) = Middleware creds r (Some b)"
  by (simp add: Middleware_def GenerateSignature_def signed_message_bar Let_def split: option.split)

text \<open>
  The token that is handed out for a managed user stands for that user from then on, and no
  other token changes its meaning.
\<close>

theorem token_identifies_user:
  assumes "Header_Get r ''x-gatehub-managed-user-uuid'' = u" and "u \<noteq> []"
    and "CreateToken e r h = (resp, h')"
  shows "extractUserFromBearer h' (extractBearerFromAuthHeader (''Bearer iframe-token-'' @ uuid e 0)) = u \<and>
    rs_body resp = Json (TokenResponse_json \<lparr>tr_AccessToken = ''iframe-token-'' @ uuid e 0,
      tr_Token = ''iframe-token-'' @ uuid e 0, tr_TokenType = ''Bearer'', tr_ExpiresIn = 3600\<rparr>) \<and>
    (\<forall>t. t \<noteq> ''iframe-token-'' @ uuid e 0 \<longrightarrow> extractUserFromBearer h' t = extractUserFromBearer h t)"
proof -
  have b: "extractBearerFromAuthHeader (''Bearer iframe-token-'' @ uuid e 0) = ''iframe-token-'' @ uuid e 0"
    using extract_roundtrip [of "''iframe-token-'' @ uuid e 0"] by simp
  have m: "marshals (TokenResponse_json x)" for x by (simp add: TokenResponse_json_def)
  show ?thesis
    unfolding b using assms
    by (auto simp: CreateToken_def Let_def extractUserFromBearer_def mstr_def m)
qed

theorem token_identifies_user_witness:
  "\<exists>resp h'. CreateToken demo_env (plain_request [(''x-gatehub-managed-user-uuid'', ''alice'')] []) demo_handler = (resp, h') \<and>
     extractUserFromBearer h' (extractBearerFromAuthHeader ''Bearer iframe-token-i'') = ''alice''"
proof -
  let ?r = "plain_request [(''x-gatehub-managed-user-uuid'', ''alice'')] []"
  obtain resp h' where C: "CreateToken demo_env ?r demo_handler = (resp, h')" by fastforce
  have "Header_Get ?r ''x-gatehub-managed-user-uuid'' = ''alice''"
    unfolding plain_request_simps lower_names by (simp add: mstr_def)
  from token_identifies_user [OF this _ C] C show ?thesis by simp
qed

section \<open>The second factor\<close>

text \<open>
  C20: a payment that asks for the second factor moves nothing unless the organization's endpoint
  confirms it: with an integrator that never answers a verification with success, the request
  fails and neither the store nor the token table nor the tasks change.
\<close>

theorem no_payment_without_second_factor:
  assumes "\<And>q reply. http q = Inr reply \<Longrightarrow> hr_success reply \<noteq> Some True"
    and "trq_TriggerSCA req" and "r_Method r \<noteq> ''OPTIONS''"
    and "TransactionCompleteHandler S http e ord r req h = (resp, h')"
  shows "h' = h \<and> rs_status resp = 400"
proof -
  obtain m where "verify2FA S http h (extractUserFromBearer h (completion_bearer r)) (trq_TOTPCode req) = Some m"
    using assms(1) verify2FA_None_iff by blast
  then show ?thesis
    using assms(2-4) by (auto simp: TransactionCompleteHandler_def Let_def split: if_splits option.splits)
qed

theorem no_payment_without_second_factor_witness:
  "\<exists>resp. TransactionCompleteHandler memory_storage
       (\<lambda>_. Inr \<lparr>hr_status = 200, hr_Status = ''200 OK'', hr_success = Some False\<rparr>) demo_env id
       (plain_request [(''authorization'', ''Bearer tok'')] [])
       \<lparr>trq_Amount = ''40.00'', trq_Currency = ''USD'', trq_TriggerSCA = True, trq_TOTPCode = ''123456''\<rparr>
       demo_handler = (resp, demo_handler) \<and> rs_status resp = 400"
proof -
  let ?http = "\<lambda>_. Inr \<lparr>hr_status = 200, hr_Status = ''200 OK'', hr_success = Some False\<rparr> :: http_error + http_reply"
  let ?r = "plain_request [(''authorization'', ''Bearer tok'')] []"
  let ?req = "\<lparr>trq_Amount = ''40.00'', trq_Currency = ''USD'', trq_TriggerSCA = True, trq_TOTPCode = ''123456''\<rparr>"
  obtain resp h' where T: "TransactionCompleteHandler memory_storage ?http demo_env id ?r ?req demo_handler = (resp, h')"
    by fastforce
  have "h' = demo_handler \<and> rs_status resp = 400"
    by (rule no_payment_without_second_factor [OF _ _ _ T]) auto
  with T show ?thesis by auto
qed

section \<open>Managed users and organizations\<close>

text \<open>
  C21: creating a managed user is idempotent: after a creation that succeeded, a second one with
  the same email address gives the same user back and changes nothing.
\<close>

theorem create_managed_user_idempotent:
  assumes "CreateManagedUser memory_storage e (Some req) h = (r1, h1)" and "rs_status r1 \<in> {200, 201}"
    and "CreateManagedUser memory_storage e2 (Some req) h1 = (r2, h2)"
  shows "h2 = h1 \<and> rs_status r2 = 200 \<and> rs_body r2 = rs_body r1"
proof -
  have m: "marshals (User_json u)" for u by (simp add: User_json_def jslice_def list_all_iff)
  show ?thesis
  proof (cases "mget (m_usersByEmail (db (h_store h))) (cmu_Email req)")
    case (Some p)
    then show ?thesis
      using assms by (auto simp: CreateManagedUser_def mem_GetUserByEmail_def m split: if_splits)
  next
    case None
    have ne: "cmu_Email req \<noteq> []" using assms(1,2) by (auto simp: CreateManagedUser_def)
    define u where "u = new_managed_user (uuid e 0) (cmu_Email req)"
    have u: "u_Email u = cmu_Email req" by (simp add: u_def new_managed_user_def)
    obtain p st2 where a: "alloc_user u (h_store h) = (p, st2)" by fastforce
    obtain er st3 where c: "mem_CreateUser p (uuid e 1) (time_now e 0) st2 = (er, st3)" by fastforce
    have run: "(r1, h1) = (if er \<noteq> None then (sendError 500 ''Failed to create user'', h\<lparr>h_store := st3\<rparr>)
        else (sendJSON 201 (User_json (user_of st3 p)), h\<lparr>h_store := st3\<rparr>))"
      using assms(1) ne None by (simp add: CreateManagedUser_def mem_GetUserByEmail_def Let_def u_def [symmetric] a c [simplified])
    with assms(2) have er: "er = None" by (auto split: if_splits)
    have "mget (m_usersByEmail (db st3)) (cmu_Email req) = Some p"
      using c er a u by (auto simp: mem_CreateUser_def alloc_user_def Let_def split: if_splits)
    with run er ne assms(3) show ?thesis
      by (auto simp: CreateManagedUser_def mem_GetUserByEmail_def m)
  qed
qed

definition demo_email :: "string \<Rightarrow> CreateManagedUserRequest" where
  "demo_email email = \<lparr>cmu_Email = email\<rparr>"

theorem create_managed_user_idempotent_witness:
  "\<exists>r1 h1 r2. CreateManagedUser memory_storage demo_env (Some (demo_email ''bob'')) demo_handler = (r1, h1) \<and>
     rs_status r1 = 201 \<and>
     CreateManagedUser memory_storage demo_env (Some (demo_email ''bob'')) h1 = (r2, h1) \<and> rs_status r2 = 200"
proof -
  obtain r1 h1 where C: "CreateManagedUser memory_storage demo_env (Some (demo_email ''bob'')) demo_handler = (r1, h1)"
    by fastforce
  obtain r2 h2 where D: "CreateManagedUser memory_storage demo_env (Some (demo_email ''bob'')) h1 = (r2, h2)"
    by fastforce
  have m: "marshals (User_json u)" for u by (simp add: User_json_def jslice_def list_all_iff)
  have s: "rs_status r1 = 201"
    using arg_cong [OF C, of fst]
    by (auto simp: CreateManagedUser_def demo_email_def demo_defs mem_GetUserByEmail_def alloc_user_def
        new_managed_user_def mem_CreateUser_def Let_def m)
  show ?thesis using create_managed_user_idempotent [OF C _ D] s C D by auto
qed


text \<open>
  A configuration of an organization that is accepted was given an http or https URL with a
  host and one of the two known kinds of second factor; the store holds the URL without trailing
  slashes, ready to have a path appended. One that is refused changes no organization.
\<close>

theorem organization_update_checked:
  assumes "mem_inv (h_store h)" and "UpdateOrganizationConfiguration memory_storage e r body h = (resp, h')"
  shows "if rs_status resp = 200
    then \<exists>req org scheme host. body = Some req \<and> url_Parse (uoq_APIBaseURL req) = Some (scheme, host) \<and>
           host \<noteq> [] \<and> scheme \<in> {''http'', ''https''} \<and> uoq_TwoFAType req \<in> {''sms'', ''totp''} \<and>
           mget (m_organizations (db (h_store h'))) (URLParam r ''organizationID'') = Some org \<and>
           org_TwoFAType org = uoq_TwoFAType req \<and> has_prefix (uoq_APIBaseURL req) (org_APIBaseURL org) \<and>
           (org_APIBaseURL org = [] \<or> last (org_APIBaseURL org) \<noteq> CHR ''/'')
    else h' = h"
proof -
  have m: "marshals (UpdateOrganizationConfigurationResponse_json x)" for x
    by (simp add: UpdateOrganizationConfigurationResponse_json_def)
  have key: "mget (m_organizations (db (h_store h))) i = Some g \<Longrightarrow> org_ID g = i" for i g
    using assms(1) by (auto simp: mem_inv_def dest: keyedD)
  have pre: "has_prefix s (trim_right p s)" for p s
    using trim_right_prefix [of s p] by (metis has_prefix_append)
  have lst: "trim_right (\<lambda>c. c = CHR ''/'') s = [] \<or> last (trim_right (\<lambda>c. c = CHR ''/'') s) \<noteq> CHR ''/''" for s
    using last_trim_right by blast
  show ?thesis
    using assms(2) key pre lst
    by (auto simp: UpdateOrganizationConfiguration_def Let_def mem_GetOrganization_def
        mem_UpdateOrganization_def enqueue2FACallbackTestJob_def m split: option.splits if_splits)
qed

definition demo_org_handler :: "mem Handler" where
  "demo_org_handler = demo_handler\<lparr>h_store := snd (mem_CreateOrganization
     (zero_Organization\<lparr>org_ID := ''org''\<rparr>) (h_store demo_handler))\<rparr>"

theorem organization_update_checked_witness:
  "\<exists>resp h' org. UpdateOrganizationConfiguration memory_storage demo_env
       (plain_request [] [(''organizationID'', ''org'')])
       (Some \<lparr>uoq_APIBaseURL = ''https://api.example.org/'', uoq_TwoFAType = ''totp''\<rparr>) demo_org_handler = (resp, h') \<and>
     rs_status resp = 200 \<and> mget (m_organizations (db (h_store h'))) ''org'' = Some org \<and>
     (org_APIBaseURL org = [] \<or> last (org_APIBaseURL org) \<noteq> CHR ''/'')"
proof -
  let ?r = "plain_request [] [(''organizationID'', ''org'')]"
  let ?body = "Some \<lparr>uoq_APIBaseURL = ''https://api.example.org/'', uoq_TwoFAType = ''totp''\<rparr>"
  obtain resp h' where U: "UpdateOrganizationConfiguration memory_storage demo_env ?r ?body demo_org_handler = (resp, h')"
    by fastforce
  have p: "url_Parse ''https://api.example.org/'' = Some (''https'', ''api.example.org'')" by code_simp
  have i: "URLParam ?r ''organizationID'' = ''org''" by (simp add: mstr_def)
  have m: "marshals (UpdateOrganizationConfigurationResponse_json x)" for x
    by (simp add: UpdateOrganizationConfigurationResponse_json_def)
  have inv: "mem_inv (h_store demo_org_handler)"
    by (simp add: demo_org_handler_def mem_inv_CreateOrganization)
  have "rs_status resp = 200"
    using arg_cong [OF U, of fst] unfolding UpdateOrganizationConfiguration_def i
    by (auto simp: p Let_def demo_org_handler_def demo_defs mem_CreateOrganization_def mem_GetOrganization_def
        mem_UpdateOrganization_def zero_Organization_def m)
  with organization_update_checked [OF inv U, unfolded i] U show ?thesis by auto
qed

section \<open>KYC\<close>

lemma mem_UpdateUser_frame [simp]: "hp (snd (mem_UpdateUser p s)) = hp s"
  by (simp add: mem_UpdateUser_def Let_def split: option.splits)

lemma set_birth_keeps [simp]:
  "u_ID (set_birth dob u) = u_ID u" "u_KYCState (set_birth dob u) = u_KYCState u"
  by (auto simp: set_birth_def Let_def split: list.splits option.splits)

lemma form_profile_keeps [simp]:
  "u_ID (form_profile r u) = u_ID u" "u_KYCState (form_profile r u) = u_KYCState u"
  by (simp_all add: form_profile_def)

text \<open>Writing a user that the store knows back succeeds.\<close>

lemma write_known_user:
  assumes "mget (m_users (db (h_store h))) (u_ID (f (user_of (h_store h) p))) \<noteq> None"
    and "write_user memory_storage p f h = (err, h')"
  shows "err = None \<and> user_of (h_store h') p = f (user_of (h_store h) p) \<and> h_webhook h' = h_webhook h"
  using assms mem_UpdateUser_frame [of p "set_user p (f (user_of (h_store h) p)) (h_store h)"]
  by (auto simp: write_user_def Let_def mem_UpdateUser_def split: prod.splits option.splits)

lemma submit_outcome_correct:
  assumes "mget (m_users (db (h_store h))) (u_ID (user_of (h_store h) p)) \<noteq> None"
    and "submit_outcome memory_storage e r u prev p h = (resp, h')"
    and "outcome = (if FormValue r ''kyc_outcome'' = [] then KYCStateAccepted else FormValue r ''kyc_outcome'')"
  shows "if isKnownKYCState outcome
    then rs_status resp = 200 \<and> u_KYCState (user_of (h_store h') p) = outcome \<and>
      (prev = KYCStateResubmission \<and> outcome = KYCStateAccepted \<longrightarrow> h_webhook h' = h_webhook h)
    else rs_status resp = 400 \<and> u_KYCState (user_of (h_store h') p) = u_KYCState (user_of (h_store h) p)"
proof -
  define risk where "risk = (if FormValue r ''risk_level'' = [] then RiskLevelLow else FormValue r ''risk_level'')"
  define usr where "usr = (user_of (h_store h) p)\<lparr>u_RiskLevel := risk\<rparr>"
  obtain user res where A: "applyKYCOutcome usr outcome = (user, res)" by fastforce
  define h1 where "h1 = h\<lparr>h_store := set_user p user (h_store h)\<rparr>"
  have run: "(resp, h') = (case res of Inl err \<Rightarrow> (sendError 400 err, h1)
      | Inr (ev, msg) \<Rightarrow>
          let (err, h2) = write_user memory_storage p (\<lambda>u. u) h1
          in if err \<noteq> None then (sendError 500 ''Failed to update user'', h2)
             else let h3 = (if \<not> shouldSkipAcceptedWebhook prev ev
                            then send_async memory_storage (uuid e 0) (time_now e 0) ev u
                                   [(''message'', JStr msg)] (Fin 2) h2 else h2)
                  in (sendJSON 200 (JObj [(''message'', JStr msg),
                        (''status'', JStr (u_KYCState (user_of (h_store h3) p)))]), h3))"
    using assms(2) unfolding submit_outcome_def Let_def assms(3) [symmetric] risk_def [symmetric]
      usr_def [symmetric] A prod.case h1_def [symmetric] by simp
  show ?thesis
  proof (cases res)
    case (Inl err)
    then have "\<not> isKnownKYCState outcome" "user = usr"
      using A applyKYCOutcome_known_iff [of usr outcome] applyKYCOutcome_err [of usr outcome err] by auto
    then show ?thesis using run Inl by (simp add: h1_def usr_def)
  next
    case (Inr x)
    obtain ev msg where x: "x = (ev, msg)" by fastforce
    have known: "isKnownKYCState outcome" and user: "user = usr\<lparr>u_KYCState := outcome\<rparr>"
      using A Inr applyKYCOutcome_known_iff [of usr outcome] applyKYCOutcome_state [of usr outcome x] by auto
    have ev: "outcome = KYCStateAccepted \<longleftrightarrow> ev = WebhookEventKYCAccepted"
      using A Inr x by (auto simp: applyKYCOutcome_def WebhookEventKYCAccepted_def
          WebhookEventKYCRejected_def WebhookEventKYCActionRequired_def WebhookEventKYCResubmission_def
          split: if_splits)
    obtain err h2 where w: "write_user memory_storage p (\<lambda>u. u) h1 = (err, h2)" by fastforce
    have "err = None \<and> user_of (h_store h2) p = user \<and> h_webhook h2 = h_webhook h"
      using write_known_user [OF _ w] assms(1) by (simp add: h1_def user usr_def)
    then show ?thesis
      using run known user by (auto simp: Inr x w ev shouldSkipAcceptedWebhook_def Let_def)
  qed
qed

text \<open>
  C24: a KYC form decides the user's KYC state exactly when it is accepted: then the state is the
  outcome that the form names (accepted, if it names none), which is one of the four known ones,
  and an acceptance after a resubmission is not announced. A form that is refused, by the second
  factor or for an unknown outcome, leaves the KYC state as it was.
\<close>

theorem kyc_form_decides_state:
  assumes "mem_inv (h_store h)" and "mem_usr (h_store h) (form_user h r) = Some p"
    and "outcome = (if FormValue r ''kyc_outcome'' = [] then KYCStateAccepted else FormValue r ''kyc_outcome'')"
    and "KYCIframeSubmit memory_storage http e r form_err h = (resp, h')"
  shows "if rs_status resp = 200
    then isKnownKYCState outcome \<and> u_KYCState (user_of (h_store h') p) = outcome \<and>
      (u_KYCState (user_of (h_store h) p) = KYCStateResubmission \<and> outcome = KYCStateAccepted \<longrightarrow>
         h_webhook h' = h_webhook h)
    else u_KYCState (user_of (h_store h') p) = u_KYCState (user_of (h_store h) p)"
proof (cases "form_err = None \<and> form_user h r \<noteq> []")
  case False
  then show ?thesis using assms(4) by (cases form_err) (auto simp: KYCIframeSubmit_def Let_def)
next
  case True
  define h2 where "h2 = h\<lparr>h_store := set_user p (form_profile r (user_of (h_store h) p)) (h_store h)\<rparr>"
  have id: "u_ID (user_of (h_store h) p) = form_user h r"
    using assms(1,2) by (auto simp: mem_inv_def mem_usr_def dest: keyedD)
  have known: "mget (m_users (db (h_store h2))) (u_ID (user_of (h_store h2) p)) \<noteq> None"
    using assms(2) by (simp add: h2_def id mem_usr_def)
  have k: "u_KYCState (user_of (h_store h2) p) = u_KYCState (user_of (h_store h) p)" "h_webhook h2 = h_webhook h"
    by (simp_all add: h2_def)
  have "(resp, h') = (sendError 400 m, h2) \<or>
      submit_outcome memory_storage e r (form_user h r) (u_KYCState (user_of (h_store h) p)) p h2 = (resp, h')"
    if "m = the (verify2FA memory_storage http h2 (form_user h r) (FormValue r ''totp_code''))" for m
    using assms(2,4) True that
    by (auto simp: KYCIframeSubmit_def Let_def mem_GetUser_def mem_usr_def h2_def split: if_splits option.splits)
  then consider m where "resp = sendError 400 m" "h' = h2"
    | "submit_outcome memory_storage e r (form_user h r) (u_KYCState (user_of (h_store h) p)) p h2 = (resp, h')"
    by blast
  then show ?thesis
  proof cases
    case 1
    then show ?thesis using k by simp
  next
    case 2
    from submit_outcome_correct [OF known 2 assms(3)] k show ?thesis by (auto split: if_splits)
  qed
qed

definition kyc_form :: "(string \<times> string) list \<Rightarrow> request" where
  "kyc_form fs = (plain_request [] [])\<lparr>r_form := fs\<rparr>"

theorem kyc_form_decides_state_witness:
  "\<exists>resp h'. KYCIframeSubmit memory_storage (\<lambda>_. Inl (Unsendable ''unreachable'')) demo_env
       (kyc_form [(''user_id'', ''alice''), (''kyc_outcome'', ''rejected'')]) None demo_handler = (resp, h') \<and>
     rs_status resp = 200 \<and> u_KYCState (user_of (h_store h') 0) = ''rejected''"
proof -
  let ?r = "kyc_form [(''user_id'', ''alice''), (''kyc_outcome'', ''rejected'')]"
  obtain resp h' where K: "KYCIframeSubmit memory_storage (\<lambda>_. Inl (Unsendable ''unreachable'')) demo_env ?r None demo_handler = (resp, h')"
    by fastforce
  have f: "FormValue ?r ''kyc_outcome'' = ''rejected''" "form_user demo_handler ?r = ''alice''"
    "FormValue ?r ''trigger_2fa'' = []"
    by (simp_all add: kyc_form_def FormValue_def form_user_def mstr_def)
  have usr: "mem_usr (h_store demo_handler) (form_user demo_handler ?r) = Some 0"
    unfolding f(2) by (simp add: demo_defs mem_usr_def)
  have "submit_outcome memory_storage demo_env ?r ''alice'' (u_KYCState demo_user) 0
      (demo_handler\<lparr>h_store := set_user 0 (form_profile ?r demo_user) (h_store demo_handler)\<rparr>) = (resp, h')"
    using K by (simp add: KYCIframeSubmit_def f Let_def)
  from submit_outcome_correct [OF _ this HOL.refl] have "rs_status resp = 200"
    by (simp add: f demo_defs isKnownKYCState_def KYCStateRejected_def split: if_splits)
  with kyc_form_decides_state [OF demo_inv usr HOL.refl K] K show ?thesis by (simp add: f)
qed

end
