(* ===== verification/Store_Properties.thy ===== *)
theory Store_Properties
  imports Fee_Endpoints Memory_Laws Demo_State
begin

text \<open>
  Properties of the state that outlives a request: the in-memory store and the fee
  configuration, over every sequence of calls, and the listing of a user's transactions.
\<close>

section \<open>The store\<close>



text \<open>
  C27: the listing of a user's transactions is sorted with the newest first, holds only stored
  transactions, and misses none of the user's, in every store that calls of the interface built.
\<close>

theorem transactions_listed_newest_first:
  assumes "mem_reachable s" and "mem_ListTransactionsByUser u s = Inr ts"
  shows "sorted_wrt (\<lambda>a b. tx_CreatedAt a \<ge> tx_CreatedAt b) ts \<and>
    (\<forall>t\<in>set ts. mem_GetTransaction (tx_ID t) s = Inr t) \<and>
    (\<forall>i t. mem_GetTransaction i s = Inr t \<and> tx_UserID t = u \<longrightarrow> t \<in> set ts)"
proof -
  have k: "keyed tx_ID (m_transactions (db s))" and x: "tx_indexed (db s)"
    using mem_reachable_imp_inv [OF assms(1)] by (simp_all add: mem_inv_def)
  let ?found = "List.map_filter (mget (m_transactions (db s))) (mlist (m_transactionsByUser (db s)) u)"
  have ts: "ts = sort_key (\<lambda>t. - tx_CreatedAt t) ?found"
    using assms(2) by (simp add: mem_ListTransactionsByUser_def)
  have "sorted_wrt (\<lambda>a b. tx_CreatedAt a \<ge> tx_CreatedAt b) ts"
    using sorted_sort_key [of "\<lambda>t. - tx_CreatedAt t" ?found] by (simp add: ts sorted_map)
  moreover have "\<forall>t\<in>set ts. mem_GetTransaction (tx_ID t) s = Inr t"
    using keyedD [OF k] by (auto simp: ts List.map_filter_def mem_GetTransaction_def)
  moreover have "\<forall>i t. mem_GetTransaction i s = Inr t \<and> tx_UserID t = u \<longrightarrow> t \<in> set ts"
    using x by (force simp: ts List.map_filter_def mem_GetTransaction_def tx_indexed_def split: option.splits)
  ultimately show ?thesis by blast
qed

definition one_transaction :: "mem store" where
  "one_transaction = snd (mem_CreateTransaction (demo_withdrawal ''w1'' 0) ''x'' 0 empty_memory)"

theorem transactions_listed_newest_first_witness:
  "mem_ListTransactionsByUser ''alice'' one_transaction = Inr [demo_withdrawal ''w1'' 0] \<and>
   mem_GetTransaction ''w1'' one_transaction = Inr (demo_withdrawal ''w1'' 0)"
proof -
  have r: "mem_reachable one_transaction"
    unfolding one_transaction_def by (blast intro: mem_reachable.intros mem_step.CreateTransaction)
  have l: "mem_ListTransactionsByUser ''alice'' one_transaction = Inr [demo_withdrawal ''w1'' 0]"
    by (simp add: one_transaction_def mem_ListTransactionsByUser_def mem_CreateTransaction_def
        empty_memory_def demo_defs List.map_filter_simps mlist_def Let_def)
  have "tx_ID (demo_withdrawal ''w1'' 0) = ''w1''" by (simp add: demo_defs)
  with l transactions_listed_newest_first [OF r l] show ?thesis by auto
qed

section \<open>Fees\<close>

text \<open>
  The requests that change the fee configuration. A percentage that was decoded from JSON is
  a number.
\<close>

inductive fee_step :: "'s Handler \<Rightarrow> 's Handler \<Rightarrow> bool" where
  Global: "(\<And>req. body = Some req \<Longrightarrow> fr_DepositFeePercentage req \<noteq> NaN \<and> fr_WithdrawalFeePercentage req \<noteq> NaN)
     \<Longrightarrow> fee_step h (snd (SetFees r body h))"
| PerUser: "(\<And>req. body = Some req \<Longrightarrow>
       fu_DepositFeePercentage req \<noteq> Some NaN \<and> fu_WithdrawalFeePercentage req \<noteq> Some NaN)
     \<Longrightarrow> fee_step h (snd (SetUserFees r body h))"
| Clear: "fee_step h (snd (ClearUserFees r h))"

lemma fee_step_ok: "fee_step h h' \<Longrightarrow> fees_ok (h_fees h) \<Longrightarrow> fees_ok (h_fees h')"
  by (induction rule: fee_step.induct) (auto intro: fees_ok_SetFees fees_ok_SetUserFees fees_ok_ClearUserFees)

lemma fee_steps_ok: "fee_step\<^sup>*\<^sup>* h h' \<Longrightarrow> fees_ok (h_fees h) \<Longrightarrow> fees_ok (h_fees h')"
  by (induction rule: rtranclp_induct) (auto intro: fee_step_ok)



end
