(* ===== verification/Webhook_Delivery.thy ===== *)
theory Webhook_Delivery
  imports Two_Factor "HOL-Library.List_Lexorder" "HOL-Library.Char_ord"
begin

text \<open>
  Delivering webhooks: the stream operations of \<^verbatim>\<open>internal/webhook/queue.go\<close>, the HTTP side of
  \<^verbatim>\<open>internal/webhook/manager.go\<close> and the worker of \<^verbatim>\<open>internal/webhook/worker.go\<close>.

  Redis is a service outside the program: the commands that the queue issues are a record of
  functions on a state of the service, an argument of every definition here. The law the code
  relies on stand in \<open>stream_laws\<close>.
\<close>

section \<open>The stream service\<close>

text \<open>
  What \<^verbatim>\<open>XREADGROUP\<close> answers: nothing within the time it blocks (\<^verbatim>\<open>redis.Nil\<close>), an error, or
  messages.
\<close>

datatype read_reply = Nothing | ReadError go_error | Messages "XMessage list"

record 'r stream_ops =
  xs_XAdd :: "stream_fields \<Rightarrow> 'r \<Rightarrow> (go_error + string) \<times> 'r"
  xs_XTrimMaxLenApprox :: "int \<Rightarrow> 'r \<Rightarrow> 'r"
  xs_XReadGroup :: "string \<Rightarrow> nat \<Rightarrow> 'r \<Rightarrow> read_reply \<times> 'r"
  xs_XAck :: "string \<Rightarrow> 'r \<Rightarrow> go_error option \<times> 'r"
  xs_XAutoClaim :: "string \<Rightarrow> time \<Rightarrow> nat \<Rightarrow> 'r \<Rightarrow> (go_error + XMessage list) \<times> 'r"
  xs_XLen :: "'r \<Rightarrow> go_error + int"
  xs_XPending :: "'r \<Rightarrow> go_error + int"

definition maxStreamLen :: int where
  "maxStreamLen = 10000"

definition staleIdleDuration :: time where
  "staleIdleDuration = 2 * 60 * second"

text \<open>The queue and the stream it works on.\<close>

record 'r delivery =
  dl_stream :: 'r
  dl_queue :: Queue

definition addToStream :: "'r stream_ops \<Rightarrow> stream_fields \<Rightarrow> 'r \<Rightarrow> go_error option \<times> 'r" where
  "addToStream R flds r =
     (case xs_XAdd R flds r of
        (Inl err, r1) \<Rightarrow> (Some (''XADD failed: '' @ err), r1)
      | (Inr _, r1) \<Rightarrow> (None, xs_XTrimMaxLenApprox R maxStreamLen r1))"

text \<open>The timer of the \<open>n\<close>-th addition that is under way fires: a failure is only logged.\<close>

definition fire :: "'r stream_ops \<Rightarrow> nat \<Rightarrow> 'r delivery \<Rightarrow> 'r delivery" where
  "fire R n d =
     (let box = q_outbox (dl_queue d) in
      if n < length box
      then d\<lparr>dl_stream := snd (addToStream R (snd (box ! n)) (dl_stream d)),
             dl_queue := (dl_queue d)\<lparr>q_outbox := take n box @ drop (Suc n) box\<rparr>\<rparr>
      else d)"

text \<open>The messages that parse, in order; one that does not is acknowledged and skipped.\<close>

fun parse_messages :: "'r stream_ops \<Rightarrow> XMessage list \<Rightarrow> 'r \<Rightarrow> StreamJob list \<times> 'r" where
  "parse_messages R [] r = ([], r)"
| "parse_messages R (msg # msgs) r =
     (case parseStreamMessage msg of
        Inl _ \<Rightarrow> parse_messages R msgs (snd (xs_XAck R (x_ID msg) r))
      | Inr job \<Rightarrow> let (jobs, r1) = parse_messages R msgs r in (job # jobs, r1))"

definition ReadJobs ::
  "'r stream_ops \<Rightarrow> nat \<Rightarrow> 'r delivery \<Rightarrow> (go_error + StreamJob list) \<times> 'r delivery" where
  "ReadJobs R count d =
     (let (reply, r1) = xs_XReadGroup R (q_consumerName (dl_queue d)) count (dl_stream d) in
      case reply of
        Nothing \<Rightarrow> (Inr [], d\<lparr>dl_stream := r1\<rparr>)
      | ReadError err \<Rightarrow> (Inl (''XREADGROUP failed: '' @ err), d\<lparr>dl_stream := r1\<rparr>)
      | Messages msgs \<Rightarrow>
          let (jobs, r2) = parse_messages R msgs r1 in (Inr jobs, d\<lparr>dl_stream := r2\<rparr>))"

definition Ack :: "'r stream_ops \<Rightarrow> string \<Rightarrow> 'r delivery \<Rightarrow> go_error option \<times> 'r delivery" where
  "Ack R messageID d =
     (let (err, r1) = xs_XAck R messageID (dl_stream d) in (err, d\<lparr>dl_stream := r1\<rparr>))"

definition RetryLater ::
  "'r stream_ops \<Rightarrow> StreamJob \<Rightarrow> string \<Rightarrow> 'r delivery \<Rightarrow> go_error option \<times> 'r delivery" where
  "RetryLater R job errMsg d =
     (case Ack R (j_MessageID job) d of
        (Some err, d1) \<Rightarrow> (Some (''failed to ack message for retry: '' @ err), d1)
      | (None, d1) \<Rightarrow>
          (case retry_job job errMsg of
             Dropped \<Rightarrow> (None, d1)
           | Unserializable err \<Rightarrow> (Some err, d1)
           | Again delay flds \<Rightarrow>
               (None, d1\<lparr>dl_queue := (dl_queue d1)
                  \<lparr>q_outbox := q_outbox (dl_queue d1) @ [(delay, flds)]\<rparr>\<rparr>)))"

definition ClaimStale ::
  "'r stream_ops \<Rightarrow> time \<Rightarrow> 'r delivery \<Rightarrow> (go_error + StreamJob list) \<times> 'r delivery" where
  "ClaimStale R idleDuration d =
     (case xs_XAutoClaim R (q_consumerName (dl_queue d)) idleDuration batchSize (dl_stream d) of
        (Inl err, r1) \<Rightarrow> (Inl (''XAUTOCLAIM failed: '' @ err), d\<lparr>dl_stream := r1\<rparr>)
      | (Inr msgs, r1) \<Rightarrow>
          let (jobs, r2) = parse_messages R msgs r1 in (Inr jobs, d\<lparr>dl_stream := r2\<rparr>))"

definition GetStats :: "'r stream_ops \<Rightarrow> 'r delivery \<Rightarrow> go_error + (int \<times> int)" where
  "GetStats R d =
     (case xs_XLen R (dl_stream d) of
        Inl err \<Rightarrow> Inl (''XLEN failed: '' @ err)
      | Inr streamLen \<Rightarrow>
          (case xs_XPending R (dl_stream d) of
             Inl _ \<Rightarrow> Inr (streamLen, 0)
           | Inr pending \<Rightarrow> Inr (streamLen, pending)))"

definition StreamLength :: "'r stream_ops \<Rightarrow> 'r delivery \<Rightarrow> go_error + int" where
  "StreamLength R d = xs_XLen R (dl_stream d)"

definition PendingCount :: "'r stream_ops \<Rightarrow> 'r delivery \<Rightarrow> go_error + int" where
  "PendingCount R d = xs_XPending R (dl_stream d)"

section \<open>Sending a webhook\<close>

text \<open>\<^verbatim>\<open>json.Marshal\<close> lists the keys of a map in increasing order, at every depth.\<close>

fun sort_maps :: "json \<Rightarrow> json" where
  "sort_maps (JArr xs) = JArr (map sort_maps xs)"
| "sort_maps (JObj kvs) = JObj (sort_key fst (map (\<lambda>(k, v). (k, sort_maps v)) kvs))"
| "sort_maps v = v"

record WebhookPayload =
  wp_UUID :: string
  wp_Timestamp :: string
  wp_EventType :: string
  wp_UserUUID :: string
  wp_Environment :: string
  wp_Data :: "(string \<times> json) list"

definition WebhookPayload_json :: "WebhookPayload \<Rightarrow> json" where
  "WebhookPayload_json p =
     JObj [(''uuid'', JStr (wp_UUID p)), (''timestamp'', JStr (wp_Timestamp p)),
           (''event_type'', JStr (wp_EventType p)), (''user_uuid'', JStr (wp_UserUUID p)),
           (''environment'', JStr (wp_Environment p)), (''data'', sort_maps (JObj (wp_Data p)))]"

definition post2FACallback ::
  "http_client \<Rightarrow> Organization \<Rightarrow> string \<Rightarrow> json \<Rightarrow> go_error + http_reply" where
  "post2FACallback http org userID payload =
     (let endpoint = trim_right (\<lambda>c. c = CHR ''/'') (org_APIBaseURL org) @ ''/v1/users/managed/'' @
                       userID @ ''/2fa''
      in case http \<lparr>hq_Method = ''POST'', hq_URL = endpoint,
                    hq_header = [(''Content-Type'', ''application/json'')],
                    hq_body = json_text payload\<rparr> of
           Inl (Unbuildable err) \<Rightarrow> Inl (''failed to create 2FA request: '' @ err)
         | Inl (Unsendable err) \<Rightarrow> Inl err
         | Inr reply \<Rightarrow> Inr reply)"

definition verify_payload :: json where
  "verify_payload = JObj [(''action'', JStr ''VERIFY''), (''code'', JStr ''123456'')]"

definition test2FASMSWorkflow :: "http_client \<Rightarrow> Organization \<Rightarrow> string \<Rightarrow> go_error option" where
  "test2FASMSWorkflow http org userID =
     (case post2FACallback http org userID (JObj [(''action'', JStr ''INITIATE'')]) of
        Inl err \<Rightarrow> Some err
      | Inr _ \<Rightarrow>
          (case post2FACallback http org userID verify_payload of
             Inl err \<Rightarrow> Some err
           | Inr _ \<Rightarrow> None))"

definition test2FATOTPWorkflow :: "http_client \<Rightarrow> Organization \<Rightarrow> string \<Rightarrow> go_error option" where
  "test2FATOTPWorkflow http org userID =
     (case post2FACallback http org userID verify_payload of
        Inl err \<Rightarrow> Some err
      | Inr _ \<Rightarrow> None)"

definition execute2FACallbackTest ::
  "'s Storage \<Rightarrow> http_client \<Rightarrow> 's store \<Rightarrow> (string \<times> json) list \<Rightarrow> go_error option" where
  "execute2FACallbackTest S http st data =
     (let orgID = jstr_field ''organization_id'' data; testUserID = jstr_field ''test_user_id'' data in
      case s_GetOrganization S orgID st of
        Inl err \<Rightarrow> Some err
      | Inr org \<Rightarrow>
          if org_APIBaseURL org = [] then None
          else if org_TwoFAType org = ''sms'' then test2FASMSWorkflow http org testUserID
          else if org_TwoFAType org = ''totp'' then test2FATOTPWorkflow http org testUserID
          else Some (''unknown 2fa type: '' @ org_TwoFAType org))"

definition webhook_payload ::
  "string \<Rightarrow> time \<Rightarrow> string \<Rightarrow> string \<Rightarrow> (string \<times> json) list \<Rightarrow> json" where
  "webhook_payload uid now eventType userID data =
     WebhookPayload_json
       \<lparr>wp_UUID = uid, wp_Timestamp = int_str (UnixMilli now), wp_EventType = eventType,
        wp_UserUUID = userID, wp_Environment = ''sandbox'',
        wp_Data = normalizeVerificationPayload eventType data\<rparr>"

text \<open>The result is the error, \<open>None\<close> once the receiver took the webhook.\<close>

definition send ::
  "'s Storage \<Rightarrow> http_client \<Rightarrow> 's store \<Rightarrow> string \<Rightarrow> time \<Rightarrow> Manager \<Rightarrow>
     string \<Rightarrow> string \<Rightarrow> (string \<times> json) list \<Rightarrow> go_error option" where
  "send S http st uid now m eventType userID data =
     (if eventType = ''internal.2fa_callback_test'' then execute2FACallbackTest S http st data
      else if wm_webhookURL m = [] then Some ''no webhook URL available''
      else
        let payload = webhook_payload uid now eventType userID data; body = json_text payload in
        if \<not> marshals payload then Some ''failed to marshal payload''
        else
          case http \<lparr>hq_Method = ''POST'', hq_URL = wm_webhookURL m,
                     hq_header = [(''Content-Type'', ''application/json''),
                                  (''X-GH-Webhook-Signature'',
                                   GenerateGateHubWebhookSignature body (wm_webhookSecret m))],
                     hq_body = body\<rparr> of
            Inl (Unbuildable err) \<Rightarrow> Some (''failed to create request: '' @ err)
          | Inl (Unsendable err) \<Rightarrow> Some (''request failed: '' @ err)
          | Inr reply \<Rightarrow>
              if hr_status reply < 200 \<or> hr_status reply \<ge> 300
              then Some (''unexpected status code: '' @ int_str (hr_status reply) @ '' '' @ hr_Status reply)
              else None)"

section \<open>The worker\<close>

text \<open>
  The circumstances of one attempt: the answers of the network, the store at that moment, the
  fresh UUID and the clock.
\<close>

record 's attempt =
  at_http :: http_client
  at_store :: "'s store"
  at_uuid :: string
  at_now :: time

definition try_job :: "'s Storage \<Rightarrow> Manager \<Rightarrow> 's attempt \<Rightarrow> StreamJob \<Rightarrow> go_error option" where
  "try_job S m a job =
     send S (at_http a) (at_store a) (at_uuid a) (at_now a) m
       (j_EventType job) (j_UserID job) (j_Data job)"

definition processJob ::
  "'r stream_ops \<Rightarrow> 's Storage \<Rightarrow> Manager \<Rightarrow> 's attempt \<Rightarrow> StreamJob \<Rightarrow> 'r delivery \<Rightarrow> 'r delivery" where
  "processJob R S m a job d =
     (case try_job S m a job of
        Some err \<Rightarrow> snd (RetryLater R job err d)
      | None \<Rightarrow> snd (Ack R (j_MessageID job) d))"

fun process_all ::
  "'r stream_ops \<Rightarrow> 's Storage \<Rightarrow> Manager \<Rightarrow> (nat \<Rightarrow> 's attempt) \<Rightarrow> StreamJob list \<Rightarrow>
     'r delivery \<Rightarrow> 'r delivery" where
  "process_all R S m ats [] d = d"
| "process_all R S m ats (job # jobs) d =
     process_all R S m (\<lambda>i. ats (Suc i)) jobs (processJob R S m (ats 0) job d)"

definition readAndProcess ::
  "'r stream_ops \<Rightarrow> 's Storage \<Rightarrow> Manager \<Rightarrow> (nat \<Rightarrow> 's attempt) \<Rightarrow> 'r delivery \<Rightarrow> 'r delivery" where
  "readAndProcess R S m ats d =
     (case ReadJobs R batchSize d of
        (Inl _, d1) \<Rightarrow> d1
      | (Inr jobs, d1) \<Rightarrow> process_all R S m ats jobs d1)"

definition reclaimStale ::
  "'r stream_ops \<Rightarrow> 's Storage \<Rightarrow> Manager \<Rightarrow> (nat \<Rightarrow> 's attempt) \<Rightarrow> 'r delivery \<Rightarrow> 'r delivery" where
  "reclaimStale R S m ats d =
     (case ClaimStale R staleIdleDuration d of
        (Inl _, d1) \<Rightarrow> d1
      | (Inr jobs, d1) \<Rightarrow> process_all R S m ats jobs d1)"

text \<open>
  \<^verbatim>\<open>Start\<close> until the context is cancelled, which happens after \<open>n\<close> rounds; the timers that
  fire before each round are the list of their positions.
\<close>

fun fire_all :: "'r stream_ops \<Rightarrow> nat list \<Rightarrow> 'r delivery \<Rightarrow> 'r delivery" where
  "fire_all R [] d = d"
| "fire_all R (i # is) d = fire_all R is (fire R i d)"

fun rounds ::
  "'r stream_ops \<Rightarrow> 's Storage \<Rightarrow> Manager \<Rightarrow> (nat \<Rightarrow> nat list) \<Rightarrow> (nat \<Rightarrow> nat \<Rightarrow> 's attempt) \<Rightarrow> nat \<Rightarrow>
     'r delivery \<Rightarrow> 'r delivery" where
  "rounds R S m timers ats 0 d = d"
| "rounds R S m timers ats (Suc n) d =
     readAndProcess R S m (ats n) (fire_all R (timers n) (rounds R S m timers ats n d))"

definition Start ::
  "'r stream_ops \<Rightarrow> 's Storage \<Rightarrow> Manager \<Rightarrow> (nat \<Rightarrow> 's attempt) \<Rightarrow> (nat \<Rightarrow> nat list) \<Rightarrow>
     (nat \<Rightarrow> nat \<Rightarrow> 's attempt) \<Rightarrow> nat \<Rightarrow> 'r delivery \<Rightarrow> 'r delivery" where
  "Start R S m ats0 timers ats n d = rounds R S m timers ats n (reclaimStale R S m ats0 d)"

section \<open>What the stream promises\<close>

text \<open>
  The documented behaviour of a Redis stream with one consumer group while the service can be
  reached: \<open>entries\<close> are the messages not delivered yet, \<open>pending\<close> those delivered and not
  acknowledged.
\<close>

definition stream_laws ::
  "'r stream_ops \<Rightarrow> ('r \<Rightarrow> XMessage list) \<Rightarrow> ('r \<Rightarrow> XMessage list) \<Rightarrow> bool" where
  "stream_laws R entries pending \<longleftrightarrow>
     (\<forall>flds r. \<exists>i. fst (xs_XAdd R flds r) = Inr i \<and>
        entries (snd (xs_XAdd R flds r)) = entries r @ [stream_fields.extend flds \<lparr>x_ID = i\<rparr>] \<and>
        pending (snd (xs_XAdd R flds r)) = pending r) \<and>
     (\<forall>n r. int (length (entries r) + length (pending r)) \<le> n \<longrightarrow>
        entries (xs_XTrimMaxLenApprox R n r) = entries r \<and>
        pending (xs_XTrimMaxLenApprox R n r) = pending r) \<and>
     (\<forall>c n r. entries r = [] \<longrightarrow> fst (xs_XReadGroup R c n r) = Nothing \<and>
        entries (snd (xs_XReadGroup R c n r)) = [] \<and> pending (snd (xs_XReadGroup R c n r)) = pending r) \<and>
     (\<forall>c n r. entries r \<noteq> [] \<longrightarrow> fst (xs_XReadGroup R c n r) = Messages (take n (entries r)) \<and>
        entries (snd (xs_XReadGroup R c n r)) = drop n (entries r) \<and>
        pending (snd (xs_XReadGroup R c n r)) = pending r @ take n (entries r)) \<and>
     (\<forall>i r. fst (xs_XAck R i r) = None \<and> entries (snd (xs_XAck R i r)) = entries r \<and>
        pending (snd (xs_XAck R i r)) = filter (\<lambda>msg. x_ID msg \<noteq> i) (pending r))"

lemma stream_lawsD:
  assumes "stream_laws R entries pending"
  shows "\<exists>i. fst (xs_XAdd R flds r) = Inr i \<and>
        entries (snd (xs_XAdd R flds r)) = entries r @ [stream_fields.extend flds \<lparr>x_ID = i\<rparr>] \<and>
        pending (snd (xs_XAdd R flds r)) = pending r"
    and "int (length (entries r) + length (pending r)) \<le> n \<Longrightarrow>
        entries (xs_XTrimMaxLenApprox R n r) = entries r \<and>
        pending (xs_XTrimMaxLenApprox R n r) = pending r"
    and "entries r \<noteq> [] \<Longrightarrow> fst (xs_XReadGroup R c k r) = Messages (take k (entries r)) \<and>
        entries (snd (xs_XReadGroup R c k r)) = drop k (entries r) \<and>
        pending (snd (xs_XReadGroup R c k r)) = pending r @ take k (entries r)"
    and "fst (xs_XAck R i r) = None \<and> entries (snd (xs_XAck R i r)) = entries r \<and>
        pending (snd (xs_XAck R i r)) = filter (\<lambda>msg. x_ID msg \<noteq> i) (pending r)"
  using assms unfolding stream_laws_def by simp_all

text \<open>
  The delivery holds nothing but one job, waiting for its timer; the delivery holds nothing.
\<close>

definition waiting ::
  "('r \<Rightarrow> XMessage list) \<Rightarrow> ('r \<Rightarrow> XMessage list) \<Rightarrow> StreamJob \<Rightarrow> 'r delivery \<Rightarrow> bool" where
  "waiting entries pending job d \<longleftrightarrow>
     entries (dl_stream d) = [] \<and> pending (dl_stream d) = [] \<and>
     (\<exists>t flds. toStreamFields job = Inr flds \<and> q_outbox (dl_queue d) = [(t, flds)])"

definition quiet :: "('r \<Rightarrow> XMessage list) \<Rightarrow> ('r \<Rightarrow> XMessage list) \<Rightarrow> 'r delivery \<Rightarrow> bool" where
  "quiet entries pending d \<longleftrightarrow>
     entries (dl_stream d) = [] \<and> pending (dl_stream d) = [] \<and> q_outbox (dl_queue d) = []"

lemma waiting_not_quiet: "waiting entries pending job d \<Longrightarrow> \<not> quiet entries pending d"
  by (auto simp: waiting_def quiet_def)

text \<open>The job as a worker reads it, and as it stands in the stream after a failed attempt.\<close>

definition as_read :: "string \<Rightarrow> StreamJob \<Rightarrow> StreamJob" where
  "as_read mid job = job\<lparr>j_MessageID := mid, j_Data := decoded_map (j_Data job)\<rparr>"

definition deliverable :: "StreamJob \<Rightarrow> bool" where
  "deliverable job \<longleftrightarrow>
     j_JobID job \<noteq> [] \<and> j_EventType job \<noteq> [] \<and> 0 \<le> j_Attempts job \<and> j_Attempts job < maxAttempts \<and>
     marshals (JObj (j_Data job)) \<and> marshals (JObj (decoded_map (j_Data job)))"

lemma decoded_decoded [simp]: "decoded (decoded v) = decoded v"
  by (induction v rule: decoded.induct) auto

lemma decoded_map_idem [simp]: "decoded_map (decoded_map m) = decoded_map m"
  by (auto simp: decoded_map_def)

lemma parse_waiting:
  assumes "toStreamFields job = Inr flds" and "deliverable job"
  shows "parseStreamMessage (stream_fields.extend flds \<lparr>x_ID = i\<rparr>) = Inr (as_read i job)"
  using parse_toStreamFields [OF assms(1), of i] assms(2)
  by (simp add: deliverable_def as_read_def maxAttempts_def)

text \<open>One failed attempt: the job is dropped after the last one and waits again otherwise.\<close>

definition next_try :: "StreamJob \<Rightarrow> string \<Rightarrow> StreamJob" where
  "next_try job errMsg = job\<lparr>j_MessageID := [], j_Attempts := j_Attempts job + 1, j_LastError := errMsg\<rparr>"

lemma retry_job_cases:
  assumes "deliverable job"
  shows "retry_job (as_read i job) errMsg =
           (if j_Attempts job + 1 \<ge> maxAttempts then Dropped
            else Again retryDelay (projr (toStreamFields (next_try (as_read i job) errMsg))))"
  using assms
  by (auto simp: retry_job_def as_read_def next_try_def deliverable_def toStreamFields_def Let_def)

lemma deliverable_next:
  "deliverable job \<Longrightarrow> j_Attempts job + 1 < maxAttempts \<Longrightarrow> deliverable (next_try (as_read i job) e)"
  by (simp add: deliverable_def next_try_def as_read_def)

section \<open>One job through the worker\<close>

definition same_job :: "StreamJob \<Rightarrow> StreamJob \<Rightarrow> bool" where
  "same_job a b \<longleftrightarrow>
     j_JobID a = j_JobID b \<and> j_EventType a = j_EventType b \<and> j_UserID a = j_UserID b \<and>
     decoded_map (j_Data a) = decoded_map (j_Data b) \<and> j_CreatedAt a = j_CreatedAt b"

lemma same_job_next [simp]: "same_job (next_try (as_read i a) e) b = same_job a b"
  by (simp add: same_job_def next_try_def as_read_def)

lemma same_job_try:
  "same_job a b \<Longrightarrow> try_job S m x (as_read i a) = try_job S m x (as_read k b)"
  by (simp add: same_job_def try_job_def as_read_def)

lemma j_Attempts_next [simp]: "j_Attempts (next_try (as_read i a) e) = j_Attempts a + 1"
  by (simp add: next_try_def as_read_def)

lemma fire_waiting:
  assumes "stream_laws R entries pending" and "waiting entries pending job d"
  shows "\<exists>i flds. toStreamFields job = Inr flds \<and>
     entries (dl_stream (fire R 0 d)) = [stream_fields.extend flds \<lparr>x_ID = i\<rparr>] \<and>
     pending (dl_stream (fire R 0 d)) = [] \<and> q_outbox (dl_queue (fire R 0 d)) = []"
proof -
  obtain t flds where w: "toStreamFields job = Inr flds" "q_outbox (dl_queue d) = [(t, flds)]"
      "entries (dl_stream d) = []" "pending (dl_stream d) = []"
    using assms(2) unfolding waiting_def by blast
  obtain res r1 where a: "xs_XAdd R flds (dl_stream d) = (res, r1)" by fastforce
  obtain i where i: "res = Inr i" "entries r1 = [stream_fields.extend flds \<lparr>x_ID = i\<rparr>]" "pending r1 = []"
    using stream_lawsD(1) [OF assms(1), of flds "dl_stream d"] w by (auto simp: a)
  have "int (length (entries r1) + length (pending r1)) \<le> maxStreamLen"
    by (simp add: i maxStreamLen_def)
  from stream_lawsD(2) [OF assms(1) this] show ?thesis
    by (intro exI [of _ i] exI [of _ flds]) (simp add: fire_def w a i addToStream_def)
qed

lemma read_waiting:
  assumes "stream_laws R entries pending" and "waiting entries pending job d" and "deliverable job"
  shows "\<exists>i d1. ReadJobs R batchSize (fire R 0 d) = (Inr [as_read i job], d1) \<and>
     entries (dl_stream d1) = [] \<and> map x_ID (pending (dl_stream d1)) = [i] \<and>
     q_outbox (dl_queue d1) = []"
proof -
  obtain i flds where f: "toStreamFields job = Inr flds"
      "entries (dl_stream (fire R 0 d)) = [stream_fields.extend flds \<lparr>x_ID = i\<rparr>]"
      "pending (dl_stream (fire R 0 d)) = []" "q_outbox (dl_queue (fire R 0 d)) = []"
    using fire_waiting [OF assms(1,2)] by blast
  let ?r = "dl_stream (fire R 0 d)" and ?c = "q_consumerName (dl_queue (fire R 0 d))"
  obtain reply r1 where g: "xs_XReadGroup R ?c batchSize ?r = (reply, r1)" by fastforce
  have "reply = Messages [stream_fields.extend flds \<lparr>x_ID = i\<rparr>]" "entries r1 = []"
      "pending r1 = [stream_fields.extend flds \<lparr>x_ID = i\<rparr>]"
    using stream_lawsD(3) [OF assms(1), of ?r ?c batchSize, unfolded g f]
    by (simp_all add: batchSize_def)
  then show ?thesis
    by (intro exI [of _ i])
       (simp add: ReadJobs_def g f parse_waiting [OF f(1) assms(3), unfolded stream_fields.defs]
         stream_fields.defs)
qed

lemma ack_only:
  assumes "stream_laws R entries pending" and "map x_ID (pending (dl_stream d)) = [i]"
    and "entries (dl_stream d) = []"
  shows "\<exists>d1. Ack R i d = (None, d1) \<and> entries (dl_stream d1) = [] \<and> pending (dl_stream d1) = [] \<and>
     dl_queue d1 = dl_queue d"
proof -
  have "pending (snd (xs_XAck R i (dl_stream d))) = []"
    using stream_lawsD(4) [OF assms(1), of i "dl_stream d"] assms(2) by (auto simp: filter_empty_conv)
  moreover have "fst (xs_XAck R i (dl_stream d)) = None" "entries (snd (xs_XAck R i (dl_stream d))) = []"
    using stream_lawsD(4) [OF assms(1), of i "dl_stream d"] assms(3) by simp_all
  ultimately show ?thesis
    by (cases "xs_XAck R i (dl_stream d)") (simp add: Ack_def)
qed

text \<open>A round that takes the waiting job up.\<close>

lemma round_waiting:
  assumes "stream_laws R entries pending" and "waiting entries pending job d" and "deliverable job"
  shows "\<exists>i. case try_job S m (ats 0) (as_read i job) of
      None \<Rightarrow> quiet entries pending (readAndProcess R S m ats (fire_all R [0] d))
    | Some e \<Rightarrow>
        if j_Attempts job + 1 \<ge> maxAttempts
        then quiet entries pending (readAndProcess R S m ats (fire_all R [0] d))
        else waiting entries pending (next_try (as_read i job) e)
               (readAndProcess R S m ats (fire_all R [0] d))"
proof -
  obtain i d1 where r: "ReadJobs R batchSize (fire R 0 d) = (Inr [as_read i job], d1)"
      "entries (dl_stream d1) = []" "map x_ID (pending (dl_stream d1)) = [i]" "q_outbox (dl_queue d1) = []"
    using read_waiting [OF assms] by metis
  obtain d2 where a: "Ack R i d1 = (None, d2)" "entries (dl_stream d2) = []" "pending (dl_stream d2) = []"
      "dl_queue d2 = dl_queue d1"
    using ack_only [OF assms(1) r(3,2)] by blast
  have mid: "j_MessageID (as_read i job) = i" by (simp add: as_read_def)
  show ?thesis
  proof (rule exI [of _ i], cases "try_job S m (ats 0) (as_read i job)")
    case None
    then show "case try_job S m (ats 0) (as_read i job) of
      None \<Rightarrow> quiet entries pending (readAndProcess R S m ats (fire_all R [0] d))
    | Some e \<Rightarrow> if j_Attempts job + 1 \<ge> maxAttempts
        then quiet entries pending (readAndProcess R S m ats (fire_all R [0] d))
        else waiting entries pending (next_try (as_read i job) e)
               (readAndProcess R S m ats (fire_all R [0] d))"
      by (simp add: readAndProcess_def r processJob_def mid a quiet_def)
  next
    case (Some e)
    have "toStreamFields (next_try (as_read i job) e) = Inr (projr (toStreamFields (next_try (as_read i job) e)))"
      using assms(3) by (simp add: toStreamFields_def next_try_def as_read_def deliverable_def)
    with Some show "case try_job S m (ats 0) (as_read i job) of
      None \<Rightarrow> quiet entries pending (readAndProcess R S m ats (fire_all R [0] d))
    | Some e \<Rightarrow> if j_Attempts job + 1 \<ge> maxAttempts
        then quiet entries pending (readAndProcess R S m ats (fire_all R [0] d))
        else waiting entries pending (next_try (as_read i job) e)
               (readAndProcess R S m ats (fire_all R [0] d))"
      by (simp add: readAndProcess_def r processJob_def mid RetryLater_def a
          retry_job_cases [OF assms(3)] quiet_def waiting_def)
  qed
qed

lemma failing_rounds:
  assumes "stream_laws R entries pending" and "waiting entries pending job d" and "deliverable job"
    and "\<And>i. i < n \<Longrightarrow> try_job S m (ats i 0) (as_read [] job) \<noteq> None"
    and "j_Attempts job + int n < maxAttempts"
  shows "\<exists>job'. waiting entries pending job' (rounds R S m (\<lambda>_. [0]) ats n d) \<and> deliverable job' \<and>
     same_job job' job \<and> j_Attempts job' = j_Attempts job + int n"
  using assms(4,5)
proof (induction n)
  case 0
  with assms(2,3) show ?case by (auto simp: same_job_def)
next
  case (Suc n)
  then obtain job' where j: "waiting entries pending job' (rounds R S m (\<lambda>_. [0]) ats n d)"
      "deliverable job'" "same_job job' job" "j_Attempts job' = j_Attempts job + int n"
    by auto
  obtain i where i: "case try_job S m (ats n 0) (as_read i job') of
      None \<Rightarrow> quiet entries pending (rounds R S m (\<lambda>_. [0]) ats (Suc n) d)
    | Some e \<Rightarrow> if j_Attempts job' + 1 \<ge> maxAttempts
        then quiet entries pending (rounds R S m (\<lambda>_. [0]) ats (Suc n) d)
        else waiting entries pending (next_try (as_read i job') e) (rounds R S m (\<lambda>_. [0]) ats (Suc n) d)"
    using round_waiting [OF assms(1) j(1,2), of S m "ats n"] unfolding rounds.simps by blast
  obtain e where "try_job S m (ats n 0) (as_read i job') = Some e"
    using Suc.prems(1) [of n] same_job_try [OF j(3), of S m "ats n 0" i "[]"] by auto
  with i j Suc.prems(2) show ?case
    by (intro exI [of _ "next_try (as_read i job') e"]) (simp add: deliverable_next)
qed

lemma last_round:
  assumes "stream_laws R entries pending" and "waiting entries pending job' (rounds R S m (\<lambda>_. [0]) ats n d)"
    and "deliverable job'" and "same_job job' job"
    and "try_job S m (ats n 0) (as_read [] job) = None \<or> j_Attempts job' + 1 \<ge> maxAttempts"
  shows "quiet entries pending (rounds R S m (\<lambda>_. [0]) ats (Suc n) d)"
  using round_waiting [OF assms(1-3), of S m "ats n"] assms(5)
    same_job_try [OF assms(4), of S m "ats n 0" _ "[]"]
  by (auto split: option.splits)

section \<open>A job from its creation on\<close>

definition enqueued_job :: "string \<Rightarrow> time \<Rightarrow> string \<Rightarrow> string \<Rightarrow> (string \<times> json) list \<Rightarrow> StreamJob" where
  "enqueued_job jobID now eventType userID data =
     \<lparr>j_MessageID = [], j_JobID = jobID, j_EventType = eventType, j_UserID = userID,
      j_Data = data, j_Attempts = 0, j_CreatedAt = format_rfc3339nano now, j_LastError = []\<rparr>"

lemma j_Attempts_enqueued [simp]: "j_Attempts (enqueued_job i t e u d) = 0"
  by (simp add: enqueued_job_def)

lemma Enqueue_waiting:
  assumes "Enqueue jobID now eventType userID data off q = (Inr x, q')" and "q_outbox q = []"
    and "entries r = []" and "pending r = []"
  shows "waiting entries pending (enqueued_job jobID now eventType userID data)
           \<lparr>dl_stream = r, dl_queue = q'\<rparr>"
  using assms by (auto simp: Enqueue_def enqueued_job_def waiting_def Let_def split: sum.splits)

lemma try_enqueued:
  "try_job S m a (as_read i (enqueued_job jobID now eventType userID data)) =
     send S (at_http a) (at_store a) (at_uuid a) (at_now a) m eventType userID (decoded_map data)"
  by (simp add: try_job_def as_read_def enqueued_job_def)

lemma deliverable_enqueued:
  assumes "Enqueue jobID now eventType userID data off q = (Inr x, q')"
    and "jobID \<noteq> []" and "eventType \<noteq> []" and "marshals (JObj (decoded_map data))"
  shows "deliverable (enqueued_job jobID now eventType userID data)"
  using assms
  by (auto simp: deliverable_def enqueued_job_def maxAttempts_def Enqueue_def toStreamFields_def Let_def
      split: if_splits)

end
