(* ===== verification/Webhook_Properties.thy ===== *)
theory Webhook_Properties
  imports Webhook_Delivery Demo_State
begin

text \<open>
  The properties of webhook delivery, each with a witness on a small stream: a list of the
  messages not delivered yet, a list of the ones that wait for their acknowledgement, and the
  number of messages so far.
\<close>

section \<open>A concrete stream\<close>

type_synonym list_stream = "XMessage list \<times> XMessage list \<times> nat"

fun list_add :: "stream_fields \<Rightarrow> list_stream \<Rightarrow> (go_error + string) \<times> list_stream" where
  "list_add flds (es, ps, n) =
     (Inr (nat_str n), es @ [stream_fields.extend flds \<lparr>x_ID = nat_str n\<rparr>], ps, Suc n)"

fun list_read :: "string \<Rightarrow> nat \<Rightarrow> list_stream \<Rightarrow> read_reply \<times> list_stream" where
  "list_read c k (es, ps, n) =
     (if es = [] then (Nothing, es, ps, n)
      else (Messages (take k es), drop k es, ps @ take k es, n))"

fun list_ack :: "string \<Rightarrow> list_stream \<Rightarrow> go_error option \<times> list_stream" where
  "list_ack i (es, ps, n) = (None, es, filter (\<lambda>msg. x_ID msg \<noteq> i) ps, n)"

definition list_stream_ops :: "list_stream stream_ops" where
  "list_stream_ops =
     \<lparr>xs_XAdd = list_add, xs_XTrimMaxLenApprox = (\<lambda>_ r. r), xs_XReadGroup = list_read,
      xs_XAck = list_ack, xs_XAutoClaim = (\<lambda>_ _ k r. (Inr (take k (fst (snd r))), r)),
      xs_XLen = (\<lambda>r. Inr (int (length (fst r) + length (fst (snd r))))),
      xs_XPending = (\<lambda>r. Inr (int (length (fst (snd r)))))\<rparr>"

lemma list_stream_laws: "stream_laws list_stream_ops fst (fst \<circ> snd)"
  by (auto simp: stream_laws_def list_stream_ops_def)

definition demo_queue :: Queue where
  "demo_queue = NewQueue f0 ''q''"

definition demo_manager :: Manager where
  "demo_manager =
     \<lparr>wm_webhookURL = ''http://app/hook'', wm_webhookSecret = ''mock-secret'',
      wm_queue = Some demo_queue, wm_defaultOrganizationID = []\<rparr>"

text \<open>An attempt on a network that answers with the given status.\<close>

definition answering :: "int \<Rightarrow> mem attempt" where
  "answering status =
     \<lparr>at_http = (\<lambda>_. Inr \<lparr>hr_status = status, hr_Status = [], hr_success = None\<rparr>),
      at_store = demo_store, at_uuid = ''u'', at_now = 0\<rparr>"

definition demo_data :: "(string \<times> json) list" where
  "demo_data = [(''amount'', JStr ''10.00''), (''status'', JInt 1)]"

lemma demo_queue_empty [simp]: "q_outbox demo_queue = []"
  by (simp add: demo_queue_def NewQueue_def)

lemma send_answering:
  "(send memory_storage (at_http (answering status)) (at_store (answering status))
      (at_uuid (answering status)) (at_now (answering status)) demo_manager
      ''core.deposit.completed'' u (decoded_map demo_data) = None) \<longleftrightarrow> 200 \<le> status \<and> status < 300"
  by (simp add: send_def demo_manager_def answering_def webhook_payload_def
      WebhookPayload_json_def normalizeVerificationPayload_def is_verification_event_def
      decoded_map_def demo_data_def Let_def fl_numeral
      WebhookEventKYCAccepted_def WebhookEventKYCRejected_def WebhookEventKYCActionRequired_def
      WebhookEventKYCResubmission_def WebhookEventDocumentNoticeExpired_def
      WebhookEventDocumentNoticeWarning_def)

lemma demo_data_decodes: "marshals (JObj (decoded_map demo_data))"
  by (simp add: decoded_map_def demo_data_def fl_numeral)

definition demo_enqueued :: Queue where
  "demo_enqueued =
     snd (Enqueue ''j'' 0 ''core.deposit.completed'' ''alice'' demo_data f0 demo_queue)"

lemma demo_enqueue:
  "Enqueue ''j'' 0 ''core.deposit.completed'' ''alice'' demo_data f0 demo_queue = (Inr ''j'', demo_enqueued)"
  by (simp add: demo_enqueued_def Enqueue_def toStreamFields_def demo_data_def Let_def)

section \<open>Delivery\<close>





end
