(* ===== verification/Json_Parse.thy ===== *)
theory Json_Parse
  imports Json_Text
begin

text \<open>
  Reading JSON text, as \<^verbatim>\<open>json.Unmarshal\<close> does: the syntax tree of a text, with number literals
  as they are written, and the values that the printer of \<^verbatim>\<open>Json_Text\<close> writes read back. A
  string of the text is valid UTF-8.
\<close>

datatype jtree =
    TNull
  | TBool bool
  | TNum string
  | TStr string
  | TArr "jtree list"
  | TObj "(string \<times> jtree) list"

section \<open>Strings\<close>

text \<open>The UTF-8 encoding of a code point.\<close>

definition utf8 :: "nat \<Rightarrow> string" where
  "utf8 n =
     (if n < 128 then [byte n]
      else if n < 2048 then [byte (192 + n div 64), byte (128 + n mod 64)]
      else if n < 65536
      then [byte (224 + n div 4096), byte (128 + n div 64 mod 64), byte (128 + n mod 64)]
      else [byte (240 + n div 262144), byte (128 + n div 4096 mod 64),
            byte (128 + n div 64 mod 64), byte (128 + n mod 64)])"

definition unhex4 :: "char \<Rightarrow> char \<Rightarrow> char \<Rightarrow> char \<Rightarrow> nat option" where
  "unhex4 a b c d =
     (case (unhex_digit a, unhex_digit b, unhex_digit c, unhex_digit d) of
        (Some i, Some j, Some k, Some l) \<Rightarrow> Some (((i * 16 + j) * 16 + k) * 16 + l)
      | _ \<Rightarrow> None)"

definition simple_escape :: "char \<Rightarrow> char option" where
  "simple_escape e =
     (if e = CHR 0x22 \<or> e = CHR 0x5C \<or> e = CHR ''/'' then Some e
      else if e = CHR ''b'' then Some (CHR 0x08) else if e = CHR ''f'' then Some (CHR 0x0C)
      else if e = CHR ''n'' then Some (CHR 0x0A) else if e = CHR ''r'' then Some (CHR 0x0D)
      else if e = CHR ''t'' then Some (CHR 0x09) else None)"

text \<open>The extent of a string: up to the first quote that no backslash precedes.\<close>

fun scan_string :: "string \<Rightarrow> (string \<times> string) option" where
  "scan_string [] = None"
| "scan_string (c # cs) =
     (if c = CHR 0x22 then Some ([], cs)
      else if c = CHR 0x5C
      then (case cs of [] \<Rightarrow> None
            | d # ds \<Rightarrow> map_option (\<lambda>(s, r). (c # d # s, r)) (scan_string ds))
      else map_option (\<lambda>(s, r). (c # s, r)) (scan_string cs))"

text \<open>
  Its value. An escaped high surrogate joins with an escaped low surrogate after it; a surrogate
  alone stands for the replacement character.
\<close>

definition surrogate :: "nat \<Rightarrow> bool" where
  "surrogate n \<longleftrightarrow> 0xD800 \<le> n \<and> n < 0xE000"

fun unquote :: "string \<Rightarrow> string option" where
  "unquote [] = Some []"
| "unquote (c # cs) =
     (if c \<noteq> CHR 0x5C
      then if byte_val c < 32 then None else map_option ((#) c) (unquote cs)
      else
        (case cs of
           [] \<Rightarrow> None
         | e # ds \<Rightarrow>
             if e \<noteq> CHR ''u''
             then (case simple_escape e of None \<Rightarrow> None | Some x \<Rightarrow> map_option ((#) x) (unquote ds))
             else
               (case ds of
                  a # b # x # y # es \<Rightarrow>
                    (case unhex4 a b x y of
                       None \<Rightarrow> None
                     | Some n \<Rightarrow>
                         if \<not> surrogate n then map_option ((@) (utf8 n)) (unquote es)
                         else
                           (case es of
                              bs # u # a2 # b2 # x2 # y2 # fs \<Rightarrow>
                                (case (if bs = CHR 0x5C \<and> u = CHR ''u'' then unhex4 a2 b2 x2 y2 else None) of
                                   Some m \<Rightarrow>
                                     if n < 0xDC00 \<and> 0xDC00 \<le> m \<and> m < 0xE000
                                     then map_option ((@) (utf8 (0x10000 + (n - 0xD800) * 1024 + (m - 0xDC00))))
                                            (unquote fs)
                                     else map_option ((@) (utf8 0xFFFD)) (unquote es)
                                 | None \<Rightarrow> map_option ((@) (utf8 0xFFFD)) (unquote es))
                            | _ \<Rightarrow> map_option ((@) (utf8 0xFFFD)) (unquote es)))
                | _ \<Rightarrow> None)))"

definition pstring :: "string \<Rightarrow> (string \<times> string) option" where
  "pstring s =
     (case scan_string s of
        None \<Rightarrow> None
      | Some (raw, r) \<Rightarrow> map_option (\<lambda>v. (v, r)) (unquote raw))"

section \<open>Values\<close>

definition is_ws :: "char \<Rightarrow> bool" where
  "is_ws c \<longleftrightarrow> c \<in> {CHR 0x20, CHR 0x09, CHR 0x0A, CHR 0x0D}"

abbreviation skip_ws :: "string \<Rightarrow> string" where
  "skip_ws \<equiv> dropWhile is_ws"

text \<open>The optional parts of a number literal: the mark, an optional sign, at least one digit.\<close>

definition opt_part :: "(char \<Rightarrow> bool) \<Rightarrow> bool \<Rightarrow> string \<Rightarrow> (string \<times> string) option" where
  "opt_part mark with_sign s =
     (case s of
        [] \<Rightarrow> Some ([], s)
      | c # r \<Rightarrow>
          if \<not> mark c then Some ([], s)
          else
            let sg = (if with_sign \<and> (take 1 r = ''-'' \<or> take 1 r = ''+'') then take 1 r else []);
                r1 = drop (length sg) r; ds = takeWhile is_digit r1
            in if ds = [] then None else Some (c # sg @ ds, dropWhile is_digit r1))"

definition pnumber :: "string \<Rightarrow> (string \<times> string) option" where
  "pnumber s =
     (let sg = (if take 1 s = ''-'' then ''-'' else []); s1 = drop (length sg) s;
          ds = takeWhile is_digit s1; s2 = dropWhile is_digit s1
      in if ds = [] \<or> (take 1 ds = ''0'' \<and> length ds > 1) then None
         else
           (case opt_part (\<lambda>c. c = CHR ''.'') False s2 of
              None \<Rightarrow> None
            | Some (fr, s3) \<Rightarrow>
                (case opt_part (\<lambda>c. c = CHR ''e'' \<or> c = CHR ''E'') True s3 of
                   None \<Rightarrow> None
                 | Some (ex, s4) \<Rightarrow> Some (sg @ ds @ fr @ ex, s4))))"

text \<open>The first argument bounds the depth of the recursion.\<close>

fun pvalue :: "nat \<Rightarrow> string \<Rightarrow> (jtree \<times> string) option"
  and pelems :: "nat \<Rightarrow> string \<Rightarrow> (jtree list \<times> string) option"
  and pmembers :: "nat \<Rightarrow> string \<Rightarrow> ((string \<times> jtree) list \<times> string) option" where
  "pvalue 0 s = None"
| "pvalue (Suc n) s =
     (case skip_ws s of
        [] \<Rightarrow> None
      | c # cs \<Rightarrow>
          if c = CHR ''{''
          then if take 1 (skip_ws cs) = ''}'' then Some (TObj [], drop 1 (skip_ws cs))
               else map_option (\<lambda>(ms, r). (TObj ms, r)) (pmembers n cs)
          else if c = CHR ''[''
          then if take 1 (skip_ws cs) = '']'' then Some (TArr [], drop 1 (skip_ws cs))
               else map_option (\<lambda>(vs, r). (TArr vs, r)) (pelems n cs)
          else if c = CHR 0x22 then map_option (\<lambda>(v, r). (TStr v, r)) (pstring cs)
          else if has_prefix (c # cs) ''null'' then Some (TNull, drop 3 cs)
          else if has_prefix (c # cs) ''true'' then Some (TBool True, drop 3 cs)
          else if has_prefix (c # cs) ''false'' then Some (TBool False, drop 4 cs)
          else map_option (\<lambda>(l, r). (TNum l, r)) (pnumber (c # cs)))"
| "pelems 0 s = None"
| "pelems (Suc n) s =
     (case pvalue n s of
        None \<Rightarrow> None
      | Some (v, r) \<Rightarrow>
          (case skip_ws r of
             [] \<Rightarrow> None
           | c # cs \<Rightarrow>
               if c = CHR '','' then map_option (\<lambda>(vs, q). (v # vs, q)) (pelems n cs)
               else if c = CHR '']'' then Some ([v], cs) else None))"
| "pmembers 0 s = None"
| "pmembers (Suc n) s =
     (case skip_ws s of
        [] \<Rightarrow> None
      | c # cs \<Rightarrow>
          if c \<noteq> CHR 0x22 then None
          else
            (case pstring cs of
               None \<Rightarrow> None
             | Some (k, r) \<Rightarrow>
                 (case skip_ws r of
                    [] \<Rightarrow> None
                  | d # ds \<Rightarrow>
                      if d \<noteq> CHR '':'' then None
                      else
                        (case pvalue n ds of
                           None \<Rightarrow> None
                         | Some (v, r2) \<Rightarrow>
                             (case skip_ws r2 of
                                [] \<Rightarrow> None
                              | e # es \<Rightarrow>
                                  if e = CHR '','' then map_option (\<lambda>(ms, q). ((k, v) # ms, q)) (pmembers n es)
                                  else if e = CHR ''}'' then Some ([(k, v)], es) else None)))))"

text \<open>A whole text: one value, with nothing but space around it.\<close>

definition json_parse :: "string \<Rightarrow> jtree option" where
  "json_parse s =
     (case pvalue (Suc (length s)) s of
        None \<Rightarrow> None
      | Some (v, r) \<Rightarrow> if skip_ws r = [] then Some v else None)"

section \<open>Reading back what was written\<close>

lemma control_chars:
  "byte_val c = 8 \<longleftrightarrow> c = CHR 0x08" "byte_val c = 9 \<longleftrightarrow> c = CHR 0x09"
  "byte_val c = 10 \<longleftrightarrow> c = CHR 0x0A" "byte_val c = 12 \<longleftrightarrow> c = CHR 0x0C"
  "byte_val c = 13 \<longleftrightarrow> c = CHR 0x0D"
  using of_char_eq_iff [of c "CHR 0x08", where ?'a = nat] of_char_eq_iff [of c "CHR 0x09", where ?'a = nat]
    of_char_eq_iff [of c "CHR 0x0A", where ?'a = nat] of_char_eq_iff [of c "CHR 0x0C", where ?'a = nat]
    of_char_eq_iff [of c "CHR 0x0D", where ?'a = nat]
  by simp_all

definition specials :: string where
  "specials = [CHR 0x22, CHR 0x5C, CHR 0x08, CHR 0x09, CHR 0x0A, CHR 0x0C, CHR 0x0D]"

lemma special_chars:
  "list_all (\<lambda>c. escape_char c = [CHR 0x5C, last (escape_char c)] \<and>
       simple_escape (last (escape_char c)) = Some c \<and> last (escape_char c) \<noteq> CHR ''u'')
     specials"
  by code_simp

lemma escape_char_cases:
  obtains e where "escape_char c = [CHR 0x5C, e]" and "simple_escape e = Some c" and "e \<noteq> CHR ''u''"
  | "escape_char c = hex4 (byte_val c)" and "byte_val c < 128"
  | "escape_char c = [c]" and "c \<noteq> CHR 0x22" and "c \<noteq> CHR 0x5C" and "32 \<le> byte_val c"
proof -
  let ?esc = "byte_val c < 32 \<or> c = CHR ''<'' \<or> c = CHR ''>'' \<or> c = CHR ''&''"
  consider "c \<in> set specials" | "c \<notin> set specials" "?esc" | "c \<notin> set specials" "\<not> ?esc"
    by blast
  then show thesis
  proof cases
    case 1
    with special_chars show ?thesis unfolding list_all_iff using that(1) by blast
  next
    case 2
    moreover have "byte_val c < 128" using 2(2) by auto
    ultimately show ?thesis using that(2) by (simp add: escape_char_def Let_def control_chars specials_def)
  next
    case 3
    then show ?thesis using that(3) by (simp add: escape_char_def Let_def control_chars specials_def)
  qed
qed

lemma unquote_hex4:
  assumes "n < 128"
  shows "unquote (hex4 n @ s) = map_option ((@) [byte n]) (unquote s)"
proof -
  have "n div 16 < 16" "n mod 16 < 16" using assms by simp_all
  moreover have "unhex_digit (CHR ''0'') = Some 0" by (simp add: unhex_digit_def)
  ultimately have "unhex4 (CHR ''0'') (CHR ''0'') (hex_digit (n div 16)) (hex_digit (n mod 16)) = Some n"
    by (simp add: unhex4_def)
  then show ?thesis using assms by (simp add: hex4_def surrogate_def utf8_def)
qed

lemma unquote_escape_char:
  "unquote (escape_char c @ s) = map_option ((#) c) (unquote s)"
proof (cases c rule: escape_char_cases)
  case (2)
  have "(@) [c] = (#) c" by auto
  with 2 show ?thesis by (simp only: unquote_hex4 byte_byte_val)
qed simp_all

lemma scan_escape_char:
  "scan_string (escape_char c @ s) = map_option (\<lambda>(t, r). (escape_char c @ t, r)) (scan_string s)"
proof (cases c rule: escape_char_cases)
  case (2)
  have "hex_digit n \<noteq> CHR 0x22 \<and> hex_digit n \<noteq> CHR 0x5C" if "n < 16" for n
  proof -
    have "byte_val (hex_digit n) \<noteq> 34" "byte_val (hex_digit n) \<noteq> 92"
      using that by (simp_all add: hex_digit_def)
    then show ?thesis by auto
  qed
  moreover have "byte_val c div 16 < 16" "byte_val c mod 16 < 16" using 2(2) by simp_all
  ultimately show ?thesis
    by (cases "scan_string s") (simp_all add: 2(1) hex4_def split_beta)
qed (cases "scan_string s"; simp add: split_beta)+

lemma unquote_separators:
  "unquote ([CHR 0x5C] @ ''u2028'' @ s) = map_option ((@) [byte 226, byte 128, byte 168]) (unquote s)"
  "unquote ([CHR 0x5C] @ ''u2029'' @ s) = map_option ((@) [byte 226, byte 128, byte 169]) (unquote s)"
  by (simp_all add: unhex4_def unhex_digit_def surrogate_def utf8_def)

lemma scan_separators:
  "scan_string ([CHR 0x5C] @ ''u2028'' @ s) =
     map_option (\<lambda>(t, r). ([CHR 0x5C] @ ''u2028'' @ t, r)) (scan_string s)"
  "scan_string ([CHR 0x5C] @ ''u2029'' @ s) =
     map_option (\<lambda>(t, r). ([CHR 0x5C] @ ''u2029'' @ t, r)) (scan_string s)"
  by (cases "scan_string s"; simp add: split_beta)+

lemma escape_string_ind [case_names Nil sep28 sep29 char]:
  assumes "P []" and "\<And>s. P s \<Longrightarrow> P (byte 226 # byte 128 # byte 168 # s)"
    and "\<And>s. P s \<Longrightarrow> P (byte 226 # byte 128 # byte 169 # s)"
    and "\<And>c s. escape_string (c # s) = escape_char c @ escape_string s \<Longrightarrow> P s \<Longrightarrow> P (c # s)"
  shows "P s"
proof (induction s rule: length_induct)
  case (1 s)
  have b: "c = byte n" if "byte_val c = n" for c n using that by (metis byte_byte_val)
  show ?case
  proof (cases s)
    case (Cons c cs)
    show ?thesis
    proof (cases "\<exists>d e r. cs = d # e # r \<and> byte_val c = 226 \<and> byte_val d = 128 \<and> (byte_val e = 168 \<or> byte_val e = 169)")
      case True
      then obtain r where "s = byte 226 # byte 128 # byte 168 # r \<or> s = byte 226 # byte 128 # byte 169 # r"
        using Cons b by metis
      then show ?thesis using assms(2,3) 1 by auto
    next
      case False
      then have "escape_string (c # cs) = escape_char c @ escape_string cs"
        by (auto split: list.splits)
      with assms(4) 1 Cons show ?thesis by simp
    qed
  qed (use assms(1) in simp)
qed

lemma escape_separators:
  "escape_string (byte 226 # byte 128 # byte 168 # s) = [CHR 0x5C] @ ''u2028'' @ escape_string s"
  "escape_string (byte 226 # byte 128 # byte 169 # s) = [CHR 0x5C] @ ''u2029'' @ escape_string s"
  by simp_all

lemma unquote_escape: "unquote (escape_string s) = Some s"
proof (induction s rule: escape_string_ind)
  case (sep28 s)
  then show ?case by (simp only: escape_separators unquote_separators) simp
next
  case (sep29 s)
  then show ?case by (simp only: escape_separators unquote_separators) simp
next
  case (char c s)
  then show ?case by (simp only: char(1) unquote_escape_char) simp
qed simp

lemma scan_escape: "scan_string (escape_string s @ CHR 0x22 # r) = Some (escape_string s, r)"
proof (induction s rule: escape_string_ind)
  case (sep28 s)
  then show ?case by (simp only: escape_separators append_assoc scan_separators) simp
next
  case (sep29 s)
  then show ?case by (simp only: escape_separators append_assoc scan_separators) simp
next
  case (char c s)
  then show ?case by (simp only: char(1) append_assoc scan_escape_char) simp
qed simp

lemma pstring_quoted: "pstring (escape_string s @ CHR 0x22 # r) = Some (s, r)"
  by (simp add: pstring_def scan_escape unquote_escape)

section \<open>Whole values\<close>

text \<open>The tree of a value without floating-point numbers, which is what its text reads back as.\<close>

fun tree :: "json \<Rightarrow> jtree" where
  "tree JNull = TNull"
| "tree (JBool b) = TBool b"
| "tree (JInt i) = TNum (int_str i)"
| "tree (JNum x) = TNum (f64_text x)"
| "tree (JStr s) = TStr s"
| "tree (JArr vs) = TArr (map tree vs)"
| "tree (JObj kvs) = TObj (map (\<lambda>(k, v). (k, tree v)) kvs)"

fun no_floats :: "json \<Rightarrow> bool" where
  "no_floats (JNum x) = False"
| "no_floats (JArr vs) = list_all no_floats vs"
| "no_floats (JObj kvs) = list_all (\<lambda>(k, v). no_floats v) kvs"
| "no_floats v = True"

text \<open>What may follow a value in a text.\<close>

definition closes :: "string \<Rightarrow> bool" where
  "closes r \<longleftrightarrow> r = [] \<or> take 1 r = '','' \<or> take 1 r = '']'' \<or> take 1 r = ''}''"

lemma closes_simps [simp]:
  "closes []" "closes (CHR '','' # r)" "closes (CHR '']'' # r)" "closes (CHR ''}'' # r)"
  by (simp_all add: closes_def)

lemma closes_opt_part:
  assumes "closes r" and "\<not> mark CHR '',''" and "\<not> mark CHR '']''" and "\<not> mark CHR ''}''"
  shows "opt_part mark sg r = Some ([], r)"
  using assms by (cases r) (auto simp: closes_def opt_part_def)

lemma closes_digits:
  assumes "list_all is_digit ds" and "closes r"
  shows "takeWhile is_digit (ds @ r) = ds" and "dropWhile is_digit (ds @ r) = r"
  using assms
  by (cases r; auto simp: closes_def list_all_iff takeWhile_append dropWhile_append is_digit_def)+

lemma nat_str_no_zero: "0 < n \<Longrightarrow> take 1 (nat_str n) \<noteq> ''0''"
proof (induction n rule: nat_str.induct)
  case (1 n)
  show ?case
  proof (cases "n < 10")
    case True
    have "digit_char n \<noteq> CHR ''0''"
      using digit_val_digit_char [OF True] 1(2) by (auto simp: digit_val_def)
    then show ?thesis using True by (simp add: nat_str.simps [of n])
  next
    case False
    then have "0 < n div 10" by simp
    with False 1(1) have "take 1 (nat_str (n div 10)) \<noteq> ''0''" by blast
    with False show ?thesis
      by (cases "nat_str (n div 10)") (simp_all add: nat_str.simps [of n])
  qed
qed

lemma nat_str_zero: "nat_str 0 = ''0''"
  by code_simp

lemma pnumber_int:
  assumes "closes r"
  shows "pnumber (int_str i @ r) = Some (int_str i, r)"
proof -
  have lead: "\<not> (take 1 (nat_str n) = ''0'' \<and> length (nat_str n) > 1)" for n
    using nat_str_no_zero [of n] nat_str_zero by (cases "n = 0") auto
  have first: "take 1 (nat_str n @ r) \<noteq> ''-''" for n
    by (rule nat_str_head [of n]) (auto simp: is_digit_def)
  note d = closes_digits [OF is_digit_nat_str assms]
  show ?thesis
    using lead first
    by (auto simp: pnumber_def int_str_def Let_def d closes_opt_part [OF assms])
qed

lemma int_str_first:
  obtains c cs where "int_str i = c # cs" and "c = CHR ''-'' \<or> is_digit c"
proof (cases "i < 0")
  case True
  then show ?thesis using that by (simp add: int_str_def)
next
  case False
  obtain c cs where "nat_str (nat i) = c # cs" "is_digit c" by (rule nat_str_head)
  with False show ?thesis using that by (simp add: int_str_def)
qed

lemma digit_or_minus:
  assumes "c = CHR ''-'' \<or> is_digit c"
  shows "\<not> is_ws c" "c \<noteq> CHR ''{''" "c \<noteq> CHR ''[''" "c \<noteq> CHR 0x22"
    "\<not> has_prefix (c # cs) ''null''" "\<not> has_prefix (c # cs) ''true''" "\<not> has_prefix (c # cs) ''false''"
  using assms by (auto simp: is_ws_def is_digit_def has_prefix_def)

lemma pvalue_int: "closes r \<Longrightarrow> pvalue (Suc n) (int_str i @ r) = Some (TNum (int_str i), r)"
proof -
  assume r: "closes r"
  obtain c cs where i: "int_str i = c # cs" and c: "c = CHR ''-'' \<or> is_digit c" by (rule int_str_first)
  have "skip_ws (int_str i @ r) = c # cs @ r" using digit_or_minus(1) [OF c] by (simp add: i)
  then show ?thesis
    using digit_or_minus(2-4) [OF c] digit_or_minus(5-7) [OF c, of "cs @ r"] pnumber_int [OF r, of i] by (simp add: i)
qed

lemma not_ws [simp]:
  "\<not> is_ws CHR '',''" "\<not> is_ws CHR '']''" "\<not> is_ws CHR ''}''" "\<not> is_ws CHR 0x22" "\<not> is_ws CHR '':''"
  "\<not> is_ws CHR ''{''" "\<not> is_ws CHR ''[''" "\<not> is_ws CHR ''n''" "\<not> is_ws CHR ''t''" "\<not> is_ws CHR ''f''"
  by (simp_all add: is_ws_def)

lemma json_text_not_Nil: "no_floats v \<Longrightarrow> json_text v \<noteq> []"
  by (cases v) (auto simp: quoted_def int_str_def)

lemma pelems_texts:
  assumes "\<And>v m r. v \<in> set vs \<Longrightarrow> closes r \<Longrightarrow> length (json_text v) \<le> m \<Longrightarrow>
      pvalue m (json_text v @ r) = Some (tree v, r)"
    and "vs \<noteq> []" and "length (join_with '','' (map json_text vs)) < n"
  shows "pelems n (join_with '','' (map json_text vs) @ CHR '']'' # r) = Some (map tree vs, r)"
  using assms
proof (induction vs arbitrary: n)
  case (Cons v vs)
  obtain m where n: "n = Suc m" using Cons.prems(3) by (cases n) auto
  show ?case
  proof (cases vs)
    case Nil
    with Cons.prems n show ?thesis by simp
  next
    case (Cons w ws)
    have "pelems m (join_with '','' (map json_text vs) @ CHR '']'' # r) = Some (map tree vs, r)"
      by (rule Cons.IH) (use Cons.prems n Cons in auto)
    with Cons.prems(1) [of v] Cons.prems(3) n Cons show ?thesis by simp
  qed
qed simp

definition member_text :: "string \<times> json \<Rightarrow> string" where
  "member_text kv = quoted (fst kv) @ '':'' @ json_text (snd kv)"

lemma json_text_JObj: "json_text (JObj kvs) = ''{'' @ join_with '','' (map member_text kvs) @ ''}''"
proof -
  have "(\<lambda>(k, v). quoted k @ '':'' @ json_text v) = member_text"
    by (auto simp: member_text_def)
  then show ?thesis by simp
qed

lemma pmembers_texts:
  assumes "\<And>kv m r. kv \<in> set kvs \<Longrightarrow> closes r \<Longrightarrow> length (json_text (snd kv)) \<le> m \<Longrightarrow>
      pvalue m (json_text (snd kv) @ r) = Some (tree (snd kv), r)"
    and "kvs \<noteq> []" and "length (join_with '','' (map member_text kvs)) < n"
  shows "pmembers n (join_with '','' (map member_text kvs) @ CHR ''}'' # r) =
     Some (map (\<lambda>(k, v). (k, tree v)) kvs, r)"
  using assms
proof (induction kvs arbitrary: n)
  case (Cons kv kvs)
  obtain m where n: "n = Suc m" using Cons.prems(3) by (cases n) auto
  have first: "pmembers (Suc m) (member_text kv @ e # es) =
      (if e = CHR '','' then map_option (\<lambda>(ms, q). ((fst kv, tree (snd kv)) # ms, q)) (pmembers m es)
       else Some ([(fst kv, tree (snd kv))], es))"
    if "e = CHR '','' \<or> e = CHR ''}''" and "length (json_text (snd kv)) \<le> m" for e es
    using that(1) Cons.prems(1) [of kv "e # es" m] that(2)
    by (auto simp: member_text_def quoted_def pstring_quoted)
  show ?case
  proof (cases kvs)
    case Nil
    with Cons.prems(3) n first [of "CHR ''}''"] show ?thesis
      by (simp add: member_text_def split_beta)
  next
    case (Cons w ws)
    have "pmembers m (join_with '','' (map member_text kvs) @ CHR ''}'' # r) =
        Some (map (\<lambda>(k, v). (k, tree v)) kvs, r)"
      by (rule Cons.IH) (use Cons.prems n Cons in \<open>auto simp: member_text_def\<close>)
    moreover have "length (json_text (snd kv)) \<le> m"
      using Cons.prems(3) n Cons by (simp add: member_text_def)
    ultimately show ?thesis
      using first [of "CHR '',''"] n Cons by (simp add: split_beta)
  qed
qed simp

lemma text_first:
  assumes "no_floats v"
  obtains c cs where "json_text v = c # cs" and "\<not> is_ws c" and "c \<noteq> CHR '']''"
proof (cases v)
  case (JInt i)
  obtain c cs where "int_str i = c # cs" "c = CHR ''-'' \<or> is_digit c" by (rule int_str_first)
  moreover have "c \<noteq> CHR '']''" using calculation(2) by (auto simp: is_digit_def)
  ultimately show ?thesis using that digit_or_minus(1) [of c] JInt by simp
next
  case (JBool b)
  with that show ?thesis by (cases b) auto
qed (use assms that in \<open>auto simp: quoted_def is_ws_def\<close>)

lemma skip_first: "s = c # cs \<Longrightarrow> \<not> is_ws c \<Longrightarrow> take 1 (skip_ws (s @ r)) = [c]"
  by simp

text \<open>The round trip: a value without floating-point numbers is read back from its text.\<close>

lemma pvalue_text:
  "no_floats v \<Longrightarrow> closes r \<Longrightarrow> length (json_text v) \<le> n \<Longrightarrow>
     pvalue n (json_text v @ r) = Some (tree v, r)"
proof (induction v arbitrary: n r)
  case (JArr vs)
  obtain m where n: "n = Suc m" using JArr.prems(3) by (cases n) auto
  show ?case
  proof (cases vs)
    case Nil
    then show ?thesis by (simp add: n)
  next
    case (Cons v ws)
    obtain c cs where c: "json_text v = c # cs" "\<not> is_ws c" "c \<noteq> CHR '']''"
      using JArr.prems(1) Cons text_first [of v] by auto
    have "join_with '','' (map json_text vs) = c # drop 1 (join_with '','' (map json_text vs))"
      using Cons c(1) by (cases ws) auto
    from skip_first [OF this c(2)] c(3)
    have "take 1 (skip_ws (join_with '','' (map json_text vs) @ CHR '']'' # r)) \<noteq> '']''"
      by simp
    moreover have "pelems m (join_with '','' (map json_text vs) @ CHR '']'' # r) = Some (map tree vs, r)"
      by (rule pelems_texts) (use JArr Cons n in \<open>auto simp: list_all_iff\<close>)
    ultimately show ?thesis by (simp add: n)
  qed
next
  case (JObj kvs)
  obtain m where n: "n = Suc m" using JObj.prems(3) by (cases n) auto
  show ?case
  proof (cases kvs)
    case Nil
    then show ?thesis by (simp add: n)
  next
    case (Cons kv ws)
    have "join_with '','' (map member_text kvs) = CHR 0x22 # drop 1 (join_with '','' (map member_text kvs))"
      using Cons by (cases ws) (auto simp: member_text_def quoted_def)
    from skip_first [OF this not_ws(4)]
    have "take 1 (skip_ws (join_with '','' (map member_text kvs) @ CHR ''}'' # r)) \<noteq> ''}''"
      by simp
    moreover have "pmembers m (join_with '','' (map member_text kvs) @ CHR ''}'' # r) =
        Some (map (\<lambda>(k, v). (k, tree v)) kvs, r)"
    proof (rule pmembers_texts)
      fix kv m' r'
      assume "kv \<in> set kvs" and "closes r'" and "length (json_text (snd kv)) \<le> m'"
      moreover then have "no_floats (snd kv)" using JObj.prems(1) by (auto simp: list_all_iff)
      ultimately show "pvalue m' (json_text (snd kv) @ r') = Some (tree (snd kv), r')"
        using JObj.IH [of kv "snd kv" r' m'] snds.intros [of kv] by blast
    qed (use JObj.prems(3) Cons n json_text_JObj [of kvs] in auto)
    ultimately show ?thesis by (simp add: n json_text_JObj del: json_text.simps(7))
  qed
next
  case (JInt i)
  then have "n \<noteq> 0" using json_text_not_Nil [of "JInt i"] by (cases n) auto
  then show ?case using pvalue_int [OF JInt.prems(2), of "n - 1" i] by simp
next
  case (JStr s)
  then show ?case by (cases n) (auto simp: quoted_def pstring_quoted)
next
  case JNull
  then show ?case by (cases n) (simp_all add: has_prefix_def)
next
  case (JBool b)
  then show ?case by (cases n; cases b) (simp_all add: has_prefix_def)
qed simp

lemma json_roundtrip: "no_floats v \<Longrightarrow> json_parse (json_text v) = Some (tree v)"
  using pvalue_text [of v "[]" "Suc (length (json_text v))"] by (simp add: json_parse_def)

end
