(* ===== verification/Json_Decode.thy ===== *)
theory Json_Decode
  imports Json_Parse
begin

text \<open>
  Decoding JSON into records, as \<^verbatim>\<open>json.Unmarshal\<close> does it: the members of an object one after the
  other, each into the field whose tag it names, and points of time in RFC 3339. The calendar is
  inverted here, so that a time that was printed is read back.
\<close>

section \<open>Dates\<close>

text \<open>The number of the day of a date, the inverse of \<open>civil\<close>.\<close>

definition days_of :: "int \<Rightarrow> int \<Rightarrow> int \<Rightarrow> int" where
  "days_of y m d =
     (let y1 = (if m \<le> 2 then y - 1 else y); era = y1 div 400; yoe = y1 mod 400;
          mp = (if m > 2 then m - 3 else m + 9); doy = (153 * mp + 2) div 5 + d - 1
      in era * 146097 + 365 * yoe + yoe div 4 - yoe div 100 + doy - 306)"

lemma div_window: "0 < c \<Longrightarrow> c * (a div c) \<le> a \<and> a < c * (a div c) + c" for a c :: int
  using pos_mod_bound [of c a] pos_mod_sign [of c a] mult_div_mod_eq [of c a] by linarith

lemma year_of_era:
  fixes doe :: int
  assumes "0 \<le> doe" "doe < 146097"
  defines "yoe \<equiv> (doe - doe div 1460 + doe div 36524 - doe div 146096) div 365"
  shows "0 \<le> yoe" "yoe < 400" "0 \<le> doe - (365 * yoe + yoe div 4 - yoe div 100)"
    "doe - (365 * yoe + yoe div 4 - yoe div 100) < 366"
proof -
  have w: "1460 * (doe div 1460) \<le> doe" "doe < 1460 * (doe div 1460) + 1460"
    "36524 * (doe div 36524) \<le> doe" "doe < 36524 * (doe div 36524) + 36524"
    "146096 * (doe div 146096) \<le> doe" "doe < 146096 * (doe div 146096) + 146096"
    using div_window [of 1460 doe] div_window [of 36524 doe] div_window [of 146096 doe] by simp_all
  have s: "365 * yoe \<le> doe - doe div 1460 + doe div 36524 - doe div 146096"
    "doe - doe div 1460 + doe div 36524 - doe div 146096 < 365 * yoe + 365"
    using div_window [of 365 "doe - doe div 1460 + doe div 36524 - doe div 146096"] by (simp_all add: yoe_def)
  show "0 \<le> yoe" using w s assms(1,2) by linarith
  show "yoe < 400"
  proof (cases "doe = 146096")
    case False
    then have "doe < 146096" using assms(2) by simp
    then show ?thesis using w s assms(1) by linarith
  qed (simp add: yoe_def)
  define b k where "b = doe div 36524" and "k = doe mod 36524"
  have doe: "doe = 36524 * b + k" "0 \<le> k" "k < 36524" by (simp_all add: b_def k_def)
  have "0 \<le> doe - (365 * yoe + yoe div 4 - yoe div 100) \<and> doe - (365 * yoe + yoe div 4 - yoe div 100) < 366"
  proof (cases "doe = 146096")
    case True
    then show ?thesis by (simp add: yoe_def)
  next
    case False
    then have b: "0 \<le> b" "b \<le> 3" using assms(1,2) doe by linarith+
    define q where "q = (24 * b + k) div 1460"
    define j where "j = (k - q) div 365"
    define i where "i = j div 4"
    have q: "1460 * q \<le> 24 * b + k" "24 * b + k < 1460 * q + 1460" using div_window [of 1460 "24 * b + k"] by (simp_all add: q_def)
    have a: "doe div 1460 = 25 * b + q"
    proof -
      have "doe = (24 * b + k) + (25 * b) * 1460" by (simp add: doe(1))
      then show ?thesis by (simp add: q_def)
    qed
    have c: "doe div 146096 = 0" using assms(1,2) False by simp
    have "doe - doe div 1460 + doe div 36524 - doe div 146096 = (k - q) + (100 * b) * 365"
      using a c doe(1) b_def by linarith
    then have yoe: "yoe = 100 * b + j" by (simp add: yoe_def j_def)
    have j: "365 * j \<le> k - q" "k - q < 365 * j + 365" using div_window [of 365 "k - q"] by (simp_all add: j_def)
    have i: "4 * i \<le> j" "j < 4 * i + 4" using div_window [of 4 j] by (simp_all add: i_def)
    have jb: "0 \<le> j" "j < 100" using j q b doe(2,3) by linarith+
    have "yoe div 100 = b" "yoe div 4 = 25 * b + i" using jb by (simp_all add: yoe i_def)
    then have "doe - (365 * yoe + yoe div 4 - yoe div 100) = (k - q - 365 * j) + (q - i)"
      by (simp add: yoe doe(1))
    moreover have "i \<le> q" "q \<le> i + 1" using i j q b jb doe(2,3) by linarith+
    ultimately show ?thesis using j by linarith
  qed
  then show "0 \<le> doe - (365 * yoe + yoe div 4 - yoe div 100)"
    "doe - (365 * yoe + yoe div 4 - yoe div 100) < 366" by simp_all
qed

lemma days_of_civil:
  assumes "civil n = (y, m, d)"
  shows "days_of y m d = n" and "1 \<le> m" "m \<le> 12" "1 \<le> d" "d \<le> 31"
proof -
  define z era doe where "z = n + 306" and "era = z div 146097" and "doe = z mod 146097"
  define yoe where "yoe = (doe - doe div 1460 + doe div 36524 - doe div 146096) div 365"
  define doy where "doy = doe - (365 * yoe + yoe div 4 - yoe div 100)"
  define mp where "mp = (5 * doy + 2) div 153"
  have b: "0 \<le> yoe" "yoe < 400" "0 \<le> doy" "doy < 366"
  proof -
    have "0 \<le> doe" "doe < 146097" by (simp_all add: doe_def)
    from year_of_era [OF this] show "0 \<le> yoe" "yoe < 400" "0 \<le> doy" "doy < 366"
      unfolding doy_def yoe_def by blast+
  qed
  have w: "153 * mp \<le> 5 * doy + 2" "5 * doy + 2 < 153 * mp + 153"
    using div_window [of 153 "5 * doy + 2"] by (simp_all add: mp_def)
  have mp: "0 \<le> mp" "mp < 12" using b w by linarith+
  have d: "d = doy - (153 * mp + 2) div 5 + 1" and m: "m = (if mp < 10 then mp + 3 else mp - 9)"
    and y: "y = yoe + era * 400 + (if m \<le> 2 then 1 else 0)"
    using assms unfolding civil_def Let_def z_def [symmetric] era_def [symmetric] doe_def [symmetric]
      yoe_def [symmetric] doy_def [symmetric] mp_def [symmetric] by auto
  show "1 \<le> m" "m \<le> 12" using mp by (auto simp: m)
  have "(153 * mp + 2) div 5 \<le> doy \<and> doy \<le> (153 * mp + 2) div 5 + 30" 
    using w div_window [of 5 "153 * mp + 2"] by linarith
  then show "1 \<le> d" "d \<le> 31" by (simp_all add: d)
  have mp': "(if m > 2 then m - 3 else m + 9) = mp" using mp by (auto simp: m)
  have y1: "(if m \<le> 2 then y - 1 else y) = yoe + era * 400" by (simp add: y)
  have "days_of y m d = era * 146097 + 365 * yoe + yoe div 4 - yoe div 100 + doy - 306"
    unfolding days_of_def Let_def mp' y1 using b by (simp add: d)
  also have "\<dots> = n" by (simp add: doy_def doe_def era_def z_def)
  finally show "days_of y m d = n" .
qed

section \<open>Padded numbers\<close>

lemma length_nat_str: "n < 10 ^ w \<Longrightarrow> 0 < w \<Longrightarrow> length (nat_str n) \<le> w"
proof (induction w arbitrary: n)
  case (Suc w)
  show ?case
  proof (cases "n < 10")
    case False
    then have "n div 10 < 10 ^ w" "0 < w" using Suc.prems by (auto simp: less_mult_imp_div_less mult.commute intro: gr0I)
    with Suc.IH False show ?thesis by (simp add: nat_str.simps [of n])
  qed (simp add: nat_str.simps [of n])
qed simp

lemma digits_val_zeros [simp]: "digits_val (replicate k (CHR ''0'') @ s) = digits_val s"
  by (induction k) (simp_all add: digits_val_def digit_val_def)

lemma digits_val_append_zeros: "digits_val (s @ replicate k (CHR ''0'')) = digits_val s * 10 ^ k"
proof (induction k)
  case (Suc k)
  have "s @ replicate (Suc k) (CHR ''0'') = (s @ replicate k (CHR ''0'')) @ [CHR ''0'']"
    by (simp add: replicate_append_same)
  then show ?case by (simp only: digits_val_snoc Suc) (simp add: digit_val_def)
qed simp

lemma pad_facts:
  assumes "0 \<le> i" and "i < 10 ^ w" and "0 < w"
  shows "length (pad w i) = w" and "list_all is_digit (pad w i)" and "int (digits_val (pad w i)) = i"
proof -
  have n: "nat i < 10 ^ w" using assms by (simp add: nat_less_iff)
  show "length (pad w i) = w"
    using length_nat_str [OF n assms(3)] assms(1) by (simp add: pad_def int_str_def Let_def)
  show "list_all is_digit (pad w i)"
    using assms(1) by (simp add: pad_def int_str_def Let_def) (simp add: list_all_iff is_digit_def)
  show "int (digits_val (pad w i)) = i" using assms(1) by (simp add: pad_def int_str_def Let_def)
qed

section \<open>Points of time\<close>

definition digits_at :: "nat \<Rightarrow> nat \<Rightarrow> string \<Rightarrow> int option" where
  "digits_at i n s =
     (let ds = take n (drop i s) in
      if length ds = n \<and> list_all is_digit ds then Some (int (digits_val ds)) else None)"

text \<open>The fraction of a second in nanoseconds, and what follows it; digits beyond the ninth are dropped.\<close>

definition parse_fraction :: "string \<Rightarrow> int \<times> string" where
  "parse_fraction s =
     (let ds = takeWhile is_digit (drop 1 s) in
      if take 1 s = ''.'' \<and> ds \<noteq> []
      then (int (digits_val (take 9 ds)) * 10 ^ (9 - length (take 9 ds)), dropWhile is_digit (drop 1 s))
      else (0, s))"

text \<open>The offset from UTC in seconds.\<close>

definition parse_zone :: "string \<Rightarrow> int option" where
  "parse_zone s =
     (if s = ''Z'' then Some 0
      else if length s = 6 \<and> (take 1 s = ''+'' \<or> take 1 s = ''-'') \<and> take 1 (drop 3 s) = '':''
      then
        (case (digits_at 1 2 s, digits_at 4 2 s) of
           (Some hh, Some mi) \<Rightarrow>
             if hh < 24 \<and> mi < 60
             then Some ((if take 1 s = ''-'' then - 1 else 1) * (hh * 3600 + mi * 60)) else None
         | _ \<Rightarrow> None)
      else None)"

text \<open>A date exists if its day number gives it back.\<close>

definition parse_rfc3339 :: "string \<Rightarrow> time option" where
  "parse_rfc3339 s =
     (case (digits_at 0 4 s, digits_at 5 2 s, digits_at 8 2 s, digits_at 11 2 s, digits_at 14 2 s, digits_at 17 2 s) of
        (Some y, Some m, Some d, Some hh, Some mi, Some se) \<Rightarrow>
          if take 1 (drop 4 s) = ''-'' \<and> take 1 (drop 7 s) = ''-'' \<and> take 1 (drop 10 s) = ''T'' \<and>
             take 1 (drop 13 s) = '':'' \<and> take 1 (drop 16 s) = '':'' \<and>
             1 \<le> m \<and> m \<le> 12 \<and> 1 \<le> d \<and> civil (days_of y m d) = (y, m, d) \<and> hh < 24 \<and> mi < 60 \<and> se < 60
          then
            let (ns, z) = parse_fraction (drop 19 s) in
            map_option (\<lambda>off. (days_of y m d * 86400 + hh * 3600 + mi * 60 + se - off) * 1000000000 + ns)
              (parse_zone z)
          else None
      | _ \<Rightarrow> None)"

text \<open>The times whose year has four digits, the ones that \<^verbatim>\<open>json.Marshal\<close> prints.\<close>

definition dated :: "time \<Rightarrow> bool" where
  "dated t \<longleftrightarrow> 0 \<le> year_of t \<and> year_of t \<le> 9999"

lemma parse_nano_fraction: "parse_fraction (nano_fraction t @ ''Z'') = (t mod 1000000000, ''Z'')"
proof (cases "t mod 1000000000 = 0")
  case True
  then show ?thesis by (simp add: nano_fraction_def parse_fraction_def)
next
  case False
  let ?n = "t mod 1000000000" and ?z = "\<lambda>c. c = CHR ''0''"
  define ds where "ds = trim_right ?z (pad 9 ?n)"
  have p: "length (pad 9 ?n) = 9" "list_all is_digit (pad 9 ?n)" "int (digits_val (pad 9 ?n)) = ?n"
    by (simp_all add: pad_facts)
  define k where "k = length (takeWhile ?z (rev (pad 9 ?n)))"
  have "pad 9 ?n = ds @ rev (takeWhile ?z (rev (pad 9 ?n)))"
    unfolding ds_def trim_right_def rev_append [symmetric] takeWhile_dropWhile_id rev_rev_ident ..
  also have "takeWhile ?z (rev (pad 9 ?n)) = replicate k (CHR ''0'')"
    unfolding k_def by (rule replicate_length_same [symmetric]) (auto dest: set_takeWhileD)
  finally have s: "pad 9 ?n = ds @ replicate k (CHR ''0'')" by simp
  have l: "length ds + k = 9" using p(1) by (simp add: s)
  have d: "list_all is_digit ds" using p(2) by (simp add: s)
  have v: "int (digits_val ds) * 10 ^ k = ?n" using p(3) by (simp add: s digits_val_append_zeros)
  have "ds \<noteq> []" using v False by (auto simp: digits_val_def)
  moreover have "takeWhile is_digit (ds @ ''Z'') = ds" "dropWhile is_digit (ds @ ''Z'') = ''Z''"
    using d by (simp_all add: list_all_iff takeWhile_append dropWhile_append is_digit_def)
  moreover have "9 - length ds = k" "length ds \<le> 9" using l by simp_all
  moreover have "nano_fraction t = ''.'' @ ds" using False by (simp add: nano_fraction_def ds_def)
  ultimately show ?thesis using v by (simp add: parse_fraction_def Let_def)
qed

lemma rfc3339_roundtrip:
  assumes "dated t"
  shows "parse_rfc3339 (format_rfc3339nano t) = Some t"
proof -
  obtain y m d where c: "civil (day_number t) = (y, m, d)" by (cases "civil (day_number t)")
  define so where "so = second_of_day t"
  define hh mi se where "hh = so div 3600" and "mi = so div 60 mod 60" and "se = so mod 60"
  have y: "0 \<le> y" "y < 10 ^ 4" using assms by (simp_all add: dated_def year_of_def c)
  note md = days_of_civil [OF c]
  have so: "0 \<le> so" "so < 86400" by (simp_all add: so_def second_of_day_def)
  have b: "0 \<le> hh" "hh < 24" "0 \<le> mi" "mi < 60" "0 \<le> se" "se < 60"
    using so by (simp_all add: hh_def mi_def se_def)
  have sum: "hh * 3600 + mi * 60 + se = so"
  proof -
    have "so div 3600 = so div 60 div 60" using zdiv_zmult2_eq [of 60 so 60] by simp
    with mult_div_mod_eq [of 60 so] mult_div_mod_eq [of 60 "so div 60"] show ?thesis
      unfolding hh_def mi_def se_def by linarith
  qed
  note P = pad_facts [of y 4] pad_facts [of m 2] pad_facts [of d 2] pad_facts [of hh 2] pad_facts [of mi 2]
    pad_facts [of se 2]
  have f: "format_rfc3339nano t = pad 4 y @ ''-'' @ pad 2 m @ ''-'' @ pad 2 d @ ''T'' @ pad 2 hh @ '':'' @
      pad 2 mi @ '':'' @ pad 2 se @ nano_fraction t @ ''Z''"
    by (simp add: format_rfc3339nano_def format_date_def format_clock_def year_of_def month_of_def day_of_def c
        Let_def so_def [symmetric] hh_def [symmetric] mi_def [symmetric] se_def [symmetric])
  have dg: "digits_at 0 4 (format_rfc3339nano t) = Some y" "digits_at 5 2 (format_rfc3339nano t) = Some m"
    "digits_at 8 2 (format_rfc3339nano t) = Some d" "digits_at 11 2 (format_rfc3339nano t) = Some hh"
    "digits_at 14 2 (format_rfc3339nano t) = Some mi" "digits_at 17 2 (format_rfc3339nano t) = Some se"
    using y md b P by (simp_all add: f digits_at_def)
  have mk: "take 1 (drop 4 (format_rfc3339nano t)) = ''-''" "take 1 (drop 7 (format_rfc3339nano t)) = ''-''"
    "take 1 (drop 10 (format_rfc3339nano t)) = ''T''" "take 1 (drop 13 (format_rfc3339nano t)) = '':''"
    "take 1 (drop 16 (format_rfc3339nano t)) = '':''"
    "drop 19 (format_rfc3339nano t) = nano_fraction t @ ''Z''"
    using y md b P by (simp_all add: f)
  have "(day_number t * 86400 + so) * 1000000000 + t mod 1000000000 = t"
    unfolding so_def second_of_day_def day_number_def
    using zdiv_zmult2_eq [of 86400 t 1000000000] div_mult_mod_eq [of "t div 1000000000" 86400]
      div_mult_mod_eq [of t 1000000000] by (simp add: mult.commute)
  then show ?thesis
    unfolding parse_rfc3339_def dg mk parse_nano_fraction
    using md c b sum by (simp add: parse_zone_def algebra_simps)
qed

text \<open>Seconds since 1970.\<close>

definition Unix :: "time \<Rightarrow> int" where
  "Unix t = t div second - 62135596800"

section \<open>Records\<close>

text \<open>
  The members of an object in the order of the text; a name matches the field of its tag whatever
  its case, and a name without a field is skipped. A table lists the tags of a record, each with
  the function that sets its field from a value; \<open>None\<close> is an error of the decoder.
\<close>

definition fold_name :: "string \<Rightarrow> string" where
  "fold_name k = ToLower k"

type_synonym 'r fields = "(string \<times> (jtree \<Rightarrow> 'r \<Rightarrow> 'r option)) list"

fun set_fields :: "'r fields \<Rightarrow> (string \<times> jtree) list \<Rightarrow> 'r \<Rightarrow> 'r option" where
  "set_fields table [] r = Some r"
| "set_fields table ((k, v) # kvs) r =
     (case List.find (\<lambda>f. fold_name (fst f) = fold_name k) table of
        None \<Rightarrow> set_fields table kvs r
      | Some f \<Rightarrow> (case snd f v r of None \<Rightarrow> None | Some r1 \<Rightarrow> set_fields table kvs r1))"

text \<open>A field that is not a pointer or a slice: \<^verbatim>\<open>null\<close> leaves it as it is.\<close>

definition set_plain :: "(jtree \<Rightarrow> 'a option) \<Rightarrow> (('a \<Rightarrow> 'a) \<Rightarrow> 'r \<Rightarrow> 'r) \<Rightarrow> jtree \<Rightarrow> 'r \<Rightarrow> 'r option" where
  "set_plain dec upd v r = (if v = TNull then Some r else map_option (\<lambda>x. upd (\<lambda>_. x) r) (dec v))"

text \<open>A pointer or a slice: \<^verbatim>\<open>null\<close> makes it nil.\<close>

definition set_opt ::
  "(jtree \<Rightarrow> 'a option) \<Rightarrow> (('a option \<Rightarrow> 'a option) \<Rightarrow> 'r \<Rightarrow> 'r) \<Rightarrow> jtree \<Rightarrow> 'r \<Rightarrow> 'r option" where
  "set_opt dec upd v r =
     (if v = TNull then Some (upd (\<lambda>_. None) r) else map_option (\<lambda>x. upd (\<lambda>_. Some x) r) (dec v))"

fun all_some :: "'a option list \<Rightarrow> 'a list option" where
  "all_some [] = Some []"
| "all_some (None # xs) = None"
| "all_some (Some x # xs) = map_option ((#) x) (all_some xs)"

definition tree_list :: "'a \<Rightarrow> (jtree \<Rightarrow> 'a option) \<Rightarrow> jtree \<Rightarrow> 'a list option" where
  "tree_list zero dec v =
     (case v of
        TArr ts \<Rightarrow> all_some (map (\<lambda>t. if t = TNull then Some zero else dec t) ts)
      | _ \<Rightarrow> None)"

definition set_slice ::
  "'a \<Rightarrow> (jtree \<Rightarrow> 'a option) \<Rightarrow> (('a list \<Rightarrow> 'a list) \<Rightarrow> 'r \<Rightarrow> 'r) \<Rightarrow> jtree \<Rightarrow> 'r \<Rightarrow> 'r option" where
  "set_slice zero dec upd v r =
     (if v = TNull then Some (upd (\<lambda>_. []) r) else map_option (\<lambda>xs. upd (\<lambda>_. xs) r) (tree_list zero dec v))"

definition tree_string :: "jtree \<Rightarrow> string option" where
  "tree_string v = (case v of TStr s \<Rightarrow> Some s | _ \<Rightarrow> None)"

text \<open>A number fits an \<^verbatim>\<open>int\<close> if it is an integer literal in range.\<close>

definition tree_int :: "jtree \<Rightarrow> int option" where
  "tree_int v = (case v of TNum l \<Rightarrow> atoi l | _ \<Rightarrow> None)"

definition tree_bool :: "jtree \<Rightarrow> bool option" where
  "tree_bool v = (case v of TBool b \<Rightarrow> Some b | _ \<Rightarrow> None)"

definition tree_float :: "jtree \<Rightarrow> f64 option" where
  "tree_float v = (case v of TNum l \<Rightarrow> ParseFloat l | _ \<Rightarrow> None)"

definition tree_time :: "jtree \<Rightarrow> time option" where
  "tree_time v = (case v of TStr s \<Rightarrow> parse_rfc3339 s | _ \<Rightarrow> None)"

definition tree_struct :: "'r fields \<Rightarrow> 'r \<Rightarrow> jtree \<Rightarrow> 'r option" where
  "tree_struct table zero v = (case v of TObj kvs \<Rightarrow> set_fields table kvs zero | _ \<Rightarrow> None)"

text \<open>\<^verbatim>\<open>json.Unmarshal\<close> of a whole text into a zero value.\<close>

definition unmarshal :: "'r fields \<Rightarrow> 'r \<Rightarrow> string \<Rightarrow> 'r option" where
  "unmarshal table zero s =
     (case json_parse s of
        None \<Rightarrow> None
      | Some v \<Rightarrow> if v = TNull then Some zero else tree_struct table zero v)"

section \<open>Reading back\<close>

text \<open>A table whose names differ, up to case, finds each field by its tag.\<close>

definition field_table :: "'r fields \<Rightarrow> bool" where
  "field_table table \<longleftrightarrow> distinct (map (\<lambda>f. fold_name (fst f)) table)"

lemma find_field:
  "field_table table \<Longrightarrow> (k, f) \<in> set table \<Longrightarrow>
     List.find (\<lambda>f. fold_name (fst f) = fold_name k) table = Some (k, f)"
  by (induction table) (auto simp: field_table_def image_iff)

lemma set_field:
  assumes "field_table table" and "(k, f) \<in> set table" and "f v r = Some r1"
  shows "set_fields table ((k, v) # kvs) r = set_fields table kvs r1"
  by (simp add: find_field [OF assms(1,2)] assms(3))

lemma tree_decoders [simp]:
  "tree_string (TStr s) = Some s" "tree_bool (TBool b) = Some b"
  "dated t \<Longrightarrow> tree_time (tree (jtime t)) = Some t"
  "dated t \<Longrightarrow> tree_time (TStr (format_rfc3339nano t)) = Some t"
  by (simp_all add: tree_string_def tree_bool_def tree_time_def jtime_def rfc3339_roundtrip)

lemma tree_int_str [simp]: "- (2 ^ 63) \<le> i \<Longrightarrow> i < 2 ^ 63 \<Longrightarrow> tree_int (TNum (int_str i)) = Some i"
  by (simp add: tree_int_def atoi_int_str)

lemma all_some_map: "(\<And>x. x \<in> set xs \<Longrightarrow> f x = Some (g x)) \<Longrightarrow> all_some (map f xs) = Some (map g xs)"
  by (induction xs) simp_all

text \<open>A text printed from an object is decoded from the members of the object.\<close>

lemma unmarshal_text:
  "no_floats (JObj kvs) \<Longrightarrow>
     unmarshal table zero (json_text (JObj kvs)) = set_fields table (map (\<lambda>(k, v). (k, tree v)) kvs) zero"
  using json_roundtrip [of "JObj kvs"] by (simp add: unmarshal_def tree_struct_def del: json_text.simps)

lemma no_floats_parts [simp]:
  "no_floats (jtime t)" "no_floats (jopt JStr x)" "no_floats (jopt JInt i)" "no_floats (jopt JBool b)"
  "no_floats (jslice JStr ss)" "list_all (\<lambda>(k, v). no_floats v) (omit_empty k s)"
  by (simp_all add: jtime_def jopt_def jslice_def omit_empty_def list_all_iff split: option.splits)

section \<open>Untyped values\<close>

text \<open>An object as a map: of two members with one name, the later counts.\<close>

definition as_gomap :: "(string \<times> 'a) list \<Rightarrow> 'a gomap" where
  "as_gomap kvs = foldl (\<lambda>m (k, v). mput k v m) [] kvs"

text \<open>What decoding gives for an \<^verbatim>\<open>interface{}\<close>; a number out of the range of \<^verbatim>\<open>float64\<close> is an error.\<close>

fun interface_value :: "jtree \<Rightarrow> json option"
  and interface_values :: "jtree list \<Rightarrow> json list option"
  and interface_members :: "(string \<times> jtree) list \<Rightarrow> (string \<times> json) list option" where
  "interface_value TNull = Some JNull"
| "interface_value (TBool b) = Some (JBool b)"
| "interface_value (TNum l) = map_option JNum (ParseFloat l)"
| "interface_value (TStr s) = Some (JStr s)"
| "interface_value (TArr ts) = map_option JArr (interface_values ts)"
| "interface_value (TObj kvs) = map_option (\<lambda>m. JObj (as_gomap m)) (interface_members kvs)"
| "interface_values [] = Some []"
| "interface_values (t # ts) =
     (case interface_value t of
        None \<Rightarrow> None
      | Some v \<Rightarrow> map_option ((#) v) (interface_values ts))"
| "interface_members [] = Some []"
| "interface_members ((k, t) # kvs) =
     (case interface_value t of
        None \<Rightarrow> None
      | Some v \<Rightarrow> map_option ((#) (k, v)) (interface_members kvs))"

lemma wf_as_gomap [simp]: "wf_map (as_gomap kvs)"
proof -
  have "wf_map m \<Longrightarrow> wf_map (foldl (\<lambda>m (k, v). mput k v m) m kvs)" for m :: "'a gomap"
    by (induction kvs arbitrary: m) (auto simp: split_beta)
  then show ?thesis by (simp add: as_gomap_def)
qed

end
