(* ===== verification/Base64.thy ===== *)
theory Base64
  imports Crypto
begin

text \<open>
  The round trip of \<^verbatim>\<open>base64.RawURLEncoding\<close>, and \<^verbatim>\<open>base64.StdEncoding\<close>: the standard
  alphabet, with padding.
\<close>

section \<open>The URL encoding\<close>

text \<open>The six-bit groups of a byte string, and the bytes back from them.\<close>

fun sextets :: "string \<Rightarrow> nat list" where
  "sextets [] = []"
| "sextets [a] = (let n = byte_val a * 16 in [n div 64, n mod 64])"
| "sextets [a, b] =
     (let n = (byte_val a * 256 + byte_val b) * 4 in [n div 4096, n div 64 mod 64, n mod 64])"
| "sextets (a # b # c # cs) =
     (let n = (byte_val a * 256 + byte_val b) * 256 + byte_val c
      in [n div 262144, n div 4096 mod 64, n div 64 mod 64, n mod 64] @ sextets cs)"

lemma raw_url_encode_sextets: "raw_url_encode s = map (b64_char True) (sextets s)"
  by (induction s rule: sextets.induct) (simp_all add: Let_def)

lemma two_bytes_less: "byte_val a * 256 + byte_val b < 65536"
  using byte_val_less [of a] byte_val_less [of b] by linarith

lemma three_bytes_less: "(byte_val a * 256 + byte_val b) * 256 + byte_val c < 16777216"
proof -
  have "(byte_val a * 256 + byte_val b) * 256 \<le> 65535 * 256"
    by (rule mult_le_mono1) (use two_bytes_less [of a b] in linarith)
  then show ?thesis using byte_val_less [of c] by linarith
qed

lemma sextets_less: "list_all (\<lambda>n. n < 64) (sextets s)"
proof (induction s rule: sextets.induct)
  case (2 a)
  have "byte_val a div 4 < 64" by (rule less_mult_imp_div_less) simp
  then show ?case by (simp add: Let_def)
next
  case (3 a b)
  have "(byte_val a * 256 + byte_val b) * 4 div 4096 < 64"
    by (rule less_mult_imp_div_less) (use two_bytes_less [of a b] in simp)
  then show ?case unfolding sextets.simps Let_def list_all_iff by auto
next
  case (4 a b c cs)
  have "((byte_val a * 256 + byte_val b) * 256 + byte_val c) div 262144 < 64"
    by (rule less_mult_imp_div_less) (use three_bytes_less [of a b c] in simp)
  with 4 show ?case by (simp add: Let_def)
qed simp

definition url_alphabet :: "string" where
  "url_alphabet = map (b64_char True) [0..<64]"

lemma url_alphabet_marks: "list_all (\<lambda>c. c \<noteq> CHR 0x0A \<and> c \<noteq> CHR 0x0D \<and> c \<noteq> CHR ''.'') url_alphabet"
  by code_simp

lemma raw_url_encode_marks:
  "list_all (\<lambda>c. c \<noteq> CHR 0x0A \<and> c \<noteq> CHR 0x0D \<and> c \<noteq> CHR ''.'') (raw_url_encode s)"
proof -
  have "set (raw_url_encode s) \<subseteq> set url_alphabet"
    using sextets_less [of s] by (auto simp: raw_url_encode_sextets url_alphabet_def list_all_iff)
  with url_alphabet_marks show ?thesis by (auto simp: list_all_iff)
qed

lemma digits_64: "(n div 64) * 64 + n mod 64 = (n::nat)"
  by simp

lemma join_three:
  fixes n :: nat
  shows "(n div 4096 * 64 + n div 64 mod 64) * 64 + n mod 64 = n"
proof -
  have "n div 4096 * 64 + n div 64 mod 64 = n div 64"
    using digits_64 [of "n div 64"] by (simp add: div_mult2_eq [symmetric])
  then show ?thesis by simp
qed

lemma join_four:
  fixes n :: nat
  shows "((n div 262144 * 64 + n div 4096 mod 64) * 64 + n div 64 mod 64) * 64 + n mod 64 = n"
proof -
  have "n div 262144 * 64 + n div 4096 mod 64 = n div 4096"
    using digits_64 [of "n div 4096"] by (simp add: div_mult2_eq [symmetric])
  then show ?thesis using join_three [of n] by (simp only:)
qed

lemma three_bytes:
  fixes a b c :: nat
  assumes "b < 256" and "c < 256"
  shows "((a * 256 + b) * 256 + c) div 65536 = a" and "((a * 256 + b) * 256 + c) div 256 = a * 256 + b"
    and "((a * 256 + b) * 256 + c) mod 256 = c"
proof -
  show "((a * 256 + b) * 256 + c) mod 256 = c"
    using assms mod_mult_self3 [of "a * 256 + b" 256 c] by (simp only: mod_less)
  show "((a * 256 + b) * 256 + c) div 256 = a * 256 + b" using assms by simp
  then have "((a * 256 + b) * 256 + c) div 256 div 256 = a" using assms by simp
  then show "((a * 256 + b) * 256 + c) div 65536 = a" by (simp add: div_mult2_eq [symmetric])
qed

lemma b64_groups_sextets: "b64_groups (sextets s) = Some s"
proof (induction s rule: sextets.induct)
  case (2 a)
  show ?case unfolding sextets.simps Let_def b64_groups.simps digits_64 by simp
next
  case (3 a b)
  have "(byte_val a * 256 + byte_val b) * 4 div 1024 = byte_val a" by simp
  then show ?case unfolding sextets.simps Let_def b64_groups.simps join_three by simp
next
  case (4 a b c cs)
  show ?case
    unfolding sextets.simps Let_def append.simps b64_groups.simps join_four 4 [OF HOL.refl]
      three_bytes [OF byte_val_less byte_val_less] option.map
    by simp
qed simp

lemma raw_url_roundtrip: "raw_url_decode (raw_url_encode s) = Some s"
proof -
  have "filter (\<lambda>c. c \<noteq> CHR 0x0A \<and> c \<noteq> CHR 0x0D) (raw_url_encode s) = raw_url_encode s"
    using raw_url_encode_marks [of s] by (simp add: filter_id_conv list_all_iff)
  moreover have v: "map (b64_val True) (raw_url_encode s) = map Some (sextets s)"
    using sextets_less [of s] by (simp add: raw_url_encode_sextets list_all_iff)
  moreover have "None \<notin> set (map (b64_val True) (raw_url_encode s))" by (simp add: v image_iff)
  ultimately show ?thesis
    by (simp add: raw_url_decode_def Let_def b64_groups_sextets o_def del: set_map)
qed

section \<open>The standard encoding\<close>

definition std_encode :: "string \<Rightarrow> string" where
  "std_encode s =
     (let body = map (b64_char False) (sextets s)
      in body @ replicate ((4 - length body mod 4) mod 4) (CHR ''=''))"

text \<open>
  The decoder skips line breaks and wants whole groups of four; the last one ends in up to two
  padding characters.
\<close>

definition std_decode :: "string \<Rightarrow> string option" where
  "std_decode s =
     (let cs = filter (\<lambda>c. c \<noteq> CHR 0x0A \<and> c \<noteq> CHR 0x0D) s;
          body = trim_right (\<lambda>c. c = CHR ''='') cs;
          vs = map (b64_val False) body
      in if length cs mod 4 \<noteq> 0 \<or> length cs > length body + 2 \<or> None \<in> set vs then None
         else b64_groups (map the vs))"

definition std_alphabet :: "string" where
  "std_alphabet = map (b64_char False) [0..<64]"

lemma std_alphabet_marks:
  "list_all (\<lambda>c. c \<noteq> CHR 0x0A \<and> c \<noteq> CHR 0x0D \<and> c \<noteq> CHR ''='' \<and> \<not> is_space c) std_alphabet"
  by code_simp

lemma std_body_marks:
  "list_all (\<lambda>c. c \<noteq> CHR 0x0A \<and> c \<noteq> CHR 0x0D \<and> c \<noteq> CHR ''='' \<and> \<not> is_space c)
     (map (b64_char False) (sextets s))"
  using sextets_less [of s] std_alphabet_marks by (auto simp: std_alphabet_def list_all_iff)

lemma length_sextets: "length (sextets s) mod 4 \<noteq> 1"
  by (induction s rule: sextets.induct) (simp_all add: Let_def)

lemma trim_right_padding:
  assumes "\<And>c. c \<in> set s \<Longrightarrow> \<not> p c" and "p d"
  shows "trim_right p (s @ replicate n d) = s"
proof -
  have "dropWhile p (replicate n d @ t) = dropWhile p t" for t
    using assms(2) by (induction n) auto
  moreover have "dropWhile p (rev s) = rev s"
    using assms(1) by (cases "rev s") (auto simp: rev_eq_Cons_iff)
  ultimately show ?thesis by (simp add: trim_right_def)
qed

lemma padding_fills:
  fixes n :: nat
  shows "(n + (4 - n mod 4) mod 4) mod 4 = 0" and "n mod 4 \<noteq> 1 \<Longrightarrow> (4 - n mod 4) mod 4 \<le> 2"
proof -
  have "n mod 4 < 4" by simp
  then consider (0) "n mod 4 = 0" | (1) "n mod 4 = 1" | (2) "n mod 4 = 2" | (3) "n mod 4 = 3" by linarith
  then show "(n + (4 - n mod 4) mod 4) mod 4 = 0"
  proof cases
    case 1
    then have "(n + 3) mod 4 = 0" by presburger
    with 1 show ?thesis by simp
  next
    case 2
    then have "(n + 2) mod 4 = 0" by presburger
    with 2 show ?thesis by simp
  next
    case 3
    then have "(n + 1) mod 4 = 0" by presburger
    with 3 show ?thesis by simp
  qed simp
  show "n mod 4 \<noteq> 1 \<Longrightarrow> (4 - n mod 4) mod 4 \<le> 2"
    using \<open>n mod 4 < 4\<close> by (cases "n mod 4 = 0") simp_all
qed

lemma std_roundtrip: "std_decode (std_encode s) = Some s"
proof -
  let ?b = "map (b64_char False) (sextets s)" and ?k = "(4 - length (sextets s) mod 4) mod 4"
  have e: "std_encode s = ?b @ replicate ?k (CHR ''='')" by (simp add: std_encode_def Let_def)
  have f: "filter (\<lambda>c. c \<noteq> CHR 0x0A \<and> c \<noteq> CHR 0x0D) (?b @ replicate ?k (CHR ''='')) = ?b @ replicate ?k (CHR ''='')"
    using std_body_marks [of s] by (simp add: filter_id_conv list_all_iff)
  have t: "trim_right (\<lambda>c. c = CHR ''='') (?b @ replicate ?k (CHR ''='')) = ?b"
    using std_body_marks [of s] by (intro trim_right_padding) (auto simp: list_all_iff)
  have v: "map (b64_val False) ?b = map Some (sextets s)"
    using sextets_less [of s] by (simp add: list_all_iff)
  have l: "(length (sextets s) + ?k) mod 4 = 0" "?k \<le> 2"
    using length_sextets [of s] padding_fills by blast+
  have n: "None \<notin> set (map Some (sextets s))" by (simp add: image_iff)
  show ?thesis
    unfolding std_decode_def e f t v Let_def using l n
    by (simp add: b64_groups_sextets o_def del: set_map)
qed

lemma TrimSpace_std_encode [simp]: "TrimSpace (std_encode s) = std_encode s"
proof -
  have "list_all (\<lambda>c. \<not> is_space c) (std_encode s)"
    using std_body_marks [of s] by (auto simp: std_encode_def Let_def list_all_iff is_space_def)
  then have "dropWhile is_space (std_encode s) = std_encode s"
    and "dropWhile is_space (rev (std_encode s)) = rev (std_encode s)"
    by (simp_all add: dropWhile_eq_self_iff list_all_iff del: rev_is_Nil_conv)
       (metis hd_in_set last_in_set hd_rev rev_is_Nil_conv)+
  then show ?thesis by (simp add: trim_def trim_left_def trim_right_def)
qed

lemma std_encode_Nil [simp]: "std_encode s = [] \<longleftrightarrow> s = []"
proof -
  have "sextets s = [] \<longleftrightarrow> s = []" by (cases s rule: sextets.cases) (simp_all add: Let_def)
  then show ?thesis by (auto simp: std_encode_def Let_def)
qed

end
