(* ===== verification/Card_Tokens.thy ===== *)
theory Card_Tokens
  imports Card_Issuing Card_Transactions Json_Decode Base64
begin

text \<open>
  The short-lived card tokens of \<^verbatim>\<open>internal/handler/card_token.go\<close> and the endpoints of
  \<^verbatim>\<open>internal/handler/cards.go\<close> that mint and redeem them: card data, reading the PIN and
  changing it. A token is an HS256 JWT in text form; the JSON of its claims is printed and parsed.

  RSA with X.509 keys is a parameter (\<open>pki\<close>): parsing a public key, encrypting with it (which draws
  random bytes) and this service's own key pair.
\<close>

section \<open>Claims\<close>

definition cardDataTokenTTL :: time where
  "cardDataTokenTTL = 5 * 60 * second"

definition cardDataTokenMaxTTL :: time where
  "cardDataTokenMaxTTL = 10 * 60 * second"

definition cardTokenTypeCardData :: string where
  "cardTokenTypeCardData = ''card-data''"

definition cardTokenTypePin :: string where
  "cardTokenTypePin = ''pin''"

definition cardTokenTypePinChange :: string where
  "cardTokenTypePinChange = ''pin-change''"

definition cardDataPath :: string where
  "cardDataPath = ''/cards/v1/token/card-data/data''"

definition cardPinPath :: string where
  "cardPinPath = ''/cards/v1/token/pin/data''"

record CardTokenClaims =
  cc_TokenType :: string
  cc_CardID :: string
  cc_PublicKey :: string
  cc_IssuedAt :: int
  cc_ExpiresAt :: int

definition zero_CardTokenClaims :: CardTokenClaims where
  "zero_CardTokenClaims =
     \<lparr>cc_TokenType = [], cc_CardID = [], cc_PublicKey = [], cc_IssuedAt = 0, cc_ExpiresAt = 0\<rparr>"

definition CardTokenClaims_json :: "CardTokenClaims \<Rightarrow> json" where
  "CardTokenClaims_json c =
     JObj ([(''tokenType'', JStr (cc_TokenType c)), (''cardId'', JStr (cc_CardID c))] @
           omit_empty ''publicKey'' (cc_PublicKey c) @
           [(''iat'', JInt (cc_IssuedAt c)), (''exp'', JInt (cc_ExpiresAt c))])"

text \<open>
  Decoding: a key finds its field without regard to case, \<^verbatim>\<open>null\<close> leaves it alone, a value of the
  wrong type is an error, and so is a number that is no 64-bit integer. Other keys are skipped.
\<close>

definition string_field :: "jtree \<Rightarrow> string \<Rightarrow> string option" where
  "string_field v old = (case v of TStr s \<Rightarrow> Some s | TNull \<Rightarrow> Some old | _ \<Rightarrow> None)"

definition int_field :: "jtree \<Rightarrow> int \<Rightarrow> int option" where
  "int_field v old = (case v of TNum l \<Rightarrow> atoi l | TNull \<Rightarrow> Some old | _ \<Rightarrow> None)"

definition set_claim :: "string \<times> jtree \<Rightarrow> CardTokenClaims \<Rightarrow> CardTokenClaims option" where
  "set_claim kv c =
     (let k = fold_name (fst kv); v = snd kv in
      if k = ''tokentype'' then map_option (\<lambda>s. c\<lparr>cc_TokenType := s\<rparr>) (string_field v (cc_TokenType c))
      else if k = ''cardid'' then map_option (\<lambda>s. c\<lparr>cc_CardID := s\<rparr>) (string_field v (cc_CardID c))
      else if k = ''publickey'' then map_option (\<lambda>s. c\<lparr>cc_PublicKey := s\<rparr>) (string_field v (cc_PublicKey c))
      else if k = ''iat'' then map_option (\<lambda>i. c\<lparr>cc_IssuedAt := i\<rparr>) (int_field v (cc_IssuedAt c))
      else if k = ''exp'' then map_option (\<lambda>i. c\<lparr>cc_ExpiresAt := i\<rparr>) (int_field v (cc_ExpiresAt c))
      else Some c)"

fun set_claims :: "(string \<times> jtree) list \<Rightarrow> CardTokenClaims \<Rightarrow> CardTokenClaims option" where
  "set_claims [] c = Some c"
| "set_claims (kv # kvs) c = (case set_claim kv c of None \<Rightarrow> None | Some c' \<Rightarrow> set_claims kvs c')"

definition unmarshal_claims :: "string \<Rightarrow> CardTokenClaims option" where
  "unmarshal_claims payload =
     (case json_parse payload of
        Some (TObj kvs) \<Rightarrow> set_claims kvs zero_CardTokenClaims
      | Some TNull \<Rightarrow> Some zero_CardTokenClaims
      | _ \<Rightarrow> None)"

section \<open>Tokens\<close>

definition generateCardToken :: "string \<Rightarrow> CardTokenClaims \<Rightarrow> string" where
  "generateCardToken secret claims =
     (let header = json_text (JObj [(''alg'', JStr ''HS256''), (''typ'', JStr ''JWT'')]);
          payload = json_text (CardTokenClaims_json claims);
          signingInput = raw_url_encode header @ ''.'' @ raw_url_encode payload
      in signingInput @ ''.'' @ raw_url_encode (hmac_sha256 secret signingInput))"

definition parseCardToken :: "string \<Rightarrow> time \<Rightarrow> string \<Rightarrow> go_error + CardTokenClaims" where
  "parseCardToken secret t token =
     (case split_on CHR ''.'' token of
        [h, p, sig] \<Rightarrow>
          if raw_url_encode (hmac_sha256 secret (h @ ''.'' @ p)) \<noteq> sig
          then Inl ''invalid token signature''
          else
            (case raw_url_decode p of
               None \<Rightarrow> Inl ''invalid token payload''
             | Some payload \<Rightarrow>
                 (case unmarshal_claims payload of
                    None \<Rightarrow> Inl ''invalid token claims''
                  | Some claims \<Rightarrow>
                      let now = Unix t in
                      if cc_ExpiresAt claims \<le> 0 then Inl ''token missing exp claim''
                      else if now > cc_ExpiresAt claims then Inl ''token expired''
                      else if int64 (cc_ExpiresAt claims - now) > cardDataTokenMaxTTL div second
                      then Inl ''token exceeds maximum allowed validity''
                      else Inr claims))
      | _ \<Rightarrow> Inl ''invalid token format'')"

text \<open>\<^verbatim>\<open>strings.TrimPrefix\<close> of the scheme, after the test that it is there.\<close>

definition bearerCardToken ::
  "time \<Rightarrow> request \<Rightarrow> string \<Rightarrow> 's Handler \<Rightarrow> go_error + CardTokenClaims" where
  "bearerCardToken t r wantType h =
     (let authz = Header_Get r ''Authorization'' in
      if \<not> has_prefix authz ''Bearer '' then Inl ''missing bearer token''
      else case parseCardToken (cfg_CardDataTokenSecret (h_config h)) t (drop 7 authz) of
             Inl err \<Rightarrow> Inl err
           | Inr claims \<Rightarrow>
               if cc_TokenType claims \<noteq> wantType
               then Inl (''token is for '' @ cc_TokenType claims @ '', not '' @ wantType)
               else Inr claims)"

section \<open>Derived card data\<close>

definition digest_digits :: "nat \<Rightarrow> string \<Rightarrow> string" where
  "digest_digits n msg = map (\<lambda>b. digit_char (byte_val b mod 10)) (take n (Sum256 msg))"

definition generateUnmaskedPAN :: "nat list \<Rightarrow> string \<Rightarrow> string" where
  "generateUnmaskedPAN bytes cardID =
     (if cardID = [] then randomDigits 16 bytes else digest_digits 16 cardID)"

definition generateCardPIN :: "nat list \<Rightarrow> string \<Rightarrow> string" where
  "generateCardPIN bytes cardID =
     (if cardID = [] then randomDigits 4 bytes else digest_digits 4 (''pin:'' @ cardID))"

definition isPlausiblePIN :: "string \<Rightarrow> bool" where
  "isPlausiblePIN pin \<longleftrightarrow> 4 \<le> length pin \<and> length pin \<le> 12 \<and> list_all is_digit pin"

definition month_days :: "int \<Rightarrow> int \<Rightarrow> int" where
  "month_days y m =
     (if m = 2 then if leap y then 29 else 28 else if m \<in> {4, 6, 9, 11} then 30 else 31)"

text \<open>\<^verbatim>\<open>time.Parse\<close> with the layout \<^verbatim>\<open>2006-01-02\<close>, as year, month and day.\<close>

definition parse_date :: "string \<Rightarrow> (int \<times> int \<times> int) option" where
  "parse_date s =
     (let y = int (digits_val (take 4 s)); m = int (digits_val (take 2 (drop 5 s)));
          d = int (digits_val (drop 8 s))
      in if length s = 10 \<and> list_all is_digit (take 4 s @ take 2 (drop 5 s) @ drop 8 s) \<and>
            s ! 4 = CHR ''-'' \<and> s ! 7 = CHR ''-'' \<and> 1 \<le> m \<and> m \<le> 12 \<and> 1 \<le> d \<and> d \<le> month_days y m
         then Some (y, m, d) else None)"

definition cardDataExpiryDate :: "'s Storage \<Rightarrow> 's Handler \<Rightarrow> string \<Rightarrow> string" where
  "cardDataExpiryDate S h cardID =
     (case s_GetCard S cardID (h_store h) of
        Inl _ \<Rightarrow> ''12/2030''
      | Inr crd \<Rightarrow>
          if c_ExpiryDate crd = [] then ''12/2030''
          else case parse_date (c_ExpiryDate crd) of
                 None \<Rightarrow> ''12/2030''
               | Some (y, m, d) \<Rightarrow> pad 2 m @ ''/'' @ pad 4 y)"

section \<open>Encryption\<close>

record 'k pki =
  pk_parse :: "string \<Rightarrow> go_error + 'k option"
  pk_encrypt :: "nat list \<Rightarrow> 'k \<Rightarrow> string \<Rightarrow> go_error + string"
  pk_decrypt :: "string \<Rightarrow> go_error + string"
  pk_service_spki :: "go_error + string"

definition encryptWithBase64SPKI :: "'k pki \<Rightarrow> nat list \<Rightarrow> string \<Rightarrow> string \<Rightarrow> go_error + string" where
  "encryptWithBase64SPKI K rand publicKeyB64 plaintext =
     (case std_decode (TrimSpace publicKeyB64) of
        None \<Rightarrow> Inl ''public key is not valid base64''
      | Some der \<Rightarrow>
          (case pk_parse K der of
             Inl err \<Rightarrow> Inl (''public key is not a valid SPKI key: '' @ err)
           | Inr None \<Rightarrow> Inl ''public key is not RSA''
           | Inr (Some key) \<Rightarrow>
               (case pk_encrypt K rand key plaintext of
                  Inl err \<Rightarrow> Inl (''encryption failed: '' @ err)
                | Inr c \<Rightarrow> Inr (std_encode c))))"

definition servicePublicKeyBase64 :: "'k pki \<Rightarrow> go_error + string" where
  "servicePublicKeyBase64 K =
     (case pk_service_spki K of Inl err \<Rightarrow> Inl err | Inr der \<Rightarrow> Inr (std_encode der))"

definition decryptWithServiceKey :: "'k pki \<Rightarrow> string \<Rightarrow> go_error + string" where
  "decryptWithServiceKey K cipherB64 =
     (case std_decode (TrimSpace cipherB64) of
        None \<Rightarrow> Inl ''cypher is not valid base64''
      | Some raw \<Rightarrow>
          (case pk_decrypt K raw of
             Inl err \<Rightarrow> Inl (''decryption failed: '' @ err)
           | Inr plaintext \<Rightarrow> Inr plaintext))"

section \<open>The endpoints\<close>

definition sendPlaceholderCardToken :: "string \<Rightarrow> string \<Rightarrow> response" where
  "sendPlaceholderCardToken tokenType cardID =
     (let token = ''mock-'' @ tokenType @ ''-'' @ cardID in
      sendJSON 200 (CardTokenResponse_json
        \<lparr>ctr_Token = token,
         ctr_Links = [\<lparr>ctl_Href = ''/cards/v1/proxy/clientDevice/'' @ tokenType @ ''?token='' @ token,
                       ctl_Rel = ''data'', ctl_Method = ''GET''\<rparr>]\<rparr>))"

definition no_public_key :: "GetCardTokenArgs \<Rightarrow> bool" where
  "no_public_key req \<longleftrightarrow>
     (case gct_PublicKey req of None \<Rightarrow> True | Some k \<Rightarrow> TrimSpace k = [])"

definition token_claims :: "time \<Rightarrow> string \<Rightarrow> GetCardTokenArgs \<Rightarrow> CardTokenClaims" where
  "token_claims now tokenType req =
     \<lparr>cc_TokenType = tokenType, cc_CardID = gct_CardID req,
      cc_PublicKey = (if tokenType \<noteq> cardTokenTypePinChange then TrimSpace (the (gct_PublicKey req)) else []),
      cc_IssuedAt = Unix now, cc_ExpiresAt = Unix (now + cardDataTokenTTL)\<rparr>"

definition GetCardToken ::
  "env \<Rightarrow> request \<Rightarrow> GetCardTokenArgs option \<Rightarrow> 's Handler \<Rightarrow> response \<times> 's Handler" where
  "GetCardToken e r body h =
     (let tokenType = (if URLParam r ''tokenType'' = [] then cardTokenTypeCardData else URLParam r ''tokenType'') in
      case body of
        None \<Rightarrow> (sendError 400 ''invalid request body'', h)
      | Some req \<Rightarrow>
          if gct_CardID req = [] then (sendError 400 ''cardId is required'', h)
          else if tokenType \<notin> {cardTokenTypeCardData, cardTokenTypePin, cardTokenTypePinChange}
          then (sendPlaceholderCardToken tokenType (gct_CardID req), h)
          else if tokenType \<noteq> cardTokenTypePinChange \<and> no_public_key req
          then (sendError 400 (''publicKey is required for a '' @ tokenType @
                  '' token: the response is encrypted with it''), h)
          else
            let token = generateCardToken (cfg_CardDataTokenSecret (h_config h))
                          (token_claims (time_now e 0) tokenType req);
                dataPath = (if tokenType = cardTokenTypeCardData then cardDataPath else cardPinPath)
            in (sendJSON 200 (CardTokenResponse_json
                 \<lparr>ctr_Token = token,
                  ctr_Links = [\<lparr>ctl_Href = cfg_PublicBaseURL (h_config h) @ dataPath, ctl_Rel = ''data'',
                                ctl_Method = (if tokenType = cardTokenTypePinChange then ''POST'' else ''GET'')\<rparr>]\<rparr>), h))"

text \<open>The payload is a bare string, or a map that is encoded with its keys in order.\<close>

definition sendEncryptedCardPayload :: "'k pki \<Rightarrow> nat list \<Rightarrow> string \<Rightarrow> string + json \<Rightarrow> response" where
  "sendEncryptedCardPayload K rand publicKey payload =
     (if publicKey = [] then sendError 400 ''token carries no publicKey''
      else
        let plaintext = (case payload of Inl s \<Rightarrow> s | Inr v \<Rightarrow> json_text v) in
        case encryptWithBase64SPKI K rand publicKey plaintext of
          Inl err \<Rightarrow> sendError 400 (''failed to encrypt with the supplied publicKey: '' @ err)
        | Inr cypher \<Rightarrow> sendJSON 200 (JObj [(''cypher'', JStr cypher)]))"

definition card_data :: "'s Storage \<Rightarrow> env \<Rightarrow> 's Handler \<Rightarrow> string \<Rightarrow> json" where
  "card_data S e h cardID =
     JObj [(''Cvc2'', JStr (randomDigits 3 (random_bytes e 1))),
           (''ExpiryDate'', JStr (cardDataExpiryDate S h cardID)),
           (''Pan'', JStr (generateUnmaskedPAN (random_bytes e 0) cardID))]"

definition GetCardData :: "'s Storage \<Rightarrow> 'k pki \<Rightarrow> env \<Rightarrow> request \<Rightarrow> 's Handler \<Rightarrow> response \<times> 's Handler" where
  "GetCardData S K e r h =
     (case bearerCardToken (time_now e 0) r cardTokenTypeCardData h of
        Inl _ \<Rightarrow> (sendError 401 ''invalid or expired token'', h)
      | Inr claims \<Rightarrow>
          (sendEncryptedCardPayload K (random_bytes e 2) (cc_PublicKey claims)
             (Inr (card_data S e h (cc_CardID claims))), h))"

definition card_pin :: "'s Storage \<Rightarrow> nat list \<Rightarrow> 's Handler \<Rightarrow> string \<Rightarrow> string" where
  "card_pin S bytes h cardID =
     (case s_GetCardPIN S cardID (h_store h) of
        Inl _ \<Rightarrow> generateCardPIN bytes cardID
      | Inr pin \<Rightarrow> if pin = [] then generateCardPIN bytes cardID else pin)"

definition GetCardPin :: "'s Storage \<Rightarrow> 'k pki \<Rightarrow> env \<Rightarrow> request \<Rightarrow> 's Handler \<Rightarrow> response \<times> 's Handler" where
  "GetCardPin S K e r h =
     (case bearerCardToken (time_now e 0) r cardTokenTypePin h of
        Inl _ \<Rightarrow> (sendError 401 ''invalid or expired token'', h)
      | Inr claims \<Rightarrow>
          (sendEncryptedCardPayload K (random_bytes e 1) (cc_PublicKey claims)
             (Inl (card_pin S (random_bytes e 0) h (cc_CardID claims))), h))"

definition SetCardPin ::
  "'s Storage \<Rightarrow> 'k pki \<Rightarrow> env \<Rightarrow> request \<Rightarrow> string option \<Rightarrow> 's Handler \<Rightarrow> response \<times> 's Handler" where
  "SetCardPin S K e r body h =
     (case bearerCardToken (time_now e 0) r cardTokenTypePinChange h of
        Inl _ \<Rightarrow> (sendError 401 ''invalid or expired token'', h)
      | Inr claims \<Rightarrow>
          (case body of
             None \<Rightarrow> (sendError 400 ''invalid request body'', h)
           | Some cypher \<Rightarrow>
               if cypher = [] then (sendError 400 ''cypher is required'', h)
               else
                 (case decryptWithServiceKey K cypher of
                    Inl _ \<Rightarrow> (sendError 400 (''could not decrypt cypher; it must be encrypted with this '' @
                       ''service's public key from GET /cards/v1/token/pin/public-key''), h)
                  | Inr plaintext \<Rightarrow>
                      let pin = TrimSpace plaintext in
                      if \<not> isPlausiblePIN pin then (sendError 400 ''decrypted pin must be 4 to 12 digits'', h)
                      else
                        let (err, st) = s_SetCardPIN S (cc_CardID claims) pin (h_store h);
                            h1 = h\<lparr>h_store := st\<rparr>
                        in if err \<noteq> None then (sendError 500 ''failed to store pin'', h1)
                           else (sendJSON 200 (JObj [(''status'', JStr ''success'')]), h1))))"

definition GetCardPinPublicKey :: "'k pki \<Rightarrow> 's Handler \<Rightarrow> response \<times> 's Handler" where
  "GetCardPinPublicKey K h =
     (case servicePublicKeyBase64 K of
        Inl _ \<Rightarrow> (sendError 500 ''public key unavailable'', h)
      | Inr publicKey \<Rightarrow>
          (sendJSON 200 (JObj [(''algorithm'', JStr ''RSA-PKCS1v15''), (''format'', JStr ''base64-spki''),
             (''publicKey'', JStr publicKey)]), h))"

section \<open>Minting and redeeming\<close>

definition int64_ok :: "int \<Rightarrow> bool" where
  "int64_ok i \<longleftrightarrow> - (2 ^ 63) \<le> i \<and> i < 2 ^ 63"

lemma fold_claim_names:
  "fold_name ''tokenType'' = ''tokentype''" "fold_name ''cardId'' = ''cardid''"
  "fold_name ''publicKey'' = ''publickey''" "fold_name ''iat'' = ''iat''" "fold_name ''exp'' = ''exp''"
  by code_simp+

lemma unmarshal_claims_text:
  assumes "int64_ok (cc_IssuedAt c)" and "int64_ok (cc_ExpiresAt c)"
  shows "unmarshal_claims (json_text (CardTokenClaims_json c)) = Some c"
proof -
  have "no_floats (CardTokenClaims_json c)"
    by (simp add: CardTokenClaims_json_def omit_empty_def)
  from json_roundtrip [OF this] show ?thesis
    using assms atoi_int_str [of "cc_IssuedAt c"] atoi_int_str [of "cc_ExpiresAt c"]
    by (simp add: unmarshal_claims_def CardTokenClaims_json_def omit_empty_def set_claim_def fold_claim_names
        string_field_def int_field_def zero_CardTokenClaims_def Let_def int64_ok_def del: json_text.simps)
qed

lemma no_dot: "CHR ''.'' \<notin> set (raw_url_encode s)"
  using raw_url_encode_marks [of s] by (auto simp: list_all_iff)

lemma split_token:
  "split_on CHR ''.'' ((raw_url_encode a @ ''.'' @ raw_url_encode b) @ ''.'' @ raw_url_encode c) =
     [raw_url_encode a, raw_url_encode b, raw_url_encode c]"
  using no_dot by (simp add: split_on_append_sep split_on_no_sep)

lemma parse_generated:
  assumes "int64_ok (cc_IssuedAt c)" and "int64_ok (cc_ExpiresAt c)"
  shows "parseCardToken secret t (generateCardToken secret c) =
     (if cc_ExpiresAt c \<le> 0 then Inl ''token missing exp claim''
      else if Unix t > cc_ExpiresAt c then Inl ''token expired''
      else if int64 (cc_ExpiresAt c - Unix t) > 600 then Inl ''token exceeds maximum allowed validity''
      else Inr c)"
proof -
  let ?h = "raw_url_encode (json_text (JObj [(''alg'', JStr ''HS256''), (''typ'', JStr ''JWT'')]))"
  let ?p = "raw_url_encode (json_text (CardTokenClaims_json c))"
  have s: "split_on CHR ''.'' (generateCardToken secret c) =
      [?h, ?p, raw_url_encode (hmac_sha256 secret (?h @ ''.'' @ ?p))]"
    unfolding generateCardToken_def Let_def split_token by simp
  show ?thesis
    unfolding parseCardToken_def s
    by (simp add: raw_url_roundtrip unmarshal_claims_text [OF assms] Let_def cardDataTokenMaxTTL_def
        del: raw_url_encode.simps json_text.simps)
qed

lemma atoi_bound: "atoi l = Some i \<Longrightarrow> i < 2 ^ 63"
  by (auto simp: atoi_def Let_def split: if_splits)

lemma set_claims_exp:
  "set_claims kvs c = Some c' \<Longrightarrow> cc_ExpiresAt c < 2 ^ 63 \<Longrightarrow> cc_ExpiresAt c' < 2 ^ 63"
proof (induction kvs arbitrary: c)
  case (Cons kv kvs)
  have "cc_ExpiresAt d < 2 ^ 63" if "set_claim kv c = Some d" for d
    using that Cons.prems(2) atoi_bound
    by (auto simp: set_claim_def Let_def int_field_def split: if_splits jtree.splits)
  with Cons show ?case by (auto split: option.splits)
qed simp

lemma unmarshal_claims_exp: "unmarshal_claims p = Some c \<Longrightarrow> cc_ExpiresAt c < 2 ^ 63"
  using set_claims_exp [of _ zero_CardTokenClaims c]
  by (auto simp: unmarshal_claims_def zero_CardTokenClaims_def split: option.splits jtree.splits)

lemma parse_accepts:
  assumes "parseCardToken secret t token = Inr claims"
  shows "\<exists>head payload body.
     token = (head @ ''.'' @ payload) @ ''.'' @ raw_url_encode (hmac_sha256 secret (head @ ''.'' @ payload)) \<and>
     raw_url_decode payload = Some body \<and> unmarshal_claims body = Some claims \<and>
     0 < cc_ExpiresAt claims \<and> Unix t \<le> cc_ExpiresAt claims \<and> int64 (cc_ExpiresAt claims - Unix t) \<le> 600"
proof -
  obtain a b c where s: "split_on CHR ''.'' token = [a, b, c]"
    using assms by (auto simp: parseCardToken_def split: list.splits)
  have "c = raw_url_encode (hmac_sha256 secret (a @ ''.'' @ b)) \<and>
      (\<exists>body. raw_url_decode b = Some body \<and> unmarshal_claims body = Some claims) \<and>
      0 < cc_ExpiresAt claims \<and> Unix t \<le> cc_ExpiresAt claims \<and> int64 (cc_ExpiresAt claims - Unix t) \<le> 600"
    using assms
    by (auto simp: parseCardToken_def s Let_def cardDataTokenMaxTTL_def split: if_splits option.splits)
  moreover have "token = (a @ ''.'' @ b) @ ''.'' @ c"
    using join_split_on [of "CHR ''.''" token] by (simp add: s)
  ultimately show ?thesis by blast
qed

end
