(* ===== verification/Card_Token_Properties.thy ===== *)
theory Card_Token_Properties
  imports Card_Tokens Memory_Laws Demo_State
begin

text \<open>
  The properties of the card tokens: what a minted token is good for and for how long, that none
  is accepted that this service did not sign, and that a PIN that was set is the PIN that is read.
\<close>

definition bearer_request :: "string \<Rightarrow> request" where
  "bearer_request token =
     \<lparr>r_Method = ''GET'', r_Path = cardDataPath, r_RawQuery = [], r_Host = ''h'', r_TLS = False,
      r_header = [(''authorization'', ''Bearer '' @ token)], r_query = [], r_params = [], r_form = []\<rparr>"

lemma bearer_request_header:
  "Header_Get (bearer_request token) ''Authorization'' = ''Bearer '' @ token"
proof -
  have "ToLower ''Authorization'' = ''authorization''" by code_simp
  then show ?thesis by (simp only: Header_Get_def bearer_request_def mstr_def) simp
qed

text \<open>An accepted bearer request carries a token that parses to claims of the wanted type.\<close>

lemma bearerCardToken_iff:
  "bearerCardToken t r want h = Inr claims \<longleftrightarrow>
     has_prefix (Header_Get r ''Authorization'') ''Bearer '' \<and> cc_TokenType claims = want \<and>
     parseCardToken (cfg_CardDataTokenSecret (h_config h)) t (drop 7 (Header_Get r ''Authorization'')) = Inr claims"
  by (auto simp: bearerCardToken_def Let_def split: sum.splits)

lemma Unix_later: "Unix (t + cardDataTokenTTL) = Unix t + 300"
  by (simp add: Unix_def cardDataTokenTTL_def)

lemma Unix_mono: "s \<le> t \<Longrightarrow> Unix s \<le> Unix t"
  by (simp add: Unix_def zdiv_mono1)

section \<open>Tokens\<close>

text \<open>
  C31: a token that the service hands out for a card is accepted for five minutes, for the card and
  the key it was asked for; it is refused by every endpoint for another type of token, and by every
  endpoint once the second of its expiry is over.
\<close>

theorem minted_token_round_trip:
  assumes "GetCardToken e r (Some req) h = (resp, h1)"
    and "rs_body resp = Json (CardTokenResponse_json \<lparr>ctr_Token = token, ctr_Links = links\<rparr>)"
    and "URLParam r ''tokenType'' = want" and "want \<in> {cardTokenTypeCardData, cardTokenTypePin, cardTokenTypePinChange}"
    and "rs_status resp = 200" and "62135596800 * second \<le> time_now e 0" and "time_now e 0 < 2 ^ 90"
    and "Header_Get q ''Authorization'' = ''Bearer '' @ token"
  shows "(time_now e 0 \<le> t \<and> t \<le> time_now e 0 + cardDataTokenTTL \<longrightarrow>
       (\<exists>claims. bearerCardToken t q want h = Inr claims \<and> cc_CardID claims = gct_CardID req \<and>
          (want \<noteq> cardTokenTypePinChange \<longrightarrow> cc_PublicKey claims = TrimSpace (the (gct_PublicKey req)))) \<and>
       (\<forall>other. other \<noteq> want \<longrightarrow> (\<exists>err. bearerCardToken t q other h = Inl err))) \<and>
    (time_now e 0 + cardDataTokenTTL + second \<le> t \<longrightarrow> (\<forall>any. \<exists>err. bearerCardToken t q any h = Inl err))"
proof -
  let ?c = "token_claims (time_now e 0) want req" and ?s = "cfg_CardDataTokenSecret (h_config h)"
  have want: "want \<noteq> []"
    using assms(4) by (auto simp: cardTokenTypeCardData_def cardTokenTypePin_def cardTokenTypePinChange_def)
  have token: "token = generateCardToken ?s ?c"
    using assms(1-5) want
    by (auto simp: GetCardToken_def Let_def CardTokenResponse_json_def CardTokenLink_json_def list_all_iff
        sendJSON_def split: if_splits)
  have exp: "cc_ExpiresAt ?c = Unix (time_now e 0) + 300" "cc_IssuedAt ?c = Unix (time_now e 0)"
    by (simp_all add: token_claims_def Unix_later)
  have now: "0 \<le> Unix (time_now e 0)" "Unix (time_now e 0) < 2 ^ 61"
    using Unix_mono [OF assms(6)] Unix_mono [of "time_now e 0" "2 ^ 90"] assms(7) by (simp_all add: Unix_def)
  have parse: "parseCardToken ?s u token =
     (if Unix u > Unix (time_now e 0) + 300 then Inl ''token expired''
      else if int64 (Unix (time_now e 0) + 300 - Unix u) > 600
      then Inl ''token exceeds maximum allowed validity'' else Inr ?c)" for u
    unfolding token using now parse_generated [of ?c ?s u] by (simp add: exp int64_ok_def)
  have bearer: "bearerCardToken u q other h = Inr claims \<longleftrightarrow>
      cc_TokenType claims = other \<and> parseCardToken ?s u token = Inr claims" for u other claims
    by (simp add: bearerCardToken_iff assms(8) has_prefix_def)
  have refused: "\<exists>err. bearerCardToken u q other h = Inl err" if "other \<noteq> want \<or> Unix u > Unix (time_now e 0) + 300"
    for u other
  proof (cases "bearerCardToken u q other h")
    case (Inr claims)
    with that bearer [of u other claims] show ?thesis
      unfolding parse by (auto simp: token_claims_def split: if_splits)
  qed auto
  have "bearerCardToken t q want h = Inr ?c" if "time_now e 0 \<le> t" "t \<le> time_now e 0 + cardDataTokenTTL"
  proof -
    have "Unix (time_now e 0) \<le> Unix t" "Unix t \<le> Unix (time_now e 0) + 300"
      using Unix_mono [OF that(1)] Unix_mono [OF that(2)] by (simp_all add: Unix_later)
    then show ?thesis
      unfolding bearer parse by (simp add: int64_def token_claims_def)
  qed
  moreover have "Unix t > Unix (time_now e 0) + 300" if "time_now e 0 + cardDataTokenTTL + second \<le> t"
    using Unix_mono [OF that] by (simp add: Unix_def cardDataTokenTTL_def)
  ultimately show ?thesis
    using refused by (auto simp: token_claims_def)
qed

definition demo_key :: string where
  "demo_key = std_encode ''KEY''"

lemma demo_key [simp]: "TrimSpace demo_key = demo_key" "demo_key \<noteq> []" "std_decode demo_key = Some ''KEY''"
  by (simp_all add: demo_key_def std_roundtrip)

definition demo_token_request :: request where
  "demo_token_request = (bearer_request [])\<lparr>r_params := [(''tokenType'', ''pin'')]\<rparr>"

definition demo_pin_token :: string where
  "demo_pin_token = generateCardToken (cfg_CardDataTokenSecret demo_config)
     (token_claims (time_now demo_env 0) ''pin'' \<lparr>gct_CardID = ''card1'', gct_PublicKey = Some demo_key\<rparr>)"

lemma demo_GetCardToken:
  "GetCardToken demo_env demo_token_request (Some \<lparr>gct_CardID = ''card1'', gct_PublicKey = Some demo_key\<rparr>) demo_handler =
     (sendJSON 200 (CardTokenResponse_json \<lparr>ctr_Token = demo_pin_token,
        ctr_Links = [\<lparr>ctl_Href = cfg_PublicBaseURL demo_config @ cardPinPath, ctl_Rel = ''data'', ctl_Method = ''GET''\<rparr>]\<rparr>),
      demo_handler)"
  by (simp add: GetCardToken_def demo_token_request_def bearer_request_def URLParam_def mstr_def
      cardTokenTypePin_def cardTokenTypeCardData_def cardTokenTypePinChange_def no_public_key_def
      demo_pin_token_def demo_handler_def NewHandler_def Let_def)

theorem minted_token_round_trip_witness:
  "\<exists>claims. bearerCardToken (time_now demo_env 0 + 60 * second) (bearer_request demo_pin_token) ''pin'' demo_handler = Inr claims \<and>
     cc_CardID claims = ''card1''"
  using minted_token_round_trip [OF demo_GetCardToken, of demo_pin_token
      "[\<lparr>ctl_Href = cfg_PublicBaseURL demo_config @ cardPinPath, ctl_Rel = ''data'', ctl_Method = ''GET''\<rparr>]" "''pin''" "bearer_request demo_pin_token"
      "time_now demo_env 0 + 60 * second"]
  by (simp add: bearer_request_header demo_token_request_def URLParam_def mstr_def cardTokenTypePin_def
      CardTokenResponse_json_def CardTokenLink_json_def demo_env_def cardDataTokenTTL_def
      cardTokenTypePinChange_def) blast

text \<open>
  C32: a card endpoint accepts nothing but a token of its own type whose last part is the HMAC of
  the first two under the service's secret, whose claims have not expired, and which expires
  within ten minutes of now.
\<close>

theorem accepted_token_was_signed:
  assumes "bearerCardToken t r want h = Inr claims" and "0 \<le> Unix t"
  shows "\<exists>head payload body.
     Header_Get r ''Authorization'' = ''Bearer '' @ (head @ ''.'' @ payload) @ ''.'' @
       raw_url_encode (hmac_sha256 (cfg_CardDataTokenSecret (h_config h)) (head @ ''.'' @ payload)) \<and>
     raw_url_decode payload = Some body \<and> unmarshal_claims body = Some claims \<and>
     cc_TokenType claims = want \<and> Unix t \<le> cc_ExpiresAt claims \<and> cc_ExpiresAt claims \<le> Unix t + 600"
proof -
  let ?a = "Header_Get r ''Authorization''"
  have b: "has_prefix ?a ''Bearer ''" "cc_TokenType claims = want"
      "parseCardToken (cfg_CardDataTokenSecret (h_config h)) t (drop 7 ?a) = Inr claims"
    using assms(1) by (simp_all add: bearerCardToken_iff)
  obtain head payload body where p:
      "drop 7 ?a = (head @ ''.'' @ payload) @ ''.'' @
         raw_url_encode (hmac_sha256 (cfg_CardDataTokenSecret (h_config h)) (head @ ''.'' @ payload))"
      "raw_url_decode payload = Some body" "unmarshal_claims body = Some claims"
      "Unix t \<le> cc_ExpiresAt claims" "int64 (cc_ExpiresAt claims - Unix t) \<le> 600"
    using parse_accepts [OF b(3)] by blast
  have "?a = ''Bearer '' @ drop 7 ?a" using has_prefixD [OF b(1)] by (simp add: numeral_eq_Suc)
  moreover have "int64 (cc_ExpiresAt claims - Unix t) = cc_ExpiresAt claims - Unix t"
    using unmarshal_claims_exp [OF p(3)] assms(2) p(4) by (simp add: int64_def)
  ultimately show ?thesis using p b(2) by fastforce
qed

lemma demo_bearer:
  "bearerCardToken (time_now demo_env 0) (bearer_request demo_pin_token) ''pin'' demo_handler =
     Inr (token_claims (time_now demo_env 0) ''pin'' \<lparr>gct_CardID = ''card1'', gct_PublicKey = Some demo_key\<rparr>)"
  unfolding bearerCardToken_iff bearer_request_header
  by (simp add: demo_pin_token_def demo_handler_def NewHandler_def parse_generated int64_ok_def int64_def
      token_claims_def demo_env_def Unix_def cardDataTokenTTL_def has_prefix_def)

theorem accepted_token_was_signed_witness:
  "\<exists>head payload.
     demo_pin_token = (head @ ''.'' @ payload) @ ''.'' @ raw_url_encode (hmac_sha256 ''s3cret'' (head @ ''.'' @ payload))"
  using accepted_token_was_signed [OF demo_bearer]
  by (auto simp: bearer_request_header demo_env_def Unix_def demo_handler_def NewHandler_def demo_config_def)

section \<open>PINs\<close>

text \<open>
  C33: a PIN that the service accepts is 4 to 12 digits long, and from then on a token for reading
  the PIN of that card gets exactly this PIN, encrypted with the key in the token.
\<close>

theorem pin_set_is_pin_read:
  assumes "SetCardPin memory_storage K e r (Some cypher) h = (resp, h1)" and "rs_status resp = 200"
    and "bearerCardToken (time_now e 0) r cardTokenTypePinChange h = Inr change"
    and "decryptWithServiceKey K cypher = Inr plaintext"
    and "bearerCardToken (time_now e2 0) r2 cardTokenTypePin h1 = Inr reading"
    and "cc_CardID reading = cc_CardID change"
  shows "isPlausiblePIN (TrimSpace plaintext) \<and>
    GetCardPin memory_storage K e2 r2 h1 =
      (sendEncryptedCardPayload K (random_bytes e2 1) (cc_PublicKey reading) (Inl (TrimSpace plaintext)), h1)"
proof -
  have p: "isPlausiblePIN (TrimSpace plaintext)"
    using assms(1-4) by (auto simp: SetCardPin_def Let_def split: if_splits)
  then have "TrimSpace plaintext \<noteq> []" by (auto simp: isPlausiblePIN_def)
  moreover have "mem_GetCardPIN (cc_CardID change) (h_store h1) = Inr (TrimSpace plaintext)"
    using assms(1-4) p
    by (auto simp: SetCardPin_def mem_SetCardPIN_def mem_GetCardPIN_def Let_def split: if_splits prod.splits)
  ultimately show ?thesis
    using p by (simp add: GetCardPin_def assms(5,6) card_pin_def)
qed

text \<open>A key service that encrypts by doing nothing.\<close>

definition open_pki :: "unit pki" where
  "open_pki =
     \<lparr>pk_parse = (\<lambda>_. Inr (Some ())), pk_encrypt = (\<lambda>_ _ p. Inr p), pk_decrypt = Inr,
      pk_service_spki = Inr ''KEY''\<rparr>"

definition demo_change_token :: string where
  "demo_change_token = generateCardToken (cfg_CardDataTokenSecret demo_config)
     (token_claims (time_now demo_env 0) ''pin-change'' \<lparr>gct_CardID = ''card1'', gct_PublicKey = None\<rparr>)"

lemma demo_change_bearer:
  "bearerCardToken (time_now demo_env 0) (bearer_request demo_change_token) cardTokenTypePinChange demo_handler =
     Inr (token_claims (time_now demo_env 0) ''pin-change'' \<lparr>gct_CardID = ''card1'', gct_PublicKey = None\<rparr>)"
  unfolding bearerCardToken_iff bearer_request_header
  by (simp add: demo_change_token_def demo_handler_def NewHandler_def parse_generated int64_ok_def int64_def
      token_claims_def demo_env_def Unix_def cardDataTokenTTL_def has_prefix_def cardTokenTypePinChange_def)

theorem pin_set_is_pin_read_witness:
  "\<exists>resp h1. SetCardPin memory_storage open_pki demo_env (bearer_request demo_change_token)
       (Some (std_encode '' 1234'')) demo_handler = (resp, h1) \<and>
     rs_body (fst (GetCardPin memory_storage open_pki demo_env (bearer_request demo_pin_token) h1)) =
       Json (JObj [(''cypher'', JStr (std_encode ''1234''))])"
proof -
  have d: "decryptWithServiceKey open_pki (std_encode '' 1234'') = Inr '' 1234''"
    by (simp add: decryptWithServiceKey_def std_roundtrip open_pki_def)
  have p: "TrimSpace '' 1234'' = ''1234''" "isPlausiblePIN ''1234''"
    by code_simp+
  obtain resp h1 where s: "SetCardPin memory_storage open_pki demo_env (bearer_request demo_change_token)
       (Some (std_encode '' 1234'')) demo_handler = (resp, h1)" by fastforce
  have st: "rs_status resp = 200" "h_config h1 = h_config demo_handler"
    using s unfolding SetCardPin_def demo_change_bearer sum.case option.case d Let_def p
    by (auto simp: p token_claims_def mem_SetCardPIN_def demo_defs)
  have "bearerCardToken (time_now demo_env 0) (bearer_request demo_pin_token) cardTokenTypePin h1 =
     Inr (token_claims (time_now demo_env 0) ''pin'' \<lparr>gct_CardID = ''card1'', gct_PublicKey = Some demo_key\<rparr>)"
    using demo_bearer by (simp add: bearerCardToken_iff st(2) cardTokenTypePin_def)
  from pin_set_is_pin_read [OF s st(1) demo_change_bearer d(1) this]
  have g: "GetCardPin memory_storage open_pki demo_env (bearer_request demo_pin_token) h1 =
      (sendEncryptedCardPayload open_pki (random_bytes demo_env 1) (TrimSpace demo_key) (Inl ''1234''), h1)"
    by (simp add: p(1) token_claims_def cardTokenTypePinChange_def)
  then have "rs_body (fst (GetCardPin memory_storage open_pki demo_env (bearer_request demo_pin_token) h1)) =
      Json (JObj [(''cypher'', JStr (std_encode ''1234''))])"
    by (simp add: g sendEncryptedCardPayload_def encryptWithBase64SPKI_def open_pki_def)
  with s show ?thesis by blast
qed

end
