(* ===== verification/Card_Scenarios.thy ===== *)
theory Card_Scenarios
  imports Card_Tokens Payments "HOL-Library.List_Lexorder" "HOL-Library.Char_ord" "HOL-Library.Multiset"
begin

text \<open>
  The catalogue of card transactions of \<^verbatim>\<open>internal/handler/cardscenarios.go\<close>: the text of the
  embedded file is an argument, and so are the orders in which the loops visit the two levels of
  maps. The keys are built from letters and digits; \<^verbatim>\<open>strings.ToLower\<close> is the one on ASCII.
\<close>

section \<open>Keys\<close>

definition is_slug_char :: "char \<Rightarrow> bool" where
  "is_slug_char c \<longleftrightarrow> (97 \<le> byte_val c \<and> byte_val c \<le> 122) \<or> (48 \<le> byte_val c \<and> byte_val c \<le> 57)"

text \<open>The loop over the letters; the flag is \<^verbatim>\<open>lastDash\<close>.\<close>

fun slug_from :: "bool \<Rightarrow> string \<Rightarrow> string" where
  "slug_from lastDash [] = []"
| "slug_from lastDash (c # cs) =
     (if is_slug_char c then c # slug_from False cs
      else if lastDash then slug_from True cs
      else CHR ''-'' # slug_from True cs)"

definition slugify :: "string \<Rightarrow> string" where
  "slugify s = trim (\<lambda>c. c = CHR ''-'') (slug_from True (ToLower s))"

definition scenarioKey :: "string \<Rightarrow> string \<Rightarrow> string \<Rightarrow> string" where
  "scenarioKey operation classification caseName =
     join_with ''.'' (filter (\<lambda>slug. slug \<noteq> []) (map slugify [operation, classification, caseName]))"

definition trimLabel :: "string \<Rightarrow> string \<Rightarrow> string" where
  "trimLabel label prefix =
     (let p = prefix @ '' - '' in TrimSpace (if has_prefix label p then drop (length p) label else label))"

section \<open>The entries\<close>

text \<open>A payload is kept as it is written; it is absent where the entry has none.\<close>

record scenarioEntry =
  se_Case :: string
  se_Payload :: "jtree option"

record CardTxScenario =
  sc_Key :: string
  sc_Operation :: string
  sc_Classification :: string
  sc_Case :: string
  sc_Payload :: "jtree option"

definition newScenario :: "string \<Rightarrow> string \<Rightarrow> scenarioEntry \<Rightarrow> CardTxScenario" where
  "newScenario operation classification en =
     \<lparr>sc_Key = scenarioKey operation classification (se_Case en), sc_Operation = operation,
      sc_Classification = classification, sc_Case = se_Case en, sc_Payload = se_Payload en\<rparr>"

text \<open>Decoding: a \<^verbatim>\<open>null\<close> leaves a value as it was, and what has another shape is an error.\<close>

fun set_entry :: "(string \<times> jtree) list \<Rightarrow> scenarioEntry \<Rightarrow> scenarioEntry option" where
  "set_entry [] en = Some en"
| "set_entry ((k, v) # kvs) en =
     (if fold_name k = ''case''
      then (case string_field v (se_Case en) of
              None \<Rightarrow> None
            | Some s \<Rightarrow> set_entry kvs (en\<lparr>se_Case := s\<rparr>))
      else if fold_name k = ''payload'' then set_entry kvs (en\<lparr>se_Payload := Some v\<rparr>)
      else set_entry kvs en)"

definition decode_entry :: "jtree \<Rightarrow> scenarioEntry option" where
  "decode_entry t =
     (let zero = \<lparr>se_Case = [], se_Payload = None\<rparr> in
      case t of TNull \<Rightarrow> Some zero | TObj kvs \<Rightarrow> set_entry kvs zero | _ \<Rightarrow> None)"

definition decode_entries :: "jtree \<Rightarrow> scenarioEntry list option" where
  "decode_entries t =
     (case t of TNull \<Rightarrow> Some [] | TArr ts \<Rightarrow> all_some (map decode_entry ts) | _ \<Rightarrow> None)"

definition decode_groups :: "jtree \<Rightarrow> scenarioEntry list gomap option" where
  "decode_groups t =
     (case t of
        TNull \<Rightarrow> Some []
      | TObj kvs \<Rightarrow> map_option as_gomap
          (all_some (map (\<lambda>(k, v). map_option (Pair k) (decode_entries v)) kvs))
      | _ \<Rightarrow> None)"

section \<open>The catalogue\<close>

text \<open>The pairs of a map in the order in which a loop meets them.\<close>

definition range_pairs :: "key_order \<Rightarrow> 'a gomap \<Rightarrow> (string \<times> 'a) list" where
  "range_pairs ord m = List.map_filter (\<lambda>k. map_option (Pair k) (mget m k)) (ord (map fst m))"

definition operation_scenarios :: "key_order \<Rightarrow> string \<Rightarrow> jtree \<Rightarrow> go_error + CardTxScenario list" where
  "operation_scenarios ord opLabel opBody =
     (let operation = trimLabel opLabel ''Operation'' in
      case decode_entries opBody of
        Some flat \<Rightarrow> Inr (map (newScenario operation []) flat)
      | None \<Rightarrow>
          (case decode_groups opBody of
             None \<Rightarrow> Inl (''operation '' @ go_quote opLabel)
           | Some groups \<Rightarrow>
               Inr (concat (map (\<lambda>(clsLabel, entries).
                  map (newScenario operation (trimLabel clsLabel ''Transaction Classification'')) entries)
                  (range_pairs ord groups)))))"

fun collect_operations ::
  "(string \<Rightarrow> key_order) \<Rightarrow> (string \<times> jtree) list \<Rightarrow> go_error + CardTxScenario list" where
  "collect_operations ords [] = Inr []"
| "collect_operations ords ((opLabel, opBody) # ops) =
     (case operation_scenarios (ords opLabel) opLabel opBody of
        Inl err \<Rightarrow> Inl err
      | Inr xs \<Rightarrow>
          (case collect_operations ords ops of Inl err \<Rightarrow> Inl err | Inr ys \<Rightarrow> Inr (xs @ ys)))"

fun assert_unique :: "string gomap \<Rightarrow> CardTxScenario list \<Rightarrow> go_error option" where
  "assert_unique seen [] = None"
| "assert_unique seen (s # ss) =
     (case mget seen (sc_Key s) of
        Some prev \<Rightarrow> Some (''duplicate scenario key '' @ go_quote (sc_Key s) @ '' ('' @ prev @ '' and '' @
                            sc_Case s @ '')'')
      | None \<Rightarrow> assert_unique (mput (sc_Key s) (sc_Case s) seen) ss)"

definition assertUniqueKeys :: "CardTxScenario list \<Rightarrow> go_error option" where
  "assertUniqueKeys scenarios = assert_unique [] scenarios"

text \<open>
  The order of equal keys after \<^verbatim>\<open>sort.Slice\<close> is not specified, and of no consequence: the check
  that follows refuses them.
\<close>

definition loadCardScenarios ::
  "key_order \<Rightarrow> (string \<Rightarrow> key_order) \<Rightarrow> go_error + string \<Rightarrow> go_error + CardTxScenario list" where
  "loadCardScenarios ord ords file =
     (case file of
        Inl err \<Rightarrow> Inl err
      | Inr raw \<Rightarrow>
          (case (case json_parse raw of
                   Some (TObj kvs) \<Rightarrow> Some (as_gomap kvs)
                 | Some TNull \<Rightarrow> Some []
                 | _ \<Rightarrow> None) of
             None \<Rightarrow> Inl ''top level: not an object''
           | Some byOperation \<Rightarrow>
               (case collect_operations ords (range_pairs ord byOperation) of
                  Inl err \<Rightarrow> Inl err
                | Inr found \<Rightarrow>
                    let scenarios = sort_key sc_Key found in
                    case assertUniqueKeys scenarios of
                      Some err \<Rightarrow> Inl err
                    | None \<Rightarrow> Inr scenarios)))"

definition listCardScenarios :: "CardTxScenario list \<Rightarrow> CardTxScenario list" where
  "listCardScenarios cardScenarioIndex = cardScenarioIndex"

definition findCardScenario :: "CardTxScenario list \<Rightarrow> string \<Rightarrow> CardTxScenario option" where
  "findCardScenario cardScenarioIndex key =
     (let want = ToLower (TrimSpace key) in List.find (\<lambda>s. sc_Key s = want) cardScenarioIndex)"

section \<open>The catalogue does not depend on the order of the loops\<close>

lemma map_filter_all_Some: "(\<And>x. x \<in> set xs \<Longrightarrow> f x = Some (g x)) \<Longrightarrow> List.map_filter f xs = map g xs"
  by (induction xs) (simp_all add: List.map_filter_simps)

lemma mset_range_pairs:
  assumes "permutes_keys ord" and "wf_map m"
  shows "mset (range_pairs ord m) = mset m"
proof -
  let ?ks = "map fst m" and ?pair = "\<lambda>k. (k, the (mget m k))"
  have o: "distinct (ord ?ks)" "set (ord ?ks) = set ?ks" using assms by (simp_all add: permutes_keys_def wf_map_def)
  have known: "map_option (Pair k) (mget m k) = Some (?pair k)" if "k \<in> set (ord ?ks)" for k
    using that assms(2) o(2) by (auto simp: wf_map_def)
  have "range_pairs ord m = map ?pair (ord ?ks)"
    unfolding range_pairs_def by (rule map_filter_all_Some) (rule known)
  moreover have "mset (ord ?ks) = mset ?ks"
    using o assms(2) set_eq_iff_mset_eq_distinct [of "ord ?ks" ?ks] unfolding wf_map_def by blast
  ultimately have "mset (range_pairs ord m) = mset (map ?pair ?ks)" by (metis mset_map)
  moreover have "map ?pair ?ks = m" using assms(2) by (auto simp: wf_map_def intro!: map_idI)
  ultimately show ?thesis by (simp only:)
qed

lemma wf_decode_groups: "decode_groups t = Some g \<Longrightarrow> wf_map g"
  by (auto simp: decode_groups_def split: jtree.splits)

lemma operation_scenarios_orders:
  assumes "permutes_keys o1" and "permutes_keys o2" and "operation_scenarios o1 l b = Inr xs"
  shows "\<exists>ys. operation_scenarios o2 l b = Inr ys \<and> mset ys = mset xs"
proof (cases "decode_entries b")
  case None
  with assms(3) obtain g where g: "decode_groups b = Some g"
    by (auto simp: operation_scenarios_def Let_def split: option.splits)
  let ?f = "\<lambda>(clsLabel, entries).
    map (newScenario (trimLabel l ''Operation'') (trimLabel clsLabel ''Transaction Classification'')) entries"
  have "mset (concat (map ?f (range_pairs o1 g))) = mset (concat (map ?f (range_pairs o2 g)))"
    using mset_range_pairs [OF assms(1) wf_decode_groups [OF g]] mset_range_pairs [OF assms(2) wf_decode_groups [OF g]]
    by (simp add: mset_concat sum_mset_sum_list [symmetric])
  with assms(3) None g show ?thesis by (auto simp: operation_scenarios_def Let_def)
next
  case (Some flat)
  with assms(3) show ?thesis by (simp add: operation_scenarios_def Let_def)
qed

definition found_in :: "(string \<Rightarrow> key_order) \<Rightarrow> string \<times> jtree \<Rightarrow> CardTxScenario list" where
  "found_in ords p = projr (operation_scenarios (ords (fst p)) (fst p) (snd p))"

lemma collect_operations_Inr_iff:
  "collect_operations ords ops = Inr xs \<longleftrightarrow>
     (\<forall>p\<in>set ops. \<not> isl (operation_scenarios (ords (fst p)) (fst p) (snd p))) \<and>
     xs = concat (map (found_in ords) ops)"
proof (induction ops arbitrary: xs)
  case (Cons p ops)
  obtain l b where p: "p = (l, b)" by fastforce
  show ?case
  proof (cases "collect_operations ords ops")
    case (Inr ys)
    with Cons.IH [of ys] show ?thesis by (auto simp: p found_in_def split: sum.splits)
  next
    case (Inl e)
    then have "\<not> (\<forall>p\<in>set ops. \<not> isl (operation_scenarios (ords (fst p)) (fst p) (snd p)))"
      using Cons.IH [of "concat (map (found_in ords) ops)"] by auto
    with Inl show ?thesis by (auto simp: p split: sum.splits)
  qed
qed auto

lemma collect_operations_orders:
  assumes "\<And>l. permutes_keys (o1 l)" and "\<And>l. permutes_keys (o2 l)" and "mset ops2 = mset ops1"
    and "collect_operations o1 ops1 = Inr xs"
  shows "\<exists>ys. collect_operations o2 ops2 = Inr ys \<and> mset ys = mset xs"
proof -
  have s: "set ops2 = set ops1" using assms(3) by (metis set_mset_mset)
  have each: "\<not> isl (operation_scenarios (o2 (fst p)) (fst p) (snd p)) \<and> mset (found_in o2 p) = mset (found_in o1 p)"
    if "p \<in> set ops1" for p
  proof -
    from that assms(4) obtain zs where zs: "operation_scenarios (o1 (fst p)) (fst p) (snd p) = Inr zs"
      by (auto simp: collect_operations_Inr_iff isl_def) (meson sum.exhaust)
    from operation_scenarios_orders [OF assms(1) assms(2) [of "fst p"] zs] show ?thesis
      by (auto simp: found_in_def zs)
  qed
  have "mset (concat (map (found_in o2) ops2)) = sum_mset (image_mset (\<lambda>p. mset (found_in o2 p)) (mset ops1))"
    by (simp add: mset_concat sum_mset_sum_list [symmetric] assms(3) [symmetric] comp_def)
  also have "\<dots> = sum_mset (image_mset (\<lambda>p. mset (found_in o1 p)) (mset ops1))"
    using each by (auto intro!: arg_cong [of _ _ sum_mset] image_mset_cong)
  also have "\<dots> = mset xs"
    using assms(4) by (simp add: collect_operations_Inr_iff mset_concat sum_mset_sum_list [symmetric] comp_def)
  finally show ?thesis using each s by (auto simp: collect_operations_Inr_iff)
qed

lemma assert_unique_None_iff:
  "assert_unique seen ss = None \<longleftrightarrow> distinct (map sc_Key ss) \<and> (\<forall>s\<in>set ss. mget seen (sc_Key s) = None)"
  by (induction ss arbitrary: seen) (auto simp: image_iff simp del: map_of_eq_None_iff split: option.splits if_splits)

lemma assertUniqueKeys_None_iff: "assertUniqueKeys ss = None \<longleftrightarrow> distinct (map sc_Key ss)"
  by (simp add: assertUniqueKeys_def assert_unique_None_iff)

lemma loaded_sorted:
  assumes "loadCardScenarios ord ords file = Inr xs"
  shows "sorted (map sc_Key xs)" and "distinct (map sc_Key xs)"
  using assms
  by (auto simp: loadCardScenarios_def Let_def assertUniqueKeys_None_iff simp del: distinct_map
      split: sum.splits option.splits)

lemma loadCardScenarios_orders:
  assumes "permutes_keys o1" and "permutes_keys o2" and "\<And>l. permutes_keys (os1 l)" and "\<And>l. permutes_keys (os2 l)"
    and "loadCardScenarios o1 os1 file = Inr xs"
  shows "loadCardScenarios o2 os2 file = Inr xs"
proof -
  define top where "top raw = (case json_parse raw of Some (TObj kvs) \<Rightarrow> Some (as_gomap kvs)
     | Some TNull \<Rightarrow> Some [] | _ \<Rightarrow> None)" for raw
  have load: "loadCardScenarios ord ords (Inr raw) =
      (case top raw of None \<Rightarrow> Inl ''top level: not an object''
       | Some byOperation \<Rightarrow>
           (case collect_operations ords (range_pairs ord byOperation) of
              Inl err \<Rightarrow> Inl err
            | Inr found \<Rightarrow>
                let scenarios = sort_key sc_Key found in
                case assertUniqueKeys scenarios of Some err \<Rightarrow> Inl err | None \<Rightarrow> Inr scenarios))" for ord ords raw
    by (simp add: loadCardScenarios_def top_def)
  from assms(5) obtain raw where f: "file = Inr raw" by (auto simp: loadCardScenarios_def split: sum.splits)
  from assms(5) obtain ops found where ops: "top raw = Some ops"
    and c: "collect_operations os1 (range_pairs o1 ops) = Inr found" and xs: "xs = sort_key sc_Key found"
    by (auto simp: f load Let_def split: option.splits sum.splits)
  have "wf_map ops" using ops by (auto simp: top_def split: option.splits jtree.splits)
  then have "mset (range_pairs o2 ops) = mset (range_pairs o1 ops)" using assms(1,2) by (simp add: mset_range_pairs)
  from collect_operations_orders [of os1 os2, OF assms(3,4) this c] obtain found2
    where c2: "collect_operations os2 (range_pairs o2 ops) = Inr found2" and m: "mset found2 = mset found" by blast
  have d: "distinct (map sc_Key xs)" by (rule loaded_sorted [OF assms(5)])
  have mx: "mset (sort_key sc_Key found2) = mset xs" by (simp add: xs m)
  then have "distinct (map sc_Key (sort_key sc_Key found2))" using d by (metis mset_eq_imp_distinct_iff mset_map)
  moreover have "sort_key sc_Key found2 = xs"
  proof (rule map_sorted_distinct_set_unique)
    show "inj_on sc_Key (set (sort_key sc_Key found2) \<union> set xs)"
      using d mset_eq_setD [OF mx] by (simp add: distinct_map)
    show "sorted (map sc_Key xs)" by (simp add: xs)
    show "set (sort_key sc_Key found2) = set xs" by (rule mset_eq_setD [OF mx])
  qed (use d calculation in simp_all)
  ultimately show ?thesis
    using d assertUniqueKeys_None_iff [of xs] by (simp add: f load ops c2 del: distinct_map)
qed

section \<open>Every key selects its scenario\<close>

definition key_char :: "char \<Rightarrow> bool" where
  "key_char c \<longleftrightarrow> is_slug_char c \<or> c = CHR ''-'' \<or> c = CHR ''.''"

lemma key_char_plain:
  assumes "key_char c"
  shows "to_lower_char c = c" and "\<not> is_space c"
proof -
  have "byte_val c = 45 \<or> byte_val c = 46 \<or> (48 \<le> byte_val c \<and> byte_val c \<le> 57) \<or>
      (97 \<le> byte_val c \<and> byte_val c \<le> 122)"
    using assms by (auto simp: key_char_def is_slug_char_def)
  then show "to_lower_char c = c" and "\<not> is_space c"
    by (auto simp: to_lower_char_def is_space_def Let_def)
qed

lemma slug_from_chars: "c \<in> set (slug_from b s) \<Longrightarrow> key_char c"
  by (induction b s rule: slug_from.induct) (auto simp: key_char_def split: if_splits)

lemma trim_subset: "set (trim p s) \<subseteq> set s"
  by (auto simp: trim_def trim_left_def trim_right_def dest!: set_dropWhileD)

lemma slugify_chars: "c \<in> set (slugify s) \<Longrightarrow> key_char c"
  unfolding slugify_def using trim_subset slug_from_chars by blast

lemma set_join_with: "set (join_with sep ps) \<subseteq> set sep \<union> \<Union> (set ` set ps)"
  by (induction sep ps rule: join_with.induct) auto

lemma scenarioKey_chars: "c \<in> set (scenarioKey op cls cs) \<Longrightarrow> key_char c"
  using set_join_with [of "''.''" "filter (\<lambda>slug. slug \<noteq> []) (map slugify [op, cls, cs])"] slugify_chars
  by (auto simp: scenarioKey_def key_char_def simp del: join_with.simps split: if_splits)

lemma trim_id: "(\<And>c. c \<in> set s \<Longrightarrow> \<not> p c) \<Longrightarrow> trim p s = s"
proof -
  assume "\<And>c. c \<in> set s \<Longrightarrow> \<not> p c"
  then have "dropWhile p s = s" "dropWhile p (rev s) = rev s"
    by (metis dropWhile_eq_self_iff hd_in_set) (metis \<open>\<And>c. c \<in> set s \<Longrightarrow> \<not> p c\<close> dropWhile_eq_self_iff hd_in_set set_rev)
  then show ?thesis by (simp add: trim_def trim_left_def trim_right_def)
qed

lemma ToLower_TrimSpace_key:
  assumes "\<And>c. c \<in> set k \<Longrightarrow> key_char c"
  shows "ToLower (TrimSpace k) = k"
  using assms key_char_plain by (simp add: trim_id map_idI)

lemma found_keys:
  assumes "operation_scenarios ord l b = Inr xs" and "s \<in> set xs"
  shows "sc_Key s = scenarioKey (sc_Operation s) (sc_Classification s) (sc_Case s)"
  using assms by (auto simp: operation_scenarios_def Let_def newScenario_def split: option.splits)

lemma loaded_keys:
  assumes "loadCardScenarios ord ords file = Inr xs" and "s \<in> set xs"
  shows "sc_Key s = scenarioKey (sc_Operation s) (sc_Classification s) (sc_Case s)"
proof -
  from assms(1) obtain ops ys where c: "collect_operations ords ops = Inr ys" and xs: "xs = sort_key sc_Key ys"
    by (auto simp: loadCardScenarios_def Let_def split: sum.splits option.splits)
  with assms(2) obtain p where p: "p \<in> set ops" "s \<in> set (found_in ords p)"
    by (auto simp: collect_operations_Inr_iff)
  with c obtain zs where "operation_scenarios (ords (fst p)) (fst p) (snd p) = Inr zs"
    by (auto simp: collect_operations_Inr_iff isl_def) (meson sum.exhaust)
  with p found_keys show ?thesis by (fastforce simp: found_in_def)
qed

lemma find_by_key:
  "s \<in> set xs \<Longrightarrow> distinct (map sc_Key xs) \<Longrightarrow> List.find (\<lambda>t. sc_Key t = sc_Key s) xs = Some s"
  by (induction xs) auto

lemma findCardScenario_loaded:
  assumes "loadCardScenarios ord ords file = Inr xs" and "s \<in> set xs" and "ToLower (TrimSpace key) = sc_Key s"
  shows "findCardScenario xs key = Some s"
  using find_by_key [OF assms(2) loaded_sorted(2) [OF assms(1)]] assms(3) by (simp add: findCardScenario_def)

lemma loaded_key_canonical:
  assumes "loadCardScenarios ord ords file = Inr xs" and "s \<in> set xs"
  shows "ToLower (TrimSpace (sc_Key s)) = sc_Key s"
  by (rule ToLower_TrimSpace_key) (simp add: loaded_keys [OF assms] scenarioKey_chars)

end
