(* ===== verification/Model_Codec.thy ===== *)
theory Model_Codec
  imports Json_Decode Api_Models
begin

text \<open>
  The decoders of the structs of \<^verbatim>\<open>internal/models\<close> that the Redis store keeps as JSON: for each, the
  table of its tags and what \<^verbatim>\<open>json.Unmarshal\<close> makes of a text. What was printed is read back.
\<close>

section \<open>Tables\<close>

definition User_fields :: "User fields" where
  "User_fields =
     [(''id'', set_plain tree_string u_ID_update),
      (''email'', set_plain tree_string u_Email_update),
      (''activated'', set_plain tree_bool u_Activated_update),
      (''managed'', set_plain tree_bool u_Managed_update),
      (''role'', set_plain tree_string u_Role_update),
      (''features'', set_slice [] tree_string u_Features_update),
      (''kyc_state'', set_plain tree_string u_KYCState_update),
      (''risk_level'', set_plain tree_string u_RiskLevel_update),
      (''is_profile_creation_disabled'', set_plain tree_bool u_IsProfileCreationDisabled_update),
      (''created_at'', set_plain tree_time u_CreatedAt_update),
      (''first_name'', set_plain tree_string u_FirstName_update),
      (''middle_name'', set_plain tree_string u_MiddleName_update),
      (''last_name'', set_plain tree_string u_LastName_update),
      (''gender'', set_plain tree_string u_Gender_update),
      (''birth_year'', set_plain tree_int u_BirthYear_update),
      (''birth_month'', set_plain tree_int u_BirthMonth_update),
      (''birth_day'', set_plain tree_int u_BirthDay_update),
      (''birth_city'', set_plain tree_string u_BirthCity_update),
      (''birth_country_code'', set_plain tree_string u_BirthCountryCode_update),
      (''citizenship'', set_plain tree_string u_Citizenship_update),
      (''address_street1'', set_plain tree_string u_AddressStreet1_update),
      (''address_street2'', set_plain tree_string u_AddressStreet2_update),
      (''address_city'', set_plain tree_string u_AddressCity_update),
      (''address_postal_code'', set_plain tree_string u_AddressPostalCode_update),
      (''address_subdivision'', set_plain tree_string u_AddressSubdivision_update),
      (''address_country_code'', set_plain tree_string u_AddressCountryCode_update),
      (''tax_residency'', set_plain tree_string u_TaxResidency_update),
      (''expected_volume'', set_plain tree_string u_ExpectedVolume_update)]"

definition unmarshal_User :: "string \<Rightarrow> User option" where
  "unmarshal_User = unmarshal User_fields zero_User"

definition Wallet_fields :: "Wallet fields" where
  "Wallet_fields =
     [(''address'', set_plain tree_string w_Address_update),
      (''user_id'', set_plain tree_string w_UserID_update),
      (''name'', set_plain tree_string w_Name_update),
      (''type'', set_plain tree_int w_Type_update),
      (''network'', set_plain tree_int w_Network_update),
      (''created_at'', set_plain tree_time w_CreatedAt_update)]"

definition unmarshal_Wallet :: "string \<Rightarrow> Wallet option" where
  "unmarshal_Wallet = unmarshal Wallet_fields zero_Wallet"

definition Organization_fields :: "Organization fields" where
  "Organization_fields =
     [(''id'', set_plain tree_string org_ID_update),
      (''apiBaseUrl'', set_plain tree_string org_APIBaseURL_update),
      (''type2fa'', set_plain tree_string org_TwoFAType_update),
      (''createdAt'', set_plain tree_time org_CreatedAt_update),
      (''updatedAt'', set_plain tree_time org_UpdatedAt_update)]"

definition unmarshal_Organization :: "string \<Rightarrow> Organization option" where
  "unmarshal_Organization = unmarshal Organization_fields zero_Organization"

definition Transaction_fields :: "Transaction fields" where
  "Transaction_fields =
     [(''uuid'', set_plain tree_string tx_ID_update),
      (''user_id'', set_plain tree_string tx_UserID_update),
      (''uid'', set_plain tree_string tx_UID_update),
      (''amount'', set_plain tree_string tx_Amount_update),
      (''total_amount'', set_plain tree_string tx_TotalAmount_update),
      (''fee'', set_plain tree_string tx_Fee_update),
      (''currency'', set_plain tree_string tx_Currency_update),
      (''vault_uuid'', set_plain tree_string tx_VaultUUID_update),
      (''sending_address'', set_plain tree_string tx_SendingAddress_update),
      (''receiving_address'', set_plain tree_string tx_ReceivingAddress_update),
      (''type'', set_plain tree_int tx_Type_update),
      (''deposit_type'', set_plain tree_string tx_DepositType_update),
      (''status'', set_plain tree_int tx_Status_update),
      (''created_at'', set_plain tree_time tx_CreatedAt_update),
      (''account_iban'', set_plain tree_string tx_AccountIBAN_update),
      (''account_legal_name'', set_plain tree_string tx_AccountLegalName_update),
      (''message'', set_plain tree_string tx_Message_update)]"

definition unmarshal_Transaction :: "string \<Rightarrow> Transaction option" where
  "unmarshal_Transaction = unmarshal Transaction_fields zero_Transaction"

definition CustomerDeliveryAddress_fields :: "CustomerDeliveryAddress fields" where
  "CustomerDeliveryAddress_fields =
     [(''id'', set_plain tree_string da_ID_update),
      (''sourceId'', set_plain tree_string da_SourceID_update),
      (''customerId'', set_plain tree_string da_CustomerID_update),
      (''customerSourceId'', set_plain tree_string da_CustomerSourceID_update),
      (''type'', set_plain tree_string da_Type_update),
      (''line1'', set_plain tree_string da_Line1_update),
      (''line2'', set_opt tree_string da_Line2_update),
      (''line3'', set_opt tree_string da_Line3_update),
      (''city'', set_plain tree_string da_City_update),
      (''postOffice'', set_opt tree_string da_PostOffice_update),
      (''zipCode'', set_plain tree_string da_ZipCode_update),
      (''countryCode'', set_plain tree_string da_CountryCode_update),
      (''status'', set_plain tree_string da_Status_update)]"

definition unmarshal_CustomerDeliveryAddress :: "string \<Rightarrow> CustomerDeliveryAddress option" where
  "unmarshal_CustomerDeliveryAddress = unmarshal CustomerDeliveryAddress_fields zero_CustomerDeliveryAddress"

definition Card_fields :: "Card fields" where
  "Card_fields =
     [(''id'', set_plain tree_string c_ID_update),
      (''sourceId'', set_plain tree_string c_SourceID_update),
      (''accountId'', set_plain tree_string c_AccountID_update),
      (''accountSourceId'', set_plain tree_string c_AccountSourceID_update),
      (''customerId'', set_plain tree_string c_CustomerID_update),
      (''customerSourceId'', set_plain tree_string c_CustomerSourceID_update),
      (''nameOnCard'', set_plain tree_string c_NameOnCard_update),
      (''productCode'', set_plain tree_string c_ProductCode_update),
      (''panToken'', set_plain tree_string c_PanToken_update),
      (''maskedPan'', set_plain tree_string c_MaskedPan_update),
      (''status'', set_plain tree_string c_Status_update),
      (''statusReasonCode'', set_opt tree_string c_StatusReasonCode_update),
      (''lockLevel'', set_opt tree_string c_LockLevel_update),
      (''expiryDate'', set_plain tree_string c_ExpiryDate_update),
      (''relationType'', set_plain tree_string c_RelationType_update),
      (''membershipFeeEffectiveDate'', set_opt tree_string c_MembershipFeeEffectiveDate_update),
      (''isFirstTimeLock'', set_plain tree_bool c_IsFirstTimeLock_update),
      (''plasticCreated'', set_plain tree_bool c_PlasticCreated_update),
      (''OrderPlasticOnSync'', set_plain tree_bool c_OrderPlasticOnSync_update),
      (''createdAt'', set_plain tree_time c_CreatedAt_update)]"

definition unmarshal_Card :: "string \<Rightarrow> Card option" where
  "unmarshal_Card = unmarshal Card_fields zero_Card"

definition Account_fields :: "Account fields" where
  "Account_fields =
     [(''id'', set_opt tree_string acc_ID_update),
      (''sourceId'', set_plain tree_string acc_SourceID_update),
      (''customerId'', set_opt tree_string acc_CustomerID_update),
      (''customerSourceId'', set_plain tree_string acc_CustomerSourceID_update),
      (''productCode'', set_plain tree_string acc_ProductCode_update),
      (''currency'', set_plain tree_string acc_Currency_update),
      (''accountNumber'', set_plain tree_string acc_AccountNumber_update),
      (''type'', set_plain tree_string acc_Type_update),
      (''status'', set_plain tree_string acc_Status_update),
      (''statusReasonCode'', set_plain tree_string acc_StatusReasonCode_update),
      (''cards'', set_slice zero_Card (tree_struct Card_fields zero_Card) acc_Cards_update),
      (''createdAt'', set_plain tree_time acc_CreatedAt_update)]"

definition unmarshal_Account :: "string \<Rightarrow> Account option" where
  "unmarshal_Account = unmarshal Account_fields zero_Account"

definition Customer_fields :: "Customer fields" where
  "Customer_fields =
     [(''id'', set_opt tree_string cu_ID_update),
      (''sourceId'', set_plain tree_string cu_SourceID_update),
      (''type'', set_plain tree_string cu_Type_update),
      (''code'', set_plain tree_string cu_Code_update),
      (''taxNumber'', set_plain tree_string cu_TaxNumber_update),
      (''kycStatus'', set_plain tree_string cu_KYCStatus_update),
      (''addresses'', set_slice zero_CustomerDeliveryAddress (tree_struct CustomerDeliveryAddress_fields zero_CustomerDeliveryAddress) cu_Addresses_update),
      (''accounts'', set_slice zero_Account (tree_struct Account_fields zero_Account) cu_Accounts_update),
      (''createdAt'', set_plain tree_time cu_CreatedAt_update)]"

definition unmarshal_Customer :: "string \<Rightarrow> Customer option" where
  "unmarshal_Customer = unmarshal Customer_fields zero_Customer"

definition CardLimit_fields :: "CardLimit fields" where
  "CardLimit_fields =
     [(''type'', set_plain tree_string cl_Type_update),
      (''limit'', set_plain tree_float cl_Limit_update),
      (''currency'', set_plain tree_string cl_Currency_update),
      (''isDisabled'', set_plain tree_bool cl_IsDisabled_update)]"

definition MastercardConversion_fields :: "MastercardConversion fields" where
  "MastercardConversion_fields =
     [(''convRate'', set_opt tree_string mc_ConvRate_update),
      (''refConRate'', set_opt tree_string mc_RefConRate_update),
      (''refConfRateDiff'', set_opt tree_string mc_RefConfRateDiff_update)]"

definition CardTransaction_fields :: "CardTransaction fields" where
  "CardTransaction_fields =
     [(''id'', set_opt tree_int ct_ID_update),
      (''vaultId'', set_opt tree_int ct_VaultID_update),
      (''cardId'', set_opt tree_int ct_CardID_update),
      (''transactionId'', set_plain tree_string ct_TransactionID_update),
      (''refTransactionId'', set_opt tree_string ct_RefTransactionID_update),
      (''responseCode'', set_opt tree_string ct_ResponseCode_update),
      (''ghResponseCode'', set_plain tree_string ct_GHResponseCode_update),
      (''ghResponseDescription'', set_plain tree_string ct_GHResponseDescription_update),
      (''transactionAmount'', set_opt tree_string ct_TransactionAmount_update),
      (''transactionCurrency'', set_opt tree_string ct_TransactionCurrency_update),
      (''billingAmount'', set_opt tree_string ct_BillingAmount_update),
      (''billingCurrency'', set_opt tree_string ct_BillingCurrency_update),
      (''isTrxAmountConverted'', set_plain tree_bool ct_IsTrxAmountConverted_update),
      (''terminalId'', set_plain tree_string ct_TerminalID_update),
      (''cardScheme'', set_plain tree_int ct_CardScheme_update),
      (''type'', set_plain tree_int ct_Type_update),
      (''source'', set_opt tree_string ct_Source_update),
      (''entryMode'', set_opt tree_int ct_EntryMode_update),
      (''authorizationCode'', set_opt tree_string ct_AuthorizationCode_update),
      (''splitIntoMultiple'', set_opt tree_bool ct_SplitIntoMultiple_update),
      (''authentication'', set_opt tree_int ct_Authentication_update),
      (''authenticationProtocol'', set_opt tree_int ct_AuthenticationProtocol_update),
      (''wallet'', set_opt tree_int ct_Wallet_update),
      (''transactionDateTime'', set_opt tree_string ct_TransactionDateTime_update),
      (''processDateTime'', set_opt tree_string ct_ProcessDateTime_update),
      (''createdAt'', set_plain tree_string ct_CreatedAt_update),
      (''txStatus'', set_opt tree_string ct_TxStatus_update),
      (''operation'', set_plain tree_int ct_Operation_update),
      (''mcc'', set_opt tree_string ct_Mcc_update),
      (''merchantStreet'', set_opt tree_string ct_MerchantStreet_update),
      (''merchantCity'', set_opt tree_string ct_MerchantCity_update),
      (''merchantZip'', set_opt tree_string ct_MerchantZip_update),
      (''merchantCountry'', set_opt tree_string ct_MerchantCountry_update),
      (''merchantName'', set_opt tree_string ct_MerchantName_update),
      (''merchantId'', set_opt tree_string ct_MerchantID_update),
      (''transactionClassification'', set_opt tree_string ct_TransactionClassification_update),
      (''spendExchangeRate'', set_opt tree_string ct_SpendExchangeRate_update),
      (''spendCurrency'', set_opt tree_string ct_SpendCurrency_update),
      (''mastercardConversion'', set_opt (tree_struct MastercardConversion_fields zero_MastercardConversion) ct_MastercardConversion_update)]"

definition unmarshal_CardTransaction :: "string \<Rightarrow> CardTransaction option" where
  "unmarshal_CardTransaction = unmarshal CardTransaction_fields zero_CardTransaction"

definition ThreeDSChallenge_fields :: "ThreeDSChallenge fields" where
  "ThreeDSChallenge_fields =
     [(''transactionId'', set_plain tree_string tds_TransactionID_update),
      (''cardId'', set_plain tree_string tds_CardID_update),
      (''userId'', set_plain tree_string tds_UserID_update),
      (''merchantName'', set_plain tree_string tds_MerchantName_update),
      (''purchaseAmount'', set_plain tree_string tds_PurchaseAmount_update),
      (''purchaseCurrency'', set_plain tree_string tds_PurchaseCurrency_update),
      (''purchaseDate'', set_plain tree_string tds_PurchaseDate_update),
      (''timeout'', set_plain tree_time tds_Timeout_update),
      (''status'', set_plain tree_string tds_Status_update),
      (''createdAt'', set_plain tree_time tds_CreatedAt_update)]"

definition unmarshal_ThreeDSChallenge :: "string \<Rightarrow> ThreeDSChallenge option" where
  "unmarshal_ThreeDSChallenge = unmarshal ThreeDSChallenge_fields zero_ThreeDSChallenge"

text \<open>\<^verbatim>\<open>[]models.CardLimit\<close>, which is decoded as a slice.\<close>

definition unmarshal_CardLimits :: "string \<Rightarrow> CardLimit list option" where
  "unmarshal_CardLimits s =
     (case json_parse s of
        None \<Rightarrow> None
      | Some v \<Rightarrow> if v = TNull then Some [] else tree_list zero_CardLimit (tree_struct CardLimit_fields zero_CardLimit) v)"

section \<open>Reading back\<close>

lemma field_tables [simp]:
  "field_table User_fields" "field_table Wallet_fields" "field_table Organization_fields"
  "field_table Transaction_fields" "field_table Card_fields" "field_table ThreeDSChallenge_fields"
  by (simp_all add: field_table_def fold_name_def to_lower_char_def Let_def User_fields_def Wallet_fields_def
      Organization_fields_def Transaction_fields_def Card_fields_def ThreeDSChallenge_fields_def)

text \<open>The values that survive: integers of 64 bits, times whose year has four digits.\<close>

definition storable_Transaction :: "Transaction \<Rightarrow> bool" where
  "storable_Transaction t \<longleftrightarrow>
     - (2 ^ 63) \<le> tx_Type t \<and> tx_Type t < 2 ^ 63 \<and> - (2 ^ 63) \<le> tx_Status t \<and> tx_Status t < 2 ^ 63 \<and>
     dated (tx_CreatedAt t)"

lemma omitted_tree: "map (\<lambda>(k, v). (k, tree v)) (omit_empty k s) = (if s = [] then [] else [(k, TStr s)])"
  by (simp add: omit_empty_def)

lemma set_fields_append:
  "set_fields table (xs @ ys) r = (case set_fields table xs r of None \<Rightarrow> None | Some r1 \<Rightarrow> set_fields table ys r1)"
  by (induction table xs r rule: set_fields.induct) (auto split: option.splits)

lemmas decode_eval = fold_name_def to_lower_char_def set_plain_def set_opt_def jtime_def omitted_tree

lemma Transaction_roundtrip:
  assumes "storable_Transaction t"
  shows "unmarshal_Transaction (json_text (Transaction_json t)) = Some t"
  unfolding unmarshal_Transaction_def Transaction_json_def
  by (subst unmarshal_text, simp)
     (use assms in \<open>cases t; simp add: storable_Transaction_def Transaction_fields_def zero_Transaction_def
        decode_eval\<close>)

definition storable_Wallet :: "Wallet \<Rightarrow> bool" where
  "storable_Wallet w \<longleftrightarrow>
     - (2 ^ 63) \<le> w_Type w \<and> w_Type w < 2 ^ 63 \<and> - (2 ^ 63) \<le> w_Network w \<and> w_Network w < 2 ^ 63 \<and>
     dated (w_CreatedAt w)"

lemma Wallet_roundtrip:
  assumes "storable_Wallet w"
  shows "unmarshal_Wallet (json_text (Wallet_json w)) = Some w"
  unfolding unmarshal_Wallet_def Wallet_json_def
  by (subst unmarshal_text, simp)
     (use assms in \<open>cases w; simp add: storable_Wallet_def Wallet_fields_def zero_Wallet_def decode_eval\<close>)

lemma Organization_roundtrip:
  assumes "dated (org_CreatedAt x)" and "dated (org_UpdatedAt x)"
  shows "unmarshal_Organization (json_text (Organization_json x)) = Some x"
  unfolding unmarshal_Organization_def Organization_json_def
  by (subst unmarshal_text, simp)
     (use assms in \<open>cases x; simp add: Organization_fields_def zero_Organization_def decode_eval\<close>)

lemma ThreeDSChallenge_roundtrip:
  assumes "dated (tds_Timeout x)" and "dated (tds_CreatedAt x)"
  shows "unmarshal_ThreeDSChallenge (json_text (ThreeDSChallenge_json x)) = Some x"
  unfolding unmarshal_ThreeDSChallenge_def ThreeDSChallenge_json_def
  by (subst unmarshal_text, simp)
     (use assms in \<open>cases x; simp add: ThreeDSChallenge_fields_def zero_ThreeDSChallenge_def decode_eval\<close>)

text \<open>A pointer that is nil is \<^verbatim>\<open>null\<close>, and back.\<close>

lemma set_opt_tree [simp]:
  "set_opt tree_string upd (tree (jopt JStr x)) r = Some (upd (\<lambda>_. x) r)"
  by (cases x) (simp_all add: set_opt_def jopt_def)

lemma set_slice_tree [simp]:
  "set_slice [] tree_string upd (tree (jslice JStr xs)) r = Some (upd (\<lambda>_. xs) r)"
  by (simp add: set_slice_def jslice_def tree_list_def comp_def all_some_map [where g = id])

lemma Card_roundtrip:
  assumes "dated (c_CreatedAt c)"
  shows "unmarshal_Card (json_text (Card_json c)) = Some c"
  unfolding unmarshal_Card_def Card_json_def
  by (subst unmarshal_text, simp)
     (use assms in \<open>cases c; simp add: Card_fields_def zero_Card_def fold_name_def to_lower_char_def
        set_plain_def jtime_def\<close>)

definition storable_User :: "User \<Rightarrow> bool" where
  "storable_User u \<longleftrightarrow>
     - (2 ^ 63) \<le> u_BirthYear u \<and> u_BirthYear u < 2 ^ 63 \<and> - (2 ^ 63) \<le> u_BirthMonth u \<and>
     u_BirthMonth u < 2 ^ 63 \<and> - (2 ^ 63) \<le> u_BirthDay u \<and> u_BirthDay u < 2 ^ 63 \<and> dated (u_CreatedAt u)"

lemma User_roundtrip:
  assumes "storable_User u"
  shows "unmarshal_User (json_text (User_json u)) = Some u"
  unfolding unmarshal_User_def User_json_def
  by (subst unmarshal_text, simp)
     (use assms in \<open>cases u; simp add: storable_User_def User_fields_def zero_User_def fold_name_def to_lower_char_def
        set_plain_def jtime_def\<close>)

end
