(* ===== verification/Card_Simulation.thy ===== *)
theory Card_Simulation
  imports Card_Scenarios Webhook_Delivery Model_Codec
begin

text \<open>
  The administration of card transactions of \<^verbatim>\<open>internal/handler/cardtx_admin.go\<close>: listing the
  scenarios, materialising one against a card, and moving a transaction through its statuses. The
  catalogue that the package loads when the program starts is an argument.
\<close>

section \<open>Materialising a scenario\<close>

text \<open>
  The payload as a map; \<open>Some None\<close> is the nil map that a \<^verbatim>\<open>null\<close> leaves.
\<close>

definition payload_fields :: "jtree option \<Rightarrow> json gomap option option" where
  "payload_fields payload =
     (case payload of
        Some TNull \<Rightarrow> Some None
      | Some (TObj kvs) \<Rightarrow> map_option (\<lambda>m. Some (as_gomap m)) (interface_members kvs)
      | _ \<Rightarrow> None)"

definition identity_fields :: "string \<Rightarrow> int \<Rightarrow> string \<Rightarrow> time \<Rightarrow> (string \<times> json) list" where
  "identity_fields txID seqID cardUUID now =
     [(''transactionId'', JStr txID), (''id'', JInt seqID), (''cardId'', JInt (numericCardID cardUUID)),
      (''createdAt'', JStr (format_rfc3339 now))]"

definition put_all :: "(string \<times> json) list \<Rightarrow> json gomap \<Rightarrow> json gomap" where
  "put_all kvs m = foldl (\<lambda>m (k, v). mput k v m) m kvs"

text \<open>\<open>None\<close> where the write to the nil map panics.\<close>

definition materialiseCardTransaction ::
  "string \<Rightarrow> time \<Rightarrow> jtree option \<Rightarrow> json gomap \<Rightarrow> int \<Rightarrow> string \<Rightarrow>
     (go_error + (CardTransaction \<times> RawMessage \<times> string)) option" where
  "materialiseCardTransaction txID now payload overrides seqID cardUUID =
     (case payload_fields payload of
        None \<Rightarrow> Some (Inl ''cannot decode the payload'')
      | Some None \<Rightarrow> None
      | Some (Some payload) \<Rightarrow>
          let fields = put_all (identity_fields txID seqID cardUUID now) (put_all overrides payload) in
          Some
            (if \<not> marshals (JObj fields) then Inl ''cannot encode the fields''
             else
               let normalised = sort_key fst (map (\<lambda>(k, v). (k, sort_maps v)) fields) in
               case tree_struct CardTransaction_fields zero_CardTransaction (tree (JObj normalised)) of
                 None \<Rightarrow> Inl ''cannot decode the transaction''
               | Some tx \<Rightarrow> Inr (tx, normalised, txID)))"

section \<open>Simulation\<close>

record CardTxNotification =
  no_Title :: string
  no_Body :: string

record SimulateCardTransactionRequest =
  sr_UserID :: string
  sr_CardID :: string
  sr_Scenario :: string
  sr_Overrides :: "json gomap"
  sr_Event :: string
  sr_Notification :: "CardTxNotification option"

record SimulateCardTransactionResult =
  sx_Scenario :: string
  sx_Event :: string
  sx_TransactionID :: string
  sx_Transaction :: RawMessage

definition scenarioKeys :: "CardTxScenario list \<Rightarrow> string list" where
  "scenarioKeys idx = sort (map sc_Key (listCardScenarios idx))"

definition ListCardTxScenarios :: "CardTxScenario list \<Rightarrow> 's Handler \<Rightarrow> response \<times> 's Handler" where
  "ListCardTxScenarios idx h =
     (let out = map (\<lambda>s. JObj [(''key'', JStr (sc_Key s)), (''operation'', JStr (sc_Operation s)),
                              (''classification'', JStr (sc_Classification s)), (''case'', JStr (sc_Case s))])
                  (listCardScenarios idx)
      in (sendJSON 200 (JObj [(''scenarios'', JArr out), (''count'', JInt (int (length out)))]), h))"

definition emitCardTransactionWebhook ::
  "'s Storage \<Rightarrow> env \<Rightarrow> string \<Rightarrow> SimulateCardTransactionRequest \<Rightarrow> RawMessage \<Rightarrow> string \<Rightarrow>
     's Handler \<Rightarrow> 's Handler" where
  "emitCardTransactionWebhook S e event req raw txID h =
     (if event = WebhookEventCardTransaction
      then
        let note = (case sr_Notification req of
                      None \<Rightarrow> \<lparr>no_Title = ''Card transaction'', no_Body = ''A card transaction was recorded''\<rparr>
                    | Some n \<Rightarrow> n)
        in send_async S (uuid e 1) (time_now e 1) event (sr_UserID req)
             [(''title'', JStr (no_Title note)), (''body'', JStr (no_Body note)),
              (''transactionId'', JStr txID), (''cardId'', JStr (sr_CardID req))] f0 h
      else send_async S (uuid e 1) (time_now e 1) event (sr_UserID req)
             [(''authorizationData'', JObj (decoded_map raw))] f0 h)"

text \<open>\<open>None\<close> where materialising panics.\<close>

definition simulateCardTransaction ::
  "'s Storage \<Rightarrow> CardTxScenario list \<Rightarrow> env \<Rightarrow> SimulateCardTransactionRequest \<Rightarrow> 's Handler \<Rightarrow>
     ((apiError + SimulateCardTransactionResult) \<times> 's Handler) option" where
  "simulateCardTransaction S idx e req h =
     (if sr_UserID req = [] then Some (Inl (badRequest ''userId is required''), h)
      else if sr_CardID req = [] then Some (Inl (badRequest ''cardId is required''), h)
      else if sr_Scenario req = []
      then Some (Inl (badRequest ''scenario is required; GET /admin/card-transactions/scenarios lists the available keys''), h)
      else
        let (u, st1) = s_GetUser S (sr_UserID req) (h_store h); h1 = h\<lparr>h_store := st1\<rparr>
        in case u of
             Inl _ \<Rightarrow> Some (Inl (notFound ''user not found''), h1)
           | Inr _ \<Rightarrow>
        (case s_GetCard S (sr_CardID req) st1 of
           Inl _ \<Rightarrow> Some (Inl (notFound ''card not found''), h1)
         | Inr crd \<Rightarrow>
        (case findCardScenario idx (sr_Scenario req) of
           None \<Rightarrow> Some (Inl (withDetails [(''validScenarios'', jstrs (scenarioKeys idx))]
                          (badRequest (''unknown scenario '' @ sr_Scenario req))), h1)
         | Some scenario \<Rightarrow>
             let event = (if sr_Event req = [] then WebhookEventCardTransactionAuthorization else sr_Event req)
             in if event \<noteq> WebhookEventCardTransactionAuthorization \<and> event \<noteq> WebhookEventCardTransaction
                then Some (Inl (badRequest (''unsupported event '' @ event @ ''; use '' @
                       WebhookEventCardTransactionAuthorization @ '' or '' @ WebhookEventCardTransaction)), h1)
                else
                  let (sq, st2) = s_NextCardTransactionSeqID S st1; h2 = h1\<lparr>h_store := st2\<rparr>
                  in case sq of
                       Inl _ \<Rightarrow> Some (Inl (internalErr ''failed to allocate transaction id''), h2)
                     | Inr seqID \<Rightarrow>
                  (case materialiseCardTransaction (uuid e 0) (time_now e 0) (sc_Payload scenario)
                          (sr_Overrides req) seqID (sr_CardID req) of
                     None \<Rightarrow> None
                   | Some (Inl _) \<Rightarrow> Some (Inl (internalErr ''failed to build transaction from scenario''), h2)
                   | Some (Inr (tx, raw, txID)) \<Rightarrow>
                       let (err1, st3) = s_CreateCardTransaction S tx st2; h3 = h2\<lparr>h_store := st3\<rparr>
                       in Some
                         (if err1 \<noteq> None then (Inl (internalErr ''failed to create transaction''), h3)
                          else
                            let (err2, st4) = s_StoreRawCardTransaction S txID raw st3; h4 = h3\<lparr>h_store := st4\<rparr>
                            in if err2 \<noteq> None
                               then (Inl (internalErr ''failed to store transaction payload''), h4)
                               else
                                 let h5 = h4\<lparr>h_store := snd (s_AddCardTransactionIndex S (sr_CardID req) txID st4)\<rparr>
                                 in (Inr \<lparr>sx_Scenario = sc_Key scenario, sx_Event = event,
                                          sx_TransactionID = txID, sx_Transaction = raw\<rparr>,
                                     emitCardTransactionWebhook S e event req raw txID h5))))))"

definition SimulateCardTransaction ::
  "'s Storage \<Rightarrow> CardTxScenario list \<Rightarrow> env \<Rightarrow> SimulateCardTransactionRequest option \<Rightarrow> 's Handler \<Rightarrow>
     (response \<times> 's Handler) option" where
  "SimulateCardTransaction S idx e body h =
     (case body of
        None \<Rightarrow> Some (sendError 400 ''invalid request body'', h)
      | Some req \<Rightarrow>
          map_option (\<lambda>(res, h1).
            (case res of
               Inl err \<Rightarrow> sendAPIError err
             | Inr x \<Rightarrow> sendJSON 201 (JObj [(''scenario'', JStr (sx_Scenario x)), (''event'', JStr (sx_Event x)),
                          (''transactionId'', JStr (sx_TransactionID x)),
                          (''transaction'', JObj (sx_Transaction x))]), h1))
            (simulateCardTransaction S idx e req h))"

section \<open>Status transitions\<close>

definition isKnownCardTxStatus :: "string \<Rightarrow> bool" where
  "isKnownCardTxStatus status \<longleftrightarrow>
     status \<in> {CardTxStatusProcessing, CardTxStatusCompleted, CardTxStatusReversed, CardTxStatusDeclined}"

definition SetCardTransactionStatus ::
  "'s Storage \<Rightarrow> request \<Rightarrow> string option \<Rightarrow> 's Handler \<Rightarrow> response \<times> 's Handler" where
  "SetCardTransactionStatus S r body h =
     (let txID = URLParam r ''txID'' in
      if txID = [] then (sendError 400 ''txID is required'', h)
      else case body of
        None \<Rightarrow> (sendError 400 ''invalid request body'', h)
      | Some status \<Rightarrow>
          if status = [] then (sendError 400 ''status is required'', h)
          else if \<not> isKnownCardTxStatus status then (sendError 400 (''unknown status '' @ status), h)
          else case s_GetCardTransaction S txID (h_store h) of
                 Inl _ \<Rightarrow> (sendError 404 ''card transaction not found'', h)
               | Inr _ \<Rightarrow>
                   (case s_UpdateCardTransactionStatus S txID status (h_store h) of
                      (Some _, st1) \<Rightarrow> (sendError 500 ''failed to update status'', h\<lparr>h_store := st1\<rparr>)
                    | (None, st1) \<Rightarrow>
                        (sendJSON 200 (JObj [(''transactionId'', JStr txID), (''txStatus'', JStr status)]),
                         h\<lparr>h_store := st1\<rparr>)))"

section \<open>What a materialised transaction holds\<close>

lemma mget_put_all:
  "wf_map kvs \<Longrightarrow> mget (put_all kvs m) k = (case mget kvs k of Some v \<Rightarrow> Some v | None \<Rightarrow> mget m k)"
  by (induction kvs arbitrary: m)
     (auto simp: put_all_def wf_map_def map_of_eq_None_iff split: option.splits intro: rev_image_eqI)

lemma wf_put_all [simp]: "wf_map m \<Longrightarrow> wf_map (put_all kvs m)"
  by (induction kvs arbitrary: m) (auto simp: put_all_def)

lemma wf_payload_fields: "payload_fields p = Some (Some m) \<Longrightarrow> wf_map m"
  by (auto simp: payload_fields_def split: option.splits jtree.splits)

lemma mget_sort_key: "wf_map m \<Longrightarrow> mget (sort_key fst m) k = mget m k"
proof -
  assume "wf_map m"
  then have "distinct (map fst m)" "distinct (map fst (sort_key fst m))"
    by (simp_all add: wf_map_def) (metis distinct_map distinct_sort set_sort)
  then show ?thesis by (metis map_of_inject_set set_sort)
qed

lemma wf_identity_fields [simp]: "wf_map (identity_fields txID seqID cardUUID now)"
  by (simp add: wf_map_def identity_fields_def)

lemma materialised_fields:
  assumes "materialiseCardTransaction txID now payload overrides seqID cardUUID = Some (Inr (tx, raw, i))"
    and "wf_map overrides"
  shows "i = txID" and "\<exists>m. payload_fields payload = Some (Some m) \<and>
    (\<forall>k. mget raw k = map_option sort_maps
       (case mget (identity_fields txID seqID cardUUID now) k of Some v \<Rightarrow> Some v
        | None \<Rightarrow> (case mget overrides k of Some v \<Rightarrow> Some v | None \<Rightarrow> mget m k)))"
proof -
  from assms(1) obtain m where m: "payload_fields payload = Some (Some m)"
    by (auto simp: materialiseCardTransaction_def split: option.splits)
  let ?fields = "put_all (identity_fields txID seqID cardUUID now) (put_all overrides m)"
  have raw: "raw = sort_key fst (map (\<lambda>(k, v). (k, sort_maps v)) ?fields)" and "i = txID"
    using assms(1) m by (auto simp: materialiseCardTransaction_def Let_def split: if_splits option.splits)
  then show "i = txID" by simp
  have "wf_map ?fields" using wf_payload_fields [OF m] by simp
  then have "wf_map (map (\<lambda>(k, v). (k, sort_maps v)) ?fields)" by (simp add: wf_map_def comp_def split_beta)
  then have "mget raw k = map_option sort_maps (mget ?fields k)" for k
    by (simp add: raw mget_sort_key map_of_map)
  with m assms(2) show "\<exists>m. payload_fields payload = Some (Some m) \<and>
    (\<forall>k. mget raw k = map_option sort_maps
       (case mget (identity_fields txID seqID cardUUID now) k of Some v \<Rightarrow> Some v
        | None \<Rightarrow> (case mget overrides k of Some v \<Rightarrow> Some v | None \<Rightarrow> mget m k)))"
    by (simp add: mget_put_all cong: option.case_cong)
qed

text \<open>The course of a simulation that succeeds, over any store.\<close>

lemma simulate_success:
  assumes "simulateCardTransaction S idx e req h = Some (Inr res, h')"
  obtains u st1 crd scenario seqID st2 tx raw txID st3 st4 event where
    "sr_CardID req \<noteq> []"
    "s_GetUser S (sr_UserID req) (h_store h) = (Inr u, st1)" "s_GetCard S (sr_CardID req) st1 = Inr crd"
    "findCardScenario idx (sr_Scenario req) = Some scenario"
    "s_NextCardTransactionSeqID S st1 = (Inr seqID, st2)"
    "materialiseCardTransaction (uuid e 0) (time_now e 0) (sc_Payload scenario) (sr_Overrides req) seqID
       (sr_CardID req) = Some (Inr (tx, raw, txID))"
    "s_CreateCardTransaction S tx st2 = (None, st3)" "s_StoreRawCardTransaction S txID raw st3 = (None, st4)"
    "h_store h' = snd (s_AddCardTransactionIndex S (sr_CardID req) txID st4)"
    "res = \<lparr>sx_Scenario = sc_Key scenario, sx_Event = event, sx_TransactionID = txID, sx_Transaction = raw\<rparr>"
    "event = (if sr_Event req = [] then WebhookEventCardTransactionAuthorization else sr_Event req)"
    "event \<in> {WebhookEventCardTransactionAuthorization, WebhookEventCardTransaction}"
    "h' = emitCardTransactionWebhook S e event req raw txID (h\<lparr>h_store := h_store h'\<rparr>)"
  using assms
  by (auto simp: simulateCardTransaction_def Let_def emitCardTransactionWebhook_def
      split: if_splits prod.splits sum.splits option.splits intro: that)

end
