(* ===== verification/Simulation_Properties.thy ===== *)
theory Simulation_Properties
  imports Card_Simulation Memory_Laws Demo_State
begin

text \<open>
  Properties of the catalogue of card transactions and of the simulation that records one of its
  scenarios against a card.
\<close>

section \<open>The catalogue\<close>

text \<open>
  C34: loading the catalogue does not depend on the order in which Go's loops over maps visit it:
  where one order loads it, every order loads the same list, sorted by key and without two equal
  keys. Each key selects its own scenario, in whatever case it is written and with spaces around
  it.
\<close>

theorem catalogue_order_independent:
  assumes "permutes_keys o1" and "permutes_keys o2" and "\<And>l. permutes_keys (os1 l)" and "\<And>l. permutes_keys (os2 l)"
    and "loadCardScenarios o1 os1 file = Inr xs"
  shows "loadCardScenarios o2 os2 file = Inr xs \<and> sorted (map sc_Key xs) \<and> distinct (map sc_Key xs) \<and>
    (\<forall>s\<in>set xs. findCardScenario xs (sc_Key s) = Some s \<and>
       (\<forall>key. ToLower (TrimSpace key) = sc_Key s \<longrightarrow> findCardScenario xs key = Some s))"
  using loadCardScenarios_orders [of o1 o2 os1 os2, OF assms] loaded_sorted [OF assms(5)]
    findCardScenario_loaded [OF assms(5)] loaded_key_canonical [OF assms(5)] by blast

definition demo_catalogue :: json where
  "demo_catalogue =
     JObj [(''Operation - None'', JArr [JObj [(''case'', JStr ''Declined''), (''payload'', JObj [(''type'', JInt 0)])]]),
           (''Operation - Deposit'', JObj [(''Transaction Classification - Reversal'',
              JArr [JObj [(''case'', JStr ''ATM Refund''), (''payload'', JObj [(''type'', JInt 1)])]])])]"

definition demo_scenarios :: "CardTxScenario list" where
  "demo_scenarios =
     [\<lparr>sc_Key = ''deposit.reversal.atm-refund'', sc_Operation = ''Deposit'', sc_Classification = ''Reversal'',
       sc_Case = ''ATM Refund'', sc_Payload = Some (TObj [(''type'', TNum ''1'')])\<rparr>,
      \<lparr>sc_Key = ''none.declined'', sc_Operation = ''None'', sc_Classification = [],
       sc_Case = ''Declined'', sc_Payload = Some (TObj [(''type'', TNum ''0'')])\<rparr>]"

lemma demo_catalogue_parsed: "json_parse (json_text demo_catalogue) = Some (tree demo_catalogue)"
  by (rule json_roundtrip) (simp add: demo_catalogue_def)

lemma demo_loaded: "loadCardScenarios id (\<lambda>_. id) (Inr (json_text demo_catalogue)) = Inr demo_scenarios"
proof -
  have "tree demo_catalogue = TObj
    [(''Operation - None'', TArr [TObj [(''case'', TStr ''Declined''), (''payload'', TObj [(''type'', TNum ''0'')])]]),
     (''Operation - Deposit'', TObj [(''Transaction Classification - Reversal'',
        TArr [TObj [(''case'', TStr ''ATM Refund''), (''payload'', TObj [(''type'', TNum ''1'')])]])])]"
    by code_simp
  then have "loadCardScenarios id (\<lambda>_. id) (Inr (json_text demo_catalogue)) =
    (case collect_operations (\<lambda>_. id) (range_pairs id (as_gomap
       [(''Operation - None'', TArr [TObj [(''case'', TStr ''Declined''), (''payload'', TObj [(''type'', TNum ''0'')])]]),
        (''Operation - Deposit'', TObj [(''Transaction Classification - Reversal'',
           TArr [TObj [(''case'', TStr ''ATM Refund''), (''payload'', TObj [(''type'', TNum ''1'')])]])])])) of
       Inl err \<Rightarrow> Inl err
     | Inr found \<Rightarrow>
         let scenarios = sort_key sc_Key found in
         case assertUniqueKeys scenarios of Some err \<Rightarrow> Inl err | None \<Rightarrow> Inr scenarios)"
    by (simp add: loadCardScenarios_def demo_catalogue_parsed)
  also have "\<dots> = Inr demo_scenarios" by code_simp
  finally show ?thesis .
qed

theorem catalogue_order_independent_witness:
  "loadCardScenarios rev (\<lambda>_. rev) (Inr (json_text demo_catalogue)) = Inr demo_scenarios \<and>
   findCardScenario demo_scenarios '' None.DECLINED '' = Some (demo_scenarios ! 1)"
proof -
  have p: "permutes_keys id" "permutes_keys rev" by (simp_all add: permutes_keys_def)
  have k: "ToLower (TrimSpace '' None.DECLINED '') = sc_Key (demo_scenarios ! 1)" by code_simp
  have m: "demo_scenarios ! 1 \<in> set demo_scenarios" by (simp add: demo_scenarios_def)
  from catalogue_order_independent [OF p p demo_loaded] k m show ?thesis by blast
qed

section \<open>The simulation\<close>

lemma card_tx_storage_simps [simp]:
  "s_NextCardTransactionSeqID memory_storage = mem_NextCardTransactionSeqID"
  "s_CreateCardTransaction memory_storage = mem_CreateCardTransaction"
  "s_StoreRawCardTransaction memory_storage = mem_StoreRawCardTransaction"
  "s_AddCardTransactionIndex memory_storage = mem_AddCardTransactionIndex"
  by (simp_all add: memory_storage_def)


definition demo_simulation :: SimulateCardTransactionRequest where
  "demo_simulation =
     \<lparr>sr_UserID = ''alice'', sr_CardID = ''card1'', sr_Scenario = ''None.Declined'',
      sr_Overrides = [(''id'', JStr ''mine''), (''source'', JStr ''P'')], sr_Event = [], sr_Notification = None\<rparr>"

lemma demo_find:
  "List.find (\<lambda>f. fold_name (fst f) = fold_name ''cardId'') CardTransaction_fields =
     Some (''cardId'', set_opt tree_int ct_CardID_update)"
  "List.find (\<lambda>f. fold_name (fst f) = fold_name ''createdAt'') CardTransaction_fields =
     Some (''createdAt'', set_plain tree_string ct_CreatedAt_update)"
  "List.find (\<lambda>f. fold_name (fst f) = fold_name ''id'') CardTransaction_fields =
     Some (''id'', set_opt tree_int ct_ID_update)"
  "List.find (\<lambda>f. fold_name (fst f) = fold_name ''source'') CardTransaction_fields =
     Some (''source'', set_opt tree_string ct_Source_update)"
  "List.find (\<lambda>f. fold_name (fst f) = fold_name ''transactionId'') CardTransaction_fields =
     Some (''transactionId'', set_plain tree_string ct_TransactionID_update)"
  "List.find (\<lambda>f. fold_name (fst f) = fold_name ''type'') CardTransaction_fields =
     Some (''type'', set_plain tree_int ct_Type_update)"
  by (simp_all add: CardTransaction_fields_def fold_name_def to_lower_char_def Let_def)

lemma demo_sorted:
  "sort_key fst [(''type'', a), (''id'', b), (''source'', c), (''transactionId'', d), (''cardId'', e), (''createdAt'', f)] =
     [(''cardId'', e), (''createdAt'', f), (''id'', b), (''source'', c), (''transactionId'', d), (''type'', a)]"
  by (simp add: less_char_def)

lemma parse_0: "ParseFloat ''0'' = Some (Zero False)"
  by (simp add: parse_eval f0_def)

lemma tree_int_simps:
  "tree_int (TNum (int_str (numericCardID ''card1''))) = Some (numericCardID ''card1'')"
  "tree_int (TNum (int_str 1)) = Some 1" "tree_int (TNum (f64_text (Zero False))) = Some 0"
proof -
  show "tree_int (TNum (int_str (numericCardID ''card1''))) = Some (numericCardID ''card1'')"
    using numericCardID_range [of "''card1''"] by simp
  show "tree_int (TNum (int_str 1)) = Some 1" "tree_int (TNum (f64_text (Zero False))) = Some 0"
    by code_simp+
qed

lemma demo_materialised:
  "\<exists>tx raw. materialiseCardTransaction ''i'' t (Some (TObj [(''type'', TNum ''0'')]))
     (sr_Overrides demo_simulation) 1 ''card1'' = Some (Inr (tx, raw, ''i'')) \<and> ct_TransactionID tx = ''i''"
proof -
  have p: "payload_fields (Some (TObj [(''type'', TNum ''0'')])) = Some (Some [(''type'', JNum (Zero False))])"
    by (simp add: payload_fields_def parse_0 as_gomap_def mput_def)
  have f: "put_all (identity_fields ''i'' 1 ''card1'' t) (put_all (sr_Overrides demo_simulation)
      [(''type'', JNum (Zero False))]) =
    [(''type'', JNum (Zero False)), (''id'', JInt 1), (''source'', JStr ''P''), (''transactionId'', JStr ''i''),
     (''cardId'', JInt (numericCardID ''card1'')), (''createdAt'', JStr (format_rfc3339 t))]"
    by (simp add: put_all_def identity_fields_def demo_simulation_def mput_def)
  show ?thesis
    unfolding materialiseCardTransaction_def p
    by (simp only: option.case f Let_def)
       (simp add: demo_sorted demo_find tree_int_simps set_opt_def set_plain_def tree_string_def
          tree_struct_def zero_CardTransaction_def del: sort_key_simps f64_text.simps)
qed

lemma demo_simulation_fields:
  "sr_UserID demo_simulation = ''alice''" "sr_CardID demo_simulation = ''card1''"
  "sr_Scenario demo_simulation = ''None.Declined''" "sr_Event demo_simulation = []"
  by (simp_all add: demo_simulation_def)


end
