(* ===== verification/Redis_Keys.thy ===== *)
theory Redis_Keys
  imports Model_Codec Store_Interface Webhook_Delivery
begin

text \<open>
  The Redis side of \<^verbatim>\<open>internal/storage/redis.go\<close>: the commands that the store issues, as a record
  of functions on a state of the service, the keys it uses, and the helpers that its methods
  share. Redis is a service outside the program; a reading command answers from the state, a
  writing one changes it, and either may fail. Where a text of Go's own encoder or decoder follows
  the store's error text, only the store's part is kept.
\<close>

section \<open>The client\<close>

text \<open>
  The reply to \<^verbatim>\<open>GET\<close>: a value, \<^verbatim>\<open>redis.Nil\<close> where there is none, or an error. \<^verbatim>\<open>SET\<close> takes the time
  to live: 0 for none, \<^verbatim>\<open>redis.KeepTTL\<close> (-1) to keep the one there is. \<^verbatim>\<open>SCAN\<close> takes the cursor, the
  pattern and the size of a page.
\<close>

datatype get_reply = Got string | Missing | Failed go_error

record 'r redis_client =
  r_Exists :: "string \<Rightarrow> 'r \<Rightarrow> go_error + int"
  r_Get :: "string \<Rightarrow> 'r \<Rightarrow> get_reply"
  r_Set :: "string \<Rightarrow> string \<Rightarrow> time \<Rightarrow> 'r \<Rightarrow> go_error option \<times> 'r"
  r_SAdd :: "string \<Rightarrow> string \<Rightarrow> 'r \<Rightarrow> go_error option \<times> 'r"
  r_SMembers :: "string \<Rightarrow> 'r \<Rightarrow> go_error + string list"
  r_LPush :: "string \<Rightarrow> string \<Rightarrow> 'r \<Rightarrow> go_error option \<times> 'r"
  r_LRange :: "string \<Rightarrow> 'r \<Rightarrow> go_error + string list"
  r_Incr :: "string \<Rightarrow> 'r \<Rightarrow> (go_error + int) \<times> 'r"
  r_IncrByFloat :: "string \<Rightarrow> f64 \<Rightarrow> 'r \<Rightarrow> go_error option \<times> 'r"
  r_ZAdd :: "string \<Rightarrow> f64 \<Rightarrow> string \<Rightarrow> 'r \<Rightarrow> go_error option \<times> 'r"
  r_ZRem :: "string \<Rightarrow> string \<Rightarrow> 'r \<Rightarrow> go_error option \<times> 'r"
  r_ZRangeByScore :: "string \<Rightarrow> string \<Rightarrow> string \<Rightarrow> 'r \<Rightarrow> go_error + string list"
  r_TTL :: "string \<Rightarrow> 'r \<Rightarrow> go_error + time"
  r_Scan :: "nat \<Rightarrow> string \<Rightarrow> nat \<Rightarrow> 'r \<Rightarrow> go_error + (string list \<times> nat)"

text \<open>Connecting: the parser of the URL, the constructor of the client and its ping are parameters.\<close>

definition NewRedisClient ::
  "(string \<Rightarrow> go_error + 'o) \<Rightarrow> ('o \<Rightarrow> int \<Rightarrow> 'c) \<Rightarrow> ('c \<Rightarrow> go_error option) \<Rightarrow> string \<Rightarrow> int \<Rightarrow> go_error + 'c" where
  "NewRedisClient ParseURL newClient ping redisURL n =
     (case ParseURL redisURL of
        Inl err \<Rightarrow> Inl (''invalid Redis URL: '' @ err)
      | Inr opt \<Rightarrow>
          let client = newClient opt n in
          case ping client of
            Some err \<Rightarrow> Inl (''failed to connect to Redis: '' @ err)
          | None \<Rightarrow> Inr client)"

text \<open>\<^verbatim>\<open>NewRedisStorage\<close> connects in the same way and wraps the client.\<close>

definition NewRedisStorage ::
  "(string \<Rightarrow> go_error + 'o) \<Rightarrow> ('o \<Rightarrow> int \<Rightarrow> 'c) \<Rightarrow> ('c \<Rightarrow> go_error option) \<Rightarrow> string \<Rightarrow> int \<Rightarrow> go_error + 'c" where
  "NewRedisStorage ParseURL newClient ping redisURL n =
     (case ParseURL redisURL of
        Inl err \<Rightarrow> Inl (''invalid Redis URL: '' @ err)
      | Inr opt \<Rightarrow>
          let client = newClient opt n in
          case ping client of
            Some err \<Rightarrow> Inl (''failed to connect to Redis: '' @ err)
          | None \<Rightarrow> Inr client)"

section \<open>Keys\<close>

definition userKey :: "string \<Rightarrow> string" where
  "userKey i = ''user:'' @ i"

definition emailKey :: "string \<Rightarrow> string" where
  "emailKey email = ''email:'' @ email"

definition customerKey :: "string \<Rightarrow> string" where
  "customerKey i = ''customer:'' @ i"

definition customerSourceKey :: "string \<Rightarrow> string" where
  "customerSourceKey sourceID = ''customer:source:'' @ sourceID"

definition customerAccountsKey :: "string \<Rightarrow> string" where
  "customerAccountsKey customerID = ''customer:'' @ customerID @ '':accounts''"

definition accountKey :: "string \<Rightarrow> string" where
  "accountKey i = ''account:'' @ i"

definition customerCardsKey :: "string \<Rightarrow> string" where
  "customerCardsKey customerID = ''customer:'' @ customerID @ '':cards''"

definition accountCardsKey :: "string \<Rightarrow> string" where
  "accountCardsKey accountID = ''account:'' @ accountID @ '':cards''"

definition cardKey :: "string \<Rightarrow> string" where
  "cardKey i = ''card:'' @ i"

definition cardLimitsKey :: "string \<Rightarrow> string" where
  "cardLimitsKey cardID = ''card:'' @ cardID @ '':limits''"

definition customerAddressesKey :: "string \<Rightarrow> string" where
  "customerAddressesKey customerID = ''customer:'' @ customerID @ '':addresses''"

definition customerAddressKey :: "string \<Rightarrow> string" where
  "customerAddressKey addressID = ''customer:address:'' @ addressID"

definition cardTransactionKey :: "string \<Rightarrow> string" where
  "cardTransactionKey i = ''cardtx:'' @ i"

definition cardTransactionsKey :: "string \<Rightarrow> string" where
  "cardTransactionsKey cardID = ''card:'' @ cardID @ '':transactions''"

definition cardTransactionRawKey :: "string \<Rightarrow> string" where
  "cardTransactionRawKey i = ''cardtx:'' @ i @ '':raw''"

definition cardTransactionSeqKey :: string where
  "cardTransactionSeqKey = ''cardtx:seq''"

definition userTransactionsKey :: "string \<Rightarrow> string" where
  "userTransactionsKey userID = ''user:'' @ userID @ '':transactions''"

definition cardPINKey :: "string \<Rightarrow> string" where
  "cardPINKey cardID = ''card:'' @ cardID @ '':pin''"

definition walletKey :: "string \<Rightarrow> string" where
  "walletKey address = ''wallet:'' @ address"

definition userWalletsKey :: "string \<Rightarrow> string" where
  "userWalletsKey userID = ''user:'' @ userID @ '':wallets''"

definition txKey :: "string \<Rightarrow> string" where
  "txKey i = ''tx:'' @ i"

definition balanceKey :: "string \<Rightarrow> string \<Rightarrow> string" where
  "balanceKey userID currency = ''balance:'' @ userID @ '':'' @ currency"

definition threeDSChallengeKey :: "string \<Rightarrow> string" where
  "threeDSChallengeKey txID = ''3ds:challenge:'' @ txID"

definition userThreeDSChallengesKey :: "string \<Rightarrow> string" where
  "userThreeDSChallengesKey userID = ''user:'' @ userID @ '':3ds:challenges''"

definition organizationKey :: "string \<Rightarrow> string" where
  "organizationKey orgID = ''organization:'' @ orgID"

lemmas key_defs = userKey_def emailKey_def customerKey_def customerSourceKey_def customerAccountsKey_def
  accountKey_def customerCardsKey_def accountCardsKey_def cardKey_def cardLimitsKey_def
  customerAddressesKey_def customerAddressKey_def cardTransactionKey_def cardTransactionsKey_def
  cardTransactionRawKey_def cardTransactionSeqKey_def userTransactionsKey_def cardPINKey_def
  walletKey_def userWalletsKey_def txKey_def balanceKey_def threeDSChallengeKey_def
  userThreeDSChallengesKey_def organizationKey_def

section \<open>Writing and reading\<close>

text \<open>A writing command on the state of the service, and one whose failure is returned with a text before it.\<close>

definition run_command :: "('r \<Rightarrow> go_error option \<times> 'r) \<Rightarrow> 'r store \<Rightarrow> go_error option \<times> 'r store" where
  "run_command f s = (let (e, d) = f (db s) in (e, s\<lparr>db := d\<rparr>))"

definition command ::
  "string \<Rightarrow> ('r \<Rightarrow> go_error option \<times> 'r) \<Rightarrow> 'r store \<Rightarrow> go_error option \<times> 'r store" where
  "command what f s =
     (case run_command f s of
        (None, s1) \<Rightarrow> (None, s1)
      | (Some err, s1) \<Rightarrow> (Some (what @ '': '' @ err), s1))"

text \<open>What follows only after a success: \<^verbatim>\<open>if err != nil { return err }\<close>.\<close>

definition and_then ::
  "go_error option \<times> 's store \<Rightarrow> ('s store \<Rightarrow> go_error option \<times> 's store) \<Rightarrow> go_error option \<times> 's store" where
  "and_then x f = (case x of (None, s) \<Rightarrow> f s | (Some err, s) \<Rightarrow> (Some err, s))"

text \<open>The object that a method filled in through its pointer, beside the error of the method.\<close>

definition giving :: "'a \<Rightarrow> go_error option \<times> 's store \<Rightarrow> (go_error + 'a) \<times> 's store" where
  "giving y x = (case x of (None, s) \<Rightarrow> (Inr y, s) | (Some err, s) \<Rightarrow> (Inl err, s))"

text \<open>
  \<^verbatim>\<open>json.Marshal\<close> fails on a time whose year has more than four digits and on a number that is
  not finite; the times of the object are given beside its tree, which holds them as text.
\<close>

definition Marshal :: "string \<Rightarrow> time list \<Rightarrow> json \<Rightarrow> go_error + string" where
  "Marshal what ts v =
     (if list_all dated ts \<and> marshals v then Inr (json_text v) else Inl (''failed to marshal '' @ what))"

definition marshalled ::
  "go_error + string \<Rightarrow> (string \<Rightarrow> 's store \<Rightarrow> go_error option \<times> 's store) \<Rightarrow> 's store \<Rightarrow> go_error option \<times> 's store" where
  "marshalled m f s = (case m of Inl err \<Rightarrow> (Some err, s) | Inr data \<Rightarrow> f data s)"

text \<open>An object of the given name is read and decoded.\<close>

definition fetch :: "'r redis_client \<Rightarrow> string \<Rightarrow> string \<Rightarrow> (string \<Rightarrow> 'a option) \<Rightarrow> 'r \<Rightarrow> go_error + 'a" where
  "fetch R what key dec d =
     (case r_Get R key d of
        Missing \<Rightarrow> Inl (what @ '' not found'')
      | Failed err \<Rightarrow> Inl (''failed to get '' @ what @ '': '' @ err)
      | Got data \<Rightarrow>
          (case dec data of None \<Rightarrow> Inl (''failed to unmarshal '' @ what) | Some x \<Rightarrow> Inr x))"

text \<open>The address of an object that was read.\<close>

definition by_address ::
  "('a \<Rightarrow> 's store \<Rightarrow> addr \<times> 's store) \<Rightarrow> go_error + 'a \<Rightarrow> 's store \<Rightarrow> (go_error + addr) \<times> 's store" where
  "by_address alloc x s =
     (case x of Inl err \<Rightarrow> (Inl err, s) | Inr y \<Rightarrow> let (p, s1) = alloc y s in (Inr p, s1))"

text \<open>The results of a loop that skips what cannot be read.\<close>

definition readable :: "('k \<Rightarrow> go_error + 'a) \<Rightarrow> 'k list \<Rightarrow> 'a list" where
  "readable f ks = List.map_filter (\<lambda>k. case f k of Inl err \<Rightarrow> None | Inr x \<Rightarrow> Some x) ks"

text \<open>
  A \<^verbatim>\<open>SCAN\<close> from a cursor until the service answers 0, each key of a page passed to the body of
  the loop. A service whose cursor never returns to 0 keeps the loop running.
\<close>

partial_function (option) scan_loop ::
  "'r redis_client \<Rightarrow> string \<Rightarrow> (string \<Rightarrow> 'a \<Rightarrow> 'a) \<Rightarrow> 'r \<Rightarrow> nat \<Rightarrow> 'a \<Rightarrow> (go_error + 'a) option" where
  "scan_loop R pattern body d cursor out =
     (case r_Scan R cursor pattern 100 d of
        Inl err \<Rightarrow> Some (Inl err)
      | Inr page \<Rightarrow>
          if snd page = 0 then Some (Inr (fold body (fst page) out))
          else scan_loop R pattern body d (snd page) (fold body (fst page) out))"

lemma run_command_hp [simp]: "hp (snd (run_command f s)) = hp s"
  by (simp add: run_command_def split: prod.splits)

lemma command_simps [simp]: "hp (snd (command what f s)) = hp s"
  using run_command_hp [of f s]
  by (cases "run_command f s") (auto simp: command_def split: option.splits)

end
