(* ===== verification/Redis_Storage.thy ===== *)
theory Redis_Storage
  imports Redis_Keys Memory_Storage
begin

text \<open>
  The Redis implementation of the storage interface, \<^verbatim>\<open>internal/storage/redis.go\<close>: one definition
  \<open>red_Op\<close> per method \<^verbatim>\<open>Op\<close>, in the order of the file, and \<open>redis_storage\<close>, the table of the
  methods. An object is kept as its JSON text under a key, so what is read is a copy, and a user,
  customer or account read twice has two addresses. A method issues several commands; none of
  them is undone when a later one fails.
\<close>

section \<open>Users\<close>

definition red_CreateUser :: "'r redis_client \<Rightarrow> addr \<Rightarrow> string \<Rightarrow> time \<Rightarrow> 'r fallible" where
  "red_CreateUser R p uid now s =
     (let u = user_of s p in
      if u_Email u = [] then (Some ''email is required'', s)
      else
        let u1 = (if u_ID u = [] then u\<lparr>u_ID := uid\<rparr> else u);
            u2 = (if u_CreatedAt u1 = 0 then u1\<lparr>u_CreatedAt := now\<rparr> else u1);
            s1 = set_user p u2 s
        in case r_Exists R (userKey (u_ID u2)) (db s) of
             Inl err \<Rightarrow> (Some (''failed to check user existence: '' @ err), s1)
           | Inr n \<Rightarrow>
               if n > 0 then (Some ''user already exists'', s1)
               else
                 marshalled (Marshal ''user'' [u_CreatedAt u2] (User_json u2))
                   (\<lambda>data s. and_then (command ''failed to store user'' (r_Set R (userKey (u_ID u2)) data 0) s)
                     (command ''failed to store email mapping'' (r_Set R (emailKey (u_Email u2)) (u_ID u2) 0)))
                   s1)"

definition red_GetUser :: "'r redis_client \<Rightarrow> string \<Rightarrow> 'r store \<Rightarrow> (go_error + addr) \<times> 'r store" where
  "red_GetUser R i s = by_address alloc_user (fetch R ''user'' (userKey i) unmarshal_User (db s)) s"

definition red_GetUserByEmail :: "'r redis_client \<Rightarrow> string \<Rightarrow> 'r store \<Rightarrow> (go_error + addr) \<times> 'r store" where
  "red_GetUserByEmail R email s =
     (case r_Get R (emailKey email) (db s) of
        Missing \<Rightarrow> (Inl ''user not found'', s)
      | Failed err \<Rightarrow> (Inl (''failed to get user by email: '' @ err), s)
      | Got userID \<Rightarrow> red_GetUser R userID s)"

definition red_UpdateUser :: "'r redis_client \<Rightarrow> addr \<Rightarrow> 'r fallible" where
  "red_UpdateUser R p s =
     (let u = user_of s p in
      if u_ID u = [] then (Some ''user ID is required'', s)
      else
        case r_Exists R (userKey (u_ID u)) (db s) of
          Inl err \<Rightarrow> (Some (''failed to check user existence: '' @ err), s)
        | Inr n \<Rightarrow>
            if n = 0 then (Some ''user not found'', s)
            else
              marshalled (Marshal ''user'' [u_CreatedAt u] (User_json u))
                (\<lambda>data. command ''failed to update user'' (r_Set R (userKey (u_ID u)) data 0)) s)"

section \<open>Customers\<close>

text \<open>The points of time of a customer, which holds its accounts, which hold their cards.\<close>

definition account_times :: "Account \<Rightarrow> time list" where
  "account_times a = acc_CreatedAt a # map c_CreatedAt (acc_Cards a)"

definition customer_times :: "Customer \<Rightarrow> time list" where
  "customer_times c = cu_CreatedAt c # concat (map account_times (cu_Accounts c))"

definition red_CreateCustomer :: "'r redis_client \<Rightarrow> addr \<Rightarrow> string \<Rightarrow> time \<Rightarrow> 'r fallible" where
  "red_CreateCustomer R p uid now s =
     (let c = customer_of s p;
          c1 = (if no_id (cu_ID c) then c\<lparr>cu_ID := Some uid\<rparr> else c)
      in if cu_SourceID c1 = [] then (Some ''sourceId is required'', set_customer p c1 s)
         else
           let c2 = (if cu_CreatedAt c1 = 0 then c1\<lparr>cu_CreatedAt := now\<rparr> else c1);
               cid = id_of (cu_ID c2)
           in marshalled (Marshal ''customer'' (customer_times c2) (Customer_json c2))
                (\<lambda>data s. and_then (command ''failed to store customer'' (r_Set R (customerKey cid) data 0) s)
                  (command ''failed to store customer source mapping''
                    (r_Set R (customerSourceKey (cu_SourceID c2)) cid 0)))
                (set_customer p c2 s))"

definition red_GetCustomer :: "'r redis_client \<Rightarrow> string \<Rightarrow> 'r store \<Rightarrow> (go_error + addr) \<times> 'r store" where
  "red_GetCustomer R i s =
     by_address alloc_customer (fetch R ''customer'' (customerKey i) unmarshal_Customer (db s)) s"

definition red_GetCustomerBySourceID ::
  "'r redis_client \<Rightarrow> string \<Rightarrow> 'r store \<Rightarrow> (go_error + addr) \<times> 'r store" where
  "red_GetCustomerBySourceID R sourceID s =
     (case r_Get R (customerSourceKey sourceID) (db s) of
        Missing \<Rightarrow> (Inl ''customer not found'', s)
      | Failed err \<Rightarrow> (Inl (''failed to get customer by sourceId: '' @ err), s)
      | Got customerID \<Rightarrow> red_GetCustomer R customerID s)"

definition red_UpdateCustomer :: "'r redis_client \<Rightarrow> addr \<Rightarrow> 'r fallible" where
  "red_UpdateCustomer R p s =
     (let c = customer_of s p; cid = id_of (cu_ID c) in
      if no_id (cu_ID c) then (Some ''customer ID is required'', s)
      else
        marshalled (Marshal ''customer'' (customer_times c) (Customer_json c))
          (\<lambda>data s. and_then (command ''failed to update customer'' (r_Set R (customerKey cid) data 0) s)
            (\<lambda>s. if cu_SourceID c \<noteq> []
                 then command ''failed to update customer source mapping''
                   (r_Set R (customerSourceKey (cu_SourceID c)) cid 0) s
                 else (None, s)))
          s)"

section \<open>Accounts\<close>

definition red_CreateAccount :: "'r redis_client \<Rightarrow> addr \<Rightarrow> string \<Rightarrow> time \<Rightarrow> 'r fallible" where
  "red_CreateAccount R p uid now s =
     (let a = account_of s p;
          a1 = (if no_id (acc_ID a) then a\<lparr>acc_ID := Some uid\<rparr> else a);
          a2 = (if acc_CreatedAt a1 = 0 then a1\<lparr>acc_CreatedAt := now\<rparr> else a1);
          aid = id_of (acc_ID a2)
      in marshalled (Marshal ''account'' (account_times a2) (Account_json a2))
           (\<lambda>data s. and_then (command ''failed to store account'' (r_Set R (accountKey aid) data 0) s)
             (\<lambda>s. case acc_CustomerID a2 of
                    None \<Rightarrow> (None, s)
                  | Some cid \<Rightarrow>
                      command ''failed to add account to customer set'' (r_SAdd R (customerAccountsKey cid) aid) s))
           (set_account p a2 s))"

definition red_GetAccount :: "'r redis_client \<Rightarrow> string \<Rightarrow> 'r store \<Rightarrow> (go_error + addr) \<times> 'r store" where
  "red_GetAccount R i s =
     by_address alloc_account (fetch R ''account'' (accountKey i) unmarshal_Account (db s)) s"

definition red_UpdateAccount :: "'r redis_client \<Rightarrow> addr \<Rightarrow> 'r fallible" where
  "red_UpdateAccount R p s =
     (let a = account_of s p in
      if no_id (acc_ID a) then (Some ''account ID is required'', s)
      else
        marshalled (Marshal ''account'' (account_times a) (Account_json a))
          (\<lambda>data. command ''failed to update account'' (r_Set R (accountKey (id_of (acc_ID a))) data 0)) s)"

section \<open>Delivery addresses\<close>

definition red_CreateCustomerAddress ::
  "'r redis_client \<Rightarrow> string \<Rightarrow> CustomerDeliveryAddress option \<Rightarrow> string \<Rightarrow> 'r store \<Rightarrow>
     (go_error + CustomerDeliveryAddress) \<times> 'r store" where
  "red_CreateCustomerAddress R cid address uid s =
     (if cid = [] then (Inl ''customer ID is required'', s)
      else case address of
        None \<Rightarrow> (Inl ''address is required'', s)
      | Some a \<Rightarrow>
          let a1 = (if da_ID a = [] then a\<lparr>da_ID := uid\<rparr> else a)
          in giving a1
               (marshalled (Marshal ''address'' [] (CustomerDeliveryAddress_json a1))
                 (\<lambda>data s. and_then (command ''failed to store address'' (r_Set R (customerAddressKey (da_ID a1)) data 0) s)
                   (command ''failed to add address to customer set'' (r_SAdd R (customerAddressesKey cid) (da_ID a1))))
                 s))"

definition red_GetCustomerAddresses ::
  "'r redis_client \<Rightarrow> string \<Rightarrow> 'r store \<Rightarrow> go_error + CustomerDeliveryAddress list" where
  "red_GetCustomerAddresses R cid s =
     (case r_SMembers R (customerAddressesKey cid) (db s) of
        Inl err \<Rightarrow> Inl (''failed to get customer addresses: '' @ err)
      | Inr ids \<Rightarrow>
          Inr (readable (\<lambda>i. fetch R ''address'' (customerAddressKey i) unmarshal_CustomerDeliveryAddress (db s)) ids))"

section \<open>Cards\<close>

definition red_CreateCard ::
  "'r redis_client \<Rightarrow> Card \<Rightarrow> string \<Rightarrow> time \<Rightarrow> 'r store \<Rightarrow> (go_error + Card) \<times> 'r store" where
  "red_CreateCard R crd uid now s =
     (let c1 = (if c_ID crd = [] then crd\<lparr>c_ID := uid\<rparr> else crd);
          c2 = (if c_CreatedAt c1 = 0 then c1\<lparr>c_CreatedAt := now\<rparr> else c1)
      in giving c2
           (marshalled (Marshal ''card'' [c_CreatedAt c2] (Card_json c2))
             (\<lambda>data s. and_then (and_then (command ''failed to store card'' (r_Set R (cardKey (c_ID c2)) data 0) s)
               (\<lambda>s. if c_CustomerID c2 \<noteq> []
                    then command ''failed to add card to customer set''
                      (r_SAdd R (customerCardsKey (c_CustomerID c2)) (c_ID c2)) s
                    else (None, s)))
               (\<lambda>s. if c_AccountID c2 \<noteq> []
                    then command ''failed to add card to account set''
                      (r_SAdd R (accountCardsKey (c_AccountID c2)) (c_ID c2)) s
                    else (None, s)))
             s))"

definition red_GetCard :: "'r redis_client \<Rightarrow> string \<Rightarrow> 'r store \<Rightarrow> go_error + Card" where
  "red_GetCard R i s = fetch R ''card'' (cardKey i) unmarshal_Card (db s)"

definition red_UpdateCard :: "'r redis_client \<Rightarrow> Card \<Rightarrow> 'r fallible" where
  "red_UpdateCard R crd s =
     (if c_ID crd = [] then (Some ''card ID is required'', s)
      else
        marshalled (Marshal ''card'' [c_CreatedAt crd] (Card_json crd))
          (\<lambda>data. command ''failed to update card'' (r_Set R (cardKey (c_ID crd)) data 0)) s)"

definition red_GetCardsByCustomer ::
  "'r redis_client \<Rightarrow> key_order \<Rightarrow> string \<Rightarrow> 'r store \<Rightarrow> go_error + Card list" where
  "red_GetCardsByCustomer R ord customerID s =
     (case r_SMembers R (customerCardsKey customerID) (db s) of
        Inl err \<Rightarrow> Inl (''failed to get customer cards: '' @ err)
      | Inr cardIDs \<Rightarrow> Inr (readable (\<lambda>i. red_GetCard R i s) cardIDs))"

definition red_GetCardsByAccount ::
  "'r redis_client \<Rightarrow> key_order \<Rightarrow> string \<Rightarrow> 'r store \<Rightarrow> go_error + Card list" where
  "red_GetCardsByAccount R ord accountID s =
     (case r_SMembers R (accountCardsKey accountID) (db s) of
        Inl err \<Rightarrow> Inl (''failed to get account cards: '' @ err)
      | Inr cardIDs \<Rightarrow> Inr (readable (\<lambda>i. red_GetCard R i s) cardIDs))"

definition red_GetCardLimits :: "'r redis_client \<Rightarrow> string \<Rightarrow> 'r store \<Rightarrow> go_error + CardLimit list" where
  "red_GetCardLimits R cardID s =
     (case r_Get R (cardLimitsKey cardID) (db s) of
        Missing \<Rightarrow> Inr []
      | Failed err \<Rightarrow> Inl (''failed to get card limits: '' @ err)
      | Got data \<Rightarrow>
          (case unmarshal_CardLimits data of
             None \<Rightarrow> Inl ''failed to unmarshal card limits''
           | Some limits \<Rightarrow> Inr limits))"

definition red_SetCardLimits :: "'r redis_client \<Rightarrow> string \<Rightarrow> CardLimit list \<Rightarrow> 'r fallible" where
  "red_SetCardLimits R cardID limits s =
     marshalled (Marshal ''card limits'' [] (jslice CardLimit_json limits))
       (\<lambda>data. command ''failed to store card limits'' (r_Set R (cardLimitsKey cardID) data 0)) s"

section \<open>Card transactions\<close>

definition red_CreateCardTransaction :: "'r redis_client \<Rightarrow> CardTransaction \<Rightarrow> 'r fallible" where
  "red_CreateCardTransaction R tx s =
     (if ct_TransactionID tx = [] then (Some ''transactionId is required'', s)
      else
        marshalled (Marshal ''card transaction'' [] (CardTransaction_json tx))
          (\<lambda>data. command ''failed to store card transaction''
            (r_Set R (cardTransactionKey (ct_TransactionID tx)) data 0)) s)"

definition red_GetCardTransaction :: "'r redis_client \<Rightarrow> string \<Rightarrow> 'r store \<Rightarrow> go_error + CardTransaction" where
  "red_GetCardTransaction R i s =
     fetch R ''card transaction'' (cardTransactionKey i) unmarshal_CardTransaction (db s)"

text \<open>
  The raw payload is the text of an object, written and read as it is: here its members, in the
  order of the text.
\<close>

definition red_StoreRawCardTransaction :: "'r redis_client \<Rightarrow> string \<Rightarrow> RawMessage \<Rightarrow> 'r fallible" where
  "red_StoreRawCardTransaction R txID raw s =
     (if txID = [] then (Some ''txID is required'', s)
      else command ''failed to store raw card transaction''
             (r_Set R (cardTransactionRawKey txID) (json_text (JObj raw)) 0) s)"

definition raw_members :: "string \<Rightarrow> RawMessage option" where
  "raw_members data =
     (case json_parse data of
        Some (TObj kvs) \<Rightarrow> map_option as_gomap (interface_members kvs)
      | _ \<Rightarrow> None)"

definition red_GetRawCardTransaction :: "'r redis_client \<Rightarrow> string \<Rightarrow> 'r store \<Rightarrow> go_error + RawMessage" where
  "red_GetRawCardTransaction R txID s =
     fetch R ''raw card transaction'' (cardTransactionRawKey txID) raw_members (db s)"

text \<open>The map of the raw payload is encoded again with its keys sorted; a failure to store it is dropped.\<close>

definition red_UpdateCardTransactionStatus :: "'r redis_client \<Rightarrow> string \<Rightarrow> string \<Rightarrow> 'r fallible" where
  "red_UpdateCardTransactionStatus R txID status s =
     (case red_GetCardTransaction R txID s of
        Inl err \<Rightarrow> (Some err, s)
      | Inr tx \<Rightarrow>
          and_then
            (marshalled (Marshal ''card transaction'' [] (CardTransaction_json (tx\<lparr>ct_TxStatus := Some status\<rparr>)))
              (\<lambda>data. command ''failed to update card transaction'' (r_Set R (cardTransactionKey txID) data 0)) s)
            (\<lambda>s. case red_GetRawCardTransaction R txID s of
                   Inl err \<Rightarrow> (None, s)
                 | Inr m \<Rightarrow>
                     (case sort_maps (JObj (mput ''txStatus'' (JStr status) m)) of
                        JObj updated \<Rightarrow> (None, snd (red_StoreRawCardTransaction R txID updated s))
                      | _ \<Rightarrow> (None, s))))"

definition red_SetCardPIN :: "'r redis_client \<Rightarrow> string \<Rightarrow> string \<Rightarrow> 'r fallible" where
  "red_SetCardPIN R cardID pin s =
     (if cardID = [] then (Some ''cardID is required'', s)
      else case red_GetCard R cardID s of
        Inl err \<Rightarrow> (Some err, s)
      | Inr _ \<Rightarrow> command ''failed to store card pin'' (r_Set R (cardPINKey cardID) pin 0) s)"

definition red_GetCardPIN :: "'r redis_client \<Rightarrow> string \<Rightarrow> 'r store \<Rightarrow> go_error + string" where
  "red_GetCardPIN R cardID s =
     (case r_Get R (cardPINKey cardID) (db s) of
        Missing \<Rightarrow> Inl ''card pin not set''
      | Failed err \<Rightarrow> Inl (''failed to get card pin: '' @ err)
      | Got pin \<Rightarrow> Inr pin)"

definition red_NextCardTransactionSeqID :: "'r redis_client \<Rightarrow> 'r store \<Rightarrow> (go_error + int) \<times> 'r store" where
  "red_NextCardTransactionSeqID R s =
     (case r_Incr R cardTransactionSeqKey (db s) of
        (Inl err, d) \<Rightarrow> (Inl (''failed to increment card transaction sequence: '' @ err), s\<lparr>db := d\<rparr>)
      | (Inr n, d) \<Rightarrow> (Inr n, s\<lparr>db := d\<rparr>))"

definition red_PeekCardTransactionSeqID :: "'r redis_client \<Rightarrow> 'r store \<Rightarrow> go_error + int" where
  "red_PeekCardTransactionSeqID R s =
     (case r_Get R cardTransactionSeqKey (db s) of
        Missing \<Rightarrow> Inr 0
      | Failed err \<Rightarrow> Inl (''failed to read card transaction sequence: '' @ err)
      | Got data \<Rightarrow>
          (case atoi data of
             None \<Rightarrow> Inl ''failed to read card transaction sequence''
           | Some n \<Rightarrow> Inr n))"

definition red_AddCardTransactionIndex :: "'r redis_client \<Rightarrow> string \<Rightarrow> string \<Rightarrow> 'r fallible" where
  "red_AddCardTransactionIndex R cardID transactionID s =
     (if cardID = [] \<or> transactionID = [] then (Some ''cardID and transactionID are required'', s)
      else command ''failed to index card transaction'' (r_LPush R (cardTransactionsKey cardID) transactionID) s)"

definition red_GetCardTransactionIDs :: "'r redis_client \<Rightarrow> string \<Rightarrow> 'r store \<Rightarrow> go_error + string list" where
  "red_GetCardTransactionIDs R cardID s =
     (case r_LRange R (cardTransactionsKey cardID) (db s) of
        Inl err \<Rightarrow> Inl (''failed to get card transaction IDs: '' @ err)
      | Inr ids \<Rightarrow> Inr ids)"

section \<open>Wallets\<close>

definition red_CreateWallet ::
  "'r redis_client \<Rightarrow> Wallet \<Rightarrow> time \<Rightarrow> 'r store \<Rightarrow> (go_error + Wallet) \<times> 'r store" where
  "red_CreateWallet R w now s =
     (if w_Address w = [] then (Inl ''wallet address is required'', s)
      else
        let w1 = w\<lparr>w_CreatedAt := now\<rparr>
        in giving w1
             (marshalled (Marshal ''wallet'' [w_CreatedAt w1] (Wallet_json w1))
               (\<lambda>data s. and_then (command ''failed to store wallet'' (r_Set R (walletKey (w_Address w1)) data 0) s)
                 (command ''failed to add wallet to user list''
                   (r_SAdd R (userWalletsKey (w_UserID w1)) (w_Address w1))))
               s))"

definition red_GetWallet :: "'r redis_client \<Rightarrow> string \<Rightarrow> 'r store \<Rightarrow> go_error + Wallet" where
  "red_GetWallet R address s = fetch R ''wallet'' (walletKey address) unmarshal_Wallet (db s)"

definition red_GetWalletsByUser ::
  "'r redis_client \<Rightarrow> key_order \<Rightarrow> string \<Rightarrow> 'r store \<Rightarrow> go_error + Wallet list" where
  "red_GetWalletsByUser R ord userID s =
     (case r_SMembers R (userWalletsKey userID) (db s) of
        Inl err \<Rightarrow> Inl (''failed to get user wallets: '' @ err)
      | Inr addresses \<Rightarrow> Inr (readable (\<lambda>a. red_GetWallet R a s) addresses))"

section \<open>Transactions\<close>

definition red_CreateTransaction ::
  "'r redis_client \<Rightarrow> Transaction \<Rightarrow> string \<Rightarrow> time \<Rightarrow> 'r store \<Rightarrow> (go_error + Transaction) \<times> 'r store" where
  "red_CreateTransaction R tx uid now s =
     (let t1 = (if tx_ID tx = [] then tx\<lparr>tx_ID := uid\<rparr> else tx);
          t2 = t1\<lparr>tx_CreatedAt := now\<rparr>
      in giving t2
           (marshalled (Marshal ''transaction'' [tx_CreatedAt t2] (Transaction_json t2))
             (\<lambda>data s. and_then (command ''failed to store transaction'' (r_Set R (txKey (tx_ID t2)) data 0) s)
               (\<lambda>s. if tx_UserID t2 \<noteq> []
                    then command ''failed to index transaction by user''
                      (r_LPush R (userTransactionsKey (tx_UserID t2)) (tx_ID t2)) s
                    else (None, s)))
             s))"

definition red_GetTransaction :: "'r redis_client \<Rightarrow> string \<Rightarrow> 'r store \<Rightarrow> go_error + Transaction" where
  "red_GetTransaction R i s = fetch R ''transaction'' (txKey i) unmarshal_Transaction (db s)"

text \<open>\<^verbatim>\<open>LRANGE\<close> has no nil reply: a missing list is empty.\<close>

definition red_ListTransactionsByUser :: "'r redis_client \<Rightarrow> string \<Rightarrow> 'r store \<Rightarrow> go_error + Transaction list" where
  "red_ListTransactionsByUser R userID s =
     (case r_LRange R (userTransactionsKey userID) (db s) of
        Inl err \<Rightarrow> Inl (''failed to list user transactions: '' @ err)
      | Inr ids \<Rightarrow> Inr (sort_key (\<lambda>t. - tx_CreatedAt t) (readable (\<lambda>i. red_GetTransaction R i s) ids)))"

definition red_UpdateTransactionStatus :: "'r redis_client \<Rightarrow> string \<Rightarrow> int \<Rightarrow> 'r fallible" where
  "red_UpdateTransactionStatus R i status s =
     (case red_GetTransaction R i s of
        Inl err \<Rightarrow> (Some err, s)
      | Inr tx \<Rightarrow>
          marshalled (Marshal ''transaction'' [tx_CreatedAt tx] (Transaction_json (tx\<lparr>tx_Status := status\<rparr>)))
            (\<lambda>data. command ''failed to update transaction'' (r_Set R (txKey i) data 0)) s)"

section \<open>Balances\<close>

definition red_GetBalance :: "'r redis_client \<Rightarrow> string \<Rightarrow> string \<Rightarrow> 'r store \<Rightarrow> f64 \<times> go_error option" where
  "red_GetBalance R userID currency s =
     (case r_Get R (balanceKey userID currency) (db s) of
        Missing \<Rightarrow> (f0, None)
      | Failed err \<Rightarrow> (f0, Some (''failed to get balance: '' @ err))
      | Got val \<Rightarrow>
          (case ParseFloat val of
             None \<Rightarrow> (f0, Some ''failed to parse balance'')
           | Some balance \<Rightarrow> (balance, None)))"

definition red_AddBalance :: "'r redis_client \<Rightarrow> string \<Rightarrow> string \<Rightarrow> f64 \<Rightarrow> 'r fallible" where
  "red_AddBalance R userID currency amount =
     command ''failed to update balance'' (r_IncrByFloat R (balanceKey userID currency) amount)"

text \<open>A deduction adds the negated amount: there is no check that the balance covers it.\<close>

definition red_DeductBalance :: "'r redis_client \<Rightarrow> string \<Rightarrow> string \<Rightarrow> f64 \<Rightarrow> 'r fallible" where
  "red_DeductBalance R userID currency amount = red_AddBalance R userID currency (fneg amount)"

section \<open>3DS challenges\<close>

text \<open>
  \<^verbatim>\<open>time.Until\<close> keeps within 64 bits; the sum with the ten minutes wraps. The reads of the clock in
  one call are one time.
\<close>

definition time_until :: "time \<Rightarrow> time \<Rightarrow> time" where
  "time_until t now = max (- (2 ^ 63)) (min (2 ^ 63 - 1) (t - now))"

definition challenge_ttl :: "time \<Rightarrow> time" where
  "challenge_ttl ttl = sint (word_of_int (ttl + 10 * 60 * second) :: 64 word)"

definition red_CreateThreeDSChallenge ::
  "'r redis_client \<Rightarrow> ThreeDSChallenge \<Rightarrow> time \<Rightarrow> 'r store \<Rightarrow> (go_error + ThreeDSChallenge) \<times> 'r store" where
  "red_CreateThreeDSChallenge R ch now s =
     (if tds_TransactionID ch = [] then (Inl ''transaction ID is required'', s)
      else
        let ch1 = (if tds_CreatedAt ch = 0 then ch\<lparr>tds_CreatedAt := now\<rparr> else ch);
            ttl = time_until (tds_Timeout ch1) now;
            tid = tds_TransactionID ch1
        in giving ch1
             (marshalled (Marshal ''3DS challenge'' [tds_Timeout ch1, tds_CreatedAt ch1] (ThreeDSChallenge_json ch1))
               (\<lambda>data s.
                  if ttl < 0 then (Some ''3DS challenge timeout is in the past'', s)
                  else
                    and_then (command ''failed to store 3DS challenge''
                      (r_Set R (threeDSChallengeKey tid) data (challenge_ttl ttl)) s)
                      (command ''failed to index 3DS challenge''
                        (r_ZAdd R (userThreeDSChallengesKey (tds_UserID ch1))
                          (f64_of_rat (of_int (Unix (tds_Timeout ch1)))) tid)))
               s))"

definition red_GetThreeDSChallenge :: "'r redis_client \<Rightarrow> string \<Rightarrow> 'r store \<Rightarrow> go_error + ThreeDSChallenge" where
  "red_GetThreeDSChallenge R txID s =
     fetch R ''3DS challenge'' (threeDSChallengeKey txID) unmarshal_ThreeDSChallenge (db s)"

definition red_GetPendingThreeDSChallenges ::
  "'r redis_client \<Rightarrow> key_order \<Rightarrow> time \<Rightarrow> string \<Rightarrow> 'r store \<Rightarrow> go_error + ThreeDSChallenge list" where
  "red_GetPendingThreeDSChallenges R ord now userID s =
     (case r_ZRangeByScore R (userThreeDSChallengesKey userID) (int_str (Unix now)) ''+inf'' (db s) of
        Inl err \<Rightarrow> Inl (''failed to get pending 3DS challenges: '' @ err)
      | Inr txIDs \<Rightarrow>
          Inr (filter (\<lambda>ch. tds_Status ch = ''pending'') (readable (\<lambda>i. red_GetThreeDSChallenge R i s) txIDs)))"

definition red_UpdateThreeDSChallenge :: "'r redis_client \<Rightarrow> ThreeDSChallenge \<Rightarrow> 'r fallible" where
  "red_UpdateThreeDSChallenge R ch s =
     (let key = threeDSChallengeKey (tds_TransactionID ch) in
      case r_Exists R key (db s) of
        Inl err \<Rightarrow> (Some (''failed to check 3DS challenge existence: '' @ err), s)
      | Inr n \<Rightarrow>
          if n = 0 then (Some ''3DS challenge not found'', s)
          else
            marshalled (Marshal ''3DS challenge'' [tds_Timeout ch, tds_CreatedAt ch] (ThreeDSChallenge_json ch))
              (\<lambda>data s.
                 case r_TTL R key (db s) of
                   Inl err \<Rightarrow> (Some (''failed to get TTL: '' @ err), s)
                 | Inr ttl \<Rightarrow>
                     and_then (command ''failed to update 3DS challenge'' (r_Set R key data ttl) s)
                       (\<lambda>s. if tds_Status ch \<noteq> ''pending''
                            then command ''failed to remove from pending set''
                              (r_ZRem R (userThreeDSChallengesKey (tds_UserID ch)) (tds_TransactionID ch)) s
                            else (None, s)))
              s)"

section \<open>Organizations\<close>

definition red_GetOrganization :: "'r redis_client \<Rightarrow> string \<Rightarrow> 'r store \<Rightarrow> go_error + Organization" where
  "red_GetOrganization R orgID s = fetch R ''organization'' (organizationKey orgID) unmarshal_Organization (db s)"

definition red_CreateOrganization :: "'r redis_client \<Rightarrow> Organization \<Rightarrow> 'r fallible" where
  "red_CreateOrganization R org s =
     (let key = organizationKey (org_ID org) in
      case r_Exists R key (db s) of
        Inl err \<Rightarrow> (Some (''failed to check organization existence: '' @ err), s)
      | Inr n \<Rightarrow>
          if n > 0 then (Some ''organization already exists'', s)
          else
            marshalled (Marshal ''organization'' [org_CreatedAt org, org_UpdatedAt org] (Organization_json org))
              (\<lambda>data. run_command (r_Set R key data 0)) s)"

definition red_UpdateOrganization ::
  "'r redis_client \<Rightarrow> Organization \<Rightarrow> time \<Rightarrow> 'r store \<Rightarrow> (go_error + Organization) \<times> 'r store" where
  "red_UpdateOrganization R org now s =
     (let key = organizationKey (org_ID org) in
      case r_Exists R key (db s) of
        Inl err \<Rightarrow> (Inl (''failed to check organization existence: '' @ err), s)
      | Inr n \<Rightarrow>
          if n = 0 then (Inl ''organization not found'', s)
          else
            let org1 = org\<lparr>org_UpdatedAt := now\<rparr>
            in giving org1
                 (marshalled (Marshal ''organization'' [org_CreatedAt org1, org_UpdatedAt org1] (Organization_json org1))
                   (\<lambda>data. run_command (r_Set R key data 0)) s))"

section \<open>Scans\<close>

text \<open>What follows the last colon of a key.\<close>

definition after_last_colon :: "string \<Rightarrow> string" where
  "after_last_colon key = rev (takeWhile (\<lambda>c. c \<noteq> CHR '':'') (rev key))"

text \<open>The body of the loop over balance keys: unreadable and zero balances are left out.\<close>

definition scanned_balance :: "'r redis_client \<Rightarrow> 'r \<Rightarrow> string \<Rightarrow> f64 gomap \<Rightarrow> f64 gomap" where
  "scanned_balance R d key out =
     (case r_Get R key d of
        Got val \<Rightarrow>
          (case ParseFloat val of
             None \<Rightarrow> out
           | Some amount \<Rightarrow> if feq amount f0 then out else mput (after_last_colon key) amount out)
      | _ \<Rightarrow> out)"

definition red_GetAllBalances_scan :: "'r redis_client \<Rightarrow> string \<Rightarrow> 'r store \<Rightarrow> (go_error + f64 gomap) option" where
  "red_GetAllBalances_scan R userID s =
     map_option (\<lambda>x. case x of Inl err \<Rightarrow> Inl (''failed to scan balances: '' @ err) | Inr out \<Rightarrow> Inr out)
       (scan_loop R (balanceKey userID ''*'') (scanned_balance R (db s)) (db s) 0 [])"

text \<open>The body of the loop over users: a key with a second colon is an index, not a record.\<close>

definition scanned_user :: "'r redis_client \<Rightarrow> string \<Rightarrow> addr list \<times> 'r store \<Rightarrow> addr list \<times> 'r store" where
  "scanned_user R key out =
     (if count_list key (CHR '':'') \<noteq> 1 then out
      else case r_Get R key (db (snd out)) of
        Got data \<Rightarrow>
          (case unmarshal_User data of
             None \<Rightarrow> out
           | Some u \<Rightarrow> let (p, s1) = alloc_user u (snd out) in (fst out @ [p], s1))
      | _ \<Rightarrow> out)"

definition red_ListUsers_scan ::
  "'r redis_client \<Rightarrow> 'r store \<Rightarrow> ((go_error + addr list) \<times> 'r store) option" where
  "red_ListUsers_scan R s =
     map_option
       (\<lambda>x. case x of
              Inl err \<Rightarrow> (Inl (''failed to scan users: '' @ err), s)
            | Inr (out, s1) \<Rightarrow>
                (Inr (sort_key (\<lambda>p. (u_CreatedAt (user_of s1 p), u_ID (user_of s1 p))) out), s1))
       (scan_loop R ''user:*'' (scanned_user R) (db s) 0 ([], s))"

section \<open>The implementation of the interface\<close>

text \<open>
  An operation of the table is total: a scan that never ends is an error there. A service that
  keeps the promise of \<^verbatim>\<open>SCAN\<close> ends it.
\<close>

definition red_GetAllBalances :: "'r redis_client \<Rightarrow> string \<Rightarrow> 'r store \<Rightarrow> go_error + f64 gomap" where
  "red_GetAllBalances R userID s =
     (case red_GetAllBalances_scan R userID s of None \<Rightarrow> Inl ''the scan does not end'' | Some x \<Rightarrow> x)"

definition red_ListUsers :: "'r redis_client \<Rightarrow> key_order \<Rightarrow> 'r store \<Rightarrow> (go_error + addr list) \<times> 'r store" where
  "red_ListUsers R ord s =
     (case red_ListUsers_scan R s of None \<Rightarrow> (Inl ''the scan does not end'', s) | Some x \<Rightarrow> x)"

definition redis_storage :: "'r redis_client \<Rightarrow> 'r Storage" where
  "redis_storage R =
     \<lparr>s_CreateUser = red_CreateUser R, s_GetUser = red_GetUser R,
      s_GetUserByEmail = red_GetUserByEmail R, s_UpdateUser = red_UpdateUser R,
      s_ListUsers = red_ListUsers R,
      s_CreateCustomer = red_CreateCustomer R, s_GetCustomer = red_GetCustomer R,
      s_GetCustomerBySourceID = red_GetCustomerBySourceID R, s_UpdateCustomer = red_UpdateCustomer R,
      s_CreateAccount = red_CreateAccount R, s_GetAccount = red_GetAccount R,
      s_UpdateAccount = red_UpdateAccount R,
      s_CreateCustomerAddress = red_CreateCustomerAddress R,
      s_GetCustomerAddresses = red_GetCustomerAddresses R,
      s_CreateCard = red_CreateCard R, s_GetCard = red_GetCard R, s_UpdateCard = red_UpdateCard R,
      s_GetCardsByCustomer = red_GetCardsByCustomer R, s_GetCardsByAccount = red_GetCardsByAccount R,
      s_GetCardLimits = red_GetCardLimits R, s_SetCardLimits = red_SetCardLimits R,
      s_SetCardPIN = red_SetCardPIN R, s_GetCardPIN = red_GetCardPIN R,
      s_CreateCardTransaction = red_CreateCardTransaction R,
      s_GetCardTransaction = red_GetCardTransaction R,
      s_UpdateCardTransactionStatus = red_UpdateCardTransactionStatus R,
      s_AddCardTransactionIndex = red_AddCardTransactionIndex R,
      s_GetCardTransactionIDs = red_GetCardTransactionIDs R,
      s_StoreRawCardTransaction = red_StoreRawCardTransaction R,
      s_GetRawCardTransaction = red_GetRawCardTransaction R,
      s_NextCardTransactionSeqID = red_NextCardTransactionSeqID R,
      s_PeekCardTransactionSeqID = red_PeekCardTransactionSeqID R,
      s_CreateWallet = red_CreateWallet R, s_GetWallet = red_GetWallet R,
      s_GetWalletsByUser = red_GetWalletsByUser R,
      s_CreateTransaction = red_CreateTransaction R, s_GetTransaction = red_GetTransaction R,
      s_UpdateTransactionStatus = red_UpdateTransactionStatus R,
      s_ListTransactionsByUser = red_ListTransactionsByUser R,
      s_GetBalance = red_GetBalance R, s_GetAllBalances = red_GetAllBalances R,
      s_AddBalance = red_AddBalance R, s_DeductBalance = red_DeductBalance R,
      s_CreateThreeDSChallenge = red_CreateThreeDSChallenge R,
      s_GetThreeDSChallenge = red_GetThreeDSChallenge R,
      s_GetPendingThreeDSChallenges = red_GetPendingThreeDSChallenges R,
      s_UpdateThreeDSChallenge = red_UpdateThreeDSChallenge R,
      s_GetOrganization = red_GetOrganization R, s_CreateOrganization = red_CreateOrganization R,
      s_UpdateOrganization = red_UpdateOrganization R\<rparr>"

end
