(* ===== verification/Redis_Laws.thy ===== *)
theory Redis_Laws
  imports Redis_Storage Store_Contracts
begin

text \<open>
  What Redis promises, as predicates on a client and a view of the service's state, and the kinds
  of the store's keys: each key is used with one kind of value only, so no command of the store
  ever meets a value of the wrong kind. The view \<open>val\<close> gives the value of a key that exists.
\<close>

section \<open>Values\<close>

datatype rvalue = RString string | RList "string list" | RSet "string list" | RZSet "(f64 \<times> string) list"

datatype rkind = KString | KList | KSet | KZSet

fun kind_of :: "rvalue \<Rightarrow> rkind" where
  "kind_of (RString t) = KString"
| "kind_of (RList xs) = KList"
| "kind_of (RSet xs) = KSet"
| "kind_of (RZSet zs) = KZSet"

text \<open>
  What a command may make of the value of its key; nothing where the value has the wrong kind.
  A sorted set whose last member is removed is removed itself.
\<close>

fun sadd_to :: "string \<Rightarrow> rvalue option \<Rightarrow> rvalue option set" where
  "sadd_to m None = {Some (RSet [m])}"
| "sadd_to m (Some (RSet xs)) = {Some (RSet (List.insert m xs))}"
| "sadd_to m _ = {}"

fun lpush_to :: "string \<Rightarrow> rvalue option \<Rightarrow> rvalue option set" where
  "lpush_to m None = {Some (RList [m])}"
| "lpush_to m (Some (RList xs)) = {Some (RList (m # xs))}"
| "lpush_to m _ = {}"

fun zadd_to :: "f64 \<Rightarrow> string \<Rightarrow> rvalue option \<Rightarrow> rvalue option set" where
  "zadd_to x m None = {Some (RZSet [(x, m)])}"
| "zadd_to x m (Some (RZSet zs)) = {Some (RZSet ((x, m) # filter (\<lambda>z. snd z \<noteq> m) zs))}"
| "zadd_to x m _ = {}"

fun zrem_to :: "string \<Rightarrow> rvalue option \<Rightarrow> rvalue option set" where
  "zrem_to m None = {None}"
| "zrem_to m (Some (RZSet zs)) =
     (let zs1 = filter (\<lambda>z. snd z \<noteq> m) zs in {if zs1 = [] then None else Some (RZSet zs1)})"
| "zrem_to m _ = {}"

text \<open>A number is counted up in its text; how Redis rounds the sum of two floats is left open.\<close>

fun incr_to :: "rvalue option \<Rightarrow> rvalue option set" where
  "incr_to None = {Some (RString ''1'')}"
| "incr_to (Some (RString t)) =
     (case atoi t of
        None \<Rightarrow> {}
      | Some n \<Rightarrow> if n < 2 ^ 63 - 1 then {Some (RString (int_str (n + 1)))} else {})"
| "incr_to _ = {}"

fun float_to :: "rvalue option \<Rightarrow> rvalue option set" where
  "float_to None = {Some (RString t) |t. True}"
| "float_to (Some (RString t0)) = {Some (RString t) |t. True}"
| "float_to _ = {}"

text \<open>The texts that Redis writes for a float: digits, a point and a sign.\<close>

definition decimal_text :: "string \<Rightarrow> f64 \<Rightarrow> bool" where
  "decimal_text t x \<longleftrightarrow>
     list_all (\<lambda>c. is_digit c \<or> c = CHR ''.'' \<or> c = CHR ''-'') t \<and> ParseFloat t = Some x \<and> is_finite x"

text \<open>A key that holds a number, 0 where it is missing.\<close>

definition holds_number :: "rvalue option \<Rightarrow> f64 \<Rightarrow> bool" where
  "holds_number v x \<longleftrightarrow> (v = None \<and> x = f0) \<or> (\<exists>t. v = Some (RString t) \<and> decimal_text t x)"

section \<open>The promises\<close>

text \<open>
  A command makes its change, or fails; a command that fails on the way back has made it all the
  same. No other key changes.
\<close>

definition obeys ::
  "('r \<Rightarrow> string \<Rightarrow> rvalue option) \<Rightarrow> (rvalue option \<Rightarrow> rvalue option set) \<Rightarrow> string \<Rightarrow>
     'r \<Rightarrow> 'e option \<times> 'r \<Rightarrow> bool" where
  "obeys val change k d x \<longleftrightarrow>
     (\<exists>v \<in> change (val d k). val (snd x) = (val d)(k := v)) \<or> (fst x \<noteq> None \<and> val (snd x) = val d)"

definition incr_error :: "(go_error + int) \<times> 'r \<Rightarrow> go_error option \<times> 'r" where
  "incr_error x = (case fst x of Inl err \<Rightarrow> Some err | Inr n \<Rightarrow> None, snd x)"

definition redis_laws :: "'r redis_client \<Rightarrow> ('r \<Rightarrow> string \<Rightarrow> rvalue option) \<Rightarrow> bool" where
  "redis_laws R val \<longleftrightarrow>
     (\<forall>k x ttl d. obeys val (\<lambda>_. {Some (RString x)}) k d (r_Set R k x ttl d)) \<and>
     (\<forall>k m d. obeys val (sadd_to m) k d (r_SAdd R k m d)) \<and>
     (\<forall>k m d. obeys val (lpush_to m) k d (r_LPush R k m d)) \<and>
     (\<forall>k x m d. obeys val (zadd_to x m) k d (r_ZAdd R k x m d)) \<and>
     (\<forall>k m d. obeys val (zrem_to m) k d (r_ZRem R k m d)) \<and>
     (\<forall>k d. obeys val incr_to k d (incr_error (r_Incr R k d))) \<and>
     (\<forall>k x d. obeys val float_to k d (r_IncrByFloat R k x d))"

text \<open>The service is up: it fails no command but those on a value of the wrong kind, and reads are exact.\<close>

definition redis_up :: "'r redis_client \<Rightarrow> ('r \<Rightarrow> string \<Rightarrow> rvalue option) \<Rightarrow> bool" where
  "redis_up R val \<longleftrightarrow>
     (\<forall>k x ttl d. fst (r_Set R k x ttl d) = None) \<and>
     (\<forall>k m d. sadd_to m (val d k) \<noteq> {} \<longrightarrow> fst (r_SAdd R k m d) = None) \<and>
     (\<forall>k m d. lpush_to m (val d k) \<noteq> {} \<longrightarrow> fst (r_LPush R k m d) = None) \<and>
     (\<forall>k x y d. holds_number (val d k) y \<longrightarrow> is_finite x \<longrightarrow> is_finite (fadd y x) \<longrightarrow>
        fst (r_IncrByFloat R k x d) = None) \<and>
     (\<forall>k d. val d k = None \<longrightarrow> r_Get R k d = Missing) \<and>
     (\<forall>k d t. val d k = Some (RString t) \<longrightarrow> r_Get R k d = Got t) \<and>
     (\<forall>k d. val d k = None \<longrightarrow> r_LRange R k d = Inr []) \<and>
     (\<forall>k d xs. val d k = Some (RList xs) \<longrightarrow> r_LRange R k d = Inr xs)"

lemma redis_lawsD:
  assumes "redis_laws R val"
  shows "obeys val (\<lambda>_. {Some (RString x)}) k d (r_Set R k x ttl d)"
    and "obeys val (sadd_to m) k d (r_SAdd R k m d)"
    and "obeys val (lpush_to m) k d (r_LPush R k m d)"
    and "obeys val (zadd_to y m) k d (r_ZAdd R k y m d)"
    and "obeys val (zrem_to m) k d (r_ZRem R k m d)"
    and "obeys val incr_to k d (incr_error (r_Incr R k d))"
    and "obeys val float_to k d (r_IncrByFloat R k y d)"
  using assms unfolding redis_laws_def by simp_all

lemma redis_upD:
  assumes "redis_up R val"
  shows "fst (r_Set R k x ttl d) = None"
    and "sadd_to m (val d k) \<noteq> {} \<Longrightarrow> fst (r_SAdd R k m d) = None"
    and "lpush_to m (val d k) \<noteq> {} \<Longrightarrow> fst (r_LPush R k m d) = None"
    and "holds_number (val d k) z \<Longrightarrow> is_finite y \<Longrightarrow> is_finite (fadd z y) \<Longrightarrow>
          fst (r_IncrByFloat R k y d) = None"
    and "val d k = None \<Longrightarrow> r_Get R k d = Missing"
    and "val d k = Some (RString t) \<Longrightarrow> r_Get R k d = Got t"
    and "val d k = None \<Longrightarrow> r_LRange R k d = Inr []"
    and "val d k = Some (RList xs) \<Longrightarrow> r_LRange R k d = Inr xs"
  using assms unfolding redis_up_def by simp_all

section \<open>Kinds of keys\<close>

text \<open>The kind of value that belongs under a key, by the parts between its colons.\<close>

definition index_set :: "string \<Rightarrow> string \<Rightarrow> string \<Rightarrow> bool" where
  "index_set a i b \<longleftrightarrow>
     a = ''user'' \<and> b = ''wallets'' \<or> a = ''account'' \<and> b = ''cards'' \<or>
     a = ''customer'' \<and> i \<noteq> ''source'' \<and> i \<noteq> ''address'' \<and> (b = ''accounts'' \<or> b = ''cards'' \<or> b = ''addresses'')"

fun parts_kind :: "string list \<Rightarrow> rkind" where
  "parts_kind [a, i, b] =
     (if (a = ''user'' \<or> a = ''card'') \<and> b = ''transactions'' then KList
      else if index_set a i b then KSet else KString)"
| "parts_kind [a, i, b, c] = (if a = ''user'' \<and> b = ''3ds'' \<and> c = ''challenges'' then KZSet else KString)"
| "parts_kind _ = KString"

definition key_kind :: "string \<Rightarrow> rkind" where
  "key_kind k = parts_kind (split_on (CHR '':'') k)"

text \<open>An identifier that keeps the namespaces apart; UUIDs are of this form.\<close>

definition plain_id :: "string \<Rightarrow> bool" where
  "plain_id i \<longleftrightarrow> CHR '':'' \<notin> set i \<and> i \<noteq> ''source'' \<and> i \<noteq> ''address''"

definition well_kinded :: "('r \<Rightarrow> string \<Rightarrow> rvalue option) \<Rightarrow> 'r \<Rightarrow> bool" where
  "well_kinded val d \<longleftrightarrow> (\<forall>k v. val d k = Some v \<longrightarrow> kind_of v = key_kind k)"

lemma parts_kind_string:
  "a \<notin> {''user'', ''card'', ''account'', ''customer''} \<Longrightarrow> parts_kind (a # ps) = KString"
  by (cases "a # ps" rule: parts_kind.cases) (auto simp: index_set_def)

lemma parts_kind_customer: "i \<in> {''source'', ''address''} \<Longrightarrow> parts_kind (''customer'' # i # ps) = KString"
  by (cases "''customer'' # i # ps" rule: parts_kind.cases) (auto simp: index_set_def)

lemma split_key: "CHR '':'' \<notin> set p \<Longrightarrow> split_on (CHR '':'') (p @ CHR '':'' # s) = p # split_on (CHR '':'') s"
  by (rule split_on_append_sep)

lemma string_keys [simp]:
  "key_kind (emailKey x) = KString" "key_kind (customerSourceKey x) = KString"
  "key_kind (customerAddressKey x) = KString" "key_kind (cardTransactionKey x) = KString"
  "key_kind (cardTransactionRawKey x) = KString" "key_kind cardTransactionSeqKey = KString"
  "key_kind (walletKey x) = KString" "key_kind (txKey x) = KString" "key_kind (balanceKey x y) = KString"
  "key_kind (threeDSChallengeKey x) = KString" "key_kind (organizationKey x) = KString"
  using split_key [of "''email''" x] split_key [of "''customer''" "''source:'' @ x"] split_key [of "''source''" x]
    split_key [of "''customer''" "''address:'' @ x"] split_key [of "''address''" x] split_key [of "''cardtx''" x]
    split_key [of "''cardtx''" "x @ '':raw''"] split_key [of "''cardtx''" "''seq''"] split_key [of "''wallet''" x]
    split_key [of "''tx''" x] split_key [of "''balance''" "x @ '':'' @ y"] split_key [of "''3ds''" "''challenge:'' @ x"]
    split_key [of "''organization''" x]
  by (simp_all add: key_kind_def key_defs parts_kind_string parts_kind_customer)

lemma plain_keys [simp]:
  assumes "plain_id i"
  shows "key_kind (userKey i) = KString" "key_kind (customerKey i) = KString" "key_kind (accountKey i) = KString"
    "key_kind (cardKey i) = KString" "key_kind (cardLimitsKey i) = KString" "key_kind (cardPINKey i) = KString"
    "key_kind (customerAccountsKey i) = KSet" "key_kind (customerCardsKey i) = KSet"
    "key_kind (accountCardsKey i) = KSet" "key_kind (customerAddressesKey i) = KSet"
    "key_kind (userWalletsKey i) = KSet" "key_kind (cardTransactionsKey i) = KList"
    "key_kind (userTransactionsKey i) = KList" "key_kind (userThreeDSChallengesKey i) = KZSet"
  using assms by (simp_all add: key_kind_def key_defs plain_id_def split_on_append_sep split_on_no_sep index_set_def)

section \<open>Every operation keeps the kinds\<close>

named_theorems kind_intros \<open>the combinators of the store keep the kinds\<close>

definition wk :: "('r \<Rightarrow> string \<Rightarrow> rvalue option) \<Rightarrow> 'r store \<Rightarrow> bool" where
  "wk val s \<longleftrightarrow> well_kinded val (db s)"

lemma wk_obeys:
  assumes "well_kinded val d" and "obeys val change k d x"
    and "\<And>w v. Some v \<in> change w \<Longrightarrow> kind_of v = key_kind k"
  shows "well_kinded val (snd x)"
proof -
  from assms(2) consider v where "v \<in> change (val d k)" "val (snd x) = (val d)(k := v)" | "val (snd x) = val d"
    unfolding obeys_def by blast
  then show ?thesis
  proof cases
    case 1
    then have "v = Some u \<Longrightarrow> kind_of u = key_kind k" for u using assms(3) by simp
    with 1(2) assms(1) show ?thesis unfolding well_kinded_def by (metis fun_upd_apply)
  qed (use assms(1) in \<open>simp add: well_kinded_def\<close>)
qed

lemma kinds_made:
  "Some v \<in> sadd_to m w \<Longrightarrow> kind_of v = KSet" "Some v \<in> lpush_to m w \<Longrightarrow> kind_of v = KList"
  "Some v \<in> zadd_to y m w \<Longrightarrow> kind_of v = KZSet" "Some v \<in> zrem_to m w \<Longrightarrow> kind_of v = KZSet"
  "Some v \<in> incr_to w \<Longrightarrow> kind_of v = KString" "Some v \<in> float_to w \<Longrightarrow> kind_of v = KString"
  by (cases w; cases "the w"; auto simp: Let_def split: if_splits option.splits)+

lemma wk_run: "wk val s \<Longrightarrow> (\<And>d. well_kinded val d \<Longrightarrow> well_kinded val (snd (f d))) \<Longrightarrow> wk val (snd (run_command f s))"
  by (simp add: wk_def run_command_def case_prod_beta)

lemma snd_command: "snd (command what f s) = snd (run_command f s)"
  by (cases "run_command f s") (auto simp: command_def split: option.splits)

lemma wk_command [kind_intros]:
  assumes "redis_laws R val"
  shows "wk val s \<Longrightarrow> key_kind k = KString \<Longrightarrow> wk val (snd (command what (r_Set R k x ttl) s))"
    and "wk val s \<Longrightarrow> key_kind k = KString \<Longrightarrow> wk val (snd (run_command (r_Set R k x ttl) s))"
    and "wk val s \<Longrightarrow> key_kind k = KSet \<Longrightarrow> wk val (snd (command what (r_SAdd R k m) s))"
    and "wk val s \<Longrightarrow> key_kind k = KList \<Longrightarrow> wk val (snd (command what (r_LPush R k m) s))"
    and "wk val s \<Longrightarrow> key_kind k = KZSet \<Longrightarrow> wk val (snd (command what (r_ZAdd R k y m) s))"
    and "wk val s \<Longrightarrow> key_kind k = KZSet \<Longrightarrow> wk val (snd (command what (r_ZRem R k m) s))"
    and "wk val s \<Longrightarrow> key_kind k = KString \<Longrightarrow> wk val (snd (command what (r_IncrByFloat R k y) s))"
  unfolding snd_command
  by (rule wk_run, assumption, rule wk_obeys, assumption, rule redis_lawsD [OF assms], auto dest: kinds_made)+

lemma wk_incr:
  assumes "redis_laws R val" and "wk val s" and "key_kind k = KString"
  shows "well_kinded val (snd (r_Incr R k (db s)))"
proof -
  have "well_kinded val (snd (incr_error (r_Incr R k (db s))))"
    using assms(2) unfolding wk_def
    by (rule wk_obeys) (rule redis_lawsD(6) [OF assms(1)], simp add: kinds_made(5) assms(3))
  then show ?thesis by (simp add: incr_error_def)
qed

lemma wk_and_then [kind_intros]:
  "wk val (snd x) \<Longrightarrow> (\<And>s. wk val s \<Longrightarrow> wk val (snd (f s))) \<Longrightarrow> wk val (snd (and_then x f))"
  by (cases x) (auto simp: and_then_def split: option.splits)

lemma wk_giving [kind_intros]: "wk val (snd x) \<Longrightarrow> wk val (snd (giving y x))"
  by (cases x) (auto simp: giving_def split: option.splits)

lemma wk_marshalled [kind_intros]:
  "wk val s \<Longrightarrow> (\<And>data s. wk val s \<Longrightarrow> wk val (snd (f data s))) \<Longrightarrow> wk val (snd (marshalled m f s))"
  by (cases m) (simp_all add: marshalled_def)

lemma wk_heap [simp]:
  "wk val (set_user p u s) = wk val s" "wk val (set_customer p c s) = wk val s"
  "wk val (set_account p a s) = wk val s" "wk val (s\<lparr>hp := h\<rparr>) = wk val s"
  by (simp_all add: wk_def)

lemma wk_by_address [kind_intros]:
  "wk val s \<Longrightarrow> (\<And>y. wk val (snd (alloc y s))) \<Longrightarrow> wk val (snd (by_address alloc x s))"
  by (cases x) (simp_all add: by_address_def case_prod_beta)

lemma wk_pair [kind_intros]: "wk val s \<Longrightarrow> wk val (snd (x, s))"
  by simp

text \<open>
  The calls of the store as steps: one rule per method that changes it, the changes a caller makes
  to its objects, and keys that expire. The identifiers that become part of a key are plain.
\<close>

inductive red_step ::
  "'r redis_client \<Rightarrow> ('r \<Rightarrow> string \<Rightarrow> rvalue option) \<Rightarrow> 'r store \<Rightarrow> 'r store \<Rightarrow> bool" for R val where
  Objects: "red_step R val s (s\<lparr>hp := h\<rparr>)"
| Expiry: "(\<And>k. val d k \<noteq> None \<Longrightarrow> val d k = val (db s) k) \<Longrightarrow> red_step R val s (s\<lparr>db := d\<rparr>)"
| CreateUser: "plain_id uid \<Longrightarrow> plain_id (u_ID (user_of s p)) \<Longrightarrow> red_step R val s (snd (red_CreateUser R p uid now s))"
| UpdateUser: "plain_id (u_ID (user_of s p)) \<Longrightarrow> red_step R val s (snd (red_UpdateUser R p s))"
| CreateCustomer: "plain_id uid \<Longrightarrow> plain_id (id_of (cu_ID (customer_of s p))) \<Longrightarrow>
    red_step R val s (snd (red_CreateCustomer R p uid now s))"
| UpdateCustomer: "plain_id (id_of (cu_ID (customer_of s p))) \<Longrightarrow> red_step R val s (snd (red_UpdateCustomer R p s))"
| CreateAccount: "plain_id uid \<Longrightarrow> plain_id (id_of (acc_ID (account_of s p))) \<Longrightarrow>
    plain_id (id_of (acc_CustomerID (account_of s p))) \<Longrightarrow> red_step R val s (snd (red_CreateAccount R p uid now s))"
| UpdateAccount: "plain_id (id_of (acc_ID (account_of s p))) \<Longrightarrow> red_step R val s (snd (red_UpdateAccount R p s))"
| CreateCustomerAddress: "plain_id cid \<Longrightarrow> red_step R val s (snd (red_CreateCustomerAddress R cid addr uid s))"
| CreateCard: "plain_id uid \<Longrightarrow> plain_id (c_ID crd) \<Longrightarrow> plain_id (c_CustomerID crd) \<Longrightarrow> plain_id (c_AccountID crd) \<Longrightarrow>
    red_step R val s (snd (red_CreateCard R crd uid now s))"
| UpdateCard: "plain_id (c_ID crd) \<Longrightarrow> red_step R val s (snd (red_UpdateCard R crd s))"
| SetCardLimits: "plain_id cid \<Longrightarrow> red_step R val s (snd (red_SetCardLimits R cid limits s))"
| SetCardPIN: "plain_id cid \<Longrightarrow> red_step R val s (snd (red_SetCardPIN R cid pin s))"
| CreateCardTransaction: "red_step R val s (snd (red_CreateCardTransaction R ct s))"
| UpdateCardTransactionStatus: "red_step R val s (snd (red_UpdateCardTransactionStatus R i status s))"
| StoreRawCardTransaction: "red_step R val s (snd (red_StoreRawCardTransaction R i raw s))"
| NextCardTransactionSeqID: "red_step R val s (snd (red_NextCardTransactionSeqID R s))"
| AddCardTransactionIndex: "plain_id cid \<Longrightarrow> red_step R val s (snd (red_AddCardTransactionIndex R cid i s))"
| CreateWallet: "plain_id (w_UserID w) \<Longrightarrow> red_step R val s (snd (red_CreateWallet R w now s))"
| CreateTransaction: "plain_id (tx_UserID t) \<Longrightarrow> red_step R val s (snd (red_CreateTransaction R t uid now s))"
| UpdateTransactionStatus: "red_step R val s (snd (red_UpdateTransactionStatus R i st s))"
| AddBalance: "red_step R val s (snd (red_AddBalance R u c x s))"
| DeductBalance: "red_step R val s (snd (red_DeductBalance R u c x s))"
| CreateThreeDSChallenge: "plain_id (tds_UserID ch) \<Longrightarrow> red_step R val s (snd (red_CreateThreeDSChallenge R ch now s))"
| UpdateThreeDSChallenge: "plain_id (tds_UserID ch) \<Longrightarrow> red_step R val s (snd (red_UpdateThreeDSChallenge R ch s))"
| CreateOrganization: "red_step R val s (snd (red_CreateOrganization R org s))"
| UpdateOrganization: "red_step R val s (snd (red_UpdateOrganization R org now s))"

inductive red_reachable ::
  "'r redis_client \<Rightarrow> ('r \<Rightarrow> string \<Rightarrow> rvalue option) \<Rightarrow> 'r store \<Rightarrow> bool" for R val where
  start: "(\<And>k. val (db s) k = None) \<Longrightarrow> red_reachable R val s"
| step: "red_reachable R val s \<Longrightarrow> red_step R val s s' \<Longrightarrow> red_reachable R val s'"

lemma wk_expiry:
  "wk val s \<Longrightarrow> (\<And>k. val d k \<noteq> None \<Longrightarrow> val d k = val (db s) k) \<Longrightarrow> wk val (s\<lparr>db := d\<rparr>)"
  by (auto simp: wk_def well_kinded_def)

lemma wk_users:
  assumes "redis_laws R val" and "wk val s"
  shows "plain_id uid \<Longrightarrow> plain_id (u_ID (user_of s p)) \<Longrightarrow> wk val (snd (red_CreateUser R p uid now s))"
    and "plain_id (u_ID (user_of s p)) \<Longrightarrow> wk val (snd (red_UpdateUser R p s))"
  using assms
  by (auto simp: red_CreateUser_def red_UpdateUser_def Let_def split: sum.splits intro!: kind_intros)

lemma wk_customers:
  assumes "redis_laws R val" and "wk val s"
  shows "plain_id uid \<Longrightarrow> plain_id (id_of (cu_ID (customer_of s p))) \<Longrightarrow>
      wk val (snd (red_CreateCustomer R p uid now s))"
    and "plain_id (id_of (cu_ID (customer_of s p))) \<Longrightarrow> wk val (snd (red_UpdateCustomer R p s))"
  using assms
  by (auto simp: red_CreateCustomer_def red_UpdateCustomer_def Let_def id_of_def intro!: kind_intros)

lemma wk_accounts:
  assumes "redis_laws R val" and "wk val s"
  shows "plain_id uid \<Longrightarrow> plain_id (id_of (acc_ID (account_of s p))) \<Longrightarrow>
      plain_id (id_of (acc_CustomerID (account_of s p))) \<Longrightarrow> wk val (snd (red_CreateAccount R p uid now s))"
    and "plain_id (id_of (acc_ID (account_of s p))) \<Longrightarrow> wk val (snd (red_UpdateAccount R p s))"
    and "plain_id cid \<Longrightarrow> wk val (snd (red_CreateCustomerAddress R cid addr auid s))"
  using assms
  by (auto simp: red_CreateAccount_def red_UpdateAccount_def red_CreateCustomerAddress_def Let_def id_of_def
      split: option.splits intro!: kind_intros)

lemma wk_cards:
  assumes "redis_laws R val" and "wk val s"
  shows "plain_id uid \<Longrightarrow> plain_id (c_ID crd) \<Longrightarrow> plain_id (c_CustomerID crd) \<Longrightarrow> plain_id (c_AccountID crd) \<Longrightarrow>
      wk val (snd (red_CreateCard R crd uid now s))"
    and "plain_id (c_ID crd) \<Longrightarrow> wk val (snd (red_UpdateCard R crd s))"
    and "plain_id cid \<Longrightarrow> wk val (snd (red_SetCardLimits R cid limits s))"
    and "plain_id cid \<Longrightarrow> wk val (snd (red_SetCardPIN R cid pin s))"
  using assms
  by (auto simp: red_CreateCard_def red_UpdateCard_def red_SetCardLimits_def red_SetCardPIN_def Let_def
      split: sum.splits intro!: kind_intros)

lemma wk_raw: "redis_laws R val \<Longrightarrow> wk val s \<Longrightarrow> wk val (snd (red_StoreRawCardTransaction R i raw s))"
  by (auto simp: red_StoreRawCardTransaction_def intro!: kind_intros)

lemma wk_card_transactions:
  assumes "redis_laws R val" and "wk val s"
  shows "wk val (snd (red_CreateCardTransaction R ct s))"
    and "wk val (snd (red_UpdateCardTransactionStatus R i status s))"
    and "wk val (snd (red_NextCardTransactionSeqID R s))"
    and "plain_id cid \<Longrightarrow> wk val (snd (red_AddCardTransactionIndex R cid i s))"
  using assms
  by (auto simp: red_CreateCardTransaction_def red_UpdateCardTransactionStatus_def red_AddCardTransactionIndex_def
      split: sum.splits json.splits intro!: kind_intros wk_raw)
    (use wk_incr [OF assms, of cardTransactionSeqKey] in
      \<open>auto simp: red_NextCardTransactionSeqID_def wk_def split: prod.splits sum.splits\<close>)

lemma wk_payments:
  assumes "redis_laws R val" and "wk val s"
  shows "plain_id (w_UserID w) \<Longrightarrow> wk val (snd (red_CreateWallet R w now s))"
    and "plain_id (tx_UserID t) \<Longrightarrow> wk val (snd (red_CreateTransaction R t uid now s))"
    and "wk val (snd (red_UpdateTransactionStatus R i st s))"
    and "wk val (snd (red_AddBalance R u c x s))"
    and "wk val (snd (red_DeductBalance R u c x s))"
  using assms
  by (auto simp: red_CreateWallet_def red_CreateTransaction_def red_UpdateTransactionStatus_def red_AddBalance_def
      red_DeductBalance_def Let_def split: sum.splits intro!: kind_intros)

lemma wk_challenges:
  assumes "redis_laws R val" and "wk val s"
  shows "plain_id (tds_UserID ch) \<Longrightarrow> wk val (snd (red_CreateThreeDSChallenge R ch now s))"
    and "plain_id (tds_UserID ch) \<Longrightarrow> wk val (snd (red_UpdateThreeDSChallenge R ch s))"
    and "wk val (snd (red_CreateOrganization R org s))"
    and "wk val (snd (red_UpdateOrganization R org now s))"
  using assms
  by (auto simp: red_CreateThreeDSChallenge_def red_UpdateThreeDSChallenge_def red_CreateOrganization_def
      red_UpdateOrganization_def Let_def split: sum.splits intro!: kind_intros)

lemma red_step_wk: "red_step R val s s' \<Longrightarrow> redis_laws R val \<Longrightarrow> wk val s \<Longrightarrow> wk val s'"
  by (induction rule: red_step.induct)
    (simp_all add: wk_users wk_customers wk_accounts wk_cards wk_raw wk_card_transactions wk_payments wk_challenges,
     auto intro: wk_expiry)

lemma red_reachable_wk:
  assumes "red_reachable R val s" and "redis_laws R val"
  shows "wk val s"
  using assms(1)
proof (induction rule: red_reachable.induct)
  case (start s)
  then show ?case by (simp add: wk_def well_kinded_def)
next
  case (step s s')
  then show ?case using red_step_wk [OF _ assms(2)] by blast
qed

end
