(* ===== verification/Redis_Properties.thy ===== *)
theory Redis_Properties
  imports Redis_Laws Withdrawals Ledger_Correctness Demo_State
begin

text \<open>
  The properties of the Redis store: its keyspace keeps its kinds, its transactions behave as a
  map, and its balances are not guarded against overdrawing.
\<close>

section \<open>Commands that succeed\<close>

lemma obeys_ok:
  "obeys val change k d x \<Longrightarrow> fst x = None \<Longrightarrow> \<exists>v \<in> change (val d k). val (snd x) = (val d)(k := v)"
  by (auto simp: obeys_def)

lemma set_ok:
  assumes "redis_laws R val" and "redis_up R val"
  obtains d where "command what (r_Set R k x ttl) s = (None, s\<lparr>db := d\<rparr>)"
    and "val d = (val (db s))(k \<mapsto> RString x)"
proof -
  have "fst (r_Set R k x ttl (db s)) = None" using redis_upD(1) [OF assms(2)] .
  with obeys_ok [OF redis_lawsD(1) [OF assms(1)] this] show ?thesis
    by (intro that [of "snd (r_Set R k x ttl (db s))"])
      (auto simp: command_def run_command_def case_prod_beta)
qed

lemma push_ok:
  assumes "redis_laws R val" and "redis_up R val" and "wk val s" and "key_kind k = KList"
  obtains d xs where "command what (r_LPush R k m) s = (None, s\<lparr>db := d\<rparr>)"
    and "val d = (val (db s))(k \<mapsto> RList (m # xs))"
proof -
  have "(\<exists>xs. val (db s) k = Some (RList xs)) \<or> val (db s) k = None"
    using assms(3,4) unfolding wk_def well_kinded_def
    by (metis kind_of.elims option.exhaust rkind.distinct)
  then obtain xs where c: "lpush_to m (val (db s) k) = {Some (RList (m # xs))}" by auto
  then have ok: "fst (r_LPush R k m (db s)) = None" using redis_upD(3) [OF assms(2)] by simp
  from obeys_ok [OF redis_lawsD(3) [OF assms(1)] ok] c show ?thesis
    by (intro that [of "snd (r_LPush R k m (db s))" xs])
      (use ok in \<open>auto simp: command_def run_command_def case_prod_beta\<close>)
qed

lemma incr_ok:
  assumes "redis_laws R val" and "redis_up R val" and "holds_number (val (db s) k) b"
    and "is_finite y" and "is_finite (fadd b y)"
  obtains d t where "command what (r_IncrByFloat R k y) s = (None, s\<lparr>db := d\<rparr>)"
    and "val d = (val (db s))(k \<mapsto> RString t)"
proof -
  have ok: "fst (r_IncrByFloat R k y (db s)) = None" using redis_upD(4) [OF assms(2-5)] .
  have "float_to (val (db s) k) = {Some (RString t) |t. True}"
    using assms(3) by (auto simp: holds_number_def)
  with obeys_ok [OF redis_lawsD(7) [OF assms(1)] ok] obtain t
    where "val (snd (r_IncrByFloat R k y (db s))) = (val (db s))(k \<mapsto> RString t)" by auto
  with ok show ?thesis
    by (intro that [of "snd (r_IncrByFloat R k y (db s))" t])
      (auto simp: command_def run_command_def case_prod_beta)
qed

section \<open>Transactions as a map\<close>

definition red_txs :: "'r redis_client \<Rightarrow> 'r store \<Rightarrow> string \<Rightarrow> Transaction option" where
  "red_txs R s i = (case red_GetTransaction R i s of Inl err \<Rightarrow> None | Inr t \<Rightarrow> Some t)"

lemma red_txs_iff: "red_txs R s i = Some t \<longleftrightarrow> red_GetTransaction R i s = Inr t"
  by (simp add: red_txs_def split: sum.splits)

text \<open>What the view of the service says about a transaction.\<close>

definition text_tx :: "rvalue option \<Rightarrow> Transaction option" where
  "text_tx v = (case v of Some (RString data) \<Rightarrow> unmarshal_Transaction data | _ \<Rightarrow> None)"

lemma red_txs_view:
  assumes "redis_up R val" and "wk val s"
  shows "red_txs R s i = text_tx (val (db s) (txKey i))"
proof (cases "val (db s) (txKey i)")
  case None
  then show ?thesis
    using redis_upD(5) [OF assms(1)] by (simp add: red_txs_def red_GetTransaction_def fetch_def text_tx_def)
next
  case (Some v)
  with assms(2) have "kind_of v = KString" by (simp add: wk_def well_kinded_def)
  then obtain data where "v = RString data" by (cases v) auto
  then show ?thesis
    using redis_upD(6) [OF assms(1)] Some
    by (simp add: red_txs_def red_GetTransaction_def fetch_def text_tx_def split: option.splits)
qed

lemma txKey_inject [simp]: "txKey i = txKey j \<longleftrightarrow> i = j"
  by (simp add: txKey_def)

lemma key_distinct [simp]:
  "txKey i \<noteq> userTransactionsKey u" "txKey i \<noteq> balanceKey u c" "userTransactionsKey u \<noteq> txKey i"
  "balanceKey u c \<noteq> txKey i"
  by (simp_all add: key_defs)

lemma marshal_Transaction:
  "storable_Transaction t \<Longrightarrow> Marshal what [tx_CreatedAt t] (Transaction_json t) = Inr (json_text (Transaction_json t))"
  by (simp add: Marshal_def storable_Transaction_def Transaction_json_def)

lemma text_tx_text [simp]:
  "storable_Transaction t \<Longrightarrow> text_tx (Some (RString (json_text (Transaction_json t)))) = Some t"
  by (simp add: text_tx_def Transaction_roundtrip)

lemma tx_written:
  assumes up: "redis_up R val" and "wk val s" and "wk val s1"
    and "\<And>i. val (db s1) (txKey i) = (val (db s) (txKey i))" 
  shows "red_txs R s1 = red_txs R s"
  by (rule ext) (simp add: red_txs_view [OF up] assms)

definition stamped :: "Transaction \<Rightarrow> string \<Rightarrow> time \<Rightarrow> Transaction" where
  "stamped t uid now = (if tx_ID t = [] then t\<lparr>tx_ID := uid\<rparr> else t)\<lparr>tx_CreatedAt := now\<rparr>"

lemma create_transaction_ok:
  assumes R: "redis_laws R val" "redis_up R val" and "wk val s" and "plain_id (tx_UserID t)" and "tx_UserID t \<noteq> []"
    and st: "storable_Transaction (stamped t uid now)"
  obtains d xs where "red_CreateTransaction R t uid now s = (Inr (stamped t uid now), s\<lparr>db := d\<rparr>)"
    and "val d = (val (db s))
      (txKey (tx_ID (stamped t uid now)) \<mapsto> RString (json_text (Transaction_json (stamped t uid now))),
       userTransactionsKey (tx_UserID t) \<mapsto> RList (tx_ID (stamped t uid now) # xs))"
proof -
  let ?t = "stamped t uid now"
  let ?u = "userTransactionsKey (tx_UserID t)" and ?data = "json_text (Transaction_json ?t)"
  have u: "tx_UserID ?t = tx_UserID t" by (simp add: stamped_def)
  obtain d1 where 1: "command ''failed to store transaction'' (r_Set R (txKey (tx_ID ?t)) ?data 0) s = (None, s\<lparr>db := d1\<rparr>)"
    and d1: "val d1 = (val (db s))(txKey (tx_ID ?t) \<mapsto> RString ?data)"
    by (rule set_ok [OF R])
  have "wk val (s\<lparr>db := d1\<rparr>)"
    using wk_command(1) [OF R(1) assms(3), of "txKey (tx_ID ?t)" "''failed to store transaction''" ?data 0] by (simp add: 1)
  then obtain d2 xs where 2: "command ''failed to index transaction by user'' (r_LPush R ?u (tx_ID ?t)) (s\<lparr>db := d1\<rparr>)
      = (None, s\<lparr>db := d1\<rparr>\<lparr>db := d2\<rparr>)"
    and d2: "val d2 = (val d1)(?u \<mapsto> RList (tx_ID ?t # xs))"
    by (rule push_ok [OF R _ plain_keys(13) [OF assms(4)], where m = "tx_ID ?t"]) simp
  have "red_CreateTransaction R t uid now s = (Inr ?t, s\<lparr>db := d2\<rparr>)"
    unfolding red_CreateTransaction_def Let_def stamped_def [symmetric] marshal_Transaction [OF st]
    using 1 2 assms(5) by (simp add: marshalled_def and_then_def giving_def u)
  then show ?thesis by (rule that) (simp only: d1 d2)
qed

lemma update_status_ok:
  assumes R: "redis_laws R val" "redis_up R val" and "wk val s" and "red_txs R s i = Some t"
    and st: "storable_Transaction (t\<lparr>tx_Status := st\<rparr>)"
  obtains d where "red_UpdateTransactionStatus R i st s = (None, s\<lparr>db := d\<rparr>)"
    and "val d = (val (db s))(txKey i \<mapsto> RString (json_text (Transaction_json (t\<lparr>tx_Status := st\<rparr>))))"
proof -
  have g: "red_GetTransaction R i s = Inr t" using assms(4) by (simp add: red_txs_iff)
  have m: "Marshal what [tx_CreatedAt t] (Transaction_json (t\<lparr>tx_Status := st\<rparr>)) =
      Inr (json_text (Transaction_json (t\<lparr>tx_Status := st\<rparr>)))" for what
    using marshal_Transaction [OF st] by simp
  obtain d where "command ''failed to update transaction''
      (r_Set R (txKey i) (json_text (Transaction_json (t\<lparr>tx_Status := st\<rparr>))) 0) s = (None, s\<lparr>db := d\<rparr>)"
    and d: "val d = (val (db s))(txKey i \<mapsto> RString (json_text (Transaction_json (t\<lparr>tx_Status := st\<rparr>))))"
    by (rule set_ok [OF R])
  then have "red_UpdateTransactionStatus R i st s = (None, s\<lparr>db := d\<rparr>)"
    unfolding red_UpdateTransactionStatus_def g sum.case m by (simp add: marshalled_def)
  then show ?thesis using d by (rule that)
qed

lemma txs_after_write:
  assumes R: "redis_laws R val" "redis_up R val" and "wk val s" and "wk val (s\<lparr>db := d\<rparr>)"
    and "storable_Transaction t"
    and "\<And>j. val d (txKey j) = ((val (db s))(txKey i \<mapsto> RString (json_text (Transaction_json t)))) (txKey j)"
  shows "red_txs R (s\<lparr>db := d\<rparr>) = (red_txs R s)(i \<mapsto> t)"
  by (rule ext) (use assms in \<open>simp add: red_txs_view [OF R(2)]\<close>)

section \<open>The properties\<close>

text \<open>
  C36: Redis never meets a value of the wrong kind. After any sequence of calls of the store with
  plain identifiers, of changes to the caller's objects and of keys that expire, and however many
  commands failed on the way, every key holds a value of the kind that belongs to its name: the
  records, mappings, counters and balances are strings, the indexes of cards, accounts, addresses
  and wallets are sets, those of transactions lists, and those of 3DS challenges sorted sets.
\<close>

theorem redis_keys_keep_their_kind:
  assumes "redis_laws R val" and "red_reachable R val s" and "val (db s) k = Some v"
  shows "kind_of v = key_kind k"
  using red_reachable_wk [OF assms(2,1)] assms(3) by (simp add: wk_def well_kinded_def)

text \<open>
  C37: over a Redis that is up, the transactions of the store behave as a map from identifiers to
  transactions. Creating one for a user adds it with the current time and changes no other; it is
  then read back as it is and listed for its user, newest first; and setting its status changes
  the status of this transaction and nothing else, in spite of the way through JSON text.
\<close>

theorem redis_transactions_refine_map:
  assumes "redis_laws R val" and "redis_up R val" and "red_reachable R val s"
    and "plain_id (tx_UserID t)" and "tx_UserID t \<noteq> []"
    and "storable_Transaction (stamped t uid now)"
    and "storable_Transaction (stamped t uid now\<lparr>tx_Status := st\<rparr>)"
  shows "\<exists>s1 s2 ts. red_CreateTransaction R t uid now s = (Inr (stamped t uid now), s1) \<and>
      red_txs R s1 = (red_txs R s)(tx_ID (stamped t uid now) \<mapsto> stamped t uid now) \<and>
      red_ListTransactionsByUser R (tx_UserID t) s1 = Inr ts \<and> stamped t uid now \<in> set ts \<and>
      sorted (map (\<lambda>x. - tx_CreatedAt x) ts) \<and>
      red_UpdateTransactionStatus R (tx_ID (stamped t uid now)) st s1 = (None, s2) \<and>
      red_txs R s2 = (red_txs R s1)(tx_ID (stamped t uid now) \<mapsto> stamped t uid now\<lparr>tx_Status := st\<rparr>)"
proof -
  let ?t = "stamped t uid now"
  note R = assms(1,2)
  have wk: "wk val s" by (rule red_reachable_wk [OF assms(3,1)])
  obtain d xs where c: "red_CreateTransaction R t uid now s = (Inr ?t, s\<lparr>db := d\<rparr>)"
    and d: "val d = (val (db s))(txKey (tx_ID ?t) \<mapsto> RString (json_text (Transaction_json ?t)),
       userTransactionsKey (tx_UserID t) \<mapsto> RList (tx_ID ?t # xs))"
    by (rule create_transaction_ok [OF R wk assms(4-6)])
  let ?s1 = "s\<lparr>db := d\<rparr>"
  have wk1: "wk val ?s1" using wk_payments(2) [OF R(1) wk assms(4), of uid now] by (simp add: c)
  have txs1: "red_txs R ?s1 = (red_txs R s)(tx_ID ?t \<mapsto> ?t)"
    by (rule txs_after_write [OF R wk wk1 assms(6)]) (simp add: d)
  have at: "red_txs R ?s1 (tx_ID ?t) = Some ?t" unfolding txs1 by (rule fun_upd_same)
  then have get: "red_GetTransaction R (tx_ID ?t) ?s1 = Inr ?t" unfolding red_txs_iff .
  have "val (db ?s1) (userTransactionsKey (tx_UserID t)) = Some (RList (tx_ID ?t # xs))" by (simp add: d)
  then have l: "red_ListTransactionsByUser R (tx_UserID t) ?s1 =
      Inr (sort_key (\<lambda>x. - tx_CreatedAt x) (readable (\<lambda>i. red_GetTransaction R i ?s1) (tx_ID ?t # xs)))"
    using redis_upD(8) [OF R(2)] by (simp add: red_ListTransactionsByUser_def)
  obtain d2 where u: "red_UpdateTransactionStatus R (tx_ID ?t) st ?s1 = (None, ?s1\<lparr>db := d2\<rparr>)"
    and d2: "val d2 = (val (db ?s1))(txKey (tx_ID ?t) \<mapsto> RString (json_text (Transaction_json (?t\<lparr>tx_Status := st\<rparr>))))"
    by (rule update_status_ok [OF R wk1 at assms(7)])
  have wk2: "wk val (?s1\<lparr>db := d2\<rparr>)" using wk_payments(3) [OF R(1) wk1, of "tx_ID ?t" st] by (simp add: u)
  have "red_txs R (?s1\<lparr>db := d2\<rparr>) = (red_txs R ?s1)(tx_ID ?t \<mapsto> ?t\<lparr>tx_Status := st\<rparr>)"
    by (rule txs_after_write [OF R wk1 wk2 assms(7)]) (simp add: d2)
  moreover have "?t \<in> set (readable (\<lambda>i. red_GetTransaction R i ?s1) (tx_ID ?t # xs))"
    by (simp add: readable_def List.map_filter_def get)
  ultimately show ?thesis using c l u txs1 by (intro exI conjI) (assumption | simp)+
qed


section \<open>A Redis in a map\<close>

text \<open>
  A service that keeps its values in a map from keys and obeys the laws, for the concrete inputs
  below. A number is printed by the encoder of floats.
\<close>

definition apply_change ::
  "(rvalue option \<Rightarrow> rvalue option option) \<Rightarrow> string \<Rightarrow> (string \<Rightarrow> rvalue option) \<Rightarrow>
     go_error option \<times> (string \<Rightarrow> rvalue option)" where
  "apply_change f k d = (case f (d k) of None \<Rightarrow> (Some ''WRONGTYPE'', d) | Some v \<Rightarrow> (None, d(k := v)))"

fun sadd_map :: "string \<Rightarrow> rvalue option \<Rightarrow> rvalue option option" where
  "sadd_map m None = Some (Some (RSet [m]))"
| "sadd_map m (Some (RSet xs)) = Some (Some (RSet (List.insert m xs)))"
| "sadd_map m _ = None"

fun lpush_map :: "string \<Rightarrow> rvalue option \<Rightarrow> rvalue option option" where
  "lpush_map m None = Some (Some (RList [m]))"
| "lpush_map m (Some (RList xs)) = Some (Some (RList (m # xs)))"
| "lpush_map m _ = None"

fun zadd_map :: "f64 \<Rightarrow> string \<Rightarrow> rvalue option \<Rightarrow> rvalue option option" where
  "zadd_map x m None = Some (Some (RZSet [(x, m)]))"
| "zadd_map x m (Some (RZSet zs)) = Some (Some (RZSet ((x, m) # filter (\<lambda>z. snd z \<noteq> m) zs)))"
| "zadd_map x m _ = None"

fun zrem_map :: "string \<Rightarrow> rvalue option \<Rightarrow> rvalue option option" where
  "zrem_map m None = Some None"
| "zrem_map m (Some (RZSet zs)) =
     (let zs1 = filter (\<lambda>z. snd z \<noteq> m) zs in Some (if zs1 = [] then None else Some (RZSet zs1)))"
| "zrem_map m _ = None"

fun float_map :: "f64 \<Rightarrow> rvalue option \<Rightarrow> rvalue option option" where
  "float_map x None = Some (Some (RString (f64_text x)))"
| "float_map x (Some (RString t)) =
     (case ParseFloat t of None \<Rightarrow> None | Some y \<Rightarrow> Some (Some (RString (f64_text (fadd y x)))))"
| "float_map x _ = None"

fun incr_map :: "rvalue option \<Rightarrow> (go_error + int) \<times> rvalue option" where
  "incr_map None = (Inr 1, Some (RString ''1''))"
| "incr_map (Some (RString t)) =
     (case atoi t of
        None \<Rightarrow> (Inl ''ERR'', Some (RString t))
      | Some n \<Rightarrow> if n < 2 ^ 63 - 1 then (Inr (n + 1), Some (RString (int_str (n + 1)))) else (Inl ''ERR'', Some (RString t)))"
| "incr_map v = (Inl ''WRONGTYPE'', v)"

definition map_redis :: "(string \<Rightarrow> rvalue option) redis_client" where
  "map_redis =
     \<lparr>r_Exists = (\<lambda>k d. Inr (if d k = None then 0 else 1)),
      r_Get = (\<lambda>k d. case d k of None \<Rightarrow> Missing | Some (RString t) \<Rightarrow> Got t | _ \<Rightarrow> Failed ''WRONGTYPE''),
      r_Set = (\<lambda>k x ttl. apply_change (\<lambda>_. Some (Some (RString x))) k),
      r_SAdd = (\<lambda>k m. apply_change (sadd_map m) k),
      r_SMembers = (\<lambda>k d. case d k of None \<Rightarrow> Inr [] | Some (RSet xs) \<Rightarrow> Inr xs | _ \<Rightarrow> Inl ''WRONGTYPE''),
      r_LPush = (\<lambda>k m. apply_change (lpush_map m) k),
      r_LRange = (\<lambda>k d. case d k of None \<Rightarrow> Inr [] | Some (RList xs) \<Rightarrow> Inr xs | _ \<Rightarrow> Inl ''WRONGTYPE''),
      r_Incr = (\<lambda>k d. let (n, v) = incr_map (d k) in (n, d(k := v))),
      r_IncrByFloat = (\<lambda>k x. apply_change (float_map x) k),
      r_ZAdd = (\<lambda>k x m. apply_change (zadd_map x m) k),
      r_ZRem = (\<lambda>k m. apply_change (zrem_map m) k),
      r_ZRangeByScore = (\<lambda>k lo hi d. case d k of None \<Rightarrow> Inr [] | Some (RZSet zs) \<Rightarrow> Inr (map snd zs) | _ \<Rightarrow> Inl ''WRONGTYPE''),
      r_TTL = (\<lambda>k d. Inr (- 1)),
      r_Scan = (\<lambda>c p n d. Inr ([], 0))\<rparr>"

lemma obeys_apply:
  assumes "\<And>v. f (d k) = Some v \<Longrightarrow> v \<in> change (d k)"
  shows "obeys (\<lambda>d. d) change k d (apply_change f k d)"
  using assms by (auto simp: obeys_def apply_change_def split: option.splits)

lemma map_changes:
  "sadd_map m w = Some v \<Longrightarrow> v \<in> sadd_to m w" "lpush_map m w = Some v \<Longrightarrow> v \<in> lpush_to m w"
  "zadd_map x m w = Some v \<Longrightarrow> v \<in> zadd_to x m w" "zrem_map m w = Some v \<Longrightarrow> v \<in> zrem_to m w"
  "float_map x w = Some v \<Longrightarrow> v \<in> float_to w"
  by (cases w; cases "the w"; auto simp: Let_def split: if_splits option.splits)+

lemma map_redis_laws: "redis_laws map_redis (\<lambda>d. d)"
proof -
  have "obeys (\<lambda>d. d) incr_to k d (incr_error (r_Incr map_redis k d))" for k d
    by (cases "d k"; cases "the (d k)")
      (auto simp: map_redis_def incr_error_def obeys_def fun_upd_idem_iff split: option.splits)
  moreover have "obeys (\<lambda>d. d) (\<lambda>_. {Some (RString x)}) k d (apply_change (\<lambda>_. Some (Some (RString x))) k d)"
    for x k and d :: "string \<Rightarrow> rvalue option"
    by (rule obeys_apply) simp
  ultimately show ?thesis
    by (simp add: redis_laws_def map_redis_def obeys_apply map_changes)
qed

lemma map_redis_up: "redis_up map_redis (\<lambda>d. d)"
proof -
  have 1: "sadd_to m (d k) \<noteq> {} \<Longrightarrow> fst (apply_change (sadd_map m) k d) = None" for m k and d :: "string \<Rightarrow> rvalue option"
    by (cases "d k"; cases "the (d k)"; auto simp: apply_change_def)
  have 2: "lpush_to m (d k) \<noteq> {} \<Longrightarrow> fst (apply_change (lpush_map m) k d) = None" for m k and d :: "string \<Rightarrow> rvalue option"
    by (cases "d k"; cases "the (d k)"; auto simp: apply_change_def)
  have 3: "holds_number (d k) y \<Longrightarrow> fst (apply_change (float_map x) k d) = None" for x y k and d :: "string \<Rightarrow> rvalue option"
    by (auto simp: apply_change_def holds_number_def decimal_text_def)
  show ?thesis using 1 2 3 by (auto simp: redis_up_def map_redis_def apply_change_def)
qed

definition redis_start :: "(string \<Rightarrow> rvalue option) store" where
  "redis_start = \<lparr>hp = empty_heap, db = (\<lambda>_. None)\<rparr>"

definition redis_demo :: "(string \<Rightarrow> rvalue option) store" where
  "redis_demo = snd (red_CreateTransaction map_redis (demo_withdrawal ''w1'' TransactionStatusPending) ''i''
     (63713434332 * second) redis_start)"

lemma dated_demo [simp]: "dated 63713434332000000000"
  by code_simp

lemma storable_demo [simp]: "- (2 ^ 63) \<le> st \<Longrightarrow> st < 2 ^ 63 \<Longrightarrow> storable_Transaction (demo_withdrawal i st)"
  by (simp add: storable_Transaction_def demo_withdrawal_def zero_Transaction_def)

lemma stamped_demo [simp]: "i \<noteq> [] \<Longrightarrow> stamped (demo_withdrawal i st) uid 63713434332000000000 = demo_withdrawal i st"
  by (simp add: stamped_def demo_withdrawal_def)

lemma demo_fields [simp]:
  "tx_ID (demo_withdrawal i st) = i" "tx_UserID (demo_withdrawal i st) = ''alice''"
  "tx_Status (demo_withdrawal i st) = st" "tx_DepositType (demo_withdrawal i st) = DepositTypeWithdrawal"
  "tx_TotalAmount (demo_withdrawal i st) = ''40.00''" "demo_withdrawal i st\<lparr>tx_Status := st'\<rparr> = demo_withdrawal i st'"
  "plain_id ''alice''"
  by (simp_all add: demo_withdrawal_def plain_id_def)

lemma redis_start_reachable: "red_reachable map_redis (\<lambda>d. d) redis_start"
  by (rule red_reachable.start) (simp add: redis_start_def)

lemma redis_demo_reachable: "red_reachable map_redis (\<lambda>d. d) redis_demo"
  unfolding redis_demo_def
  by (rule red_reachable.step [OF redis_start_reachable]) (rule red_step.CreateTransaction, simp)

lemma redis_demo_txs: "red_txs map_redis redis_demo ''w1'' = Some (demo_withdrawal ''w1'' TransactionStatusPending)"
  and redis_demo_balance: "db redis_demo (balanceKey u c) = None"
proof -
  let ?t = "demo_withdrawal ''w1'' TransactionStatusPending"
  have st: "storable_Transaction ?t" by (simp add: TransactionStatusPending_def)
  have wk: "wk (\<lambda>d. d) redis_start" by (rule red_reachable_wk [OF redis_start_reachable map_redis_laws])
  have st1: "storable_Transaction (stamped ?t ''i'' (63713434332 * second))" using st by simp
  obtain d where c: "red_CreateTransaction map_redis ?t ''i'' (63713434332 * second) redis_start = (Inr ?t, redis_start\<lparr>db := d\<rparr>)"
    and d: "\<exists>xs. d = (db redis_start)(txKey ''w1'' \<mapsto> RString (json_text (Transaction_json ?t)),
       userTransactionsKey ''alice'' \<mapsto> RList (''w1'' # xs))"
    using create_transaction_ok [OF map_redis_laws map_redis_up wk _ _ st1] by auto
  have demo: "redis_demo = redis_start\<lparr>db := d\<rparr>" unfolding redis_demo_def c by (simp only: snd_conv)
  have wk1: "wk (\<lambda>d. d) redis_demo" by (rule red_reachable_wk [OF redis_demo_reachable map_redis_laws])
  show "red_txs map_redis redis_demo ''w1'' = Some ?t"
    using txs_after_write [OF map_redis_laws map_redis_up wk _ st, of d "''w1''"] wk1 d demo by auto
  show "db redis_demo (balanceKey u c) = None"
    using d by (auto simp: demo redis_start_def key_defs)
qed

theorem redis_keys_keep_their_kind_witness:
  "kind_of (RList [''t1'']) = key_kind (cardTransactionsKey ''c1'')"
proof (rule redis_keys_keep_their_kind [OF map_redis_laws])
  let ?s = "snd (red_AddCardTransactionIndex map_redis ''c1'' ''t1'' redis_start)"
  show "red_reachable map_redis (\<lambda>d. d) ?s"
    by (rule red_reachable.step [OF redis_start_reachable])
      (rule red_step.AddCardTransactionIndex, simp add: plain_id_def)
  show "db ?s (cardTransactionsKey ''c1'') = Some (RList [''t1''])"
    by (simp add: red_AddCardTransactionIndex_def command_def run_command_def map_redis_def apply_change_def
        redis_start_def)
qed

theorem redis_transactions_refine_map_witness:
  "\<exists>s1 s2 ts. red_CreateTransaction map_redis (demo_withdrawal ''w1'' 1) ''i'' (63713434332 * second) redis_start =
      (Inr (demo_withdrawal ''w1'' 1), s1) \<and>
    red_ListTransactionsByUser map_redis ''alice'' s1 = Inr ts \<and> demo_withdrawal ''w1'' 1 \<in> set ts \<and>
    red_UpdateTransactionStatus map_redis ''w1'' 2 s1 = (None, s2) \<and>
    red_txs map_redis s2 ''w1'' = Some (demo_withdrawal ''w1'' 2)"
proof -
  show ?thesis
    using redis_transactions_refine_map [OF map_redis_laws map_redis_up redis_start_reachable,
        of "demo_withdrawal ''w1'' 1" "''i''" "63713434332 * second" 2]
    by auto
qed


end
