(* ===== verification/Pdf.thy ===== *)
theory Pdf
  imports Json_Decode
begin

text \<open>
  The PDF writer of \<^verbatim>\<open>internal/pdf/pdf.go\<close>: one page of text, written as bytes, with a table of
  the byte offsets at which its objects start.
\<close>

definition pageWidth :: int where "pageWidth = 595"
definition pageHeight :: int where "pageHeight = 842"
definition marginLeft :: int where "marginLeft = 56"
definition marginTop :: int where "marginTop = 64"
definition titleFontSize :: int where "titleFontSize = 18"
definition bodyFontSize :: int where "bodyFontSize = 11"
definition lineHeight :: int where "lineHeight = 18"

lemmas geometry_defs = pageWidth_def pageHeight_def marginLeft_def marginTop_def titleFontSize_def
  bodyFontSize_def lineHeight_def

record Document =
  doc_Title :: string
  doc_Lines :: "string list"

abbreviation (input) nl :: string where
  "nl \<equiv> [CHR 0x0A]"

section \<open>Text\<close>

text \<open>
  The length of the first rune of a text, as a loop over a Go string finds it: the sequences of
  valid UTF-8, and one for a byte that starts none.
\<close>

definition continuation :: "char \<Rightarrow> bool" where
  "continuation c \<longleftrightarrow> 128 \<le> byte_val c \<and> byte_val c < 192"

definition rune_len :: "string \<Rightarrow> nat" where
  "rune_len s =
     (case s of
        a # b # rest \<Rightarrow>
          let x = byte_val a; y = byte_val b in
          if 194 \<le> x \<and> x \<le> 223 then (if continuation b then 2 else 1)
          else if 224 \<le> x \<and> x \<le> 239
          then (case rest of
                  c # _ \<Rightarrow>
                    if continuation b \<and> continuation c \<and> (x = 224 \<longrightarrow> 160 \<le> y) \<and> (x = 237 \<longrightarrow> y < 160)
                    then 3 else 1
                | [] \<Rightarrow> 1)
          else if 240 \<le> x \<and> x \<le> 244
          then (case rest of
                  c # d # _ \<Rightarrow>
                    if continuation b \<and> continuation c \<and> continuation d \<and>
                       (x = 240 \<longrightarrow> 144 \<le> y) \<and> (x = 244 \<longrightarrow> y < 144)
                    then 4 else 1
                | _ \<Rightarrow> 1)
          else 1
      | _ \<Rightarrow> 1)"

definition escape_rune :: "char \<Rightarrow> string" where
  "escape_rune c =
     (if c = CHR ''('' \<or> c = CHR '')'' \<or> c = CHR 0x5C then [CHR 0x5C, c]
      else if 32 \<le> byte_val c \<and> byte_val c < 127 then [c]
      else ''?'')"

fun escapeText :: "string \<Rightarrow> string" where
  "escapeText [] = []"
| "escapeText (c # cs) = escape_rune c @ escapeText (drop (rune_len (c # cs) - 1) cs)"

definition text_at :: "int \<Rightarrow> string \<Rightarrow> string" where
  "text_at y t =
     ''1 0 0 1 '' @ int_str marginLeft @ '' '' @ int_str y @ '' Tm'' @ nl @ ''('' @ escapeText t @ '') Tj'' @ nl"

text \<open>The lines from the height \<open>y\<close> down, as long as they fit on the page.\<close>

fun text_lines :: "int \<Rightarrow> string list \<Rightarrow> string" where
  "text_lines y [] = []"
| "text_lines y (t # ts) = (if y < lineHeight then [] else text_at y t @ text_lines (y - lineHeight) ts)"

definition buildContentStream :: "Document \<Rightarrow> string" where
  "buildContentStream doc =
     (let y = pageHeight - marginTop in
      ''BT'' @ nl @
      ''/F1 '' @ int_str titleFontSize @ '' Tf'' @ nl @ text_at y (doc_Title doc) @
      ''/F1 '' @ int_str bodyFontSize @ '' Tf'' @ nl @ text_lines (y - lineHeight * 2) (doc_Lines doc) @
      ''ET'')"

section \<open>The file\<close>

definition pdf_objects :: "string \<Rightarrow> string list" where
  "pdf_objects content =
     [''<< /Type /Catalog /Pages 2 0 R >>'',
      ''<< /Type /Pages /Kids [3 0 R] /Count 1 >>'',
      ''<< /Type /Page /Parent 2 0 R /MediaBox [0 0 '' @ int_str pageWidth @ '' '' @ int_str pageHeight @
        ''] '' @ ''/Resources << /Font << /F1 4 0 R >> >> /Contents 5 0 R >>'',
      ''<< /Type /Font /Subtype /Type1 /BaseFont /Helvetica >>'',
      ''<< /Length '' @ nat_str (length content) @ '' >>'' @ nl @ ''stream'' @ nl @ content @ nl @ ''endstream'']"

text \<open>The objects are appended to the output, numbered from \<open>i\<close>; the offsets are those before each.\<close>

fun write_objects :: "nat \<Rightarrow> string list \<Rightarrow> string \<Rightarrow> string \<times> nat list" where
  "write_objects i [] out = (out, [])"
| "write_objects i (body # bodies) out =
     (let (out1, offsets) = write_objects (i + 1) bodies
            (out @ nat_str i @ '' 0 obj'' @ nl @ body @ nl @ ''endobj'' @ nl)
      in (out1, length out # offsets))"

definition xref_entry :: "nat \<Rightarrow> string" where
  "xref_entry offset = pad 10 (int offset) @ '' 00000 n '' @ nl"

definition Render :: "Document \<Rightarrow> string" where
  "Render doc =
     (let objects = pdf_objects (buildContentStream doc);
          (out, offsets) = write_objects 1 objects (''%PDF-1.4'' @ nl);
          size = nat_str (length objects + 1)
      in out @ ''xref'' @ nl @ ''0 '' @ size @ nl @ ''0000000000 65535 f '' @ nl @
         concat (map xref_entry offsets) @
         ''trailer'' @ nl @ ''<< /Size '' @ size @ '' /Root 1 0 R >>'' @ nl @
         ''startxref'' @ nl @ nat_str (length out) @ nl @ ''%%EOF'' @ nl)"

section \<open>Offsets\<close>

lemma write_objects_extends: "\<exists>t. fst (write_objects i bs out) = out @ t"
  by (induction i bs out rule: write_objects.induct) (auto simp: case_prod_beta)

lemma length_offsets [simp]: "length (snd (write_objects i bs out)) = length bs"
  by (induction i bs out rule: write_objects.induct) (auto simp: case_prod_beta)

text \<open>At the offset of an object stands its number.\<close>

lemma object_at_offset:
  "j < length bs \<Longrightarrow>
     has_prefix (drop (snd (write_objects i bs out) ! j) (fst (write_objects i bs out) @ rest))
       (nat_str (i + j) @ '' 0 obj'' @ nl)"
proof (induction i bs out arbitrary: j rule: write_objects.induct)
  case (2 i body bodies out)
  let ?out = "out @ nat_str i @ '' 0 obj'' @ nl @ body @ nl @ ''endobj'' @ nl"
  show ?case
  proof (cases j)
    case 0
    obtain t where "fst (write_objects (i + 1) bodies ?out) = ?out @ t" using write_objects_extends by blast
    then show ?thesis by (simp add: 0 case_prod_beta has_prefix_def)
  next
    case (Suc k)
    then show ?thesis using 2(1) [of k] 2(2) by (simp add: case_prod_beta)
  qed
qed simp

lemma offsets_bound: "off \<in> set (snd (write_objects i bs out)) \<Longrightarrow> off < length (fst (write_objects i bs out))"
proof (induction i bs out rule: write_objects.induct)
  case (2 i body bodies out)
  let ?out = "out @ nat_str i @ '' 0 obj'' @ nl @ body @ nl @ ''endobj'' @ nl"
  obtain t where "fst (write_objects (i + 1) bodies ?out) = ?out @ t" using write_objects_extends by blast
  with 2 show ?case by (auto simp: case_prod_beta)
qed simp

lemma length_xref_entry: "offset < 10 ^ 10 \<Longrightarrow> length (xref_entry offset) = 20"
  using pad_facts(1) [of "int offset" 10] by (simp add: xref_entry_def)

lemma nth_entry:
  "list_all (\<lambda>off. off < 10 ^ 10) offs \<Longrightarrow> j < length offs \<Longrightarrow>
     take 10 (drop (20 * j) (concat (map xref_entry offs) @ rest)) = pad 10 (int (offs ! j))"
proof (induction offs arbitrary: j)
  case (Cons off offs)
  then have l: "length (xref_entry off) = 20" "length (pad 10 (int off)) = 10"
    using length_xref_entry pad_facts(1) [of "int off" 10] by simp_all
  show ?case
  proof (cases j)
    case 0
    then show ?thesis using l by (simp add: xref_entry_def)
  next
    case (Suc k)
    then show ?thesis using Cons l by simp
  qed
qed simp

end
