(* ===== verification/Startup.thy ===== *)
theory Startup
  imports Auth_Middleware Base64 Url
begin

text \<open>
  Start-up: the configuration read from the environment (\<^verbatim>\<open>internal/config/config.go\<close>), the random
  identifiers of \<^verbatim>\<open>internal/utils/utils.go\<close>, the seeding of a store (\<^verbatim>\<open>internal/storage/seeder.go\<close>),
  and the routes and choices of \<^verbatim>\<open>cmd/mockgatehub/main.go\<close>.
\<close>

section \<open>Environment variables\<close>

text \<open>The environment answers the empty string for a variable that is not set.\<close>

definition getEnv :: "(string \<Rightarrow> string) \<Rightarrow> string \<Rightarrow> string \<Rightarrow> string" where
  "getEnv env key defaultVal = (if env key \<noteq> [] then env key else defaultVal)"

definition getEnvInt :: "(string \<Rightarrow> string) \<Rightarrow> string \<Rightarrow> int \<Rightarrow> int" where
  "getEnvInt env key defaultVal =
     (if env key \<noteq> []
      then (case atoi (env key) of Some intVal \<Rightarrow> intVal | None \<Rightarrow> defaultVal)
      else defaultVal)"

definition getEnvFloat :: "(string \<Rightarrow> string) \<Rightarrow> string \<Rightarrow> f64 \<Rightarrow> f64" where
  "getEnvFloat env key defaultVal =
     (if env key \<noteq> []
      then (case ParseFloat (env key) of Some floatVal \<Rightarrow> floatVal | None \<Rightarrow> defaultVal)
      else defaultVal)"

definition getEnvBool :: "(string \<Rightarrow> string) \<Rightarrow> string \<Rightarrow> bool \<Rightarrow> bool" where
  "getEnvBool env key defaultVal =
     (if env key \<noteq> [] then env key = ''true'' \<or> env key = ''1'' \<or> env key = ''yes'' else defaultVal)"

section \<open>Credentials\<close>

text \<open>The loop of \<^verbatim>\<open>splitString\<close>, with the bytes of the current piece; an empty last piece is dropped.\<close>

fun split_bytes :: "char \<Rightarrow> string \<Rightarrow> string \<Rightarrow> string list" where
  "split_bytes d cur [] = (if length cur > 0 then [cur] else [])"
| "split_bytes d cur (c # cs) =
     (if c = d then cur # split_bytes d [] cs else split_bytes d (cur @ [c]) cs)"

definition splitString :: "string \<Rightarrow> char \<Rightarrow> string list" where
  "splitString s d = split_bytes d [] s"

fun add_credentials :: "string list \<Rightarrow> string gomap \<Rightarrow> string gomap" where
  "add_credentials [] creds = creds"
| "add_credentials (pair # pairs) creds =
     (case splitString pair (CHR '':'') of
        [appID, secret] \<Rightarrow> add_credentials pairs (mput appID secret creds)
      | _ \<Rightarrow> add_credentials pairs creds)"

definition parseCredentials :: "string \<Rightarrow> string gomap" where
  "parseCredentials credStr =
     (if credStr = [] then [] else add_credentials (splitString credStr (CHR '','')) [])"

section \<open>The configuration\<close>

text \<open>The random bytes are an argument; \<open>None\<close> where the system has none.\<close>

definition randomSecret :: "string option \<Rightarrow> string" where
  "randomSecret rand =
     (case rand of
        None \<Rightarrow> ''mockgatehub-insecure-fallback-card-data-secret''
      | Some b \<Rightarrow> raw_url_encode b)"

definition Load :: "(string \<Rightarrow> string) \<Rightarrow> string option \<Rightarrow> Config" where
  "Load env rand =
     (let port = getEnv env ''MOCKGATEHUB_PORT'' ''8080'';
          url0 = getEnv env ''MOCKGATEHUB_PUBLIC_BASE_URL'' [];
          url1 = (if url0 = [] then ''http://localhost:'' @ port else url0);
          secret = getEnv env ''MOCKGATEHUB_CARD_DATA_TOKEN_SECRET'' [];
          redisURL = getEnv env ''MOCKGATEHUB_REDIS_URL'' []
      in \<lparr>cfg_Port = port,
          cfg_AdminPort = getEnv env ''MOCKGATEHUB_ADMIN_PORT'' ''8081'',
          cfg_LogLevel = getEnv env ''LOG_LEVEL'' ''info'',
          cfg_RedisURL = redisURL,
          cfg_RedisDB = getEnvInt env ''MOCKGATEHUB_REDIS_DB'' 0,
          cfg_WebhookURL = getEnv env ''WEBHOOK_URL'' [],
          cfg_WebhookSecret = getEnv env ''WEBHOOK_SECRET'' ''mock-secret'',
          cfg_WebhookMinDelaySec = getEnvFloat env ''WEBHOOK_MIN_DELAY_SEC'' (f64_of_rat (5 / 100)),
          cfg_UseRedis = (redisURL \<noteq> []),
          cfg_EnforceAuthentication = getEnvBool env ''MOCKGATEHUB_ENFORCE_AUTHENTICATION'' True,
          cfg_ValidCredentials = parseCredentials
            (getEnv env ''MOCKGATEHUB_VALID_CREDENTIALS'' ''local-test-app-id:local-test-app-secret''),
          cfg_DefaultOrganizationID = getEnv env ''DEFAULT_ORGANIZATION_ID'' ''default-org'',
          cfg_PublicBaseURL = trim_right (\<lambda>c. c = CHR ''/'') url1,
          cfg_AsyncWithdrawals = getEnvBool env ''MOCKGATEHUB_ASYNC_WITHDRAWALS'' False,
          cfg_CardDataTokenSecret = (if secret = [] then randomSecret rand else secret)\<rparr>)"

section \<open>Random identifiers\<close>

text \<open>The 33 bytes of an address and the 32 bytes of a hash, or a UUID where the system has no random bytes.\<close>

definition xrpl_charset :: string where
  "xrpl_charset = ''123456789ABCDEFGHJKLMNPQRSTUVWXYZabcdefghijkmnopqrstuvwxyz''"

definition GenerateMockXRPLAddress :: "string option \<Rightarrow> string \<Rightarrow> string" where
  "GenerateMockXRPLAddress rand uid =
     (case rand of
        None \<Rightarrow> ''r'' @ take 32 uid
      | Some b \<Rightarrow> ''r'' @ map (\<lambda>c. xrpl_charset ! (byte_val c mod length xrpl_charset)) b)"

text \<open>The format \<^verbatim>\<open>%X\<close>: hexadecimal digits in upper case.\<close>

definition upper_hex :: "nat \<Rightarrow> char" where
  "upper_hex n = (if n < 10 then char_of (48 + n) else char_of (55 + n))"

definition GenerateMockTransactionHash :: "string option \<Rightarrow> string \<Rightarrow> string" where
  "GenerateMockTransactionHash rand uid =
     (case rand of
        None \<Rightarrow> uid
      | Some b \<Rightarrow> concat (map (\<lambda>c. [upper_hex (byte_val c div 16), upper_hex (byte_val c mod 16)]) b))"

section \<open>Seeding\<close>

definition seed_user :: "string \<Rightarrow> string \<Rightarrow> User" where
  "seed_user i email =
     zero_User\<lparr>u_ID := i, u_Email := email, u_Activated := True, u_Managed := True, u_Role := ''user'',
       u_Features := [''wallet'', ''kyc''], u_KYCState := KYCStateActionRequired, u_RiskLevel := RiskLevelLow\<rparr>"

text \<open>A user, and a balance of 10000 where there is none; an error of \<^verbatim>\<open>CreateUser\<close> is ignored.\<close>

definition seed_account ::
  "'s Storage \<Rightarrow> string \<Rightarrow> time \<Rightarrow> string \<Rightarrow> string \<Rightarrow> string \<Rightarrow> 's store \<Rightarrow> go_error option \<times> 's store" where
  "seed_account S uid now i email currency s =
     (let (p, s1) = alloc_user (seed_user i email) s;
          s2 = snd (s_CreateUser S p uid now s1);
          userID = u_ID (user_of s2 p)
      in if feq (fst (s_GetBalance S userID currency s2)) f0
         then s_AddBalance S userID currency (Fin 10000) s2
         else (None, s2))"

definition strings_Contains :: "string \<Rightarrow> string \<Rightarrow> bool" where
  "strings_Contains s sub \<longleftrightarrow> find_sub sub s \<noteq> None"

definition SeedTestUsersWithOrgID :: "'s Storage \<Rightarrow> env \<Rightarrow> string \<Rightarrow> 's store \<Rightarrow> go_error option \<times> 's store" where
  "SeedTestUsersWithOrgID S e defaultOrgID s =
     (case seed_account S (uuid e 0) (time_now e 0) TestUser1ID TestUser1Email ''USD'' s of
        (Some err, s1) \<Rightarrow> (Some err, s1)
      | (None, s1) \<Rightarrow>
          (case seed_account S (uuid e 1) (time_now e 1) TestUser2ID TestUser2Email ''EUR'' s1 of
             (Some err, s2) \<Rightarrow> (Some err, s2)
           | (None, s2) \<Rightarrow>
               let now = time_now e 2;
                   org = zero_Organization\<lparr>org_ID := defaultOrgID, org_TwoFAType := ''sms'',
                     org_CreatedAt := now, org_UpdatedAt := now\<rparr>
               in case s_CreateOrganization S org s2 of
                    (None, s3) \<Rightarrow> (None, s3)
                  | (Some err, s3) \<Rightarrow>
                      if \<not> strings_Contains err ''already exists''
                      then (Some (''failed to create default organization: '' @ err), s3)
                      else (None, s3)))"

definition SeedTestUsers :: "'s Storage \<Rightarrow> env \<Rightarrow> 's store \<Rightarrow> go_error option \<times> 's store" where
  "SeedTestUsers S e s = SeedTestUsersWithOrgID S e ''default-org'' s"

section \<open>Which store and which queue\<close>

text \<open>
  The choices of \<^verbatim>\<open>main\<close>: the store, and where the webhook queue lives; a shared port of the two
  listeners ends the program.
\<close>

datatype store_kind = RedisStore | MemoryStore

datatype queue_kind = SharedQueue | DedicatedQueue | NoQueue

definition choose_store :: "Config \<Rightarrow> store_kind" where
  "choose_store cfg = (if cfg_UseRedis cfg then RedisStore else MemoryStore)"

definition choose_queue :: "Config \<Rightarrow> queue_kind" where
  "choose_queue cfg =
     (if cfg_UseRedis cfg then SharedQueue
      else if cfg_RedisURL cfg \<noteq> [] then DedicatedQueue
      else NoQueue)"

definition ports_differ :: "Config \<Rightarrow> bool" where
  "ports_differ cfg \<longleftrightarrow> cfg_AdminPort cfg \<noteq> cfg_Port cfg"

definition getAppIDList :: "key_order \<Rightarrow> string gomap \<Rightarrow> string list" where
  "getAppIDList ord validCredentials = ord (map fst validCredentials)"

section \<open>Routes\<close>

text \<open>A registration: the method, the pattern, whose parts in braces match any part of a path, and the handler.\<close>

datatype route = Route (rt_method: string) (rt_pattern: string) (rt_handler: string)

definition setupRoutes :: "route list" where
  "setupRoutes =
    [Route ''GET'' ''/'' ''RootHandler'',
     Route ''POST'' ''/transaction/complete'' ''TransactionCompleteHandler'',
     Route ''GET'' ''/health'' ''HealthCheck'',
     Route ''GET'' ''/api/user-currencies'' ''GetUserCurrencies'',
     Route ''POST'' ''/auth/v1/tokens'' ''CreateToken'',
     Route ''POST'' ''/auth/v1/users/managed'' ''CreateManagedUser'',
     Route ''GET'' ''/auth/v1/users/managed'' ''GetManagedUser'',
     Route ''PUT'' ''/auth/v1/users/managed/email'' ''UpdateManagedUserEmail'',
     Route ''PATCH'' ''/auth/v1/users/organization/{organizationID}'' ''UpdateOrganizationConfiguration'',
     Route ''GET'' ''/id/v1/users/{userID}'' ''GetUser'',
     Route ''POST'' ''/id/v1/users/{userID}/hubs/{gatewayID}'' ''StartKYC'',
     Route ''PUT'' ''/id/v1/hubs/{gatewayID}/users/{userID}'' ''UpdateKYCState'',
     Route ''POST'' ''/id/v1/hubs/{gatewayID}/users/{userID}/overrideRiskLevel'' ''OverrideRiskLevel'',
     Route ''GET'' ''/iframe/onboarding'' ''KYCIframe'',
     Route ''POST'' ''/iframe/submit'' ''KYCIframeSubmit'',
     Route ''GET'' ''/core/v1/users/{userID}'' ''GetUserWallets'',
     Route ''POST'' ''/core/v1/users/{userID}/wallets'' ''CreateWallet'',
     Route ''GET'' ''/core/v1/users/{userID}/wallets/{walletID}'' ''GetWallet'',
     Route ''GET'' ''/core/v1/wallets/{walletID}/balances'' ''GetWalletBalance'',
     Route ''POST'' ''/core/v1/transactions'' ''CreateTransaction'',
     Route ''GET'' ''/core/v1/transactions/{txID}'' ''GetTransaction'',
     Route ''POST'' ''/core/v1/gateways/{gatewayID}/transactions'' ''ListGatewayTransactions'',
     Route ''GET'' ''/v1/cards/{cardID}/limits'' ''GetCardLimits'',
     Route ''PUT'' ''/v1/cards/{cardID}/limits'' ''UpdateCardLimits'',
     Route ''POST'' ''/v1/cards/{cardID}/limits'' ''UpdateCardLimits'',
     Route ''GET'' ''/v1/card-applications/{appID}/card-products'' ''GetCardApplicationProducts'',
     Route ''GET'' ''/statement/v1/statements/account-confirmation/{walletAddress}'' ''GetAccountConfirmation'',
     Route ''GET'' ''/statement/v1/statements/account-statement/{walletAddress}/{year}/{month}'' ''GetAccountStatement'',
     Route ''GET'' ''/statement/v1/statements/transfer-confirmation/{transactionUUID}'' ''GetTransferConfirmation'',
     Route ''GET'' ''/rates/v1/rates/current'' ''GetCurrentRates'',
     Route ''GET'' ''/rates/v1/liquidity_provider/vaults'' ''GetVaults'',
     Route ''POST'' ''/cards/v1/customers'' ''CreateCustomer'',
     Route ''POST'' ''/cards/v1/customers/managed'' ''CreateManagedCustomer'',
     Route ''POST'' ''/cards/v1/customers/{customerID}/addresses'' ''CreateCustomerAddress'',
     Route ''GET'' ''/cards/v1/customers/{customerID}/addresses'' ''GetCustomerAddresses'',
     Route ''POST'' ''/cards/v1/accounts/{accountID}/cards'' ''OrderAdditionalCard'',
     Route ''POST'' ''/cards/v1/cards/{accountID}/card'' ''OrderAdditionalCard'',
     Route ''GET'' ''/cards/v1/cards/{customerID}'' ''ListCards'',
     Route ''GET'' ''/cards/v1/customers/{customerID}/cards'' ''ListCards'',
     Route ''POST'' ''/cards/v1/cards'' ''CreateCard'',
     Route ''GET'' ''/cards/v1/cards/{cardID}/card'' ''GetCard'',
     Route ''DELETE'' ''/cards/v1/cards/{cardID}/card'' ''DeleteCard'',
     Route ''PUT'' ''/cards/v1/cards/{cardID}/lock'' ''LockCard'',
     Route ''PUT'' ''/cards/v1/cards/{cardID}/unlock'' ''UnlockCard'',
     Route ''PUT'' ''/cards/v1/cards/{cardID}/block'' ''BlockCard'',
     Route ''GET'' ''/cards/v1/cards/{cardID}/limits'' ''GetCardLimits'',
     Route ''PUT'' ''/cards/v1/cards/{cardID}/limits'' ''UpdateCardLimits'',
     Route ''POST'' ''/cards/v1/cards/{cardID}/limits'' ''UpdateCardLimits'',
     Route ''POST'' ''/cards/v1/token/{tokenType}'' ''GetCardToken'',
     Route ''GET'' ''/cards/v1/token/card-data/data'' ''GetCardData'',
     Route ''GET'' ''/cards/v1/token/pin/data'' ''GetCardPin'',
     Route ''POST'' ''/cards/v1/token/pin/data'' ''SetCardPin'',
     Route ''GET'' ''/cards/v1/token/pin/public-key'' ''GetCardPinPublicKey'',
     Route ''POST'' ''/cards/v1/transactions'' ''CreateCardTransaction'',
     Route ''GET'' ''/cards/v1/transactions/{txID}'' ''GetCardTransaction'',
     Route ''GET'' ''/cards/v1/cards/{cardID}/transactions'' ''ListCardTransactions'',
     Route ''GET'' ''/cards/v1/transaction/pending-confirmations'' ''GetPendingConfirmations'',
     Route ''POST'' ''/cards/v1/test/3ds/challenge'' ''CreateThreeDSChallenge'',
     Route ''POST'' ''/cards/v1/transaction/{txID}'' ''ConfirmThreeDS'',
     Route ''GET'' ''/cards/v1/card-applications/{appID}/card-products'' ''GetCardApplicationProducts'',
     Route ''POST'' ''/cards/v1/cards/{cardID}/plastic'' ''OrderPlasticCard'']"

definition setupAdminRoutes :: "route list" where
  "setupAdminRoutes =
    [Route ''GET'' ''/health'' ''HealthCheck'',
     Route ''GET'' ''/admin/fees'' ''GetFees'',
     Route ''PUT'' ''/admin/fees'' ''SetFees'',
     Route ''GET'' ''/admin/users/{userID}/fees'' ''GetUserFees'',
     Route ''PUT'' ''/admin/users/{userID}/fees'' ''SetUserFees'',
     Route ''DELETE'' ''/admin/users/{userID}/fees'' ''ClearUserFees'',
     Route ''PUT'' ''/admin/users/{userID}/kyc-state'' ''SetUserKYCStateQuiet'',
     Route ''GET'' ''/admin/users/{userID}/withdrawals'' ''ListWithdrawals'',
     Route ''POST'' ''/admin/withdrawals/{txID}/trigger-event'' ''TriggerWithdrawalEvent'',
     Route ''GET'' ''/admin/card-transactions/scenarios'' ''ListCardTxScenarios'',
     Route ''POST'' ''/admin/card-transactions/simulate'' ''SimulateCardTransaction'',
     Route ''POST'' ''/admin/card-transactions/{txID}/status'' ''SetCardTransactionStatus'',
     Route ''POST'' ''/test-webhook'' ''TestWebhookSink'',
     Route ''GET'' ''/admin/received-webhooks'' ''ListReceivedWebhooks'',
     Route ''DELETE'' ''/admin/received-webhooks'' ''ClearReceivedWebhooks'',
     Route ''GET'' ''/ui/'' ''UIDashboard'',
     Route ''GET'' ''/ui/users/{userID}'' ''UIUserDetail'',
     Route ''GET'' ''/ui/actions/kyc'' ''UIKYCForm'',
     Route ''POST'' ''/ui/actions/kyc'' ''UIKYCAction'',
     Route ''GET'' ''/ui/actions/card-transaction'' ''UICardTxForm'',
     Route ''POST'' ''/ui/actions/card-transaction'' ''UICardTxAction'',
     Route ''POST'' ''/ui/actions/withdrawal/settle'' ''UIWithdrawalSettle'']"

text \<open>
  The routes that the router may give a request: a part in braces matches any part of the path. The
  path is the one the router works on, which is \<^verbatim>\<open>URL.RawPath\<close>, the path as it was sent, where that differs
  from the usual spelling of \<^verbatim>\<open>URL.Path\<close>, and \<^verbatim>\<open>URL.Path\<close> else.
\<close>

definition part_matches :: "string \<Rightarrow> string \<Rightarrow> bool" where
  "part_matches p q \<longleftrightarrow> (case p of c # cs \<Rightarrow> if c = CHR ''{'' then True else p = q | [] \<Rightarrow> q = [])"

definition path_matches :: "string \<Rightarrow> string \<Rightarrow> bool" where
  "path_matches pattern path \<longleftrightarrow>
     list_all2 part_matches (split_on (CHR ''/'') pattern) (split_on (CHR ''/'') path)"

definition reachable_handlers :: "route list \<Rightarrow> string \<Rightarrow> string \<Rightarrow> string list" where
  "reachable_handlers routes meth path =
     map rt_handler (filter (\<lambda>r. rt_method r = meth \<and> path_matches (rt_pattern r) path) routes)"

end
