(* ===== verification/Documents.thy ===== *)
theory Documents
  imports Pdf Withdrawals Startup
begin

text \<open>
  Rates and vaults (\<^verbatim>\<open>internal/handler/rates.go\<close>), the statements (\<^verbatim>\<open>statements.go\<close>), and the sink
  for webhooks in tests (\<^verbatim>\<open>webhook_sink.go\<close>).
\<close>

section \<open>Rates\<close>

text \<open>The rate of a currency in units of the counter currency.\<close>

definition rate_entry :: "f64 \<Rightarrow> f64 \<Rightarrow> json" where
  "rate_entry rateInUSD counterRateInUSD =
     JObj [(''type'', JStr ''ExchangeRate''), (''rate'', JNum (fdiv rateInUSD counterRateInUSD)),
           (''amount'', JStr ''1''), (''change'', JStr ''0'')]"

definition add_rate :: "f64 \<Rightarrow> string \<times> f64 \<Rightarrow> json gomap \<Rightarrow> json gomap" where
  "add_rate counterRateInUSD p response = mput (fst p) (rate_entry (snd p) counterRateInUSD) response"

definition GetCurrentRates :: "request \<Rightarrow> 's Handler \<Rightarrow> response \<times> 's Handler" where
  "GetCurrentRates r h =
     (let q = Query_Get r ''counter''; counter = (if q = [] then ''USD'' else q) in
      case mget SandboxRates counter of
        None \<Rightarrow> (sendError 400 (''unsupported counter currency: '' @ counter), h)
      | Some counterRateInUSD \<Rightarrow>
          (sendJSON 200 (JObj (fold (add_rate counterRateInUSD) SandboxRates [(''counter'', JStr counter)])), h))"

text \<open>The vaults in the order in which the loop visits their map.\<close>

definition GetVaults :: "key_order \<Rightarrow> 's Handler \<Rightarrow> response \<times> 's Handler" where
  "GetVaults ord h =
     (sendJSON 200 (GetVaultsResponse_json
        \<lparr>gvr_Vaults =
           List.map_filter (\<lambda>c. map_option (\<lambda>i. \<lparr>vi_Currency = c, vi_UUID = i\<rparr>) (mget SandboxVaultIDs c))
             (ord (map fst SandboxVaultIDs))\<rparr>), h)"

section \<open>Statements\<close>

fun joinNonEmpty :: "string \<Rightarrow> string list \<Rightarrow> string" where
  "joinNonEmpty sep parts =
     (case filter (\<lambda>p. p \<noteq> []) parts of
        [] \<Rightarrow> []
      | p # ps \<Rightarrow> foldl (\<lambda>out q. out @ sep @ q) p ps)"

definition orNotRecorded :: "string \<Rightarrow> string" where
  "orNotRecorded v = (if v = [] then ''not recorded'' else v)"

definition transactionStatusName :: "int \<Rightarrow> string" where
  "transactionStatusName status =
     (if status = TransactionStatusPending then ''pending''
      else if status = TransactionStatusCompleted then ''completed''
      else if status = TransactionStatusFailed then ''failed''
      else ''unknown ('' @ int_str status @ '')'')"

definition parseStatementPeriod :: "string \<Rightarrow> string \<Rightarrow> go_error + int \<times> int" where
  "parseStatementPeriod yearParam monthParam =
     (if yearParam = [] then Inl ''year is required''
      else if monthParam = [] then Inl ''month is required''
      else case atoi yearParam of
        None \<Rightarrow> Inl (''invalid year '' @ go_quote yearParam @ '': expected a four-digit year'')
      | Some year \<Rightarrow>
          if year < 1970 \<or> year > 9999
          then Inl (''invalid year '' @ go_quote yearParam @ '': expected a four-digit year'')
          else case atoi monthParam of
            None \<Rightarrow> Inl (''invalid month '' @ go_quote monthParam @ '': expected 1 to 12'')
          | Some month \<Rightarrow>
              if month < 1 \<or> month > 12
              then Inl (''invalid month '' @ go_quote monthParam @ '': expected 1 to 12'')
              else Inr (year, month))"

text \<open>The layouts \<^verbatim>\<open>time.RFC1123\<close> and \<^verbatim>\<open>January 2006\<close>; day 0 of the calendar is a Monday.\<close>

definition month_names :: "string list" where
  "month_names =
     [''January'', ''February'', ''March'', ''April'', ''May'', ''June'', ''July'', ''August'',
      ''September'', ''October'', ''November'', ''December'']"

definition weekday_names :: "string list" where
  "weekday_names = [''Mon'', ''Tue'', ''Wed'', ''Thu'', ''Fri'', ''Sat'', ''Sun'']"

definition format_rfc1123 :: "time \<Rightarrow> string" where
  "format_rfc1123 t =
     weekday_names ! nat (day_number t mod 7) @ '', '' @ pad 2 (day_of t) @ '' '' @
     take 3 (month_names ! nat (month_of t - 1)) @ '' '' @ pad 4 (year_of t) @ '' '' @ format_clock t @ '' UTC''"

definition format_month :: "int \<Rightarrow> int \<Rightarrow> string" where
  "format_month year month = month_names ! nat (month - 1) @ '' '' @ pad 4 year"

text \<open>The verbs \<^verbatim>\<open>%-10s\<close> and \<^verbatim>\<open>%10s\<close>: the width counts characters, here of ASCII text.\<close>

definition pad_right :: "nat \<Rightarrow> string \<Rightarrow> string" where
  "pad_right w s = s @ replicate (w - length s) (CHR '' '')"

definition pad_left :: "nat \<Rightarrow> string \<Rightarrow> string" where
  "pad_left w s = replicate (w - length s) (CHR '' '') @ s"

definition accountHolderName :: "'s Storage \<Rightarrow> string \<Rightarrow> 's store \<Rightarrow> string \<times> 's store" where
  "accountHolderName S userID s =
     (case s_GetUser S userID s of
        (Inl _, s1) \<Rightarrow> (''not on record'', s1)
      | (Inr p, s1) \<Rightarrow>
          let u = user_of s1 p; name = joinNonEmpty '' '' [u_FirstName u, u_LastName u]
          in (if name = [] then u_Email u else name, s1))"

definition activity_line :: "Transaction \<Rightarrow> string" where
  "activity_line tx =
     ''  '' @ format_date (tx_CreatedAt tx) @ ''  '' @ pad_right 10 (tx_DepositType tx) @ ''  '' @
     pad_left 10 (tx_Amount tx) @ '' '' @ tx_Currency tx @ ''  '' @ tx_ID tx"

definition in_period :: "int \<Rightarrow> int \<Rightarrow> Transaction \<Rightarrow> bool" where
  "in_period year month tx \<longleftrightarrow> year_of (tx_CreatedAt tx) = year \<and> month_of (tx_CreatedAt tx) = month"

definition statementActivityLines :: "'s Storage \<Rightarrow> string \<Rightarrow> int \<Rightarrow> int \<Rightarrow> 's store \<Rightarrow> string list" where
  "statementActivityLines S userID year month s =
     (case s_ListTransactionsByUser S userID s of
        Inl _ \<Rightarrow> [''Activity unavailable'']
      | Inr transactions \<Rightarrow>
          let txs = filter (in_period year month) transactions in
          if txs = [] then [''Transactions'', ''  No activity in this period'']
          else [''Transactions''] @ map activity_line txs @
               [[], nat_str (length txs) @ '' transaction(s) in period''])"

text \<open>The document is rendered and sent as an attachment.\<close>

definition sendStatementPDF :: "string \<Rightarrow> Document \<Rightarrow> response" where
  "sendStatementPDF filename doc =
     (let body = Render doc in
      \<lparr>rs_status = 200,
       rs_header = [(''Content-Type'', ''application/pdf''),
                    (''Content-Disposition'', ''attachment; filename='' @ [CHR 0x22] @ filename @ [CHR 0x22]),
                    (''Content-Length'', nat_str (length body))],
       rs_body = Text body\<rparr>)"

definition GetAccountConfirmation :: "'s Storage \<Rightarrow> env \<Rightarrow> request \<Rightarrow> 's Handler \<Rightarrow> response \<times> 's Handler" where
  "GetAccountConfirmation S e r h =
     (let walletAddress = URLParam r ''walletAddress'' in
      if walletAddress = [] then (sendError 400 ''wallet address is required'', h)
      else
        let (holder, st1) =
              (case s_GetWallet S walletAddress (h_store h) of
                 Inr wallet \<Rightarrow>
                   let (name, st) = accountHolderName S (w_UserID wallet) (h_store h)
                   in ([''Account holder: '' @ name, ''Wallet name: '' @ w_Name wallet], st)
               | Inl _ \<Rightarrow> ([''Account holder: not on record''], h_store h))
        in (sendStatementPDF ''account-confirmation.pdf''
              \<lparr>doc_Title = ''Account Confirmation'',
               doc_Lines = [''Wallet address: '' @ walletAddress, []] @ holder @
                 [[], ''Issued: '' @ format_rfc1123 (time_now e 0)]\<rparr>,
            h\<lparr>h_store := st1\<rparr>))"

definition GetAccountStatement :: "'s Storage \<Rightarrow> env \<Rightarrow> request \<Rightarrow> 's Handler \<Rightarrow> response \<times> 's Handler" where
  "GetAccountStatement S e r h =
     (let walletAddress = URLParam r ''walletAddress'' in
      if walletAddress = [] then (sendError 400 ''wallet address is required'', h)
      else case parseStatementPeriod (URLParam r ''year'') (URLParam r ''month'') of
        Inl err \<Rightarrow> (sendError 400 err, h)
      | Inr (year, month) \<Rightarrow>
          let (content, st1) =
                (case s_GetWallet S walletAddress (h_store h) of
                   Inr wallet \<Rightarrow>
                     let (name, st) = accountHolderName S (w_UserID wallet) (h_store h)
                     in ([''Account holder: '' @ name, []] @
                         statementActivityLines S (w_UserID wallet) year month st, st)
                 | Inl _ \<Rightarrow> ([''Account holder: not on record''], h_store h))
          in (sendStatementPDF ''account-statement.pdf''
                \<lparr>doc_Title = ''Account Statement'',
                 doc_Lines = [''Wallet address: '' @ walletAddress, ''Period: '' @ format_month year month, []] @
                   content @ [[], ''Issued: '' @ format_rfc1123 (time_now e 0)]\<rparr>,
              h\<lparr>h_store := st1\<rparr>))"

definition transfer_lines :: "Transaction \<Rightarrow> time \<Rightarrow> string list" where
  "transfer_lines tx now =
     [''Transaction: '' @ tx_ID tx, ''Type: '' @ tx_DepositType tx,
      ''Status: '' @ transactionStatusName (tx_Status tx), [],
      ''Amount: '' @ tx_Amount tx @ '' '' @ tx_Currency tx,
      ''Fee: '' @ tx_Fee tx @ '' '' @ tx_Currency tx,
      ''Total: '' @ tx_TotalAmount tx @ '' '' @ tx_Currency tx, [],
      ''Sending address: '' @ orNotRecorded (tx_SendingAddress tx),
      ''Receiving address: '' @ orNotRecorded (tx_ReceivingAddress tx), [],
      ''Created: '' @ format_rfc1123 (tx_CreatedAt tx), ''Issued: '' @ format_rfc1123 now]"

definition GetTransferConfirmation :: "'s Storage \<Rightarrow> env \<Rightarrow> request \<Rightarrow> 's Handler \<Rightarrow> response \<times> 's Handler" where
  "GetTransferConfirmation S e r h =
     (let transactionUUID = URLParam r ''transactionUUID'' in
      if transactionUUID = [] then (sendError 400 ''transaction UUID is required'', h)
      else case s_GetTransaction S transactionUUID (h_store h) of
        Inl _ \<Rightarrow> (sendError 404 ''transaction not found'', h)
      | Inr tx \<Rightarrow>
          if tx_Type tx \<noteq> TransactionTypeDeposit \<and> tx_Type tx \<noteq> TransactionTypeWithdrawal
          then (sendError 400 (''transaction '' @ transactionUUID @ '' is neither a deposit nor a withdrawal''), h)
          else (sendStatementPDF ''transfer-confirmation.pdf''
                  \<lparr>doc_Title = ''Transfer Confirmation'', doc_Lines = transfer_lines tx (time_now e 0)\<rparr>, h))"

section \<open>The webhook sink\<close>

definition receivedWebhookLimit :: nat where
  "receivedWebhookLimit = 500"

text \<open>The payload is the object of the body, where it is one.\<close>

record ReceivedWebhook =
  rw_ReceivedAt :: time
  rw_EventType :: string
  rw_UserUUID :: string
  rw_SignatureValid :: bool
  rw_Payload :: "json gomap option"
  rw_Body :: string

definition ReceivedWebhook_json :: "ReceivedWebhook \<Rightarrow> json" where
  "ReceivedWebhook_json x =
     JObj [(''received_at'', jtime (rw_ReceivedAt x)), (''event_type'', JStr (rw_EventType x)),
           (''user_uuid'', JStr (rw_UserUUID x)), (''signature_valid'', JBool (rw_SignatureValid x)),
           (''payload'', jopt JObj (rw_Payload x)), (''body'', JStr (rw_Body x))]"

type_synonym webhookSink = "ReceivedWebhook list"

definition record_webhook :: "ReceivedWebhook \<Rightarrow> webhookSink \<Rightarrow> webhookSink" where
  "record_webhook entry received =
     (let r = received @ [entry] in
      if length r > receivedWebhookLimit then drop (length r - receivedWebhookLimit) r else r)"

text \<open>The body as a map, with the members that hold a string read as one; \<^verbatim>\<open>null\<close> is the nil map.\<close>

definition webhook_payload_map :: "string \<Rightarrow> json gomap option" where
  "webhook_payload_map data =
     (case json_parse data of
        Some (TObj kvs) \<Rightarrow> map_option as_gomap (interface_members kvs)
      | _ \<Rightarrow> None)"

definition received_entry :: "Config \<Rightarrow> request \<Rightarrow> string \<Rightarrow> time \<Rightarrow> ReceivedWebhook" where
  "received_entry cfg r data now =
     (let payload = webhook_payload_map data;
          m = (case payload of None \<Rightarrow> [] | Some m \<Rightarrow> m)
      in \<lparr>rw_ReceivedAt = now, rw_EventType = jstr_field ''event_type'' m,
          rw_UserUUID = jstr_field ''user_uuid'' m,
          rw_SignatureValid =
            (Header_Get r ''X-GH-Webhook-Signature'' = GenerateGateHubWebhookSignature data (cfg_WebhookSecret cfg)),
          rw_Payload = payload, rw_Body = data\<rparr>)"

text \<open>The sink is a variable of the package, beside the handler's state; \<open>None\<close> is a body that cannot be read.\<close>

definition TestWebhookSink ::
  "Config \<Rightarrow> env \<Rightarrow> request \<Rightarrow> string option \<Rightarrow> webhookSink \<Rightarrow> response \<times> webhookSink" where
  "TestWebhookSink cfg e r body sink =
     (case body of
        None \<Rightarrow> (sendError 400 ''could not read body'', sink)
      | Some data \<Rightarrow>
          (sendJSON 200 (JObj [(''status'', JStr ''received'')]),
           record_webhook (received_entry cfg r data (time_now e 0)) sink))"

definition matching_webhooks :: "string \<Rightarrow> string \<Rightarrow> webhookSink \<Rightarrow> ReceivedWebhook list" where
  "matching_webhooks eventFilter userFilter sink =
     filter (\<lambda>x. (eventFilter = [] \<or> rw_EventType x = eventFilter) \<and> (userFilter = [] \<or> rw_UserUUID x = userFilter)) sink"

definition ListReceivedWebhooks :: "request \<Rightarrow> webhookSink \<Rightarrow> response \<times> webhookSink" where
  "ListReceivedWebhooks r sink =
     (let matches = matching_webhooks (Query_Get r ''event'') (Query_Get r ''user'') sink
      in (sendJSON 200 (JObj [(''webhooks'', JArr (map ReceivedWebhook_json matches)),
                              (''count'', JInt (int (length matches)))]), sink))"

definition ClearReceivedWebhooks :: "webhookSink \<Rightarrow> response \<times> webhookSink" where
  "ClearReceivedWebhooks sink = (sendJSON 200 (JObj [(''status'', JStr ''cleared'')]), [])"

end
