(* ===== verification/Admin_UI.thy ===== *)
theory Admin_UI
  imports Documents Identity Card_Simulation
begin

text \<open>
  The admin pages: \<^verbatim>\<open>internal/handler/ui.go\<close>. The templates are files embedded in the binary, so the
  rendering of a page from its view is an argument; what the handlers put into the view, what they
  change and where they redirect to is modelled.
\<close>

section \<open>Views\<close>

record uiOption =
  uo_Value :: string
  uo_Label :: string

record uiUserSummary =
  us_User :: User
  us_Balances :: "f64 gomap"

record uiTransaction =
  ut_Transaction :: Transaction
  ut_StatusName :: string
  ut_CanSettle :: bool

record uiView =
  uv_Title :: string
  uv_Flash :: string
  uv_FlashIsError :: bool
  uv_Users :: "uiUserSummary list"
  uv_User :: "User option"
  uv_FullName :: string
  uv_Balances :: "f64 gomap"
  uv_Cards :: "Card list"
  uv_Transactions :: "uiTransaction list"
  uv_Scenarios :: "CardTxScenario list"
  uv_Outcomes :: "uiOption list"
  uv_Events :: "uiOption list"
  uv_SelectedUserID :: string
  uv_SelectedCardID :: string

definition zero_uiView :: uiView where
  "zero_uiView =
     \<lparr>uv_Title = [], uv_Flash = [], uv_FlashIsError = False, uv_Users = [], uv_User = None,
      uv_FullName = [], uv_Balances = [], uv_Cards = [], uv_Transactions = [], uv_Scenarios = [],
      uv_Outcomes = [], uv_Events = [], uv_SelectedUserID = [], uv_SelectedCardID = []\<rparr>"

definition kycOutcomeOptions :: "uiOption list" where
  "kycOutcomeOptions =
     [\<lparr>uo_Value = KYCStateAccepted, uo_Label = ''Accepted''\<rparr>,
      \<lparr>uo_Value = KYCStateRejected, uo_Label = ''Rejected''\<rparr>,
      \<lparr>uo_Value = KYCStateActionRequired, uo_Label = ''Action required''\<rparr>,
      \<lparr>uo_Value = KYCStateResubmission, uo_Label = ''Resubmission requested''\<rparr>,
      \<lparr>uo_Value = WebhookEventDocumentNoticeWarning, uo_Label = ''Document notice: expiring soon''\<rparr>,
      \<lparr>uo_Value = WebhookEventDocumentNoticeExpired, uo_Label = ''Document notice: expired''\<rparr>]"

definition cardTxEventOptions :: "uiOption list" where
  "cardTxEventOptions =
     [\<lparr>uo_Value = WebhookEventCardTransactionAuthorization, uo_Label = ''Authorization (carries the transaction)''\<rparr>,
      \<lparr>uo_Value = WebhookEventCardTransaction, uo_Label = ''Notification only (no transaction)''\<rparr>]"

definition uiPages :: "string gomap" where
  "uiPages =
     [(''dashboard'', ''web/ui/dashboard.html''), (''user'', ''web/ui/user.html''),
      (''kyc'', ''web/ui/kyc_action.html''), (''cardTx'', ''web/ui/card_tx_action.html'')]"

text \<open>\<^verbatim>\<open>http.Error\<close>: the message as plain text.\<close>

definition http_Error :: "int \<Rightarrow> string \<Rightarrow> response" where
  "http_Error code msg =
     \<lparr>rs_status = code,
      rs_header = [(''Content-Type'', ''text/plain; charset=utf-8''), (''X-Content-Type-Options'', ''nosniff'')],
      rs_body = Text (msg @ [CHR 0x0A])\<rparr>"

definition renderUI :: "(string \<Rightarrow> uiView \<Rightarrow> string) \<Rightarrow> string \<Rightarrow> uiView \<Rightarrow> response" where
  "renderUI render page view =
     (case mget uiPages page of
        None \<Rightarrow> http_Error 500 ''unknown page''
      | Some file \<Rightarrow>
          \<lparr>rs_status = 200, rs_header = [(''Content-Type'', ''text/html; charset=utf-8'')],
           rs_body = Text (render file view)\<rparr>)"

section \<open>Redirects\<close>

definition flashFrom :: "request \<Rightarrow> string \<times> bool" where
  "flashFrom r = (Query_Get r ''flash'', Query_Get r ''error'' = ''1'')"

definition QueryEscape :: "string \<Rightarrow> string" where
  "QueryEscape s =
     concat (map (\<lambda>c. if is_alnum c \<or> c \<in> set ''-_.~'' then [c]
                      else if c = CHR '' '' then ''+''
                      else [CHR ''%'', upper_hex (byte_val c div 16), upper_hex (byte_val c mod 16)]) s)"

text \<open>
  \<^verbatim>\<open>http.Redirect\<close> cleans the path of a target on the same server and escapes the bytes outside
  ASCII. The parts of the path are those read so far, the last first.
\<close>

fun clean_parts :: "string list \<Rightarrow> string list \<Rightarrow> string list" where
  "clean_parts acc [] = rev acc"
| "clean_parts acc (p # ps) =
     (if p = [] \<or> p = ''.'' then clean_parts acc ps
      else if p = ''..'' then clean_parts (drop 1 acc) ps
      else clean_parts (p # acc) ps)"

definition path_Clean :: "string \<Rightarrow> string" where
  "path_Clean p = ''/'' @ join_with ''/'' (clean_parts [] (split_on (CHR ''/'') p))"

definition hexEscapeNonASCII :: "string \<Rightarrow> string" where
  "hexEscapeNonASCII s =
     concat (map (\<lambda>c. if byte_val c \<ge> 128 then [CHR ''%'', hex_digit (byte_val c div 16), hex_digit (byte_val c mod 16)]
                      else [c]) s)"

definition redirect_location :: "string \<Rightarrow> string" where
  "redirect_location target =
     (if url_Parse target = Some ([], [])
      then
        let p = takeWhile (\<lambda>c. c \<noteq> CHR ''?'') target; q = dropWhile (\<lambda>c. c \<noteq> CHR ''?'') target;
            clean = path_Clean p;
            trailing = (p \<noteq> [] \<and> last p = CHR ''/'' \<and> last clean \<noteq> CHR ''/'')
        in hexEscapeNonASCII (clean @ (if trailing then ''/'' else []) @ q)
      else hexEscapeNonASCII target)"

definition redirectWithFlash :: "string \<Rightarrow> string \<Rightarrow> bool \<Rightarrow> response" where
  "redirectWithFlash path msg isError =
     \<lparr>rs_status = 303,
      rs_header = [(''Location'',
        redirect_location (path @ ''?flash='' @ QueryEscape msg @ (if isError then ''&error=1'' else [])))],
      rs_body = Empty\<rparr>"

section \<open>Pages\<close>

definition summary_of :: "'s Storage \<Rightarrow> 's store \<Rightarrow> addr \<Rightarrow> uiUserSummary" where
  "summary_of S s p =
     \<lparr>us_User = user_of s p,
      us_Balances = (case s_GetAllBalances S (u_ID (user_of s p)) s of Inl _ \<Rightarrow> [] | Inr b \<Rightarrow> b)\<rparr>"

definition userSummaries :: "'s Storage \<Rightarrow> key_order \<Rightarrow> 's store \<Rightarrow> uiUserSummary list \<times> 's store" where
  "userSummaries S ord s =
     (case s_ListUsers S ord s of
        (Inl _, s1) \<Rightarrow> ([], s1)
      | (Inr users, s1) \<Rightarrow> (map (summary_of S s1) users, s1))"

definition UIDashboard ::
  "(string \<Rightarrow> uiView \<Rightarrow> string) \<Rightarrow> 's Storage \<Rightarrow> key_order \<Rightarrow> request \<Rightarrow> 's Handler \<Rightarrow> response \<times> 's Handler" where
  "UIDashboard render S ord r h =
     (let (flash, isError) = flashFrom r;
          (users, st1) = userSummaries S ord (h_store h)
      in (renderUI render ''dashboard''
            (zero_uiView\<lparr>uv_Title := ''Users'', uv_Flash := flash, uv_FlashIsError := isError, uv_Users := users\<rparr>),
          h\<lparr>h_store := st1\<rparr>))"

definition cardsForUser :: "'s Storage \<Rightarrow> key_order \<Rightarrow> string \<Rightarrow> 's store \<Rightarrow> Card list \<times> 's store" where
  "cardsForUser S ord userID s =
     (case s_GetCustomerBySourceID S userID s of
        (Inl _, s1) \<Rightarrow> ([], s1)
      | (Inr p, s1) \<Rightarrow>
          (case cu_ID (customer_of s1 p) of
             None \<Rightarrow> ([], s1)
           | Some cid \<Rightarrow>
               (case s_GetCardsByCustomer S ord cid s1 of Inl _ \<Rightarrow> ([], s1) | Inr cards \<Rightarrow> (cards, s1))))"

definition ui_transaction :: "Transaction \<Rightarrow> uiTransaction" where
  "ui_transaction tx =
     \<lparr>ut_Transaction = tx, ut_StatusName = transactionStatusName (tx_Status tx),
      ut_CanSettle = (tx_DepositType tx = DepositTypeWithdrawal \<and> tx_Status tx = TransactionStatusPending)\<rparr>"

definition transactionsForUser :: "'s Storage \<Rightarrow> string \<Rightarrow> 's store \<Rightarrow> uiTransaction list" where
  "transactionsForUser S userID s =
     (case s_ListTransactionsByUser S userID s of Inl _ \<Rightarrow> [] | Inr txs \<Rightarrow> map ui_transaction txs)"

definition UIUserDetail ::
  "(string \<Rightarrow> uiView \<Rightarrow> string) \<Rightarrow> 's Storage \<Rightarrow> key_order \<Rightarrow> request \<Rightarrow> 's Handler \<Rightarrow> response \<times> 's Handler" where
  "UIUserDetail render S ord r h =
     (let userID = URLParam r ''userID''; (u, st1) = s_GetUser S userID (h_store h)
      in case u of
           Inl _ \<Rightarrow> (http_Error 404 ''user not found'', h\<lparr>h_store := st1\<rparr>)
         | Inr p \<Rightarrow>
             let user = user_of st1 p;
                 balances = (case s_GetAllBalances S userID st1 of Inl _ \<Rightarrow> [] | Inr b \<Rightarrow> b);
                 (flash, isError) = flashFrom r;
                 (cards, st2) = cardsForUser S ord userID st1
             in (renderUI render ''user''
                   (zero_uiView\<lparr>uv_Title := u_Email user, uv_Flash := flash, uv_FlashIsError := isError,
                      uv_User := Some user, uv_FullName := joinNonEmpty '' '' [u_FirstName user, u_LastName user],
                      uv_Balances := balances, uv_Cards := cards,
                      uv_Transactions := transactionsForUser S userID st2\<rparr>),
                 h\<lparr>h_store := st2\<rparr>))"

definition UIKYCForm ::
  "(string \<Rightarrow> uiView \<Rightarrow> string) \<Rightarrow> 's Storage \<Rightarrow> key_order \<Rightarrow> request \<Rightarrow> 's Handler \<Rightarrow> response \<times> 's Handler" where
  "UIKYCForm render S ord r h =
     (let (flash, isError) = flashFrom r;
          (users, st1) = userSummaries S ord (h_store h)
      in (renderUI render ''kyc''
            (zero_uiView\<lparr>uv_Title := ''KYC event'', uv_Flash := flash, uv_FlashIsError := isError,
               uv_Users := users, uv_Outcomes := kycOutcomeOptions,
               uv_SelectedUserID := Query_Get r ''userID''\<rparr>),
          h\<lparr>h_store := st1\<rparr>))"

definition UICardTxForm ::
  "(string \<Rightarrow> uiView \<Rightarrow> string) \<Rightarrow> 's Storage \<Rightarrow> CardTxScenario list \<Rightarrow> key_order \<Rightarrow> request \<Rightarrow> 's Handler \<Rightarrow>
     response \<times> 's Handler" where
  "UICardTxForm render S idx ord r h =
     (let selectedUser = Query_Get r ''userID'';
          (flash, isError) = flashFrom r;
          (users, st1) = userSummaries S ord (h_store h);
          (cards, st2) = (if selectedUser \<noteq> [] then cardsForUser S ord selectedUser st1 else ([], st1))
      in (renderUI render ''cardTx''
            (zero_uiView\<lparr>uv_Title := ''Card transaction'', uv_Flash := flash, uv_FlashIsError := isError,
               uv_Users := users, uv_Cards := cards, uv_Scenarios := listCardScenarios idx,
               uv_Events := cardTxEventOptions, uv_SelectedUserID := selectedUser,
               uv_SelectedCardID := Query_Get r ''cardID''\<rparr>),
          h\<lparr>h_store := st2\<rparr>))"

section \<open>Actions\<close>

text \<open>The user object is changed before the store is asked to keep it.\<close>

definition applyUIKYCOutcome ::
  "'s Storage \<Rightarrow> addr \<Rightarrow> string \<Rightarrow> 's Handler \<Rightarrow> (go_error + string) \<times> 's Handler" where
  "applyUIKYCOutcome S p outcome h =
     (if outcome = WebhookEventDocumentNoticeExpired \<or> outcome = WebhookEventDocumentNoticeWarning
      then (Inr outcome, h)
      else
        let (u1, res) = applyKYCOutcome (user_of (h_store h) p) outcome;
            h1 = h\<lparr>h_store := set_user p u1 (h_store h)\<rparr>
        in case res of
             Inl err \<Rightarrow> (Inl err, h1)
           | Inr (event, _) \<Rightarrow>
               let (err, h2) = write_user S p
                     (\<lambda>u. if u_RiskLevel u = [] then u\<lparr>u_RiskLevel := RiskLevelLow\<rparr> else u) h1
               in if err \<noteq> None then (Inl ''failed to update user'', h2) else (Inr event, h2))"

definition UIKYCAction :: "'s Storage \<Rightarrow> env \<Rightarrow> request \<Rightarrow> 's Handler \<Rightarrow> response \<times> 's Handler" where
  "UIKYCAction S e r h =
     (let userID = TrimSpace (FormValue r ''userID''); outcome = TrimSpace (FormValue r ''outcome'');
          m = TrimSpace (FormValue r ''message'');
          msg = (if m = [] then ''Sent from the MockGatehub admin UI'' else m)
      in if userID = [] \<or> outcome = []
         then (redirectWithFlash ''/ui/actions/kyc'' ''Choose a user and an outcome'' True, h)
         else
           let (u, st1) = s_GetUser S userID (h_store h); h1 = h\<lparr>h_store := st1\<rparr>
           in case u of
                Inl _ \<Rightarrow> (redirectWithFlash ''/ui/actions/kyc'' ''User not found'' True, h1)
              | Inr p \<Rightarrow>
                  (case applyUIKYCOutcome S p outcome h1 of
                     (Inl err, h2) \<Rightarrow> (redirectWithFlash ''/ui/actions/kyc'' err True, h2)
                   | (Inr event, h2) \<Rightarrow>
                       (redirectWithFlash (''/ui/users/'' @ userID) (''Sent '' @ event) False,
                        send_async S (uuid e 0) (time_now e 0) event userID [(''message'', JStr msg)] f0 h2)))"

definition ui_overrides :: "request \<Rightarrow> json gomap" where
  "ui_overrides r =
     (let amount = TrimSpace (FormValue r ''amount''); merchant = TrimSpace (FormValue r ''merchantName'');
          m0 = (if amount \<noteq> [] then mput ''billingAmount'' (JStr amount) (mput ''transactionAmount'' (JStr amount) [])
                else [])
      in if merchant \<noteq> [] then mput ''merchantName'' (JStr merchant) m0 else m0)"

text \<open>\<open>None\<close> where the simulation panics.\<close>

definition UICardTxAction ::
  "'s Storage \<Rightarrow> CardTxScenario list \<Rightarrow> env \<Rightarrow> request \<Rightarrow> 's Handler \<Rightarrow> (response \<times> 's Handler) option" where
  "UICardTxAction S idx e r h =
     (let userID = TrimSpace (FormValue r ''userID''); cardID = TrimSpace (FormValue r ''cardID'');
          scenario = TrimSpace (FormValue r ''scenario'')
      in if userID = [] \<or> cardID = [] \<or> scenario = []
         then Some (redirectWithFlash ''/ui/actions/card-transaction'' ''Choose a user, a card and a scenario'' True, h)
         else
           (case simulateCardTransaction S idx e
               \<lparr>sr_UserID = userID, sr_CardID = cardID, sr_Scenario = scenario, sr_Overrides = ui_overrides r,
                sr_Event = TrimSpace (FormValue r ''event''), sr_Notification = None\<rparr> h of
              None \<Rightarrow> None
            | Some (Inl err, h1) \<Rightarrow> Some (redirectWithFlash ''/ui/actions/card-transaction'' (ae_msg err) True, h1)
            | Some (Inr res, h1) \<Rightarrow>
                Some (redirectWithFlash (''/ui/users/'' @ userID)
                        (''Simulated '' @ sx_Scenario res @ '' and sent '' @ sx_Event res) False, h1)))"

definition UIWithdrawalSettle :: "'s Storage \<Rightarrow> env \<Rightarrow> request \<Rightarrow> 's Handler \<Rightarrow> response \<times> 's Handler" where
  "UIWithdrawalSettle S e r h =
     (let userID = TrimSpace (FormValue r ''userID''); txID = TrimSpace (FormValue r ''txID'');
          event = TrimSpace (FormValue r ''event'');
          target = (if userID \<noteq> [] then ''/ui/users/'' @ userID else ''/ui'')
      in if txID = [] \<or> event = []
         then (redirectWithFlash target ''A transaction and an event are required'' True, h)
         else
           (case settleWithdrawal S e txID event h of
              (Some err, h1) \<Rightarrow> (redirectWithFlash target (ae_msg err) True, h1)
            | (None, h1) \<Rightarrow> (redirectWithFlash target (''Sent '' @ event) False, h1)))"

end
