(* ===== verification/Pages.thy ===== *)
theory Pages
  imports Admin_UI Memory_Storage
begin

text \<open>
  The pages a user's browser loads (\<^verbatim>\<open>RootHandler\<close> and \<^verbatim>\<open>HealthCheck\<close> of \<^verbatim>\<open>internal/handler/handler.go\<close>,
  \<^verbatim>\<open>KYCIframe\<close> of \<^verbatim>\<open>identity.go\<close>) and the assembly of the server in \<^verbatim>\<open>cmd/mockgatehub/main.go\<close>.
\<close>

section \<open>Templates\<close>

text \<open>
  The template files are an argument: \<open>None\<close> where a file cannot be parsed, else what the template
  writes for its data and whether it ran to the end.
\<close>

type_synonym page_data = "(string \<times> string) list"

type_synonym templates = "string \<Rightarrow> (page_data \<Rightarrow> string \<times> bool) option"

definition html_headers :: "string gomap" where
  "html_headers =
     [(''Content-Type'', ''text/html; charset=utf-8''), (''Access-Control-Allow-Origin'', ''*''),
      (''Access-Control-Allow-Methods'', ''GET, POST, OPTIONS''),
      (''Access-Control-Allow-Headers'', ''Content-Type, Authorization'')]"

text \<open>After a failure the message follows what was written; the status is 500 only if nothing was.\<close>

definition render_page :: "(page_data \<Rightarrow> string \<times> bool) \<Rightarrow> page_data \<Rightarrow> response" where
  "render_page tmpl data =
     (let (out, ok) = tmpl data; msg = ''Template execution error'' @ [CHR 0x0A] in
      if ok then \<lparr>rs_status = 200, rs_header = html_headers, rs_body = Text out\<rparr>
      else \<lparr>rs_status = (if out = [] then 500 else 200),
            rs_header = (if out = []
              then mput ''X-Content-Type-Options'' ''nosniff''
                     (mput ''Content-Type'' ''text/plain; charset=utf-8'' html_headers)
              else html_headers),
            rs_body = Text (out @ msg)\<rparr>)"

definition HealthCheck :: "response" where
  "HealthCheck =
     \<lparr>rs_status = 200, rs_header = [(''Content-Type'', ''application/json'')],
      rs_body = Text (json_text (JObj [(''status'', JStr ''ok''), (''service'', JStr ''mockgatehub'')]))\<rparr>"

definition payment_template :: "string \<Rightarrow> string" where
  "payment_template paymentType =
     (if paymentType = ''deposit'' then ''deposit.html''
      else if paymentType = ''withdrawal'' then ''withdrawal.html''
      else ''index.html'')"

text \<open>The tables of constants are put into the page as JSON.\<close>

definition payment_data :: "string \<Rightarrow> string \<Rightarrow> page_data" where
  "payment_data paymentType bearer =
     [(''PaymentType'', paymentType), (''Bearer'', bearer), (''BearerShort'', tokenPrefix bearer),
      (''VaultUUIDToCurrency'', json_text (sort_maps (JObj (map (\<lambda>(k, v). (k, JStr v)) VaultUUIDToCurrency)))),
      (''AvailableCurrencies'', json_text (jstrs SandboxCurrencies))]"

definition RootHandler :: "templates \<Rightarrow> request \<Rightarrow> 's Handler \<Rightarrow> response \<times> 's Handler" where
  "RootHandler files r h =
     (let paymentType = Query_Get r ''paymentType''; bearer = Query_Get r ''bearer'' in
      if bearer = [] then (http_Error 400 ''Missing bearer token'', h)
      else if paymentType = [] \<or> paymentType = ''onboarding''
      then
        let known = extractUserFromBearer h bearer;
            userUUID = (if known = [] then Query_Get r ''user_id'' else known)
        in (case files ''web/kyc-iframe.html'' of
              None \<Rightarrow> (http_Error 500 ''Template error'', h)
            | Some tmpl \<Rightarrow> (render_page tmpl [(''Token'', bearer), (''UserID'', userUUID)], h))
      else
        (case files (''web/'' @ payment_template paymentType) of
           None \<Rightarrow> (http_Error 500 ''Template error'', h)
         | Some tmpl \<Rightarrow> (render_page tmpl (payment_data paymentType bearer), h)))"

text \<open>The JSON of an error as \<^verbatim>\<open>json.MarshalIndent\<close> prints it, after what a template had written.\<close>

definition indented_error :: "string" where
  "indented_error =
     ''{'' @ [CHR 0x0A] @ ''  '' @ quoted ''error'' @ '': '' @ quoted ''Internal Server Error'' @ '','' @ [CHR 0x0A] @
     ''  '' @ quoted ''message'' @ '': '' @ quoted ''Template execution error'' @ [CHR 0x0A] @ ''}''"

text \<open>\<open>found\<close> are the paths at which there is a file.\<close>

definition kyc_paths :: "string list" where
  "kyc_paths =
     [''web/kyc-iframe.html'', ''./web/kyc-iframe.html'', ''../web/kyc-iframe.html'', ''../../web/kyc-iframe.html'']"

definition KYCIframe :: "templates \<Rightarrow> (string \<Rightarrow> bool) \<Rightarrow> request \<Rightarrow> 's Handler \<Rightarrow> response \<times> 's Handler" where
  "KYCIframe files found r h =
     (let bearer = Query_Get r ''bearer'';
          token = (if bearer = [] then Query_Get r ''token'' else bearer);
          userID = Query_Get r ''user_id''
      in case List.find found kyc_paths of
           None \<Rightarrow> (sendError 500 ''Template not found'', h)
         | Some path \<Rightarrow>
             (case files path of
                None \<Rightarrow> (sendError 500 ''Template error'', h)
              | Some tmpl \<Rightarrow>
                  let (out, ok) = tmpl [(''Token'', token), (''UserID'', userID)] in
                  if ok
                  then (\<lparr>rs_status = 200, rs_header = [(''Content-Type'', ''text/html; charset=utf-8'')],
                         rs_body = Text out\<rparr>, h)
                  else if out = [] then (sendError 500 ''Template execution error'', h)
                  else (\<lparr>rs_status = 200, rs_header = [(''Content-Type'', ''text/html; charset=utf-8'')],
                         rs_body = Text (out @ indented_error)\<rparr>, h)))"

section \<open>Assembling the server\<close>

text \<open>
  \<^verbatim>\<open>main\<close> after the store is chosen: the store is seeded, the queue is made where there is a Redis
  (\<open>connect\<close> is the failure of a connection of its own), and the handler gets both. A failure ends
  the program.
\<close>

definition make_queue :: "go_error option \<Rightarrow> string \<Rightarrow> Config \<Rightarrow> go_error + Queue option" where
  "make_queue connect uid cfg =
     (case choose_queue cfg of
        SharedQueue \<Rightarrow> Inr (Some (NewQueue (cfg_WebhookMinDelaySec cfg) uid))
      | DedicatedQueue \<Rightarrow>
          (case connect of
             Some err \<Rightarrow> Inl (''failed to connect to redis for webhook queue: '' @ err)
           | None \<Rightarrow> Inr (Some (NewQueue (cfg_WebhookMinDelaySec cfg) uid)))
      | NoQueue \<Rightarrow> Inr None)"

definition NewManager :: "string \<Rightarrow> string \<Rightarrow> Queue option \<Rightarrow> string \<Rightarrow> Manager" where
  "NewManager webhookURL webhookSecret queue defaultOrgID =
     \<lparr>wm_webhookURL = webhookURL, wm_webhookSecret = webhookSecret, wm_queue = queue,
      wm_defaultOrganizationID = defaultOrgID\<rparr>"

definition assemble ::
  "'s Storage \<Rightarrow> 's store \<Rightarrow> go_error option \<Rightarrow> env \<Rightarrow> Config \<Rightarrow> go_error + 's Handler" where
  "assemble S s connect e cfg =
     (case SeedTestUsersWithOrgID S e (cfg_DefaultOrganizationID cfg) s of
        (Some err, s1) \<Rightarrow> Inl (''failed to seed test users: '' @ err)
      | (None, s1) \<Rightarrow>
          (case make_queue connect (uuid e 2) cfg of
             Inl err \<Rightarrow> Inl err
           | Inr queue \<Rightarrow>
               if \<not> ports_differ cfg then Inl ''admin port must differ from the application port''
               else Inr (NewHandler cfg s1
                      (NewManager (cfg_WebhookURL cfg) (cfg_WebhookSecret cfg) queue (cfg_DefaultOrganizationID cfg)))))"

end
