(* ===== verification/Service_Properties.thy ===== *)
theory Service_Properties
  imports Pages Demo_State
begin

text \<open>
  Properties of the start-up, the routes and the documents of the service.
\<close>

section \<open>Routes without a signature\<close>

definition public_handlers :: "string list" where
  "public_handlers =
     [''RootHandler'', ''TransactionCompleteHandler'', ''HealthCheck'', ''GetUserCurrencies'', ''KYCIframe'',
      ''KYCIframeSubmit'', ''GetCardData'', ''GetCardPin'', ''SetCardPin'', ''GetCardPinPublicKey'']"

text \<open>A path that matches a pattern starts with what stands before the first brace.\<close>

abbreviation before_brace :: "string \<Rightarrow> string" where
  "before_brace \<equiv> takeWhile (\<lambda>c. c \<noteq> CHR ''{'')"

definition plain_pattern :: "string \<Rightarrow> bool" where
  "plain_pattern pattern \<longleftrightarrow>
     list_all (\<lambda>p. CHR ''{'' \<notin> set p \<or> take 1 p = ''{'') (split_on (CHR ''/'') pattern) \<and>
     CHR ''%'' \<notin> set (before_brace pattern)"

lemma parts_prefix:
  "list_all2 part_matches ps qs \<Longrightarrow> list_all (\<lambda>p. CHR ''{'' \<notin> set p \<or> take 1 p = ''{'') ps \<Longrightarrow>
     \<exists>rest. join_with ''/'' qs = before_brace (join_with ''/'' ps) @ rest"
proof (induction ps qs rule: list_all2_induct)
  case (Cons p ps q qs)
  show ?case
  proof (cases "CHR ''{'' \<in> set p")
    case True
    with Cons.prems obtain cs where "p = CHR ''{'' # cs" by (cases p) auto
    then show ?thesis by (cases ps) simp_all
  next
    case False
    then have b: "before_brace (p @ t) = p @ before_brace t" for t by (induction p) auto
    from False Cons.hyps(1) have "q = p" by (cases p) (auto simp: part_matches_def)
    obtain rest where "join_with ''/'' qs = before_brace (join_with ''/'' ps) @ rest"
      using Cons.IH Cons.prems by auto
    moreover have j: "join_with ''/'' (x # xs) = x @ (if xs = [] then [] else ''/'' @ join_with ''/'' xs)" for x xs
      by (cases xs) simp_all
    moreover have "qs = [] \<longleftrightarrow> ps = []" using Cons.hyps(2) by auto
    ultimately show ?thesis unfolding j \<open>q = p\<close> b by auto
  qed
qed simp

lemma path_prefix:
  "path_matches pattern path \<Longrightarrow> plain_pattern pattern \<Longrightarrow> \<exists>rest. path = before_brace pattern @ rest"
  using parts_prefix [of "split_on (CHR ''/'') pattern" "split_on (CHR ''/'') path"]
  by (simp add: path_matches_def plain_pattern_def join_split_on)

lemma unescape_plain: "CHR ''%'' \<notin> set s \<Longrightarrow> unescape encodeOther (s @ t) = map_option ((@) s) (unescape encodeOther t)"
  by (induction s) (auto simp: map_option_case split: option.splits)

lemma unescape_prefix:
  "unescape encodeOther (s @ t) = Some p \<Longrightarrow> CHR ''%'' \<notin> set s \<Longrightarrow> \<exists>u. unescape encodeOther t = Some u \<and> p = s @ u"
  by (auto simp: unescape_plain)

text \<open>Both spellings of a path start like the pattern.\<close>

lemma spelled_prefix:
  assumes "path_matches pattern path" and "plain_pattern pattern"
    and "path = p \<or> unescape encodeOther path = Some p"
  shows "\<exists>t. path = before_brace pattern @ t \<and> (\<exists>u. p = before_brace pattern @ u \<and> (t = u \<or> unescape encodeOther t = Some u))"
proof -
  obtain t where t: "path = before_brace pattern @ t" using path_prefix [OF assms(1,2)] by blast
  with assms(2,3) unescape_plain [of "before_brace pattern" t] show ?thesis
    by (auto simp: plain_pattern_def)
qed

lemma part_matches_plain: "CHR ''{'' \<notin> set p \<Longrightarrow> part_matches p q \<Longrightarrow> q = p"
  by (cases p) (auto simp: part_matches_def)

lemma plain_path_matches:
  assumes "path_matches pattern path" and "CHR ''{'' \<notin> set pattern"
  shows "path = pattern"
proof -
  have "list_all2 part_matches (split_on (CHR ''/'') pattern) (split_on (CHR ''/'') path)"
    using assms(1) by (simp add: path_matches_def)
  moreover have "\<forall>p \<in> set (split_on (CHR ''/'') pattern). CHR ''{'' \<notin> set p"
    using assms(2) split_on_subset by blast
  ultimately have "split_on (CHR ''/'') path = split_on (CHR ''/'') pattern"
    by (induction rule: list_all2_induct) (auto dest: part_matches_plain)
  then show ?thesis by (metis join_split_on)
qed

text \<open>Whether a route with a pattern can serve a path that is spelled in one of the two ways.\<close>

fun may_serve :: "string \<Rightarrow> string \<Rightarrow> bool" where
  "may_serve [] [] = True"
| "may_serve [] (d # ds) = False"
| "may_serve (c # cs) [] = (c = CHR ''{'')"
| "may_serve (c # cs) (d # ds) = (c = CHR ''{'' \<or> d = c \<and> may_serve cs ds)"

lemma may_serve_iff:
  "may_serve pattern p \<longleftrightarrow>
     (if CHR ''{'' \<in> set pattern then \<exists>rest. p = before_brace pattern @ rest else p = pattern)"
  by (induction pattern p rule: may_serve.induct) (auto split: list.splits)

lemma spelled_may_serve:
  assumes "path_matches pattern path" and "plain_pattern pattern"
    and "path = p \<or> unescape encodeOther path = Some p"
  shows "may_serve pattern p"
proof (cases "CHR ''{'' \<in> set pattern")
  case True
  obtain u where "p = before_brace pattern @ u" using spelled_prefix [OF assms] by (elim exE conjE)
  then have "\<exists>u. p = before_brace pattern @ u" by (rule exI)
  with True show ?thesis unfolding may_serve_iff by (simp only: if_True)
next
  case False
  have "before_brace pattern = pattern" using False by (induction pattern) auto
  then have "CHR ''%'' \<notin> set pattern" using assms(2) unfolding plain_pattern_def by argo
  then have "unescape encodeOther pattern = Some pattern"
    using unescape_plain [of pattern "[]"] by simp
  with assms(3) plain_path_matches [OF assms(1) False] have "p = pattern" by auto
  with False show ?thesis by (simp only: may_serve_iff if_False)
qed

definition token_pattern :: string where
  "token_pattern = ''/cards/v1/token/{tokenType}''"

definition public_only :: "string \<Rightarrow> bool" where
  "public_only p \<longleftrightarrow>
     list_all (\<lambda>r. \<not> may_serve (rt_pattern r) p \<or> rt_handler r \<in> set public_handlers \<or>
       rt_handler r = ''GetCardToken'' \<and> rt_pattern r = token_pattern) setupRoutes"

lemma public_short:
  "public_only ''/health''"
  "public_only ''/''"
  "public_only ''/iframe/onboarding''"
  "public_only ''/iframe/submit''"
  "public_only ''/transaction/complete''"
  by code_simp+

lemma public_long:
  "public_only ''/api/user-currencies''"
  "public_only ''/cards/v1/token/card-data/data''"
  "public_only ''/cards/v1/token/pin/data''"
  "public_only ''/cards/v1/token/pin/public-key''"
  by code_simp+

lemma public_all: "p \<in> set PublicEndpoints \<Longrightarrow> public_only p"
  using public_short public_long by (auto simp: PublicEndpoints_def)

lemma plain_routes: "list_all (\<lambda>r. plain_pattern (rt_pattern r)) setupRoutes"
  by code_simp

text \<open>
  The spelling of a card token path with an escaped slash, which the router takes for a type of
  token, and none of the types there are.
\<close>

definition escaped_token_path :: "string \<Rightarrow> bool" where
  "escaped_token_path path \<longleftrightarrow>
     (let t = drop (length ''/cards/v1/token/'') path
      in has_prefix path ''/cards/v1/token/'' \<and> CHR ''/'' \<notin> set t \<and> CHR ''%'' \<in> set t \<and>
         list_all (\<lambda>k. k \<noteq> t) [cardTokenTypeCardData, cardTokenTypePin, cardTokenTypePinChange])"

lemma escaped_token:
  assumes "path_matches token_pattern path" and "path = p \<or> unescape encodeOther path = Some p"
    and "p \<in> set PublicEndpoints"
  shows "escaped_token_path path"
proof -
  have "split_on (CHR ''/'') token_pattern = [[], ''cards'', ''v1'', ''token'', ''{tokenType}'']" by code_simp
  then obtain t where sp: "split_on (CHR ''/'') path = [[], ''cards'', ''v1'', ''token'', t]"
    using assms(1) by (auto simp: path_matches_def list_all2_Cons1 part_matches_def)
  have path: "path = ''/cards/v1/token/'' @ t"
    using join_split_on [of "CHR ''/''" path] sp by simp
  have slash: "CHR ''/'' \<notin> set t"
    using split_on_pieces [of t "CHR ''/''" path] sp by simp
  have publics: "p = ''/cards/v1/token/'' @ u \<Longrightarrow> CHR ''/'' \<in> set u" for u
    using assms(3) by (auto simp: PublicEndpoints_def)
  have "path \<noteq> p" using publics [of t] path slash by blast
  with assms(2) have "unescape encodeOther path = Some p" by blast
  then have "\<exists>u. unescape encodeOther t = Some u \<and> p = ''/cards/v1/token/'' @ u"
    unfolding path by (rule unescape_prefix) simp
  then obtain u where u: "unescape encodeOther t = Some u" "p = ''/cards/v1/token/'' @ u" by blast
  have "CHR ''%'' \<in> set t"
  proof (rule ccontr)
    assume "CHR ''%'' \<notin> set t"
    then have "u = t" using unescape_plain [of t "[]"] u(1) by simp
    with u(2) publics slash show False by blast
  qed
  with path slash show ?thesis
    by (auto simp: escaped_token_path_def has_prefix_def Let_def cardTokenTypeCardData_def cardTokenTypePin_def
        cardTokenTypePinChange_def)
qed

text \<open>What an unsigned request can reach.\<close>

lemma unsigned_public:
  assumes "Middleware creds r body = Pass" and "Header_Get r ''x-gatehub-signature'' = []"
    and "path = r_Path r \<or> unescape encodeOther path = Some (r_Path r)"
    and "name \<in> set (reachable_handlers setupRoutes (r_Method r) path)"
  shows "name \<in> set public_handlers \<or> name = ''GetCardToken'' \<and> escaped_token_path path"
proof -
  have p: "r_Path r \<in> set PublicEndpoints"
    using assms(1,2)
    by (auto simp: Middleware_def matchesPublicPattern_def PublicEndpointPatterns_def Let_def unauthorized_def split: if_splits)
  obtain rt where rt: "rt \<in> set setupRoutes" "rt_handler rt = name" "path_matches (rt_pattern rt) path"
    using assms(4) by (auto simp: reachable_handlers_def)
  have "plain_pattern (rt_pattern rt)" using plain_routes rt(1) by (auto simp: list_all_iff)
  from spelled_may_serve [OF rt(3) this assms(3)]
  consider "name \<in> set public_handlers" | "name = ''GetCardToken''" "rt_pattern rt = token_pattern"
    using public_all [OF p] rt(1,2) by (auto simp: list_all_iff public_only_def)
  then show ?thesis
  proof cases
    case 2
    with rt(3) p assms(3) show ?thesis using escaped_token by auto
  qed simp
qed

section \<open>Credentials\<close>

lemma split_bytes_piece:
  "d \<notin> set p \<Longrightarrow> split_bytes d cur (p @ rest) = split_bytes d (cur @ p) rest"
  by (induction p arbitrary: cur) auto

lemma splitString_join:
  "ps \<noteq> [] \<Longrightarrow> \<forall>p \<in> set ps. d \<notin> set p \<and> p \<noteq> [] \<Longrightarrow> splitString (join_with [d] ps) d = ps"
  unfolding splitString_def
proof (induction "[d]" ps rule: join_with.induct)
  case (2 p)
  then show ?case using split_bytes_piece [of d p "[]" "[]"] by simp
next
  case (3 p q ps)
  then show ?case using split_bytes_piece [of d p "[]" "d # join_with [d] (q # ps)"] by simp
qed simp

definition credential_text :: "string \<times> string \<Rightarrow> string" where
  "credential_text c = fst c @ '':'' @ snd c"

lemma split_credential:
  "CHR '':'' \<notin> set a \<Longrightarrow> CHR '':'' \<notin> set b \<Longrightarrow> b \<noteq> [] \<Longrightarrow> splitString (credential_text (a, b)) (CHR '':'') = [a, b]"
  using split_bytes_piece [of "CHR '':''" a "[]" "CHR '':'' # b"] split_bytes_piece [of "CHR '':''" b "[]" "[]"]
  by (simp add: splitString_def credential_text_def)

definition plain_credential :: "string \<times> string \<Rightarrow> bool" where
  "plain_credential c \<longleftrightarrow>
     CHR '':'' \<notin> set (fst c) \<and> CHR '','' \<notin> set (fst c) \<and> CHR '':'' \<notin> set (snd c) \<and> CHR '','' \<notin> set (snd c) \<and>
     snd c \<noteq> []"

lemma add_credentials_text:
  "list_all plain_credential cs \<Longrightarrow>
     add_credentials (map credential_text cs) m = foldl (\<lambda>m c. mput (fst c) (snd c) m) m cs"
proof (induction cs arbitrary: m)
  case (Cons c cs)
  then have "splitString (credential_text c) (CHR '':'') = [fst c, snd c]"
    using split_credential [of "fst c" "snd c"] by (simp add: plain_credential_def)
  with Cons show ?case by simp
qed simp

lemma mget_foldl_mput:
  "distinct (map fst cs) \<Longrightarrow> mget (foldl (\<lambda>m c. mput (fst c) (snd c) m) m cs) = mget m ++ map_of cs"
proof (induction cs arbitrary: m)
  case (Cons c cs)
  then have "fst c \<notin> dom (map_of cs)" by (simp add: dom_map_of_conv_image_fst)
  with Cons show ?case by (cases c) (auto simp: map_add_def fun_eq_iff split: option.splits)
qed simp

lemma dedicated_queue_unreachable: "choose_queue (Load env rand) \<noteq> DedicatedQueue"
  by (simp add: choose_queue_def Load_def Let_def)

section \<open>The properties\<close>

text \<open>
  C25: a request that carries no signature and passes the middleware reaches one of ten handlers, the
  iframe pages and their submission, the completion of a payment, the list of currencies, the health
  check, and the endpoints that take a card token, with one exception: a path of the latter that is
  sent with its last slash escaped is public to the middleware, which looks at the decoded path, and
  is a type of token to the router, which looks at the path as sent, so that it reaches the handler that hands out
  card tokens; none of the types for which it makes a real token can be reached so.
\<close>

theorem unsigned_requests_reach_public_handlers:
  assumes "Middleware creds r body = Pass" and "Header_Get r ''x-gatehub-signature'' = []"
    and "path = r_Path r \<or> unescape encodeOther path = Some (r_Path r)"
    and "name \<in> set (reachable_handlers setupRoutes (r_Method r) path)"
  shows "name \<in> set public_handlers \<or> name = ''GetCardToken'' \<and> escaped_token_path path"
  by (rule unsigned_public [OF assms])

text \<open>
  C39: the credentials of the environment are read as they are meant. A list of applications with
  their secrets, written as \<open>app:secret\<close> and separated by commas, gives exactly these applications
  with these secrets, as long as the names differ, no secret is empty and neither holds a colon or
  a comma.
\<close>

theorem credentials_read_as_written:
  assumes "cs \<noteq> []" and "list_all plain_credential cs" and "distinct (map fst cs)"
    and "env ''MOCKGATEHUB_VALID_CREDENTIALS'' = join_with '','' (map credential_text cs)"
  shows "mget (cfg_ValidCredentials (Load env rand)) = map_of cs"
proof -
  let ?t = "join_with '','' (map credential_text cs)"
  have "\<forall>p \<in> set (map credential_text cs). CHR '','' \<notin> set p \<and> p \<noteq> []"
    using assms(2) by (auto simp: list_all_iff plain_credential_def credential_text_def)
  with assms(1) have s: "splitString ?t (CHR '','') = map credential_text cs"
    by (intro splitString_join) simp_all
  then have "?t \<noteq> []" using assms(1) by (auto simp: splitString_def)
  then show ?thesis
    using assms(2-4) s
    by (auto simp: Load_def Let_def getEnv_def parseCredentials_def add_credentials_text mget_foldl_mput)
qed

text \<open>
  C40: every statement is a PDF whose table of objects is right. The number near the end of the file
  is the offset of the table; the entry of each of the five objects, at its fixed place in the
  table, is the offset at which this object starts, as long as the file is shorter than ten
  gigabytes.
\<close>

theorem pdf_table_finds_objects:
  assumes "length (Render doc) < 10 ^ 10" and "j < 5"
  shows "\<exists>x p off. Render doc = p @ ''startxref'' @ nl @ nat_str x @ nl @ ''%%EOF'' @ nl \<and>
    has_prefix (drop x (Render doc)) (''xref'' @ nl) \<and>
    take 10 (drop (x + 9 + 20 * (j + 1)) (Render doc)) = pad 10 (int off) \<and>
    has_prefix (drop off (Render doc)) (nat_str (j + 1) @ '' 0 obj'' @ nl)"
proof -
  let ?objs = "pdf_objects (buildContentStream doc)"
  obtain out offs where w: "write_objects 1 ?objs (''%PDF-1.4'' @ nl) = (out, offs)" by (cases "write_objects 1 ?objs (''%PDF-1.4'' @ nl)")
  have n: "length ?objs = 5" by (simp add: pdf_objects_def)
  have len: "length offs = 5" using length_offsets [of 1 ?objs "''%PDF-1.4'' @ nl"] unfolding w snd_conv n .
  define mid where "mid = ''xref'' @ nl @ ''0 6'' @ nl @ ''0000000000 65535 f '' @ nl"
  have mid: "length mid = 29" by (simp add: mid_def)
  define tail where "tail = ''trailer'' @ nl @ ''<< /Size '' @ nat_str 6 @ '' /Root 1 0 R >>'' @ nl"
  define final where "final = ''startxref'' @ nl @ nat_str (length out) @ nl @ ''%%EOF'' @ nl"
  have six: "nat_str 6 = ''6''" by code_simp
  have R: "Render doc = out @ mid @ concat (map xref_entry offs) @ tail @ final"
    unfolding Render_def Let_def w prod.case n by (simp add: mid_def tail_def final_def six)
  have ob: "list_all (\<lambda>off. off < 10 ^ 10) offs"
    using offsets_bound [of _ 1 ?objs "''%PDF-1.4'' @ nl"] assms(1) unfolding w fst_conv snd_conv R
    by (fastforce simp: list_all_iff)
  have "drop (length out + 9 + 20 * (j + 1)) (Render doc) = drop (20 * j) (concat (map xref_entry offs) @ tail @ final)"
    using mid by (simp add: R)
  then have entry: "take 10 (drop (length out + 9 + 20 * (j + 1)) (Render doc)) = pad 10 (int (offs ! j))"
    using nth_entry [OF ob, of j "tail @ final"] assms(2) len by simp
  have obj: "has_prefix (drop (offs ! j) (Render doc)) (nat_str (j + 1) @ '' 0 obj'' @ nl)"
    using object_at_offset [of j ?objs 1 "''%PDF-1.4'' @ nl" "mid @ concat (map xref_entry offs) @ tail @ final"] assms(2)
    unfolding w fst_conv snd_conv n R add.commute [of 1 j] by simp
  show ?thesis
    by (intro exI [of _ "length out"] exI [of _ "out @ mid @ concat (map xref_entry offs) @ tail"]
        exI [of _ "offs ! j"] conjI entry obj)
      (simp_all add: R final_def mid_def has_prefix_def)
qed

text \<open>The witnesses.\<close>

definition escaped_request :: request where
  "escaped_request =
     \<lparr>r_Method = ''POST'', r_Path = ''/cards/v1/token/pin/data'', r_RawQuery = [], r_Host = ''localhost'', r_TLS = False,
      r_header = [], r_query = [], r_params = [], r_form = []\<rparr>"

theorem unsigned_requests_reach_public_handlers_witness:
  "''GetCardToken'' \<in> set (reachable_handlers setupRoutes ''POST'' ''/cards/v1/token/pin%2Fdata'') \<and>
   (''GetCardToken'' \<in> set public_handlers \<or>
    ''GetCardToken'' = ''GetCardToken'' \<and> escaped_token_path ''/cards/v1/token/pin%2Fdata'')"
proof
  show reach: "''GetCardToken'' \<in> set (reachable_handlers setupRoutes ''POST'' ''/cards/v1/token/pin%2Fdata'')"
    by code_simp
  show "''GetCardToken'' \<in> set public_handlers \<or>
    ''GetCardToken'' = ''GetCardToken'' \<and> escaped_token_path ''/cards/v1/token/pin%2Fdata''"
  proof (rule unsigned_requests_reach_public_handlers [where r = escaped_request])
    show "Middleware [] escaped_request None = Pass"
      by (simp add: Middleware_def escaped_request_def PublicEndpoints_def)
    show "Header_Get escaped_request ''x-gatehub-signature'' = []"
      by (simp add: Header_Get_def escaped_request_def mstr_def)
    have "unescape encodeOther ''/cards/v1/token/pin%2Fdata'' = Some ''/cards/v1/token/pin/data''" by code_simp
    then show "''/cards/v1/token/pin%2Fdata'' = r_Path escaped_request \<or>
        unescape encodeOther ''/cards/v1/token/pin%2Fdata'' = Some (r_Path escaped_request)"
      by (simp add: escaped_request_def)
    show "''GetCardToken'' \<in> set (reachable_handlers setupRoutes (r_Method escaped_request) ''/cards/v1/token/pin%2Fdata'')"
      using reach by (simp add: escaped_request_def)
  qed
qed

definition demo_environment :: "string \<Rightarrow> string" where
  "demo_environment key =
     (if key = ''MOCKGATEHUB_VALID_CREDENTIALS'' then ''app1:s1,app2:s2'' else [])"

theorem credentials_read_as_written_witness:
  "mget (cfg_ValidCredentials (Load demo_environment None)) ''app2'' = Some ''s2''"
proof -
  have "mget (cfg_ValidCredentials (Load demo_environment None)) = map_of [(''app1'', ''s1''), (''app2'', ''s2'')]"
    by (rule credentials_read_as_written)
      (simp_all add: plain_credential_def demo_environment_def credential_text_def)
  then show ?thesis by simp
qed

definition demo_document :: Document where
  "demo_document = \<lparr>doc_Title = ''T'', doc_Lines = []\<rparr>"

theorem pdf_table_finds_objects_witness:
  "\<exists>x p off. Render demo_document = p @ ''startxref'' @ nl @ nat_str x @ nl @ ''%%EOF'' @ nl \<and>
    has_prefix (drop x (Render demo_document)) (''xref'' @ nl) \<and>
    take 10 (drop (x + 9 + 20 * (4 + 1)) (Render demo_document)) = pad 10 (int off) \<and>
    has_prefix (drop off (Render demo_document)) (nat_str (4 + 1) @ '' 0 obj'' @ nl)"
proof (rule pdf_table_finds_objects)
  have "length (Render demo_document) < 1000" by code_simp
  then show "length (Render demo_document) < 10 ^ 10" by simp
qed simp

end
