(* ===== verification/Bodies.thy ===== *)
theory Bodies
  imports Model_Codec Identity Auth_Handlers Card_Services Card_Simulation Card_Tokens Fee_Endpoints Withdrawals
begin

text \<open>
  What the handlers make of the body of a request: \<^verbatim>\<open>decodeJSON\<close> of \<^verbatim>\<open>internal/handler/helpers.go\<close>, and
  for every endpoint the struct it decodes into, with the tags of its fields. A decoder reads the first value of
  the body and leaves the rest.
\<close>

section \<open>Decoding\<close>

definition first_value :: "string \<Rightarrow> jtree option" where
  "first_value s = map_option fst (pvalue (Suc (length s)) s)"

text \<open>\<open>None\<close> for the body is a failure of reading it.\<close>

definition decodeJSON :: "'r fields \<Rightarrow> 'r \<Rightarrow> string option \<Rightarrow> 'r option" where
  "decodeJSON table zero body =
     (case Option.bind body first_value of
        None \<Rightarrow> None
      | Some v \<Rightarrow> if v = TNull then Some zero else tree_struct table zero v)"

text \<open>
  \<^verbatim>\<open>json.Unmarshal\<close> when its error is ignored: a text that is no JSON leaves the value alone, and a field of
  the wrong type is passed over while the others are set.
\<close>

fun set_fields_anyway :: "'r fields \<Rightarrow> (string \<times> jtree) list \<Rightarrow> 'r \<Rightarrow> 'r" where
  "set_fields_anyway table [] r = r"
| "set_fields_anyway table ((k, v) # kvs) r =
     (case List.find (\<lambda>f. fold_name (fst f) = fold_name k) table of
        None \<Rightarrow> set_fields_anyway table kvs r
      | Some f \<Rightarrow> set_fields_anyway table kvs (case snd f v r of None \<Rightarrow> r | Some r1 \<Rightarrow> r1))"

definition unmarshal_anyway :: "'r fields \<Rightarrow> 'r \<Rightarrow> string \<Rightarrow> 'r" where
  "unmarshal_anyway table zero s =
     (case json_parse s of
        Some (TObj kvs) \<Rightarrow> set_fields_anyway table kvs zero
      | _ \<Rightarrow> zero)"

text \<open>A struct inside a struct, and a pointer to one: what is there already is kept.\<close>

definition set_struct ::
  "'a fields \<Rightarrow> ('r \<Rightarrow> 'a) \<Rightarrow> (('a \<Rightarrow> 'a) \<Rightarrow> 'r \<Rightarrow> 'r) \<Rightarrow> jtree \<Rightarrow> 'r \<Rightarrow> 'r option" where
  "set_struct table get upd v r =
     (if v = TNull then Some r else map_option (\<lambda>x. upd (\<lambda>_. x) r) (tree_struct table (get r) v))"

definition set_pointer ::
  "'a fields \<Rightarrow> 'a \<Rightarrow> ('r \<Rightarrow> 'a option) \<Rightarrow> (('a option \<Rightarrow> 'a option) \<Rightarrow> 'r \<Rightarrow> 'r) \<Rightarrow> jtree \<Rightarrow> 'r \<Rightarrow> 'r option" where
  "set_pointer table zero get upd v r =
     (if v = TNull then Some (upd (\<lambda>_. None) r)
      else map_option (\<lambda>x. upd (\<lambda>_. Some x) r)
             (tree_struct table (case get r of None \<Rightarrow> zero | Some x \<Rightarrow> x) v))"

text \<open>A \<^verbatim>\<open>map[string]interface{}\<close>: the members are added to those of the map that is there.\<close>

definition tree_map :: "json gomap \<Rightarrow> jtree \<Rightarrow> json gomap option" where
  "tree_map m v =
     (case v of
        TObj kvs \<Rightarrow> map_option (\<lambda>ms. put_all ms m) (interface_members kvs)
      | _ \<Rightarrow> None)"

section \<open>The bodies of the application API\<close>

definition CreateManagedUserRequest_fields :: "CreateManagedUserRequest fields" where
  "CreateManagedUserRequest_fields = [(''email'', set_plain tree_string cmu_Email_update)]"

definition UpdateEmailRequest_fields :: "UpdateEmailRequest fields" where
  "UpdateEmailRequest_fields =
     [(''email'', set_plain tree_string uer_Email_update),
      (''new_email'', set_plain tree_string uer_NewEmail_update)]"

definition UpdateOrganizationConfigurationRequest_fields :: "UpdateOrganizationConfigurationRequest fields" where
  "UpdateOrganizationConfigurationRequest_fields =
     [(''apiBaseUrl'', set_plain tree_string uoq_APIBaseURL_update),
      (''type2fa'', set_plain tree_string uoq_TwoFAType_update)]"

definition UpdateKYCStateRequest_fields :: "UpdateKYCStateRequest fields" where
  "UpdateKYCStateRequest_fields =
     [(''state'', set_plain tree_string uks_State_update),
      (''risk_level'', set_plain tree_string uks_RiskLevel_update)]"

text \<open>The anonymous structs of two texts are pairs.\<close>

definition OverrideRiskLevel_fields :: "(string \<times> string) fields" where
  "OverrideRiskLevel_fields =
     [(''risk_level'', set_plain tree_string apfst), (''reason'', set_plain tree_string apsnd)]"

definition SetUserKYCStateQuiet_fields :: "(string \<times> string) fields" where
  "SetUserKYCStateQuiet_fields =
     [(''kyc_state'', set_plain tree_string apfst), (''risk_level'', set_plain tree_string apsnd)]"

definition CreateWalletRequest_fields :: "CreateWalletRequest fields" where
  "CreateWalletRequest_fields =
     [(''user_id'', set_plain tree_string cwr_UserID_update),
      (''name'', set_plain tree_string cwr_Name_update),
      (''type'', set_plain tree_int cwr_Type_update),
      (''network'', set_plain tree_int cwr_Network_update)]"

definition CreateTransactionRequest_fields :: "CreateTransactionRequest fields" where
  "CreateTransactionRequest_fields =
     [(''user_id'', set_plain tree_string ctq_UserID_update),
      (''uid'', set_plain tree_string ctq_UID_update),
      (''amount'', set_plain tree_float ctq_Amount_update),
      (''currency'', set_plain tree_string ctq_Currency_update),
      (''vault_uuid'', set_plain tree_string ctq_VaultUUID_update),
      (''sending_address'', set_plain tree_string ctq_SendingAddress_update),
      (''receiving_address'', set_plain tree_string ctq_ReceivingAddress_update),
      (''type'', set_plain tree_int ctq_Type_update),
      (''deposit_type'', set_plain tree_string ctq_DepositType_update)]"

definition TransactionRequest_fields :: "TransactionRequest fields" where
  "TransactionRequest_fields =
     [(''amount'', set_plain tree_string trq_Amount_update),
      (''currency'', set_plain tree_string trq_Currency_update),
      (''trigger_sca'', set_plain tree_bool trq_TriggerSCA_update),
      (''totp_code'', set_plain tree_string trq_TOTPCode_update)]"

definition zero_TransactionRequest :: TransactionRequest where
  "zero_TransactionRequest =
     \<lparr>trq_Amount = [], trq_Currency = [], trq_TriggerSCA = False, trq_TOTPCode = []\<rparr>"

text \<open>\<^verbatim>\<open>TransactionCompleteHandler\<close> goes on whatever the body is.\<close>

definition completion_request :: "string option \<Rightarrow> TransactionRequest" where
  "completion_request body =
     (case body of
        None \<Rightarrow> zero_TransactionRequest
      | Some s \<Rightarrow>
          if s = [] then zero_TransactionRequest
          else unmarshal_anyway TransactionRequest_fields zero_TransactionRequest s)"

section \<open>The bodies of the card API\<close>

definition NewCardArgs_fields :: "NewCardArgs fields" where
  "NewCardArgs_fields = [(''productCode'', set_plain tree_string nca_ProductCode_update)]"

definition CardAccount_fields :: "CardAccount fields" where
  "CardAccount_fields =
     [(''productCode'', set_plain tree_string ca_ProductCode_update),
      (''currency'', set_plain tree_string ca_Currency_update),
      (''card'', set_struct NewCardArgs_fields ca_Card ca_Card_update)]"

definition CreateCustomerDeliveryAddressArgs_fields :: "CreateCustomerDeliveryAddressArgs fields" where
  "CreateCustomerDeliveryAddressArgs_fields =
     [(''type'', set_plain tree_string cda_Type_update),
      (''countryCode'', set_plain tree_string cda_CountryCode_update),
      (''line1'', set_plain tree_string cda_Line1_update),
      (''line2'', set_opt tree_string cda_Line2_update),
      (''line3'', set_opt tree_string cda_Line3_update),
      (''city'', set_plain tree_string cda_City_update),
      (''postOffice'', set_opt tree_string cda_PostOffice_update),
      (''zipCode'', set_plain tree_string cda_ZipCode_update),
      (''reason'', set_plain tree_string cda_Reason_update)]"

definition CreateCustomerAndCardArgs_fields :: "CreateCustomerAndCardArgs fields" where
  "CreateCustomerAndCardArgs_fields =
     [(''walletAddress'', set_plain tree_string cca_WalletAddress_update),
      (''account'', set_struct CardAccount_fields cca_Account cca_Account_update),
      (''delivery'', set_pointer CreateCustomerDeliveryAddressArgs_fields
         zero_CreateCustomerDeliveryAddressArgs cca_Delivery cca_Delivery_update),
      (''nameOnCard'', set_plain tree_string cca_NameOnCard_update)]"

definition GetCardTokenArgs_fields :: "GetCardTokenArgs fields" where
  "GetCardTokenArgs_fields =
     [(''cardId'', set_plain tree_string gct_CardID_update),
      (''publicKey'', set_opt tree_string gct_PublicKey_update)]"

definition CreateCardTransactionArgs_fields :: "CreateCardTransactionArgs fields" where
  "CreateCardTransactionArgs_fields =
     [(''cardId'', set_plain tree_string cct_CardID_update),
      (''cardGuid'', set_plain tree_string cct_CardGUID_update),
      (''amount'', set_plain tree_string cct_Amount_update),
      (''currency'', set_plain tree_string cct_Currency_update),
      (''type'', set_plain tree_int cct_Type_update),
      (''merchantName'', set_opt tree_string cct_MerchantName_update),
      (''merchantCity'', set_opt tree_string cct_MerchantCity_update),
      (''merchantCountry'', set_opt tree_string cct_MerchantCountry_update)]"

text \<open>The id of the transaction is taken from the path, not from the body.\<close>

definition ThreeDSPaymentConfirmationArgs_fields :: "ThreeDSPaymentConfirmationArgs fields" where
  "ThreeDSPaymentConfirmationArgs_fields =
     [(''confirmed'', set_plain tree_bool tca_Confirmed_update),
      (''authMethod'', set_plain tree_string tca_AuthMethod_update)]"

definition CreateThreeDSRequest_fields :: "CreateThreeDSRequest fields" where
  "CreateThreeDSRequest_fields =
     [(''cardId'', set_plain tree_string c3r_CardID_update),
      (''userId'', set_plain tree_string c3r_UserID_update),
      (''merchantName'', set_plain tree_string c3r_MerchantName_update),
      (''purchaseAmount'', set_plain tree_string c3r_PurchaseAmount_update),
      (''purchaseCurrency'', set_plain tree_string c3r_PurchaseCurrency_update)]"

definition zero_CreateThreeDSRequest :: CreateThreeDSRequest where
  "zero_CreateThreeDSRequest =
     \<lparr>c3r_CardID = [], c3r_UserID = [], c3r_MerchantName = [], c3r_PurchaseAmount = [],
      c3r_PurchaseCurrency = []\<rparr>"

text \<open>A slice, \<open>Some None\<close> where \<^verbatim>\<open>null\<close> leaves it nil, and a map, empty where it is nil.\<close>

definition limits_body :: "string option \<Rightarrow> CardLimit list option option" where
  "limits_body body =
     (case Option.bind body first_value of
        None \<Rightarrow> None
      | Some v \<Rightarrow>
          if v = TNull then Some None
          else map_option Some (tree_list zero_CardLimit (tree_struct CardLimit_fields zero_CardLimit) v))"

definition address_body :: "string option \<Rightarrow> json gomap option" where
  "address_body body =
     (case Option.bind body first_value of
        None \<Rightarrow> None
      | Some v \<Rightarrow> if v = TNull then Some [] else tree_map [] v)"

text \<open>The anonymous structs of one text are this text.\<close>

definition one_text :: "string \<Rightarrow> string option \<Rightarrow> string option" where
  "one_text name body = decodeJSON [(name, set_plain tree_string (\<lambda>f. f))] [] body"

section \<open>The bodies of the administration\<close>

definition feeResponse_fields :: "feeResponse fields" where
  "feeResponse_fields =
     [(''deposit_fee_percentage'', set_plain tree_float fr_DepositFeePercentage_update),
      (''withdrawal_fee_percentage'', set_plain tree_float fr_WithdrawalFeePercentage_update)]"

definition zero_feeResponse :: feeResponse where
  "zero_feeResponse = \<lparr>fr_DepositFeePercentage = f0, fr_WithdrawalFeePercentage = f0\<rparr>"

definition feeUpdateRequest_fields :: "feeUpdateRequest fields" where
  "feeUpdateRequest_fields =
     [(''deposit_fee_percentage'', set_opt tree_float fu_DepositFeePercentage_update),
      (''withdrawal_fee_percentage'', set_opt tree_float fu_WithdrawalFeePercentage_update)]"

definition zero_feeUpdateRequest :: feeUpdateRequest where
  "zero_feeUpdateRequest = \<lparr>fu_DepositFeePercentage = None, fu_WithdrawalFeePercentage = None\<rparr>"

definition CardTxNotification_fields :: "CardTxNotification fields" where
  "CardTxNotification_fields =
     [(''title'', set_plain tree_string no_Title_update), (''body'', set_plain tree_string no_Body_update)]"

text \<open>The overrides are a map that grows with every member of this name; \<^verbatim>\<open>null\<close> makes it nil.\<close>

definition SimulateCardTransactionRequest_fields :: "SimulateCardTransactionRequest fields" where
  "SimulateCardTransactionRequest_fields =
     [(''userId'', set_plain tree_string sr_UserID_update),
      (''cardId'', set_plain tree_string sr_CardID_update),
      (''scenario'', set_plain tree_string sr_Scenario_update),
      (''overrides'', \<lambda>v r.
         if v = TNull then Some (r\<lparr>sr_Overrides := []\<rparr>)
         else map_option (\<lambda>m. r\<lparr>sr_Overrides := m\<rparr>) (tree_map (sr_Overrides r) v)),
      (''event'', set_plain tree_string sr_Event_update),
      (''notification'', set_pointer CardTxNotification_fields \<lparr>no_Title = [], no_Body = []\<rparr>
         sr_Notification sr_Notification_update)]"

definition zero_SimulateCardTransactionRequest :: SimulateCardTransactionRequest where
  "zero_SimulateCardTransactionRequest =
     \<lparr>sr_UserID = [], sr_CardID = [], sr_Scenario = [], sr_Overrides = [], sr_Event = [],
      sr_Notification = None\<rparr>"

lemma completion_request_example:
  "completion_request (Some (''{'' @ quoted ''amount'' @ '':5,'' @ quoted ''currency'' @ '':'' @ quoted ''USD'' @ ''}'')) =
     zero_TransactionRequest\<lparr>trq_Currency := ''USD''\<rparr>"
  by code_simp

lemma decodeJSON_example:
  "decodeJSON UpdateEmailRequest_fields zero_UpdateEmailRequest
     (Some (''{'' @ quoted ''EMAIL'' @ '':'' @ quoted ''a@b'' @ ''} and more'')) = Some \<lparr>uer_Email = ''a@b'', uer_NewEmail = []\<rparr>"
  by code_simp

section \<open>Numbers of a body\<close>

text \<open>A number literal is never read as NaN, so no number of a decoded body is.\<close>

fun plain_numbers :: "jtree \<Rightarrow> bool" where
  "plain_numbers (TNum l) \<longleftrightarrow> ParseFloat l \<noteq> Some NaN"
| "plain_numbers (TArr ts) \<longleftrightarrow> list_all plain_numbers ts"
| "plain_numbers (TObj kvs) \<longleftrightarrow> list_all (\<lambda>kv. plain_numbers (snd kv)) kvs"
| "plain_numbers _ \<longleftrightarrow> True"

lemma ParseFloat_NaN: "ParseFloat s = Some NaN \<longleftrightarrow> ToLower s = ''nan''"
proof
  assume "ParseFloat s = Some NaN"
  then show "ToLower s = ''nan''"
    by (auto simp: ParseFloat_def read_number_def finish_float_def Let_def split: prod.splits if_splits option.splits)
next
  assume n: "ToLower s = ''nan''"
  then obtain c t where s: "s = c # t" by (cases s) auto
  with n have "c \<noteq> CHR ''+''" "c \<noteq> CHR ''-''" by (auto simp: to_lower_char_def)
  with s n show "ParseFloat s = Some NaN" by (simp add: ParseFloat_def signed_part_def Let_def)
qed

lemma pnumber_plain:
  assumes "pnumber s = Some (l, r)"
  shows "ParseFloat l \<noteq> Some NaN"
proof -
  let ?sg = "if take 1 s = ''-'' then ''-'' else []"
  let ?ds = "takeWhile is_digit (drop (length ?sg) s)"
  from assms obtain rest where l: "l = ?sg @ ?ds @ rest" and ds: "?ds \<noteq> []"
    by (auto simp: pnumber_def Let_def split: if_splits option.splits)
  then obtain d ds where d: "?ds = d # ds" "is_digit d"
    by (metis list.exhaust list.set_intros(1) set_takeWhileD)
  have "ToLower l \<noteq> ''nan''"
    using d l by (auto simp: to_lower_char_def is_digit_def Let_def split: if_splits)
  then show ?thesis by (simp add: ParseFloat_NaN)
qed

lemma parsed_numbers_plain:
  "pvalue n s = Some (v, r) \<Longrightarrow> plain_numbers v"
  "pelems n s = Some (vs, r) \<Longrightarrow> list_all plain_numbers vs"
  "pmembers n s = Some (kvs, r) \<Longrightarrow> list_all (\<lambda>kv. plain_numbers (snd kv)) kvs"
proof (induction n s and n s and n s arbitrary: v r and vs r and kvs r rule: pvalue_pelems_pmembers.induct)
  case (2 n s)
  then show ?case
    by (auto split: list.splits if_splits dest: pnumber_plain)
next
  case (4 n s)
  then show ?case by (fastforce split: list.splits if_splits option.splits)
next
  case (6 n s)
  then show ?case by (fastforce split: list.splits if_splits option.splits)
qed simp_all

lemma first_value_plain: "first_value s = Some v \<Longrightarrow> plain_numbers v"
  by (auto simp: first_value_def simp del: pvalue.simps dest: parsed_numbers_plain(1))

lemma set_fields_keeps:
  assumes "\<And>k f v r r1. (k, f) \<in> set table \<Longrightarrow> plain_numbers v \<Longrightarrow> P r \<Longrightarrow> f v r = Some r1 \<Longrightarrow> P r1"
  shows "list_all (\<lambda>kv. plain_numbers (snd kv)) kvs \<Longrightarrow> P r \<Longrightarrow> set_fields table kvs r = Some r' \<Longrightarrow> P r'"
proof (induction kvs arbitrary: r)
  case (Cons kv kvs)
  obtain k v where kv: "kv = (k, v)" by fastforce
  show ?case
  proof (cases "List.find (\<lambda>f. fold_name (fst f) = fold_name k) table")
    case (Some f)
    note found = Some
    then have f: "(fst f, snd f) \<in> set table" by (auto simp: find_Some_iff)
    show ?thesis
    proof (cases "snd f v r")
      case (Some r1)
      have "P r1" using assms [of "fst f" "snd f" v r r1] f Some Cons.prems kv by simp
      with Cons Some found kv show ?thesis by simp
    qed (use Cons.prems found kv in simp)
  qed (use Cons kv in simp)
qed simp

lemma decodeJSON_keeps:
  assumes "\<And>k f v r r1. (k, f) \<in> set table \<Longrightarrow> plain_numbers v \<Longrightarrow> P r \<Longrightarrow> f v r = Some r1 \<Longrightarrow> P r1"
    and "P zero" and "decodeJSON table zero body = Some r"
  shows "P r"
  using assms(2,3)
  by (auto simp: decodeJSON_def tree_struct_def Option.bind_eq_Some_conv split: option.splits if_splits jtree.splits
      dest!: first_value_plain intro: set_fields_keeps [OF assms(1)])

lemma tree_float_plain: "plain_numbers v \<Longrightarrow> tree_float v \<noteq> Some NaN"
  by (auto simp: tree_float_def split: jtree.splits)

lemma decoded_fees:
  "decodeJSON feeResponse_fields zero_feeResponse body = Some req \<Longrightarrow>
     fr_DepositFeePercentage req \<noteq> NaN \<and> fr_WithdrawalFeePercentage req \<noteq> NaN"
  by (rule decodeJSON_keeps [where P = "\<lambda>r. fr_DepositFeePercentage r \<noteq> NaN \<and> fr_WithdrawalFeePercentage r \<noteq> NaN"])
     (auto simp: feeResponse_fields_def zero_feeResponse_def set_plain_def f0_def tree_float_plain split: if_splits)

lemma decoded_fee_update:
  "decodeJSON feeUpdateRequest_fields zero_feeUpdateRequest body = Some req \<Longrightarrow>
     fu_DepositFeePercentage req \<noteq> Some NaN \<and> fu_WithdrawalFeePercentage req \<noteq> Some NaN"
  by (rule decodeJSON_keeps [where P = "\<lambda>r. fu_DepositFeePercentage r \<noteq> Some NaN \<and> fu_WithdrawalFeePercentage r \<noteq> Some NaN"])
     (auto simp: feeUpdateRequest_fields_def zero_feeUpdateRequest_def set_opt_def tree_float_plain split: if_splits)

end
