(* ===== verification/Server.thy ===== *)
theory Server
  imports Bodies Pages Memory_Laws
begin

text \<open>
  The whole server: what \<^verbatim>\<open>cmd/mockgatehub/main.go\<close> puts together. A request that arrives at one of the two
  listeners passes the middleware, is given a route by the router, and is answered by the handler of
  the route, which reads the body as its struct. The state is the handler's with the sink for webhooks.
\<close>

section \<open>What is outside\<close>

text \<open>
  A request as it arrives: \<open>ar_route\<close> is the path the router works on, \<open>ar_body\<close> the bytes of the body (\<open>None\<close>
  when reading fails), \<open>ar_form_error\<close> the failure of reading the body as a form.
\<close>

record arrival =
  ar_request :: request
  ar_route :: string
  ar_body :: "string option"
  ar_form_error :: "go_error option"

text \<open>
  What the handlers use of the world: the key pair of the service, the HTTP client, the order in which Go
  visits maps, the templates of the pages, the files there are, and the catalogue of scenarios.
\<close>

record 'k outside =
  x_pki :: "'k pki"
  x_http :: http_client
  x_order :: key_order
  x_templates :: templates
  x_found :: "string \<Rightarrow> bool"
  x_render :: "string \<Rightarrow> uiView \<Rightarrow> string"
  x_scenarios :: "CardTxScenario list"
  x_not_allowed :: response

record 's server =
  sv_handler :: "'s Handler"
  sv_sink :: webhookSink

section \<open>The handlers by name\<close>

text \<open>
  Every handler that a route names, applied to the request and the body it decodes. The answer is
  \<open>None\<close> where a handler panics.
\<close>

type_synonym 's endpoint = "'s Handler \<Rightarrow> (response \<times> 's Handler) option"

definition page_endpoints :: "'s Storage \<Rightarrow> 'k outside \<Rightarrow> env \<Rightarrow> arrival \<Rightarrow> (string \<times> 's endpoint) list" where
  "page_endpoints S X e a =
     (let r = ar_request a; b = ar_body a in
      [(''RootHandler'', \<lambda>h. Some (RootHandler (x_templates X) r h)),
       (''HealthCheck'', \<lambda>h. Some (HealthCheck, h)),
       (''KYCIframe'', \<lambda>h. Some (KYCIframe (x_templates X) (x_found X) r h)),
       (''KYCIframeSubmit'', \<lambda>h. Some (KYCIframeSubmit S (x_http X) e r (ar_form_error a) h)),
       (''TransactionCompleteHandler'',
          \<lambda>h. Some (TransactionCompleteHandler S (x_http X) e (x_order X) r (completion_request b) h)),
       (''GetUserCurrencies'', \<lambda>h. Some (GetUserCurrencies S r h))])"

definition auth_endpoints :: "'s Storage \<Rightarrow> 'k outside \<Rightarrow> env \<Rightarrow> arrival \<Rightarrow> (string \<times> 's endpoint) list" where
  "auth_endpoints S X e a =
     (let r = ar_request a; b = ar_body a in
      [(''CreateToken'', \<lambda>h. Some (CreateToken e r h)),
       (''CreateManagedUser'', \<lambda>h. Some (CreateManagedUser S e
          (decodeJSON CreateManagedUserRequest_fields zero_CreateManagedUserRequest b) h)),
       (''GetManagedUser'', \<lambda>h. Some (GetManagedUser S r h)),
       (''UpdateManagedUserEmail'', \<lambda>h. Some (UpdateManagedUserEmail S
          (decodeJSON UpdateEmailRequest_fields zero_UpdateEmailRequest b) h)),
       (''UpdateOrganizationConfiguration'', \<lambda>h. Some (UpdateOrganizationConfiguration S e r
          (decodeJSON UpdateOrganizationConfigurationRequest_fields
             zero_UpdateOrganizationConfigurationRequest b) h)),
       (''GetUser'', \<lambda>h. Some (GetUser S r h)),
       (''StartKYC'', \<lambda>h. Some (StartKYC S r h)),
       (''UpdateKYCState'', \<lambda>h. Some (UpdateKYCState S r
          (decodeJSON UpdateKYCStateRequest_fields zero_UpdateKYCStateRequest b) h)),
       (''OverrideRiskLevel'', \<lambda>h. Some (OverrideRiskLevel S r
          (decodeJSON OverrideRiskLevel_fields ([], []) b) h))])"

definition core_endpoints :: "'s Storage \<Rightarrow> 'k outside \<Rightarrow> env \<Rightarrow> arrival \<Rightarrow> (string \<times> 's endpoint) list" where
  "core_endpoints S X e a =
     (let r = ar_request a; b = ar_body a in
      [(''GetUserWallets'', \<lambda>h. Some (GetUserWallets S e (x_order X) r h)),
       (''CreateWallet'', \<lambda>h. Some (CreateWallet S e r
          (decodeJSON CreateWalletRequest_fields zero_CreateWalletRequest b) h)),
       (''GetWallet'', \<lambda>h. Some (GetWallet S r h)),
       (''GetWalletBalance'', \<lambda>h. Some (GetWalletBalance S e r h)),
       (''CreateTransaction'', \<lambda>h. Some (CreateTransaction S e r
          (decodeJSON CreateTransactionRequest_fields zero_CreateTransactionRequest b) h)),
       (''GetTransaction'', \<lambda>h. Some (GetTransaction S r h)),
       (''ListGatewayTransactions'', \<lambda>h. Some (ListGatewayTransactions h)),
       (''GetAccountConfirmation'', \<lambda>h. Some (GetAccountConfirmation S e r h)),
       (''GetAccountStatement'', \<lambda>h. Some (GetAccountStatement S e r h)),
       (''GetTransferConfirmation'', \<lambda>h. Some (GetTransferConfirmation S e r h)),
       (''GetCurrentRates'', \<lambda>h. Some (GetCurrentRates r h)),
       (''GetVaults'', \<lambda>h. Some (GetVaults (x_order X) h))])"

definition card_endpoints :: "'s Storage \<Rightarrow> 'k outside \<Rightarrow> env \<Rightarrow> arrival \<Rightarrow> (string \<times> 's endpoint) list" where
  "card_endpoints S X e a =
     (let r = ar_request a; b = ar_body a in
      [(''CreateCustomer'', \<lambda>h. Some (CreateCustomer S e r
          (decodeJSON CreateCustomerAndCardArgs_fields zero_CreateCustomerAndCardArgs b) h)),
       (''CreateManagedCustomer'', \<lambda>h. Some (CreateManagedCustomer S e r
          (decodeJSON CreateCustomerAndCardArgs_fields zero_CreateCustomerAndCardArgs b) h)),
       (''CreateCustomerAddress'', \<lambda>h. Some (CreateCustomerAddress S e r (address_body b) h)),
       (''GetCustomerAddresses'', \<lambda>h. Some (GetCustomerAddresses S r h)),
       (''OrderAdditionalCard'', \<lambda>h. Some (OrderAdditionalCard e r h)),
       (''ListCards'', \<lambda>h. Some (ListCards S (x_order X) r h)),
       (''CreateCard'', \<lambda>h. Some (CreateCard e r h)),
       (''GetCard'', \<lambda>h. Some (GetCard S r h)),
       (''DeleteCard'', \<lambda>h. Some (DeleteCard S r h)),
       (''LockCard'', \<lambda>h. Some (LockCard S r h)),
       (''UnlockCard'', \<lambda>h. Some (UnlockCard S r h)),
       (''BlockCard'', \<lambda>h. Some (BlockCard S r h)),
       (''GetCardLimits'', \<lambda>h. Some (GetCardLimits S r h)),
       (''UpdateCardLimits'', \<lambda>h. Some (UpdateCardLimits S r (limits_body b) h)),
       (''GetCardToken'', \<lambda>h. Some (GetCardToken e r
          (decodeJSON GetCardTokenArgs_fields zero_GetCardTokenArgs b) h)),
       (''GetCardData'', \<lambda>h. Some (GetCardData S (x_pki X) e r h)),
       (''GetCardPin'', \<lambda>h. Some (GetCardPin S (x_pki X) e r h)),
       (''SetCardPin'', \<lambda>h. Some (SetCardPin S (x_pki X) e r (one_text ''cypher'' b) h)),
       (''GetCardPinPublicKey'', \<lambda>h. Some (GetCardPinPublicKey (x_pki X) h)),
       (''CreateCardTransaction'', \<lambda>h. Some (CreateCardTransaction S e
          (decodeJSON CreateCardTransactionArgs_fields zero_CreateCardTransactionArgs b) h)),
       (''GetCardTransaction'', \<lambda>h. Some (GetCardTransaction S r h)),
       (''ListCardTransactions'', \<lambda>h. ListCardTransactions S r h),
       (''GetPendingConfirmations'', \<lambda>h. Some (GetPendingConfirmations S e (x_order X) r h)),
       (''CreateThreeDSChallenge'', \<lambda>h. Some (CreateThreeDSChallenge S e
          (decodeJSON CreateThreeDSRequest_fields zero_CreateThreeDSRequest b) h)),
       (''ConfirmThreeDS'', \<lambda>h. Some (ConfirmThreeDS S r
          (decodeJSON ThreeDSPaymentConfirmationArgs_fields zero_ThreeDSPaymentConfirmationArgs b) h)),
       (''GetCardApplicationProducts'', \<lambda>h. Some (GetCardApplicationProducts e r h)),
       (''OrderPlasticCard'', \<lambda>h. Some (OrderPlasticCard e r h))])"

definition admin_endpoints :: "'s Storage \<Rightarrow> 'k outside \<Rightarrow> env \<Rightarrow> arrival \<Rightarrow> (string \<times> 's endpoint) list" where
  "admin_endpoints S X e a =
     (let r = ar_request a; b = ar_body a; idx = x_scenarios X in
      [(''GetFees'', \<lambda>h. Some (GetFees r h)),
       (''SetFees'', \<lambda>h. Some (SetFees r (decodeJSON feeResponse_fields zero_feeResponse b) h)),
       (''GetUserFees'', \<lambda>h. Some (GetUserFees r h)),
       (''SetUserFees'', \<lambda>h. Some (SetUserFees r
          (decodeJSON feeUpdateRequest_fields zero_feeUpdateRequest b) h)),
       (''ClearUserFees'', \<lambda>h. Some (ClearUserFees r h)),
       (''SetUserKYCStateQuiet'', \<lambda>h. Some (SetUserKYCStateQuiet S r
          (decodeJSON SetUserKYCStateQuiet_fields ([], []) b) h)),
       (''ListWithdrawals'', \<lambda>h. Some (ListWithdrawals S r h)),
       (''TriggerWithdrawalEvent'', \<lambda>h. Some (TriggerWithdrawalEvent S e r (one_text ''event'' b) h)),
       (''ListCardTxScenarios'', \<lambda>h. Some (ListCardTxScenarios idx h)),
       (''SimulateCardTransaction'', \<lambda>h. SimulateCardTransaction S idx e
          (decodeJSON SimulateCardTransactionRequest_fields zero_SimulateCardTransactionRequest b) h),
       (''SetCardTransactionStatus'', \<lambda>h. Some (SetCardTransactionStatus S r (one_text ''status'' b) h)),
       (''UIDashboard'', \<lambda>h. Some (UIDashboard (x_render X) S (x_order X) r h)),
       (''UIUserDetail'', \<lambda>h. Some (UIUserDetail (x_render X) S (x_order X) r h)),
       (''UIKYCForm'', \<lambda>h. Some (UIKYCForm (x_render X) S (x_order X) r h)),
       (''UIKYCAction'', \<lambda>h. Some (UIKYCAction S e r h)),
       (''UICardTxForm'', \<lambda>h. Some (UICardTxForm (x_render X) S idx (x_order X) r h)),
       (''UICardTxAction'', \<lambda>h. UICardTxAction S idx e r h),
       (''UIWithdrawalSettle'', \<lambda>h. Some (UIWithdrawalSettle S e r h))])"

definition endpoints :: "'s Storage \<Rightarrow> 'k outside \<Rightarrow> env \<Rightarrow> arrival \<Rightarrow> (string \<times> 's endpoint) list" where
  "endpoints S X e a =
     page_endpoints S X e a @ auth_endpoints S X e a @ core_endpoints S X e a @ card_endpoints S X e a @
     admin_endpoints S X e a"

text \<open>The three handlers of the sink, by name.\<close>

definition sink_endpoints ::
  "Config \<Rightarrow> env \<Rightarrow> arrival \<Rightarrow> (string \<times> (webhookSink \<Rightarrow> response \<times> webhookSink)) list" where
  "sink_endpoints cfg e a =
     [(''TestWebhookSink'', TestWebhookSink cfg e (ar_request a) (ar_body a)),
      (''ListReceivedWebhooks'', ListReceivedWebhooks (ar_request a)),
      (''ClearReceivedWebhooks'', ClearReceivedWebhooks)]"

definition run_handler ::
  "'s Storage \<Rightarrow> 'k outside \<Rightarrow> env \<Rightarrow> arrival \<Rightarrow> string \<Rightarrow> 's server \<Rightarrow> (response \<times> 's server) option" where
  "run_handler S X e a name sv =
     (case map_of (endpoints S X e a) name of
        Some f \<Rightarrow> map_option (\<lambda>(resp, h). (resp, sv\<lparr>sv_handler := h\<rparr>)) (f (sv_handler sv))
      | None \<Rightarrow>
          map_option (\<lambda>f. let (resp, sink) = f (sv_sink sv) in (resp, sv\<lparr>sv_sink := sink\<rparr>))
            (map_of (sink_endpoints (h_config (sv_handler sv)) e a) name))"

section \<open>Listeners\<close>

datatype listener = App | Admin

definition routes_of :: "listener \<Rightarrow> route list" where
  "routes_of l = (case l of App \<Rightarrow> setupRoutes | Admin \<Rightarrow> setupAdminRoutes)"

text \<open>The middleware stands before the application listener, where authentication is enforced, and never before the other.\<close>

definition gate :: "listener \<Rightarrow> Config \<Rightarrow> arrival \<Rightarrow> verdict" where
  "gate l cfg a =
     (if l = App \<and> cfg_EnforceAuthentication cfg
      then Middleware (cfg_ValidCredentials cfg) (ar_request a) (ar_body a) else Pass)"

text \<open>
  The router is a library: a function from the routes, the method and the path to a route with the values of
  its parameters. All that is relied on is that it gives a registered route for the method whose pattern matches;
  a pattern that ends in a bar, the root of a group of routes, also serves the path without the bar.
\<close>

datatype routing = Found route "string gomap" | NotFound | MethodNotAllowed

type_synonym router = "route list \<Rightarrow> string \<Rightarrow> string \<Rightarrow> routing"

definition router_laws :: "router \<Rightarrow> bool" where
  "router_laws rt \<longleftrightarrow>
     (\<forall>rs meth path route params. rt rs meth path = Found route params \<longrightarrow>
        route \<in> set rs \<and> rt_method route = meth \<and>
        (path_matches (rt_pattern route) path \<or> rt_pattern route = path @ ''/''))"

definition serve ::
  "'s Storage \<Rightarrow> 'k outside \<Rightarrow> router \<Rightarrow> listener \<Rightarrow> env \<Rightarrow> arrival \<Rightarrow> 's server \<Rightarrow>
     (response \<times> 's server) option" where
  "serve S X rt l e a sv =
     (case gate l (h_config (sv_handler sv)) a of
        Refuse code msg \<Rightarrow> Some (http_Error code msg, sv)
      | Pass \<Rightarrow>
          (case rt (routes_of l) (r_Method (ar_request a)) (ar_route a) of
             Found route params \<Rightarrow>
               run_handler S X e (a\<lparr>ar_request := (ar_request a)\<lparr>r_params := params\<rparr>\<rparr>) (rt_handler route) sv
           | NotFound \<Rightarrow> Some (http_Error 404 ''404 page not found'', sv)
           | MethodNotAllowed \<Rightarrow>
               Some (if l = App then http_Error 405 ''Method Not Allowed'' else x_not_allowed X, sv)))"

text \<open>Every handler that a route names is there.\<close>

definition handler_names :: "string list" where
  "handler_names =
     [''RootHandler'', ''HealthCheck'', ''KYCIframe'', ''KYCIframeSubmit'', ''TransactionCompleteHandler'',
      ''GetUserCurrencies'', ''CreateToken'', ''CreateManagedUser'', ''GetManagedUser'', ''UpdateManagedUserEmail'',
      ''UpdateOrganizationConfiguration'', ''GetUser'', ''StartKYC'', ''UpdateKYCState'', ''OverrideRiskLevel'',
      ''GetUserWallets'', ''CreateWallet'', ''GetWallet'', ''GetWalletBalance'', ''CreateTransaction'',
      ''GetTransaction'', ''ListGatewayTransactions'', ''GetAccountConfirmation'', ''GetAccountStatement'',
      ''GetTransferConfirmation'', ''GetCurrentRates'', ''GetVaults'', ''CreateCustomer'',
      ''CreateManagedCustomer'', ''CreateCustomerAddress'', ''GetCustomerAddresses'', ''OrderAdditionalCard'',
      ''ListCards'', ''CreateCard'', ''GetCard'', ''DeleteCard'', ''LockCard'', ''UnlockCard'', ''BlockCard'',
      ''GetCardLimits'', ''UpdateCardLimits'', ''GetCardToken'', ''GetCardData'', ''GetCardPin'', ''SetCardPin'',
      ''GetCardPinPublicKey'', ''CreateCardTransaction'', ''GetCardTransaction'', ''ListCardTransactions'',
      ''GetPendingConfirmations'', ''CreateThreeDSChallenge'', ''ConfirmThreeDS'',
      ''GetCardApplicationProducts'', ''OrderPlasticCard'', ''GetFees'', ''SetFees'', ''GetUserFees'',
      ''SetUserFees'', ''ClearUserFees'', ''SetUserKYCStateQuiet'', ''ListWithdrawals'',
      ''TriggerWithdrawalEvent'', ''ListCardTxScenarios'', ''SimulateCardTransaction'',
      ''SetCardTransactionStatus'', ''UIDashboard'', ''UIUserDetail'', ''UIKYCForm'', ''UIKYCAction'',
      ''UICardTxForm'', ''UICardTxAction'', ''UIWithdrawalSettle'']"

definition sink_names :: "string list" where
  "sink_names = [''TestWebhookSink'', ''ListReceivedWebhooks'', ''ClearReceivedWebhooks'']"

lemma endpoint_names:
  "map fst (endpoints S X e a) = handler_names" "map fst (sink_endpoints cfg e a) = sink_names"
  by (simp_all add: endpoints_def page_endpoints_def auth_endpoints_def core_endpoints_def
      card_endpoints_def admin_endpoints_def sink_endpoints_def Let_def handler_names_def sink_names_def)

lemma route_names:
  "list_all (\<lambda>r. rt_handler r \<in> set handler_names \<or> rt_handler r \<in> set sink_names) (setupRoutes @ setupAdminRoutes)"
  "list_all (\<lambda>n. n \<notin> set handler_names) sink_names"
  by code_simp+

lemma routes_have_handlers:
  assumes "r \<in> set (routes_of l)"
  shows "map_of (endpoints S X e a) (rt_handler r) \<noteq> None \<or>
      map_of (sink_endpoints cfg e a) (rt_handler r) \<noteq> None"
proof -
  have "r \<in> set (setupRoutes @ setupAdminRoutes)" using assms by (cases l) (simp_all add: routes_of_def)
  then have "rt_handler r \<in> set handler_names \<or> rt_handler r \<in> set sink_names"
    using route_names(1) unfolding list_all_iff by blast
  then have "rt_handler r \<in> set (map fst (endpoints S X e a)) \<or> rt_handler r \<in> set (map fst (sink_endpoints cfg e a))"
    by (simp only: endpoint_names)
  then show ?thesis by (simp add: map_of_eq_None_iff)
qed

section \<open>Runs\<close>

text \<open>
  The steps of a running server over the in-memory store: a request at a listener is answered; a
  goroutine that a handler started settles its transaction, or enqueues its webhook; the worker takes from
  the queue. What is outside may be another for each request: \<open>Xs\<close> holds what it can be. A fresh UUID is not
  empty and names nothing that is stored.
\<close>

definition fresh_ids :: "env \<Rightarrow> mem store \<Rightarrow> bool" where
  "fresh_ids e s \<longleftrightarrow>
     (\<forall>i. uuid e i \<noteq> [] \<and> mem_txs s (uuid e i) = None \<and> mem_cards s (uuid e i) = None)"

definition with_handler :: "('s Handler \<Rightarrow> 's Handler) \<Rightarrow> 's server \<Rightarrow> 's server" where
  "with_handler f sv = sv\<lparr>sv_handler := f (sv_handler sv)\<rparr>"

inductive server_step :: "'k outside set \<Rightarrow> router \<Rightarrow> mem server \<Rightarrow> mem server \<Rightarrow> bool" for Xs rt where
  Request: "X \<in> Xs \<Longrightarrow> fresh_ids e (h_store (sv_handler sv)) \<Longrightarrow>
     serve memory_storage X rt l e a sv = Some (resp, sv') \<Longrightarrow> server_step Xs rt sv sv'"
| Settle: "h_tasks (sv_handler sv) = ts1 @ Complete c # ts2 \<Longrightarrow>
     server_step Xs rt sv (with_handler (\<lambda>h. complete memory_storage jobID now c (h\<lparr>h_tasks := ts1 @ ts2\<rparr>)) sv)"
| Notify: "h_tasks (sv_handler sv) = ts1 @ Send ev user data delay # ts2 \<Longrightarrow>
     server_step Xs rt sv (with_handler (\<lambda>h. send_async memory_storage jobID now ev user data delay
       (h\<lparr>h_tasks := ts1 @ ts2\<rparr>)) sv)"
| Worker: "server_step Xs rt sv (with_handler (\<lambda>h. h\<lparr>h_webhook := (h_webhook h)\<lparr>wm_queue := q\<rparr>\<rparr>) sv)"

abbreviation server_run :: "'k outside set \<Rightarrow> router \<Rightarrow> mem server \<Rightarrow> mem server \<Rightarrow> bool" where
  "server_run Xs rt \<equiv> (server_step Xs rt)\<^sup>*\<^sup>*"

end
