(* ===== verification/Server_Frames.thy ===== *)
theory Server_Frames
  imports Server Card_Lifecycle Ledger_Correctness
begin

text \<open>
  What each endpoint leaves alone, over the in-memory store: one lemma per handler. Most are quiet: they touch neither the
  ledger nor the cards nor the goroutines.
\<close>

named_theorems quiet \<open>operations and handlers that leave ledger and cards alone\<close>

section \<open>Stores\<close>

text \<open>
  A store that follows another without any change to transactions or balances, in which cards are at most
  added, each new one with a lock level exactly if it is locked.
\<close>

definition cards_grow :: "(string \<Rightarrow> Card option) \<Rightarrow> (string \<Rightarrow> Card option) \<Rightarrow> bool" where
  "cards_grow C C' \<longleftrightarrow>
     (\<forall>i c. C i = Some c \<longrightarrow> C' i = Some c) \<and> (\<forall>i c. C' i = Some c \<longrightarrow> C i = Some c \<or> lock_consistent c)"

lemma cards_grow_refl [simp]: "cards_grow C C"
  by (simp add: cards_grow_def)

definition still :: "mem store \<Rightarrow> mem store \<Rightarrow> bool" where
  "still s s' \<longleftrightarrow> mem_inv s' \<and> mem_txs s' = mem_txs s \<and> mem_bal s' = mem_bal s \<and>
     cards_grow (mem_cards s) (mem_cards s')"

lemma still_refl [quiet]: "mem_inv s \<Longrightarrow> still s s"
  by (simp add: still_def)

lemma still_inv: "still s s' \<Longrightarrow> mem_inv s'"
  by (simp add: still_def)

lemma reads_snd [simp]:
  "snd (mem_GetUser i s) = s" "snd (mem_GetUserByEmail i s) = s" "snd (mem_ListUsers ord s) = s"
  "snd (mem_GetCustomer i s) = s" "snd (mem_GetCustomerBySourceID i s) = s" "snd (mem_GetAccount i s) = s"
  by (simp_all add: mem_GetUser_def mem_GetUserByEmail_def mem_ListUsers_def mem_GetCustomer_def
      mem_GetCustomerBySourceID_def mem_GetAccount_def split: option.splits)

lemma view_heap [simp]:
  "mem_txs (set_user p u s) = mem_txs s" "mem_bal (set_user p u s) = mem_bal s"
  "mem_cards (set_user p u s) = mem_cards s"
  "mem_txs (set_customer p c s) = mem_txs s" "mem_bal (set_customer p c s) = mem_bal s"
  "mem_cards (set_customer p c s) = mem_cards s"
  "mem_txs (set_account p b s) = mem_txs s" "mem_bal (set_account p b s) = mem_bal s"
  "mem_cards (set_account p b s) = mem_cards s"
  "mem_txs (bump s) = mem_txs s" "mem_bal (bump s) = mem_bal s" "mem_cards (bump s) = mem_cards s"
  by (simp_all add: mem_views fun_eq_iff)

text \<open>The operations that are quiet, each as a rule that continues a quiet run.\<close>

lemma still_wallet [quiet]: "still s t \<Longrightarrow> still s (snd (mem_CreateWallet w now t))"
  by (auto simp: still_def mem_inv_CreateWallet) (simp_all add: mem_CreateWallet_def mem_views Let_def fun_eq_iff)

lemma still_card_extras [quiet]:
  assumes "still s t"
  shows "still s (snd (mem_CreateCustomerAddress i a uid t))" and "still s (snd (mem_SetCardLimits i ls t))"
    and "still s (snd (mem_SetCardPIN i pin t))" and "still s (snd (mem_StoreRawCardTransaction i raw t))"
    and "still s (snd (mem_AddCardTransactionIndex i j t))" and "still s (snd (mem_NextCardTransactionSeqID t))"
  using assms mem_inv_card_extras [of t]
  by (simp_all add: still_def mem_views fun_eq_iff mem_CreateCustomerAddress_def mem_SetCardLimits_def
      mem_SetCardPIN_def mem_StoreRawCardTransaction_def mem_AddCardTransactionIndex_def
      mem_NextCardTransactionSeqID_def Let_def split: option.splits)

lemma still_card_txs [quiet]:
  assumes "still s t"
  shows "still s (snd (mem_CreateCardTransaction ct t))" and "still s (snd (mem_UpdateCardTransactionStatus i st t))"
  using assms mem_inv_CreateCardTransaction [of t ct] mem_inv_UpdateCardTransactionStatus [of t i st]
  by (simp_all add: still_def mem_views fun_eq_iff mem_CreateCardTransaction_def
      mem_UpdateCardTransactionStatus_def Let_def split: option.splits)

lemma still_challenges [quiet]:
  assumes "still s t"
  shows "still s (snd (mem_CreateThreeDSChallenge ch now t))" and "still s (snd (mem_UpdateThreeDSChallenge ch t))"
  using assms mem_inv_CreateThreeDSChallenge [of t ch now] mem_inv_UpdateThreeDSChallenge [of t ch]
  by (simp_all add: still_def mem_views fun_eq_iff mem_CreateThreeDSChallenge_def mem_UpdateThreeDSChallenge_def
      Let_def split: option.splits)

lemma still_organizations [quiet]:
  assumes "still s t"
  shows "still s (snd (mem_CreateOrganization g t))" and "still s (snd (mem_UpdateOrganization g now t))"
  using assms mem_inv_CreateOrganization [of t g] mem_inv_UpdateOrganization [of t g now]
  by (simp_all add: still_def mem_views fun_eq_iff mem_CreateOrganization_def mem_UpdateOrganization_def
      Let_def split: option.splits)

lemma still_set_user [quiet]:
  "still s t \<Longrightarrow> u_ID u = u_ID (user_of t p) \<Longrightarrow> still s (set_user p u t)"
  by (simp add: still_def mem_inv_set_user)

lemma still_alloc [quiet]:
  assumes "still s t"
  shows "still s (snd (alloc_user u t))" and "still s (snd (alloc_customer c t))" and "still s (snd (alloc_account b t))"
  using assms mem_inv_alloc [of t] by (simp_all add: still_def alloc_user_def alloc_customer_def alloc_account_def)

lemma still_CreateCard [quiet]:
  assumes "still s t" and "uid \<noteq> []" and "lock_consistent c"
  shows "still s (snd (mem_CreateCard c uid now t))"
  using assms mem_inv_CreateCard [of t uid c now]
  by (auto simp: still_def mem_views fun_eq_iff mem_CreateCard_def Let_def cards_grow_def lock_consistent_def)

lemma still_users [quiet]:
  assumes "still s t" and "p < next_addr (hp t)"
  shows "uid \<noteq> [] \<Longrightarrow> still s (snd (mem_CreateUser p uid now t))" and "still s (snd (mem_UpdateUser p t))"
    and "still s (snd (mem_CreateCustomer p uid now t))" and "still s (snd (mem_CreateAccount p uid now t))"
  using assms mem_inv_users [of t p uid now] mem_inv_UpdateUser [of t p] mem_inv_CreateCustomer [of t p uid now]
    mem_inv_CreateAccount [of t p uid now]
  by (simp_all add: still_def mem_views fun_eq_iff mem_CreateUser_def mem_UpdateUser_def mem_CreateCustomer_def
      mem_CreateAccount_def Let_def split: option.splits)

lemma still_set_customer [quiet]: "still s t \<Longrightarrow> still s (set_customer p c t)"
  by (simp add: still_def mem_inv_def)

lemma still_set_account [quiet]: "still s t \<Longrightarrow> still s (set_account p b t)"
  by (simp add: still_def mem_inv_def)

lemma found_user:
  "mem_inv s \<Longrightarrow> mget (m_users (db s)) i = Some p \<Longrightarrow> p < next_addr (hp s)"
  "mem_inv s \<Longrightarrow> mget (m_usersByEmail (db s)) i = Some p \<Longrightarrow> p < next_addr (hp s)"
  by (auto simp: mem_inv_def allocated_def)

section \<open>Handlers\<close>

text \<open>
  A handler that follows another with no change to ledger, cards, fees and configuration, and with no
  new goroutine that settles a transaction.
\<close>

definition follows :: "mem Handler \<Rightarrow> mem Handler \<Rightarrow> bool" where
  "follows h h' \<longleftrightarrow> still (h_store h) (h_store h') \<and> h_fees h' = h_fees h \<and> h_config h' = h_config h \<and>
     (\<forall>c. Complete c \<in> set (h_tasks h') \<longrightarrow> Complete c \<in> set (h_tasks h))"

lemma follows_refl [quiet]: "mem_inv (h_store h) \<Longrightarrow> follows h h"
  by (simp add: follows_def still_refl)

lemma follows_store [quiet]: "still (h_store h) s \<Longrightarrow> follows h (h\<lparr>h_store := s\<rparr>)"
  by (simp add: follows_def)

lemma follows_send [quiet]: "follows h h' \<Longrightarrow> follows h (send_async S i t ev u d x h')"
  by (simp add: follows_def)

lemma follows_store_of: "follows h h' \<Longrightarrow> still (h_store h) s \<Longrightarrow> follows h (h'\<lparr>h_store := s\<rparr>)"
  by (simp add: follows_def)

lemmas quiet_split = option.splits sum.splits prod.splits if_splits

text \<open>Handlers that change nothing in the handler's state.\<close>

lemma unchanged_pages [simp]:
  "snd (RootHandler files r h) = h" "snd (KYCIframe files found r h) = h" "snd (GetUserCurrencies S r h) = h"
  "snd (GetCurrentRates r h) = h" "snd (GetVaults ord h) = h" "snd (ListCardTxScenarios idx h) = h"
  by (simp_all only: RootHandler_def KYCIframe_def GetUserCurrencies_def GetCurrentRates_def GetVaults_def
      ListCardTxScenarios_def Let_def snd_conv simp_thms split: option.split sum.split prod.split if_split)

lemma unchanged_wallets [simp]:
  "snd (GetWallet S r h) = h" "snd (GetWalletBalance S e r h) = h" "snd (GetTransaction S r h) = h"
  "snd (ListGatewayTransactions h) = h" "snd (GetTransferConfirmation S e r h) = h"
  "snd (ListWithdrawals S r h) = h"
  by (simp_all only: GetWallet_def GetWalletBalance_def GetTransaction_def ListGatewayTransactions_def
      GetTransferConfirmation_def ListWithdrawals_def Let_def snd_conv simp_thms split: option.split sum.split prod.split if_split)

lemma unchanged_cards [simp]:
  "snd (GetCustomerAddresses S r h) = h" "snd (OrderAdditionalCard e r h) = h" "snd (ListCards S ord r h) = h"
  "snd (CreateCard e r h) = h" "snd (GetCard S r h) = h" "snd (GetCardTransaction S r h) = h"
  "snd (GetPendingConfirmations S e ord r h) = h" "snd (GetCardApplicationProducts e r h) = h"
  "snd (OrderPlasticCard e r h) = h"
  by (simp_all only: GetCustomerAddresses_def OrderAdditionalCard_def ListCards_def CreateCard_def GetCard_def
      GetCardTransaction_def GetPendingConfirmations_def GetCardApplicationProducts_def OrderPlasticCard_def
      Let_def snd_conv simp_thms split: option.split sum.split prod.split if_split)

lemma unchanged_tokens [simp]:
  "snd (GetCardToken e r b h) = h" "snd (GetCardData S K e r h) = h" "snd (GetCardPin S K e r h) = h"
  "snd (GetCardPinPublicKey K h) = h"
  by (simp_all only: GetCardToken_def GetCardData_def GetCardPin_def GetCardPinPublicKey_def Let_def snd_conv simp_thms split: option.split sum.split prod.split if_split)

lemma unchanged_list: "ListCardTransactions S r h = Some (resp, h') \<Longrightarrow> h' = h"
  by (simp add: ListCardTransactions_def Let_def split: option.splits prod.splits)

text \<open>Handlers that only read the store.\<close>

lemma more_storage_simps [simp]:
  "s_ListUsers memory_storage = mem_ListUsers"
  "s_GetCustomerBySourceID memory_storage = mem_GetCustomerBySourceID"
  "s_CreateCardTransaction memory_storage = mem_CreateCardTransaction"
  "s_GetCardTransaction memory_storage = mem_GetCardTransaction"
  "s_UpdateCardTransactionStatus memory_storage = mem_UpdateCardTransactionStatus"
  "s_AddCardTransactionIndex memory_storage = mem_AddCardTransactionIndex"
  "s_StoreRawCardTransaction memory_storage = mem_StoreRawCardTransaction"
  "s_NextCardTransactionSeqID memory_storage = mem_NextCardTransactionSeqID"
  "s_CreateThreeDSChallenge memory_storage = mem_CreateThreeDSChallenge"
  "s_GetThreeDSChallenge memory_storage = mem_GetThreeDSChallenge"
  "s_UpdateThreeDSChallenge memory_storage = mem_UpdateThreeDSChallenge"
  by (simp_all add: memory_storage_def)

lemma reading_snd [simp]:
  "snd (accountHolderName memory_storage u s) = s" "snd (userSummaries memory_storage ord s) = s"
  "snd (cardsForUser memory_storage ord u s) = s"
  by (simp_all add: accountHolderName_def userSummaries_def cardsForUser_def mem_GetUser_def
      mem_ListUsers_def mem_GetCustomerBySourceID_def mem_GetCardsByCustomer_def Let_def split: option.split)

lemma reads [simp]:
  "snd (GetManagedUser memory_storage r h) = h" "snd (GetUser memory_storage r h) = h"
  "snd (GetAccountConfirmation memory_storage e r h) = h" "snd (GetAccountStatement memory_storage e r h) = h"
  by (simp_all add: GetManagedUser_def GetUser_def GetAccountConfirmation_def GetAccountStatement_def split_beta
      Let_def split: sum.split)

lemma reads_ui [simp]:
  "snd (UIDashboard render memory_storage ord r h) = h" "snd (UIUserDetail render memory_storage ord r h) = h"
  "snd (UIKYCForm render memory_storage ord r h) = h" "snd (UICardTxForm render memory_storage idx ord r h) = h"
  by (simp_all add: UIDashboard_def UIUserDetail_def UIKYCForm_def UICardTxForm_def split_beta Let_def
      split: sum.split)

section \<open>Handlers that write quietly\<close>

text \<open>Following the branches of a handler: a property of the state it leaves.\<close>

definition leaves :: "('s Handler \<Rightarrow> bool) \<Rightarrow> 'r \<times> 's Handler \<Rightarrow> bool" where
  "leaves P x \<longleftrightarrow> P (snd x)"

lemma leaves_branches [quiet]:
  "(c \<Longrightarrow> leaves P x) \<Longrightarrow> (\<not> c \<Longrightarrow> leaves P y) \<Longrightarrow> leaves P (if c then x else y)"
  "(x1 = None \<Longrightarrow> leaves P y) \<Longrightarrow> (\<And>a. x1 = Some a \<Longrightarrow> leaves P (f a)) \<Longrightarrow>
     leaves P (case x1 of None \<Rightarrow> y | Some a \<Rightarrow> f a)"
  "(\<And>a. x2 = Inl a \<Longrightarrow> leaves P (f1 a)) \<Longrightarrow> (\<And>b. x2 = Inr b \<Longrightarrow> leaves P (f2 b)) \<Longrightarrow>
     leaves P (case x2 of Inl a \<Rightarrow> f1 a | Inr b \<Rightarrow> f2 b)"
  "leaves P (f3 (fst x3) (snd x3)) \<Longrightarrow> leaves P (case x3 of (a, b) \<Rightarrow> f3 a b)"
  "leaves P (f4 x4) \<Longrightarrow> leaves P (let y = x4 in f4 y)"
  "P h' \<Longrightarrow> leaves P (resp, h')"
  by (simp_all add: leaves_def split_beta split: option.split sum.split)

lemma leavesD: "leaves P x \<Longrightarrow> P (snd x)"
  by (simp add: leaves_def)

lemma follows_snd [quiet]: "leaves (follows h) x \<Longrightarrow> follows h (snd x)"
  by (rule leavesD)

lemma follows_if [quiet]:
  "(c \<Longrightarrow> follows h h') \<Longrightarrow> (\<not> c \<Longrightarrow> follows h h'') \<Longrightarrow> follows h (if c then h' else h'')"
  by simp

lemma still_branches [quiet]:
  "(c \<Longrightarrow> still s (snd x)) \<Longrightarrow> (\<not> c \<Longrightarrow> still s (snd y)) \<Longrightarrow> still s (snd (if c then x else y))"
  "(\<And>a. x2 = Inl a \<Longrightarrow> still s (snd (f1 a))) \<Longrightarrow> (\<And>b. x2 = Inr b \<Longrightarrow> still s (snd (f2 b))) \<Longrightarrow>
     still s (snd (case x2 of Inl a \<Rightarrow> f1 a | Inr b \<Rightarrow> f2 b))"
  "still s (snd (f3 (fst x3) (snd x3))) \<Longrightarrow> still s (snd (case x3 of (a, b) \<Rightarrow> f3 a b))"
  "still s (snd (f4 x4)) \<Longrightarrow> still s (snd (let y = x4 in f4 y))"
  "still s t \<Longrightarrow> still s (snd (resp, t))"
  "(c \<Longrightarrow> still s t) \<Longrightarrow> (\<not> c \<Longrightarrow> still s t') \<Longrightarrow> still s (if c then t else t')"
  "still s t \<Longrightarrow> still s (h_store (h\<lparr>h_store := t\<rparr>))"
  by (simp_all add: split_beta split: sum.split)

lemma still_reads [quiet]:
  assumes "still s t"
  shows "still s (snd (mem_GetUser i t))" and "still s (snd (mem_GetUserByEmail i t))"
  using assms by simp_all

lemmas [quiet] = follows_store_of

lemmas storage_simps = memory_storage_simps more_storage_simps

lemma still_default [quiet]:
  "still s t \<Longrightarrow> still s (snd (wallets_or_default memory_storage e ord u t))"
  unfolding wallets_or_default_def storage_simps by (intro quiet)

lemma quiet_wallets:
  assumes "mem_inv (h_store h)"
  shows "leaves (follows h) (CreateWallet memory_storage e r b1 h)"
    and "leaves (follows h) (GetUserWallets memory_storage e ord r h)"
  unfolding CreateWallet_def GetUserWallets_def storage_simps by (intro quiet assms)+

lemma quiet_cards:
  assumes "mem_inv (h_store h)"
  shows "leaves (follows h) (CreateCustomerAddress memory_storage e r b1 h)"
    and "leaves (follows h) (GetCardLimits memory_storage r h)"
    and "leaves (follows h) (UpdateCardLimits memory_storage r b2 h)"
    and "leaves (follows h) (SetCardPin memory_storage K e r b3 h)"
    and "leaves (follows h) (CreateCardTransaction memory_storage e b4 h)"
    and "leaves (follows h) (CreateThreeDSChallenge memory_storage e b5 h)"
    and "leaves (follows h) (ConfirmThreeDS memory_storage r b6 h)"
    and "leaves (follows h) (SetCardTransactionStatus memory_storage r b7 h)"
    and "leaves (follows h) (UpdateOrganizationConfiguration memory_storage e r b8 h)"
  unfolding CreateCustomerAddress_def GetCardLimits_def UpdateCardLimits_def SetCardPin_def
      CreateCardTransaction_def CreateThreeDSChallenge_def ConfirmThreeDS_def SetCardTransactionStatus_def
      UpdateOrganizationConfiguration_def enqueue2FACallbackTestJob_def storage_simps
  by (intro quiet assms)+

section \<open>Handlers that change a user\<close>

lemma found_fst:
  "mem_inv s \<Longrightarrow> fst (mem_GetUser i s) = Inr p \<Longrightarrow> p < next_addr (hp s)"
  "mem_inv s \<Longrightarrow> fst (mem_GetUserByEmail i s) = Inr p \<Longrightarrow> p < next_addr (hp s)"
  by (auto simp: mem_GetUser_def mem_GetUserByEmail_def found_user split: option.splits)

lemma alloc_fst [simp]:
  "fst (alloc_user u s) = next_addr (hp s)" "next_addr (hp (snd (alloc_user u s))) = Suc (next_addr (hp s))"
  "fst (alloc_customer c s) = next_addr (hp s)" "next_addr (hp (snd (alloc_customer c s))) = Suc (next_addr (hp s))"
  "fst (alloc_account b s) = next_addr (hp s)" "next_addr (hp (snd (alloc_account b s))) = Suc (next_addr (hp s))"
  by (simp_all add: alloc_user_def alloc_customer_def alloc_account_def)

lemma u_ID_kept [simp]:
  "u_ID (fst (applyKYCOutcome u outcome)) = u_ID u" "u_ID (set_birth dob u) = u_ID u"
  "u_ID (form_profile r u) = u_ID u"
  by (simp_all add: applyKYCOutcome_def set_birth_def form_profile_def Let_def split: list.split option.split)

lemma follows_write [quiet]:
  "follows h h' \<Longrightarrow> (\<And>u. u_ID (f u) = u_ID u) \<Longrightarrow> p < next_addr (hp (h_store h')) \<Longrightarrow>
     leaves (follows h) (write_user memory_storage p f h')"
  using still_users(2) [of "h_store h" "set_user p (f (user_of (h_store h') p)) (h_store h')" p]
  by (simp add: write_user_def leaves_def follows_def split_beta still_set_user)

lemma follows_fields [quiet]:
  "follows h h' \<Longrightarrow> follows h (h'\<lparr>h_tokens := m\<rparr>)"
  "follows h h' \<Longrightarrow> follows h (h'\<lparr>h_tasks := h_tasks h' @ [Send ev u data delay]\<rparr>)"
  by (auto simp: follows_def)

lemma quiet_users:
  assumes "mem_inv (h_store h)"
  shows "leaves (follows h) (CreateToken e r h)"
    and "leaves (follows h) (UpdateManagedUserEmail memory_storage b1 h)"
    and "leaves (follows h) (StartKYC memory_storage r h)"
    and "leaves (follows h) (UpdateKYCState memory_storage r b2 h)"
    and "leaves (follows h) (OverrideRiskLevel memory_storage r b3 h)"
    and "leaves (follows h) (SetUserKYCStateQuiet memory_storage r b4 h)"
  unfolding CreateToken_def UpdateManagedUserEmail_def StartKYC_def UpdateKYCState_def OverrideRiskLevel_def
      SetUserKYCStateQuiet_def storage_simps
  by (intro quiet assms; simp add: found_fst [OF assms] Let_def)+

lemma quiet_CreateManagedUser:
  assumes "mem_inv (h_store h)" and "\<And>i. uuid e i \<noteq> []"
  shows "leaves (follows h) (CreateManagedUser memory_storage e b h)"
  unfolding CreateManagedUser_def storage_simps
  by (intro quiet assms) simp_all

lemma quiet_submit [quiet]:
  assumes "follows h h'" and "p < next_addr (hp (h_store h'))"
  shows "leaves (follows h) (submit_outcome memory_storage e r u k p h')"
  unfolding submit_outcome_def storage_simps
  by (intro quiet assms) (use assms in \<open>auto simp: follows_def\<close>)

lemma quiet_kyc_pages:
  assumes "mem_inv (h_store h)"
  shows "leaves (follows h) (KYCIframeSubmit memory_storage http e r err h)"
    and "leaves (follows h) (UIKYCAction memory_storage e r h)"
  unfolding KYCIframeSubmit_def UIKYCAction_def applyUIKYCOutcome_def storage_simps
  by (intro quiet assms; simp add: found_fst [OF assms])+

section \<open>Simulation\<close>

text \<open>The same for a handler that may panic.\<close>

definition follows_if_any :: "mem Handler \<Rightarrow> ('r \<times> mem Handler) option \<Rightarrow> bool" where
  "follows_if_any h x \<longleftrightarrow> (\<forall>r h'. x = Some (r, h') \<longrightarrow> follows h h')"

lemma any_branches [quiet]:
  "(c \<Longrightarrow> follows_if_any h x) \<Longrightarrow> (\<not> c \<Longrightarrow> follows_if_any h y) \<Longrightarrow> follows_if_any h (if c then x else y)"
  "(x1 = None \<Longrightarrow> follows_if_any h y) \<Longrightarrow> (\<And>a. x1 = Some a \<Longrightarrow> follows_if_any h (f a)) \<Longrightarrow>
     follows_if_any h (case x1 of None \<Rightarrow> y | Some a \<Rightarrow> f a)"
  "(\<And>a. x2 = Inl a \<Longrightarrow> follows_if_any h (f1 a)) \<Longrightarrow> (\<And>b. x2 = Inr b \<Longrightarrow> follows_if_any h (f2 b)) \<Longrightarrow>
     follows_if_any h (case x2 of Inl a \<Rightarrow> f1 a | Inr b \<Rightarrow> f2 b)"
  "follows_if_any h (f3 (fst x3) (snd x3)) \<Longrightarrow> follows_if_any h (case x3 of (a, b) \<Rightarrow> f3 a b)"
  "follows_if_any h (f4 x4) \<Longrightarrow> follows_if_any h (let y = x4 in f4 y)"
  "follows_if_any h None"
  "leaves (follows h) z \<Longrightarrow> follows_if_any h (Some z)"
  "follows_if_any h x5 \<Longrightarrow> follows_if_any h (map_option (\<lambda>(r, h'). (f5 r, h')) x5)"
  by (auto simp: follows_if_any_def leaves_def split_beta split: option.split sum.split if_splits)

lemma follows_emit [quiet]:
  "follows h h' \<Longrightarrow> follows h (emitCardTransactionWebhook S e event req raw txID h')"
  by (simp add: emitCardTransactionWebhook_def Let_def follows_send)

lemma quiet_simulate [quiet]:
  "mem_inv (h_store h) \<Longrightarrow> follows_if_any h (simulateCardTransaction memory_storage idx e req h)"
  unfolding simulateCardTransaction_def storage_simps by (intro quiet)

lemma quiet_simulations:
  assumes "mem_inv (h_store h)"
  shows "SimulateCardTransaction memory_storage idx e b h = Some (resp, h') \<Longrightarrow> follows h h'"
    and "UICardTxAction memory_storage idx e r h = Some (resp, h') \<Longrightarrow> follows h h'"
proof -
  have "follows_if_any h (SimulateCardTransaction memory_storage idx e b h)"
    unfolding SimulateCardTransaction_def by (intro quiet assms)
  then show "SimulateCardTransaction memory_storage idx e b h = Some (resp, h') \<Longrightarrow> follows h h'"
    by (simp add: follows_if_any_def)
  have "follows_if_any h (UICardTxAction memory_storage idx e r h)"
    using quiet_simulate [OF assms]
    by (auto simp: UICardTxAction_def Let_def follows_if_any_def follows_refl assms
        split: option.splits sum.splits prod.splits if_splits)
  then show "UICardTxAction memory_storage idx e r h = Some (resp, h') \<Longrightarrow> follows h h'"
    by (simp add: follows_if_any_def)
qed

section \<open>What every step keeps\<close>

text \<open>
  The invariant of a handler: the store is well-formed, a goroutine that is to settle a transaction belongs
  to one that is no withdrawal, every percentage is one, and a card has a lock level exactly while it is locked.
\<close>

definition handler_ok :: "mem Handler \<Rightarrow> bool" where
  "handler_ok h \<longleftrightarrow> mem_inv (h_store h) \<and> tasks_ok (mem_txs (h_store h)) (h_tasks h) \<and> fees_ok (h_fees h) \<and>
     (\<forall>i c. mem_cards (h_store h) i = Some c \<longrightarrow> lock_consistent c)"

text \<open>What a step keeps: withdrawals that are settled, cards that are deleted, the configuration.\<close>

definition keeps_cards :: "(string \<Rightarrow> Card option) \<Rightarrow> (string \<Rightarrow> Card option) \<Rightarrow> bool" where
  "keeps_cards C C' \<longleftrightarrow> (\<forall>i c. C i = Some c \<longrightarrow> c_Status c = CardStatusSoftDelete \<longrightarrow> C' i = Some c)"

definition keeps :: "mem Handler \<Rightarrow> mem Handler \<Rightarrow> bool" where
  "keeps h h' \<longleftrightarrow> handler_ok h' \<and> h_config h' = h_config h \<and>
     keeps_settled (mem_txs (h_store h)) (mem_txs (h_store h')) \<and>
     keeps_cards (mem_cards (h_store h)) (mem_cards (h_store h'))"

lemma keeps_cards_refl [simp]: "keeps_cards C C"
  by (simp add: keeps_cards_def)

lemma keeps_trans: "keeps h h1 \<Longrightarrow> keeps h1 h2 \<Longrightarrow> keeps h h2"
  by (auto simp: keeps_def keeps_cards_def intro: keeps_settled_trans)

lemma keeps_refl: "handler_ok h \<Longrightarrow> keeps h h"
  by (simp add: keeps_def)

text \<open>A step that moves no money and records no transaction either.\<close>

definition harmless :: "mem Handler \<Rightarrow> mem Handler \<Rightarrow> bool" where
  "harmless h h' \<longleftrightarrow> keeps h h' \<and> mem_bal (h_store h') = mem_bal (h_store h) \<and>
     mem_txs (h_store h') = mem_txs (h_store h)"

lemma harmless_refl: "handler_ok h \<Longrightarrow> harmless h h"
  by (simp add: harmless_def keeps_refl)

lemma follows_harmless:
  assumes "handler_ok h" and "follows h h'"
  shows "harmless h h'"
  using assms
  by (fastforce simp: handler_ok_def harmless_def keeps_def follows_def still_def tasks_ok_def keeps_cards_def
      cards_grow_def)

section \<open>Fees\<close>

lemma harmless_fees:
  "handler_ok h \<Longrightarrow> fees_ok fc \<Longrightarrow> harmless h (h\<lparr>h_fees := fc\<rparr>)"
  by (simp add: harmless_def keeps_def handler_ok_def)

lemma fee_handlers:
  "\<exists>fc. snd (SetFees r b h) = h\<lparr>h_fees := fc\<rparr>" "\<exists>fc. snd (SetUserFees r b2 h) = h\<lparr>h_fees := fc\<rparr>"
  "\<exists>fc. snd (ClearUserFees r h) = h\<lparr>h_fees := fc\<rparr>"
proof -
  have "\<exists>fc. h = h\<lparr>h_fees := fc\<rparr>" by (rule exI [of _ "h_fees h"]) simp
  then show "\<exists>fc. snd (SetFees r b h) = h\<lparr>h_fees := fc\<rparr>" "\<exists>fc. snd (SetUserFees r b2 h) = h\<lparr>h_fees := fc\<rparr>"
    "\<exists>fc. snd (ClearUserFees r h) = h\<lparr>h_fees := fc\<rparr>"
    by (auto simp: SetFees_def SetUserFees_def ClearUserFees_def Let_def split: option.split)
qed

lemma harmless_fee_handlers:
  assumes "handler_ok h"
  shows "harmless h (snd (SetFees r (decodeJSON feeResponse_fields zero_feeResponse d) h))"
    and "harmless h (snd (SetUserFees r (decodeJSON feeUpdateRequest_fields zero_feeUpdateRequest d) h))"
    and "harmless h (snd (ClearUserFees r h))"
proof -
  have ok: "fees_ok (h_fees h)" using assms by (simp add: handler_ok_def)
  have keep: "harmless h h'" if "\<exists>fc. h' = h\<lparr>h_fees := fc\<rparr>" "fees_ok (h_fees h')" for h'
    using that harmless_fees [OF assms] by auto
  show "harmless h (snd (SetFees r (decodeJSON feeResponse_fields zero_feeResponse d) h))"
    by (rule keep [OF fee_handlers(1)]) (rule fees_ok_SetFees [OF ok decoded_fees])
  show "harmless h (snd (SetUserFees r (decodeJSON feeUpdateRequest_fields zero_feeUpdateRequest d) h))"
    by (rule keep [OF fee_handlers(2)]) (rule fees_ok_SetUserFees [OF ok decoded_fee_update])
  show "harmless h (snd (ClearUserFees r h))"
    by (rule keep [OF fee_handlers(3)]) (rule fees_ok_ClearUserFees [OF ok])
qed

section \<open>Cards\<close>

lemma UpdateCard_views [simp]:
  "mem_txs (snd (mem_UpdateCard c s)) = mem_txs s" "mem_bal (snd (mem_UpdateCard c s)) = mem_bal s"
  by (simp_all add: mem_UpdateCard_def mem_views fun_eq_iff)

definition updates_card :: "mem Handler \<Rightarrow> mem Handler \<Rightarrow> bool" where
  "updates_card h h' \<longleftrightarrow> h' = h \<or> (\<exists>c. h' = h\<lparr>h_store := snd (mem_UpdateCard c (h_store h))\<rparr>)"

lemma updates_cardI:
  "updates_card h h" "updates_card h (h\<lparr>h_store := snd (mem_UpdateCard c (h_store h))\<rparr>)"
  by (auto simp: updates_card_def)

lemma perform_frame: "updates_card h (snd (perform a memory_storage r h))"
  by (cases a; simp only: perform.simps DeleteCard_def LockCard_def UnlockCard_def BlockCard_def put_card_def
      memory_storage_simps Let_def split_beta snd_conv simp_thms updates_cardI split: sum.split if_split)

lemma harmless_perform:
  assumes "handler_ok h"
  shows "harmless h (snd (perform a memory_storage r h))"
proof -
  obtain resp h' where P: "perform a memory_storage r h = (resp, h')" by fastforce
  note ok = assms [unfolded handler_ok_def]
  have same: "h_tasks h' = h_tasks h" "h_fees h' = h_fees h" "h_config h' = h_config h"
      "mem_txs (h_store h') = mem_txs (h_store h)" "mem_bal (h_store h') = mem_bal (h_store h)"
    using perform_frame [of h a r] by (auto simp: P updates_card_def)
  note C = mem_card_store.perform_correct [OF conjunct1 [OF ok] P]
  show ?thesis
  proof (cases "mem_cards (h_store h') = mem_cards (h_store h)")
    case True
    with C same ok show ?thesis by (simp add: P harmless_def keeps_def handler_ok_def)
  next
    case False
    with C obtain c c' where c: "mem_cards (h_store h) (URLParam r ''cardID'') = Some c"
        "card_spec a (Query_Get r ''reasonCode'') c = Some c'"
        "mem_cards (h_store h') = (mem_cards (h_store h))(URLParam r ''cardID'' \<mapsto> c')"
      by (auto split: option.splits)
    with C same ok card_spec_lock_consistent [OF c(2)] card_spec_deleted [of c a] show ?thesis
      by (auto simp: P harmless_def keeps_def handler_ok_def keeps_cards_def)
  qed
qed

lemma harmless_card_actions:
  assumes "handler_ok h"
  shows "harmless h (snd (DeleteCard memory_storage r h))" and "harmless h (snd (LockCard memory_storage r h))"
    and "harmless h (snd (UnlockCard memory_storage r h))" and "harmless h (snd (BlockCard memory_storage r h))"
  using harmless_perform [OF assms, of Delete r] harmless_perform [OF assms, of Lock r]
    harmless_perform [OF assms, of Unlock r] harmless_perform [OF assms, of Block r] by simp_all

section \<open>Issuing a card\<close>

lemma still_delivery [quiet]: "still s t \<Longrightarrow> still s (store_delivery memory_storage e i u req t)"
  by (auto simp: store_delivery_def memory_storage_def split: option.split intro: quiet)

lemma issued_lock_consistent: "lock_consistent (issued_card e i a c u n p)"
  by (simp add: lock_consistent_def issued_card_def zero_Card_def CardStatusActive_def CardStatusTemporaryBlocked_def)

lemma quiet_issue [quiet]:
  assumes "mem_inv (h_store h)" and "\<And>i. uuid e i \<noteq> []"
  shows "leaves (follows h) (issue_card memory_storage e u req h)"
  unfolding issue_card_def storage_simps by (intro quiet assms issued_lock_consistent) simp_all

lemma quiet_issuing:
  assumes "mem_inv (h_store h)" and "\<And>i. uuid e i \<noteq> []"
  shows "leaves (follows h) (CreateManagedCustomer memory_storage e r b h)"
    and "leaves (follows h) (CreateCustomer memory_storage e r b h)"
proof -
  have *: "snd (mem_GetUser u (h_store h)) = h_store h" "h\<lparr>h_store := h_store h\<rparr> = h" for u by simp_all
  show "leaves (follows h) (CreateManagedCustomer memory_storage e r b h)"
    unfolding CreateManagedCustomer_def storage_simps split_beta Let_def * by (intro quiet assms)
  then show "leaves (follows h) (CreateCustomer memory_storage e r b h)" by (simp add: CreateCustomer_def)
qed

section \<open>The ledger\<close>

definition beside :: "mem Handler \<Rightarrow> mem Handler \<Rightarrow> bool" where
  "beside h h' \<longleftrightarrow> h_fees h' = h_fees h \<and> h_config h' = h_config h \<and> mem_cards (h_store h') = mem_cards (h_store h)"

lemma ledger_cards [simp]:
  "mem_cards (snd (mem_CreateTransaction t u n s)) = mem_cards s"
  "mem_cards (snd (mem_UpdateTransactionStatus i st s)) = mem_cards s"
  "mem_cards (snd (mem_AddBalance u c x s)) = mem_cards s"
  "mem_cards (snd (mem_DeductBalance u c x s)) = mem_cards s"
  "mem_cards (snd (mem_CreateWallet w n s)) = mem_cards s"
  by (simp_all add: mem_CreateTransaction_def mem_UpdateTransactionStatus_def mem_AddBalance_def
      mem_DeductBalance_def mem_CreateWallet_def mem_views Let_def split: option.split)

lemma wallets_cards [simp]: "mem_cards (snd (wallets_or_default memory_storage e ord u s)) = mem_cards s"
  by (simp add: wallets_or_default_def Let_def split_beta split: sum.split)

lemma beside_complete: "beside h (complete memory_storage j n c h)"
  by (simp add: complete_def Let_def split_beta beside_def)

lemma beside_finish: "beside h h' \<Longrightarrow> beside h (finish_create memory_storage e req fee t h')"
  using beside_complete [of h'] by (simp add: finish_create_def Let_def beside_def)

lemma beside_ledger:
  "leaves (beside h) (processDeposit memory_storage e ord bearer req h)"
  "leaves (beside h) (processWithdrawal memory_storage e ord bearer req h)"
  "leaves (beside h) (CreateTransaction memory_storage e r b h)"
  "leaves (beside h) (settleWithdrawal memory_storage e i ev h)"
  unfolding processDeposit_def processWithdrawal_def CreateTransaction_def settleWithdrawal_def
    completeWithdrawal_def rejectWithdrawal_def storage_simps
  by (intro quiet beside_finish; simp add: beside_def)+

lemma keeps_pay_step:
  assumes "handler_ok h" and "pay_step memory_storage mem_txs h h'" and "beside h h'"
  shows "keeps h h'"
  using assms(1,3) mem_ledger.pay_step_safe [OF assms(2)] by (simp add: handler_ok_def keeps_def beside_def)

lemma keeps_ledger:
  assumes "handler_ok h" and "fresh mem_txs e h"
  shows "leaves (keeps h) (processDeposit memory_storage e ord bearer req h)"
    and "leaves (keeps h) (processWithdrawal memory_storage e ord bearer req h)"
    and "leaves (keeps h) (CreateTransaction memory_storage e r b h)"
  unfolding leaves_def
  by (intro keeps_pay_step pay_step.deposit pay_step.withdraw pay_step.create assms beside_ledger [THEN leavesD])+

lemma keeps_settle: "handler_ok h \<Longrightarrow> leaves (keeps h) (settleWithdrawal memory_storage e i ev h)"
  unfolding leaves_def by (intro keeps_pay_step pay_step.settle beside_ledger [THEN leavesD])

lemma keeps_complete:
  assumes "handler_ok h" and "h_tasks h = ts1 @ Complete c # ts2"
  shows "keeps h (complete memory_storage j n c (h\<lparr>h_tasks := ts1 @ ts2\<rparr>))"
  using beside_complete [of "h\<lparr>h_tasks := ts1 @ ts2\<rparr>" j n c]
  by (intro keeps_pay_step pay_step.task assms) (simp add: beside_def)

lemma keeps_payment_handlers:
  assumes "handler_ok h"
  shows "fresh mem_txs e h \<Longrightarrow> leaves (keeps h) (TransactionCompleteHandler memory_storage http e ord r req h)"
    and "leaves (keeps h) (TriggerWithdrawalEvent memory_storage e r ev h)"
    and "leaves (keeps h) (UIWithdrawalSettle memory_storage e r h)"
  unfolding TransactionCompleteHandler_def TriggerWithdrawalEvent_def UIWithdrawalSettle_def
  by (intro quiet keeps_refl keeps_ledger keeps_settle [THEN leavesD] assms; assumption)+

section \<open>Every endpoint\<close>

definition money_handlers :: "string list" where
  "money_handlers = [''TransactionCompleteHandler'', ''CreateTransaction'', ''TriggerWithdrawalEvent'', ''UIWithdrawalSettle'']"

text \<open>What holds of an endpoint with its name.\<close>

definition safe_endpoint :: "env \<Rightarrow> string \<times> mem endpoint \<Rightarrow> bool" where
  "safe_endpoint e p \<longleftrightarrow>
     (\<forall>h resp h'. handler_ok h \<longrightarrow> fresh_ids e (h_store h) \<longrightarrow> snd p h = Some (resp, h') \<longrightarrow>
        keeps h h' \<and> (fst p \<notin> set money_handlers \<longrightarrow> harmless h h'))"

lemma fresh_of_ids: "fresh_ids e (h_store h) \<Longrightarrow> fresh mem_txs e h"
  by (simp add: fresh_ids_def fresh_def)

lemma safe_harmless:
  assumes "\<And>h. handler_ok h \<Longrightarrow> fresh_ids e (h_store h) \<Longrightarrow> leaves (harmless h) (f h)"
  shows "safe_endpoint e (name, \<lambda>h. Some (f h))"
  using assms by (fastforce simp: safe_endpoint_def leaves_def harmless_def)

lemma safe_follows:
  assumes "\<And>h. mem_inv (h_store h) \<Longrightarrow> (\<And>i. uuid e i \<noteq> []) \<Longrightarrow> leaves (follows h) (f h)"
  shows "safe_endpoint e (name, \<lambda>h. Some (f h))"
proof (rule safe_harmless)
  fix h assume h: "handler_ok h" "fresh_ids e (h_store h)"
  then have "leaves (follows h) (f h)" by (intro assms) (simp_all add: handler_ok_def fresh_ids_def)
  with h(1) show "leaves (harmless h) (f h)" by (simp add: leaves_def follows_harmless)
qed

lemma safe_unchanged: "(\<And>h. snd (f h) = h) \<Longrightarrow> safe_endpoint e (name, \<lambda>h. Some (f h))"
  by (rule safe_harmless) (simp add: leaves_def harmless_refl)

lemma safe_money:
  assumes "\<And>h. handler_ok h \<Longrightarrow> fresh mem_txs e h \<Longrightarrow> leaves (keeps h) (f h)" and "name \<in> set money_handlers"
  shows "safe_endpoint e (name, \<lambda>h. Some (f h))"
  using assms by (fastforce simp: safe_endpoint_def leaves_def fresh_of_ids)

lemma safe_any:
  assumes "\<And>h resp h'. mem_inv (h_store h) \<Longrightarrow> f h = Some (resp, h') \<Longrightarrow> follows h h'"
  shows "safe_endpoint e (name, f)"
  unfolding safe_endpoint_def fst_conv snd_conv
proof (intro allI impI)
  fix h resp h' assume h: "handler_ok h" "f h = Some (resp, h')"
  then have "harmless h h'" by (intro follows_harmless assms) (simp_all add: handler_ok_def)
  then show "keeps h h' \<and> (name \<notin> set money_handlers \<longrightarrow> harmless h h')" by (simp add: harmless_def)
qed

lemma follows_list:
  "mem_inv (h_store h) \<Longrightarrow> ListCardTransactions S r h = Some (resp, h') \<Longrightarrow> follows h h'"
  using unchanged_list follows_refl by blast

lemma unchanged_health: "snd (HealthCheck, h) = h"
  by simp

lemmas unchanged = unchanged_pages unchanged_wallets unchanged_cards unchanged_tokens unchanged_health
  reads reads_ui GetFees_handler GetUserFees_handler

lemmas quiet_handlers = quiet_wallets quiet_cards quiet_users quiet_kyc_pages quiet_CreateManagedUser quiet_issuing

lemmas harmless_handlers = harmless_fee_handlers harmless_card_actions

lemma leaves_harmless: "harmless h (snd x) \<Longrightarrow> leaves (harmless h) x"
  by (simp add: leaves_def)

lemma safe_endpoints: "list_all (safe_endpoint e) (endpoints memory_storage X e a)"
  unfolding endpoints_def page_endpoints_def auth_endpoints_def core_endpoints_def card_endpoints_def
    admin_endpoints_def Let_def append.simps list.pred_inject
  by (intro conjI list.pred_inject(1);
      ((rule safe_unchanged, rule unchanged) | (rule safe_follows, rule quiet_handlers; assumption) |
      (rule safe_harmless, rule leaves_harmless, rule harmless_handlers, assumption) |
      (rule safe_any, rule quiet_simulations; assumption) | (rule safe_any, rule follows_list; assumption) |
      (rule safe_money, (rule keeps_payment_handlers keeps_ledger; assumption), simp add: money_handlers_def)))

section \<open>Every step of the server\<close>

definition server_ok :: "mem server \<Rightarrow> bool" where
  "server_ok sv \<longleftrightarrow> handler_ok (sv_handler sv) \<and> length (sv_sink sv) \<le> receivedWebhookLimit"

lemma run_handler_safe:
  assumes "handler_ok (sv_handler sv)" and "fresh_ids e (h_store (sv_handler sv))"
    and "run_handler memory_storage X e a name sv = Some (resp, sv')"
  shows "keeps (sv_handler sv) (sv_handler sv')"
    and "name \<notin> set money_handlers \<Longrightarrow> harmless (sv_handler sv) (sv_handler sv')"
proof -
  have "keeps (sv_handler sv) (sv_handler sv') \<and>
      (name \<notin> set money_handlers \<longrightarrow> harmless (sv_handler sv) (sv_handler sv'))"
  proof (cases "map_of (endpoints memory_storage X e a) name")
    case None
    then have "sv_handler sv' = sv_handler sv"
      using assms(3) by (auto simp: run_handler_def Let_def split_beta)
    with assms(1) show ?thesis by (simp add: keeps_refl harmless_refl)
  next
    case (Some f)
    then have "safe_endpoint e (name, f)"
      using safe_endpoints [of e X a] map_of_SomeD unfolding list_all_iff by fast
    with Some assms show ?thesis by (auto simp: run_handler_def safe_endpoint_def)
  qed
  then show "keeps (sv_handler sv) (sv_handler sv')"
    and "name \<notin> set money_handlers \<Longrightarrow> harmless (sv_handler sv) (sv_handler sv')" by blast+
qed

lemma sink_endpoints_bound:
  assumes "map_of (sink_endpoints cfg e a) name = Some f" and "length sink \<le> receivedWebhookLimit"
  shows "length (snd (f sink)) \<le> receivedWebhookLimit"
  using assms
  by (auto simp: sink_endpoints_def TestWebhookSink_def ListReceivedWebhooks_def ClearReceivedWebhooks_def
      record_webhook_def Let_def split: if_splits option.splits)

lemma sink_bound:
  assumes "length (sv_sink sv) \<le> receivedWebhookLimit" and "run_handler S X e a name sv = Some (resp, sv')"
  shows "length (sv_sink sv') \<le> receivedWebhookLimit"
  using assms sink_endpoints_bound [OF _ assms(1)]
  by (auto simp: run_handler_def Let_def split_beta split: option.splits)

lemma serve_cases:
  assumes "serve S X rt l e a sv = Some (resp, sv')"
  obtains "sv' = sv" | route params where "gate l (h_config (sv_handler sv)) a = Pass"
    "rt (routes_of l) (r_Method (ar_request a)) (ar_route a) = Found route params"
    "run_handler S X e (a\<lparr>ar_request := (ar_request a)\<lparr>r_params := params\<rparr>\<rparr>) (rt_handler route) sv = Some (resp, sv')"
  using assms by (auto simp: serve_def split: verdict.splits routing.splits)

lemma server_step_safe:
  assumes "server_step Xs rt sv sv'" and "server_ok sv"
  shows "server_ok sv' \<and> keeps (sv_handler sv) (sv_handler sv')"
  using assms
proof (induction rule: server_step.induct)
  case (Request X e sv l a resp sv')
  from Request(3) show ?case
  proof (cases rule: serve_cases)
    case 1
    with Request(4) show ?thesis by (simp add: server_ok_def keeps_refl)
  next
    case (2 route params)
    with Request run_handler_safe(1) [of sv e X] sink_bound [of sv] show ?thesis
      by (metis server_ok_def keeps_def)
  qed
next
  case (Settle sv ts1 c ts2 jobID now)
  then show ?case using keeps_complete [of "sv_handler sv" ts1 c ts2 jobID now]
    by (simp add: with_handler_def server_ok_def keeps_def)
next
  case (Notify sv ts1 ev user data delay ts2 jobID now)
  have "follows (sv_handler sv) (send_async memory_storage jobID now ev user data delay
      ((sv_handler sv)\<lparr>h_tasks := ts1 @ ts2\<rparr>))"
    using Notify by (auto simp: follows_def still_refl server_ok_def handler_ok_def)
  with Notify show ?case
    using follows_harmless by (auto simp: with_handler_def server_ok_def harmless_def keeps_def)
next
  case (Worker sv q)
  have "follows (sv_handler sv) ((sv_handler sv)\<lparr>h_webhook := (h_webhook (sv_handler sv))\<lparr>wm_queue := q\<rparr>\<rparr>)"
    using Worker by (auto simp: follows_def still_refl server_ok_def handler_ok_def)
  with Worker show ?case
    using follows_harmless by (auto simp: with_handler_def server_ok_def harmless_def keeps_def)
qed

lemma server_run_safe:
  "server_run Xs rt sv sv' \<Longrightarrow> server_ok sv \<Longrightarrow> server_ok sv' \<and> keeps (sv_handler sv) (sv_handler sv')"
proof (induction rule: rtranclp_induct)
  case base
  then show ?case by (simp add: server_ok_def keeps_refl)
next
  case (step y z)
  then show ?case using server_step_safe keeps_trans by blast
qed

end
