(* ===== verification/Server_Properties.thy ===== *)
theory Server_Properties
  imports Server_Frames Service_Properties
begin

text \<open>
  Properties of the running server: what holds in every state that requests, goroutines and the worker
  can lead to, in any order, and what an unsigned request can do.
\<close>

section \<open>The server when it starts\<close>

definition started :: "mem Handler \<Rightarrow> mem server" where
  "started h = \<lparr>sv_handler = h, sv_sink = []\<rparr>"

text \<open>Well-formed stores whose cards have a lock level exactly while they are locked.\<close>

definition sound_store :: "mem store \<Rightarrow> bool" where
  "sound_store s \<longleftrightarrow> mem_inv s \<and> (\<forall>i c. mem_cards s i = Some c \<longrightarrow> lock_consistent c)"

lemma sound_still: "still s t \<Longrightarrow> sound_store s \<Longrightarrow> sound_store t"
  unfolding still_def sound_store_def cards_grow_def by blast

lemma sound_start: "sound_store s \<Longrightarrow> still s s"
  by (simp add: sound_store_def still_refl)

lemma sound_AddBalance: "sound_store s \<Longrightarrow> sound_store (snd (mem_AddBalance u c x s))"
  by (simp add: sound_store_def mem_inv_balances)

lemma sound_seed:
  assumes "sound_store s" and "uid \<noteq> []"
  shows "sound_store (snd (seed_account memory_storage uid now i email c s))"
proof -
  have "still s (snd (mem_CreateUser (fst (alloc_user (seed_user i email) s)) uid now (snd (alloc_user (seed_user i email) s))))"
    by (intro quiet sound_start assms) simp
  from sound_still [OF this assms(1)] show ?thesis
    by (simp add: seed_account_def Let_def split_beta sound_AddBalance)
qed

lemma sound_seeding:
  assumes "sound_store s" and "\<forall>i. uuid e i \<noteq> []"
  shows "sound_store (snd (SeedTestUsersWithOrgID memory_storage e org s))"
proof -
  let ?s1 = "snd (seed_account memory_storage (uuid e 0) (time_now e 0) TestUser1ID TestUser1Email ''USD'' s)"
  let ?s2 = "snd (seed_account memory_storage (uuid e 1) (time_now e 1) TestUser2ID TestUser2Email ''EUR'' ?s1)"
  have s1: "sound_store ?s1" using assms by (simp add: sound_seed)
  then have s2: "sound_store ?s2" using assms(2) by (simp add: sound_seed)
  have "sound_store (snd (mem_CreateOrganization g ?s2))" for g
    by (rule sound_still [OF still_organizations(1) s2]) (rule sound_start [OF s2])
  with s1 s2 show ?thesis
    by (auto simp: SeedTestUsersWithOrgID_def Let_def split: prod.splits option.splits if_splits)
       (metis snd_conv)+
qed

lemma assembled_ok:
  assumes "assemble memory_storage empty_memory connect e cfg = Inr h" and "\<forall>i. uuid e i \<noteq> []"
  shows "server_ok (started h)"
proof -
  have "sound_store empty_memory"
    by (simp add: sound_store_def) (simp add: mem_cards_def empty_memory_def NewMemoryStorage_def)
  then have "sound_store (h_store h)" "h_tasks h = []" "h_fees h = NewFeeConfig"
    using sound_seeding [OF _ assms(2), of empty_memory "cfg_DefaultOrganizationID cfg"] assms(1)
    by (auto simp: assemble_def NewHandler_def split: prod.splits option.splits sum.splits if_splits)
  then show ?thesis by (auto simp: server_ok_def started_def handler_ok_def sound_store_def tasks_ok_def)
qed

section \<open>Money and tokens\<close>

lemma unknown_bearer:
  assumes "extractUserFromBearer h (completion_bearer r) = []"
  shows "snd (TransactionCompleteHandler S http e ord r req h) = h"
proof -
  have "leaves (\<lambda>h'. h' = h) (processDeposit S e ord (completion_bearer r) req h)"
    and "leaves (\<lambda>h'. h' = h) (processWithdrawal S e ord (completion_bearer r) req h)"
    using assms by (simp_all add: leaves_def processDeposit_def processWithdrawal_def)
  then have "leaves (\<lambda>h'. h' = h) (TransactionCompleteHandler S http e ord r req h)"
    unfolding TransactionCompleteHandler_def by (intro quiet; simp)
  then show ?thesis by (simp add: leaves_def)
qed

lemma complete_handler_entry:
  "map_of (endpoints S X e a) ''TransactionCompleteHandler'' =
     Some (\<lambda>h. Some (TransactionCompleteHandler S (x_http X) e (x_order X) (ar_request a) (completion_request (ar_body a)) h))"
  by (simp add: endpoints_def page_endpoints_def Let_def)

lemma completion_bearer_params [simp]: "completion_bearer (r\<lparr>r_params := ps\<rparr>) = completion_bearer r"
  by (simp add: completion_bearer_def Query_Get_def Header_Get_def)

lemma public_money: "list_all (\<lambda>n. n \<notin> set money_handlers \<or> n = ''TransactionCompleteHandler'') (''GetCardToken'' # public_handlers)"
  by code_simp

lemma root_only: "list_all (\<lambda>r. last (rt_pattern r) \<noteq> CHR ''/'' \<or> rt_handler r = ''RootHandler'') setupRoutes"
  by code_simp

lemma root_no_money: "''RootHandler'' \<notin> set money_handlers"
  by code_simp

section \<open>The properties\<close>

text \<open>
  C2: once a withdrawal has been completed or rejected, nothing the server ever does changes it again,
  neither its outcome nor any other field: not a request to any endpoint of the two listeners, not a
  goroutine, not the worker, in whatever order they run.
\<close>

theorem settled_withdrawal_never_changes:
  assumes "server_run Xs rt sv sv'" and "server_ok sv"
    and "mem_txs (h_store (sv_handler sv)) i = Some t" and "settled t"
  shows "mem_txs (h_store (sv_handler sv')) i = Some t"
  using server_run_safe [OF assms(1,2)] assms(3,4) by (simp add: keeps_def keeps_settled_def)

text \<open>
  C10: once a card has been deleted, nothing the server ever does changes it again: no request to
  any endpoint locks, unlocks or blocks it, gives it a new account or issues another card under its id.
\<close>

theorem deleted_card_never_changes:
  assumes "server_run Xs rt sv sv'" and "server_ok sv"
    and "mem_cards (h_store (sv_handler sv)) i = Some c" and "c_Status c = CardStatusSoftDelete"
  shows "mem_cards (h_store (sv_handler sv')) i = Some c"
  using server_run_safe [OF assms(1,2)] assms(3,4) by (simp add: keeps_def keeps_cards_def)

text \<open>
  C11: from the moment the server is assembled, in every state it can reach: the store is well formed, a card
  has a lock level exactly while it is temporarily blocked, every fee percentage that applies to a user
  lies between 0 and 100, no goroutine is about to settle a withdrawal, the sink holds at most 500 webhooks,
  and the configuration is the one it was started with.
\<close>

theorem server_invariant:
  assumes "assemble memory_storage empty_memory connect e cfg = Inr h" and "\<forall>i. uuid e i \<noteq> []"
    and "server_run Xs rt (started h) sv"
  shows "mem_inv (h_store (sv_handler sv)) \<and>
    (\<forall>i c. mem_cards (h_store (sv_handler sv)) i = Some c \<longrightarrow>
       (c_LockLevel c \<noteq> None \<longleftrightarrow> c_Status c = CardStatusTemporaryBlocked)) \<and>
    (\<forall>u. valid_percent (fst (GetDepositFeeForUser u (h_fees (sv_handler sv)))) \<and>
       valid_percent (fst (GetWithdrawalFeeForUser u (h_fees (sv_handler sv))))) \<and>
    tasks_ok (mem_txs (h_store (sv_handler sv))) (h_tasks (sv_handler sv)) \<and>
    length (sv_sink sv) \<le> receivedWebhookLimit \<and> h_config (sv_handler sv) = cfg"
proof -
  have "server_ok sv" and "keeps h (sv_handler sv)"
    using server_run_safe [OF assms(3) assembled_ok [OF assms(1,2)]] by (simp_all add: started_def)
  moreover have "h_config h = cfg"
    using assms(1) by (auto simp: assemble_def NewHandler_def split: prod.splits option.splits sum.splits if_splits)
  ultimately show ?thesis
    by (simp add: server_ok_def handler_ok_def keeps_def fees_ok_effective lock_consistent_def)
qed

text \<open>
  C16: where authentication is enforced, a request at the application listener that carries no signature and no
  token of a user moves no money and records no transaction, whatever the path, the body and the handler it
  reaches.
\<close>

theorem unsigned_request_moves_no_money:
  assumes "server_ok sv" and "fresh_ids e (h_store (sv_handler sv))" and "router_laws rt"
    and "cfg_EnforceAuthentication (h_config (sv_handler sv))"
    and "Header_Get (ar_request a) ''x-gatehub-signature'' = []"
    and "ar_route a = r_Path (ar_request a) \<or> unescape encodeOther (ar_route a) = Some (r_Path (ar_request a))"
    and "extractUserFromBearer (sv_handler sv) (completion_bearer (ar_request a)) = []"
    and "serve memory_storage X rt App e a sv = Some (resp, sv')"
  shows "mem_bal (h_store (sv_handler sv')) = mem_bal (h_store (sv_handler sv)) \<and>
    mem_txs (h_store (sv_handler sv')) = mem_txs (h_store (sv_handler sv))"
  using assms(8)
proof (cases rule: serve_cases)
  case (2 route params)
  let ?a = "a\<lparr>ar_request := (ar_request a)\<lparr>r_params := params\<rparr>\<rparr>"
  have ok: "handler_ok (sv_handler sv)" using assms(1) by (simp add: server_ok_def)
  have route: "route \<in> set setupRoutes" "rt_method route = r_Method (ar_request a)"
      "path_matches (rt_pattern route) (ar_route a) \<or> rt_pattern route = ar_route a @ ''/''"
    using assms(3) 2(2) unfolding router_laws_def by (fastforce simp: routes_of_def)+
  then have "rt_handler route = ''RootHandler'' \<or>
      rt_handler route \<in> set (reachable_handlers setupRoutes (r_Method (ar_request a)) (ar_route a))"
    using root_only unfolding list_all_iff by (auto simp: reachable_handlers_def)
  moreover have "Middleware (cfg_ValidCredentials (h_config (sv_handler sv))) (ar_request a) (ar_body a) = Pass"
    using 2(1) assms(4) by (simp add: gate_def)
  ultimately have "rt_handler route = ''RootHandler'' \<or> rt_handler route \<in> set (''GetCardToken'' # public_handlers)"
    using unsigned_public [OF _ assms(5,6)] by auto
  then consider "rt_handler route \<notin> set money_handlers" | "rt_handler route = ''TransactionCompleteHandler''"
    using public_money root_no_money unfolding list_all_iff by metis
  then show ?thesis
  proof cases
    case 1
    from run_handler_safe(2) [OF ok assms(2) 2(3) 1] show ?thesis by (simp add: harmless_def)
  next
    case complete: 2
    have "sv_handler sv' = snd (TransactionCompleteHandler memory_storage (x_http X) e (x_order X) (ar_request ?a)
        (completion_request (ar_body ?a)) (sv_handler sv))"
      using 2(3) unfolding run_handler_def complete complete_handler_entry by (auto simp: split_beta)
    then show ?thesis using unknown_bearer [of "sv_handler sv" "ar_request ?a"] assms(7) by simp
  qed
qed simp

section \<open>Witnesses\<close>

text \<open>A router that takes the first route that fits and reads its parameters off the path.\<close>

definition path_params :: "string \<Rightarrow> string \<Rightarrow> string gomap" where
  "path_params pattern path =
     List.map_filter (\<lambda>(p, q). if take 1 p = ''{'' then Some (butlast (tl p), q) else None)
       (zip (split_on (CHR ''/'') pattern) (split_on (CHR ''/'') path))"

definition first_route :: router where
  "first_route rs meth path =
     (case List.find (\<lambda>r. rt_method r = meth \<and> path_matches (rt_pattern r) path) rs of
        None \<Rightarrow> NotFound
      | Some r \<Rightarrow> Found r (path_params (rt_pattern r) path))"

lemma first_route_laws: "router_laws first_route"
  by (auto simp: router_laws_def first_route_def find_Some_iff split: option.splits)

definition demo_outside :: "unit outside" where
  "demo_outside =
     \<lparr>x_pki = \<lparr>pk_parse = (\<lambda>_. Inl ''no key''), pk_encrypt = (\<lambda>_ _ _. Inl ''no key''),
               pk_decrypt = (\<lambda>_. Inl ''no key''), pk_service_spki = Inl ''no key''\<rparr>,
      x_http = (\<lambda>_. Inl (Unsendable ''no answer'')), x_order = id, x_templates = (\<lambda>_. None), x_found = (\<lambda>_. False),
      x_render = (\<lambda>_ _. []), x_scenarios = [],
      x_not_allowed = \<lparr>rs_status = 405, rs_header = [], rs_body = Empty\<rparr>\<rparr>"

definition demo_arrival :: "string \<Rightarrow> string \<Rightarrow> (string \<times> string) list \<Rightarrow> string \<Rightarrow> arrival" where
  "demo_arrival meth path query body =
     \<lparr>ar_request = \<lparr>r_Method = meth, r_Path = path, r_RawQuery = [], r_Host = ''localhost'', r_TLS = False,
        r_header = [], r_query = query, r_params = [], r_form = []\<rparr>,
      ar_route = path, ar_body = Some body, ar_form_error = None\<rparr>"

text \<open>Three requests: the settlement of a withdrawal, the locking of a card, a payment with a token of nobody.\<close>

definition demo_trigger :: arrival where
  "demo_trigger = demo_arrival ''POST'' ''/admin/withdrawals/w1/trigger-event'' []
     (''{'' @ quoted ''event'' @ '':'' @ quoted WebhookEventWithdrawalRejected @ ''}'')"

definition demo_lock :: arrival where
  "demo_lock = demo_arrival ''PUT'' ''/cards/v1/cards/card1/lock'' [] []"

definition demo_payment :: arrival where
  "demo_payment = demo_arrival ''POST'' ''/transaction/complete''
     [(''paymentType'', ''deposit''), (''bearer'', ''nobody'')] []"

lemma demo_routes:
  "first_route setupAdminRoutes ''POST'' ''/admin/withdrawals/w1/trigger-event'' =
     Found (Route ''POST'' ''/admin/withdrawals/{txID}/trigger-event'' ''TriggerWithdrawalEvent'') [(''txID'', ''w1'')]"
  "first_route setupRoutes ''PUT'' ''/cards/v1/cards/card1/lock'' =
     Found (Route ''PUT'' ''/cards/v1/cards/{cardID}/lock'' ''LockCard'') [(''cardID'', ''card1'')]"
  "first_route setupRoutes ''POST'' ''/transaction/complete'' =
     Found (Route ''POST'' ''/transaction/complete'' ''TransactionCompleteHandler'') []"
  by code_simp+

text \<open>Outside three handlers that may panic, a request at a listener is always answered.\<close>

definition partial_handlers :: "string list" where
  "partial_handlers = [''ListCardTransactions'', ''SimulateCardTransaction'', ''UICardTxAction'']"

lemma total_endpoints:
  "list_all (\<lambda>(n, f). n \<in> set partial_handlers \<or> (\<forall>h. f h \<noteq> None)) (endpoints S X e a)"
  by (simp add: endpoints_def page_endpoints_def auth_endpoints_def core_endpoints_def card_endpoints_def
      admin_endpoints_def Let_def partial_handlers_def)

lemma always_answered:
  assumes "router_laws rt"
    and "\<And>route ps. rt (routes_of l) (r_Method (ar_request a)) (ar_route a) = Found route ps \<Longrightarrow>
      rt_handler route \<notin> set partial_handlers"
  shows "\<exists>resp sv'. serve S X rt l e a sv = Some (resp, sv')"
proof (cases "gate l (h_config (sv_handler sv)) a")
  case Pass
  show ?thesis
  proof (cases "rt (routes_of l) (r_Method (ar_request a)) (ar_route a)")
    case (Found route ps)
    let ?a = "a\<lparr>ar_request := (ar_request a)\<lparr>r_params := ps\<rparr>\<rparr>"
    have "route \<in> set (routes_of l)" using assms(1) Found unfolding router_laws_def by blast
    note h = routes_have_handlers [OF this, of S X e ?a "h_config (sv_handler sv)"]
    have "run_handler S X e ?a (rt_handler route) sv \<noteq> None"
    proof (cases "map_of (endpoints S X e ?a) (rt_handler route)")
      case None
      with h show ?thesis by (auto simp: run_handler_def)
    next
      case (Some f)
      then have "f (sv_handler sv) \<noteq> None"
        using assms(2) [OF Found] total_endpoints [of S X e ?a] map_of_SomeD unfolding list_all_iff by fast
      with Some show ?thesis by (auto simp: run_handler_def)
    qed
    with Pass Found show ?thesis by (auto simp: serve_def)
  qed (simp_all add: serve_def Pass)
qed (simp add: serve_def)

lemma demo_answered:
  "\<exists>resp sv'. serve memory_storage demo_outside first_route Admin demo_env demo_trigger sv = Some (resp, sv')"
  "\<exists>resp sv'. serve memory_storage demo_outside first_route App demo_env demo_lock sv = Some (resp, sv')"
  "\<exists>resp sv'. serve memory_storage demo_outside first_route App demo_env demo_payment sv = Some (resp, sv')"
  by (rule always_answered [OF first_route_laws];
      simp add: demo_trigger_def demo_lock_def demo_payment_def demo_arrival_def routes_of_def demo_routes;
      auto simp: partial_handlers_def)+

lemma demo_fresh: "fresh_ids demo_env (h_store demo_handler)"
  by (auto simp: fresh_ids_def demo_defs mem_views)

lemma demo_cards [simp]: "mem_cards (h_store demo_handler) i = (if i = ''card1'' then Some demo_card else None)"
  by (simp add: demo_handler_def NewHandler_def demo_store_def mem_cards_def)

lemma demo_ok: "server_ok (started demo_handler)"
proof -
  have "lock_consistent demo_card" "h_fees demo_handler = NewFeeConfig" by (simp_all add: demo_defs lock_consistent_def
      CardStatusActive_def CardStatusTemporaryBlocked_def)
  then show ?thesis by (auto simp: server_ok_def started_def handler_ok_def tasks_ok_def split: if_splits)
qed

theorem settled_withdrawal_never_changes_witness:
  "\<exists>resp sv'. serve memory_storage demo_outside first_route Admin demo_env demo_trigger (started demo_handler) =
       Some (resp, sv') \<and>
     mem_txs (h_store (sv_handler sv')) ''w2'' = Some (demo_withdrawal ''w2'' TransactionStatusFailed)"
proof -
  obtain resp sv' where S: "serve memory_storage demo_outside first_route Admin demo_env demo_trigger
      (started demo_handler) = Some (resp, sv')" using demo_answered(1) by blast
  have "server_step {demo_outside} first_route (started demo_handler) sv'"
    by (rule server_step.Request [OF _ _ S]) (simp_all add: started_def demo_fresh)
  then have "server_run {demo_outside} first_route (started demo_handler) sv'" by (rule r_into_rtranclp)
  then have "mem_txs (h_store (sv_handler sv')) ''w2'' = Some (demo_withdrawal ''w2'' TransactionStatusFailed)"
    by (rule settled_withdrawal_never_changes [OF _ demo_ok])
      (simp_all add: started_def settled_def demo_withdrawal_def)
  with S show ?thesis by blast
qed

text \<open>A server whose only card is deleted, and that lets every request pass.\<close>

definition demo_deleted :: "mem Handler" where
  "demo_deleted = demo_handler\<lparr>
     h_store := snd (mem_UpdateCard (demo_card\<lparr>c_Status := CardStatusSoftDelete\<rparr>) (h_store demo_handler)),
     h_config := demo_config\<lparr>cfg_EnforceAuthentication := False\<rparr>\<rparr>"

lemma demo_deleted_facts:
  "mem_cards (h_store demo_deleted) i = (if i = ''card1'' then Some (demo_card\<lparr>c_Status := CardStatusSoftDelete\<rparr>) else None)"
  "mem_txs (h_store demo_deleted) = mem_txs (h_store demo_handler)" "h_tasks demo_deleted = []"
  "h_fees demo_deleted = NewFeeConfig" "mem_inv (h_store demo_deleted)"
  using mem_inv_UpdateCard [OF demo_inv]
  by (simp_all add: demo_deleted_def) (simp_all add: demo_defs mem_UpdateCard_def mem_views)

theorem deleted_card_never_changes_witness:
  "\<exists>resp sv'. serve memory_storage demo_outside first_route App demo_env demo_lock (started demo_deleted) =
       Some (resp, sv') \<and>
     mem_cards (h_store (sv_handler sv')) ''card1'' = Some (demo_card\<lparr>c_Status := CardStatusSoftDelete\<rparr>)"
proof -
  obtain resp sv' where S: "serve memory_storage demo_outside first_route App demo_env demo_lock
      (started demo_deleted) = Some (resp, sv')" using demo_answered(2) by blast
  have fresh: "fresh_ids demo_env (h_store demo_deleted)"
    using demo_fresh by (auto simp: fresh_ids_def demo_deleted_facts) (simp add: demo_env_def)
  have ok: "server_ok (started demo_deleted)"
    by (auto simp: server_ok_def started_def handler_ok_def tasks_ok_def lock_consistent_def demo_deleted_facts
        demo_card_def zero_Card_def CardStatusSoftDelete_def CardStatusTemporaryBlocked_def split: if_splits)
  have "server_step {demo_outside} first_route (started demo_deleted) sv'"
    by (rule server_step.Request [OF _ _ S]) (simp_all add: started_def fresh)
  then have "server_run {demo_outside} first_route (started demo_deleted) sv'" by (rule r_into_rtranclp)
  then have "mem_cards (h_store (sv_handler sv')) ''card1'' = Some (demo_card\<lparr>c_Status := CardStatusSoftDelete\<rparr>)"
    by (rule deleted_card_never_changes [OF _ ok]) (simp_all add: started_def demo_deleted_facts)
  with S show ?thesis by blast
qed

theorem unsigned_request_moves_no_money_witness:
  "\<exists>resp sv'. serve memory_storage demo_outside first_route App demo_env demo_payment (started demo_handler) =
       Some (resp, sv') \<and>
     mem_bal (h_store (sv_handler sv')) ''alice'' ''USD'' = Fin 100"
proof -
  obtain resp sv' where S: "serve memory_storage demo_outside first_route App demo_env demo_payment
      (started demo_handler) = Some (resp, sv')" using demo_answered(3) by blast
  have "mem_bal (h_store (sv_handler sv')) = mem_bal (h_store (sv_handler (started demo_handler))) \<and>
      mem_txs (h_store (sv_handler sv')) = mem_txs (h_store (sv_handler (started demo_handler)))"
  proof (rule unsigned_request_moves_no_money [OF demo_ok _ first_route_laws _ _ _ _ S])
    show "fresh_ids demo_env (h_store (sv_handler (started demo_handler)))" by (simp add: started_def demo_fresh)
  qed (simp_all add: started_def demo_payment_def demo_arrival_def Header_Get_def completion_bearer_def
      Query_Get_def extractUserFromBearer_def mstr_def demo_handler_def NewHandler_def demo_config_def)
  with S show ?thesis by (simp add: started_def)
qed

text \<open>Over the in-memory store the seeding succeeds.\<close>

lemma seed_account_succeeds: "fst (seed_account memory_storage uid now i email c s) = None"
  by (simp add: seed_account_def Let_def split_beta mem_AddBalance_def)

lemma seeding_succeeds: "\<exists>s'. SeedTestUsersWithOrgID memory_storage e org s = (None, s')"
proof -
  have "strings_Contains ''organization already exists'' ''already exists''" by code_simp
  then show ?thesis
    by (auto simp: SeedTestUsersWithOrgID_def seed_account_succeeds split_beta Let_def mem_CreateOrganization_def
        split: option.splits)
qed

lemma demo_assembled: "\<exists>h. assemble memory_storage empty_memory None demo_env demo_config = Inr h"
proof -
  obtain s' where "SeedTestUsersWithOrgID memory_storage demo_env (cfg_DefaultOrganizationID demo_config) empty_memory =
      (None, s')" using seeding_succeeds by blast
  moreover have "choose_queue demo_config = NoQueue" "ports_differ demo_config" by code_simp+
  ultimately show ?thesis by (simp add: assemble_def make_queue_def)
qed

theorem server_invariant_witness:
  "\<exists>h. assemble memory_storage empty_memory None demo_env demo_config = Inr h \<and> mem_inv (h_store h) \<and>
     valid_percent (fst (GetDepositFeeForUser ''alice'' (h_fees h))) \<and> h_config h = demo_config"
proof -
  obtain h where A: "assemble memory_storage empty_memory None demo_env demo_config = Inr h"
    using demo_assembled by blast
  let ?sv = "with_handler (\<lambda>h. h\<lparr>h_webhook := (h_webhook h)\<lparr>wm_queue := None\<rparr>\<rparr>) (started h)"
  have "server_run {demo_outside} first_route (started h) ?sv"
    by (rule r_into_rtranclp) (rule server_step.Worker)
  from server_invariant [OF A _ this] A show ?thesis
    by (auto simp: with_handler_def started_def demo_env_def)
qed

end
