(* ===== verification/Test_Client.thy ===== *)
theory Test_Client
  imports Startup Card_Services Card_Scenarios
begin

text \<open>
  The client of the acceptance tests, \<^verbatim>\<open>testenv/test_context.go\<close>, \<^verbatim>\<open>types.go\<close>, \<^verbatim>\<open>http_client.go\<close> and \<^verbatim>\<open>helpers.go\<close>: the
  context that the steps of a scenario share, and how a step builds, signs and sends a request. A step is
  a function on the context and the world outside; its errors are values.
\<close>

section \<open>Errors of steps\<close>

text \<open>
  An error is its format with its arguments, an error of a library call, or a panic, which the test runner
  takes as the failure of the step.
\<close>

datatype failure =
    Errorf string "farg list"
  | LibError string string
  | Panic string
and farg =
    FStr string
  | FInt int
  | FFloat f64
  | FBool bool
  | FVal json
  | FMap "json gomap"
  | FErr failure

section \<open>The context\<close>

text \<open>Requests as they are sent, header names in lower case, and answers whose body has been read.\<close>

record sent =
  sq_Method :: string
  sq_URL :: string
  sq_header :: "string gomap"
  sq_body :: string

record reply =
  rp_StatusCode :: int
  rp_header :: "string gomap"
  rp_body :: string

definition reply_header :: "reply \<Rightarrow> string \<Rightarrow> string" where
  "reply_header rp k = mstr (rp_header rp) (ToLower k)"

record 'k callerKeys =
  ck_publicKeyB64 :: string
  ck_private :: 'k

definition mockGatehubURL :: string where
  "mockGatehubURL = ''http://localhost:25151''"

definition mockGatehubAdminURL :: string where
  "mockGatehubAdminURL = ''http://localhost:25153''"

definition asyncWithdrawalsURL :: string where
  "asyncWithdrawalsURL = ''http://localhost:25152''"

definition asyncWithdrawalsAdminURL :: string where
  "asyncWithdrawalsAdminURL = ''http://localhost:25154''"

definition maxWaitSeconds :: nat where
  "maxWaitSeconds = 60"

text \<open>
  \<open>tc_follow\<close> holds as long as the client follows redirects; a map that is nil has no entries.
\<close>

record 'k TestContext =
  tc_follow :: bool
  tc_baseURL :: string
  tc_adminBaseURL :: string
  tc_appID :: string
  tc_appSecret :: string
  tc_signatureTime :: string
  tc_signatureBody :: string
  tc_signatureBase :: string
  tc_signatureURL :: string
  tc_signatureOverride :: string
  tc_signatureHeaders :: "string gomap"
  tc_pendingMethod :: string
  tc_pendingPath :: string
  tc_pendingBody :: string
  tc_pendingMode :: string
  tc_lastResponse :: "reply option"
  tc_lastResponseBody :: string
  tc_lastError :: "failure option"
  tc_userID :: string
  tc_walletAddress :: string
  tc_previousAddress :: string
  tc_accessToken :: string
  tc_iframeToken :: string
  tc_kycToken :: string
  tc_email :: string
  tc_customerID :: string
  tc_cardID :: string
  tc_transactionID :: string
  tc_savedRates :: "f64 gomap"
  tc_recordedBalances :: "f64 gomap"
  tc_keys :: "'k callerKeys option"
  tc_cardToken :: string
  tc_cardTokenHref :: string
  tc_cardTokenMethod :: string
  tc_decryptedPAN :: string
  tc_simulatedTxID :: string
  tc_simulatedTxIDs :: "string list"
  tc_statementPeriod :: time
  tc_withdrawalID :: string
  tc_lastRedirect :: string

text \<open>\<open>Reset\<close> sets every field, so it does not depend on the context before.\<close>

definition Reset :: "'k TestContext" where
  "Reset =
     \<lparr>tc_follow = True, tc_baseURL = mockGatehubURL, tc_adminBaseURL = mockGatehubAdminURL,
      tc_appID = [], tc_appSecret = [], tc_signatureTime = [], tc_signatureBody = [], tc_signatureBase = [],
      tc_signatureURL = [], tc_signatureOverride = [], tc_signatureHeaders = [], tc_pendingMethod = [],
      tc_pendingPath = [], tc_pendingBody = [], tc_pendingMode = [], tc_lastResponse = None,
      tc_lastResponseBody = [], tc_lastError = None, tc_userID = [], tc_walletAddress = [],
      tc_previousAddress = [], tc_accessToken = [], tc_iframeToken = [], tc_kycToken = [], tc_email = [],
      tc_customerID = [], tc_cardID = [], tc_transactionID = [], tc_savedRates = [], tc_recordedBalances = [],
      tc_keys = None, tc_cardToken = [], tc_cardTokenHref = [], tc_cardTokenMethod = [],
      tc_decryptedPAN = [], tc_simulatedTxID = [], tc_simulatedTxIDs = [], tc_statementPeriod = 0,
      tc_withdrawalID = [], tc_lastRedirect = []\<rparr>"

section \<open>Steps\<close>

type_synonym ('k, 'w, 'a) step = "'k TestContext \<times> 'w \<Rightarrow> (failure + 'a) \<times> 'k TestContext \<times> 'w"

definition ok :: "'a \<Rightarrow> ('k, 'w, 'a) step" where
  "ok x s = (Inr x, s)"

definition fail :: "failure \<Rightarrow> ('k, 'w, 'a) step" where
  "fail e s = (Inl e, s)"

text \<open>Go on with the result unless there is an error.\<close>

definition on_success :: "('k, 'w, 'a) step \<Rightarrow> ('a \<Rightarrow> ('k, 'w, 'b) step) \<Rightarrow> ('k, 'w, 'b) step" where
  "on_success m f s = (case m s of (Inl e, s1) \<Rightarrow> (Inl e, s1) | (Inr x, s1) \<Rightarrow> f x s1)"

abbreviation thereafter :: "('k, 'w, 'a) step \<Rightarrow> ('k, 'w, 'b) step \<Rightarrow> ('k, 'w, 'b) step" where
  "thereafter m k \<equiv> on_success m (\<lambda>_. k)"

definition looking :: "('k TestContext \<Rightarrow> ('k, 'w, 'a) step) \<Rightarrow> ('k, 'w, 'a) step" where
  "looking f s = f (fst s) s"

definition setting :: "('k TestContext \<Rightarrow> 'k TestContext) \<Rightarrow> ('k, 'w, unit) step" where
  "setting g s = (Inr (), g (fst s), snd s)"

definition require :: "bool \<Rightarrow> failure \<Rightarrow> ('k, 'w, unit) step" where
  "require b e = (if b then ok () else fail e)"

definition given :: "(failure + 'a) \<Rightarrow> ('k, 'w, 'a) step" where
  "given x = (case x of Inl e \<Rightarrow> fail e | Inr y \<Rightarrow> ok y)"

text \<open>An error is wrapped in another one.\<close>

definition wrapping :: "(failure \<Rightarrow> failure) \<Rightarrow> ('k, 'w, 'a) step \<Rightarrow> ('k, 'w, 'a) step" where
  "wrapping g m s = (case m s of (Inl e, s1) \<Rightarrow> (Inl (g e), s1) | r \<Rightarrow> r)"

text \<open>The deferred restoring of the last response.\<close>

definition restoring :: "('k, 'w, 'a) step \<Rightarrow> ('k, 'w, 'a) step" where
  "restoring m s =
     (case m s of (r, tc, w) \<Rightarrow>
        (r, tc\<lparr>tc_lastResponse := tc_lastResponse (fst s), tc_lastResponseBody := tc_lastResponseBody (fst s)\<rparr>, w))"

text \<open>The first error of a loop over a list ends it.\<close>

fun each :: "('a \<Rightarrow> ('k, 'w, unit) step) \<Rightarrow> 'a list \<Rightarrow> ('k, 'w, unit) step" where
  "each f [] = ok ()"
| "each f (x # xs) = thereafter (f x) (each f xs)"

section \<open>The world\<close>

text \<open>
  What a step uses of the world: sending a request, with or without following redirects, the clock, sleeping,
  the order in which Go visits maps, and fresh key pairs. Sending fails before the answer, or while the body of an answer with some status is read.
\<close>

datatype outcome = NotSent string | CutOff int string | Got reply

record 'w net =
  n_do :: "bool \<Rightarrow> sent \<Rightarrow> 'w \<Rightarrow> outcome \<times> 'w"
  n_now :: "'w \<Rightarrow> time \<times> 'w"
  n_sleep :: "int \<Rightarrow> 'w \<Rightarrow> 'w"
  n_order :: key_order

definition timeNow :: "'w net \<Rightarrow> ('k, 'w, time) step" where
  "timeNow N s = (case n_now N (snd s) of (t, w) \<Rightarrow> (Inr t, fst s, w))"

definition Sleep :: "'w net \<Rightarrow> int \<Rightarrow> ('k, 'w, unit) step" where
  "Sleep N d s = (Inr (), fst s, n_sleep N d (snd s))"

section \<open>Texts\<close>

text \<open>\<^verbatim>\<open>strings.ReplaceAll\<close> of a text that is not empty.\<close>

fun replace_all :: "string \<Rightarrow> string \<Rightarrow> string \<Rightarrow> string" where
  "replace_all old new [] = []"
| "replace_all old new (c # s) =
     (if has_prefix (c # s) old then new @ replace_all old new (drop (length old - 1) s)
      else c # replace_all old new s)"

definition has_suffix :: "string \<Rightarrow> string \<Rightarrow> bool" where
  "has_suffix s p \<longleftrightarrow> has_prefix (rev s) (rev p)"

text \<open>A map as \<^verbatim>\<open>json.Marshal\<close> prints it, its keys sorted.\<close>

definition jmap :: "(string \<times> json) list \<Rightarrow> json" where
  "jmap kvs = JObj (sort_key fst kvs)"

definition jtexts :: "(string \<times> string) list \<Rightarrow> json" where
  "jtexts kvs = jmap (map (apsnd JStr) kvs)"

definition marshal :: "json \<Rightarrow> failure + string" where
  "marshal v = (if marshals v then Inr (json_text v) else Inl (LibError ''json.Marshal'' []))"

section \<open>Signing and sending\<close>

definition generateHMAC :: "'k TestContext \<Rightarrow> string \<Rightarrow> string \<Rightarrow> string \<Rightarrow> string \<Rightarrow> string" where
  "generateHMAC tc timestamp meth fullURL body =
     hex_EncodeToString (hmac_sha256 (tc_appSecret tc)
       (trim (\<lambda>c. c = CHR ''|'') (timestamp @ ''|'' @ meth @ ''|'' @ fullURL @ ''|'' @ body)))"

definition computeHMAC :: "string \<Rightarrow> string \<Rightarrow> string" where
  "computeHMAC secret payload = hex_EncodeToString (hmac_sha256 secret payload)"

definition adminPathPrefixes :: "string list" where
  "adminPathPrefixes = [''/admin/'', ''/admin'', ''/ui'', ''/test-webhook'']"

definition urlFor :: "'k TestContext \<Rightarrow> string \<Rightarrow> string" where
  "urlFor tc path =
     (if list_ex (\<lambda>p. path = p \<or> has_prefix path p) adminPathPrefixes
      then tc_adminBaseURL tc @ path else tc_baseURL tc @ path)"

definition placeholders :: "'k TestContext \<Rightarrow> string gomap" where
  "placeholders tc =
     [(''{userId}'', tc_userID tc), (''{customerId}'', tc_customerID tc), (''{cardId}'', tc_cardID tc),
      (''{cardID}'', tc_cardID tc), (''{transactionId}'', tc_transactionID tc), (''{txId}'', tc_transactionID tc),
      (''{address}'', tc_walletAddress tc), (''{walletAddress}'', tc_walletAddress tc),
      (''{iframeToken}'', tc_iframeToken tc), (''{token}'', tc_kycToken tc)]"

definition replacePlaceholders :: "key_order \<Rightarrow> 'k TestContext \<Rightarrow> string \<Rightarrow> string" where
  "replacePlaceholders ord tc path =
     foldl (\<lambda>p (k, v). replace_all k v p) path (range_pairs ord (placeholders tc))"

text \<open>\<^verbatim>\<open>http.NewRequest\<close>: the method must be a token and the URL must parse.\<close>

definition token_char :: "char \<Rightarrow> bool" where
  "token_char c \<longleftrightarrow> is_alnum c \<or> c \<in> set ''!#$%&*+-.^_|~'' \<or> c = CHR 0x27 \<or> c = CHR 0x60"

definition NewRequest :: "string \<Rightarrow> string \<Rightarrow> string \<Rightarrow> failure + sent" where
  "NewRequest meth url body =
     (let m = (if meth = [] then ''GET'' else meth) in
      if \<not> list_all token_char m then Inl (LibError ''http.NewRequest'' meth)
      else if url_Parse url = None then Inl (LibError ''http.NewRequest'' url)
      else Inr \<lparr>sq_Method = m, sq_URL = url, sq_header = [], sq_body = body\<rparr>)"

definition set_header :: "string \<Rightarrow> string \<Rightarrow> sent \<Rightarrow> sent" where
  "set_header k v req = req\<lparr>sq_header := mput (ToLower k) v (sq_header req)\<rparr>"

definition set_headers :: "(string \<times> string) list \<Rightarrow> sent \<Rightarrow> sent" where
  "set_headers kvs req = foldl (\<lambda>q (k, v). set_header k v q) req kvs"

definition doRequest :: "'w net \<Rightarrow> sent \<Rightarrow> ('k, 'w, reply) step" where
  "doRequest N req s =
     (let tc = fst s in
      case n_do N (tc_follow tc) req (snd s) of
        (NotSent e, w) \<Rightarrow> (Inl (LibError ''Do'' e), tc\<lparr>tc_lastError := Some (LibError ''Do'' e)\<rparr>, w)
      | (CutOff code e, w) \<Rightarrow> (Inl (LibError ''ReadAll'' e), tc, w)
      | (Got rp, w) \<Rightarrow> (Inr rp, tc\<lparr>tc_lastResponse := Some rp, tc_lastResponseBody := rp_body rp\<rparr>, w))"

text \<open>The HMAC headers of a request, if the client has a secret.\<close>

definition with_hmac :: "'w net \<Rightarrow> string \<Rightarrow> string \<Rightarrow> string \<Rightarrow> sent \<Rightarrow> ('k, 'w, sent) step" where
  "with_hmac N meth url bodyStr req =
     looking (\<lambda>tc.
       if tc_appSecret tc = [] then ok req
       else on_success (timeNow N) (\<lambda>now.
         let timestamp = int_str (UnixMilli now) in
         ok (set_headers
           [(''x-gatehub-app-id'', tc_appID tc), (''x-gatehub-timestamp'', timestamp),
            (''x-gatehub-signature'', generateHMAC tc timestamp meth url bodyStr)] req)))"

definition tc_request ::
  "'w net \<Rightarrow> string \<Rightarrow> string \<Rightarrow> json option \<Rightarrow> string gomap \<Rightarrow> ('k, 'w, reply) step" where
  "tc_request N meth path0 body headers =
     looking (\<lambda>tc.
       let path = replacePlaceholders (n_order N) tc path0; url = urlFor tc path in
       on_success (given (case body of None \<Rightarrow> Inr [] | Some v \<Rightarrow> marshal v)) (\<lambda>bodyStr.
       on_success (given (NewRequest meth url bodyStr)) (\<lambda>req.
       on_success (with_hmac N meth url bodyStr req) (\<lambda>req1.
         let req2 = set_headers (range_pairs (n_order N) headers) req1;
             req3 = (if body \<noteq> None then set_header ''Content-Type'' ''application/json'' req2 else req2)
         in doRequest N req3))))"

definition requestRaw ::
  "'w net \<Rightarrow> string \<Rightarrow> string \<Rightarrow> string \<Rightarrow> string \<Rightarrow> string gomap \<Rightarrow> ('k, 'w, reply) step" where
  "requestRaw N meth path0 bodyStr contentType headers =
     looking (\<lambda>tc.
       let path = replacePlaceholders (n_order N) tc path0 in
       on_success (given (NewRequest meth (urlFor tc path) bodyStr)) (\<lambda>req.
         let req1 = (if contentType \<noteq> [] then set_header ''Content-Type'' contentType req else req)
         in doRequest N (set_headers (range_pairs (n_order N) headers) req1)))"

definition requestForm :: "'w net \<Rightarrow> string \<Rightarrow> string \<Rightarrow> string gomap \<Rightarrow> ('k, 'w, reply) step" where
  "requestForm N meth path0 formData =
     looking (\<lambda>tc.
       let path = replacePlaceholders (n_order N) tc path0;
           bodyStr = join_with ''&'' (map (\<lambda>(k, v). k @ ''='' @ v) (range_pairs (n_order N) formData));
           url = urlFor tc path in
       on_success (given (NewRequest meth url bodyStr)) (\<lambda>req.
       on_success (with_hmac N meth url bodyStr req) (\<lambda>req1.
         doRequest N (set_header ''Content-Type'' ''application/x-www-form-urlencoded'' req1))))"

definition sendWithManagedUserHeader ::
  "'w net \<Rightarrow> string \<Rightarrow> string \<Rightarrow> json option \<Rightarrow> ('k, 'w, reply) step" where
  "sendWithManagedUserHeader N meth path body =
     looking (\<lambda>tc. tc_request N meth path body [(''x-gatehub-managed-user-uuid'', tc_userID tc)])"

definition sendWithCardAppIDHeader ::
  "'w net \<Rightarrow> string \<Rightarrow> string \<Rightarrow> json option \<Rightarrow> ('k, 'w, reply) step" where
  "sendWithCardAppIDHeader N meth path body =
     tc_request N meth path body [(''x-gatehub-card-app-id'', ''test-app-id'')]"

section \<open>Reading answers\<close>

text \<open>Decoding into a map, where \<^verbatim>\<open>null\<close> leaves it nil, and into a slice of maps.\<close>

definition tree_gomap :: "jtree \<Rightarrow> json gomap option" where
  "tree_gomap v =
     (case v of
        TObj kvs \<Rightarrow> map_option as_gomap (interface_members kvs)
      | TNull \<Rightarrow> Some []
      | _ \<Rightarrow> None)"

definition tree_gomaps :: "jtree \<Rightarrow> json gomap list option" where
  "tree_gomaps v =
     (case v of
        TArr ts \<Rightarrow> all_some (map tree_gomap ts)
      | TNull \<Rightarrow> Some []
      | _ \<Rightarrow> None)"

definition unmarshal_with :: "(jtree \<Rightarrow> 'a option) \<Rightarrow> string \<Rightarrow> failure + 'a" where
  "unmarshal_with dec s =
     (case Option.bind (json_parse s) dec of
        None \<Rightarrow> Inl (LibError ''json.Unmarshal'' s)
      | Some x \<Rightarrow> Inr x)"

definition reading :: "(jtree \<Rightarrow> 'a option) \<Rightarrow> ('k, 'w, 'a) step" where
  "reading dec = looking (\<lambda>tc. given (unmarshal_with dec (tc_lastResponseBody tc)))"

abbreviation reading_map :: "('k, 'w, json gomap) step" where
  "reading_map \<equiv> reading tree_gomap"

text \<open>Decoding into a struct.\<close>

definition reading_struct :: "'r fields \<Rightarrow> 'r \<Rightarrow> ('k, 'w, 'r) step" where
  "reading_struct table zero =
     reading (\<lambda>v. if v = TNull then Some zero else tree_struct table zero v)"

text \<open>Type assertions on the value of a key, \<open>None\<close> where they do not hold.\<close>

definition as_string :: "json option \<Rightarrow> string option" where
  "as_string v = (case v of Some (JStr s) \<Rightarrow> Some s | _ \<Rightarrow> None)"

definition as_number :: "json option \<Rightarrow> f64 option" where
  "as_number v = (case v of Some (JNum x) \<Rightarrow> Some x | _ \<Rightarrow> None)"

definition as_object :: "json option \<Rightarrow> json gomap option" where
  "as_object v = (case v of Some (JObj kvs) \<Rightarrow> Some kvs | _ \<Rightarrow> None)"

definition as_array :: "json option \<Rightarrow> json list option" where
  "as_array v = (case v of Some (JArr xs) \<Rightarrow> Some xs | _ \<Rightarrow> None)"

text \<open>The value that a missing key gives.\<close>

definition value_at :: "json gomap \<Rightarrow> string \<Rightarrow> json" where
  "value_at m k = (case mget m k of None \<Rightarrow> JNull | Some v \<Rightarrow> v)"

text \<open>\<^verbatim>\<open>tc.lastResponse.StatusCode\<close>, which panics before the first answer.\<close>

definition last_response :: "('k, 'w, reply) step" where
  "last_response =
     looking (\<lambda>tc. case tc_lastResponse tc of None \<Rightarrow> fail (Panic ''nil pointer'') | Some rp \<Rightarrow> ok rp)"

section \<open>Common steps\<close>

definition parseScope :: "string \<Rightarrow> string list" where
  "parseScope scope =
     (let quote = (\<lambda>c. c = CHR 0x22) in
      map (\<lambda>s. trim quote (TrimSpace s)) (split_on (CHR '','') (trim quote scope)))"

definition checkRequiredFields :: "string list \<Rightarrow> ('k, 'w, unit) step" where
  "checkRequiredFields names =
     on_success reading_map (\<lambda>result.
       each (\<lambda>f. require (mget result f \<noteq> None) (Errorf ''missing field %s'' [FStr f])) names)"

definition checkFieldValue :: "string \<Rightarrow> string \<Rightarrow> ('k, 'w, unit) step" where
  "checkFieldValue field expectedValue =
     on_success reading_map (\<lambda>result.
       case mget result field of
         None \<Rightarrow> fail (Errorf ''missing field %s'' [FStr field])
       | Some v \<Rightarrow> require (sprint_v v = expectedValue)
           (Errorf ''expected %s to be %s, got %v'' [FStr field, FStr expectedValue, FVal v]))"

definition mockgatehubStarted :: "('k, 'w, unit) step" where
  "mockgatehubStarted = setting (\<lambda>_. Reset)"

definition serviceURLIs :: "string \<Rightarrow> ('k, 'w, unit) step" where
  "serviceURLIs url = setting (\<lambda>tc. tc\<lparr>tc_baseURL := url\<rparr>)"

text \<open>An error of the request is also kept in the context.\<close>

definition noting :: "('k, 'w, 'a) step \<Rightarrow> ('k, 'w, 'a) step" where
  "noting m s = (case m s of (Inl e, tc, w) \<Rightarrow> (Inl e, tc\<lparr>tc_lastError := Some e\<rparr>, w) | r \<Rightarrow> r)"

definition hmacHeaders :: "string \<Rightarrow> string \<Rightarrow> ('k, 'w, unit) step" where
  "hmacHeaders appID appSecret = setting (\<lambda>tc. tc\<lparr>tc_appID := appID, tc_appSecret := appSecret\<rparr>)"

text \<open>A step whose result is dropped. The answer it returns is the last response already.\<close>

definition plainly :: "('k, 'w, 'a) step \<Rightarrow> ('k, 'w, unit) step" where
  "plainly m = thereafter m (ok ())"

definition sendGetRequestWithHMAC :: "'w net \<Rightarrow> string \<Rightarrow> ('k, 'w, unit) step" where
  "sendGetRequestWithHMAC N path =
     thereafter (hmacHeaders ''local-test-app-id'' ''local-test-app-secret'')
       (plainly (noting (tc_request N ''GET'' path None [])))"

definition responseStatusIs :: "int \<Rightarrow> ('k, 'w, unit) step" where
  "responseStatusIs status =
     looking (\<lambda>tc.
       case tc_lastResponse tc of
         None \<Rightarrow> fail (Errorf ''no response'' [])
       | Some rp \<Rightarrow> require (rp_StatusCode rp = status)
           (Errorf ''expected status %d, got %d. Body: %s''
              [FInt status, FInt (rp_StatusCode rp), FStr (tc_lastResponseBody tc)]))"

definition responseBodyContains :: "string \<Rightarrow> string \<Rightarrow> ('k, 'w, unit) step" where
  "responseBodyContains key value =
     on_success reading_map (\<lambda>data.
       require (case mget data key of None \<Rightarrow> False | Some v \<Rightarrow> sprint_v v = value)
         (Errorf ''expected %s to be %s, got %v'' [FStr key, FStr value, FVal (value_at data key)]))"

end
