(* ===== verification/Test_Signatures.thy ===== *)
theory Test_Signatures
  imports Test_Client
begin

text \<open>
  The steps about signatures and accounts: \<^verbatim>\<open>testenv/signature_steps.go\<close>, \<^verbatim>\<open>auth_steps.go\<close> and
  \<^verbatim>\<open>organization_steps.go\<close>.
\<close>

section \<open>Accounts\<close>

definition mustJSON :: "json \<Rightarrow> ('k, 'w, string) step" where
  "mustJSON v = given (case marshal v of Inl _ \<Rightarrow> Inl (Panic ''json.Marshal'') | r \<Rightarrow> r)"

text \<open>A request without a secret in the context.\<close>

definition without_secret :: "('k, 'w, 'a) step \<Rightarrow> ('k, 'w, 'a) step" where
  "without_secret m s =
     (case m ((fst s)\<lparr>tc_appSecret := []\<rparr>, snd s) of
        (r, tc, w) \<Rightarrow> (r, tc\<lparr>tc_appSecret := tc_appSecret (fst s)\<rparr>, w))"

definition cleanMockGatehub :: "'w net \<Rightarrow> ('k, 'w, unit) step" where
  "cleanMockGatehub N =
     thereafter mockgatehubStarted
       (on_success (mustJSON (jmap [(''deposit_fee_percentage'', JNum f0), (''withdrawal_fee_percentage'', JNum f0)]))
         (\<lambda>body. plainly (without_secret (requestRaw N ''PUT'' ''/admin/fees'' body ''application/json'' []))))"

text \<open>The id of the user in an answer, under the first of the names that holds a string.\<close>

definition take_userID :: "string list \<Rightarrow> json gomap \<Rightarrow> ('k, 'w, unit) step" where
  "take_userID names result =
     (case List.map_filter (\<lambda>n. as_string (mget result n)) names of
        [] \<Rightarrow> ok ()
      | i # _ \<Rightarrow> setting (\<lambda>tc. tc\<lparr>tc_userID := i\<rparr>))"

definition postWithEmail :: "'w net \<Rightarrow> string \<Rightarrow> string \<Rightarrow> ('k, 'w, unit) step" where
  "postWithEmail N path email =
     thereafter (setting (\<lambda>tc. tc\<lparr>tc_email := email\<rparr>))
       (thereafter (tc_request N ''POST'' path (Some (jtexts [(''email'', email)])) [])
         (on_success reading_map (take_userID [''id'', ''user_id''])))"

definition payloadHasUserID :: "('k, 'w, unit) step" where
  "payloadHasUserID =
     looking (\<lambda>tc. require (tc_userID tc \<noteq> []) (Errorf ''no user ID in response'' []))"

definition managedFlagTrue :: "('k, 'w, unit) step" where
  "managedFlagTrue =
     on_success reading_map (\<lambda>result.
       require (mget result ''managed'' = Some (JBool True))
         (Errorf ''expected managed to be true, got %v'' [FVal (value_at result ''managed'')]))"

text \<open>Nanoseconds since 1970.\<close>

definition UnixNano :: "time \<Rightarrow> int" where
  "UnixNano t = t - 62135596800 * second"

definition fresh_user :: "'w net \<Rightarrow> string \<Rightarrow> ('k, 'w, unit) step" where
  "fresh_user N path =
     on_success (timeNow N) (\<lambda>now.
       thereafter (tc_request N ''POST'' path
           (Some (jtexts [(''email'', ''user'' @ int_str (UnixNano now) @ ''@example.com'')])) [])
         (on_success reading_map (take_userID [''id''])))"

definition existingManagedUserGeneric :: "'w net \<Rightarrow> ('k, 'w, unit) step" where
  "existingManagedUserGeneric N =
     looking (\<lambda>tc.
       thereafter
         (if tc_appSecret tc = [] then hmacHeaders ''local-test-app-id'' ''local-test-app-secret'' else ok ())
         (fresh_user N ''/auth/v1/users/managed''))"

definition managedUserFromEndpoint :: "'w net \<Rightarrow> string \<Rightarrow> ('k, 'w, unit) step" where
  "managedUserFromEndpoint N path = fresh_user N path"

text \<open>A step whose error is dropped.\<close>

definition anyway :: "('k, 'w, 'a) step \<Rightarrow> ('k, 'w, unit) step" where
  "anyway m s = (Inr (), snd (m s))"

definition existingManagedUserWithKYC :: "'w net \<Rightarrow> string \<Rightarrow> ('k, 'w, unit) step" where
  "existingManagedUserWithKYC N kycState =
     thereafter (existingManagedUserGeneric N)
       (if kycState = ''accepted''
        then looking (\<lambda>tc.
          thereafter (anyway (tc_request N ''POST'' (''/id/v1/users/'' @ tc_userID tc @ ''/hubs/gw'') None []))
            (anyway (requestForm N ''POST'' ''/iframe/submit''
              [(''user_id'', tc_userID tc), (''first_name'', ''John''), (''last_name'', ''Doe''),
               (''dob'', ''1990-01-01''), (''address'', ''123 Main St''), (''city'', ''Anytown''),
               (''country'', ''US''), (''risk_level'', ''low'')])))
        else ok ())"

definition authenticatedRequest :: "('k, 'w, unit) step" where
  "authenticatedRequest = hmacHeaders ''local-test-app-id'' ''local-test-app-secret''"

definition iframeTokenWithScope :: "'w net \<Rightarrow> string \<Rightarrow> ('k, 'w, unit) step" where
  "iframeTokenWithScope N scope =
     looking (\<lambda>tc.
       thereafter (tc_request N ''POST'' ''/auth/v1/tokens'' (Some (jmap [(''scope'', jstrs (parseScope scope))]))
           [(''x-gatehub-managed-user-uuid'', tc_userID tc)])
         (on_success reading_map (\<lambda>result.
           case as_string (mget result ''token'') of
             None \<Rightarrow> ok ()
           | Some t \<Rightarrow> setting (\<lambda>tc. tc\<lparr>tc_iframeToken := t\<rparr>))))"

section \<open>The parts of a signature\<close>

definition cleanMockGatehubInstanceWithAuthenticationEnforced :: "('k, 'w, unit) step" where
  "cleanMockGatehubInstanceWithAuthenticationEnforced = mockgatehubStarted"

definition validCredentialsWithAppIdAndSecret :: "string \<Rightarrow> string \<Rightarrow> ('k, 'w, unit) step" where
  "validCredentialsWithAppIdAndSecret appID secret = hmacHeaders appID secret"

definition currentTimestampInMilliseconds :: "'w net \<Rightarrow> ('k, 'w, unit) step" where
  "currentTimestampInMilliseconds N =
     on_success (timeNow N) (\<lambda>now. setting (\<lambda>tc. tc\<lparr>tc_signatureTime := int_str (UnixMilli now)\<rparr>))"

definition fixedTimestampValue :: "string \<Rightarrow> ('k, 'w, unit) step" where
  "fixedTimestampValue value = setting (\<lambda>tc. tc\<lparr>tc_signatureTime := value\<rparr>)"

definition bodyIs :: "string \<Rightarrow> ('k, 'w, unit) step" where
  "bodyIs b = setting (\<lambda>tc. tc\<lparr>tc_signatureBody := b\<rparr>)"

definition baseStringIs :: "string \<Rightarrow> ('k, 'w, unit) step" where
  "baseStringIs template = setting (\<lambda>tc. tc\<lparr>tc_signatureBase := template\<rparr>)"

definition baseStringWithNoBodyComponent :: "string \<Rightarrow> ('k, 'w, unit) step" where
  "baseStringWithNoBodyComponent template = setting (\<lambda>tc. tc\<lparr>tc_signatureBase := template\<rparr>)"

definition baseStringUsingPathOnly :: "string \<Rightarrow> ('k, 'w, unit) step" where
  "baseStringUsingPathOnly template = setting (\<lambda>tc. tc\<lparr>tc_signatureBase := template\<rparr>)"

definition baseStringUsingOldSimpleFormat :: "string \<Rightarrow> ('k, 'w, unit) step" where
  "baseStringUsingOldSimpleFormat template = setting (\<lambda>tc. tc\<lparr>tc_signatureBase := template\<rparr>)"

definition baseStringIncludesQueryString :: "('k, 'w, unit) step" where
  "baseStringIncludesQueryString = ok ()"

definition baseStringUsesURL :: "string \<Rightarrow> ('k, 'w, unit) step" where
  "baseStringUsesURL url = setting (\<lambda>tc. tc\<lparr>tc_signatureURL := url\<rparr>)"

definition buildBaseString :: "key_order \<Rightarrow> 'k TestContext \<Rightarrow> string \<Rightarrow> string" where
  "buildBaseString ord tc template =
     (let b1 = (if tc_signatureTime tc \<noteq> [] then replace_all ''timestamp_ms'' (tc_signatureTime tc) template
                else template);
          b2 = (if tc_signatureBody tc \<noteq> [] then replace_all ''{body}'' (tc_signatureBody tc) b1 else b1)
      in replacePlaceholders ord tc b2)"

definition signatureComputedFrom :: "'w net \<Rightarrow> string \<Rightarrow> ('k, 'w, unit) step" where
  "signatureComputedFrom N baseTemplate =
     setting (\<lambda>tc. tc\<lparr>tc_signatureOverride :=
       computeHMAC (tc_appSecret tc) (buildBaseString (n_order N) tc baseTemplate)\<rparr>)"

definition signatureComputedUsingSeconds :: "string \<Rightarrow> ('k, 'w, unit) step" where
  "signatureComputedUsingSeconds seconds =
     setting (\<lambda>tc. tc\<lparr>tc_signatureOverride :=
       computeHMAC (tc_appSecret tc) (trim (\<lambda>c. c = CHR ''|'')
         (seconds @ ''|POST|http://localhost:25151/auth/v1/users/managed|'' @ tc_signatureBody tc))\<rparr>)"

section \<open>Signed requests\<close>

definition sendSignedRequest ::
  "'w net \<Rightarrow> string \<Rightarrow> string \<Rightarrow> string \<Rightarrow> string \<Rightarrow> string \<Rightarrow> string \<Rightarrow> string \<Rightarrow> bool \<Rightarrow> bool \<Rightarrow> bool \<Rightarrow>
     ('k, 'w, unit) step" where
  "sendSignedRequest N meth path0 bodyStr mode appIDOverride secretOverride timestampOverride0
       omitAppID omitTimestamp omitSignature =
     looking (\<lambda>tc0.
       let path = replacePlaceholders (n_order N) tc0 path0; url = tc_baseURL tc0 @ path in
       thereafter
         (if timestampOverride0 = [] \<and> tc_signatureTime tc0 = [] then currentTimestampInMilliseconds N else ok ())
         (looking (\<lambda>tc.
           let timestampOverride = (if timestampOverride0 = [] then tc_signatureTime tc else timestampOverride0);
               appID = (if appIDOverride \<noteq> [] then appIDOverride else tc_appID tc);
               secret = (if secretOverride \<noteq> [] then secretOverride else tc_appSecret tc);
               signURL0 = (if tc_signatureURL tc \<noteq> [] then tc_signatureURL tc else url);
               signURL = (if mode = ''path'' then path else signURL0);
               signature =
                 (if tc_signatureOverride tc \<noteq> [] then tc_signatureOverride tc
                  else if mode = ''simple'' then computeHMAC secret (timestampOverride @ meth @ path @ bodyStr)
                  else computeHMAC secret (trim (\<lambda>c. c = CHR ''|'')
                         (timestampOverride @ ''|'' @ meth @ ''|'' @ signURL @ ''|'' @ bodyStr)));
               h1 = (if omitAppID then tc_signatureHeaders tc
                     else mput ''x-gatehub-app-id'' appID (tc_signatureHeaders tc));
               h2 = (if omitTimestamp then h1 else mput ''x-gatehub-timestamp'' timestampOverride h1);
               headers = (if omitSignature then h2 else mput ''x-gatehub-signature'' signature h2);
               contentType = (if bodyStr \<noteq> [] then ''application/json'' else [])
           in (\<lambda>s. case requestRaw N meth path bodyStr contentType headers s of
                     (r, tc1, w) \<Rightarrow>
                       (case r of Inl e \<Rightarrow> Inl e | Inr _ \<Rightarrow> Inr (),
                        tc1\<lparr>tc_signatureOverride := [], tc_signatureURL := [], tc_signatureHeaders := []\<rparr>, w)))))"

definition maybeSendPendingRequest :: "'w net \<Rightarrow> ('k, 'w, unit) step" where
  "maybeSendPendingRequest N =
     looking (\<lambda>tc.
       if tc_pendingMethod tc = [] then ok ()
       else if mstr (tc_signatureHeaders tc) ''X-Forwarded-Proto'' = [] \<or>
               mstr (tc_signatureHeaders tc) ''X-Forwarded-Host'' = [] then ok ()
       else thereafter
         (sendSignedRequest N (tc_pendingMethod tc) (tc_pendingPath tc) (tc_pendingBody tc) (tc_pendingMode tc)
            [] [] [] False False False)
         (setting (\<lambda>tc. tc\<lparr>tc_pendingMethod := [], tc_pendingPath := [], tc_pendingBody := [],
            tc_pendingMode := []\<rparr>)))"

definition requestIncludesHeaderXForwardedProto :: "'w net \<Rightarrow> string \<Rightarrow> ('k, 'w, unit) step" where
  "requestIncludesHeaderXForwardedProto N value =
     thereafter (setting (\<lambda>tc. tc\<lparr>tc_signatureHeaders := mput ''X-Forwarded-Proto'' value (tc_signatureHeaders tc)\<rparr>))
       (maybeSendPendingRequest N)"

definition requestIncludesHeaderXForwardedHost :: "'w net \<Rightarrow> string \<Rightarrow> ('k, 'w, unit) step" where
  "requestIncludesHeaderXForwardedHost N value =
     thereafter (setting (\<lambda>tc. tc\<lparr>tc_signatureHeaders := mput ''X-Forwarded-Host'' value (tc_signatureHeaders tc)\<rparr>))
       (maybeSendPendingRequest N)"

definition responseContainsUserID :: "('k, 'w, unit) step" where
  "responseContainsUserID =
     on_success reading_map (\<lambda>result.
       require (as_string (mget result ''id'') \<notin> {None, Some []} \<or> as_string (mget result ''user_id'') \<notin> {None, Some []})
         (Errorf ''no user id in response'' []))"

definition responseStatusIsNot :: "int \<Rightarrow> ('k, 'w, unit) step" where
  "responseStatusIsNot status =
     looking (\<lambda>tc.
       case tc_lastResponse tc of
         None \<Rightarrow> fail (Errorf ''no response'' [])
       | Some rp \<Rightarrow> require (rp_StatusCode rp \<noteq> status)
           (Errorf ''expected status not %d, got %d'' [FInt status, FInt (rp_StatusCode rp)]))"

definition postSignedUsingFullURL :: "'w net \<Rightarrow> string \<Rightarrow> string \<Rightarrow> ('k, 'w, unit) step" where
  "postSignedUsingFullURL N path b = sendSignedRequest N ''POST'' path b ''full'' [] [] [] False False False"

definition getSignedUsingFullURL :: "'w net \<Rightarrow> string \<Rightarrow> ('k, 'w, unit) step" where
  "getSignedUsingFullURL N path = sendSignedRequest N ''GET'' path [] ''full'' [] [] [] False False False"

definition postSignedUsingFullURLWithQuery :: "'w net \<Rightarrow> string \<Rightarrow> string \<Rightarrow> ('k, 'w, unit) step" where
  "postSignedUsingFullURLWithQuery N path b =
     sendSignedRequest N ''POST'' path b ''full'' [] [] [] False False False"

definition postSignedUsingProxiedURL :: "'w net \<Rightarrow> string \<Rightarrow> string \<Rightarrow> ('k, 'w, unit) step" where
  "postSignedUsingProxiedURL N path b =
     thereafter (setting (\<lambda>tc. tc\<lparr>tc_pendingMethod := ''POST'', tc_pendingPath := path, tc_pendingBody := b,
         tc_pendingMode := ''full''\<rparr>))
       (maybeSendPendingRequest N)"

definition postSignedUsingPathOnly :: "'w net \<Rightarrow> string \<Rightarrow> string \<Rightarrow> ('k, 'w, unit) step" where
  "postSignedUsingPathOnly N path b = sendSignedRequest N ''POST'' path b ''path'' [] [] [] False False False"

definition postSignedUsingSimpleFormat :: "'w net \<Rightarrow> string \<Rightarrow> string \<Rightarrow> ('k, 'w, unit) step" where
  "postSignedUsingSimpleFormat N path b = sendSignedRequest N ''POST'' path b ''simple'' [] [] [] False False False"

definition postWithoutSignatureHeader :: "'w net \<Rightarrow> string \<Rightarrow> string \<Rightarrow> ('k, 'w, unit) step" where
  "postWithoutSignatureHeader N path b = sendSignedRequest N ''POST'' path b ''full'' [] [] [] False False True"

definition postWithoutTimestampHeader :: "'w net \<Rightarrow> string \<Rightarrow> string \<Rightarrow> ('k, 'w, unit) step" where
  "postWithoutTimestampHeader N path b = sendSignedRequest N ''POST'' path b ''full'' [] [] [] False True False"

definition postWithoutAppIDHeader :: "'w net \<Rightarrow> string \<Rightarrow> string \<Rightarrow> ('k, 'w, unit) step" where
  "postWithoutAppIDHeader N path b = sendSignedRequest N ''POST'' path b ''full'' [] [] [] True False False"

definition postWithUnknownAppID :: "'w net \<Rightarrow> string \<Rightarrow> string \<Rightarrow> string \<Rightarrow> ('k, 'w, unit) step" where
  "postWithUnknownAppID N path b appID = sendSignedRequest N ''POST'' path b ''full'' appID [] [] False False False"

definition postSignedWithSecret :: "'w net \<Rightarrow> string \<Rightarrow> string \<Rightarrow> string \<Rightarrow> ('k, 'w, unit) step" where
  "postSignedWithSecret N path b secret =
     sendSignedRequest N ''POST'' path b ''full'' [] secret [] False False False"

definition postSignedWithTimestamp :: "'w net \<Rightarrow> string \<Rightarrow> string \<Rightarrow> ('k, 'w, unit) step" where
  "postSignedWithTimestamp N path timestamp =
     looking (\<lambda>tc. sendSignedRequest N ''POST'' path (tc_signatureBody tc) ''full'' [] [] timestamp False False False)"

section \<open>Requests of a browser\<close>

definition getHealthWithoutHMAC :: "'w net \<Rightarrow> ('k, 'w, unit) step" where
  "getHealthWithoutHMAC N = plainly (requestRaw N ''GET'' ''/health'' [] [] [])"

definition user_if_none :: "'w net \<Rightarrow> ('k, 'w, unit) step" where
  "user_if_none N = looking (\<lambda>tc. if tc_userID tc = [] then existingManagedUserGeneric N else ok ())"

definition getRootWithoutHMAC :: "'w net \<Rightarrow> ('k, 'w, unit) step" where
  "getRootWithoutHMAC N =
     thereafter (user_if_none N) (looking (\<lambda>tc.
     thereafter (tc_request N ''POST'' ''/auth/v1/tokens?clientId=test-client''
         (Some (jmap [(''scope'', jstrs [''auth''])])) [(''x-gatehub-managed-user-uuid'', tc_userID tc)])
     (on_success reading_map (\<lambda>result.
       let token = (case as_string (mget result ''token'') of None \<Rightarrow> [] | Some t \<Rightarrow> t) in
       thereafter (require (token \<noteq> []) (Errorf ''missing token for root request'' []))
         (plainly (requestRaw N ''GET'' (''/?paymentType=onboarding&bearer='' @ token) [] [] []))))))"

definition postIframeSubmitWithoutHMAC :: "'w net \<Rightarrow> ('k, 'w, unit) step" where
  "postIframeSubmitWithoutHMAC N =
     thereafter (user_if_none N) (looking (\<lambda>tc.
       plainly (requestRaw N ''POST'' ''/iframe/submit''
         (''user_id='' @ tc_userID tc @ ''&first_name=Test&last_name=User&dob=1990-01-01&address=123+Main+St'' @
          ''&city=NY&country=USA&risk_level=low'') ''application/x-www-form-urlencoded'' [])))"

section \<open>Organizations\<close>

definition patchOrganizationConfig :: "'w net \<Rightarrow> string \<Rightarrow> string \<Rightarrow> string \<Rightarrow> ('k, 'w, unit) step" where
  "patchOrganizationConfig N orgID apiBaseURL type2fa =
     plainly (tc_request N ''PATCH'' (''/auth/v1/users/organization/'' @ orgID)
       (Some (jtexts [(''apiBaseUrl'', apiBaseURL), (''type2fa'', type2fa)])) [])"

definition responseFieldIs :: "string \<Rightarrow> string \<Rightarrow> ('k, 'w, unit) step" where
  "responseFieldIs field expected =
     on_success (wrapping (\<lambda>e. Errorf ''failed to parse response: %w'' [FErr e]) reading_map) (\<lambda>result.
       case mget result field of
         None \<Rightarrow> fail (Errorf ''field %q not found in response. Available: %v'' [FStr field, FMap result])
       | Some v \<Rightarrow> require (sprint_v v = expected)
           (Errorf ''expected %s to be %q, got %q'' [FStr field, FStr expected, FStr (sprint_v v)]))"

definition responseHasTimestamps :: "('k, 'w, unit) step" where
  "responseHasTimestamps =
     on_success (wrapping (\<lambda>e. Errorf ''failed to parse response: %w'' [FErr e]) reading_map) (\<lambda>result.
       each (\<lambda>field.
         case mget result field of
           None \<Rightarrow> fail (Errorf ''missing field %q in response'' [FStr field])
         | Some v \<Rightarrow> require (as_string (Some v) \<notin> {None, Some []})
             (Errorf ''field %q should be a non-empty string, got %v'' [FStr field, FVal v]))
         [''createdAt'', ''updatedAt''])"

end
