(* ===== verification/Test_Server.thy ===== *)
theory Test_Server
  imports Test_Signatures Server_Properties
begin

text \<open>
  The acceptance tests against the server: what \<^verbatim>\<open>net/http\<close> does with a request of the client before the
  server's middleware sees it, what the client gets back, and scenarios of \<^verbatim>\<open>signature_authentication.feature\<close>
  that pass on every server.
\<close>

section \<open>Paths on the wire\<close>

text \<open>The bytes that a path keeps when it is escaped, and the further bytes that one which is escaped may have.\<close>

definition path_char :: "char \<Rightarrow> bool" where
  "path_char c \<longleftrightarrow> is_alnum c \<or> c \<in> set ''-_.~$&+,/:;=@''"

definition hex_upper :: "nat \<Rightarrow> char" where
  "hex_upper n = char_of (if n < 10 then 48 + n else 55 + n)"

definition escape_path :: "string \<Rightarrow> string" where
  "escape_path s = concat (map (\<lambda>c.
     if path_char c then [c]
     else let n = (of_char c :: nat) in [CHR ''%'', hex_upper (n div 16), hex_upper (n mod 16)]) s)"

definition validEncoded :: "string \<Rightarrow> bool" where
  "validEncoded p \<longleftrightarrow> list_all (\<lambda>c. path_char c \<or> c \<in> set ''!()*[]%'' \<or> c = CHR 0x27) p"

text \<open>The path that the client sends, and the two paths that the server makes of it.\<close>

definition wire_path :: "string \<Rightarrow> string option" where
  "wire_path p =
     map_option (\<lambda>q. let w = (if validEncoded p then p else escape_path q) in if w = [] then ''/'' else w)
       (unescape encodeOther p)"

definition server_paths :: "string \<Rightarrow> (string \<times> string) option" where
  "server_paths w =
     map_option (\<lambda>q. (q, if escape_path q = w then q else w)) (unescape encodeOther w)"

section \<open>Queries and forms\<close>

definition query_unescape :: "string \<Rightarrow> string option" where
  "query_unescape s = unescape encodeOther (map (\<lambda>c. if c = CHR ''+'' then CHR '' '' else c) s)"

definition query_pair :: "string \<Rightarrow> (string \<times> string) option" where
  "query_pair s =
     (let (k, v) = cut (CHR ''='') s in
      case (query_unescape k, query_unescape v) of (Some a, Some b) \<Rightarrow> Some (a, b) | _ \<Rightarrow> None)"

text \<open>The first value of each key; \<open>None\<close> when a part is malformed.\<close>

definition add_values :: "string gomap \<Rightarrow> (string \<times> string) list \<Rightarrow> string gomap" where
  "add_values m kvs = foldl (\<lambda>m (k, v). if mget m k = None then mput k v m else m) m kvs"

definition parse_query :: "string \<Rightarrow> (string \<times> string) list option" where
  "parse_query q =
     (if CHR '';'' \<in> set q then None
      else all_some (map query_pair (filter (\<lambda>p. p \<noteq> []) (split_on (CHR ''&'') q))))"

section \<open>Requests and answers\<close>

text \<open>A header that is sent as it is.\<close>

definition clean_header :: "string \<times> string \<Rightarrow> bool" where
  "clean_header kv \<longleftrightarrow>
     fst kv \<noteq> [] \<and> list_all token_char (fst kv) \<and> list_all (\<lambda>c. \<not> is_ctl c) (snd kv) \<and>
     (snd kv = [] \<or> hd (snd kv) \<noteq> CHR '' '' \<and> last (snd kv) \<noteq> CHR '' '')"

text \<open>
  The host that a request goes to and the request as it arrives there; \<open>None\<close> for the requests about
  which nothing is said: with another scheme, a malformed query or form, or a header that \<^verbatim>\<open>net/http\<close> changes.
\<close>

definition arrival_of :: "sent \<Rightarrow> (string \<times> arrival) option" where
  "arrival_of req =
     (let u = fst (cut (CHR ''#'') (sq_URL req));
          rest = drop 7 u;
          host = takeWhile (\<lambda>c. c \<noteq> CHR ''/'' \<and> c \<noteq> CHR ''?'') rest;
          (p, q) = cut (CHR ''?'') (drop (length host) rest);
          form = (sq_Method req \<in> {''POST'', ''PUT'', ''PATCH''} \<and>
                  mstr (sq_header req) ''content-type'' = ''application/x-www-form-urlencoded'')
      in if \<not> has_prefix u ''http://'' \<or> CHR '' '' \<in> set q \<or> \<not> list_all clean_header (sq_header req) then None
         else case (Option.bind (wire_path p) server_paths, parse_query q,
                    parse_query (if form then sq_body req else [])) of
           (Some (path, route), Some qs, Some fs) \<Rightarrow>
             Some (host,
               \<lparr>ar_request =
                  \<lparr>r_Method = sq_Method req, r_Path = path, r_RawQuery = q, r_Host = host, r_TLS = False,
                   r_header = sq_header req, r_query = add_values [] qs, r_params = [],
                   r_form = add_values [] (fs @ qs)\<rparr>,
                ar_route = route, ar_body = Some (sq_body req), ar_form_error = None\<rparr>)
         | _ \<Rightarrow> None)"

definition listener_at :: "string \<Rightarrow> listener option" where
  "listener_at host =
     (if ''http://'' @ host = mockGatehubURL then Some App
      else if ''http://'' @ host = mockGatehubAdminURL then Some Admin else None)"

definition body_bytes :: "body \<Rightarrow> string" where
  "body_bytes b = (case b of Json j \<Rightarrow> json_text j @ [CHR 0x0A] | Text s \<Rightarrow> s | Empty \<Rightarrow> [])"

text \<open>The client sees the status, the body, and of each header that the handler sets its first value.\<close>

definition lower_keys :: "string gomap \<Rightarrow> string gomap" where
  "lower_keys = map (apfst (\<lambda>k. ToLower k))"

definition answers :: "reply \<Rightarrow> response \<Rightarrow> bool" where
  "answers rp resp \<longleftrightarrow>
     rp_StatusCode rp = rs_status resp \<and> rp_body rp = body_bytes (rs_body resp) \<and>
     list_all (\<lambda>(k, v). reply_header rp k = mstr (lower_keys (rs_header resp)) (ToLower k)) (rs_header resp)"

definition redirects :: "response \<Rightarrow> bool" where
  "redirects resp \<longleftrightarrow> rs_status resp \<in> {301, 302, 303, 307, 308}"

text \<open>
  The client reaches the server: a request for one of its two listeners is served once, with fresh
  identifiers, and what the server answers comes back, unless it is a redirect that the client follows; looking at
  the clock changes nothing. \<open>view\<close> gives the server in the world.
\<close>

definition serves :: "'w net \<Rightarrow> ('w \<Rightarrow> mem server) \<Rightarrow> 'o outside \<Rightarrow> router \<Rightarrow> bool" where
  "serves N view X rt \<longleftrightarrow>
     (\<forall>w. view (snd (n_now N w)) = view w) \<and>
     (\<forall>follow req w host a l. arrival_of req = Some (host, a) \<longrightarrow> listener_at host = Some l \<longrightarrow>
        (\<exists>e. fresh_ids e (h_store (sv_handler (view w))) \<and>
           (\<forall>resp sv. serve memory_storage X rt l e a (view w) = Some (resp, sv) \<longrightarrow>
              \<not> (follow \<and> redirects resp) \<longrightarrow>
              (\<exists>rp w1. n_do N follow req w = (Got rp, w1) \<and> answers rp resp \<and> view w1 = sv))))"

lemma served:
  assumes "serves N view X rt" and "arrival_of req = Some (host, a)" and "listener_at host = Some l"
    and "\<And>e. fresh_ids e (h_store (sv_handler (view w))) \<Longrightarrow>
       \<exists>resp sv. serve memory_storage X rt l e a (view w) = Some (resp, sv) \<and> \<not> redirects resp \<and> P resp sv"
  shows "\<exists>rp w1 resp. n_do N follow req w = (Got rp, w1) \<and> answers rp resp \<and> P resp (view w1)"
proof -
  obtain e where e: "fresh_ids e (h_store (sv_handler (view w)))"
    "\<And>resp sv. serve memory_storage X rt l e a (view w) = Some (resp, sv) \<Longrightarrow> \<not> (follow \<and> redirects resp) \<Longrightarrow>
       \<exists>rp w1. n_do N follow req w = (Got rp, w1) \<and> answers rp resp \<and> view w1 = sv"
    using assms(1-3) unfolding serves_def by blast
  from assms(4) [OF e(1)] obtain resp sv where
    "serve memory_storage X rt l e a (view w) = Some (resp, sv)" "\<not> redirects resp" "P resp sv" by blast
  with e(2) show ?thesis by blast
qed

section \<open>Plain paths\<close>

text \<open>Paths of letters, digits and a few marks go through the client, the wire and the server unchanged.\<close>

definition plain_path :: "string \<Rightarrow> bool" where
  "plain_path p \<longleftrightarrow> take 1 p = ''/'' \<and> list_all (\<lambda>c. is_alnum c \<or> c \<in> set ''/-_.'') p"

lemma plain_marks:
  assumes "list_all (\<lambda>c. is_alnum c \<or> c \<in> set ''/-_.'') p"
  shows "CHR ''{'' \<notin> set p" "CHR ''#'' \<notin> set p" "CHR ''?'' \<notin> set p" "CHR ''%'' \<notin> set p" "list_all path_char p"
    "list_all (\<lambda>c. \<not> is_ctl c) p"
proof -
  have "\<not> is_alnum CHR ''{''" "\<not> is_alnum CHR ''#''" "\<not> is_alnum CHR ''?''" "\<not> is_alnum CHR ''%''"
    by (simp_all add: is_alnum_def)
  then show "CHR ''{'' \<notin> set p" "CHR ''#'' \<notin> set p" "CHR ''?'' \<notin> set p" "CHR ''%'' \<notin> set p"
    using assms unfolding list_all_iff by auto
  show "list_all path_char p"
    by (rule list.pred_mono_strong [OF assms]) (auto simp: path_char_def)
  show "list_all (\<lambda>c. \<not> is_ctl c) p"
    by (rule list.pred_mono_strong [OF assms]) (auto simp: is_ctl_def is_alnum_def Let_def)
qed

lemma unescape_no_escapes: "CHR ''%'' \<notin> set p \<Longrightarrow> unescape encodeOther p = Some p"
  by (induction p) auto

lemma escape_plain: "list_all path_char p \<Longrightarrow> escape_path p = p"
  by (induction p) (simp_all add: escape_path_def)

lemma wire_plain: "plain_path p \<Longrightarrow> Option.bind (wire_path p) server_paths = Some (p, p)"
proof -
  assume "plain_path p"
  then have p: "list_all path_char p" "CHR ''%'' \<notin> set p" "p \<noteq> []"
    using plain_marks(4,5) [of p] by (auto simp: plain_path_def)
  moreover have "validEncoded p"
    unfolding validEncoded_def by (rule list.pred_mono_strong [OF p(1)]) simp
  ultimately show ?thesis
    by (simp add: wire_path_def server_paths_def unescape_no_escapes escape_plain Let_def)
qed

lemma replace_all_absent: "CHR ''{'' \<notin> set s \<Longrightarrow> replace_all (CHR ''{'' # old) new s = s"
  by (induction s) (auto simp: has_prefix_def)

lemma placeholder_keys: "(k, v) \<in> set (placeholders tc) \<Longrightarrow> \<exists>l. k = CHR ''{'' # l"
  by (auto simp: placeholders_def)

lemma set_range_pairs: "set (range_pairs ord m) \<subseteq> set m"
  by (auto simp: range_pairs_def List.map_filter_def dest: map_of_SomeD)

lemma replacePlaceholders_plain:
  assumes "CHR ''{'' \<notin> set p"
  shows "replacePlaceholders ord tc p = p"
proof -
  have "foldl (\<lambda>p (k, v). replace_all k v p) p kvs = p" if "set kvs \<subseteq> set (placeholders tc)" for kvs
    using that
  proof (induction kvs)
    case (Cons kv kvs)
    then obtain l v where "kv = (CHR ''{'' # l, v)" using placeholder_keys by (cases kv) fastforce
    with Cons assms show ?case by (simp add: replace_all_absent)
  qed simp
  from this [OF set_range_pairs] show ?thesis by (simp add: replacePlaceholders_def)
qed

lemma cut_absent: "d \<notin> set s \<Longrightarrow> cut d s = (s, [])"
  unfolding cut_def by (induction s) auto

lemma takeWhile_to_slash: "CHR ''/'' \<notin> set h \<Longrightarrow> CHR ''?'' \<notin> set h \<Longrightarrow> take 1 p = ''/'' \<Longrightarrow>
    takeWhile (\<lambda>c. c \<noteq> CHR ''/'' \<and> c \<noteq> CHR ''?'') (h @ p) = h"
  by (induction h) (cases p; auto)+

section \<open>Sending\<close>

lemma url_Parse_plain:
  assumes "plain_path p"
  shows "url_Parse (mockGatehubURL @ p) \<noteq> None"
proof -
  have p: "list_all (\<lambda>c. is_alnum c \<or> c \<in> set ''/-_.'') p" "take 1 p = ''/''"
    using assms by (simp_all add: plain_path_def)
  note m = plain_marks [OF p(1)]
  let ?u = "mockGatehubURL @ p"
  have "CHR ''#'' \<notin> set ?u" using m(2) by (simp add: mockGatehubURL_def)
  then have c: "cut CHR ''#'' ?u = (?u, [])" by (rule cut_absent)
  have "list_all (\<lambda>c. \<not> is_ctl c) ?u" using m(6) by (simp add: mockGatehubURL_def is_ctl_def)
  then have k: "\<not> list_ex is_ctl ?u" by (simp add: list_all_iff list_ex_iff)
  have g: "getScheme_from True ?u [] ?u = Some (''http'', ''//localhost:25151'' @ p)"
    by (simp add: mockGatehubURL_def is_alnum_def)
  have q: "cut CHR ''?'' (''//localhost:25151'' @ p) = (''//localhost:25151'' @ p, [])"
    by (rule cut_absent) (use m(3) in simp)
  have a: "takeWhile (\<lambda>c. c \<noteq> CHR ''/'') (''localhost:25151'' @ p) = ''localhost:25151''"
      "dropWhile (\<lambda>c. c \<noteq> CHR ''/'') (''localhost:25151'' @ p) = p"
    using p(2) by (cases p; simp)+
  have h: "parseAuthority ''localhost:25151'' = Some ''localhost:25151''" "ToLower ''http'' = ''http''" by code_simp+
  have n: "?u \<noteq> ''*''" by (simp add: mockGatehubURL_def)
  show ?thesis
    unfolding url_Parse_def Let_def c prod.case g option.case q fst_conv h(2)
    using k n a h(1) m(4) by (simp add: has_prefix_def unescape_no_escapes)
qed

definition admin_path :: "string \<Rightarrow> bool" where
  "admin_path p \<longleftrightarrow> list_ex (has_prefix p) adminPathPrefixes"

lemma urlFor_plain: "\<not> admin_path p \<Longrightarrow> urlFor tc p = tc_baseURL tc @ p"
  by (auto simp: urlFor_def admin_path_def list_ex_iff has_prefix_def)

text \<open>The arrival of a request without form.\<close>

definition plain_arrival :: "string \<Rightarrow> string \<Rightarrow> string gomap \<Rightarrow> string \<Rightarrow> arrival" where
  "plain_arrival m p hs b =
     \<lparr>ar_request =
        \<lparr>r_Method = m, r_Path = p, r_RawQuery = [], r_Host = ''localhost:25151'', r_TLS = False,
         r_header = hs, r_query = [], r_params = [], r_form = []\<rparr>,
      ar_route = p, ar_body = Some b, ar_form_error = None\<rparr>"

lemma arrival_plain:
  assumes "plain_path p" and "list_all clean_header hs"
    and "mstr hs ''content-type'' \<noteq> ''application/x-www-form-urlencoded''"
  shows "arrival_of \<lparr>sq_Method = m, sq_URL = mockGatehubURL @ p, sq_header = hs, sq_body = b\<rparr> =
    Some (''localhost:25151'', plain_arrival m p hs b)"
proof -
  have p: "list_all (\<lambda>c. is_alnum c \<or> c \<in> set ''/-_.'') p" "take 1 p = ''/''"
    using assms(1) by (simp_all add: plain_path_def)
  note m = plain_marks [OF p(1)]
  have c: "cut CHR ''#'' (mockGatehubURL @ p) = (mockGatehubURL @ p, [])"
    by (rule cut_absent) (use m(2) in \<open>simp add: mockGatehubURL_def\<close>)
  have d: "drop 7 (mockGatehubURL @ p) = ''localhost:25151'' @ p" by (simp add: mockGatehubURL_def)
  have t: "takeWhile (\<lambda>c. c \<noteq> CHR ''/'' \<and> c \<noteq> CHR ''?'') (''localhost:25151'' @ p) = ''localhost:25151''"
    by (rule takeWhile_to_slash) (use p(2) in simp_all)
  have e: "drop (length ''localhost:25151'') (''localhost:25151'' @ p) = p" by simp
  have q: "cut CHR ''?'' p = (p, [])" by (rule cut_absent) (rule m(3))
  have x: "has_prefix (mockGatehubURL @ p) ''http://''" by (simp add: mockGatehubURL_def has_prefix_def)
  have n: "parse_query [] = Some []" by (simp add: parse_query_def)
  show ?thesis
    unfolding arrival_of_def Let_def sent.simps c fst_conv d t e q prod.case wire_plain [OF assms(1)]
    using assms(2,3) x n by (simp add: plain_arrival_def add_values_def)
qed

text \<open>Headers.\<close>

lemma set_update_subset: "set (AList.update k v m) \<subseteq> insert (k, v) (set m)"
  by (induction m) auto

lemma set_headers_Cons: "set_headers ((k, v) # kvs) q = set_headers kvs (set_header k v q)"
  by (simp add: set_headers_def)

lemma set_headers_rest [simp]:
  "sq_Method (set_headers kvs q) = sq_Method q" "sq_URL (set_headers kvs q) = sq_URL q"
  "sq_body (set_headers kvs q) = sq_body q"
proof -
  have "sq_Method (set_headers kvs q) = sq_Method q \<and> sq_URL (set_headers kvs q) = sq_URL q \<and>
      sq_body (set_headers kvs q) = sq_body q"
  proof (induction kvs arbitrary: q)
    case (Cons kv kvs)
    then show ?case by (cases kv) (simp add: set_headers_Cons set_header_def)
  qed (simp add: set_headers_def)
  then show "sq_Method (set_headers kvs q) = sq_Method q" "sq_URL (set_headers kvs q) = sq_URL q"
    "sq_body (set_headers kvs q) = sq_body q" by simp_all
qed

lemma mget_set_headers:
  assumes "distinct (map fst kvs)" and "list_all (\<lambda>kv. ToLower (fst kv) = fst kv) kvs"
  shows "mget (sq_header (set_headers kvs q)) k =
    (case map_of kvs k of None \<Rightarrow> mget (sq_header q) k | Some v \<Rightarrow> Some v)"
  using assms
proof (induction kvs arbitrary: q)
  case (Cons kv kvs)
  obtain k1 v1 where kv: "kv = (k1, v1)" by fastforce
  with Cons.prems have l: "ToLower k1 = k1" "map_of kvs k1 = None" by (simp_all add: map_of_eq_None_iff)
  show ?case
    using Cons.IH [of "set_header k1 v1 q"] Cons.prems l
    by (auto simp: kv set_headers_Cons set_header_def split: option.splits)
qed (simp add: set_headers_def)

lemma set_set_headers:
  assumes "list_all (\<lambda>kv. ToLower (fst kv) = fst kv) kvs"
  shows "set (sq_header (set_headers kvs q)) \<subseteq> set kvs \<union> set (sq_header q)"
  using assms
proof (induction kvs arbitrary: q)
  case (Cons kv kvs)
  obtain k v where kv: "kv = (k, v)" by fastforce
  with Cons.prems have "set (sq_header (set_header k v q)) \<subseteq> insert (k, v) (set (sq_header q))"
    using set_update_subset by (simp add: set_header_def mput_def)
  with Cons.IH [of "set_header k v q"] Cons.prems show ?case by (auto simp: kv set_headers_Cons)
qed (simp add: set_headers_def)

lemma map_of_range_pairs:
  assumes "permutes_keys ord" and "wf_map m"
  shows "map_of (range_pairs ord m) = map_of m" "distinct (map fst (range_pairs ord m))"
proof -
  have p: "mset (range_pairs ord m) = mset m" by (rule mset_range_pairs [OF assms])
  then have "mset (map fst (range_pairs ord m)) = mset (map fst m)" by (metis mset_map)
  then show d: "distinct (map fst (range_pairs ord m))"
    using assms(2) mset_eq_imp_distinct_iff unfolding wf_map_def by blast
  from p have "set (range_pairs ord m) = set m" by (rule mset_eq_setD)
  then show "map_of (range_pairs ord m) = map_of m"
    using d assms(2) map_of_inject_set unfolding wf_map_def by blast
qed

definition clean_value :: "string \<Rightarrow> bool" where
  "clean_value v \<longleftrightarrow> list_all (\<lambda>c. \<not> is_ctl c \<and> c \<noteq> CHR '' '') v"

lemma clean_header_value: "k \<noteq> [] \<Longrightarrow> list_all token_char k \<Longrightarrow> clean_value v \<Longrightarrow> clean_header (k, v)"
  by (cases v) (auto simp: clean_header_def clean_value_def list_all_iff)

lemma clean_hex: "clean_value (hex_EncodeToString s)"
proof -
  have "\<not> is_ctl (hex_digit n) \<and> hex_digit n \<noteq> CHR '' ''" if "n < 16" for n
    using that by (auto simp: is_ctl_def hex_digit_def dest!: arg_cong [of "char_of _" _ "of_char :: char \<Rightarrow> nat"])
  moreover have "byte_val c div 16 < 16" for c by (rule less_mult_imp_div_less) simp
  moreover have "byte_val c mod 16 < 16" for c by simp
  ultimately show ?thesis unfolding clean_value_def list_all_iff hex_EncodeToString_def by auto
qed

lemma clean_nat: "clean_value (nat_str n)"
  unfolding clean_value_def
  by (rule list.pred_mono_strong [OF is_digit_nat_str]) (auto simp: is_digit_def is_ctl_def)

lemma clean_int: "clean_value (int_str i)"
  using clean_nat unfolding int_str_def by (auto simp: clean_value_def is_ctl_def)

lemma lower_headers:
  "ToLower ''x-gatehub-app-id'' = ''x-gatehub-app-id''" "ToLower ''x-gatehub-timestamp'' = ''x-gatehub-timestamp''"
  "ToLower ''x-gatehub-signature'' = ''x-gatehub-signature''" "ToLower ''Content-Type'' = ''content-type''"
  "ToLower ''X-Forwarded-Proto'' = ''x-forwarded-proto''" "ToLower ''X-Forwarded-Host'' = ''x-forwarded-host''"
  by code_simp+

lemma token_headers:
  "list_all token_char ''x-gatehub-app-id''" "list_all token_char ''x-gatehub-timestamp''"
  "list_all token_char ''x-gatehub-signature''" "list_all token_char ''content-type''"
  by code_simp+

lemma clean_json: "clean_header (''content-type'', ''application/json'')"
  by code_simp

text \<open>A request without placeholders and without form is served with the headers it was given.\<close>

lemma requestRaw_served:
  assumes N: "serves N view X rt" "permutes_keys (n_order N)"
    and p: "plain_path p" "\<not> admin_path p" and tc: "tc_baseURL tc = mockGatehubURL"
    and m: "m \<noteq> []" "list_all token_char m" and ct: "ct \<in> {[], ''application/json''}"
    and hs: "wf_map hs" "list_all (\<lambda>kv. ToLower (fst kv) = fst kv) hs" "list_all clean_header hs"
      "mget hs ''content-type'' = None"
    and P: "\<And>e hdr. fresh_ids e (h_store (sv_handler (view w))) \<Longrightarrow>
      (\<forall>k. k \<noteq> ''content-type'' \<longrightarrow> mget hdr k = mget hs k) \<Longrightarrow>
      \<exists>resp sv. serve memory_storage X rt App e (plain_arrival m p hdr b) (view w) = Some (resp, sv) \<and>
        \<not> redirects resp \<and> P resp sv"
  shows "\<exists>rp w1 resp. requestRaw N m p b ct hs (tc, w) =
      (Inr rp, tc\<lparr>tc_lastResponse := Some rp, tc_lastResponseBody := rp_body rp\<rparr>, w1) \<and> answers rp resp \<and> P resp (view w1)"
proof -
  let ?r0 = "\<lparr>sq_Method = m, sq_URL = mockGatehubURL @ p, sq_header = [], sq_body = b\<rparr>"
  let ?r1 = "if ct \<noteq> [] then set_header ''Content-Type'' ct ?r0 else ?r0"
  let ?kvs = "range_pairs (n_order N) hs"
  let ?req = "set_headers ?kvs ?r1"
  let ?hdr = "sq_header ?req"
  have ne: "CHR ''{'' \<notin> set p" using p(1) plain_marks(1) unfolding plain_path_def by blast
  have new: "NewRequest m (mockGatehubURL @ p) b = Inr ?r0"
    using m url_Parse_plain [OF p(1)] by (simp add: NewRequest_def)
  have send: "requestRaw N m p b ct hs (tc, w) = doRequest N ?req (tc, w)"
    by (simp add: requestRaw_def looking_def on_success_def given_def ok_def Let_def replacePlaceholders_plain [OF ne]
        urlFor_plain [OF p(2)] tc new del: append.simps)
  have low: "list_all (\<lambda>kv. ToLower (fst kv) = fst kv) ?kvs"
    using hs(2) set_range_pairs [of "n_order N" hs] unfolding list_all_iff by blast
  note r = map_of_range_pairs [OF N(2) hs(1)]
  have get: "mget ?hdr k = (case mget hs k of None \<Rightarrow> mget (sq_header ?r1) k | Some v \<Rightarrow> Some v)" for k
    by (simp only: mget_set_headers [OF r(2) low] r(1))
  have h1: "mget (sq_header ?r1) k = (if ct \<noteq> [] \<and> k = ''content-type'' then Some ct else None)" for k
    unfolding set_header_def lower_headers by simp
  have "set (sq_header ?r1) \<subseteq> {(''content-type'', ''application/json'')}"
    unfolding set_header_def lower_headers using ct by (auto simp: mput_def)
  then have "set ?hdr \<subseteq> insert (''content-type'', ''application/json'') (set hs)"
    using set_set_headers [OF low, of ?r1] set_range_pairs [of "n_order N" hs] by blast
  then have clean: "list_all clean_header ?hdr"
    using hs(3) clean_json unfolding list_all_iff by blast
  have form: "mstr ?hdr ''content-type'' \<noteq> ''application/x-www-form-urlencoded''"
    unfolding mstr_def get h1 hs(4) using ct by auto
  have "?req = \<lparr>sq_Method = m, sq_URL = mockGatehubURL @ p, sq_header = ?hdr, sq_body = b\<rparr>"
    by (simp add: set_header_def)
  then have arr: "arrival_of ?req = Some (''localhost:25151'', plain_arrival m p ?hdr b)"
    using arrival_plain [OF p(1) clean form] by metis
  have at: "listener_at ''localhost:25151'' = Some App" by (simp add: listener_at_def mockGatehubURL_def)
  have "\<forall>k. k \<noteq> ''content-type'' \<longrightarrow> mget ?hdr k = mget hs k"
    unfolding get h1 by (simp split: option.splits)
  from served [OF N(1) arr at P [OF _ this], of "tc_follow tc"] show ?thesis
    unfolding send by (fastforce simp: doRequest_def Let_def)
qed

section \<open>Signed requests\<close>

definition signed_headers :: "bool \<Rightarrow> bool \<Rightarrow> bool \<Rightarrow> string \<Rightarrow> string \<Rightarrow> string \<Rightarrow> string gomap" where
  "signed_headers no_app no_time no_sig app ts sig =
     (let h1 = (if no_app then [] else mput ''x-gatehub-app-id'' app []);
          h2 = (if no_time then h1 else mput ''x-gatehub-timestamp'' ts h1)
      in if no_sig then h2 else mput ''x-gatehub-signature'' sig h2)"

lemma mget_signed_headers:
  "mget (signed_headers na nt ns app ts sig) k =
     (if k = ''x-gatehub-app-id'' \<and> \<not> na then Some app else if k = ''x-gatehub-timestamp'' \<and> \<not> nt then Some ts
      else if k = ''x-gatehub-signature'' \<and> \<not> ns then Some sig else None)"
  by (simp add: signed_headers_def Let_def)

lemma in_signed_headers:
  "(k, v) \<in> set (signed_headers na nt ns app ts sig) \<Longrightarrow>
     k = ''x-gatehub-app-id'' \<and> v = app \<or> k = ''x-gatehub-timestamp'' \<and> v = ts \<or> k = ''x-gatehub-signature'' \<and> v = sig"
  by (auto simp: signed_headers_def Let_def mput_def split: if_splits)

lemma signed_headers_ok:
  assumes "clean_value app" and "clean_value ts" and "clean_value sig"
  shows "wf_map (signed_headers na nt ns app ts sig)"
    "list_all (\<lambda>kv. ToLower (fst kv) = fst kv) (signed_headers na nt ns app ts sig)"
    "list_all clean_header (signed_headers na nt ns app ts sig)"
proof -
  show "wf_map (signed_headers na nt ns app ts sig)" by (simp add: signed_headers_def Let_def)
  show "list_all (\<lambda>kv. ToLower (fst kv) = fst kv) (signed_headers na nt ns app ts sig)"
    unfolding list_all_iff
  proof
    fix kv
    assume "kv \<in> set (signed_headers na nt ns app ts sig)"
    then have "fst kv = ''x-gatehub-app-id'' \<or> fst kv = ''x-gatehub-timestamp'' \<or> fst kv = ''x-gatehub-signature''"
      using in_signed_headers [of "fst kv" "snd kv"] by auto
    with lower_headers(1-3) show "ToLower (fst kv) = fst kv" by (elim disjE) (simp only:)+
  qed
  have "clean_header (''x-gatehub-app-id'', app)" by (rule clean_header_value [OF _ token_headers(1) assms(1)]) simp
  moreover have "clean_header (''x-gatehub-timestamp'', ts)"
    by (rule clean_header_value [OF _ token_headers(2) assms(2)]) simp
  moreover have "clean_header (''x-gatehub-signature'', sig)"
    by (rule clean_header_value [OF _ token_headers(3) assms(3)]) simp
  ultimately have clean: "clean_header (k, v)" if "(k, v) \<in> set (signed_headers na nt ns app ts sig)" for k v
    using in_signed_headers [OF that] by (elim disjE conjE) (simp only:)+
  show "list_all clean_header (signed_headers na nt ns app ts sig)"
    unfolding list_all_iff using clean by (intro ballI) (metis prod.collapse)
qed

definition client_signature :: "'k TestContext \<Rightarrow> string \<Rightarrow> string \<Rightarrow> string \<Rightarrow> string \<Rightarrow> string" where
  "client_signature tc ts m url b = GenerateSignature ts m url b (tc_appSecret tc)"

text \<open>What the last answer of a context and the world satisfy after a step.\<close>

definition replied :: "('w \<Rightarrow> mem server) \<Rightarrow> (response \<Rightarrow> mem server \<Rightarrow> bool) \<Rightarrow>
    (failure + unit) \<times> 'k TestContext \<times> 'w \<Rightarrow> bool" where
  "replied view P r \<longleftrightarrow>
     (case r of (x, tc, w) \<Rightarrow> x = Inr () \<and> (\<exists>rp resp. tc_lastResponse tc = Some rp \<and>
        tc_lastResponseBody tc = rp_body rp \<and> answers rp resp \<and> P resp (view w)))"

lemma sendSigned_served:
  assumes N: "serves N view X rt" "permutes_keys (n_order N)"
    and p: "plain_path p" "\<not> admin_path p" and m: "m \<noteq> []" "list_all token_char m"
    and tc: "tc_baseURL tc = mockGatehubURL" "tc_signatureHeaders tc = []" "tc_signatureURL tc = []"
      "tc_signatureOverride tc = []" "tc_signatureTime tc \<noteq> []" "clean_value (tc_signatureTime tc)"
    and app: "app = (if appO \<noteq> [] then appO else tc_appID tc)" "clean_value app"
    and P: "\<And>e hdr. fresh_ids e (h_store (sv_handler (view w))) \<Longrightarrow>
      (\<forall>k. k \<noteq> ''content-type'' \<longrightarrow> mget hdr k = mget (signed_headers na nt ns app (tc_signatureTime tc)
         (client_signature tc (tc_signatureTime tc) m (mockGatehubURL @ p) b)) k) \<Longrightarrow>
      \<exists>resp sv. serve memory_storage X rt App e (plain_arrival m p hdr b) (view w) = Some (resp, sv) \<and>
        \<not> redirects resp \<and> P resp sv"
  shows "replied view P (sendSignedRequest N m p b ''full'' appO [] [] na nt ns (tc, w))"
proof -
  let ?ts = "tc_signatureTime tc"
  let ?sig = "client_signature tc ?ts m (mockGatehubURL @ p) b"
  let ?hs = "signed_headers na nt ns app ?ts ?sig"
  let ?ct = "if b \<noteq> [] then ''application/json'' else []"
  have ne: "CHR ''{'' \<notin> set p" using p(1) plain_marks(1) unfolding plain_path_def by blast
  have "clean_value ?sig" by (simp add: client_signature_def GenerateSignature_def clean_hex)
  note hs = signed_headers_ok [OF app(2) tc(6) this, of na nt ns]
  have "mget ?hs ''content-type'' = None" by (simp add: mget_signed_headers)
  moreover have "?ct \<in> {[], ''application/json''}" by simp
  ultimately obtain rp w1 resp where R: "requestRaw N m p b ?ct ?hs (tc, w) =
      (Inr rp, tc\<lparr>tc_lastResponse := Some rp, tc_lastResponseBody := rp_body rp\<rparr>, w1)"
      "answers rp resp" "P resp (view w1)"
    using requestRaw_served [where P = P, OF N p tc(1) m _ hs _ P] by blast
  have sig: "computeHMAC (tc_appSecret tc)
      (trim (\<lambda>c. c = CHR ''|'') (?ts @ ''|'' @ m @ ''|'' @ (mockGatehubURL @ p) @ ''|'' @ b)) = ?sig"
    by (simp add: computeHMAC_def client_signature_def GenerateSignature_def signed_message_def)
  have "sendSignedRequest N m p b ''full'' appO [] [] na nt ns (tc, w) =
      (case requestRaw N m p b ?ct ?hs (tc, w) of
         (r, tc1, w1) \<Rightarrow> (case r of Inl e \<Rightarrow> Inl e | Inr _ \<Rightarrow> Inr (),
            tc1\<lparr>tc_signatureOverride := [], tc_signatureURL := [], tc_signatureHeaders := []\<rparr>, w1))"
    unfolding sendSignedRequest_def looking_def on_success_def Let_def fst_conv replacePlaceholders_plain [OF ne] tc(1-4)
      signed_headers_def
    using tc(5) sig by (simp add: ok_def tc(1-4) app(1) del: append.simps append_assoc)
  with R show ?thesis by (fastforce simp: replied_def)
qed

lemma sendSigned_timed:
  assumes "tc_signatureTime tc = []"
  shows "sendSignedRequest N m p b mode a s [] na nt ns (tc, w) =
    sendSignedRequest N m p b mode a s [] na nt ns
      (tc\<lparr>tc_signatureTime := int_str (UnixMilli (fst (n_now N w)))\<rparr>, snd (n_now N w))"
proof -
  obtain t w1 where t: "n_now N w = (t, w1)" by fastforce
  have "int_str i \<noteq> []" for i by (simp add: int_str_def)
  then show ?thesis
    using assms t by (simp add: sendSignedRequest_def looking_def on_success_def Let_def currentTimestampInMilliseconds_def
        timeNow_def setting_def ok_def replacePlaceholders_def placeholders_def)
qed

end
