(* ===== verification/Test_Scenarios.thy ===== *)
theory Test_Scenarios
  imports Test_Server
begin

text \<open>
  Scenarios of \<^verbatim>\<open>signature_authentication.feature\<close>, run by the client against the server: the ones that forge
  a request end as the feature says, and so does the one that signs the full URL.
\<close>

section \<open>Scenarios\<close>

definition scenario :: "('k, 'w, unit) step list \<Rightarrow> ('k, 'w, unit) step" where
  "scenario = each (\<lambda>m. m)"

text \<open>The background of the feature.\<close>

definition signature_background :: "string \<Rightarrow> string \<Rightarrow> ('k, 'w, unit) step list" where
  "signature_background app secret =
     [cleanMockGatehubInstanceWithAuthenticationEnforced, validCredentialsWithAppIdAndSecret app secret]"

text \<open>The requests without one of the headers, or of an application that is not known.\<close>

definition forged_posts :: "'w net \<Rightarrow> string \<Rightarrow> string \<Rightarrow> string \<Rightarrow> ('k, 'w, unit) step list" where
  "forged_posts N path b other =
     [postWithoutSignatureHeader N path b, postWithoutTimestampHeader N path b, postWithoutAppIDHeader N path b,
      postWithUnknownAppID N path b other]"

text \<open>The request that is signed as the server expects, for a new managed user.\<close>

definition signed_user_steps :: "'w net \<Rightarrow> string \<Rightarrow> ('k, 'w, unit) step list" where
  "signed_user_steps N email =
     [currentTimestampInMilliseconds N, baseStringIs ''timestamp_ms|POST|http://localhost:25151/auth/v1/users/managed|{body}'',
      postSignedUsingFullURL N ''/auth/v1/users/managed'' (json_text (JObj [(''email'', JStr email)])),
      responseStatusIs 201, responseContainsUserID]"

definition prepared :: "string \<Rightarrow> string \<Rightarrow> 'k TestContext" where
  "prepared app secret = Reset\<lparr>tc_appID := app, tc_appSecret := secret\<rparr>"

lemma prepared_simps [simp]:
  "tc_baseURL (prepared app secret) = mockGatehubURL" "tc_signatureHeaders (prepared app secret) = []"
  "tc_signatureURL (prepared app secret) = []" "tc_signatureOverride (prepared app secret) = []"
  "tc_signatureTime (prepared app secret) = []" "tc_appID (prepared app secret) = app"
  "tc_appSecret (prepared app secret) = secret"
  by (simp_all add: prepared_def Reset_def)

lemma scenario_background:
  "scenario (signature_background app secret @ ms) s = scenario ms (prepared app secret, snd s)"
  by (simp add: scenario_def signature_background_def cleanMockGatehubInstanceWithAuthenticationEnforced_def
      mockgatehubStarted_def validCredentialsWithAppIdAndSecret_def hmacHeaders_def setting_def on_success_def prepared_def)

lemma scenario_replied:
  assumes "replied view P (m s)"
  shows "\<exists>tc1 w1 rp resp. m s = (Inr (), tc1, w1) \<and> scenario (m # ms) s = scenario ms (tc1, w1) \<and>
    tc_lastResponse tc1 = Some rp \<and> tc_lastResponseBody tc1 = rp_body rp \<and> answers rp resp \<and> P resp (view w1)"
proof -
  obtain tc1 w1 where r: "m s = (Inr (), tc1, w1)" using assms unfolding replied_def by (cases "m s") auto
  with assms show ?thesis by (auto simp: replied_def scenario_def on_success_def)
qed

lemma scenario_status:
  "tc_lastResponse tc = Some rp \<Longrightarrow> rp_StatusCode rp = c \<Longrightarrow>
     scenario (responseStatusIs c # ms) (tc, w) = scenario ms (tc, w)"
  by (simp add: scenario_def responseStatusIs_def looking_def require_def ok_def on_success_def)

lemma scenario_Nil [simp]: "scenario [] s = (Inr (), s)"
  by (simp add: scenario_def ok_def)

section \<open>Forged requests\<close>

lemma plain_arrival_header:
  assumes "\<forall>k. k \<noteq> ''content-type'' \<longrightarrow> mget hdr k = mget hs k"
  shows "Header_Get (ar_request (plain_arrival m p hdr b)) ''x-gatehub-app-id'' = mstr hs ''x-gatehub-app-id''"
    "Header_Get (ar_request (plain_arrival m p hdr b)) ''x-gatehub-timestamp'' = mstr hs ''x-gatehub-timestamp''"
    "Header_Get (ar_request (plain_arrival m p hdr b)) ''x-gatehub-signature'' = mstr hs ''x-gatehub-signature''"
    "Header_Get (ar_request (plain_arrival m p hdr b)) ''X-Forwarded-Proto'' = mstr hs ''x-forwarded-proto''"
    "Header_Get (ar_request (plain_arrival m p hdr b)) ''X-Forwarded-Host'' = mstr hs ''x-forwarded-host''"
  unfolding Header_Get_def lower_headers plain_arrival_def mstr_def using assms by simp_all

lemma plain_arrival_simps [simp]:
  "r_Path (ar_request (plain_arrival m p hdr b)) = p" "r_Method (ar_request (plain_arrival m p hdr b)) = m"
  "ar_route (plain_arrival m p hdr b) = p" "ar_body (plain_arrival m p hdr b) = Some b"
  by (simp_all add: plain_arrival_def)

lemma forged_refused:
  assumes "cfg_EnforceAuthentication (h_config (sv_handler sv))" and "p \<notin> set PublicEndpoints"
    and "\<forall>k. k \<noteq> ''content-type'' \<longrightarrow> mget hdr k = mget (signed_headers na nt ns app ts sig) k"
    and "na \<or> nt \<or> ns \<or> mget (cfg_ValidCredentials (h_config (sv_handler sv))) app = None"
  shows "\<exists>resp sv1. serve S X rt App e (plain_arrival m p hdr b) sv = Some (resp, sv1) \<and> \<not> redirects resp \<and>
    rs_status resp = 401 \<and> sv1 = sv"
proof -
  have "Middleware (cfg_ValidCredentials (h_config (sv_handler sv))) (ar_request (plain_arrival m p hdr b)) (Some b) =
      unauthorized"
    using assms(2,4) unfolding Middleware_def plain_arrival_header [OF assms(3)] mstr_def mget_signed_headers
    by (auto simp: Let_def split: option.splits)
  with assms(1) show ?thesis
    by (simp add: serve_def gate_def unauthorized_def http_Error_def redirects_def)
qed


section \<open>An accepted request\<close>

text \<open>What is written as an object is read back whatever follows it.\<close>

lemma pvalue_object:
  assumes "no_floats (JObj kvs)" and "length (json_text (JObj kvs)) \<le> n"
  shows "pvalue n (json_text (JObj kvs) @ r) = Some (tree (JObj kvs), r)"
proof -
  obtain m where n: "n = Suc m" using assms(2) by (cases n) auto
  show ?thesis
  proof (cases kvs)
    case Nil
    then show ?thesis by (simp add: n)
  next
    case (Cons kv ws)
    have "join_with '','' (map member_text kvs) = CHR 0x22 # drop 1 (join_with '','' (map member_text kvs))"
      using Cons by (cases ws) (auto simp: member_text_def quoted_def)
    from skip_first [OF this not_ws(4)]
    have "take 1 (skip_ws (join_with '','' (map member_text kvs) @ CHR ''}'' # r)) \<noteq> ''}''" by simp
    moreover have "pmembers m (join_with '','' (map member_text kvs) @ CHR ''}'' # r) =
        Some (map (\<lambda>(k, v). (k, tree v)) kvs, r)"
      by (rule pmembers_texts)
        (use assms Cons n json_text_JObj [of kvs] pvalue_text in \<open>auto simp: list_all_iff split_beta\<close>)
    ultimately show ?thesis by (simp add: n json_text_JObj del: json_text.simps(7))
  qed
qed

lemma reading_object:
  assumes "no_floats (JObj kvs)" and "tc_lastResponseBody tc = body_bytes (Json (JObj kvs))"
    and "interface_members (map (\<lambda>(k, v). (k, tree v)) kvs) = Some ms"
  shows "reading_map (tc, w) = (Inr (as_gomap ms), tc, w)"
proof -
  have "json_parse (json_text (JObj kvs) @ [CHR 0x0A]) = Some (tree (JObj kvs))"
    using pvalue_object [OF assms(1), of "Suc (Suc (length (json_text (JObj kvs))))" "[CHR 0x0A]"]
    by (simp add: json_parse_def is_ws_def)
  then show ?thesis
    using assms(2,3) by (simp add: reading_def looking_def unmarshal_with_def tree_gomap_def given_def ok_def
        body_bytes_def del: json_text.simps)
qed

lemma created_user_members:
  "\<exists>kvs ms. User_json ((new_managed_user i email)\<lparr>u_CreatedAt := t\<rparr>) = JObj kvs \<and> no_floats (JObj kvs) \<and>
     interface_members (map (\<lambda>(k, v). (k, tree v)) kvs) = Some ms \<and> mget (as_gomap ms) ''id'' = Some (JStr i)"
proof -
  have z: "ParseFloat (int_str 0) = Some f0" by code_simp
  show ?thesis
    unfolding User_json_def jslice_def jtime_def new_managed_user_def zero_User_def
    by (intro exI conjI, rule HOL.refl, simp, simp add: z, simp add: as_gomap_def)
qed

text \<open>The router serves a path that a registered route matches.\<close>

definition router_finds :: "router \<Rightarrow> bool" where
  "router_finds rt \<longleftrightarrow>
     (\<forall>rs meth path. list_ex (\<lambda>r. rt_method r = meth \<and> path_matches (rt_pattern r) path) rs \<longrightarrow>
        (\<exists>route params. rt rs meth path = Found route params))"

lemma managed_path:
  "plain_path ''/auth/v1/users/managed''" "\<not> admin_path ''/auth/v1/users/managed''"
  "''/auth/v1/users/managed'' \<notin> set PublicEndpoints"
  "list_ex (\<lambda>r. rt_method r = ''POST'' \<and> path_matches (rt_pattern r) ''/auth/v1/users/managed'') setupRoutes"
  "list_all (\<lambda>r. rt_method r = ''POST'' \<and> (path_matches (rt_pattern r) ''/auth/v1/users/managed'' \<or>
     rt_pattern r = ''/auth/v1/users/managed/'') \<longrightarrow> rt_handler r = ''CreateManagedUser'') setupRoutes"
  by code_simp+

lemma managed_route:
  assumes "router_laws rt" and "router_finds rt"
  obtains route params where "rt setupRoutes ''POST'' ''/auth/v1/users/managed'' = Found route params"
    "rt_handler route = ''CreateManagedUser''"
proof -
  obtain route params where f: "rt setupRoutes ''POST'' ''/auth/v1/users/managed'' = Found route params"
    using assms(2) managed_path(4) unfolding router_finds_def by blast
  then have "route \<in> set setupRoutes" "rt_method route = ''POST''"
    "path_matches (rt_pattern route) ''/auth/v1/users/managed'' \<or> rt_pattern route = ''/auth/v1/users/managed'' @ ''/''"
    using assms(1) unfolding router_laws_def by blast+
  then have "rt_handler route = ''CreateManagedUser''" using managed_path(5) by (simp add: list_all_iff)
  with f that show ?thesis by blast
qed

lemma email_body:
  "decodeJSON CreateManagedUserRequest_fields zero_CreateManagedUserRequest
     (Some (json_text (JObj [(''email'', JStr email)]))) = Some \<lparr>cmu_Email = email\<rparr>"
proof -
  let ?j = "JObj [(''email'', JStr email)]"
  have "first_value (json_text ?j) = Some (tree ?j)"
    using pvalue_object [of "[(''email'', JStr email)]" "Suc (length (json_text ?j))" "[]"]
    by (simp add: first_value_def del: json_text.simps)
  then show ?thesis
    by (simp add: decodeJSON_def CreateManagedUserRequest_fields_def tree_struct_def set_plain_def tree_string_def
        zero_CreateManagedUserRequest_def del: json_text.simps)
qed

lemma managed_user_created:
  assumes "email \<noteq> []" and "mget (m_usersByEmail (db (h_store h))) email = None"
  shows "\<exists>resp h' t p. CreateManagedUser memory_storage e (Some \<lparr>cmu_Email = email\<rparr>) h = (resp, h') \<and>
    rs_status resp = 201 \<and> rs_body resp = Json (User_json (user_of (h_store h') p)) \<and>
    user_of (h_store h') p =
      (new_managed_user (if uuid e 0 = [] then uuid e 1 else uuid e 0) email)\<lparr>u_CreatedAt := t\<rparr> \<and>
    fst (mem_GetUserByEmail email (h_store h')) = Inr p"
proof -
  have m: "marshals (User_json u)" for u by (simp add: User_json_def jslice_def list_all_iff)
  show ?thesis
    using assms by (auto simp: CreateManagedUser_def mem_GetUserByEmail_def alloc_user_def mem_CreateUser_def
        new_managed_user_def zero_User_def Let_def m)
qed

text \<open>The answer that reports a new user, and the server that holds it.\<close>

definition user_created :: "string \<Rightarrow> response \<Rightarrow> mem server \<Rightarrow> bool" where
  "user_created email resp sv \<longleftrightarrow>
     (\<exists>i t p. i \<noteq> [] \<and> rs_status resp = 201 \<and>
        rs_body resp = Json (User_json (user_of (h_store (sv_handler sv)) p)) \<and>
        user_of (h_store (sv_handler sv)) p = (new_managed_user i email)\<lparr>u_CreatedAt := t\<rparr> \<and>
        fst (mem_GetUserByEmail email (h_store (sv_handler sv))) = Inr p)"

abbreviation managed :: string where
  "managed \<equiv> ''/auth/v1/users/managed''"

abbreviation email_text :: "string \<Rightarrow> string" where
  "email_text email \<equiv> json_text (JObj [(''email'', JStr email)])"

lemma signed_post_served:
  assumes rt: "router_laws rt" "router_finds rt"
    and creds: "mget (cfg_ValidCredentials (h_config (sv_handler sv))) app = Some secret" and app: "app \<noteq> []" and ts: "ts \<noteq> []"
    and email: "email \<noteq> []" "mget (m_usersByEmail (db (h_store (sv_handler sv)))) email = None"
    and e: "uuid e 0 \<noteq> []"
    and h: "\<forall>k. k \<noteq> ''content-type'' \<longrightarrow> mget hdr k = mget (signed_headers False False False app ts
      (GenerateSignature ts ''POST'' (mockGatehubURL @ managed) (email_text email) secret)) k"
  shows "\<exists>resp sv1. serve memory_storage X rt App e (plain_arrival ''POST'' managed hdr (email_text email)) sv = Some (resp, sv1) \<and>
    \<not> redirects resp \<and> user_created email resp sv1"
proof -
  let ?a = "plain_arrival ''POST'' managed hdr (email_text email)"
  obtain route params where route: "rt setupRoutes ''POST'' managed = Found route params"
    "rt_handler route = ''CreateManagedUser''" using managed_route [OF rt] .
  have "reconstructURL (ar_request ?a) = mockGatehubURL @ managed"
    unfolding reconstructURL_def plain_arrival_header [OF h] mstr_def mget_signed_headers
    by (simp add: plain_arrival_def mockGatehubURL_def)
  moreover have "r_Path (ar_request ?a) \<notin> set PublicEndpoints"
    using managed_path(3) by (simp only: plain_arrival_simps(1) not_False_eq_True)
  ultimately have "Middleware (cfg_ValidCredentials (h_config (sv_handler sv))) (ar_request ?a) (Some (email_text email)) = Pass"
    using creds app ts by (subst Middleware_Pass_iff)
      (simp_all add: plain_arrival_header [OF h] mstr_def mget_signed_headers del: json_text.simps)
  then have "serve memory_storage X rt App e ?a sv =
      run_handler memory_storage X e (?a\<lparr>ar_request := (ar_request ?a)\<lparr>r_params := params\<rparr>\<rparr>) ''CreateManagedUser'' sv"
    by (simp add: serve_def gate_def routes_of_def route del: json_text.simps)
  also have "\<dots> = map_option (\<lambda>(resp, h). (resp, sv\<lparr>sv_handler := h\<rparr>))
      (Some (CreateManagedUser memory_storage e (Some \<lparr>cmu_Email = email\<rparr>) (sv_handler sv)))"
    by (simp add: run_handler_def endpoints_def page_endpoints_def auth_endpoints_def Let_def email_body del: json_text.simps)
  finally show ?thesis
    using managed_user_created [OF email, of e] e
    by (fastforce simp: redirects_def user_created_def simp del: json_text.simps)
qed

lemma signed_post_replied:
  assumes N: "serves N view X rt" "permutes_keys (n_order N)" and rt: "router_laws rt" "router_finds rt"
    and tc: "tc_baseURL tc = mockGatehubURL \<and> tc_signatureHeaders tc = [] \<and> tc_signatureURL tc = [] \<and>
      tc_signatureOverride tc = [] \<and> tc_signatureTime tc \<noteq> [] \<and> clean_value (tc_signatureTime tc) \<and> tc_appID tc = app"
    and creds: "mget (cfg_ValidCredentials (h_config (sv_handler (view w)))) app = Some (tc_appSecret tc)"
    and app: "app \<noteq> []" "clean_value app"
    and email: "email \<noteq> []" "mget (m_usersByEmail (db (h_store (sv_handler (view w))))) email = None"
  shows "replied view (user_created email) (postSignedUsingFullURL N managed (email_text email) (tc, w))"
  unfolding postSignedUsingFullURL_def
proof (rule sendSigned_served [OF N managed_path(1,2), where tc = tc and w = w and appO = "[]" and app = app])
  show "list_all token_char ''POST''" by code_simp
  fix e hdr
  assume "fresh_ids e (h_store (sv_handler (view w)))"
    and "\<forall>k. k \<noteq> ''content-type'' \<longrightarrow> mget hdr k = mget (signed_headers False False False app (tc_signatureTime tc)
      (client_signature tc (tc_signatureTime tc) ''POST'' (mockGatehubURL @ managed) (email_text email))) k"
  then show "\<exists>resp sv. serve memory_storage X rt App e (plain_arrival ''POST'' managed hdr (email_text email)) (view w) =
      Some (resp, sv) \<and> \<not> redirects resp \<and> user_created email resp sv"
    unfolding client_signature_def
    by (intro signed_post_served [OF rt creds app(1) _ email, where ts = "tc_signatureTime tc"])
      (use tc in \<open>simp_all add: fresh_ids_def del: json_text.simps\<close>)
qed (use app tc in simp_all)

lemma id_is_read:
  assumes "user_created email resp sv" and "answers rp resp" and "tc_lastResponseBody tc = rp_body rp"
  shows "responseContainsUserID (tc, w) = (Inr (), tc, w)"
proof -
  obtain i t where i: "i \<noteq> []" "rs_body resp = Json (User_json ((new_managed_user i email)\<lparr>u_CreatedAt := t\<rparr>))"
    using assms(1) unfolding user_created_def by auto
  obtain kvs ms where k: "User_json ((new_managed_user i email)\<lparr>u_CreatedAt := t\<rparr>) = JObj kvs" "no_floats (JObj kvs)"
    "interface_members (map (\<lambda>(k, v). (k, tree v)) kvs) = Some ms" "mget (as_gomap ms) ''id'' = Some (JStr i)"
    using created_user_members by blast
  have "tc_lastResponseBody tc = body_bytes (Json (JObj kvs))" using assms(2,3) i(2) k(1) by (simp add: answers_def)
  from reading_object [OF k(2) this k(3), of w] show ?thesis
    using k(4) i(1) by (simp add: responseContainsUserID_def on_success_def as_string_def require_def ok_def)
qed

text \<open>
  C23: the signed request of the acceptance tests is accepted: on a server that knows the application and has no user
  of the given address, the client's signature over the full URL passes the middleware, the router finds the handler,
  the handler decodes the body and stores a managed user of that address, and the client reads status
  201 and the id of the user in the answer, so that the scenario passes.
\<close>

theorem signed_scenario_creates_user:
  fixes tc :: "'k TestContext"
  assumes N: "serves N view X rt" "permutes_keys (n_order N)" and rt: "router_laws rt" "router_finds rt"
    and creds: "mget (cfg_ValidCredentials (h_config (sv_handler (view w)))) app = Some secret"
    and app: "app \<noteq> []" "clean_value app"
    and email: "email \<noteq> []" "mget (m_usersByEmail (db (h_store (sv_handler (view w))))) email = None"
  shows "\<exists>tc1 w1 p. scenario (signature_background app secret @ signed_user_steps N email) (tc, w) = (Inr (), tc1, w1) \<and>
    fst (mem_GetUserByEmail email (h_store (sv_handler (view w1)))) = Inr p \<and>
    u_Email (user_of (h_store (sv_handler (view w1))) p) = email \<and>
    u_Managed (user_of (h_store (sv_handler (view w1))) p)"
proof -
  let ?ts = "int_str (UnixMilli (fst (n_now N w)))" and ?w = "snd (n_now N w)"
  let ?ctx = "prepared app secret :: 'k TestContext"
  let ?tc = "?ctx\<lparr>tc_signatureTime := ?ts, tc_signatureBase :=
    ''timestamp_ms|POST|http://localhost:25151/auth/v1/users/managed|{body}''\<rparr>"
  have v: "view ?w = view w" using N(1) by (simp add: serves_def)
  have ts: "?ts \<noteq> []" by (simp add: int_str_def)
  have sent: "replied view (user_created email) (postSignedUsingFullURL N managed (email_text email) (?tc, ?w))"
    by (rule signed_post_replied [OF N rt _ _ app]) (use creds email ts clean_int v in simp_all)
  have pre: "scenario (signed_user_steps N email) (?ctx, w) =
      scenario [postSignedUsingFullURL N managed (email_text email), responseStatusIs 201, responseContainsUserID] (?tc, ?w)"
    by (simp add: signed_user_steps_def scenario_def currentTimestampInMilliseconds_def timeNow_def baseStringIs_def
        on_success_def setting_def split_beta del: json_text.simps split: sum.split)
  from scenario_replied [where m = "postSignedUsingFullURL N managed (email_text email)", OF sent] obtain tc1 w1 rp resp where
    run: "scenario (signed_user_steps N email) (?ctx, w) =
      scenario [responseStatusIs 201, responseContainsUserID] (tc1, w1)"
    and r: "tc_lastResponse tc1 = Some rp" "tc_lastResponseBody tc1 = rp_body rp" "answers rp resp"
      "user_created email resp (view w1)"
    unfolding pre by blast
  have "rp_StatusCode rp = 201" using r(3,4) by (auto simp: answers_def user_created_def)
  then have "scenario (signed_user_steps N email) (?ctx, w) = scenario [responseContainsUserID] (tc1, w1)"
    unfolding run by (rule scenario_status [OF r(1)])
  also have "\<dots> = (Inr (), tc1, w1)"
    using id_is_read [OF r(4,3,2), of w1] by (simp add: scenario_def on_success_def ok_def)
  finally have "scenario (signed_user_steps N email) (?ctx, w) = (Inr (), tc1, w1)" .
  moreover obtain i t p where "user_of (h_store (sv_handler (view w1))) p = (new_managed_user i email)\<lparr>u_CreatedAt := t\<rparr>"
    "fst (mem_GetUserByEmail email (h_store (sv_handler (view w1)))) = Inr p"
    using r(4) unfolding user_created_def by blast
  ultimately show ?thesis unfolding scenario_background snd_conv
    by - (rule exI [of _ tc1], rule exI [of _ w1], rule exI [of _ p], simp add: new_managed_user_def)
qed

section \<open>Witnesses\<close>

text \<open>A world that is the server itself, with a name that is longer than every key of the store.\<close>

definition long_name :: "mem store \<Rightarrow> string" where
  "long_name s = replicate (Suc (sum_list (map (length \<circ> fst) (m_transactions (db s))) +
     sum_list (map (length \<circ> fst) (m_cards (db s))))) CHR ''u''"

definition loopback_env :: "mem store \<Rightarrow> env" where
  "loopback_env s = \<lparr>time_now = (\<lambda>_. 63713434332 * second), uuid = (\<lambda>_. long_name s), xrpl_address = (\<lambda>_. ''rNew''),
     random_bytes = (\<lambda>_. [])\<rparr>"

definition reply_of :: "response \<Rightarrow> reply" where
  "reply_of resp = \<lparr>rp_StatusCode = rs_status resp, rp_header = lower_keys (rs_header resp), rp_body = body_bytes (rs_body resp)\<rparr>"

definition loopback :: "(mem server) net" where
  "loopback =
     \<lparr>n_do = (\<lambda>follow req sv.
        case arrival_of req of
          None \<Rightarrow> (NotSent ''no route to host'', sv)
        | Some (host, a) \<Rightarrow>
            (case listener_at host of
               None \<Rightarrow> (NotSent ''connection refused'', sv)
             | Some l \<Rightarrow>
                 (case serve memory_storage demo_outside first_route l (loopback_env (h_store (sv_handler sv))) a sv of
                    None \<Rightarrow> (NotSent ''connection reset'', sv)
                  | Some (resp, sv1) \<Rightarrow> (Got (reply_of resp), sv1)))),
      n_now = (\<lambda>sv. (63713434332 * second, sv)), n_sleep = (\<lambda>_ sv. sv), n_order = (\<lambda>ks. ks)\<rparr>"

lemma long_key:
  fixes m :: "'a gomap"
  shows "sum_list (map (length \<circ> fst) m) < length k \<Longrightarrow> mget m k = None"
  by (induction m) auto

lemma loopback_fresh: "fresh_ids (loopback_env s) s"
proof -
  have l: "length (long_name s) = Suc (sum_list (map (length \<circ> fst) (m_transactions (db s))) +
      sum_list (map (length \<circ> fst) (m_cards (db s))))"
    by (simp only: long_name_def length_replicate)
  then have "long_name s \<noteq> []" by auto
  moreover have "mget (m_transactions (db s)) (long_name s) = None" "mget (m_cards (db s)) (long_name s) = None"
    by (rule long_key, simp add: l)+
  ultimately show ?thesis by (simp add: fresh_ids_def loopback_env_def mem_txs_def mem_cards_def)
qed

lemma loopback_serves: "serves loopback (\<lambda>sv. sv) demo_outside first_route"
proof -
  have "answers (reply_of resp) resp" for resp
    by (simp add: answers_def reply_of_def reply_header_def list_all_iff)
  then show ?thesis
    unfolding serves_def using loopback_fresh by (fastforce simp: loopback_def)
qed

lemma loopback_order: "permutes_keys (n_order loopback)"
  by (simp add: permutes_keys_def loopback_def)

lemma first_route_finds: "router_finds first_route"
proof -
  have "List.find P xs \<noteq> None" if "list_ex P xs" for P :: "route \<Rightarrow> bool" and xs
    using that by (induction xs) auto
  then show ?thesis by (fastforce simp: router_finds_def first_route_def split: option.splits)
qed

lemma demo_known:
  "cfg_EnforceAuthentication (h_config (sv_handler (started demo_handler)))"
  "mget (cfg_ValidCredentials (h_config (sv_handler (started demo_handler)))) i = (if i = ''app'' then Some ''secret'' else None)"
  "mget (m_usersByEmail (db (h_store (sv_handler (started demo_handler))))) ''sig-test@example.com'' = None"
  by (simp_all add: started_def demo_handler_def NewHandler_def demo_config_def demo_store_def)


theorem signed_scenario_creates_user_witness:
  "\<exists>tc1 sv p. scenario (signature_background ''app'' ''secret'' @ signed_user_steps loopback ''sig-test@example.com'')
       (Reset :: unit TestContext, started demo_handler) = (Inr (), tc1, sv) \<and>
     fst (mem_GetUserByEmail ''sig-test@example.com'' (h_store (sv_handler sv))) = Inr p"
proof -
  have "clean_value ''app''" by code_simp
  from signed_scenario_creates_user [OF loopback_serves loopback_order first_route_laws first_route_finds _ _ this,
      of "started demo_handler" "''secret''" "''sig-test@example.com''" "Reset :: unit TestContext"] demo_known
  show ?thesis by fastforce
qed

end
