(* ===== verification/Test_Accounts.thy ===== *)
theory Test_Accounts
  imports Test_Signatures Bodies
begin

text \<open>
  The steps about verification, wallets and rates: \<^verbatim>\<open>testenv/kyc_steps.go\<close>,
  \<^verbatim>\<open>kyc_state_steps.go\<close>, \<^verbatim>\<open>wallet_steps.go\<close>, \<^verbatim>\<open>rates_steps.go\<close>, and the waiting for webhooks of
  \<^verbatim>\<open>card_simulation_steps.go\<close>.
\<close>

section \<open>Waiting\<close>

text \<open>
  A loop that goes on until a deadline: the body ends it with \<open>Inl\<close> a result or an error, and otherwise the loop
  sleeps and starts over. Where the clock stands still it need not end; \<open>awaiting\<close> is then a failure.
\<close>

partial_function (option) polling ::
  "'w net \<Rightarrow> time \<Rightarrow> int \<Rightarrow> ('b \<Rightarrow> ('k, 'w, 'a + 'b) step) \<Rightarrow> 'b \<Rightarrow> 'k TestContext \<times> 'w \<Rightarrow>
     ((failure + 'a + 'b) \<times> 'k TestContext \<times> 'w) option" where
  "polling N deadline pause body acc s =
     (case timeNow N s of
        (Inl e, s1) \<Rightarrow> Some (Inl e, s1)
      | (Inr t, s1) \<Rightarrow>
          if t < deadline
          then
            (case body acc s1 of
               (Inl e, s2) \<Rightarrow> Some (Inl e, s2)
             | (Inr (Inl x), s2) \<Rightarrow> Some (Inr (Inl x), s2)
             | (Inr (Inr acc1), s2) \<Rightarrow>
                 polling N deadline pause body acc1 (fst s2, n_sleep N pause (snd s2)))
          else Some (Inr (Inr acc), s1))"

definition awaiting ::
  "'w net \<Rightarrow> int \<Rightarrow> int \<Rightarrow> ('b \<Rightarrow> ('k, 'w, 'a + 'b) step) \<Rightarrow> 'b \<Rightarrow> ('k, 'w, 'a + 'b) step" where
  "awaiting N timeout pause body acc =
     on_success (timeNow N) (\<lambda>t s.
       case polling N (t + timeout) pause body acc s of
         None \<Rightarrow> (Inl (Panic ''endless loop''), s)
       | Some r \<Rightarrow> r)"

definition webhookDeliveryTimeout :: int where
  "webhookDeliveryTimeout = 30 * second"

definition clearReceivedWebhooks :: "'w net \<Rightarrow> ('k, 'w, unit) step" where
  "clearReceivedWebhooks N = plainly (tc_request N ''DELETE'' ''/admin/received-webhooks'' None [])"

record hook =
  hk_EventType :: string
  hk_SignatureValid :: bool
  hk_Payload :: "json gomap"

definition zero_hook :: hook where
  "zero_hook = \<lparr>hk_EventType = [], hk_SignatureValid = False, hk_Payload = []\<rparr>"

definition hook_fields :: "hook fields" where
  "hook_fields =
     [(''event_type'', set_plain tree_string hk_EventType_update),
      (''signature_valid'', set_plain tree_bool hk_SignatureValid_update),
      (''payload'', \<lambda>v r.
         if v = TNull then Some (r\<lparr>hk_Payload := []\<rparr>)
         else map_option (\<lambda>m. r\<lparr>hk_Payload := m\<rparr>) (tree_map (hk_Payload r) v))]"

definition awaitWebhook :: "'w net \<Rightarrow> string \<Rightarrow> ('k, 'w, json gomap) step" where
  "awaitWebhook N event =
     restoring (on_success
       (awaiting N webhookDeliveryTimeout (400 * 1000000)
         (\<lambda>_. looking (\<lambda>tc.
           thereafter (tc_request N ''GET''
               (''/admin/received-webhooks?event='' @ event @ ''&user='' @ tc_userID tc) None [])
           (looking (\<lambda>tc1.
           on_success (wrapping
               (\<lambda>e. Errorf ''could not parse webhook sink response: %w. Body: %s''
                  [FErr e, FStr (tc_lastResponseBody tc1)])
               (reading_struct [(''webhooks'', set_slice zero_hook (tree_struct hook_fields zero_hook) (\<lambda>f. f))] []))
           (\<lambda>hooks.
             if hooks = [] then ok (Inr ())
             else if \<not> hk_SignatureValid (last hooks)
             then fail (Errorf ''webhook %s arrived without a valid signature'' [FStr event])
             else ok (Inl (hk_Payload (last hooks))))))))
         ())
       (\<lambda>r. case r of
          Inl payload \<Rightarrow> ok payload
        | Inr _ \<Rightarrow> looking (\<lambda>tc. fail (Errorf ''no %s webhook was delivered for user %s within %s''
            [FStr event, FStr (tc_userID tc), FInt webhookDeliveryTimeout]))))"

definition webhookIsDelivered :: "'w net \<Rightarrow> string \<Rightarrow> ('k, 'w, unit) step" where
  "webhookIsDelivered N event = plainly (awaitWebhook N event)"

text \<open>The object under \<^verbatim>\<open>data\<close> of a webhook.\<close>

definition webhook_data :: "'w net \<Rightarrow> string \<Rightarrow> string \<Rightarrow> ('k, 'w, json gomap) step" where
  "webhook_data N msg event =
     on_success (awaitWebhook N event) (\<lambda>payload.
       case as_object (mget payload ''data'') of
         None \<Rightarrow> fail (Errorf msg [FMap payload])
       | Some d \<Rightarrow> ok d)"

section \<open>Verification\<close>

definition postEndpoint :: "'w net \<Rightarrow> string \<Rightarrow> ('k, 'w, unit) step" where
  "postEndpoint N path =
     on_success (tc_request N ''POST'' path None []) (\<lambda>resp. looking (\<lambda>tc.
     on_success (wrapping
         (\<lambda>e. Errorf ''failed to unmarshal response from %s: %w. Response body: %s. Status: %d''
            [FStr path, FErr e, FStr (tc_lastResponseBody tc), FInt (rp_StatusCode resp)]) reading_map)
     (\<lambda>result.
       case as_string (mget result ''token'') of
         None \<Rightarrow> ok ()
       | Some t \<Rightarrow> setting (\<lambda>tc. tc\<lparr>tc_kycToken := t\<rparr>))))"

definition responseHasKYCToken :: "('k, 'w, unit) step" where
  "responseHasKYCToken =
     looking (\<lambda>tc. require (tc_kycToken tc \<noteq> []) (Errorf ''no KYC token in response'' []))"

definition getShowsKYCState :: "'w net \<Rightarrow> string \<Rightarrow> string \<Rightarrow> string \<Rightarrow> ('k, 'w, unit) step" where
  "getShowsKYCState N path kycState riskLevel =
     thereafter (tc_request N ''GET'' path None [])
       (on_success reading_map (\<lambda>result.
         thereafter
           (require (as_string (mget result ''kyc_state'') = Some kycState)
             (Errorf ''expected kyc_state %s, got %v'' [FStr kycState, FVal (value_at result ''kyc_state'')]))
           (require (as_string (mget result ''risk_level'') = Some riskLevel)
             (Errorf ''expected risk_level %s, got %v'' [FStr riskLevel, FVal (value_at result ''risk_level'')]))))"

definition getEndpoint :: "'w net \<Rightarrow> string \<Rightarrow> ('k, 'w, unit) step" where
  "getEndpoint N path = plainly (tc_request N ''GET'' path None [])"

definition responseIsHTMLMentioning :: "string \<Rightarrow> string \<Rightarrow> ('k, 'w, unit) step" where
  "responseIsHTMLMentioning text1 text2 =
     looking (\<lambda>tc.
       require (strings_Contains (tc_lastResponseBody tc) text1 \<and> strings_Contains (tc_lastResponseBody tc) text2)
         (Errorf ''expected HTML to mention %s and %s'' [FStr text1, FStr text2]))"

text \<open>The form of Jane Doe.\<close>

definition jane :: "'k TestContext \<Rightarrow> string gomap" where
  "jane tc =
     [(''user_id'', tc_userID tc), (''first_name'', ''Jane''), (''last_name'', ''Doe''), (''dob'', ''1990-05-15''),
      (''address'', ''123 Main St''), (''city'', ''Testville''), (''country'', ''US''), (''risk_level'', ''low'')]"

definition submitKYCFormWithout2FA :: "'w net \<Rightarrow> ('k, 'w, unit) step" where
  "submitKYCFormWithout2FA N =
     looking (\<lambda>tc. plainly (requestForm N ''POST'' ''/iframe/submit'' (jane tc)))"

definition submitKYCFormWith2FA :: "'w net \<Rightarrow> string \<Rightarrow> ('k, 'w, unit) step" where
  "submitKYCFormWith2FA N code =
     looking (\<lambda>tc. plainly (requestForm N ''POST'' ''/iframe/submit''
       (jane tc @ [(''trigger_2fa'', ''on''), (''totp_code'', code)])))"

definition submitKYCFormWithOutcome :: "'w net \<Rightarrow> string \<Rightarrow> ('k, 'w, unit) step" where
  "submitKYCFormWithOutcome N outcome =
     looking (\<lambda>tc. plainly (requestForm N ''POST'' ''/iframe/submit'' (jane tc @ [(''kyc_outcome'', outcome)])))"

definition setKYCStateQuietly :: "'w net \<Rightarrow> string \<Rightarrow> ('k, 'w, unit) step" where
  "setKYCStateQuietly N state =
     looking (\<lambda>tc. plainly (tc_request N ''PUT'' (''/admin/users/'' @ tc_userID tc @ ''/kyc-state'')
       (Some (jtexts [(''kyc_state'', state), (''risk_level'', ''low'')])) []))"

record verification =
  vf_Status :: int
  vf_State :: int
  vf_Provider :: string
  vf_ProviderType :: string

definition zero_verification :: verification where
  "zero_verification = \<lparr>vf_Status = 0, vf_State = 0, vf_Provider = [], vf_ProviderType = []\<rparr>"

definition verification_fields :: "verification fields" where
  "verification_fields =
     [(''status'', set_plain tree_int vf_Status_update), (''state'', set_plain tree_int vf_State_update),
      (''provider'', set_plain tree_string vf_Provider_update),
      (''provider_type'', set_plain tree_string vf_ProviderType_update)]"

definition userVerificationReports :: "'w net \<Rightarrow> int \<Rightarrow> int \<Rightarrow> ('k, 'w, unit) step" where
  "userVerificationReports N status state =
     restoring (looking (\<lambda>tc.
       thereafter (tc_request N ''GET'' (''/id/v1/users/'' @ tc_userID tc) None [])
       (looking (\<lambda>tc1.
       on_success (wrapping
           (\<lambda>e. Errorf ''could not parse user response: %w. Body: %s'' [FErr e, FStr (tc_lastResponseBody tc1)])
           (reading_struct
             [(''verifications'',
               set_slice zero_verification (tree_struct verification_fields zero_verification) (\<lambda>f. f))] []))
       (\<lambda>vs. case vs of
          [] \<Rightarrow> fail (Errorf ''user reports no verifications: %s'' [FStr (tc_lastResponseBody tc1)])
        | v # _ \<Rightarrow>
            thereafter
              (require (vf_Status v = status \<and> vf_State v = state)
                (Errorf ''expected verification status/state %d/%d, got %d/%d''
                  [FInt status, FInt state, FInt (vf_Status v), FInt (vf_State v)]))
              (require (vf_Provider v \<noteq> [] \<and> vf_ProviderType v \<noteq> [])
                (Errorf ''verification does not name its provider: %+v''
                  [FInt (vf_Status v), FInt (vf_State v), FStr (vf_Provider v), FStr (vf_ProviderType v)])))))))"

definition userReportsSameIdUnderBothNames :: "'w net \<Rightarrow> ('k, 'w, unit) step" where
  "userReportsSameIdUnderBothNames N =
     restoring (looking (\<lambda>tc.
       thereafter (tc_request N ''GET'' (''/id/v1/users/'' @ tc_userID tc) None [])
       (on_success reading_map (\<lambda>resp.
         case (as_string (mget resp ''id''), as_string (mget resp ''uuid'')) of
           (Some i, Some u) \<Rightarrow>
             require (i = tc_userID tc \<and> u = tc_userID tc)
               (Errorf ''expected both to be %s, got id=%s uuid=%s'' [FStr (tc_userID tc), FStr i, FStr u])
         | _ \<Rightarrow> fail (Errorf ''expected both id and uuid, got id=%v uuid=%v''
             [FVal (value_at resp ''id''), FVal (value_at resp ''uuid'')])))))"

text \<open>The conversion of a \<^verbatim>\<open>float64\<close> that fits an \<^verbatim>\<open>int\<close>.\<close>

definition int_of_float :: "f64 \<Rightarrow> int" where
  "int_of_float x = (let q = fval x in if q < 0 then \<lceil>q\<rceil> else \<lfloor>q\<rfloor>)"

definition kycWebhookCarriesVerdict :: "'w net \<Rightarrow> string \<Rightarrow> string \<Rightarrow> int \<Rightarrow> ('k, 'w, unit) step" where
  "kycWebhookCarriesVerdict N event short status =
     on_success (webhook_data N ''webhook has no data object: %v'' event) (\<lambda>data.
       case as_object (mget data ''verified'') of
         None \<Rightarrow> fail (Errorf ''%s carries no verified summary: %v'' [FStr event, FMap data])
       | Some verified \<Rightarrow>
           thereafter
             (require (mget verified ''short'' = Some (JStr short))
               (Errorf ''expected verified.short %q, got %v'' [FStr short, FVal (value_at verified ''short'')]))
             (case as_number (mget verified ''status'') of
                None \<Rightarrow> fail (Panic ''interface conversion'')
              | Some x \<Rightarrow> require (int_of_float x = status)
                  (Errorf ''expected verified.status %d, got %v'' [FInt status, FVal (JNum x)])))"

definition kycWebhookCarriesNoVerdict :: "'w net \<Rightarrow> string \<Rightarrow> ('k, 'w, unit) step" where
  "kycWebhookCarriesNoVerdict N event =
     on_success (webhook_data N ''webhook has no data object: %v'' event) (\<lambda>data.
       case mget data ''verified'' of
         Some v \<Rightarrow> fail (Errorf ''%s should not carry a verification verdict, but has %v'' [FStr event, FVal v])
       | None \<Rightarrow> require (value_at data ''gateway'' \<noteq> JNull)
           (Errorf ''%s should still name the identity gateway: %v'' [FStr event, FMap data]))"

definition noWebhookIsDelivered :: "'w net \<Rightarrow> ('k, 'w, unit) step" where
  "noWebhookIsDelivered N =
     restoring (thereafter (Sleep N (6 * second)) (looking (\<lambda>tc.
       thereafter (tc_request N ''GET'' (''/admin/received-webhooks?user='' @ tc_userID tc) None [])
       (on_success (reading_struct [(''count'', set_plain tree_int (\<lambda>f. f))] 0) (\<lambda>count. looking (\<lambda>tc1.
         require (count = 0)
           (Errorf ''expected no webhooks for user %s, but %d arrived: %s''
             [FStr (tc_userID tc1), FInt count, FStr (tc_lastResponseBody tc1)])))))))"

section \<open>Wallets\<close>

definition walletsArrayReturned :: "('k, 'w, unit) step" where
  "walletsArrayReturned =
     on_success reading_map (\<lambda>result.
       require (as_array (mget result ''wallets'') \<notin> {None, Some []})
         (Errorf ''expected wallets array with at least one wallet, got %v'' [FMap result]))"

definition firstWalletStartsWith :: "string \<Rightarrow> ('k, 'w, unit) step" where
  "firstWalletStartsWith prefix =
     on_success reading_map (\<lambda>result.
       case as_array (mget result ''wallets'') of
         Some (w # _) \<Rightarrow>
           (case as_object (Some w) of
              None \<Rightarrow> fail (Errorf ''wallet is not an object'' [])
            | Some wallet \<Rightarrow>
                (case as_string (mget wallet ''address'') of
                   None \<Rightarrow> fail (Errorf ''no address in wallet'' [])
                 | Some address \<Rightarrow>
                     thereafter
                       (require (has_prefix address prefix)
                         (Errorf ''expected address to start with %s, got %s'' [FStr prefix, FStr address]))
                       (setting (\<lambda>tc. tc\<lparr>tc_walletAddress := address\<rparr>))))
       | _ \<Rightarrow> fail (Errorf ''no wallets found'' []))"

definition managedUserWithWalletAddress :: "'w net \<Rightarrow> ('k, 'w, unit) step" where
  "managedUserWithWalletAddress N =
     thereafter (existingManagedUserGeneric N)
     (on_success (tc_request N ''GET'' ''/core/v1/users/{userId}'' None []) (\<lambda>resp. looking (\<lambda>tc.
     on_success (wrapping
         (\<lambda>e. Errorf ''failed to unmarshal user wallets response: %w. Response: %s. Status: %d''
            [FErr e, FStr (tc_lastResponseBody tc), FInt (rp_StatusCode resp)]) reading_map)
     (\<lambda>result.
       let address =
         (case as_array (mget result ''wallets'') of
            Some (w # _) \<Rightarrow> Option.bind (as_object (Some w)) (\<lambda>wallet. as_string (mget wallet ''address''))
          | _ \<Rightarrow> None)
       in thereafter
         (case address of None \<Rightarrow> ok () | Some x \<Rightarrow> setting (\<lambda>tc. tc\<lparr>tc_walletAddress := x\<rparr>))
         (looking (\<lambda>tc1. require (tc_walletAddress tc1 \<noteq> [])
            (Errorf ''no wallet address found in user response: %s'' [FStr (tc_lastResponseBody tc1)])))))))"

definition getWalletBalance :: "'w net \<Rightarrow> ('k, 'w, unit) step" where
  "getWalletBalance N =
     thereafter (Sleep N (3 * second))
       (plainly (tc_request N ''GET'' ''/core/v1/wallets/{walletAddress}/balances'' None []))"

text \<open>The vault of a balance names its currency.\<close>

definition of_currency :: "string \<Rightarrow> json gomap \<Rightarrow> bool" where
  "of_currency currency balance \<longleftrightarrow>
     (case as_object (mget balance ''vault'') of
        None \<Rightarrow> False
      | Some vault \<Rightarrow> as_string (mget vault ''asset_code'') = Some currency)"

fun currency_check :: "string \<Rightarrow> string \<Rightarrow> json gomap list \<Rightarrow> ('k, 'w, unit) step" where
  "currency_check currency expected [] =
     fail (Errorf ''currency %s not found in balance response'' [FStr currency])"
| "currency_check currency expected (b # bs) =
     (if of_currency currency b
      then case as_string (mget b ''available'') of
             Some available \<Rightarrow> require (available = expected)
               (Errorf ''expected %s balance to be %s, got %s'' [FStr currency, FStr expected, FStr available])
           | None \<Rightarrow> currency_check currency expected bs
      else currency_check currency expected bs)"

definition currencyBalanceIs :: "string \<Rightarrow> string \<Rightarrow> ('k, 'w, unit) step" where
  "currencyBalanceIs currency expectedBalance =
     looking (\<lambda>tc.
       on_success (wrapping
           (\<lambda>e. Errorf ''failed to unmarshal balance response: %w. Response: %s''
              [FErr e, FStr (tc_lastResponseBody tc)]) (reading tree_gomaps))
         (currency_check currency expectedBalance))"

section \<open>Rates\<close>

definition mockgatehubRunningWithHeaders :: "('k, 'w, unit) step" where
  "mockgatehubRunningWithHeaders = hmacHeaders ''local-test-app-id'' ''local-test-app-secret''"

definition payloadHasCounterCurrency :: "('k, 'w, unit) step" where
  "payloadHasCounterCurrency =
     on_success reading_map (\<lambda>result. looking (\<lambda>tc.
       require (mget result ''counter_currency'' \<noteq> None \<or> mget result ''counterCurrency'' \<noteq> None \<or>
                mget result ''counter'' \<noteq> None)
         (Errorf ''missing counter_currency, counterCurrency, or counter in: %s''
           [FStr (tc_lastResponseBody tc)])))"

definition rateEntryExists :: "('k, 'w, unit) step" where
  "rateEntryExists =
     on_success reading_map (\<lambda>result.
       require (list_ex (\<lambda>(k, _). k \<noteq> ''counter_currency'' \<and> k \<noteq> ''counterCurrency'') result)
         (Errorf ''no rate entries'' []))"

definition responseHasVaults :: "('k, 'w, unit) step" where
  "responseHasVaults =
     on_success reading_map (\<lambda>result.
       require (as_array (mget result ''vaults'') \<notin> {None, Some []}) (Errorf ''no vaults array or empty'' []))"

definition extractRate :: "string \<Rightarrow> ('k, 'w, f64) step" where
  "extractRate currency =
     on_success reading_map (\<lambda>result.
       case mget result currency of
         None \<Rightarrow> fail (Errorf ''currency %s not found in response'' [FStr currency])
       | Some entry \<Rightarrow>
           (case as_object (Some entry) of
              None \<Rightarrow> fail (Errorf ''unexpected rate entry format for %s'' [FStr currency])
            | Some rateObj \<Rightarrow>
                (case as_number (mget rateObj ''rate'') of
                   None \<Rightarrow> fail (Errorf ''rate for %s is not a number'' [FStr currency])
                 | Some rate \<Rightarrow> ok rate)))"

definition counterFieldIs :: "string \<Rightarrow> ('k, 'w, unit) step" where
  "counterFieldIs expected =
     on_success reading_map (\<lambda>result.
       case as_string (mget result ''counter'') of
         None \<Rightarrow> fail (Errorf ''counter field missing or not a string'' [])
       | Some counter \<Rightarrow> require (counter = expected)
           (Errorf ''expected counter %q, got %q'' [FStr expected, FStr counter]))"

fun fabs :: "f64 \<Rightarrow> f64" where
  "fabs NaN = NaN"
| "fabs (Inf _) = Inf False"
| "fabs (Zero _) = Zero False"
| "fabs (Fin q) = Fin \<bar>q\<bar>"

text \<open>The plus-minus sign in UTF-8.\<close>

abbreviation plus_minus :: string where
  "plus_minus \<equiv> [CHR 0xC2, CHR 0xB1]"

definition rateForCurrencyIs :: "string \<Rightarrow> f64 \<Rightarrow> ('k, 'w, unit) step" where
  "rateForCurrencyIs currency expected =
     on_success (extractRate currency) (\<lambda>rate.
       require (\<not> flt (f64_of_rat (1 / 10000)) (fabs (fsub rate expected)))
         (Errorf ''expected %s rate %f, got %f'' [FStr currency, FFloat expected, FFloat rate]))"

definition rateForCurrencyApprox :: "string \<Rightarrow> f64 \<Rightarrow> f64 \<Rightarrow> ('k, 'w, unit) step" where
  "rateForCurrencyApprox currency expected tolerance =
     on_success (extractRate currency) (\<lambda>rate.
       require (\<not> flt tolerance (fabs (fsub rate expected)))
         (Errorf (''expected %s rate ~%f ('' @ plus_minus @ ''%f), got %f'')
           [FStr currency, FFloat expected, FFloat tolerance, FFloat rate]))"

definition saveRateAs :: "string \<Rightarrow> string \<Rightarrow> ('k, 'w, unit) step" where
  "saveRateAs currency name =
     on_success (extractRate currency) (\<lambda>rate.
       setting (\<lambda>tc. tc\<lparr>tc_savedRates := mput name rate (tc_savedRates tc)\<rparr>))"

definition rateIsInverseOfSaved :: "string \<Rightarrow> string \<Rightarrow> f64 \<Rightarrow> ('k, 'w, unit) step" where
  "rateIsInverseOfSaved currency savedName tolerance =
     on_success (extractRate currency) (\<lambda>rate. looking (\<lambda>tc.
       case mget (tc_savedRates tc) savedName of
         None \<Rightarrow> fail (Errorf ''no saved rate named %q'' [FStr savedName])
       | Some saved \<Rightarrow>
           let expected = fdiv (f64_of_rat 1) saved in
           require (\<not> flt tolerance (fabs (fsub rate expected)))
             (Errorf (''expected %s rate ~%f (1/%f, '' @ plus_minus @ ''%f), got %f'')
               [FStr currency, FFloat expected, FFloat saved, FFloat tolerance, FFloat rate])))"

end
