(* ===== verification/Test_Payments.thy ===== *)
theory Test_Payments
  imports Test_Accounts
begin

text \<open>
  The steps about money: \<^verbatim>\<open>testenv/fee_steps.go\<close>, \<^verbatim>\<open>transaction_steps.go\<close>, \<^verbatim>\<open>balance_steps.go\<close>,
  \<^verbatim>\<open>withdrawal_steps.go\<close> and \<^verbatim>\<open>statement_steps.go\<close>.
\<close>

text \<open>A text in single quotes.\<close>

definition within_quotes :: "string \<Rightarrow> string" where
  "within_quotes s = [CHR 0x27] @ s @ [CHR 0x27]"

section \<open>Fees\<close>

definition put_fees :: "'w net \<Rightarrow> string \<Rightarrow> ('k, 'w, reply) step" where
  "put_fees N b = without_secret (requestRaw N ''PUT'' ''/admin/fees'' b ''application/json'' [])"

text \<open>A fee is set, and the answer must be 200.\<close>

definition fee_configured :: "'w net \<Rightarrow> string \<Rightarrow> string \<Rightarrow> f64 \<Rightarrow> ('k, 'w, unit) step" where
  "fee_configured N field msg percent =
     on_success (mustJSON (jmap [(field, JNum percent)])) (\<lambda>b.
     on_success (put_fees N b) (\<lambda>rp. looking (\<lambda>tc.
       require (rp_StatusCode rp = 200) (Errorf msg [FInt (rp_StatusCode rp), FStr (tc_lastResponseBody tc)]))))"

definition depositFeeConfigured :: "'w net \<Rightarrow> f64 \<Rightarrow> ('k, 'w, unit) step" where
  "depositFeeConfigured N percent =
     fee_configured N ''deposit_fee_percentage'' ''failed to set deposit fee: status %d, body: %s'' percent"

definition withdrawalFeeConfigured :: "'w net \<Rightarrow> f64 \<Rightarrow> ('k, 'w, unit) step" where
  "withdrawalFeeConfigured N percent =
     fee_configured N ''withdrawal_fee_percentage'' ''failed to set withdrawal fee: status %d, body: %s'' percent"

definition getAdminFeesWithoutAuth :: "'w net \<Rightarrow> ('k, 'w, unit) step" where
  "getAdminFeesWithoutAuth N = plainly (without_secret (requestRaw N ''GET'' ''/admin/fees'' [] [] []))"

definition putAdminFeesWithoutAuth :: "'w net \<Rightarrow> string \<Rightarrow> ('k, 'w, unit) step" where
  "putAdminFeesWithoutAuth N bodyJSON = plainly (put_fees N bodyJSON)"

definition putAdminFeesWithoutAnyHMAC :: "'w net \<Rightarrow> string \<Rightarrow> ('k, 'w, unit) step" where
  "putAdminFeesWithoutAnyHMAC N bodyJSON =
     plainly (requestRaw N ''PUT'' ''/admin/fees'' bodyJSON ''application/json'' [])"

definition percentage_is :: "string \<Rightarrow> string \<Rightarrow> string \<Rightarrow> f64 \<Rightarrow> ('k, 'w, unit) step" where
  "percentage_is field missing differs expected =
     on_success reading_map (\<lambda>result. looking (\<lambda>tc.
       case as_number (mget result field) of
         None \<Rightarrow> fail (Errorf missing [FStr (tc_lastResponseBody tc)])
       | Some actual \<Rightarrow> require (feq actual expected) (Errorf differs [FFloat expected, FFloat actual])))"

definition depositFeePercentageIs :: "f64 \<Rightarrow> ('k, 'w, unit) step" where
  "depositFeePercentageIs =
     percentage_is ''deposit_fee_percentage'' ''deposit_fee_percentage not found or not a number in response: %s''
       ''expected deposit_fee_percentage %.2f, got %.2f''"

definition withdrawalFeePercentageIs :: "f64 \<Rightarrow> ('k, 'w, unit) step" where
  "withdrawalFeePercentageIs =
     percentage_is ''withdrawal_fee_percentage''
       ''withdrawal_fee_percentage not found or not a number in response: %s''
       ''expected withdrawal_fee_percentage %.2f, got %.2f''"

definition transactionFeeIs :: "string \<Rightarrow> ('k, 'w, unit) step" where
  "transactionFeeIs expected = checkFieldValue ''fee'' expected"

definition transactionTotalAmountIs :: "string \<Rightarrow> ('k, 'w, unit) step" where
  "transactionTotalAmountIs expected = checkFieldValue ''total_amount'' expected"

definition transactionAmountIs :: "string \<Rightarrow> ('k, 'w, unit) step" where
  "transactionAmountIs expected = checkFieldValue ''amount'' expected"

text \<open>The id of the transaction in an answer.\<close>

definition take_transactionID :: "string \<Rightarrow> ('k, 'w, unit) step" where
  "take_transactionID name =
     on_success reading_map (\<lambda>result.
       case as_string (mget result name) of
         None \<Rightarrow> ok ()
       | Some t \<Rightarrow> setting (\<lambda>tc. tc\<lparr>tc_transactionID := t\<rparr>))"

definition postDepositWithFeeFields ::
  "'w net \<Rightarrow> int \<Rightarrow> string \<Rightarrow> f64 \<Rightarrow> string \<Rightarrow> ('k, 'w, unit) step" where
  "postDepositWithFeeFields N txType depositType amount currency =
     looking (\<lambda>tc.
       thereafter (tc_request N ''POST'' ''/core/v1/transactions''
           (Some (jmap [(''user_id'', JStr (tc_userID tc)), (''type'', JInt txType),
              (''deposit_type'', JStr depositType), (''amount'', JNum amount), (''currency'', JStr currency)])) [])
         (take_transactionID ''uuid''))"

definition getTransactionByID :: "'w net \<Rightarrow> ('k, 'w, unit) step" where
  "getTransactionByID N =
     looking (\<lambda>tc.
       thereafter (require (tc_transactionID tc \<noteq> []) (Errorf ''no transaction ID available'' []))
         (plainly (tc_request N ''GET'' (''/core/v1/transactions/'' @ tc_transactionID tc) None [])))"

definition createWithdrawalTransaction :: "'w net \<Rightarrow> f64 \<Rightarrow> string \<Rightarrow> ('k, 'w, unit) step" where
  "createWithdrawalTransaction N amount currency =
     looking (\<lambda>tc.
       thereafter (tc_request N ''POST'' ''/core/v1/transactions''
           (Some (jmap [(''user_id'', JStr (tc_userID tc)), (''type'', JInt 3),
              (''deposit_type'', JStr ''withdrawal''), (''amount'', JNum amount), (''currency'', JStr currency)])) [])
         (take_transactionID ''uuid''))"

definition postHostedTransferWithFeeFields ::
  "'w net \<Rightarrow> f64 \<Rightarrow> string \<Rightarrow> int \<Rightarrow> string \<Rightarrow> ('k, 'w, unit) step" where
  "postHostedTransferWithFeeFields N amount currency txType depositType =
     postDepositWithFeeFields N txType depositType amount currency"

text \<open>\<^verbatim>\<open>strings.Fields\<close>.\<close>

definition string_fields :: "string \<Rightarrow> string list" where
  "string_fields s =
     filter (\<lambda>w. w \<noteq> []) (split_on (CHR '' '') (map (\<lambda>c. if is_space c then CHR '' '' else c) s))"

definition parseAmountCurrency :: "string \<Rightarrow> failure + f64 \<times> string" where
  "parseAmountCurrency s =
     (case string_fields s of
        [a, currency] \<Rightarrow>
          (case ParseFloat a of
             None \<Rightarrow> Inl (Errorf ''invalid amount %q: %w'' [FStr a, FErr (LibError ''strconv.ParseFloat'' a)])
           | Some amount \<Rightarrow> Inr (amount, currency))
      | _ \<Rightarrow> Inl (Errorf (''expected '' @ within_quotes ''amount currency'' @ '', got %q'') [FStr s]))"

definition user_fees_path :: "string \<Rightarrow> string" where
  "user_fees_path userID = ''/admin/users/'' @ userID @ ''/fees''"

definition getUserFeesWithoutAuth :: "'w net \<Rightarrow> string \<Rightarrow> ('k, 'w, unit) step" where
  "getUserFeesWithoutAuth N userID =
     plainly (without_secret (requestRaw N ''GET'' (user_fees_path userID) [] [] []))"

definition setUserFeesWithoutAuth :: "'w net \<Rightarrow> string \<Rightarrow> string \<Rightarrow> ('k, 'w, unit) step" where
  "setUserFeesWithoutAuth N userID bodyJSON =
     plainly (without_secret (requestRaw N ''PUT'' (user_fees_path userID) bodyJSON ''application/json'' []))"

definition clearUserFeesWithoutAuth :: "'w net \<Rightarrow> string \<Rightarrow> ('k, 'w, unit) step" where
  "clearUserFeesWithoutAuth N userID =
     plainly (without_secret (requestRaw N ''DELETE'' (user_fees_path userID) [] [] []))"

definition userFeeSourceIs :: "string \<Rightarrow> string \<Rightarrow> ('k, 'w, unit) step" where
  "userFeeSourceIs feeType expectedSource =
     on_success reading_map (\<lambda>result.
       if feeType \<noteq> ''deposit'' \<and> feeType \<noteq> ''withdrawal''
       then fail (Errorf (''invalid fee type %q, must be '' @ within_quotes ''deposit'' @ '' or '' @
              within_quotes ''withdrawal'') [FStr feeType])
       else looking (\<lambda>tc.
         let sourceField = feeType @ ''_fee_source'' in
         case as_string (mget result sourceField) of
           None \<Rightarrow> fail (Errorf ''%s not found or not a string in response: %s''
             [FStr sourceField, FStr (tc_lastResponseBody tc)])
         | Some actual \<Rightarrow> require (actual = expectedSource)
             (Errorf ''expected %s %q, got %q'' [FStr sourceField, FStr expectedSource, FStr actual])))"

section \<open>Transactions\<close>

text \<open>The \<^verbatim>\<open>float64\<close> of an integer, and of an amount in whole units and hundredths.\<close>

definition float_of_int :: "int \<Rightarrow> f64" where
  "float_of_int i = f64_of_rat (of_int i)"

definition amount_of :: "f64 \<Rightarrow> int \<Rightarrow> f64" where
  "amount_of whole hundredths = fadd whole (fdiv (float_of_int hundredths) (float_of_int 100))"

definition as_user :: "'k TestContext \<Rightarrow> string gomap" where
  "as_user tc = [(''x-gatehub-managed-user-uuid'', tc_userID tc)]"

definition authenticatedRequestsWithHMAC :: "('k, 'w, unit) step" where
  "authenticatedRequestsWithHMAC = hmacHeaders ''local-test-app-id'' ''local-test-app-secret''"

definition postTransactionWithAuth :: "'w net \<Rightarrow> string \<Rightarrow> string \<Rightarrow> string \<Rightarrow> string \<Rightarrow> ('k, 'w, unit) step" where
  "postTransactionWithAuth N path amount currency authToken =
     looking (\<lambda>tc. plainly (tc_request N ''POST'' path (Some (jtexts [(''amount'', amount), (''currency'', currency)]))
       [(''Authorization'', ''Bearer '' @ replacePlaceholders (n_order N) tc authToken)]))"

definition postHostedTransfer ::
  "'w net \<Rightarrow> string \<Rightarrow> f64 \<Rightarrow> int \<Rightarrow> string \<Rightarrow> int \<Rightarrow> string \<Rightarrow> ('k, 'w, unit) step" where
  "postHostedTransfer N path amount decimalPart currency txType depositType =
     looking (\<lambda>tc. plainly (tc_request N ''POST'' path
       (Some (jmap [(''user_id'', JStr (tc_userID tc)), (''amount'', JNum (amount_of amount decimalPart)),
          (''currency'', JStr currency), (''type'', JInt txType), (''deposit_type'', JStr depositType)]))
       (as_user tc)))"

definition responseHasIDOrUUID :: "('k, 'w, unit) step" where
  "responseHasIDOrUUID =
     on_success reading_map (\<lambda>result.
       require (as_string (mget result ''id'') \<noteq> None \<or> as_string (mget result ''uuid'') \<noteq> None)
         (Errorf ''expected id or uuid in response, got %v'' [FMap result]))"

definition amountEchoes :: "f64 \<Rightarrow> ('k, 'w, unit) step" where
  "amountEchoes amount =
     on_success reading_map (\<lambda>result.
       let expected = format2f amount in
       case mget result ''amount'' of
         None \<Rightarrow> fail (Errorf ''expected amount %s, got <missing>'' [FStr expected])
       | Some v \<Rightarrow> require (case v of JStr a \<Rightarrow> a = expected | JNum a \<Rightarrow> format2f a = expected | _ \<Rightarrow> False)
           (Errorf ''expected amount %s, got %v'' [FStr expected, FVal v]))"

definition depositTypeIs :: "string \<Rightarrow> ('k, 'w, unit) step" where
  "depositTypeIs depositType =
     on_success reading_map (\<lambda>result.
       require (as_string (mget result ''deposit_type'') = Some depositType)
         (Errorf ''expected deposit_type %s, got %v'' [FStr depositType, FVal (value_at result ''deposit_type'')]))"

definition number_is :: "json gomap \<Rightarrow> string \<Rightarrow> int \<Rightarrow> bool" where
  "number_is m field i \<longleftrightarrow> map_option int_of_float (as_number (mget m field)) = Some i"

definition statusIsInteger :: "int \<Rightarrow> ('k, 'w, unit) step" where
  "statusIsInteger status =
     on_success reading_map (\<lambda>result.
       require (number_is result ''status'' status)
         (Errorf ''expected status %d, got %v'' [FInt status, FVal (value_at result ''status'')]))"

definition statusIsCompleted :: "int \<Rightarrow> string \<Rightarrow> ('k, 'w, unit) step" where
  "statusIsCompleted intStatus strStatus =
     on_success reading_map (\<lambda>result.
       require (number_is result ''status'' intStatus \<or> as_string (mget result ''status'') = Some strStatus)
         (Errorf ''status is neither integer %d nor string %s'' [FInt intStatus, FStr strStatus]))"

definition coreDepositWebhookEmitted :: "('k, 'w, unit) step" where
  "coreDepositWebhookEmitted = ok ()"

definition postExternalDeposit ::
  "'w net \<Rightarrow> string \<Rightarrow> int \<Rightarrow> string \<Rightarrow> int \<Rightarrow> int \<Rightarrow> string \<Rightarrow> ('k, 'w, unit) step" where
  "postExternalDeposit N path txType depositType wholeAmount decimalAmount currency =
     looking (\<lambda>tc. plainly (tc_request N ''POST'' path
       (Some (jmap [(''type'', JInt txType), (''deposit_type'', JStr depositType),
          (''receiving_address'', JStr (tc_walletAddress tc)),
          (''amount'', JNum (amount_of (float_of_int wholeAmount) decimalAmount)), (''currency'', JStr currency)]))
       (as_user tc)))"

definition isDecimalFormat :: "string \<Rightarrow> bool" where
  "isDecimalFormat s \<longleftrightarrow>
     length (filter (\<lambda>c. c = CHR ''.'') s) = 1 \<and> length (drop 1 (dropWhile (\<lambda>c. c \<noteq> CHR ''.'') s)) = 2"

definition fieldsAreStringFormatted :: "('k, 'w, unit) step" where
  "fieldsAreStringFormatted =
     on_success reading_map (\<lambda>result.
       each (\<lambda>field.
         case mget result field of
           None \<Rightarrow> ok ()
         | Some v \<Rightarrow>
             (case as_string (Some v) of
                None \<Rightarrow> fail (Errorf ''field %s is not a string'' [FStr field])
              | Some str \<Rightarrow> require (isDecimalFormat str)
                  (Errorf ''field %s not in X.XX format: %s'' [FStr field, FStr str])))
         [''amount'', ''total_amount'', ''fee''])"

definition transactionCanBeRetrievedFormatted :: "int \<Rightarrow> ('k, 'w, unit) step" where
  "transactionCanBeRetrievedFormatted version = fieldsAreStringFormatted"

definition userHasFundedWallet :: "'w net \<Rightarrow> string \<Rightarrow> int \<Rightarrow> int \<Rightarrow> ('k, 'w, unit) step" where
  "userHasFundedWallet N currency wholeAmount decimalAmount =
     postExternalDeposit N ''/core/v1/transactions'' 1 ''external'' wholeAmount decimalAmount currency"

text \<open>The fields of the body are a map, so their order does not depend on the leading one.\<close>

definition postHostedDirectional ::
  "'w net \<Rightarrow> string \<Rightarrow> string \<Rightarrow> string \<Rightarrow> int \<Rightarrow> int \<Rightarrow> string \<Rightarrow> int \<Rightarrow> string \<Rightarrow> ('k, 'w, unit) step" where
  "postHostedDirectional N leadField sendingDesc receivingDesc wholeAmount decimalAmount currency txType depositType =
     looking (\<lambda>tc.
       let resolve = (\<lambda>desc. if desc = ''the user wallet'' then tc_walletAddress tc else ''rSettlementAddress123'') in
       plainly (tc_request N ''POST'' ''/core/v1/transactions''
         (Some (jmap [(''amount'', JNum (amount_of (float_of_int wholeAmount) decimalAmount)),
            (''currency'', JStr currency), (''type'', JInt txType), (''deposit_type'', JStr depositType),
            (''sending_address'', JStr (resolve sendingDesc)),
            (''receiving_address'', JStr (resolve receivingDesc))]))
         (as_user tc)))"

definition postHostedWithSendingAddress ::
  "'w net \<Rightarrow> string \<Rightarrow> string \<Rightarrow> int \<Rightarrow> int \<Rightarrow> string \<Rightarrow> int \<Rightarrow> string \<Rightarrow> ('k, 'w, unit) step" where
  "postHostedWithSendingAddress N sendingDesc receivingDesc = postHostedDirectional N ''sending'' sendingDesc receivingDesc"

definition postHostedWithReceivingAddress ::
  "'w net \<Rightarrow> string \<Rightarrow> string \<Rightarrow> int \<Rightarrow> int \<Rightarrow> string \<Rightarrow> int \<Rightarrow> string \<Rightarrow> ('k, 'w, unit) step" where
  "postHostedWithReceivingAddress N receivingDesc sendingDesc =
     postHostedDirectional N ''receiving'' sendingDesc receivingDesc"

text \<open>Ten polls of the balance; the last one that was seen is kept for the report.\<close>

fun available_in :: "string \<Rightarrow> string \<Rightarrow> json gomap list \<Rightarrow> string \<Rightarrow> bool \<times> string" where
  "available_in currency expected [] seen = (False, seen)"
| "available_in currency expected (b # bs) seen =
     (if of_currency currency b
      then let now = (case as_string (mget b ''available'') of None \<Rightarrow> [] | Some a \<Rightarrow> a)
           in if now = expected then (True, now) else available_in currency expected bs now
      else available_in currency expected bs seen)"

fun poll_balance :: "'w net \<Rightarrow> nat \<Rightarrow> string \<Rightarrow> string \<Rightarrow> string \<Rightarrow> ('k, 'w, unit) step" where
  "poll_balance N 0 currency expected seen =
     fail (Errorf ''expected %s balance %s, got %s (after polling)'' [FStr currency, FStr expected, FStr seen])"
| "poll_balance N (Suc n) currency expected seen =
     thereafter (Sleep N (500 * 1000000)) (looking (\<lambda>tc.
     thereafter (tc_request N ''GET'' (''/core/v1/wallets/'' @ tc_walletAddress tc @ ''/balances'') None [])
     (on_success (wrapping (\<lambda>e. Errorf ''failed to parse balance response: %w'' [FErr e]) (reading tree_gomaps))
     (\<lambda>balances.
       case available_in currency expected balances seen of
         (True, _) \<Rightarrow> ok ()
       | (False, now) \<Rightarrow> poll_balance N n currency expected now))))"

definition userBalanceForCurrencyIs :: "'w net \<Rightarrow> string \<Rightarrow> int \<Rightarrow> int \<Rightarrow> ('k, 'w, unit) step" where
  "userBalanceForCurrencyIs N currency wholeAmount decimalAmount =
     poll_balance N 10 currency (format2f (amount_of (float_of_int wholeAmount) decimalAmount)) []"

section \<open>Balances\<close>

definition balanceSettleTimeout :: int where
  "balanceSettleTimeout = 15 * second"

text \<open>The balance of the first entry of a currency.\<close>

fun balance_in :: "string \<Rightarrow> string \<Rightarrow> json gomap list \<Rightarrow> failure + f64" where
  "balance_in currency body [] =
     Inl (Errorf ''currency %s not present in balances response: %s'' [FStr currency, FStr body])"
| "balance_in currency body (b # bs) =
     (if \<not> of_currency currency b then balance_in currency body bs
      else case as_string (mget b ''available'') of
             None \<Rightarrow> Inl (Errorf (''balance for %s has no string '' @ within_quotes ''available'' @ '' field'') [FStr currency])
           | Some available \<Rightarrow>
               (case ParseFloat available of
                  None \<Rightarrow> Inl (Errorf ''balance for %s is not numeric: %q'' [FStr currency, FStr available])
                | Some x \<Rightarrow> Inr x))"

definition readBalance :: "'w net \<Rightarrow> string \<Rightarrow> ('k, 'w, f64) step" where
  "readBalance N currency =
     looking (\<lambda>tc0.
       thereafter (require (tc_walletAddress tc0 \<noteq> []) (Errorf ''no wallet address in test context'' []))
       (restoring
         (thereafter (tc_request N ''GET'' ''/core/v1/wallets/{walletAddress}/balances'' None []) (looking (\<lambda>tc.
         on_success (wrapping
             (\<lambda>e. Errorf ''failed to parse balances response: %w. Body: %s'' [FErr e, FStr (tc_lastResponseBody tc)])
             (reading tree_gomaps))
         (\<lambda>balances. given (balance_in currency (tc_lastResponseBody tc) balances)))))))"

definition recordBalance :: "'w net \<Rightarrow> string \<Rightarrow> ('k, 'w, unit) step" where
  "recordBalance N currency =
     on_success (readBalance N currency) (\<lambda>x.
       setting (\<lambda>tc. tc\<lparr>tc_recordedBalances := mput currency x (tc_recordedBalances tc)\<rparr>))"

definition almostEqual :: "f64 \<Rightarrow> f64 \<Rightarrow> bool" where
  "almostEqual a b \<longleftrightarrow>
     (let diff = fsub a b in flt diff (f64_of_rat (5 / 1000)) \<and> flt (fneg (f64_of_rat (5 / 1000))) diff)"

text \<open>What a step gives, its error too.\<close>

definition result_of :: "('k, 'w, 'a) step \<Rightarrow> ('k, 'w, failure + 'a) step" where
  "result_of m s = (case m s of (r, s1) \<Rightarrow> (Inr r, s1))"

definition awaitBalance :: "'w net \<Rightarrow> string \<Rightarrow> f64 \<Rightarrow> ('k, 'w, unit) step" where
  "awaitBalance N currency want =
     on_success
       (awaiting N balanceSettleTimeout (250 * 1000000)
         (\<lambda>seen. on_success (result_of (readBalance N currency)) (\<lambda>r.
            ok (case r of Inr x \<Rightarrow> if almostEqual x want then Inl () else Inr (Inr x) | Inl e \<Rightarrow> Inr (Inl e))))
         (Inr f0))
       (\<lambda>r. case r of
          Inl _ \<Rightarrow> ok ()
        | Inr (Inl e) \<Rightarrow> fail (Errorf ''could not read %s balance while waiting for %.2f: %w''
            [FStr currency, FFloat want, FErr e])
        | Inr (Inr x) \<Rightarrow> fail (Errorf ''expected %s balance to settle at %.2f, but it was %.2f after %s''
            [FStr currency, FFloat want, FFloat x, FInt balanceSettleTimeout]))"

definition recordedBalance :: "string \<Rightarrow> ('k, 'w, f64) step" where
  "recordedBalance currency =
     looking (\<lambda>tc.
       case mget (tc_recordedBalances tc) currency of
         None \<Rightarrow> fail (Errorf ''no recorded %s balance; the scenario must record one first'' [FStr currency])
       | Some x \<Rightarrow> ok x)"

definition iRecordTheBalance :: "'w net \<Rightarrow> string \<Rightarrow> ('k, 'w, unit) step" where
  "iRecordTheBalance N currency = recordBalance N currency"

definition balanceHasIncreasedBy :: "'w net \<Rightarrow> string \<Rightarrow> f64 \<Rightarrow> ('k, 'w, unit) step" where
  "balanceHasIncreasedBy N currency delta =
     on_success (recordedBalance currency) (\<lambda>before. awaitBalance N currency (fadd before delta))"

definition balanceHasDecreasedBy :: "'w net \<Rightarrow> string \<Rightarrow> f64 \<Rightarrow> ('k, 'w, unit) step" where
  "balanceHasDecreasedBy N currency delta =
     on_success (recordedBalance currency) (\<lambda>before. awaitBalance N currency (fsub before delta))"

definition balanceIsUnchanged :: "'w net \<Rightarrow> string \<Rightarrow> ('k, 'w, unit) step" where
  "balanceIsUnchanged N currency =
     on_success (recordedBalance currency) (\<lambda>before.
       plainly (awaiting N (3 * second) (250 * 1000000)
         (\<lambda>_. on_success (readBalance N currency) (\<lambda>now.
            if almostEqual now before then ok (Inr () :: unit + unit)
            else fail (Errorf ''expected %s balance to stay at %.2f, but it moved to %.2f''
              [FStr currency, FFloat before, FFloat now])))
         ()))"

text \<open>A deposit from outside, as the user.\<close>

definition external_deposit :: "'k TestContext \<Rightarrow> f64 \<Rightarrow> string \<Rightarrow> json" where
  "external_deposit tc amount currency =
     jmap [(''user_id'', JStr (tc_userID tc)), (''receiving_address'', JStr (tc_walletAddress tc)),
       (''amount'', JNum amount), (''currency'', JStr currency), (''type'', JInt 1),
       (''deposit_type'', JStr ''external'')]"

definition fundBalance :: "'w net \<Rightarrow> string \<Rightarrow> f64 \<Rightarrow> ('k, 'w, unit) step" where
  "fundBalance N currency amount =
     on_success (readBalance N currency) (\<lambda>before. looking (\<lambda>tc.
     on_success (tc_request N ''POST'' ''/core/v1/transactions'' (Some (external_deposit tc amount currency)) (as_user tc))
     (\<lambda>rp. looking (\<lambda>tc1.
     thereafter (require (rp_StatusCode rp = 201)
         (Errorf ''funding deposit failed with status %d: %s''
           [FInt (rp_StatusCode rp), FStr (tc_lastResponseBody tc1)]))
     (on_success
       (awaiting N balanceSettleTimeout (250 * 1000000)
         (\<lambda>_. on_success (result_of (readBalance N currency)) (\<lambda>r.
            ok (case r of Inr now \<Rightarrow> if flt before now then Inl () else Inr () | Inl _ \<Rightarrow> Inr ()))) ())
       (\<lambda>r. case r of
          Inl _ \<Rightarrow> ok ()
        | Inr _ \<Rightarrow> fail (Errorf ''funding deposit of %.2f %s never settled (balance stayed at %.2f)''
            [FFloat amount, FStr currency, FFloat before])))))))"

definition userHasFundedBalance :: "'w net \<Rightarrow> string \<Rightarrow> ('k, 'w, unit) step" where
  "userHasFundedBalance N currency = fundBalance N currency (f64_of_rat 1000)"

definition hosted_transfer :: "'k TestContext \<Rightarrow> string \<Rightarrow> string \<Rightarrow> f64 \<Rightarrow> string \<Rightarrow> json" where
  "hosted_transfer tc sending receiving amount currency =
     jmap [(''user_id'', JStr (tc_userID tc)), (''sending_address'', JStr sending),
       (''receiving_address'', JStr receiving), (''amount'', JNum amount), (''currency'', JStr currency),
       (''type'', JInt 2), (''deposit_type'', JStr ''hosted'')]"

definition postHostedTransferBetween :: "'w net \<Rightarrow> string \<Rightarrow> string \<Rightarrow> f64 \<Rightarrow> string \<Rightarrow> ('k, 'w, unit) step" where
  "postHostedTransferBetween N sending receiving amount currency =
     looking (\<lambda>tc. plainly (tc_request N ''POST'' ''/core/v1/transactions''
       (Some (hosted_transfer tc sending receiving amount currency)) (as_user tc)))"

definition postHostedTransferFromUserWallet :: "'w net \<Rightarrow> f64 \<Rightarrow> string \<Rightarrow> string \<Rightarrow> ('k, 'w, unit) step" where
  "postHostedTransferFromUserWallet N amount currency destination =
     looking (\<lambda>tc. postHostedTransferBetween N (tc_walletAddress tc) destination amount currency)"

definition postHostedTransferToUserWallet :: "'w net \<Rightarrow> f64 \<Rightarrow> string \<Rightarrow> string \<Rightarrow> ('k, 'w, unit) step" where
  "postHostedTransferToUserWallet N amount currency source =
     looking (\<lambda>tc. postHostedTransferBetween N source (tc_walletAddress tc) amount currency)"

definition responseEchoesSendingAddress :: "string \<Rightarrow> ('k, 'w, unit) step" where
  "responseEchoesSendingAddress expected0 =
     on_success reading_map (\<lambda>result. looking (\<lambda>tc.
       let expected = (if expected0 = ''the user wallet'' then tc_walletAddress tc else expected0);
           actual = (case as_string (mget result ''sending_address'') of None \<Rightarrow> [] | Some a \<Rightarrow> a)
       in require (actual = expected)
            (Errorf ''expected sending_address %q, got %q'' [FStr expected, FStr actual])))"

section \<open>Withdrawals\<close>

definition usingTheAsyncWithdrawalsInstance :: "('k, 'w, unit) step" where
  "usingTheAsyncWithdrawalsInstance =
     setting (\<lambda>tc. tc\<lparr>tc_baseURL := asyncWithdrawalsURL, tc_adminBaseURL := asyncWithdrawalsAdminURL\<rparr>)"

text \<open>Decoding into a map of texts.\<close>

definition tree_texts :: "jtree \<Rightarrow> string gomap option" where
  "tree_texts v =
     (case v of
        TObj kvs \<Rightarrow> map_option as_gomap
          (all_some (map (\<lambda>(k, t). if t = TNull then Some (k, []) else map_option (Pair k) (tree_string t)) kvs))
      | TNull \<Rightarrow> Some []
      | _ \<Rightarrow> None)"

definition requestWithdrawal :: "'w net \<Rightarrow> string \<Rightarrow> string \<Rightarrow> ('k, 'w, unit) step" where
  "requestWithdrawal N amount currency =
     thereafter (looking (\<lambda>tc. if tc_iframeToken tc = [] then iframeTokenWithScope N ''withdraw'' else ok ()))
     (on_success (given (marshal (jtexts [(''amount'', amount), (''currency'', currency)]))) (\<lambda>b. looking (\<lambda>tc.
     on_success (requestRaw N ''POST'' ''/transaction/complete?paymentType=withdraw'' b ''application/json''
         [(''Authorization'', ''Bearer '' @ tc_iframeToken tc)])
     (\<lambda>rp. looking (\<lambda>tc1.
       if rp_StatusCode rp \<noteq> 200 then ok ()
       else on_success (wrapping
           (\<lambda>e. Errorf ''could not parse withdrawal response: %w. Body: %s'' [FErr e, FStr (tc_lastResponseBody tc1)])
           (reading tree_texts))
         (\<lambda>resp. thereafter (setting (\<lambda>tc. tc\<lparr>tc_withdrawalID := mstr resp ''transaction_id''\<rparr>))
            (require (mstr resp ''transaction_id'' \<noteq> [])
              (Errorf ''withdrawal response carried no transaction_id: %s'' [FStr (tc_lastResponseBody tc1)]))))))))"

definition withdrawals_path :: "'k TestContext \<Rightarrow> string \<Rightarrow> string" where
  "withdrawals_path tc status =
     ''/admin/users/'' @ tc_userID tc @ ''/withdrawals'' @ (if status \<noteq> [] then ''?status='' @ status else [])"

record withdrawal_listing =
  wl_Withdrawals :: "json gomap list"
  wl_Count :: int

definition withdrawal_listing_fields :: "withdrawal_listing fields" where
  "withdrawal_listing_fields =
     [(''withdrawals'', set_slice [] tree_gomap wl_Withdrawals_update), (''count'', set_plain tree_int wl_Count_update)]"

definition reading_withdrawals :: "('k, 'w, withdrawal_listing) step" where
  "reading_withdrawals = reading_struct withdrawal_listing_fields \<lparr>wl_Withdrawals = [], wl_Count = 0\<rparr>"

text \<open>A listing that only its withdrawals are read of.\<close>

definition reading_withdrawals_only :: "('k, 'w, json gomap list) step" where
  "reading_withdrawals_only = reading_struct [(''withdrawals'', set_slice [] tree_gomap (\<lambda>f. f))] []"

definition listWithdrawals :: "'w net \<Rightarrow> string \<Rightarrow> ('k, 'w, json gomap list) step" where
  "listWithdrawals N status =
     looking (\<lambda>tc.
     on_success (tc_request N ''GET'' (withdrawals_path tc status) None []) (\<lambda>rp. looking (\<lambda>tc1.
     thereafter (require (rp_StatusCode rp = 200)
         (Errorf ''listing withdrawals failed with status %d: %s''
           [FInt (rp_StatusCode rp), FStr (tc_lastResponseBody tc1)]))
     (wrapping
         (\<lambda>e. Errorf ''could not parse withdrawal listing: %w. Body: %s'' [FErr e, FStr (tc_lastResponseBody tc1)])
         reading_withdrawals_only))))"

definition withdrawalStatusIs :: "'w net \<Rightarrow> string \<Rightarrow> ('k, 'w, unit) step" where
  "withdrawalStatusIs N expected =
     restoring (on_success (listWithdrawals N []) (\<lambda>withdrawals. looking (\<lambda>tc.
       case map_of [(''pending'', 1), (''completed'', 100), (''failed'', 3)] expected of
         None \<Rightarrow> fail (Errorf ''unknown expected status %q'' [FStr expected])
       | Some wantStatus \<Rightarrow>
           (case List.find (\<lambda>wd. mget wd ''uuid'' = Some (JStr (tc_withdrawalID tc))) withdrawals of
              None \<Rightarrow> fail (Errorf ''withdrawal %s not found in the listing'' [FStr (tc_withdrawalID tc)])
            | Some wd \<Rightarrow> require (mget wd ''status'' = Some (JNum (float_of_int wantStatus)))
                (Errorf ''expected withdrawal %s to be %s (%v), got %v''
                  [FStr (tc_withdrawalID tc), FStr expected, FFloat (float_of_int wantStatus),
                   FVal (value_at wd ''status'')])))))"

definition iGETWithdrawalsFiltered :: "'w net \<Rightarrow> string \<Rightarrow> ('k, 'w, unit) step" where
  "iGETWithdrawalsFiltered N status =
     looking (\<lambda>tc. plainly (tc_request N ''GET'' (withdrawals_path tc status) None []))"

definition withdrawalListingHolds :: "int \<Rightarrow> ('k, 'w, unit) step" where
  "withdrawalListingHolds n =
     looking (\<lambda>tc.
     on_success (wrapping
         (\<lambda>e. Errorf ''could not parse listing: %w. Body: %s'' [FErr e, FStr (tc_lastResponseBody tc)])
         reading_withdrawals)
     (\<lambda>resp. require (int (length (wl_Withdrawals resp)) = n \<and> wl_Count resp = n)
       (Errorf ''expected %d withdrawal(s), got %d (count field %d)''
         [FInt n, FInt (int (length (wl_Withdrawals resp))), FInt (wl_Count resp)])))"

definition withdrawalListingNamesTheBankDetails :: "('k, 'w, unit) step" where
  "withdrawalListingNamesTheBankDetails =
     on_success reading_withdrawals_only (\<lambda>withdrawals.
       case withdrawals of
         [] \<Rightarrow> fail (Errorf ''no withdrawals in the listing'' [])
       | w # _ \<Rightarrow>
           each (\<lambda>field. require (mget w field \<notin> {None, Some (JStr [])})
               (Errorf ''withdrawal does not carry %q: %v'' [FStr field, FMap w]))
             [''account_iban'', ''account_legal_name'', ''message''])"

definition triggerWithdrawalEventFor :: "'w net \<Rightarrow> string \<Rightarrow> string \<Rightarrow> ('k, 'w, unit) step" where
  "triggerWithdrawalEventFor N txID event =
     plainly (tc_request N ''POST'' (''/admin/withdrawals/'' @ txID @ ''/trigger-event'')
       (Some (jtexts [(''event'', event)])) [])"

definition triggerWithdrawalEvent :: "'w net \<Rightarrow> string \<Rightarrow> ('k, 'w, unit) step" where
  "triggerWithdrawalEvent N event =
     looking (\<lambda>tc.
       thereafter (require (tc_withdrawalID tc \<noteq> []) (Errorf ''no withdrawal recorded to settle'' []))
         (triggerWithdrawalEventFor N (tc_withdrawalID tc) event))"

definition withdrawalWebhookReportsTheTransaction :: "'w net \<Rightarrow> string \<Rightarrow> ('k, 'w, unit) step" where
  "withdrawalWebhookReportsTheTransaction N event =
     on_success (webhook_data N ''webhook has no data object: %v'' event) (\<lambda>data. looking (\<lambda>tc.
       thereafter
         (require (mget data ''tx_uuid'' = Some (JStr (tc_withdrawalID tc)))
           (Errorf ''webhook reported transaction %v, expected %s''
             [FVal (value_at data ''tx_uuid''), FStr (tc_withdrawalID tc)]))
         (each (\<lambda>field. require (mget data field \<noteq> None)
             (Errorf ''withdrawal webhook is missing %q: %v'' [FStr field, FMap data]))
           [''amount'', ''currency''])))"

end
