(* ===== verification/Test_Cards.thy ===== *)
theory Test_Cards
  imports Test_Payments Base64
begin

text \<open>The steps about cards: \<^verbatim>\<open>testenv/card_steps.go\<close> and \<^verbatim>\<open>card_crypto_steps.go\<close>.\<close>

section \<open>Customers\<close>

definition postCardCustomerWithBody :: "'w net \<Rightarrow> string \<Rightarrow> json \<Rightarrow> ('k, 'w, unit) step" where
  "postCardCustomerWithBody N path b =
     looking (\<lambda>tc.
     on_success (wrapping (\<lambda>e. Errorf ''request failed: %w'' [FErr e]) (tc_request N ''POST'' path (Some b) (as_user tc)))
     (\<lambda>rp. looking (\<lambda>tc1.
     thereafter (require (rp_StatusCode rp = 201 \<or> rp_StatusCode rp = 200)
         (Errorf ''unexpected status code: %d, body: %s'' [FInt (rp_StatusCode rp), FStr (tc_lastResponseBody tc1)]))
     (on_success (wrapping
         (\<lambda>e. Errorf ''failed to unmarshal response: %w, body was: %s'' [FErr e, FStr (tc_lastResponseBody tc1)])
         reading_map)
     (\<lambda>result.
       case Option.bind (as_object (mget result ''customers'')) (\<lambda>c. as_string (mget c ''id'')) of
         None \<Rightarrow> ok ()
       | Some i \<Rightarrow> setting (\<lambda>tc. tc\<lparr>tc_customerID := i\<rparr>))))))"

definition postCardCustomer ::
  "'w net \<Rightarrow> string \<Rightarrow> string \<Rightarrow> string \<Rightarrow> string \<Rightarrow> string \<Rightarrow> ('k, 'w, unit) step" where
  "postCardCustomer N path nameOnCard accountCode currency cardCode =
     postCardCustomerWithBody N path
       (jmap [(''nameOnCard'', JStr nameOnCard),
          (''account'', jtexts [(''productCode'', accountCode), (''currency'', currency)]),
          (''card'', jtexts [(''productCode'', cardCode)])])"

definition postCardCustomerFromString ::
  "'w net \<Rightarrow> string \<Rightarrow> string \<Rightarrow> string \<Rightarrow> string \<Rightarrow> string \<Rightarrow> ('k, 'w, unit) step" where
  "postCardCustomerFromString N path nameOnCard accountCode currency cardCode =
     postCardCustomer N path nameOnCard accountCode currency cardCode"

text \<open>A value under a key that must be an object, and the first element of a list that must be one.\<close>

definition object_at :: "string \<Rightarrow> string \<Rightarrow> json gomap \<Rightarrow> failure + json gomap" where
  "object_at key msg m = (case as_object (mget m key) of None \<Rightarrow> Inl (Errorf msg []) | Some x \<Rightarrow> Inr x)"

definition first_object :: "string \<Rightarrow> string \<Rightarrow> string \<Rightarrow> json gomap \<Rightarrow> failure + json gomap" where
  "first_object key none no_object m =
     (case as_array (mget m key) of
        Some (x # _) \<Rightarrow> (case as_object (Some x) of None \<Rightarrow> Inl (Errorf no_object []) | Some y \<Rightarrow> Inr y)
      | _ \<Rightarrow> Inl (Errorf none []))"

definition responseHasCustomer :: "string \<Rightarrow> string \<Rightarrow> ('k, 'w, unit) step" where
  "responseHasCustomer customerType kycStatus =
     on_success reading_map (\<lambda>result.
     on_success (given (object_at ''customers'' ''missing or invalid customers object'' result)) (\<lambda>customers.
     thereafter (require (mget customers ''id'' \<noteq> None) (Errorf ''missing id in customer'' []))
       (require (as_string (mget customers ''type'') = Some customerType)
         (Errorf ''expected type %s, got %v'' [FStr customerType, FVal (value_at customers ''type'')]))))"

definition customerHasAccount :: "string \<Rightarrow> string \<Rightarrow> string \<Rightarrow> ('k, 'w, unit) step" where
  "customerHasAccount currency status accType =
     on_success reading_map (\<lambda>result.
     on_success (given (object_at ''customers'' ''missing customers object'' result)) (\<lambda>customers.
     on_success (given (first_object ''accounts'' ''no accounts in customer'' ''account is not an object'' customers))
     (\<lambda>account.
       require (as_string (mget account ''currency'') = Some currency)
         (Errorf ''expected currency %s'' [FStr currency]))))"

definition accountHasCard :: "string \<Rightarrow> string \<Rightarrow> ('k, 'w, unit) step" where
  "accountHasCard status nameOnCard =
     on_success reading_map (\<lambda>result.
     on_success (given (object_at ''customers'' ''missing customers object'' result)) (\<lambda>customers.
     on_success (given (first_object ''accounts'' ''no accounts in customer'' ''account is not an object'' customers))
     (\<lambda>account.
     on_success (given (first_object ''cards'' ''no cards in account'' ''card is not an object'' account)) (\<lambda>crd.
     thereafter
       (require (as_string (mget crd ''status'') = Some status)
         (Errorf ''expected status %s, got %v'' [FStr status, FVal (value_at crd ''status'')]))
       (case as_string (mget crd ''id'') of
          None \<Rightarrow> ok ()
        | Some i \<Rightarrow> setting (\<lambda>tc. tc\<lparr>tc_cardID := i\<rparr>))))))"

definition accountHasCardHelper :: "string \<Rightarrow> string \<Rightarrow> ('k, 'w, unit) step" where
  "accountHasCardHelper status nameOnCard = accountHasCard status nameOnCard"

section \<open>Requests\<close>

definition getWithManagedUserHeader :: "'w net \<Rightarrow> string \<Rightarrow> ('k, 'w, unit) step" where
  "getWithManagedUserHeader N path = plainly (sendWithManagedUserHeader N ''GET'' path None)"

definition getWithCardAppIDHeader :: "'w net \<Rightarrow> string \<Rightarrow> ('k, 'w, unit) step" where
  "getWithCardAppIDHeader N path = plainly (sendWithCardAppIDHeader N ''GET'' path None)"

definition postWithManagedUserHeader :: "'w net \<Rightarrow> string \<Rightarrow> ('k, 'w, unit) step" where
  "postWithManagedUserHeader N path = plainly (sendWithManagedUserHeader N ''POST'' path None)"

definition deleteWithManagedUserHeader :: "'w net \<Rightarrow> string \<Rightarrow> ('k, 'w, unit) step" where
  "deleteWithManagedUserHeader N path = plainly (sendWithManagedUserHeader N ''DELETE'' path None)"

definition putWithNote :: "'w net \<Rightarrow> string \<Rightarrow> string \<Rightarrow> ('k, 'w, unit) step" where
  "putWithNote N path note = plainly (sendWithManagedUserHeader N ''PUT'' path (Some (jtexts [(''note'', note)])))"

section \<open>Cards in answers\<close>

definition card_field_names :: "string list" where
  "card_field_names =
     [''id'', ''accountId'', ''customerId'', ''nameOnCard'', ''maskedPan'', ''status'', ''expiryDate'', ''productCode'']"

definition responseHasCardData :: "('k, 'w, unit) step" where
  "responseHasCardData =
     on_success reading_map (\<lambda>result.
       case as_array (mget result ''data'') of
         Some (x # _) \<Rightarrow>
           (case Option.bind (as_object (Some x)) (\<lambda>c. as_string (mget c ''id'')) of
              None \<Rightarrow> ok ()
            | Some i \<Rightarrow> setting (\<lambda>tc. tc\<lparr>tc_cardID := i\<rparr>))
       | _ \<Rightarrow> fail (Errorf ''no data array or empty'' []))"

definition eachCardHasFields :: "('k, 'w, unit) step" where
  "eachCardHasFields =
     on_success reading_map (\<lambda>result.
       case as_array (mget result ''data'') of
         Some (x # xs) \<Rightarrow>
           each (\<lambda>item. case as_object (Some item) of
               None \<Rightarrow> fail (Errorf ''card is not an object'' [])
             | Some crd \<Rightarrow>
                 each (\<lambda>field. require (mget crd field \<noteq> None) (Errorf ''missing field %s'' [FStr field]))
                   card_field_names) (x # xs)
       | _ \<Rightarrow> fail (Errorf ''no data array'' []))"

definition responsePaginated :: "('k, 'w, unit) step" where
  "responsePaginated =
     on_success reading_map (\<lambda>result.
       case as_object (mget result ''pagination'') of
         None \<Rightarrow>
           each (\<lambda>(key, msg). require (mget result key \<noteq> None) (Errorf msg []))
             [(''pageNumber'', ''missing pagination object and missing pageNumber''),
              (''pageSize'', ''missing pageSize''), (''totalPages'', ''missing totalPages'')]
       | Some pagination \<Rightarrow>
           each (\<lambda>key. require (mget pagination key \<noteq> None) (Errorf (''missing '' @ key @ '' in pagination'') []))
             [''pageNumber'', ''pageSize'', ''totalPages''])"

definition responseHasCardObject :: "('k, 'w, unit) step" where
  "responseHasCardObject = checkRequiredFields card_field_names"

definition cardStatusIs :: "string \<Rightarrow> ('k, 'w, unit) step" where
  "cardStatusIs status = checkFieldValue ''status'' status"

definition cardStatusChangedTo :: "string \<Rightarrow> ('k, 'w, unit) step" where
  "cardStatusChangedTo newStatus = cardStatusIs newStatus"

definition cardStatusChangedBackTo :: "string \<Rightarrow> ('k, 'w, unit) step" where
  "cardStatusChangedBackTo status = cardStatusIs status"

definition extractCardIDFromResponse :: "('k, 'w, unit) step" where
  "extractCardIDFromResponse =
     on_success reading_map (\<lambda>result. looking (\<lambda>tc0.
     case as_object (mget result ''customers'') of
       None \<Rightarrow> fail (Errorf ''missing customers in response: %s'' [FStr (tc_lastResponseBody tc0)])
     | Some customers \<Rightarrow>
         thereafter
           (case as_string (mget customers ''id'') of
              None \<Rightarrow> ok () | Some i \<Rightarrow> setting (\<lambda>tc. tc\<lparr>tc_customerID := i\<rparr>))
         (on_success (given (first_object ''accounts'' ''no accounts in response'' ''account is not an object'' customers))
         (\<lambda>account.
         on_success (given (first_object ''cards'' ''no cards in response'' ''card is not an object'' account)) (\<lambda>crd.
           case as_string (mget crd ''id'') of
             None \<Rightarrow> ok () | Some i \<Rightarrow> setting (\<lambda>tc. tc\<lparr>tc_cardID := i\<rparr>))))))"

section \<open>Customers with cards\<close>

definition managedCustomerWithCard :: "'w net \<Rightarrow> ('k, 'w, unit) step" where
  "managedCustomerWithCard N =
     thereafter (looking (\<lambda>tc. if tc_userID tc = [] then existingManagedUserWithKYC N ''accepted'' else ok ()))
     (thereafter
       (postCardCustomerWithBody N ''/cards/v1/customers/managed''
         (jmap [(''walletAddress'', JStr ''https://ilp.link/test''), (''nameOnCard'', JStr ''John Doe''),
            (''account'', jmap [(''productCode'', JStr ''PWSR_DEBP_2404''), (''currency'', JStr ''EUR''),
               (''card'', jtexts [(''productCode'', ''PWSR_DEBP_2404'')])])]))
       extractCardIDFromResponse)"

definition managedCustomerWithLockedCard :: "'w net \<Rightarrow> ('k, 'w, unit) step" where
  "managedCustomerWithLockedCard N =
     thereafter (managedCustomerWithCard N) (looking (\<lambda>tc.
     on_success (sendWithManagedUserHeader N ''PUT''
         (''/cards/v1/cards/'' @ tc_cardID tc @ ''/lock?reasonCode=ClientRequestedLock'')
         (Some (jtexts [(''note'', ''Lock for test'')])))
     (\<lambda>rp. looking (\<lambda>tc1. require (rp_StatusCode rp = 200)
       (Errorf ''failed to lock card, status: %d, body: %s'' [FInt (rp_StatusCode rp), FStr (tc_lastResponseBody tc1)])))))"

definition postCardTransaction :: "'w net \<Rightarrow> string \<Rightarrow> string \<Rightarrow> string \<Rightarrow> ('k, 'w, unit) step" where
  "postCardTransaction N path amount currency =
     looking (\<lambda>tc.
       thereafter (sendWithManagedUserHeader N ''POST'' path
           (Some (jmap [(''cardId'', JStr (tc_cardID tc)), (''amount'', JStr amount), (''currency'', JStr currency),
              (''type'', JInt 0), (''merchantName'', JStr ''Test Merchant'')])))
         (take_transactionID ''transactionId''))"

definition managedCustomerWithCardAndTransaction :: "'w net \<Rightarrow> ('k, 'w, unit) step" where
  "managedCustomerWithCardAndTransaction N =
     thereafter (managedCustomerWithCard N) (postCardTransaction N ''/cards/v1/transactions'' ''25.00'' ''EUR'')"

definition managedCustomerWithPending3DS :: "'w net \<Rightarrow> ('k, 'w, unit) step" where
  "managedCustomerWithPending3DS N =
     thereafter (managedCustomerWithCard N) (looking (\<lambda>tc.
       thereafter (sendWithManagedUserHeader N ''POST'' ''/cards/v1/test/3ds/challenge''
           (Some (jtexts [(''cardId'', tc_cardID tc), (''userId'', tc_userID tc), (''merchantName'', ''Test Merchant''),
              (''purchaseAmount'', ''150.00''), (''purchaseCurrency'', ''EUR'')])))
         (take_transactionID ''transactionId'')))"

definition postCardTokenWithManagedUser :: "'w net \<Rightarrow> string \<Rightarrow> ('k, 'w, unit) step" where
  "postCardTokenWithManagedUser N path =
     looking (\<lambda>tc. plainly (sendWithManagedUserHeader N ''POST'' path (Some (jtexts [(''cardId'', tc_cardID tc)]))))"

definition responseContainsLinksArray :: "('k, 'w, unit) step" where
  "responseContainsLinksArray =
     on_success reading_map (\<lambda>result. looking (\<lambda>tc.
       require (as_array (mget result ''links'') \<notin> {None, Some []})
         (Errorf ''missing or empty links array in response: %s'' [FStr (tc_lastResponseBody tc)])))"

definition limit_json :: "string \<Rightarrow> f64 \<Rightarrow> json" where
  "limit_json kind limit =
     jmap [(''type'', JStr kind), (''limit'', JNum limit), (''currency'', JStr ''EUR''), (''isDisabled'', JBool False)]"

definition putCardLimitsWithUpdate :: "'w net \<Rightarrow> string \<Rightarrow> int \<Rightarrow> ('k, 'w, unit) step" where
  "putCardLimitsWithUpdate N path newDailyLimit =
     plainly (sendWithManagedUserHeader N ''PUT'' path (Some (JArr
       [limit_json ''dailyOverall'' (float_of_int newDailyLimit), limit_json ''perTransaction'' (float_of_int 500),
        limit_json ''monthlyOverall'' (float_of_int 5000), limit_json ''dailyAtm'' (float_of_int 300),
        limit_json ''dailyEcomm'' (float_of_int 800)])))"

definition responseContainsCardTransactionWithGH :: "string \<Rightarrow> ('k, 'w, unit) step" where
  "responseContainsCardTransactionWithGH ghCode =
     thereafter (checkRequiredFields [''transactionId'']) (checkFieldValue ''ghResponseCode'' ghCode)"

definition responseContainsCardTransactionDetails :: "('k, 'w, unit) step" where
  "responseContainsCardTransactionDetails = checkRequiredFields [''transactionId'', ''transactionAmount'']"

definition responseStatusWithStatus :: "int \<Rightarrow> string \<Rightarrow> ('k, 'w, unit) step" where
  "responseStatusWithStatus status statusStr =
     on_success last_response (\<lambda>rp.
       thereafter (require (rp_StatusCode rp = status)
           (Errorf ''expected status %d, got %d'' [FInt status, FInt (rp_StatusCode rp)]))
         (checkFieldValue ''status'' statusStr))"

definition responseContainsTokenStarting :: "string \<Rightarrow> ('k, 'w, unit) step" where
  "responseContainsTokenStarting prefix =
     on_success reading_map (\<lambda>result.
       case as_string (mget result ''token'') of
         None \<Rightarrow> fail (Errorf ''missing token field'' [])
       | Some token \<Rightarrow> require (token \<noteq> [] \<and> has_prefix token prefix)
           (Errorf ''token does not start with %s, got: %s'' [FStr prefix, FStr token]))"

section \<open>Confirmations, products and limits\<close>

definition responseIsArrayOfPending3DSConfirmations :: "int \<Rightarrow> ('k, 'w, unit) step" where
  "responseIsArrayOfPending3DSConfirmations version =
     on_success (wrapping (\<lambda>e. Errorf ''response is not an object: %w'' [FErr e]) reading_map) (\<lambda>wrapper. looking (\<lambda>tc.
       case as_array (mget wrapper ''pendingConfirmations'') of
         None \<Rightarrow> fail (Errorf ''missing pendingConfirmations key in response or not an array: %s''
           [FStr (tc_lastResponseBody tc)])
       | Some confirmations \<Rightarrow> require (confirmations \<noteq> []) (Errorf ''pendingConfirmations array is empty'' [])))"

definition responseIsArrayOfPending3DS :: "('k, 'w, unit) step" where
  "responseIsArrayOfPending3DS = responseIsArrayOfPending3DSConfirmations 3"

text \<open>A check of every element with its position.\<close>

definition numbered :: "'a list \<Rightarrow> (int \<times> 'a) list" where
  "numbered xs = zip (map int [0..<length xs]) xs"

definition eachConfirmationHasRequiredFields :: "('k, 'w, unit) step" where
  "eachConfirmationHasRequiredFields =
     on_success reading_map (\<lambda>wrapper.
       case as_array (mget wrapper ''pendingConfirmations'') of
         None \<Rightarrow> fail (Errorf ''missing pendingConfirmations key in response'' [])
       | Some raw \<Rightarrow>
           each (\<lambda>(i, item).
             each (\<lambda>field. require (mget item field \<noteq> None)
                 (Errorf ''confirmation %d missing %s'' [FInt i, FStr field]))
               [''transactionId'', ''merchantName'', ''purchaseAmount'', ''purchaseCurrency'', ''timeout''])
             (numbered (List.map_filter (\<lambda>c. as_object (Some c)) raw)))"

definition postWith3DSConfirmation :: "'w net \<Rightarrow> string \<Rightarrow> string \<Rightarrow> string \<Rightarrow> ('k, 'w, unit) step" where
  "postWith3DSConfirmation N path confirmed authMethod =
     plainly (sendWithManagedUserHeader N ''POST'' path
       (Some (jmap [(''confirmed'', JBool (confirmed = ''true'')), (''authMethod'', JStr authMethod)])))"

definition responseContainsFieldWithBoolValue :: "string \<Rightarrow> string \<Rightarrow> ('k, 'w, unit) step" where
  "responseContainsFieldWithBoolValue fieldName expectedValue =
     on_success reading_map (\<lambda>result.
       case mget result fieldName of
         None \<Rightarrow> fail (Errorf (''field '' @ within_quotes ''%s'' @ '' not found in response'') [FStr fieldName])
       | Some v \<Rightarrow>
           let expectedBool = (expectedValue = ''true'') in
           require (v = JBool expectedBool)
             (Errorf ''expected %s=%v, got %v'' [FStr fieldName, FBool expectedBool, FVal v]))"

definition responseHasCardProducts :: "('k, 'w, unit) step" where
  "responseHasCardProducts =
     on_success (wrapping (\<lambda>e. Errorf ''response is not an array of products: %w'' [FErr e]) (reading tree_gomaps))
     (\<lambda>products.
       thereafter (require (products \<noteq> []) (Errorf ''products array is empty'' []))
         (each (\<lambda>(i, product).
            each (\<lambda>field. require (mget product field \<noteq> None)
                (Errorf (''product[%d] missing '' @ within_quotes field @ '' field'') [FInt i]))
              [''code'', ''name'', ''cardProductLimits'']) (numbered products)))"

definition responseContainsPlasticCardOrder :: "string \<Rightarrow> string \<Rightarrow> ('k, 'w, unit) step" where
  "responseContainsPlasticCardOrder status cardType =
     thereafter (checkRequiredFields [''orderId'', ''cardId''])
       (thereafter (checkFieldValue ''status'' status) (checkFieldValue ''type'' cardType))"

definition responseIsArrayOfCardLimits :: "('k, 'w, unit) step" where
  "responseIsArrayOfCardLimits =
     on_success (wrapping (\<lambda>e. Errorf ''response is not an array: %w'' [FErr e]) (reading tree_gomaps))
       (\<lambda>result. require (result \<noteq> []) (Errorf ''limits array is empty'' []))"

definition eachLimitHasRequiredFields :: "string \<Rightarrow> ('k, 'w, unit) step" where
  "eachLimitHasRequiredFields currency =
     on_success (reading tree_gomaps) (\<lambda>result.
       each (\<lambda>(i, item).
         thereafter (require (mget item ''type'' \<noteq> None) (Errorf ''limit %d missing type'' [FInt i]))
         (thereafter (require (mget item ''limit'' \<noteq> None) (Errorf ''limit %d missing limit'' [FInt i]))
         (thereafter (require (as_string (mget item ''currency'') = Some currency)
             (Errorf ''limit %d currency is not %s'' [FInt i, FStr currency]))
           (require (mget item ''isDisabled'' \<noteq> None) (Errorf ''limit %d missing isDisabled'' [FInt i])))))
         (numbered result))"

text \<open>The type that is reported missing is the first one in the order of the map.\<close>

definition limitsIncludeRequiredTypes :: "'w net \<Rightarrow> ('k, 'w, unit) step" where
  "limitsIncludeRequiredTypes N =
     on_success (reading tree_gomaps) (\<lambda>result.
       let types = [''dailyOverall'', ''perTransaction'', ''monthlyOverall'', ''dailyAtm'', ''dailyEcomm''];
           found = List.map_filter (\<lambda>item. as_string (mget item ''type'')) result
       in each (\<lambda>(t, seen). require seen (Errorf ''missing limit type: %s'' [FStr t]))
            (range_pairs (n_order N) (map (\<lambda>t. (t, t \<in> set found)) types)))"

definition responseReturnsUpdatedLimits :: "('k, 'w, unit) step" where
  "responseReturnsUpdatedLimits = responseIsArrayOfCardLimits"

definition dailyOverallLimitChanged :: "int \<Rightarrow> ('k, 'w, unit) step" where
  "dailyOverallLimitChanged newLimit =
     on_success (reading tree_gomaps) (\<lambda>result.
       require
         (list_ex (\<lambda>item. as_string (mget item ''type'') = Some ''dailyOverall'' \<and> number_is item ''limit'' newLimit) result)
         (Errorf ''dailyOverall limit not changed to %d'' [FInt newLimit]))"

definition cardNotInListCardsQuery :: "'w net \<Rightarrow> ('k, 'w, unit) step" where
  "cardNotInListCardsQuery N =
     thereafter (sendWithManagedUserHeader N ''GET'' ''/cards/v1/cards/{customerId}'' None)
     (on_success reading_map (\<lambda>result.
       let items = (case as_array (mget result ''data'') of None \<Rightarrow> [] | Some xs \<Rightarrow> xs) in
       require
         (\<not> list_ex (\<lambda>item. Option.bind (as_object (Some item)) (\<lambda>c. as_string (mget c ''status'')) =
            Some ''SoftDelete'') items)
         (Errorf ''found card with SoftDelete status in list'' [])))"

section \<open>Keys\<close>

text \<open>
  RSA and its key files are a parameter: fresh keys with the public half in its standard form, reading such a form
  (\<open>Inr None\<close> where the key is no RSA key), encryption with fresh randomness, and decryption.
\<close>

record ('k, 'p, 'w) rsa =
  ra_GenerateKey :: "'w \<Rightarrow> (go_error + string \<times> 'k) \<times> 'w"
  ra_ParsePKIX :: "string \<Rightarrow> go_error + 'p option"
  ra_Encrypt :: "'p \<Rightarrow> string \<Rightarrow> 'w \<Rightarrow> (go_error + string) \<times> 'w"
  ra_Decrypt :: "'k \<Rightarrow> string \<Rightarrow> go_error + string"

definition callerGeneratesRSAKeyPair :: "('k, 'p, 'w) rsa \<Rightarrow> ('k, 'w, unit) step" where
  "callerGeneratesRSAKeyPair R s =
     (case ra_GenerateKey R (snd s) of
        (Inl e, w) \<Rightarrow> (Inl (LibError ''rsa.GenerateKey'' e), fst s, w)
      | (Inr (der, key), w) \<Rightarrow>
          (Inr (), (fst s)\<lparr>tc_keys := Some \<lparr>ck_publicKeyB64 = std_encode der, ck_private = key\<rparr>\<rparr>, w))"

definition encryptToBase64SPKI :: "('k, 'p, 'w) rsa \<Rightarrow> string \<Rightarrow> string \<Rightarrow> ('k, 'w, string) step" where
  "encryptToBase64SPKI R publicKeyB64 plaintext s =
     (case std_decode publicKeyB64 of
        None \<Rightarrow> (Inl (Errorf ''public key is not base64: %w'' [FErr (LibError ''base64'' publicKeyB64)]), s)
      | Some der \<Rightarrow>
          (case ra_ParsePKIX R der of
             Inl e \<Rightarrow> (Inl (Errorf ''public key is not SPKI: %w'' [FErr (LibError ''x509'' e)]), s)
           | Inr None \<Rightarrow> (Inl (Errorf ''public key is not RSA'' []), s)
           | Inr (Some key) \<Rightarrow>
               (case ra_Encrypt R key plaintext (snd s) of
                  (Inl e, w) \<Rightarrow> (Inl (LibError ''rsa.EncryptPKCS1v15'' e), fst s, w)
                | (Inr c, w) \<Rightarrow> (Inr (std_encode c), fst s, w))))"

section \<open>Tokens of cards\<close>

record token_link =
  tl_Href :: string
  tl_Method :: string

record token_answer =
  ta_Token :: string
  ta_Links :: "token_link list"

definition token_answer_fields :: "token_answer fields" where
  "token_answer_fields =
     [(''token'', set_plain tree_string ta_Token_update),
      (''links'', set_slice \<lparr>tl_Href = [], tl_Method = []\<rparr>
         (tree_struct [(''href'', set_plain tree_string tl_Href_update), (''method'', set_plain tree_string tl_Method_update)]
            \<lparr>tl_Href = [], tl_Method = []\<rparr>) ta_Links_update)]"

definition captureCardToken :: "('k, 'w, unit) step" where
  "captureCardToken =
     looking (\<lambda>tc0.
     on_success (wrapping
         (\<lambda>e. Errorf ''could not parse token response: %w. Body: %s'' [FErr e, FStr (tc_lastResponseBody tc0)])
         (reading_struct token_answer_fields \<lparr>ta_Token = [], ta_Links = []\<rparr>))
     (\<lambda>resp. setting (\<lambda>tc.
        let tc1 = tc\<lparr>tc_cardToken := ta_Token resp\<rparr> in
        case ta_Links resp of
          [] \<Rightarrow> tc1
        | l # _ \<Rightarrow> tc1\<lparr>tc_cardTokenHref := tl_Href l, tc_cardTokenMethod := tl_Method l\<rparr>)))"

definition no_key_pair :: failure where
  "no_key_pair = Errorf ''no caller key pair generated'' []"

definition postCardTokenWithPublicKey :: "'w net \<Rightarrow> string \<Rightarrow> ('k, 'w, unit) step" where
  "postCardTokenWithPublicKey N tokenType =
     looking (\<lambda>tc.
       case tc_keys tc of
         None \<Rightarrow> fail no_key_pair
       | Some keys \<Rightarrow>
           thereafter (sendWithManagedUserHeader N ''POST'' (''/cards/v1/token/'' @ tokenType)
               (Some (jtexts [(''cardId'', tc_cardID tc), (''publicKey'', ck_publicKeyB64 keys)])))
             captureCardToken)"

definition postPinChangeToken :: "'w net \<Rightarrow> ('k, 'w, unit) step" where
  "postPinChangeToken N =
     looking (\<lambda>tc.
       thereafter (sendWithManagedUserHeader N ''POST'' ''/cards/v1/token/pin-change''
           (Some (jtexts [(''cardId'', tc_cardID tc)])))
         captureCardToken)"

definition tokenLinkIsAbsolute :: "('k, 'w, unit) step" where
  "tokenLinkIsAbsolute =
     looking (\<lambda>tc.
       thereafter (require (tc_cardTokenHref tc \<noteq> []) (Errorf ''no link href captured'' []))
         (require (has_prefix (tc_cardTokenHref tc) ''http://'' \<or> has_prefix (tc_cardTokenHref tc) ''https://'')
           (Errorf ''expected an absolute URL, got %q'' [FStr (tc_cardTokenHref tc)])))"

definition tokenLinkPathIs :: "string \<Rightarrow> ('k, 'w, unit) step" where
  "tokenLinkPathIs expected =
     looking (\<lambda>tc. require (has_suffix (tc_cardTokenHref tc) expected)
       (Errorf ''expected link href to end with %q, got %q'' [FStr expected, FStr (tc_cardTokenHref tc)]))"

definition tokenLinkMethodIs :: "string \<Rightarrow> ('k, 'w, unit) step" where
  "tokenLinkMethodIs expected =
     looking (\<lambda>tc. require (tc_cardTokenMethod tc = expected)
       (Errorf ''expected link method %q, got %q'' [FStr expected, FStr (tc_cardTokenMethod tc)]))"

definition browserFollowsLink :: "'w net \<Rightarrow> string \<Rightarrow> string \<Rightarrow> ('k, 'w, unit) step" where
  "browserFollowsLink N path token0 =
     looking (\<lambda>tc.
       let token = (if token0 = ''the issued token'' then tc_cardToken tc
                    else if token0 = ''no token'' then [] else token0);
           headers = (if token \<noteq> [] then [(''Authorization'', ''Bearer '' @ token)] else [])
       in plainly (requestRaw N ''GET'' path [] [] headers))"

definition browserFollowsTheCardDataLink :: "'w net \<Rightarrow> string \<Rightarrow> ('k, 'w, unit) step" where
  "browserFollowsTheCardDataLink N token = browserFollowsLink N ''/cards/v1/token/card-data/data'' token"

definition browserFollowsThePinLink :: "'w net \<Rightarrow> string \<Rightarrow> ('k, 'w, unit) step" where
  "browserFollowsThePinLink N token = browserFollowsLink N ''/cards/v1/token/pin/data'' token"

definition decryptCypher :: "('k, 'p, 'w) rsa \<Rightarrow> ('k, 'w, string) step" where
  "decryptCypher R =
     looking (\<lambda>tc.
       case tc_keys tc of
         None \<Rightarrow> fail no_key_pair
       | Some keys \<Rightarrow>
           on_success (wrapping
             (\<lambda>e. Errorf ''could not parse response: %w. Body: %s'' [FErr e, FStr (tc_lastResponseBody tc)])
             (reading tree_texts))
           (\<lambda>resp. given
             (case mget resp ''cypher'' of
                None \<Rightarrow> Inl (Errorf ''response has no cypher field: %s'' [FStr (tc_lastResponseBody tc)])
              | Some cypher \<Rightarrow>
                  (case std_decode cypher of
                     None \<Rightarrow> Inl (Errorf ''cypher is not base64: %w'' [FErr (LibError ''base64'' cypher)])
                   | Some raw \<Rightarrow>
                       (case ra_Decrypt R (ck_private keys) raw of
                          Inl e \<Rightarrow> Inl (Errorf (''cypher did not decrypt with the caller'' @ [CHR 0x27] @ ''s private key: %w'')
                            [FErr (LibError ''rsa.DecryptPKCS1v15'' e)])
                        | Inr p \<Rightarrow> Inr p)))))"

section \<open>Sensitive data\<close>

record card_details =
  cd_Pan :: string
  cd_ExpiryDate :: string
  cd_Cvc2 :: string

definition zero_card_details :: card_details where
  "zero_card_details = \<lparr>cd_Pan = [], cd_ExpiryDate = [], cd_Cvc2 = []\<rparr>"

definition card_details_fields :: "card_details fields" where
  "card_details_fields =
     [(''Pan'', set_plain tree_string cd_Pan_update), (''ExpiryDate'', set_plain tree_string cd_ExpiryDate_update),
      (''Cvc2'', set_plain tree_string cd_Cvc2_update)]"

definition panPattern :: "string \<Rightarrow> bool" where
  "panPattern s \<longleftrightarrow> length s = 16 \<and> list_all is_digit s"

definition pinPattern :: "string \<Rightarrow> bool" where
  "pinPattern s \<longleftrightarrow> 4 \<le> length s \<and> length s \<le> 12 \<and> list_all is_digit s"

definition payloadDecryptsToCardDetails :: "('k, 'p, 'w) rsa \<Rightarrow> ('k, 'w, unit) step" where
  "payloadDecryptsToCardDetails R =
     on_success (decryptCypher R) (\<lambda>plaintext.
     on_success (wrapping (\<lambda>e. Errorf ''decrypted payload is not card details: %w. Got: %s'' [FErr e, FStr plaintext])
         (given (unmarshal_with
            (\<lambda>v. if v = TNull then Some zero_card_details else tree_struct card_details_fields zero_card_details v)
            plaintext)))
     (\<lambda>d.
     thereafter (require (panPattern (cd_Pan d)) (Errorf ''expected a 16-digit PAN, got %q'' [FStr (cd_Pan d)]))
     (thereafter (require (cd_ExpiryDate d \<noteq> []) (Errorf ''decrypted card details carry no expiry date'' []))
     (thereafter (require (length (cd_Cvc2 d) = 3) (Errorf ''expected a 3-digit CVC, got %q'' [FStr (cd_Cvc2 d)]))
       (setting (\<lambda>tc. tc\<lparr>tc_decryptedPAN := cd_Pan d\<rparr>))))))"

definition decryptedPANMatchesPrevious :: "('k, 'p, 'w) rsa \<Rightarrow> ('k, 'w, unit) step" where
  "decryptedPANMatchesPrevious R =
     looking (\<lambda>tc0.
       thereafter (require (tc_decryptedPAN tc0 \<noteq> []) (Errorf ''no PAN recorded from an earlier read'' []))
       (thereafter (payloadDecryptsToCardDetails R)
       (looking (\<lambda>tc. require (tc_decryptedPAN tc = tc_decryptedPAN tc0)
         (Errorf ''the same card returned two different PANs: %q then %q''
           [FStr (tc_decryptedPAN tc0), FStr (tc_decryptedPAN tc)])))))"

definition noCardDataIsDisclosed :: "('k, 'w, unit) step" where
  "noCardDataIsDisclosed =
     looking (\<lambda>tc. require (\<not> strings_Contains (tc_lastResponseBody tc) ''cypher'')
       (Errorf ''a rejected request still returned a cypher: %s'' [FStr (tc_lastResponseBody tc)]))"

definition callerSetsTheCardPIN :: "'w net \<Rightarrow> ('k, 'p, 'w) rsa \<Rightarrow> string \<Rightarrow> ('k, 'w, unit) step" where
  "callerSetsTheCardPIN N R pin =
     thereafter (requestRaw N ''GET'' ''/cards/v1/token/pin/public-key'' [] [] []) (looking (\<lambda>tc0.
     on_success (wrapping
         (\<lambda>e. Errorf ''could not parse public key response: %w. Body: %s'' [FErr e, FStr (tc_lastResponseBody tc0)])
         (reading_struct [(''publicKey'', set_plain tree_string (\<lambda>f. f))] []))
     (\<lambda>publicKey.
     thereafter (require (publicKey \<noteq> []) (Errorf ''service published no public key'' []))
     (on_success (encryptToBase64SPKI R publicKey pin) (\<lambda>cypher.
     thereafter (postPinChangeToken N)
     (on_success last_response (\<lambda>rp. looking (\<lambda>tc.
     thereafter (require (rp_StatusCode rp = 200)
         (Errorf ''could not obtain a pin-change token: status %d body %s''
           [FInt (rp_StatusCode rp), FStr (tc_lastResponseBody tc)]))
     (on_success (given (marshal (jtexts [(''cypher'', cypher)]))) (\<lambda>b.
       plainly (requestRaw N ''POST'' ''/cards/v1/token/pin/data'' b ''application/json''
         [(''Authorization'', ''Bearer '' @ tc_cardToken tc)])))))))))))"

definition callerReadsTheCardPIN :: "'w net \<Rightarrow> ('k, 'w, unit) step" where
  "callerReadsTheCardPIN N =
     thereafter (postCardTokenWithPublicKey N ''pin'') (on_success last_response (\<lambda>rp. looking (\<lambda>tc.
       thereafter (require (rp_StatusCode rp = 200)
           (Errorf ''could not obtain a pin token: status %d body %s''
             [FInt (rp_StatusCode rp), FStr (tc_lastResponseBody tc)]))
         (browserFollowsThePinLink N ''the issued token''))))"

definition decryptedPINIs :: "('k, 'p, 'w) rsa \<Rightarrow> string \<Rightarrow> ('k, 'w, unit) step" where
  "decryptedPINIs R expected =
     on_success (decryptCypher R) (\<lambda>plaintext.
       let got = TrimSpace plaintext in
       require (got = expected) (Errorf ''expected PIN %q, got %q'' [FStr expected, FStr got]))"

definition decryptedPINLooksLikeAPIN :: "('k, 'p, 'w) rsa \<Rightarrow> ('k, 'w, unit) step" where
  "decryptedPINLooksLikeAPIN R =
     on_success (decryptCypher R) (\<lambda>plaintext.
       let got = TrimSpace plaintext in
       require (pinPattern got) (Errorf ''expected a numeric PIN, got %q'' [FStr got]))"

end
