(* ===== verification/Test_Pages.thy ===== *)
theory Test_Pages
  imports Test_Cards Documents Admin_UI
begin

text \<open>
  The steps about documents, simulated transactions, the contract of the endpoints and the pages of the
  administration: \<^verbatim>\<open>testenv/statement_steps.go\<close>, \<^verbatim>\<open>card_simulation_steps.go\<close>, \<^verbatim>\<open>contract_steps.go\<close> and
  \<^verbatim>\<open>ui_steps.go\<close>.
\<close>

section \<open>Statements\<close>

text \<open>
  The pattern of a drawn text: an open parenthesis, bytes that are no parenthesis and no backslash, or a backslash
  with the byte after it, and at the end \<^verbatim>\<open>) Tj\<close>. The result is the text between the parentheses and what follows.
\<close>

fun drawn :: "string \<Rightarrow> string \<Rightarrow> (string \<times> string) option" where
  "drawn acc [] = None"
| "drawn acc (c # s) =
     (if c = CHR '')'' then (if has_prefix s '' Tj'' then Some (acc, drop 3 s) else None)
      else if c = CHR ''('' then None
      else if c = CHR 0x5C
      then (case s of [] \<Rightarrow> None | d # t \<Rightarrow> if d = CHR 0x0A then None else drawn (acc @ [c, d]) t)
      else drawn (acc @ [c]) s)"

lemma drawn_shorter: "drawn acc s = Some (m, r) \<Longrightarrow> length r < length s"
  by (induction acc s rule: drawn.induct) (auto split: if_splits list.splits)

function pdfDrawnText :: "string \<Rightarrow> string list" where
  "pdfDrawnText [] = []"
| "pdfDrawnText (c # s) =
     (if c = CHR ''('' then case drawn [] s of Some (m, r) \<Rightarrow> m # pdfDrawnText r | None \<Rightarrow> pdfDrawnText s
      else pdfDrawnText s)"
  by pat_completeness auto
termination
  by (relation "measure length") (auto dest: drawn_shorter)

fun unescape_drawn :: "string \<Rightarrow> string" where
  "unescape_drawn (c # d # s) =
     (if c = CHR 0x5C \<and> (d = CHR ''('' \<or> d = CHR '')'' \<or> d = CHR 0x5C) then d # unescape_drawn s
      else c # unescape_drawn (d # s))"
| "unescape_drawn s = s"

definition statementText :: "'k TestContext \<Rightarrow> string" where
  "statementText tc = join_with [CHR 0x0A] (map unescape_drawn (pdfDrawnText (tc_lastResponseBody tc)))"

definition statements :: string where
  "statements = ''/statement/v1/statements/''"

definition getAccountConfirmation :: "'w net \<Rightarrow> ('k, 'w, unit) step" where
  "getAccountConfirmation N =
     looking (\<lambda>tc. plainly (tc_request N ''GET'' (statements @ ''account-confirmation/'' @ tc_walletAddress tc) None []))"

definition getAccountConfirmationUnauthenticated :: "'w net \<Rightarrow> ('k, 'w, unit) step" where
  "getAccountConfirmationUnauthenticated N =
     looking (\<lambda>tc. plainly (requestRaw N ''GET'' (statements @ ''account-confirmation/'' @ tc_walletAddress tc) [] [] []))"

definition getAccountStatementForCurrentMonth :: "'w net \<Rightarrow> ('k, 'w, unit) step" where
  "getAccountStatementForCurrentMonth N =
     on_success (timeNow N) (\<lambda>now.
     thereafter (setting (\<lambda>tc. tc\<lparr>tc_statementPeriod := now\<rparr>)) (looking (\<lambda>tc.
       plainly (tc_request N ''GET'' (statements @ ''account-statement/'' @ tc_walletAddress tc @ ''/'' @
         int_str (year_of now) @ ''/'' @ int_str (month_of now)) None []))))"

definition getAccountStatementForPeriod :: "'w net \<Rightarrow> string \<Rightarrow> ('k, 'w, unit) step" where
  "getAccountStatementForPeriod N period =
     looking (\<lambda>tc. plainly (tc_request N ''GET''
       (statements @ ''account-statement/'' @ tc_walletAddress tc @ ''/'' @ period) None []))"

definition getTransferConfirmationFor :: "'w net \<Rightarrow> string \<Rightarrow> ('k, 'w, unit) step" where
  "getTransferConfirmationFor N txID =
     plainly (tc_request N ''GET'' (statements @ ''transfer-confirmation/'' @ txID) None [])"

definition getTransferConfirmationForLastTransaction :: "'w net \<Rightarrow> ('k, 'w, unit) step" where
  "getTransferConfirmationForLastTransaction N =
     looking (\<lambda>tc.
       thereafter (require (tc_transactionID tc \<noteq> []) (Errorf ''no transaction recorded to confirm'' []))
         (getTransferConfirmationFor N (tc_transactionID tc)))"

definition responseIsPDFAttachment :: "string \<Rightarrow> ('k, 'w, unit) step" where
  "responseIsPDFAttachment filename =
     on_success last_response (\<lambda>rp. looking (\<lambda>tc.
       let contentType = reply_header rp ''Content-Type''; disposition = reply_header rp ''Content-Disposition'';
           b = tc_lastResponseBody tc in
       thereafter (require (contentType = ''application/pdf'')
           (Errorf ''expected Content-Type application/pdf, got %q'' [FStr contentType]))
       (thereafter (require (strings_Contains disposition filename)
           (Errorf ''expected Content-Disposition to name %q, got %q'' [FStr filename, FStr disposition]))
       (thereafter (require (has_prefix b ''%PDF-'') (Errorf ''body is not a PDF: %.60q'' [FStr b]))
         (require (has_suffix b (''%%EOF'' @ [CHR 0x0A]))
           (Errorf ''PDF is truncated: it does not end with the EOF marker'' []))))))"

definition responseIsNotAPDF :: "('k, 'w, unit) step" where
  "responseIsNotAPDF =
     looking (\<lambda>tc. require (\<not> has_prefix (tc_lastResponseBody tc) ''%PDF-'')
       (Errorf ''a refused request still returned a document'' []))"

definition statementReads :: "string \<Rightarrow> ('k, 'w, unit) step" where
  "statementReads expected =
     looking (\<lambda>tc. require (strings_Contains (statementText tc) expected)
       (Errorf (''statement does not read %q. It reads:'' @ [CHR 0x0A] @ ''%s'')
         [FStr expected, FStr (statementText tc)]))"

definition statementNamesTheUserWallet :: "('k, 'w, unit) step" where
  "statementNamesTheUserWallet = looking (\<lambda>tc. statementReads (tc_walletAddress tc))"

definition statementNamesTheCurrentMonth :: "('k, 'w, unit) step" where
  "statementNamesTheCurrentMonth =
     looking (\<lambda>tc.
       thereafter (require (tc_statementPeriod tc \<noteq> 0) (Errorf ''no statement period recorded'' []))
         (statementReads (format_month (year_of (tc_statementPeriod tc)) (month_of (tc_statementPeriod tc)))))"

definition statementListsATransaction :: "('k, 'w, unit) step" where
  "statementListsATransaction =
     looking (\<lambda>tc.
       let text = statementText tc in
       thereafter (require (\<not> strings_Contains text ''No activity in this period'')
           (Errorf (''statement reports no activity, but the account was funded. It reads:'' @ [CHR 0x0A] @ ''%s'')
             [FStr text]))
         (require (strings_Contains text ''transaction(s) in period'')
           (Errorf (''statement does not summarise its transactions. It reads:'' @ [CHR 0x0A] @ ''%s'') [FStr text])))"

definition statementReportsAmount :: "string \<Rightarrow> ('k, 'w, unit) step" where
  "statementReportsAmount amount = statementReads amount"

definition createTransactionAndRecordID :: "'w net \<Rightarrow> json \<Rightarrow> ('k, 'w, unit) step" where
  "createTransactionAndRecordID N b =
     looking (\<lambda>tc.
     on_success (tc_request N ''POST'' ''/core/v1/transactions'' (Some b) (as_user tc)) (\<lambda>rp. looking (\<lambda>tc1.
     thereafter (require (rp_StatusCode rp = 201)
         (Errorf ''transaction creation failed with status %d: %s''
           [FInt (rp_StatusCode rp), FStr (tc_lastResponseBody tc1)]))
     (on_success (reading_struct [(''uuid'', set_plain tree_string (\<lambda>f. f))] []) (\<lambda>created.
     thereafter (require (created \<noteq> [])
         (Errorf ''transaction response carried no uuid: %s'' [FStr (tc_lastResponseBody tc1)]))
       (setting (\<lambda>tc. tc\<lparr>tc_transactionID := created\<rparr>)))))))"

definition userMadeExternalDeposit :: "'w net \<Rightarrow> f64 \<Rightarrow> string \<Rightarrow> ('k, 'w, unit) step" where
  "userMadeExternalDeposit N amount currency =
     looking (\<lambda>tc. createTransactionAndRecordID N (external_deposit tc amount currency))"

definition userMadeHostedTransfer :: "'w net \<Rightarrow> f64 \<Rightarrow> string \<Rightarrow> ('k, 'w, unit) step" where
  "userMadeHostedTransfer N amount currency =
     looking (\<lambda>tc. createTransactionAndRecordID N
       (hosted_transfer tc (tc_walletAddress tc) ''rSomewhereElse'' amount currency))"

section \<open>Simulated transactions\<close>

definition captureSimulatedTransaction :: "('k, 'w, unit) step" where
  "captureSimulatedTransaction =
     on_success last_response (\<lambda>rp. looking (\<lambda>tc0.
       if rp_StatusCode rp \<noteq> 201 then ok ()
       else on_success (wrapping
           (\<lambda>e. Errorf ''could not parse simulate response: %w. Body: %s'' [FErr e, FStr (tc_lastResponseBody tc0)])
           (reading_struct [(''transactionId'', set_plain tree_string (\<lambda>f. f))] []))
         (\<lambda>i. setting (\<lambda>tc. tc\<lparr>tc_simulatedTxID := i, tc_simulatedTxIDs := tc_simulatedTxIDs tc @ [i]\<rparr>))))"

definition simulate_path :: string where
  "simulate_path = ''/admin/card-transactions/simulate''"

definition tc_simulateCardTransaction :: "'w net \<Rightarrow> string \<Rightarrow> ('k, 'w, unit) step" where
  "tc_simulateCardTransaction N scenario =
     looking (\<lambda>tc.
       thereafter (tc_request N ''POST'' simulate_path
           (Some (jtexts [(''userId'', tc_userID tc), (''cardId'', tc_cardID tc), (''scenario'', scenario)])) [])
         captureSimulatedTransaction)"

definition simulateCardTransactionWithEvent :: "'w net \<Rightarrow> string \<Rightarrow> string \<Rightarrow> ('k, 'w, unit) step" where
  "simulateCardTransactionWithEvent N scenario event =
     looking (\<lambda>tc.
       thereafter (tc_request N ''POST'' simulate_path
           (Some (jtexts [(''userId'', tc_userID tc), (''cardId'', tc_cardID tc), (''scenario'', scenario),
              (''event'', event)])) [])
         captureSimulatedTransaction)"

definition simulateNCardTransactions :: "'w net \<Rightarrow> int \<Rightarrow> string \<Rightarrow> ('k, 'w, unit) step" where
  "simulateNCardTransactions N n scenario =
     each (\<lambda>i. looking (\<lambda>tc.
       on_success (tc_request N ''POST'' simulate_path
           (Some (jmap [(''userId'', JStr (tc_userID tc)), (''cardId'', JStr (tc_cardID tc)),
              (''scenario'', JStr scenario),
              (''overrides'', jtexts [(''transactionAmount'', int_str (i + 1) @ ''.00'')])])) [])
       (\<lambda>rp. looking (\<lambda>tc1.
         thereafter (require (rp_StatusCode rp = 201)
             (Errorf ''simulation %d failed with status %d: %s''
               [FInt (i + 1), FInt (rp_StatusCode rp), FStr (tc_lastResponseBody tc1)]))
           captureSimulatedTransaction))))
       (map int [0..<nat n])"

definition simulatedTransactionBody :: "('k, 'w, json gomap) step" where
  "simulatedTransactionBody =
     looking (\<lambda>tc.
     on_success (wrapping
         (\<lambda>e. Errorf ''could not parse simulate response: %w. Body: %s'' [FErr e, FStr (tc_lastResponseBody tc)])
         (reading_struct [(''transaction'', set_opt tree_gomap (\<lambda>f. f))] None))
     (\<lambda>t. case t of
        None \<Rightarrow> fail (Errorf ''simulate response carried no transaction: %s'' [FStr (tc_lastResponseBody tc)])
      | Some m \<Rightarrow> ok m))"

definition simulatedTransactionHasNumericIdentifiers :: "('k, 'w, unit) step" where
  "simulatedTransactionHasNumericIdentifiers =
     on_success simulatedTransactionBody (\<lambda>t.
       each (\<lambda>(key, none, low).
         case as_number (mget t key) of
           None \<Rightarrow> fail (Errorf none [FVal (value_at t key)])
         | Some x \<Rightarrow> require (\<not> fle x f0) (Errorf low [FFloat x]))
         [(''id'', ''transaction has no numeric id: %v'', ''expected a positive transaction id, got %v''),
          (''cardId'', ''transaction has no numeric cardId: %v'', ''expected a positive cardId, got %v'')])"

definition reading_data :: "('k, 'w, json gomap list) step" where
  "reading_data =
     looking (\<lambda>tc. wrapping
       (\<lambda>e. Errorf ''could not parse listing: %w. Body: %s'' [FErr e, FStr (tc_lastResponseBody tc)])
       (reading_struct [(''data'', set_slice [] tree_gomap (\<lambda>f. f))] []))"

definition simulatedTransactionAppearsInListingWithUnmodelledFields :: "('k, 'w, unit) step" where
  "simulatedTransactionAppearsInListingWithUnmodelledFields =
     on_success reading_data (\<lambda>listing. looking (\<lambda>tc.
       case List.find (\<lambda>t. mget t ''transactionId'' = Some (JStr (tc_simulatedTxID tc))) listing of
         None \<Rightarrow> fail (Errorf ''simulated transaction %s did not appear in the listing'' [FStr (tc_simulatedTxID tc)])
       | Some t \<Rightarrow>
           each (\<lambda>field. require (mget t field \<noteq> None)
               (Errorf ''listed transaction lost the %q field: %v'' [FStr field, FMap t]))
             [''mcc'', ''merchantStreet'', ''merchantZip'', ''terminalId'', ''source'']))"

record page_listing =
  pl_Data :: "json gomap list"
  pl_TotalRecords :: int
  pl_TotalPages :: int

text \<open>The struct under \<^verbatim>\<open>pagination\<close> is a part of the record.\<close>

definition page_listing_fields :: "page_listing fields" where
  "page_listing_fields =
     [(''data'', set_slice [] tree_gomap pl_Data_update),
      (''pagination'', \<lambda>v r. if v = TNull then Some r else
         tree_struct [(''totalRecords'', set_plain tree_int pl_TotalRecords_update),
           (''totalPages'', set_plain tree_int pl_TotalPages_update)] r v)]"

definition listingHoldsPage :: "int \<Rightarrow> int \<Rightarrow> int \<Rightarrow> ('k, 'w, unit) step" where
  "listingHoldsPage pageCount records pages =
     looking (\<lambda>tc.
     on_success (wrapping
         (\<lambda>e. Errorf ''could not parse listing: %w. Body: %s'' [FErr e, FStr (tc_lastResponseBody tc)])
         (reading_struct page_listing_fields \<lparr>pl_Data = [], pl_TotalRecords = 0, pl_TotalPages = 0\<rparr>))
     (\<lambda>l.
       each (\<lambda>(expected, got, msg). require (got = expected) (Errorf msg [FInt expected, FInt got]))
         [(pageCount, int (length (pl_Data l)), ''expected %d transactions on the page, got %d''),
          (records, pl_TotalRecords l, ''expected totalRecords %d, got %d''),
          (pages, pl_TotalPages l, ''expected totalPages %d, got %d'')]))"

definition setSimulatedTransactionStatus :: "'w net \<Rightarrow> string \<Rightarrow> ('k, 'w, unit) step" where
  "setSimulatedTransactionStatus N status =
     looking (\<lambda>tc.
       thereafter (require (tc_simulatedTxID tc \<noteq> []) (Errorf ''no simulated transaction to update'' []))
         (plainly (tc_request N ''POST'' (''/admin/card-transactions/'' @ tc_simulatedTxID tc @ ''/status'')
           (Some (jtexts [(''status'', status)])) [])))"

definition storedTransactionStatusIs :: "'w net \<Rightarrow> string \<Rightarrow> ('k, 'w, unit) step" where
  "storedTransactionStatusIs N expected =
     looking (\<lambda>tc0.
     thereafter (sendWithManagedUserHeader N ''GET'' (''/cards/v1/transactions/'' @ tc_simulatedTxID tc0) None)
     (looking (\<lambda>tc.
     on_success (wrapping
         (\<lambda>e. Errorf ''could not parse transaction: %w. Body: %s'' [FErr e, FStr (tc_lastResponseBody tc)]) reading_map)
     (\<lambda>t. require (mget t ''txStatus'' = Some (JStr expected))
       (Errorf ''expected txStatus %q, got %v'' [FStr expected, FVal (value_at t ''txStatus'')])))))"

definition getCardTransactionsPage :: "'w net \<Rightarrow> string \<Rightarrow> ('k, 'w, unit) step" where
  "getCardTransactionsPage N query =
     looking (\<lambda>tc. plainly (sendWithManagedUserHeader N ''GET''
       (''/cards/v1/cards/'' @ tc_cardID tc @ ''/transactions'' @ (if query \<noteq> [] then ''?'' @ query else [])) None))"

definition getCardTxScenarioCatalogue :: "'w net \<Rightarrow> ('k, 'w, unit) step" where
  "getCardTxScenarioCatalogue N = plainly (tc_request N ''GET'' ''/admin/card-transactions/scenarios'' None [])"

definition catalogueListsScenarios :: "int \<Rightarrow> ('k, 'w, unit) step" where
  "catalogueListsScenarios n =
     on_success (reading_struct [(''count'', set_plain tree_int (\<lambda>f. f))] 0) (\<lambda>c.
       require (c = n) (Errorf ''expected %d scenarios in the catalogue, got %d'' [FInt n, FInt c]))"

text \<open>The keys of a catalogue.\<close>

definition reading_keys :: "('k, 'w, string list) step" where
  "reading_keys =
     reading_struct [(''scenarios'', set_slice [] (tree_struct [(''key'', set_plain tree_string (\<lambda>f. f))] []) (\<lambda>f. f))] []"

definition catalogueIncludesScenario :: "string \<Rightarrow> ('k, 'w, unit) step" where
  "catalogueIncludesScenario key =
     on_success reading_keys (\<lambda>keys. require (key \<in> set keys) (Errorf ''catalogue does not offer %q'' [FStr key]))"

definition errorNamesTheValidScenarios :: "('k, 'w, unit) step" where
  "errorNamesTheValidScenarios =
     on_success (reading_struct [(''validScenarios'', set_slice [] tree_string (\<lambda>f. f))] []) (\<lambda>valid. looking (\<lambda>tc.
       require (valid \<noteq> []) (Errorf ''the rejection did not say which scenarios are valid: %s''
         [FStr (tc_lastResponseBody tc)])))"

definition cardTransactionWebhookCarriesTheTransaction :: "'w net \<Rightarrow> string \<Rightarrow> ('k, 'w, unit) step" where
  "cardTransactionWebhookCarriesTheTransaction N event =
     on_success (webhook_data N ''webhook payload has no data object: %v'' event) (\<lambda>data. looking (\<lambda>tc.
       case as_object (mget data ''authorizationData'') of
         None \<Rightarrow> fail (Errorf ''webhook data carries no authorizationData: %v'' [FMap data])
       | Some a \<Rightarrow>
           thereafter
             (each (\<lambda>field. require (mget a field \<noteq> None)
                 (Errorf ''authorizationData is missing %q: %v'' [FStr field, FMap a]))
               [''transactionId'', ''billingAmount'', ''billingCurrency'', ''type'', ''id'', ''cardId''])
             (require (mget a ''transactionId'' = Some (JStr (tc_simulatedTxID tc)))
               (Errorf ''webhook reported transaction %v, expected %s''
                 [FVal (value_at a ''transactionId''), FStr (tc_simulatedTxID tc)]))))"

definition cardCreatedWebhookCarriesTheIdentifiers :: "'w net \<Rightarrow> ('k, 'w, unit) step" where
  "cardCreatedWebhookCarriesTheIdentifiers N =
     on_success (webhook_data N ''webhook payload has no data object: %v'' ''cards.card.created'') (\<lambda>data. looking (\<lambda>tc.
       thereafter
         (each (\<lambda>field.
            case mget data field of
              None \<Rightarrow> fail (Errorf ''cards.card.created is missing %q: %v'' [FStr field, FMap data])
            | Some v \<Rightarrow> require (v \<noteq> JNull \<and> v \<noteq> JStr [])
                (Errorf ''cards.card.created has an empty %q'' [FStr field]))
           [''cardId'', ''customerId'', ''accountId'', ''maskedPan'', ''nameOnCard'', ''productCode''])
         (require (mget data ''cardId'' = Some (JStr (tc_cardID tc)))
           (Errorf ''webhook reported card %v, expected %s'' [FVal (value_at data ''cardId''), FStr (tc_cardID tc)]))))"

section \<open>The contract of the endpoints\<close>

definition contractBody :: "'k TestContext \<Rightarrow> string \<Rightarrow> string \<Rightarrow> json option" where
  "contractBody tc meth path =
     (if has_prefix path ''/auth/v1/tokens'' then Some (jmap [(''scope'', jstrs [''deposit''])])
      else if path = ''/auth/v1/users/managed/email''
      then Some (jtexts [(''email'', ''contract@example.com''), (''uuid'', tc_userID tc)])
      else if has_suffix path ''/wallets'' \<and> meth = ''POST''
      then Some (jmap [(''name'', JStr ''contract wallet''), (''type'', JInt 30)])
      else if path = ''/core/v1/transactions''
      then Some (jmap [(''user_id'', JStr (tc_userID tc)), (''amount'', JNum (float_of_int 1)), (''currency'', JStr ''EUR''),
        (''type'', JInt 1), (''deposit_type'', JStr ''external''), (''receiving_address'', JStr (tc_walletAddress tc))])
      else if has_suffix path ''/overrideRiskLevel'' then Some (jtexts [(''riskLevel'', ''low'')])
      else if has_suffix path ''/limits''
      then Some (JArr [jmap [(''type'', JStr ''dailyOverall''), (''limit'', JInt 1500), (''currency'', JStr ''EUR'')]])
      else if has_suffix path ''/lock'' \<or> has_suffix path ''/unlock'' then Some (jtexts [(''note'', ''contract check'')])
      else if strings_Contains path ''/token/card-data'' \<or> strings_Contains path ''/token/pin''
      then Some (jtexts ((''cardId'', tc_cardID tc) #
        (case tc_keys tc of None \<Rightarrow> [] | Some keys \<Rightarrow> [(''publicKey'', ck_publicKeyB64 keys)])))
      else if has_suffix path ''/plastic'' then Some (jmap [])
      else if has_prefix path ''/id/v1/hubs/'' then Some (jtexts [(''riskLevel'', ''low'')])
      else if meth = ''POST'' \<or> meth = ''PUT'' then Some (jmap []) else None)"

definition endpointIsServed :: "'w net \<Rightarrow> string \<Rightarrow> string \<Rightarrow> ('k, 'w, unit) step" where
  "endpointIsServed N meth path =
     looking (\<lambda>tc0.
     on_success (tc_request N meth path (contractBody tc0 meth path)
         [(''x-gatehub-managed-user-uuid'', tc_userID tc0), (''x-gatehub-card-app-id'', ''test-app-id'')])
     (\<lambda>rp. looking (\<lambda>tc.
       let status = rp_StatusCode rp; shown = FStr (replacePlaceholders (n_order N) tc path) in
       if status = 404
       then fail (Errorf ''%s %s is not routed (404). A consumer calling it would fail'' [FStr meth, shown])
       else if status = 405
       then fail (Errorf ''%s %s is routed but not for this method (405)'' [FStr meth, shown])
       else if status = 401 \<or> status = 403
       then fail (Errorf ''%s %s rejected valid credentials (%d): %s''
         [FStr meth, shown, FInt status, FStr (tc_lastResponseBody tc)])
       else require (status < 500)
         (Errorf ''%s %s failed with %d: %s'' [FStr meth, shown, FInt status, FStr (tc_lastResponseBody tc)]))))"

text \<open>An object that is nil is absent.\<close>

definition requireFields :: "string \<Rightarrow> json gomap option \<Rightarrow> string list \<Rightarrow> ('k, 'w, unit) step" where
  "requireFields what obj names =
     (case obj of
        None \<Rightarrow> fail (Errorf ''%s is absent'' [FStr what])
      | Some m \<Rightarrow>
          let missing = filter (\<lambda>f. mget m f = None) names in
          require (missing = [])
            (Errorf ''%s is missing the field(s) consumers read: %s'' [FStr what, FStr (join_with '', '' missing)]))"

text \<open>A map that \<^verbatim>\<open>null\<close> leaves nil.\<close>

definition tree_nilmap :: "jtree \<Rightarrow> json gomap option option" where
  "tree_nilmap v = (if v = TNull then Some None else map_option Some (tree_gomap v))"

definition cardObjectCarriesConsumerFields :: "('k, 'w, unit) step" where
  "cardObjectCarriesConsumerFields =
     looking (\<lambda>tc.
     on_success (wrapping
         (\<lambda>e. Errorf ''could not parse card: %w. Body: %s'' [FErr e, FStr (tc_lastResponseBody tc)])
         (reading tree_nilmap))
     (\<lambda>crd. requireFields ''card'' crd card_field_names))"

definition cardTransactionsCarryConsumerFields :: "('k, 'w, unit) step" where
  "cardTransactionsCarryConsumerFields =
     looking (\<lambda>tc.
     on_success (wrapping
         (\<lambda>e. Errorf ''could not parse listing: %w. Body: %s'' [FErr e, FStr (tc_lastResponseBody tc)])
         (reading_struct [(''data'', set_slice None tree_nilmap (\<lambda>f. f))] []))
     (\<lambda>listing.
     thereafter (require (listing \<noteq> []) (Errorf ''no transactions listed, so this check would be vacuous'' []))
       (each (\<lambda>t.
          thereafter
            (requireFields ''card transaction'' t
              [''id'', ''transactionId'', ''cardId'', ''type'', ''txStatus'', ''transactionAmount'',
               ''transactionCurrency'', ''billingAmount'', ''billingCurrency'', ''createdAt'', ''vaultId''])
            (each (\<lambda>field. require (Option.bind t (\<lambda>m. as_number (mget m field)) \<noteq> None)
                (Errorf ''card transaction %q must be a number, got %T''
                  [FStr field, FVal (value_at (case t of None \<Rightarrow> [] | Some m \<Rightarrow> m) field)]))
              [''id'', ''cardId'']))
         listing)))"

record user_state =
  us_Profile :: "json gomap option"
  us_Verifications :: "json gomap option list"

definition user_state_fields :: "user_state fields" where
  "user_state_fields =
     [(''profile'', set_opt tree_gomap us_Profile_update), (''verifications'', set_slice None tree_nilmap us_Verifications_update)]"

definition userStateCarriesConsumerFields :: "('k, 'w, unit) step" where
  "userStateCarriesConsumerFields =
     looking (\<lambda>tc.
     on_success (wrapping
         (\<lambda>e. Errorf ''could not parse user state: %w. Body: %s'' [FErr e, FStr (tc_lastResponseBody tc)])
         (reading_struct user_state_fields \<lparr>us_Profile = None, us_Verifications = []\<rparr>))
     (\<lambda>state.
     thereafter
       (requireFields ''profile'' (us_Profile state)
         [''first_name'', ''last_name'', ''address_country_code'', ''address_city'', ''address_street1'', ''address_street2''])
       (case us_Verifications state of
          [] \<Rightarrow> fail (Errorf ''user state carries no verifications'' [])
        | v # _ \<Rightarrow> requireFields ''verification'' v [''status'', ''state'', ''provider_type''])))"

section \<open>Pages\<close>

definition browseTo :: "'w net \<Rightarrow> string \<Rightarrow> ('k, 'w, unit) step" where
  "browseTo N path = plainly (requestRaw N ''GET'' path [] [] [])"

definition browseToUserDetail :: "'w net \<Rightarrow> ('k, 'w, unit) step" where
  "browseToUserDetail N = looking (\<lambda>tc. browseTo N (''/ui/users/'' @ tc_userID tc))"

definition browseToCardTxFormForUser :: "'w net \<Rightarrow> ('k, 'w, unit) step" where
  "browseToCardTxFormForUser N =
     looking (\<lambda>tc. browseTo N (''/ui/actions/card-transaction?userID='' @ QueryEscape (tc_userID tc)))"

text \<open>\<^verbatim>\<open>url.Values.Encode\<close> of a form with one value for each key.\<close>

definition encode_form :: "string gomap \<Rightarrow> string" where
  "encode_form form = join_with ''&'' (map (\<lambda>(k, v). QueryEscape k @ ''='' @ QueryEscape v) (sort_key fst form))"

definition submitUIForm :: "'w net \<Rightarrow> string \<Rightarrow> string gomap \<Rightarrow> ('k, 'w, unit) step" where
  "submitUIForm N path form =
     looking (\<lambda>tc0.
       on_success (given (NewRequest ''POST'' (urlFor tc0 path) (encode_form form))) (\<lambda>req s.
         let req1 = set_header ''Content-Type'' ''application/x-www-form-urlencoded'' req;
             (r, tc, w) = doRequest N req1 ((fst s)\<lparr>tc_follow := False\<rparr>, snd s)
         in (case r of Inl e \<Rightarrow> Inl e | Inr _ \<Rightarrow> Inr (), tc\<lparr>tc_follow := tc_follow (fst s)\<rparr>, w)))"

definition submitUIKYCAction :: "'w net \<Rightarrow> string \<Rightarrow> ('k, 'w, unit) step" where
  "submitUIKYCAction N outc =
     looking (\<lambda>tc. submitUIForm N ''/ui/actions/kyc''
       [(''userID'', tc_userID tc), (''outcome'', outc), (''message'', ''sent from the e2e suite'')])"

definition submitUICardTransaction :: "'w net \<Rightarrow> string \<Rightarrow> ('k, 'w, unit) step" where
  "submitUICardTransaction N scenario =
     looking (\<lambda>tc. submitUIForm N ''/ui/actions/card-transaction''
       [(''userID'', tc_userID tc), (''cardID'', tc_cardID tc), (''scenario'', scenario)])"

definition submitUIWithdrawalSettlement :: "'w net \<Rightarrow> string \<Rightarrow> ('k, 'w, unit) step" where
  "submitUIWithdrawalSettlement N event =
     looking (\<lambda>tc.
       thereafter (require (tc_withdrawalID tc \<noteq> []) (Errorf ''no withdrawal recorded to settle'' []))
         (submitUIForm N ''/ui/actions/withdrawal/settle''
           [(''userID'', tc_userID tc), (''txID'', tc_withdrawalID tc), (''event'', event)]))"

definition responseIsHTML :: "('k, 'w, unit) step" where
  "responseIsHTML =
     on_success last_response (\<lambda>rp. looking (\<lambda>tc.
       let contentType = reply_header rp ''Content-Type'' in
       thereafter (require (strings_Contains contentType ''text/html'')
           (Errorf ''expected an HTML page, got Content-Type %q'' [FStr contentType]))
         (require (strings_Contains (tc_lastResponseBody tc) ''<!DOCTYPE html>'')
           (Errorf ''response is not an HTML document: %.80q'' [FStr (tc_lastResponseBody tc)]))))"

definition pageShows :: "string \<Rightarrow> ('k, 'w, unit) step" where
  "pageShows text0 =
     looking (\<lambda>tc.
       let text = (if text0 = ''the user id'' then tc_userID tc
                   else if text0 = ''the card id'' then tc_cardID tc else text0)
       in require (strings_Contains (tc_lastResponseBody tc) text) (Errorf ''page does not show %q'' [FStr text]))"

definition pageDoesNotShow :: "string \<Rightarrow> ('k, 'w, unit) step" where
  "pageDoesNotShow text =
     looking (\<lambda>tc. require (\<not> strings_Contains (tc_lastResponseBody tc) text)
       (Errorf ''page unexpectedly shows %q'' [FStr text]))"

text \<open>The page is put back once the catalogue has been read; an error before leaves the catalogue.\<close>

definition pageOffersEveryCardScenario :: "'w net \<Rightarrow> ('k, 'w, unit) step" where
  "pageOffersEveryCardScenario N =
     looking (\<lambda>tc0.
     thereafter (tc_request N ''GET'' ''/admin/card-transactions/scenarios'' None [])
     (on_success reading_keys (\<lambda>keys.
     thereafter (setting (\<lambda>tc. tc\<lparr>tc_lastResponse := tc_lastResponse tc0, tc_lastResponseBody := tc_lastResponseBody tc0\<rparr>))
     (thereafter (require (keys \<noteq> []) (Errorf ''the catalogue is empty, so this assertion would be vacuous'' []))
       (each (\<lambda>key. require
            (strings_Contains (tc_lastResponseBody tc0) (''value='' @ [CHR 0x22] @ key @ [CHR 0x22]))
            (Errorf ''the form does not offer scenario %q'' [FStr key])) keys)))))"

definition checkUIRedirect :: "bool \<Rightarrow> ('k, 'w, unit) step" where
  "checkUIRedirect wantError =
     on_success last_response (\<lambda>rp. looking (\<lambda>tc0.
       thereafter (require (rp_StatusCode rp = 303)
           (Errorf ''expected a redirect (303), got %d: %s'' [FInt (rp_StatusCode rp), FStr (tc_lastResponseBody tc0)]))
       (let location = reply_header rp ''Location'' in
        thereafter (require (location \<noteq> []) (Errorf ''redirect carried no Location header'' []))
        (thereafter (setting (\<lambda>tc. tc\<lparr>tc_lastRedirect := location\<rparr>))
          (require (strings_Contains location ''error=1'' = wantError)
            (Errorf ''expected error=%v in the redirect, got %q'' [FBool wantError, FStr location]))))))"

definition uiRedirectedWithSuccess :: "('k, 'w, unit) step" where
  "uiRedirectedWithSuccess = checkUIRedirect False"

definition uiRedirectedWithFailure :: "('k, 'w, unit) step" where
  "uiRedirectedWithFailure = checkUIRedirect True"

text \<open>\<^verbatim>\<open>url.QueryUnescape\<close>.\<close>

definition QueryUnescape :: "string \<Rightarrow> string option" where
  "QueryUnescape s = unescape encodeOther (map (\<lambda>c. if c = CHR ''+'' then CHR '' '' else c) s)"

definition no_redirect :: failure where
  "no_redirect = Errorf ''no redirect recorded'' []"

definition uiRedirectReports :: "string \<Rightarrow> ('k, 'w, unit) step" where
  "uiRedirectReports text =
     looking (\<lambda>tc.
       let decoded = (case QueryUnescape (tc_lastRedirect tc) of None \<Rightarrow> tc_lastRedirect tc | Some d \<Rightarrow> d) in
       thereafter (require (tc_lastRedirect tc \<noteq> []) no_redirect)
         (require (strings_Contains decoded text)
           (Errorf ''the redirect does not report %q; it says %q'' [FStr text, FStr decoded])))"

definition followUIRedirect :: "'w net \<Rightarrow> ('k, 'w, unit) step" where
  "followUIRedirect N =
     looking (\<lambda>tc.
       let target = tc_lastRedirect tc; base = tc_baseURL tc in
       thereafter (require (target \<noteq> []) no_redirect)
         (browseTo N (if has_prefix target base then drop (length base) target else target)))"

definition requestOnPort :: "'w net \<Rightarrow> string \<Rightarrow> string \<Rightarrow> ('k, 'w, unit) step" where
  "requestOnPort N base path = on_success (given (NewRequest ''GET'' (base @ path) [])) (\<lambda>req. plainly (doRequest N req))"

definition requestOnApplicationPort :: "'w net \<Rightarrow> string \<Rightarrow> ('k, 'w, unit) step" where
  "requestOnApplicationPort N path = looking (\<lambda>tc. requestOnPort N (tc_baseURL tc) path)"

definition requestOnAdminPort :: "'w net \<Rightarrow> string \<Rightarrow> ('k, 'w, unit) step" where
  "requestOnAdminPort N path = looking (\<lambda>tc. requestOnPort N (tc_adminBaseURL tc) path)"

definition pathIsNotServedThere :: "('k, 'w, unit) step" where
  "pathIsNotServedThere =
     on_success last_response (\<lambda>rp. looking (\<lambda>tc.
       let code = rp_StatusCode rp in
       require (code \<in> {404, 405, 401} \<or> \<not> (200 \<le> code \<and> code < 400))
         (Errorf ''expected the path not to be served, but got %d: %.120q''
           [FInt code, FStr (tc_lastResponseBody tc)])))"

end
