(* ===== verification/Test_Harness.thy ===== *)
theory Test_Harness
  imports Test_Pages
begin

text \<open>
  How the acceptance tests wait for the servers, \<^verbatim>\<open>testenv/services.go\<close>: a probe that is not answered within the
  client's timeout, or is answered by another status than 200, is repeated after a second; its body is not
  read.
\<close>

fun probes :: "'w net \<Rightarrow> string \<Rightarrow> nat \<Rightarrow> ('k, 'w, unit) step" where
  "probes N baseURL 0 s =
     (Inl (Errorf ''health check for %s timed out after %d seconds'' [FStr baseURL, FInt (int maxWaitSeconds)]), s)"
| "probes N baseURL (Suc n) s =
     (case NewRequest ''GET'' (baseURL @ ''/health'') [] of
        Inl _ \<Rightarrow> probes N baseURL n (fst s, n_sleep N second (snd s))
      | Inr req \<Rightarrow>
          (case n_do N True req (snd s) of (out, w) \<Rightarrow>
             if (case out of NotSent _ \<Rightarrow> False | CutOff code _ \<Rightarrow> code = 200 | Got rp \<Rightarrow> rp_StatusCode rp = 200)
             then (Inr (), fst s, w)
             else probes N baseURL n (fst s, n_sleep N second w)))"

definition waitForService :: "'w net \<Rightarrow> string \<Rightarrow> ('k, 'w, unit) step" where
  "waitForService N baseURL = probes N baseURL maxWaitSeconds"

definition waitForServices :: "'w net \<Rightarrow> ('k, 'w, unit) step" where
  "waitForServices N =
     each (waitForService N) [mockGatehubURL, mockGatehubAdminURL, asyncWithdrawalsURL, asyncWithdrawalsAdminURL]"

end
