(* ===== verification/Spec2Isabelle.thy ===== *)
theory Spec2Isabelle
  imports Payment_Properties Card_Properties Account_Properties Store_Properties
    Webhook_Properties Card_Token_Properties Simulation_Properties
    Redis_Properties Service_Properties Server_Properties Test_Scenarios Test_Harness
begin

text \<open>
  A verification of MockGatehub, a Go server that stands in for the GateHub payment API in the
  tests of a wallet backend.

  The parts and how they interact. A router calls one handler of \<^verbatim>\<open>internal/handler\<close> per request,
  behind the signature middleware of \<^verbatim>\<open>internal/auth\<close>. A handler reads the request, works on the
  store through the interface of \<^verbatim>\<open>internal/storage\<close>, answers with JSON, and hands webhooks to the
  manager of \<^verbatim>\<open>internal/webhook\<close>, which queues them on a Redis stream. A worker reads the stream
  and posts each webhook, with retries.

  How the model corresponds to the code. A handler is a function of the table of store
  operations (a Go interface value), the circumstances of the request (clock, fresh UUIDs, the
  order in which loops visit a map), the request, its decoded body (\<open>None\<close> where decoding fails)
  and the handler's state; it returns the response and the new state. Definitions have the names
  of the Go functions; operations of the in-memory store have the prefix \<open>mem_\<close>, methods of the
  store interface the prefix \<open>s_\<close>, record fields a short prefix of their type. Users, customers and
  accounts, which the code shares by pointer, live in a heap with addresses. Goroutines that a
  handler starts are a list of tasks in its state, and run as separate steps.

  Foundations.
  \<^item> \<open>Prelude\<close>: strings, maps, decimal numbers, the clock and UUIDs of a request.
  \<^item> \<open>Float64\<close>, \<open>Float64_Laws\<close>: \<^verbatim>\<open>float64\<close> as IEEE 754 defines it, with rounding, parsing and
    printing; the laws of rounding that the properties about amounts use.
  \<^item> \<open>Json\<close>, \<open>Json_Text\<close>, \<open>Json_Parse\<close>, \<open>Json_Decode\<close>, \<open>Base64\<close>, \<open>Crypto\<close>, \<open>Url\<close>: what the program uses of
    \<^verbatim>\<open>encoding/json\<close>, \<^verbatim>\<open>encoding/base64\<close>, \<^verbatim>\<open>crypto\<close> and \<^verbatim>\<open>net/url\<close>, each executable. Reading a
    JSON text back gives what was printed (\<open>json_roundtrip\<close>), and so does base64. The parser takes
    fuel; one more than the length of the text is enough, since every call consumes a character
    or is one of a bounded number per character, and the round trip shows that it is.

  The program.
  \<^item> \<open>Consts\<close>: \<^verbatim>\<open>consts/consts.go\<close>. \<open>Models\<close>, \<open>Card_Models\<close>, \<open>Api_Models\<close>: \<^verbatim>\<open>internal/models\<close>.
    \<open>Model_Codec\<close>: their decoders, with the round trips of the stored ones.
  \<^item> \<open>Store_Interface\<close>: \<^verbatim>\<open>storage/interface.go\<close> and the heap. \<open>Memory_Storage\<close>: \<^verbatim>\<open>storage/memory.go\<close>.
  \<^item> \<open>Store_Contracts\<close>: the locales \<open>ledger\<close>, \<open>guarded_ledger\<close>, \<open>payment_store\<close> and \<open>card_store\<close>, the
    laws that handlers rely on; \<open>Memory_Laws\<close> shows that the in-memory store keeps its invariant
    in every step and interprets each locale on it.
  \<^item> \<open>Redis_Keys\<close>, \<open>Redis_Storage\<close>: \<^verbatim>\<open>storage/redis.go\<close>, operations with the prefix \<open>red_\<close>. The Redis
    client is a parameter, a record of the commands the store issues. \<open>Redis_Laws\<close> states what Redis
    documents of them (\<open>redis_laws\<close>, also when commands fail, and \<open>redis_up\<close>) and the kind of value that
    belongs under each key; both predicates are shown to hold of a Redis made of a map. A scan is a
    loop that may not end (\<open>partial_function\<close>); the table of operations answers an error there.
  \<^item> \<open>Webhook\<close>, \<open>Webhook_Delivery\<close>: \<^verbatim>\<open>webhook/job.go\<close>, \<^verbatim>\<open>queue.go\<close>, \<^verbatim>\<open>manager.go\<close> and \<^verbatim>\<open>worker.go\<close>. The Redis
    stream and the HTTP client are parameters; \<open>stream_laws\<close> states what is documented of the
    stream, and is shown to hold of a stream made of lists.
  \<^item> \<open>Fees\<close>, \<open>Fee_Endpoints\<close>: \<^verbatim>\<open>handler/fees.go\<close>. \<open>Handler_State\<close>: \<^verbatim>\<open>handler.go\<close>, \<^verbatim>\<open>helpers.go\<close>,
    \<^verbatim>\<open>apierror.go\<close>. \<open>Core\<close>: \<^verbatim>\<open>core.go\<close>. \<open>Payments\<close>: the payment iframe of \<^verbatim>\<open>handler.go\<close>.
    \<open>Withdrawals\<close>: \<^verbatim>\<open>withdrawals_admin.go\<close>. \<open>Two_Factor\<close>, \<open>Identity\<close>: \<^verbatim>\<open>identity.go\<close>.
    \<open>Auth_Middleware\<close>: \<^verbatim>\<open>auth/signature.go\<close> and \<^verbatim>\<open>auth/middleware.go\<close>. \<open>Auth_Handlers\<close>: \<^verbatim>\<open>auth.go\<close>.
  \<^item> \<open>Cards\<close>, \<open>Card_Issuing\<close>, \<open>Card_Transactions\<close>, \<open>Card_Services\<close>: \<^verbatim>\<open>cards.go\<close>. \<open>Card_Tokens\<close>:
    \<^verbatim>\<open>card_token.go\<close> and the endpoints for sensitive card data, with RSA as a parameter.
    \<open>Card_Scenarios\<close>, \<open>Card_Simulation\<close>: \<^verbatim>\<open>cardscenarios.go\<close> and \<^verbatim>\<open>cardtx_admin.go\<close>.
  \<^item> \<open>Startup\<close>: \<^verbatim>\<open>config/config.go\<close>, \<^verbatim>\<open>utils/utils.go\<close>, \<^verbatim>\<open>storage/seeder.go\<close> and the routes of
    \<^verbatim>\<open>cmd/mockgatehub/main.go\<close>. \<open>Pdf\<close>: \<^verbatim>\<open>internal/pdf\<close>. \<open>Documents\<close>: \<^verbatim>\<open>rates.go\<close>, \<^verbatim>\<open>statements.go\<close>,
    \<^verbatim>\<open>webhook_sink.go\<close>. \<open>Admin_UI\<close>: \<^verbatim>\<open>ui.go\<close>, with the HTML templates as a parameter. \<open>Pages\<close>: the
    iframe pages of \<^verbatim>\<open>handler.go\<close> and \<^verbatim>\<open>identity.go\<close>, and how \<^verbatim>\<open>main\<close> puts the server together.
  \<^item> \<open>Bodies\<close>: \<^verbatim>\<open>decodeJSON\<close> and, for every endpoint, the struct that it decodes its body into.
  \<^item> \<open>Server\<close>: the running server of \<^verbatim>\<open>cmd/mockgatehub/main.go\<close>. Each handler that a route names is found by
    this name (\<open>endpoints\<close>) and applied to the bytes of the request. \<open>serve\<close> takes a request at one of the two
    listeners through the middleware (\<open>gate\<close>) and the router to its handler. The router is a parameter;
    \<open>router_laws\<close> states that it gives a registered route that fits. \<open>server_step\<close> is one step of the whole:
    a request that is answered, a goroutine that settles its transaction or enqueues its webhook, or the
    worker. A handler runs without another in between; a request whose handler panics is answered by the
    router's recovery and is not a step (all it has changed by then is the counter of card transactions).
  \<^item> \<open>Server_Frames\<close>: what each of the 75 endpoints may do to transactions, balances, cards, fees and
    goroutines, one lemma for each, and what follows for every step and every run.

  The acceptance tests, \<^verbatim>\<open>testenv\<close>. A step of a scenario is a function on the context that the steps share
  (\<open>TestContext\<close>) and the world; its errors are values (\<open>failure\<close>), with a panic as one of them. What a step uses
  of the world, sending a request, the clock, sleeping and the order of map loops, is a record of functions
  (\<open>net\<close>).
  \<^item> \<open>Test_Client\<close>: the context, signing and sending, the common steps (\<^verbatim>\<open>test_context.go\<close>, \<^verbatim>\<open>types.go\<close>,
    \<^verbatim>\<open>http_client.go\<close>, \<^verbatim>\<open>helpers.go\<close>). \<open>Test_Signatures\<close>: \<^verbatim>\<open>signature_steps.go\<close>, \<^verbatim>\<open>auth_steps.go\<close>,
    \<^verbatim>\<open>organization_steps.go\<close>. \<open>Test_Accounts\<close>: the steps about KYC, wallets, rates and webhooks. \<open>Test_Payments\<close>: those
    about fees, transactions, balances and withdrawals. \<open>Test_Cards\<close>: cards and their tokens, with RSA as a
    parameter. \<open>Test_Pages\<close>: statements, simulated transactions, the endpoint contract and the admin pages.
    \<open>Test_Harness\<close>: waiting for the servers.
  \<^item> Steps that poll until a deadline are loops that need not end if the clock stands still
    (\<open>partial_function\<close>); the step fails then.
  \<^item> \<open>Test_Server\<close>: how a request of the client arrives at the server (\<open>arrival_of\<close>: escaping of the path, parsing of
    query and form) and what the client sees of an answer (\<open>answers\<close>); \<open>serves\<close> states that the world connects
    the two, and is shown to hold of a world that is the server itself.

  What is shown.
  \<^item> \<open>Ledger_Correctness\<close>, \<open>Payment_Properties\<close>: settling a withdrawal refines a specification on
    transactions and balances, happens at most once, and a balance is never overdrawn; the
    effect of deposits and withdrawals, and the withdrawal of a negative amount.
  \<^item> \<open>Card_Lifecycle\<close>, \<open>Card_Properties\<close>: locking, blocking and deleting refine a state machine of
    cards; pages partition a listing; a card is issued to accepted users only.
  \<^item> \<open>Account_Properties\<close>: only signed requests pass the middleware, payments ask for the second
    factor, creating a user again changes nothing.
  \<^item> \<open>Store_Properties\<close>: the invariant of the in-memory store over every sequence of calls; fees
    stay in range.
  \<^item> \<open>Webhook_Properties\<close>: a webhook is retried until it is taken, and given up after ten attempts.
  \<^item> \<open>Card_Token_Properties\<close>: tokens round-trip, are accepted only if signed and fresh; a PIN that is
    set is the PIN that is read.
  \<^item> \<open>Simulation_Properties\<close>: the catalogue does not depend on the order of map loops; what a
    simulated transaction holds.
  \<^item> \<open>Redis_Properties\<close>: Redis never meets a value of the wrong kind; transactions in Redis behave as
    a map in spite of their JSON texts; a settlement over Redis ignores the balance.
  \<^item> \<open>Service_Properties\<close>: what a request without a signature can reach; credentials are read as
    they are written; the table of a PDF finds its objects.
  \<^item> \<open>Server_Properties\<close>: over every run of the whole server, from its assembly on: the invariant of
    its state, settled withdrawals and deleted cards stay as they are, and an unsigned request moves no money.
  \<^item> \<open>Test_Scenarios\<close>: client and server together. The scenarios of \<^verbatim>\<open>signature_authentication.feature\<close> that forge a
    request pass on every server that enforces authentication and leave it as it was; the one that
    signs the full URL passes on every server that knows the application, and the user is there afterwards.
  \<open>Demo_State\<close> is the concrete state on which the witnesses run.

  The router and the middleware look at different paths. The middleware decides on the decoded path of
  the URL which endpoints are public, the router goes by the escaped one where they differ; both
  are in the model (\<open>r_Path\<close> and \<open>ar_route\<close>), and \<open>Service_Properties\<close> shows the one endpoint that an
  unsigned request gets to by this. The URL that the middleware checks a signature against is rebuilt from
  the decoded path, so a client that signs an escaped URL as it sends it is refused; the paths of the
  scenarios that are shown to pass have no escapes (\<open>plain_path\<close>).

  Bounds. Counters and page arithmetic are 64 bits wide and wrap; strings are lists of bytes, and
  the functions of \<^verbatim>\<open>strings\<close> that fold case or trim spaces are those on ASCII.

  Not modelled: the logger; the middleware that gives a request an id, a time limit and a log line and
  passes it on; the inside of the router, the listeners and their shutdown, which belong to libraries;
  the HTML of the templates; of \<^verbatim>\<open>testenv\<close>, starting, stopping and logging the containers, and the binding of
  steps to the sentences of the feature files, which belongs to the test runner. Access to the in-memory store is one operation at a time, as its mutex makes it; an operation
  of the Redis store, several commands, runs without another in between. Handlers that run at the same
  time and interleave their store operations are not covered by the runs of \<open>Server\<close>.
\<close>

end
